(* ===== verification/Metering_Prelude.thy ===== *)
theory Metering_Prelude
  imports Main "HOL-Library.State_Monad" "HOL-Library.Sublist" "HOL-Library.Multiset"
begin

text \<open>
  Shared infrastructure of the development: the generic lemmas on lists, options and sums that
  the component theories use, and the trace monad in which the operator's handlers are written.

  A handler of the operator is a sequence of calls to services that are not part of the program
  (the Kubernetes API server, Hive, Presto, Prometheus, S3, the work queues, the clock). A call is
  an event; the state of the monad is the history of the events so far; what a service answers is
  a function of that history and of the call. A property of a handler is then a property of
  the events it adds to the history, for every behaviour of the services.
\<close>

named_theorems emits_intros \<open>introduction rules of the judgement on emitted events\<close>
named_theorems traces_intros \<open>introduction rules of the judgement on results and traces\<close>
named_theorems run_simps \<open>equations that execute a handler symbolically\<close>

section \<open>Lists\<close>

lemma filter_remove_id [simp]: "x \<notin> set xs \<Longrightarrow> filter (\<lambda>y. y \<noteq> x) xs = xs"
  by (induction xs) auto

lemma find_append:
  "find P (xs @ ys) = (case find P xs of None \<Rightarrow> find P ys | Some x \<Rightarrow> Some x)"
  by (induction xs) auto

lemma find_filter_None:
  "(\<And>x. x \<in> set xs \<Longrightarrow> Q x \<Longrightarrow> \<not> P x) \<Longrightarrow> find P (filter Q xs) = None"
  by (auto simp: find_None_iff)

lemma find_filter_same:
  "(\<And>x. P x \<Longrightarrow> Q x) \<Longrightarrow> find P (filter Q xs) = find P xs"
  by (induction xs) auto

lemma find_SomeD: "find P xs = Some x \<Longrightarrow> P x \<and> x \<in> set xs"
  by (induction xs) (auto split: if_splits)

lemma last_in_set_conv: "xs \<noteq> [] \<Longrightarrow> last xs = xs ! (length xs - 1)"
  by (rule last_conv_nth)

lemma length_le_1_conv: "length xs \<le> 1 \<longleftrightarrow> xs = [] \<or> (\<exists>x. xs = [x])"
  by (cases xs) auto

section \<open>Results of fallible calls\<close>

text \<open>A Go function returning a value and an error is a sum: \<open>Inl\<close> the error, \<open>Inr\<close> the value.\<close>

definition isOK :: "'e + 'a \<Rightarrow> bool" where
  "isOK r \<longleftrightarrow> (case r of Inl _ \<Rightarrow> False | Inr _ \<Rightarrow> True)"

lemma isOK_simps [simp]: "isOK (Inl e) = False" "isOK (Inr a) = True"
  by (simp_all add: isOK_def)

lemma isOK_iff: "isOK r \<longleftrightarrow> (\<exists>a. r = Inr a)"
  by (cases r) simp_all

definition bindR :: "'e + 'a \<Rightarrow> ('a \<Rightarrow> 'e + 'b) \<Rightarrow> 'e + 'b" where
  "bindR r f = (case r of Inl e \<Rightarrow> Inl e | Inr a \<Rightarrow> f a)"

lemma bindR_simps [simp]: "bindR (Inl e) f = Inl e" "bindR (Inr a) f = f a"
  by (simp_all add: bindR_def)

lemma bindR_eq_Inr: "bindR r f = Inr b \<longleftrightarrow> (\<exists>a. r = Inr a \<and> f a = Inr b)"
  by (cases r) simp_all

lemma bindR_eq_Inl: "bindR r f = Inl e \<longleftrightarrow> r = Inl e \<or> (\<exists>a. r = Inr a \<and> f a = Inl e)"
  by (cases r) auto

text \<open>A Go loop that calls a fallible function on each item and stops at the first error.\<close>

fun mapR :: "('a \<Rightarrow> 'e + 'b) \<Rightarrow> 'a list \<Rightarrow> 'e + 'b list" where
  "mapR f [] = Inr []"
| "mapR f (x # xs) = bindR (f x) (\<lambda>y. bindR (mapR f xs) (\<lambda>ys. Inr (y # ys)))"

lemma mapR_Inr_iff: "mapR f xs = Inr ys \<longleftrightarrow> list_all2 (\<lambda>x y. f x = Inr y) xs ys"
proof (induction xs arbitrary: ys)
  case Nil
  then show ?case by auto
next
  case (Cons x xs)
  then show ?case by (cases ys) (auto simp: bindR_eq_Inr)
qed

lemma mapR_InlD: "mapR f xs = Inl e \<Longrightarrow> \<exists>x \<in> set xs. f x = Inl e"
  by (induction xs) (auto simp: bindR_eq_Inl)

lemma mapR_length: "mapR f xs = Inr ys \<Longrightarrow> length ys = length xs"
  by (auto simp: mapR_Inr_iff dest: list_all2_lengthD)

section \<open>The trace monad\<close>

type_synonym ('ev, 'a) handler = "('ev list, 'a) state"

text \<open>A call: the answer is computed from the history, the event is appended to it.\<close>

definition call :: "('ev list \<Rightarrow> 'a) \<Rightarrow> 'ev \<Rightarrow> ('ev, 'a) handler" where
  "call answer e = State (\<lambda>h. (answer h, h @ [e]))"

text \<open>A read that leaves no event (a lookup in a local cache).\<close>

definition peek :: "('ev list \<Rightarrow> 'a) \<Rightarrow> ('ev, 'a) handler" where
  "peek answer = State (\<lambda>h. (answer h, h))"

lemma run_call [simp, run_simps]: "run_state (call answer e) h = (answer h, h @ [e])"
  by (simp add: call_def)

lemma run_peek [simp, run_simps]: "run_state (peek answer) h = (answer h, h)"
  by (simp add: peek_def)

text \<open>
  \<open>emits m P Q\<close>: whatever the history, \<open>m\<close> only appends events that satisfy \<open>P\<close>, and its result
  satisfies \<open>Q\<close>.
\<close>

definition emits :: "('ev, 'a) handler \<Rightarrow> ('ev \<Rightarrow> bool) \<Rightarrow> ('a \<Rightarrow> bool) \<Rightarrow> bool" where
  "emits m P Q \<longleftrightarrow>
     (\<forall>h. \<exists>a es. run_state m h = (a, h @ es) \<and> (\<forall>e \<in> set es. P e) \<and> Q a)"

lemma emitsI:
  assumes "\<And>h. \<exists>a es. run_state m h = (a, h @ es) \<and> (\<forall>e \<in> set es. P e) \<and> Q a"
  shows "emits m P Q"
  using assms by (simp add: emits_def)

lemma emitsD:
  assumes "emits m P Q" and "run_state m h = (a, h')"
  obtains es where "h' = h @ es" and "\<forall>e \<in> set es. P e" and "Q a"
proof -
  from assms(1) obtain a' es where
    "run_state m h = (a', h @ es)" "\<forall>e \<in> set es. P e" "Q a'"
    unfolding emits_def by blast
  with assms(2) show thesis by (intro that [of es]) auto
qed

lemma emits_return [emits_intros]: "Q a \<Longrightarrow> emits (State_Monad.return a) P Q"
  by (rule emitsI) simp

lemma emits_call [emits_intros]: "P e \<Longrightarrow> (\<And>h. Q (answer h)) \<Longrightarrow> emits (call answer e) P Q"
  by (rule emitsI) simp

lemma emits_peek [emits_intros]: "(\<And>h. Q (answer h)) \<Longrightarrow> emits (peek answer) P Q"
  by (rule emitsI) simp

lemma emits_bind:
  assumes m: "emits m P R" and f: "\<And>a. R a \<Longrightarrow> emits (f a) P Q"
  shows "emits (State_Monad.bind m f) P Q"
proof (rule emitsI)
  fix h
  from m obtain a es where 1: "run_state m h = (a, h @ es)" "\<forall>e \<in> set es. P e" "R a"
    unfolding emits_def by blast
  from f [OF 1(3)] obtain b es' where
    2: "run_state (f a) (h @ es) = (b, (h @ es) @ es')" "\<forall>e \<in> set es'. P e" "Q b"
    unfolding emits_def by blast
  have "run_state (State_Monad.bind m f) h = (b, h @ (es @ es'))"
    using 1(1) 2(1) by simp
  then show "\<exists>b es. run_state (State_Monad.bind m f) h = (b, h @ es) \<and> (\<forall>e \<in> set es. P e) \<and> Q b"
    using 1(2) 2(2,3) by fastforce
qed

text \<open>The composition rule without a condition on the intermediate result.\<close>

lemma emits_bind_any [emits_intros]:
  assumes "emits m P (\<lambda>_. True)" and "\<And>a. emits (f a) P Q"
  shows "emits (State_Monad.bind m f) P Q"
  using assms by (intro emits_bind [where R = "\<lambda>_. True"]) auto

lemma emits_weaken:
  assumes "emits m P Q" and "\<And>e. P e \<Longrightarrow> P' e" and "\<And>a. Q a \<Longrightarrow> Q' a"
  shows "emits m P' Q'"
  using assms unfolding emits_def by meson

lemma emits_if [emits_intros]:
  "(b \<Longrightarrow> emits m P Q) \<Longrightarrow> (\<not> b \<Longrightarrow> emits n P Q) \<Longrightarrow> emits (if b then m else n) P Q"
  by simp

lemma emits_case_sum [emits_intros]:
  "(\<And>e. r = Inl e \<Longrightarrow> emits (f e) P Q) \<Longrightarrow> (\<And>a. r = Inr a \<Longrightarrow> emits (g a) P Q) \<Longrightarrow>
   emits (case r of Inl e \<Rightarrow> f e | Inr a \<Rightarrow> g a) P Q"
  by (cases r) simp_all

lemma emits_case_option [emits_intros]:
  "(r = None \<Longrightarrow> emits m P Q) \<Longrightarrow> (\<And>a. r = Some a \<Longrightarrow> emits (g a) P Q) \<Longrightarrow>
   emits (case r of None \<Rightarrow> m | Some a \<Rightarrow> g a) P Q"
  by (cases r) simp_all

lemma emits_case_prod [emits_intros]:
  "(\<And>a b. p = (a, b) \<Longrightarrow> emits (f a b) P Q) \<Longrightarrow> emits (case p of (a, b) \<Rightarrow> f a b) P Q"
  by (cases p) simp

lemma emits_let [emits_intros]: "emits (f x) P Q \<Longrightarrow> emits (let y = x in f y) P Q"
  by simp

text \<open>A Go loop over a slice whose body makes calls.\<close>

fun for_each :: "('a \<Rightarrow> ('ev, unit) handler) \<Rightarrow> 'a list \<Rightarrow> ('ev, unit) handler" where
  "for_each f [] = State_Monad.return ()"
| "for_each f (x # xs) = State_Monad.bind (f x) (\<lambda>_. for_each f xs)"

lemma emits_for_each [emits_intros]:
  "(\<And>x. x \<in> set xs \<Longrightarrow> emits (f x) P (\<lambda>_. True)) \<Longrightarrow> emits (for_each f xs) P (\<lambda>_. True)"
proof (induction xs)
  case Nil
  then show ?case by (simp add: emits_return)
next
  case (Cons x xs)
  then show ?case by (auto intro!: emits_bind_any)
qed

text \<open>The same with a body that may fail: the loop stops at the first error.\<close>

fun for_eachR :: "('a \<Rightarrow> ('ev, 'e + unit) handler) \<Rightarrow> 'a list \<Rightarrow> ('ev, 'e + unit) handler" where
  "for_eachR f [] = State_Monad.return (Inr ())"
| "for_eachR f (x # xs) =
     State_Monad.bind (f x) (\<lambda>r. case r of Inl e \<Rightarrow> State_Monad.return (Inl e) | Inr _ \<Rightarrow> for_eachR f xs)"

lemma emits_for_eachR [emits_intros]:
  "(\<And>x. x \<in> set xs \<Longrightarrow> emits (f x) P (\<lambda>_. True)) \<Longrightarrow> emits (for_eachR f xs) P (\<lambda>_. True)"
proof (induction xs)
  case Nil
  then show ?case by (simp add: emits_return)
next
  case (Cons x xs)
  then show ?case
    by (auto intro!: emits_bind_any emits_case_sum emits_return)
qed

section \<open>Results and traces\<close>

text \<open>
  \<open>traces m R\<close>: whatever the history, \<open>m\<close> only appends to it, and its result and the appended events are
  related by \<open>R\<close>. The judgement \<open>emits\<close> is the case of a condition on each event alone.
\<close>

definition traces :: "('ev, 'a) handler \<Rightarrow> ('a \<Rightarrow> 'ev list \<Rightarrow> bool) \<Rightarrow> bool" where
  "traces m R \<longleftrightarrow> (\<forall>h. \<exists>a es. run_state m h = (a, h @ es) \<and> R a es)"

lemma tracesI:
  assumes "\<And>h. \<exists>a es. run_state m h = (a, h @ es) \<and> R a es"
  shows "traces m R"
  using assms by (simp add: traces_def)

lemma tracesD:
  assumes "traces m R" and "run_state m h = (a, h')"
  obtains es where "h' = h @ es" and "R a es"
  using assms unfolding traces_def by (metis Pair_inject)

lemma emits_traces: "emits m P Q \<longleftrightarrow> traces m (\<lambda>a es. (\<forall>e \<in> set es. P e) \<and> Q a)"
  by (simp add: emits_def traces_def)

lemma traces_return [traces_intros]: "R a [] \<Longrightarrow> traces (State_Monad.return a) R"
  by (rule tracesI) simp

lemma traces_call [traces_intros]: "(\<And>h. R (answer h) [e]) \<Longrightarrow> traces (call answer e) R"
  by (rule tracesI) simp

lemma traces_peek [traces_intros]: "(\<And>h. R (answer h) []) \<Longrightarrow> traces (peek answer) R"
  by (rule tracesI) simp

lemma traces_bind:
  assumes m: "traces m Q" and f: "\<And>a es. Q a es \<Longrightarrow> traces (f a) (\<lambda>b es'. R b (es @ es'))"
  shows "traces (State_Monad.bind m f) R"
proof (rule tracesI)
  fix h
  from m obtain a es where 1: "run_state m h = (a, h @ es)" "Q a es"
    unfolding traces_def by blast
  from f [OF 1(2)] obtain b es' where "run_state (f a) (h @ es) = (b, (h @ es) @ es')" "R b (es @ es')"
    unfolding traces_def by blast
  with 1(1) show "\<exists>b es. run_state (State_Monad.bind m f) h = (b, h @ es) \<and> R b es" by simp
qed

lemma traces_weaken:
  assumes "traces m R" and "\<And>a es. R a es \<Longrightarrow> R' a es"
  shows "traces m R'"
  using assms unfolding traces_def by meson

text \<open>Sequencing after a call, a read and a return.\<close>

lemma traces_bind_call [traces_intros]:
  "(\<And>h. traces (f (answer h)) (\<lambda>b es. R b (e # es))) \<Longrightarrow> traces (State_Monad.bind (call answer e) f) R"
  by (rule traces_bind [where Q = "\<lambda>a es. (\<exists>h. a = answer h) \<and> es = [e]"]) (auto intro: traces_call)

lemma traces_bind_peek [traces_intros]:
  "(\<And>h. traces (f (answer h)) R) \<Longrightarrow> traces (State_Monad.bind (peek answer) f) R"
  by (rule traces_bind [where Q = "\<lambda>a es. (\<exists>h. a = answer h) \<and> es = []"]) (auto intro: traces_peek)

lemma traces_if [traces_intros]:
  "(b \<Longrightarrow> traces m R) \<Longrightarrow> (\<not> b \<Longrightarrow> traces n R) \<Longrightarrow> traces (if b then m else n) R"
  by simp

lemma traces_case_sum [traces_intros]:
  "(\<And>e. r = Inl e \<Longrightarrow> traces (f e) R) \<Longrightarrow> (\<And>a. r = Inr a \<Longrightarrow> traces (g a) R) \<Longrightarrow>
   traces (case r of Inl e \<Rightarrow> f e | Inr a \<Rightarrow> g a) R"
  by (cases r) simp_all

lemma traces_case_option [traces_intros]:
  "(r = None \<Longrightarrow> traces m R) \<Longrightarrow> (\<And>a. r = Some a \<Longrightarrow> traces (g a) R) \<Longrightarrow>
   traces (case r of None \<Rightarrow> m | Some a \<Rightarrow> g a) R"
  by (cases r) simp_all

lemma traces_case_prod [traces_intros]:
  "(\<And>a b. p = (a, b) \<Longrightarrow> traces (f a b) R) \<Longrightarrow> traces (case p of (a, b) \<Rightarrow> f a b) R"
  by (cases p) simp

lemma traces_let [traces_intros]: "traces (f x) R \<Longrightarrow> traces (let y = x in f y) R"
  by simp

lemma traces_run:
  assumes "traces m R"
  shows "\<exists>a es. run_state m h = (a, h @ es) \<and> R a es"
  using assms by (simp add: traces_def)

end
