(* ===== verification/Go_Strings.thy ===== *)
theory Go_Strings
  imports Metering_Prelude "HOL-Library.AList" "HOL-Library.Char_ord" "HOL-Library.List_Lexorder"
begin

text \<open>
  The part of Go's \<^verbatim>\<open>strings\<close>, \<^verbatim>\<open>strconv\<close>, \<^verbatim>\<open>fmt\<close> and \<^verbatim>\<open>sort\<close> packages the operator uses.
  A Go string is a sequence of bytes: a \<open>string\<close> of HOL, whose characters are bytes. Case
  conversion, space trimming and the letter and digit tests are modelled on the ASCII bytes, which
  is what Kubernetes names, SQL type names and SQL identifiers are made of; other bytes
  are left alone. The order on strings is the lexicographic order of the bytes, as in Go.
\<close>

section \<open>Case, spaces, character classes\<close>

definition lower_char :: "char \<Rightarrow> char" where
  "lower_char c = (if CHR ''A'' \<le> c \<and> c \<le> CHR ''Z'' then char_of (of_char c + 32 :: nat) else c)"

definition upper_char :: "char \<Rightarrow> char" where
  "upper_char c = (if CHR ''a'' \<le> c \<and> c \<le> CHR ''z'' then char_of (of_char c - 32 :: nat) else c)"

definition ToLower :: "string \<Rightarrow> string" where
  "ToLower s = map lower_char s"

definition ToUpper :: "string \<Rightarrow> string" where
  "ToUpper s = map upper_char s"

definition is_space :: "char \<Rightarrow> bool" where
  "is_space c \<longleftrightarrow> c = CHR '' '' \<or> (of_char c :: nat) \<in> {9, 10, 11, 12, 13}"

definition TrimSpace :: "string \<Rightarrow> string" where
  "TrimSpace s = rev (dropWhile is_space (rev (dropWhile is_space s)))"

definition is_letter :: "char \<Rightarrow> bool" where
  "is_letter c \<longleftrightarrow> (CHR ''a'' \<le> c \<and> c \<le> CHR ''z'') \<or> (CHR ''A'' \<le> c \<and> c \<le> CHR ''Z'')"

definition is_digit :: "char \<Rightarrow> bool" where
  "is_digit c \<longleftrightarrow> CHR ''0'' \<le> c \<and> c \<le> CHR ''9''"

lemma length_ToLower [simp]: "length (ToLower s) = length s"
  by (simp add: ToLower_def)

lemma length_ToUpper [simp]: "length (ToUpper s) = length s"
  by (simp add: ToUpper_def)

lemma ToLower_append [simp]: "ToLower (s @ t) = ToLower s @ ToLower t"
  by (simp add: ToLower_def)

lemma ToLower_Nil [simp]: "ToLower [] = []"
  by (simp add: ToLower_def)

section \<open>Searching, joining, splitting, replacing\<close>

fun join :: "string \<Rightarrow> string list \<Rightarrow> string" where
  "join sep [] = []"
| "join sep [x] = x"
| "join sep (x # y # ys) = x @ sep @ join sep (y # ys)"

lemma join_snoc: "xs \<noteq> [] \<Longrightarrow> join sep (xs @ [x]) = join sep xs @ sep @ x"
  by (induction sep xs rule: join.induct) auto

text \<open>\<^verbatim>\<open>strings.Index\<close>: the position of the first occurrence, -1 when there is none.\<close>

fun Index :: "string \<Rightarrow> string \<Rightarrow> int" where
  "Index [] sub = (if sub = [] then 0 else -1)"
| "Index (c # cs) sub =
     (if prefix sub (c # cs) then 0
      else (let k = Index cs sub in if k = -1 then -1 else k + 1))"

definition Contains :: "string \<Rightarrow> string \<Rightarrow> bool" where
  "Contains s sub \<longleftrightarrow> Index s sub \<noteq> -1"

lemma Index_ge: "-1 \<le> Index s sub"
  by (induction s) (auto simp: Let_def)

lemma Index_less: "sub \<noteq> [] \<Longrightarrow> Index s sub < int (length s)"
  by (induction s) (auto simp: Let_def)

lemma Index_found: "Index s sub = k \<Longrightarrow> k \<noteq> -1 \<Longrightarrow> prefix sub (drop (nat k) s)"
proof (induction s arbitrary: k)
  case Nil
  then show ?case by (auto split: if_splits)
next
  case (Cons c cs)
  show ?case
  proof (cases "prefix sub (c # cs)")
    case True
    with Cons.prems show ?thesis by simp
  next
    case False
    with Cons.prems have "Index cs sub \<noteq> -1" and k: "k = Index cs sub + 1"
      by (auto simp: Let_def split: if_splits)
    moreover have "0 \<le> Index cs sub"
      using Index_ge [of cs sub] \<open>Index cs sub \<noteq> -1\<close> by linarith
    ultimately show ?thesis
      using Cons.IH [OF refl] by (simp add: nat_add_distrib)
  qed
qed

lemma Contains_iff: "Contains s sub \<longleftrightarrow> (\<exists>u v. s = u @ sub @ v)"
proof
  assume "Contains s sub"
  then have "prefix sub (drop (nat (Index s sub)) s)"
    by (intro Index_found) (simp_all add: Contains_def)
  then obtain v where "drop (nat (Index s sub)) s = sub @ v" by (auto elim: prefixE)
  then show "\<exists>u v. s = u @ sub @ v"
    by (metis append_take_drop_id)
next
  assume "\<exists>u v. s = u @ sub @ v"
  then obtain u v where s: "s = u @ sub @ v" by blast
  show "Contains s sub"
    unfolding Contains_def s
  proof (induction u)
    case Nil
    have "prefix sub (sub @ v)" by simp
    then show ?case by (cases "sub @ v") auto
  next
    case (Cons c u)
    then show ?case using Index_ge [of "u @ sub @ v" sub] by (auto simp: Let_def)
  qed
qed

text \<open>\<^verbatim>\<open>strings.SplitN(s, sep, 2)\<close> for a one-byte separator.\<close>

definition SplitN2 :: "string \<Rightarrow> char \<Rightarrow> string list" where
  "SplitN2 s sep =
     (case dropWhile (\<lambda>c. c \<noteq> sep) s of
        [] \<Rightarrow> [s]
      | _ # rest \<Rightarrow> [takeWhile (\<lambda>c. c \<noteq> sep) s, rest])"

text \<open>\<^verbatim>\<open>strings.Replace(s, old, new, -1)\<close> for one-byte patterns, and a \<^verbatim>\<open>Replacer\<close> made of them.\<close>

definition replace_char :: "char \<Rightarrow> char \<Rightarrow> string \<Rightarrow> string" where
  "replace_char old new s = map (\<lambda>c. if c = old then new else c) s"

lemma replace_char_notin: "old \<noteq> new \<Longrightarrow> old \<notin> set (replace_char old new s)"
  by (auto simp: replace_char_def)

definition HasPrefix :: "string \<Rightarrow> string \<Rightarrow> bool" where
  "HasPrefix s p \<longleftrightarrow> prefix p s"

definition HasSuffix :: "string \<Rightarrow> string \<Rightarrow> bool" where
  "HasSuffix s p \<longleftrightarrow> suffix p s"

section \<open>Numbers in decimal\<close>

definition digit_char :: "int \<Rightarrow> char" where
  "digit_char d = char_of (48 + d)"

function show_pos :: "int \<Rightarrow> string" where
  "show_pos n = (if n < 10 then [digit_char n] else show_pos (n div 10) @ [digit_char (n mod 10)])"
  by pat_completeness auto
termination
  by (relation "measure nat") auto

declare show_pos.simps [simp del]

definition show_int :: "int \<Rightarrow> string" where
  "show_int i = (if i < 0 then CHR ''-'' # show_pos (- i) else show_pos i)"

text \<open>Exactly \<open>k\<close> digits, with leading zeros, of the value modulo \<open>10 ^ k\<close>.\<close>

primrec pad_int :: "nat \<Rightarrow> int \<Rightarrow> string" where
  "pad_int 0 n = []"
| "pad_int (Suc k) n = pad_int k (n div 10) @ [digit_char (n mod 10)]"

lemma length_pad_int [simp]: "length (pad_int k n) = k"
  by (induction k arbitrary: n) auto

lemma digit_char_inject:
  "0 \<le> a \<Longrightarrow> a < 10 \<Longrightarrow> 0 \<le> b \<Longrightarrow> b < 10 \<Longrightarrow> digit_char a = digit_char b \<longleftrightarrow> a = b"
  by (auto simp: digit_char_def char_of_eq_iff take_bit_eq_mod)

lemma pad_int_inject:
  "0 \<le> a \<Longrightarrow> a < 10 ^ k \<Longrightarrow> 0 \<le> b \<Longrightarrow> b < 10 ^ k \<Longrightarrow> pad_int k a = pad_int k b \<Longrightarrow> a = b"
proof (induction k arbitrary: a b)
  case 0
  then show ?case by simp
next
  case (Suc k)
  from Suc.prems have "a < 10 * 10 ^ k" "b < 10 * 10 ^ k"
    by simp_all
  then have "a div 10 < 10 ^ k" "b div 10 < 10 ^ k"
    by linarith+
  moreover from Suc.prems have "0 \<le> a div 10" "0 \<le> b div 10"
    by auto
  moreover from Suc.prems have "pad_int k (a div 10) = pad_int k (b div 10)"
    and "a mod 10 = b mod 10"
    by (auto simp: digit_char_inject)
  ultimately have "a div 10 = b div 10" using Suc.IH by blast
  with \<open>a mod 10 = b mod 10\<close> show ?case by (metis div_mult_mod_eq)
qed

section \<open>Maps\<close>

text \<open>
  A Go \<^verbatim>\<open>map[string]V\<close> is an association list; a lookup of an absent key yields the zero value
  of the value type. The order of the list stands for the order in which a loop over the map
  happens to visit it, which Go leaves open.
\<close>

type_synonym 'v gomap = "(string \<times> 'v) list"

definition map_get :: "'v \<Rightarrow> 'v gomap \<Rightarrow> string \<Rightarrow> 'v" where
  "map_get zero m k = (case map_of m k of None \<Rightarrow> zero | Some v \<Rightarrow> v)"

definition map_set :: "string \<Rightarrow> 'v \<Rightarrow> 'v gomap \<Rightarrow> 'v gomap" where
  "map_set k v m = AList.update k v m"

definition map_del :: "string \<Rightarrow> 'v gomap \<Rightarrow> 'v gomap" where
  "map_del k m = AList.delete k m"

lemma map_of_map_set [simp]: "map_of (map_set k v m) = (map_of m)(k \<mapsto> v)"
  by (simp add: map_set_def update_conv')

lemma map_of_map_del [simp]: "map_of (map_del k m) = (map_of m)(k := None)"
  by (simp add: map_del_def delete_conv')

lemma keys_map_set [simp]: "fst ` set (map_set k v m) = insert k (fst ` set m)"
  by (simp add: map_set_def dom_update)

lemma distinct_map_set [simp]: "distinct (map fst m) \<Longrightarrow> distinct (map fst (map_set k v m))"
  by (simp add: map_set_def distinct_update)

lemma distinct_map_del [simp]: "distinct (map fst m) \<Longrightarrow> distinct (map fst (map_del k m))"
  by (simp add: map_del_def distinct_delete)

end
