(* ===== verification/Go_Time.thy ===== *)
theory Go_Time
  imports Go_Strings "HOL-Library.Signed_Division"
begin

text \<open>
  Go's \<^verbatim>\<open>time\<close> package as the operator uses it. A \<^verbatim>\<open>time.Time\<close> is the instant it denotes, in
  nanoseconds since the zero time (January 1, year 1, 00:00 UTC), so that \<^verbatim>\<open>UTC()\<close> is the identity,
  \<^verbatim>\<open>Before\<close>, \<^verbatim>\<open>After\<close> and \<^verbatim>\<open>Equal\<close> are the order of the integers and \<^verbatim>\<open>IsZero\<close> is \<open>t = 0\<close>. A
  \<^verbatim>\<open>time.Duration\<close> is a signed 64-bit number of nanoseconds: \<^verbatim>\<open>Sub\<close> saturates at its bounds.
  Times are printed in UTC.
\<close>

type_synonym go_time = int
type_synonym duration = int

abbreviation Millisecond :: duration where "Millisecond \<equiv> 1000000"
abbreviation Second :: duration where "Second \<equiv> 1000000000"
abbreviation Minute :: duration where "Minute \<equiv> 60000000000"
abbreviation Hour :: duration where "Hour \<equiv> 3600000000000"

definition maxDuration :: duration where "maxDuration = 2 ^ 63 - 1"
definition minDuration :: duration where "minDuration = - (2 ^ 63)"

definition is_int64 :: "int \<Rightarrow> bool" where
  "is_int64 i \<longleftrightarrow> minDuration \<le> i \<and> i \<le> maxDuration"

section \<open>Arithmetic on instants\<close>

definition Sub :: "go_time \<Rightarrow> go_time \<Rightarrow> duration" where
  "Sub t u = max minDuration (min maxDuration (t - u))"

definition Truncate :: "go_time \<Rightarrow> duration \<Rightarrow> go_time" where
  "Truncate t d = (if d \<le> 0 then t else t - t mod d)"

text \<open>\<^verbatim>\<open>Duration.Truncate\<close> rounds towards zero.\<close>

definition Truncate_dur :: "duration \<Rightarrow> duration \<Rightarrow> duration" where
  "Truncate_dur d m = (if m \<le> 0 then d else d - d smod m)"

text \<open>Division of 64-bit integers rounds towards zero and panics on a zero divisor.\<close>

definition div_int64 :: "int \<Rightarrow> int \<Rightarrow> int option" where
  "div_int64 a b = (if b = 0 then None else Some (a sdiv b))"

lemma Truncate_le: "Truncate t d \<le> t"
  by (simp add: Truncate_def)

lemma Truncate_gt: "0 < d \<Longrightarrow> t - d < Truncate t d"
  by (simp add: Truncate_def)

lemma Truncate_mono: "t \<le> u \<Longrightarrow> Truncate t d \<le> Truncate u d"
proof (cases "d \<le> 0")
  case False
  moreover assume "t \<le> u"
  ultimately have "d * (t div d) \<le> d * (u div d)"
    by (intro mult_left_mono zdiv_mono1) auto
  with False show ?thesis by (simp add: Truncate_def minus_mod_eq_mult_div)
qed (simp add: Truncate_def)

lemma Truncate_idem [simp]: "Truncate (Truncate t d) d = Truncate t d"
  by (simp add: Truncate_def minus_mod_eq_mult_div)

lemma Truncate_mod: "0 < d \<Longrightarrow> Truncate t d mod d = 0"
  by (simp add: Truncate_def minus_mod_eq_mult_div)

lemma Truncate_fixed: "0 < d \<Longrightarrow> Truncate t d = t \<longleftrightarrow> t mod d = 0"
  by (auto simp: Truncate_def)

lemma Truncate_add: "0 < d \<Longrightarrow> Truncate (Truncate t d + e) d = Truncate t d + Truncate e d"
  by (simp add: Truncate_def minus_mod_eq_mult_div div_add1_eq algebra_simps)

lemma Sub_pos_iff: "0 < Sub t u \<longleftrightarrow> u < t"
  by (auto simp: Sub_def maxDuration_def minDuration_def)

lemma Sub_exact: "is_int64 (t - u) \<Longrightarrow> Sub t u = t - u"
  by (auto simp: Sub_def is_int64_def)

lemma Sub_is_int64: "is_int64 (Sub t u)"
  by (auto simp: Sub_def is_int64_def maxDuration_def minDuration_def)

section \<open>The calendar\<close>

definition is_leap :: "int \<Rightarrow> bool" where
  "is_leap y \<longleftrightarrow> y mod 4 = 0 \<and> (y mod 100 \<noteq> 0 \<or> y mod 400 = 0)"

definition daysBefore :: "int list" where
  "daysBefore = [0, 31, 59, 90, 120, 151, 181, 212, 243, 273, 304, 334, 365]"

text \<open>
  The year and the day of the year of a day number, day 0 being January 1 of year 1: the
  cycles of 400, 100, 4 and 1 years are cut off in turn, the last of a cycle being longer.
\<close>

definition year_of_day :: "int \<Rightarrow> int \<times> int" where
  "year_of_day d0 =
     (let n400 = d0 div 146097; d1 = d0 mod 146097;
          n100 = min 3 (d1 div 36524); d2 = d1 - 36524 * n100;
          n4 = d2 div 1461; d3 = d2 mod 1461;
          n1 = min 3 (d3 div 365); yday = d3 - 365 * n1
      in (400 * n400 + 100 * n100 + 4 * n4 + n1 + 1, yday))"

definition month_of_yday :: "bool \<Rightarrow> int \<Rightarrow> int \<times> int" where
  "month_of_yday leap yday =
     (if leap \<and> yday = 59 then (2, 29)
      else let day = (if leap \<and> yday > 59 then yday - 1 else yday);
               m = day div 31;
               end = daysBefore ! nat (m + 1)
           in if end \<le> day then (m + 2, day - end + 1)
              else (m + 1, day - daysBefore ! nat m + 1))"

definition civil_of_day :: "int \<Rightarrow> int \<times> int \<times> int" where
  "civil_of_day d = (let (y, yday) = year_of_day d; (m, dom) = month_of_yday (is_leap y) yday
                     in (y, m, dom))"

definition day_of_time :: "go_time \<Rightarrow> int" where
  "day_of_time t = t div (24 * Hour)"

text \<open>The day number of a date: the inverse direction, as \<^verbatim>\<open>time.Date\<close> computes it.\<close>

definition day_of_civil :: "int \<Rightarrow> int \<Rightarrow> int \<Rightarrow> int" where
  "day_of_civil y m d =
     (let y' = y - 1
      in 365 * y' + y' div 4 - y' div 100 + y' div 400
         + daysBefore ! nat (m - 1) + (if is_leap y \<and> 2 < m then 1 else 0) + d - 1)"

section \<open>Printing\<close>

definition show_year :: "int \<Rightarrow> string" where
  "show_year y = (if y < 0 then CHR ''-'' # (if y > -10000 then pad_int 4 (- y) else show_pos (- y))
                  else if y < 10000 then pad_int 4 y else show_pos y)"

definition format_date :: "go_time \<Rightarrow> string" where
  \<comment> \<open>layout 2006-01-02\<close>
  "format_date t = (let (y, m, d) = civil_of_day (day_of_time t)
                    in show_year y @ ''-'' @ pad_int 2 m @ ''-'' @ pad_int 2 d)"

definition format_date_compact :: "go_time \<Rightarrow> string" where
  \<comment> \<open>layout 20060102\<close>
  "format_date_compact t = (let (y, m, d) = civil_of_day (day_of_time t)
                            in show_year y @ pad_int 2 m @ pad_int 2 d)"

definition format_clock :: "go_time \<Rightarrow> string" where
  \<comment> \<open>layout 15:04:05\<close>
  "format_clock t =
     (let s = (t mod (24 * Hour)) div Second
      in pad_int 2 (s div 3600) @ '':'' @ pad_int 2 (s div 60 mod 60) @ '':'' @
         pad_int 2 (s mod 60))"

definition format_presto :: "go_time \<Rightarrow> string" where
  \<comment> \<open>layout 2006-01-02 15:04:05.000\<close>
  "format_presto t = format_date t @ '' '' @ format_clock t @ ''.'' @
     pad_int 3 (t mod Second div Millisecond)"

fun trim_zeros :: "string \<Rightarrow> string" where
  "trim_zeros s = (if s \<noteq> [] \<and> last s = CHR ''0'' then trim_zeros (butlast s) else s)"

declare trim_zeros.simps [simp del]

definition show_time :: "go_time \<Rightarrow> string" where
  \<comment> \<open>\<^verbatim>\<open>Time.String\<close>: layout 2006-01-02 15:04:05.999999999 -0700 MST, in UTC\<close>
  "show_time t =
     (let ns = pad_int 9 (t mod Second)
      in format_date t @ '' '' @ format_clock t @
         (if trim_zeros ns = [] then [] else ''.'' @ trim_zeros ns) @ '' +0000 UTC'')"

section \<open>The calendar is a bijection\<close>

lemma days_before_year:
  fixes a b c e :: int
  assumes "0 \<le> b" "b \<le> 3" "0 \<le> c" "c \<le> 24" "0 \<le> e" "e \<le> 3"
  defines "Y \<equiv> 400 * a + 100 * b + 4 * c + e"
  shows "365 * Y + Y div 4 - Y div 100 + Y div 400 = 146097 * a + 36524 * b + 1461 * c + 365 * e"
proof -
  have "Y = 4 * (100 * a + 25 * b + c) + e" "Y = 100 * (4 * a + b) + (4 * c + e)"
    "Y = 400 * a + (100 * b + 4 * c + e)"
    by (simp_all add: Y_def)
  then have "Y div 4 = 100 * a + 25 * b + c" "Y div 100 = 4 * a + b" "Y div 400 = a"
    using assms(1-6) by (auto intro!: int_div_pos_eq)
  then show ?thesis by (simp add: Y_def)
qed

lemma leap_cycle:
  fixes a b c e :: int
  assumes "0 \<le> b" "b \<le> 3" "0 \<le> c" "c < 24 \<or> c = 24 \<and> b = 3" "e = 3"
  shows "is_leap (400 * a + 100 * b + 4 * c + e + 1)"
proof -
  let ?y = "400 * a + 100 * b + 4 * c + e + 1"
  have "?y = 4 * (100 * a + 25 * b + c + 1)" using assms by simp
  then have "?y mod 4 = 0" by (metis mod_mult_self1_is_0)
  moreover have "?y mod 100 \<noteq> 0 \<or> ?y mod 400 = 0"
  proof (cases "c < 24")
    case True
    have "?y = (4 * c + 4) + 100 * (4 * a + b)" using assms by simp
    then have "?y mod 100 = (4 * c + 4) mod 100" by (metis mod_mult_self2)
    also have "\<dots> = 4 * c + 4" using True assms by simp
    finally show ?thesis using assms by simp
  next
    case False
    then have "?y = (a + 1) * 400" using assms by auto
    then show ?thesis by (metis mod_mult_self2_is_0)
  qed
  ultimately show ?thesis by (simp add: is_leap_def)
qed

lemma min_div_bounds:
  fixes x k n :: int
  assumes "0 \<le> x" "0 < k" "0 \<le> n"
  shows "0 \<le> min n (x div k)" and "min n (x div k) \<le> n" and "0 \<le> x - k * min n (x div k)"
    and "x - k * min n (x div k) < k \<or> min n (x div k) = n \<and> x - k * min n (x div k) = x - k * n"
proof -
  have x: "x = k * (x div k) + x mod k" "0 \<le> x mod k" "x mod k < k"
    using assms by simp_all
  show "0 \<le> min n (x div k)" using assms by (simp add: pos_imp_zdiv_nonneg_iff)
  show "min n (x div k) \<le> n" by simp
  show "x - k * min n (x div k) < k \<or> min n (x div k) = n \<and> x - k * min n (x div k) = x - k * n"
    using x by (auto simp: min_def minus_mult_div_eq_mod)
  have "k * min n (x div k) \<le> k * (x div k)"
    using assms by (intro mult_left_mono) auto
  with x show "0 \<le> x - k * min n (x div k)" by linarith
qed

lemma year_of_day:
  assumes "year_of_day d = (y, yday)"
  shows "365 * (y - 1) + (y - 1) div 4 - (y - 1) div 100 + (y - 1) div 400 + yday = d"
    and "0 \<le> yday" and "yday < (if is_leap y then 366 else 365)"
proof -
  define a d1 where "a = d div 146097" and "d1 = d mod 146097"
  define b d2 where "b = min 3 (d1 div 36524)" and "d2 = d1 - 36524 * b"
  define c d3 where "c = d2 div 1461" and "d3 = d2 mod 1461"
  define e where "e = min 3 (d3 div 365)"
  have "year_of_day d = (400 * a + 100 * b + 4 * c + e + 1, d3 - 365 * e)"
    unfolding year_of_day_def Let_def a_def d1_def b_def d2_def c_def d3_def e_def by (rule refl)
  with assms have y: "y = 400 * a + 100 * b + 4 * c + e + 1" and yday: "yday = d3 - 365 * e"
    by simp_all
  have d: "d = 146097 * a + d1" "0 \<le> d1" "d1 < 146097"
    by (simp_all add: a_def d1_def)
  have b: "0 \<le> b" "b \<le> 3" "0 \<le> d2" "d2 < 36524 \<or> b = 3 \<and> d2 < 36525"
    using min_div_bounds [of d1 36524 3, folded b_def] d(2,3) by (auto simp: d2_def)
  have c0: "d2 = 1461 * c + d3" "0 \<le> d3" "d3 < 1461"
    by (simp_all add: c_def d3_def)
  have c: "0 \<le> c" "c \<le> 24"
    using b(3,4) c0 by linarith+
  have e: "0 \<le> e" "e \<le> 3" "0 \<le> yday" "yday < 365 \<or> e = 3 \<and> yday < 366"
    using min_div_bounds [of d3 365 3, folded e_def] c0(2,3) by (auto simp: yday)
  from e show "0 \<le> yday" by simp
  show "365 * (y - 1) + (y - 1) div 4 - (y - 1) div 100 + (y - 1) div 400 + yday = d"
    using days_before_year [OF b(1,2) c e(1,2), of a] d(1) c0(1) yday d2_def y by simp
  show "yday < (if is_leap y then 366 else 365)"
  proof (cases "yday < 365")
    case True
    then show ?thesis by simp
  next
    case False
    with e have "e = 3" "yday = 365" by linarith+
    with c c0 b(4) yday have "c < 24 \<or> c = 24 \<and> b = 3" by linarith
    from leap_cycle [OF b(1,2) c(1) this \<open>e = 3\<close>, of a] \<open>yday = 365\<close> show ?thesis
      by (simp add: y)
  qed
qed

definition month_table_ok :: "bool \<Rightarrow> int \<Rightarrow> bool" where
  "month_table_ok leap n \<longleftrightarrow>
     (case month_of_yday leap n of (m, d) \<Rightarrow>
        1 \<le> m \<and> m \<le> 12 \<and> 1 \<le> d \<and> d \<le> 31 \<and>
        daysBefore ! nat (m - 1) + (if leap \<and> 2 < m then 1 else 0) + d - 1 = n)"

lemma month_of_yday:
  assumes "0 \<le> n" and "n < (if leap then 366 else 365)"
  shows "month_table_ok leap n"
proof -
  have "\<forall>n \<in> set [0..365]. month_table_ok True n" by code_simp
  moreover have "\<forall>n \<in> set [0..364]. month_table_ok False n" by code_simp
  ultimately show ?thesis using assms by (cases leap) auto
qed

text \<open>A day number survives the conversion to a date and back.\<close>

lemma civil_roundtrip:
  assumes "civil_of_day n = (y, m, d)"
  shows "day_of_civil y m d = n" and "1 \<le> m \<and> m \<le> 12 \<and> 1 \<le> d \<and> d \<le> 31"
proof -
  obtain yday where y: "year_of_day n = (y, yday)" and md: "month_of_yday (is_leap y) yday = (m, d)"
    using assms by (auto simp: civil_of_day_def split: prod.splits)
  from month_of_yday [OF year_of_day(2,3) [OF y]] md
  have "1 \<le> m \<and> m \<le> 12 \<and> 1 \<le> d \<and> d \<le> 31"
    and yd: "daysBefore ! nat (m - 1) + (if is_leap y \<and> 2 < m then 1 else 0) + d - 1 = yday"
    by (simp_all add: month_table_ok_def)
  then show "1 \<le> m \<and> m \<le> 12 \<and> 1 \<le> d \<and> d \<le> 31" by blast
  from year_of_day(1) [OF y] yd show "day_of_civil y m d = n"
    by (simp add: day_of_civil_def Let_def)
qed

definition four_digit_year :: "go_time \<Rightarrow> bool" where
  "four_digit_year t \<longleftrightarrow> (let y = fst (civil_of_day (day_of_time t)) in 0 \<le> y \<and> y < 10000)"

lemma format_date_inject:
  assumes "four_digit_year t" "four_digit_year u"
  shows "format_date t = format_date u \<longleftrightarrow> day_of_time t = day_of_time u"
proof
  assume eq: "format_date t = format_date u"
  obtain y m d where t: "civil_of_day (day_of_time t) = (y, m, d)" by (cases "civil_of_day (day_of_time t)")
  obtain y' m' d' where u: "civil_of_day (day_of_time u) = (y', m', d')" by (cases "civil_of_day (day_of_time u)")
  have "0 \<le> y" "y < 10000" "0 \<le> y'" "y' < 10000"
    using assms by (simp_all add: four_digit_year_def t u)
  with eq have "pad_int 4 y = pad_int 4 y'" "pad_int 2 m = pad_int 2 m'" "pad_int 2 d = pad_int 2 d'"
    by (simp_all add: format_date_def t u show_year_def)
  moreover note civil_roundtrip(2) [OF t] civil_roundtrip(2) [OF u]
  ultimately have "y = y'" "m = m'" "d = d'"
    using \<open>0 \<le> y\<close> \<open>y < 10000\<close> \<open>0 \<le> y'\<close> \<open>y' < 10000\<close>
    by (auto intro: pad_int_inject [where k = 4] pad_int_inject [where k = 2])
  with civil_roundtrip(1) [OF t] civil_roundtrip(1) [OF u] show "day_of_time t = day_of_time u"
    by simp
qed (simp add: format_date_def)

end
