(* ===== verification/API_Types.thy ===== *)
theory API_Types
  imports Go_Time
begin

text \<open>
  The resources of the \<^verbatim>\<open>metering.openshift.io/v1\<close> API group (package
  \<^verbatim>\<open>pkg/apis/metering/v1\<close>) and the parameter types of \<^verbatim>\<open>pkg/hive\<close> and \<^verbatim>\<open>pkg/presto\<close>. A struct is a
  record; a struct that embeds \<^verbatim>\<open>ObjectMeta\<close> is an extension of the record \<open>ObjectMeta\<close>; a pointer
  that may be nil is an option. The string types of the API with a fixed set of constants
  keep their string values, because any string can come from a user's manifest. Errors are the values of
  \<open>goerror\<close>.
\<close>

section \<open>Errors\<close>

datatype api_reason = ReasonNotFound | ReasonAlreadyExists | ReasonConflict | ReasonOther

text \<open>
  \<open>Err\<close>: \<^verbatim>\<open>errors.New\<close> and \<^verbatim>\<open>fmt.Errorf\<close>. \<open>APIErr\<close>: an \<^verbatim>\<open>apierrors.StatusError\<close> with its reason.
  \<open>DepsErr\<close>: a \<^verbatim>\<open>reportQueryDependenciesValidationError\<close> with the names of the
  uninitialized ReportDataSources and Reports. \<open>GoPanic\<close>: a run-time panic, which ends the goroutine
  instead of being returned.
\<close>

datatype goerror =
    Err string
  | APIErr api_reason string
  | DepsErr "string list" "string list"
  | GoPanic string

fun IsNotFound :: "goerror \<Rightarrow> bool" where
  "IsNotFound (APIErr ReasonNotFound _) = True"
| "IsNotFound _ = False"

fun IsAlreadyExists :: "goerror \<Rightarrow> bool" where
  "IsAlreadyExists (APIErr ReasonAlreadyExists _) = True"
| "IsAlreadyExists _ = False"

fun IsConflict :: "goerror \<Rightarrow> bool" where
  "IsConflict (APIErr ReasonConflict _) = True"
| "IsConflict _ = False"

text \<open>The text of an error, and wrapping it in another: a panic passes through.\<close>

fun Error :: "goerror \<Rightarrow> string" where
  "Error (Err m) = m"
| "Error (APIErr _ m) = m"
| "Error (DepsErr dss rs) =
     ''ReportQueryDependencyValidationError: '' @
     join '', '' ((if dss \<noteq> [] then [''uninitialized ReportDataSource dependencies: '' @ join '', '' dss] else []) @
                  (if rs \<noteq> [] then [''uninitialized Report dependencies: '' @ join '', '' rs] else []))"
| "Error (GoPanic m) = m"

fun wrap :: "(string \<Rightarrow> string) \<Rightarrow> goerror \<Rightarrow> goerror" where
  "wrap f (GoPanic m) = GoPanic m"
| "wrap f e = Err (f (Error e))"

section \<open>Object metadata\<close>

record OwnerReference =
  or_Kind :: string
  or_Name :: string

record ObjectMeta =
  Name :: string
  Namespace :: string
  Labels :: "string gomap"
  Annotations :: "string gomap"
  Finalizers :: "string list"
  DeletionTimestamp :: "go_time option"
  ResourceVersion :: string
  OwnerReferences :: "OwnerReference list"

section \<open>Inputs of queries\<close>

text \<open>
  A \<^verbatim>\<open>json.RawMessage\<close> of a stored resource is the text of a JSON value: its bytes and the value.
  A number is kept as its literal.
\<close>

datatype json = JNull | JBool bool | JNum string | JStr string | JArray | JObject

record RawMessage =
  raw_text :: string
  raw_json :: json

record ReportQueryInputDefinition =
  def_Name :: string
  def_Required :: bool
  def_Type :: string
  def_Default :: "RawMessage option"

record ReportQueryInputValue =
  val_Name :: string
  val_Value :: "RawMessage option"

section \<open>Reports\<close>

record ReportScheduleHourly =
  hourly_Minute :: int
  hourly_Second :: int

record ReportScheduleDaily =
  daily_Hour :: int
  daily_Minute :: int
  daily_Second :: int

record ReportScheduleWeekly =
  weekly_DayOfWeek :: "string option"
  weekly_Hour :: int
  weekly_Minute :: int
  weekly_Second :: int

record ReportScheduleMonthly =
  monthly_DayOfMonth :: "int option"
  monthly_Hour :: int
  monthly_Minute :: int
  monthly_Second :: int

record ReportSchedule =
  sched_Period :: string
  sched_Cron :: "string option"
  sched_Hourly :: "ReportScheduleHourly option"
  sched_Daily :: "ReportScheduleDaily option"
  sched_Weekly :: "ReportScheduleWeekly option"
  sched_Monthly :: "ReportScheduleMonthly option"

definition ReportPeriodCron :: string where "ReportPeriodCron = ''cron''"
definition ReportPeriodHourly :: string where "ReportPeriodHourly = ''hourly''"
definition ReportPeriodDaily :: string where "ReportPeriodDaily = ''daily''"
definition ReportPeriodWeekly :: string where "ReportPeriodWeekly = ''weekly''"
definition ReportPeriodMonthly :: string where "ReportPeriodMonthly = ''monthly''"

lemmas ReportPeriod_defs = ReportPeriodCron_def ReportPeriodHourly_def ReportPeriodDaily_def
  ReportPeriodWeekly_def ReportPeriodMonthly_def

record ReportSpec =
  rspec_QueryName :: string
  rspec_Schedule :: "ReportSchedule option"
  rspec_ReportingStart :: "go_time option"
  rspec_ReportingEnd :: "go_time option"
  rspec_OverwriteExistingData :: bool
  rspec_RunImmediately :: bool
  rspec_Inputs :: "ReportQueryInputValue list"
  rspec_Output :: "string option"

record ReportCondition =
  cond_Type :: string
  cond_Status :: string
  cond_LastUpdateTime :: go_time
  cond_LastTransitionTime :: go_time
  cond_Reason :: string
  cond_Message :: string

definition ReportRunning :: string where "ReportRunning = ''Running''"
definition ConditionTrue :: string where "ConditionTrue = ''True''"
definition ConditionFalse :: string where "ConditionFalse = ''False''"

record ReportStatus =
  rstat_Conditions :: "ReportCondition list"
  rstat_LastReportTime :: "go_time option"
  rstat_NextReportTime :: "go_time option"
  rstat_TableRef :: string

record Report = ObjectMeta +
  r_Spec :: ReportSpec
  r_Status :: ReportStatus

section \<open>ReportQueries\<close>

record ReportQueryColumn =
  rqc_Name :: string
  rqc_Type :: string
  rqc_TableHidden :: bool
  rqc_Unit :: string

record ReportQuery = ObjectMeta +
  q_Columns :: "ReportQueryColumn list"
  q_Query :: string
  q_Inputs :: "ReportQueryInputDefinition list"

section \<open>ReportDataSources\<close>

record PrometheusQueryConfig =
  pqc_QueryInterval :: "duration option"
  pqc_StepSize :: "duration option"
  pqc_ChunkSize :: "duration option"

record PrometheusMetricsImporterDataSource =
  pmi_Query :: string
  pmi_QueryConfig :: "PrometheusQueryConfig option"
  pmi_Storage :: "string option"
  pmi_PrometheusURL :: "string option"

record S3Bucket =
  s3_Region :: string
  s3_Bucket :: string
  s3_Prefix :: string

record AWSBillingDataSource =
  aws_Source :: "S3Bucket option"
  aws_DatabaseName :: string

record ReportQueryViewDataSource =
  view_QueryName :: string
  view_Inputs :: "ReportQueryInputValue list"
  view_Storage :: "string option"

record ReportDataSourceSpec =
  dspec_PrometheusMetricsImporter :: "PrometheusMetricsImporterDataSource option"
  dspec_AWSBilling :: "AWSBillingDataSource option"
  dspec_PrestoTable :: "string option"
  dspec_ReportQueryView :: "ReportQueryViewDataSource option"

record PrometheusMetricsImportStatus =
  pis_LastImportTime :: "go_time option"
  pis_ImportDataStartTime :: "go_time option"
  pis_ImportDataEndTime :: "go_time option"
  pis_EarliestImportedMetricTime :: "go_time option"
  pis_NewestImportedMetricTime :: "go_time option"

record ReportDataSourceStatus =
  dstat_TableRef :: string
  dstat_PrometheusMetricsImportStatus :: "PrometheusMetricsImportStatus option"

record ReportDataSource = ObjectMeta +
  ds_Spec :: ReportDataSourceSpec
  ds_Status :: ReportDataSourceStatus

section \<open>StorageLocations\<close>

record HiveStorageDefaultTableProperties =
  dtp_RowFormat :: string
  dtp_FileFormat :: string

record HiveStorage =
  hs_UnmanagedDatabase :: bool
  hs_DatabaseName :: string
  hs_Location :: string
  hs_DefaultTableProperties :: "HiveStorageDefaultTableProperties option"

record HiveStorageStatus =
  hss_DatabaseName :: string
  hss_Location :: string

record StorageLocation = ObjectMeta +
  sl_Spec_Hive :: "HiveStorage option"
  sl_Status_Hive :: HiveStorageStatus

section \<open>Tables\<close>

record Column =
  col_Name :: string
  col_Type :: string

record SortColumn =
  sc_Name :: string
  sc_Decending :: "bool option"

record TablePartition =
  tp_Location :: string
  tp_PartitionSpec :: "string gomap"

record TableParameters =
  tparams_Database :: string
  tparams_Name :: string
  tparams_Columns :: "Column list"
  tparams_PartitionedBy :: "Column list"
  tparams_ClusteredBy :: "string list"
  tparams_SortedBy :: "SortColumn list"
  tparams_NumBuckets :: int
  tparams_Location :: string
  tparams_RowFormat :: string
  tparams_FileFormat :: string
  tparams_TableProperties :: "string gomap option"
  tparams_External :: bool

record HiveTableSpec =
  hts_DatabaseName :: string
  hts_TableName :: string
  hts_Columns :: "Column list"
  hts_PartitionedBy :: "Column list"
  hts_ClusteredBy :: "string list"
  hts_SortedBy :: "SortColumn list"
  hts_NumBuckets :: int
  hts_Location :: string
  hts_RowFormat :: string
  hts_FileFormat :: string
  hts_TableProperties :: "string gomap option"
  hts_External :: bool
  hts_ManagePartitions :: bool
  hts_Partitions :: "TablePartition list"

record HiveTableStatus =
  htst_DatabaseName :: string
  htst_TableName :: string
  htst_Columns :: "Column list"
  htst_PartitionedBy :: "Column list"
  htst_ClusteredBy :: "string list"
  htst_SortedBy :: "SortColumn list"
  htst_NumBuckets :: int
  htst_Location :: string
  htst_RowFormat :: string
  htst_FileFormat :: string
  htst_TableProperties :: "string gomap option"
  htst_External :: bool
  htst_Partitions :: "TablePartition list"

record HiveTable = ObjectMeta +
  ht_Spec :: HiveTableSpec
  ht_Status :: HiveTableStatus

record PrestoTableSpec =
  pts_Unmanaged :: bool
  pts_Catalog :: string
  pts_Schema :: string
  pts_TableName :: string
  pts_Columns :: "Column list"
  pts_Properties :: "string gomap option"
  pts_Comment :: string
  pts_View :: bool
  pts_CreateTableAs :: bool
  pts_Query :: string

record PrestoTableStatus =
  ptst_Catalog :: string
  ptst_Schema :: string
  ptst_TableName :: string
  ptst_Columns :: "Column list"
  ptst_Properties :: "string gomap option"
  ptst_Comment :: string
  ptst_View :: bool
  ptst_CreateTableAs :: bool
  ptst_Query :: string

record PrestoTable = ObjectMeta +
  pt_Spec :: PrestoTableSpec
  pt_Status :: PrestoTableStatus

end
