(* ===== verification/Effects.thy ===== *)
theory Effects
  imports API_Types "HOL-Library.Word"
begin

text \<open>
  The services around the operator and the events that its handlers produce. An event is a call that
  leaves the process (a write or read at the Kubernetes API server, a statement sent to Hive or
  Presto, a query sent to Prometheus, a request to S3), an operation on a work queue, an update of a Prometheus
  metric of the operator itself, a reading of the clock, or a pause. The record \<open>env\<close> gives what the
  services answer as functions of the history, so nothing is assumed of them unless a theorem says
  so. Lookups in the informer caches (the listers) are answers without an event: between two events a handler
  sees one state of the caches. Log lines are not modelled.
\<close>

section \<open>Values exchanged with Presto and Prometheus\<close>

text \<open>
  A \<^verbatim>\<open>float64\<close> is its bit pattern; the operator only copies and prints such values. \<open>PVOther\<close> is a value of a
  type that the operator does not distinguish, printed.
\<close>

type_synonym float64 = "64 word"

datatype presto_value =
    PVNull
  | PVTime go_time
  | PVFloat float64
  | PVString string
  | PVBytes string
  | PVInt int
  | PVBool bool
  | PVMap "(string \<times> string option) list"
  | PVOther string

type_synonym Row = "presto_value gomap"

text \<open>
  The \<^verbatim>\<open>sql.Rows\<close> that a submitted query answers: the column names, the result of \<^verbatim>\<open>Scan\<close> for each row,
  and the error that iterating over the rows ends with.
\<close>

record sql_rows =
  rows_Columns :: "goerror + string list"
  rows_Scan :: "(goerror + presto_value list) list"
  rows_Err :: "goerror option"

record prom_Range =
  rng_Start :: go_time
  rng_End :: go_time
  rng_Step :: duration

text \<open>A sample stream of a matrix: its labels and its samples. Another result is its type's name.\<close>

record sample_stream =
  ss_Metric :: "string gomap"
  ss_Values :: "(go_time \<times> float64) list"

datatype prom_value = Matrix "sample_stream list" | NotMatrix string

section \<open>Events\<close>

datatype queue_name =
    ReportQueue | ReportDataSourceQueue | ReportQueryQueue | PrestoTableQueue | HiveTableQueue
  | StorageLocationQueue

datatype event =
    UpdateReport Report
  | UpdateReportDataSource ReportDataSource
  | UpdateHiveTable HiveTable
  | UpdatePrestoTable PrestoTable
  | UpdateStorageLocation StorageLocation
  | CreateReportDataSource ReportDataSource
  | CreateHiveTable HiveTable
  | CreatePrestoTable PrestoTable
  | GetReportDataSource string string
  | GetHiveTable string string
  | GetPrestoTable string string
  | ListReportQueries string
  | ListReportDataSources string
  | QueueAdd queue_name string
  | QueueAddAfter queue_name string duration
  | QueueAddRateLimited queue_name string
  | QueueForget queue_name string
  | QueueDone queue_name string
  | HiveExec string
  | PrestoQuery string
  | PromQueryRange string prom_Range
  | S3ListObjects string string
  | S3GetObject string string
  | CounterInc string
  | CounterAdd string int
  | GaugeInc string
  | GaugeDec string
  | GaugeSet string int
  | ObserveDuration string duration
  | ReadClock
  | Sleep duration

type_synonym history = "event list"
type_synonym 'a op = "(event, 'a) handler"

section \<open>What the services answer\<close>

record clock_env =
  clock_Now :: "history \<Rightarrow> go_time"
  metav1_Now :: "history \<Rightarrow> go_time \<times> go_time"
  jitter :: "history \<Rightarrow> duration \<Rightarrow> duration"
  poll_ticks :: "history \<Rightarrow> duration \<Rightarrow> duration \<Rightarrow> nat"
  ctx_Done :: "history \<Rightarrow> goerror option"

record store_env = clock_env +
  hive_Exec :: "history \<Rightarrow> string \<Rightarrow> goerror option"
  presto_Query :: "history \<Rightarrow> string \<Rightarrow> goerror + sql_rows"
  prom_QueryRange :: "history \<Rightarrow> string \<Rightarrow> prom_Range \<Rightarrow> goerror + prom_value"
  fmt_float :: "float64 \<Rightarrow> string"
  fmt_seconds :: "duration \<Rightarrow> string"

text \<open>The informer caches.\<close>

record lister_env = store_env +
  lister_Report :: "history \<Rightarrow> string \<Rightarrow> string \<Rightarrow> goerror + Report"
  lister_Reports :: "history \<Rightarrow> string \<Rightarrow> goerror + Report list"
  lister_ReportDataSource :: "history \<Rightarrow> string \<Rightarrow> string \<Rightarrow> goerror + ReportDataSource"
  lister_ReportDataSources :: "history \<Rightarrow> string \<Rightarrow> goerror + ReportDataSource list"
  lister_ReportQuery :: "history \<Rightarrow> string \<Rightarrow> string \<Rightarrow> goerror + ReportQuery"
  lister_ReportQueries :: "history \<Rightarrow> string \<Rightarrow> goerror + ReportQuery list"
  lister_PrestoTable :: "history \<Rightarrow> string \<Rightarrow> string \<Rightarrow> goerror + PrestoTable"
  lister_PrestoTables :: "history \<Rightarrow> string \<Rightarrow> goerror + PrestoTable list"
  lister_HiveTable :: "history \<Rightarrow> string \<Rightarrow> string \<Rightarrow> goerror + HiveTable"
  lister_StorageLocation :: "history \<Rightarrow> string \<Rightarrow> string \<Rightarrow> goerror + StorageLocation"
  lister_StorageLocations :: "history \<Rightarrow> string \<Rightarrow> goerror + StorageLocation list"

text \<open>The API server: writes and direct reads. An update answers the stored object.\<close>

record client_env = lister_env +
  client_UpdateReport :: "history \<Rightarrow> Report \<Rightarrow> goerror + Report"
  client_UpdateReportDataSource :: "history \<Rightarrow> ReportDataSource \<Rightarrow> goerror + ReportDataSource"
  client_UpdateHiveTable :: "history \<Rightarrow> HiveTable \<Rightarrow> goerror + HiveTable"
  client_UpdatePrestoTable :: "history \<Rightarrow> PrestoTable \<Rightarrow> goerror + PrestoTable"
  client_UpdateStorageLocation :: "history \<Rightarrow> StorageLocation \<Rightarrow> goerror + StorageLocation"
  client_CreateReportDataSource :: "history \<Rightarrow> ReportDataSource \<Rightarrow> goerror + ReportDataSource"
  client_CreateHiveTable :: "history \<Rightarrow> HiveTable \<Rightarrow> goerror + HiveTable"
  client_CreatePrestoTable :: "history \<Rightarrow> PrestoTable \<Rightarrow> goerror + PrestoTable"
  client_GetReportDataSource :: "history \<Rightarrow> string \<Rightarrow> string \<Rightarrow> goerror + ReportDataSource"
  client_GetHiveTable :: "history \<Rightarrow> string \<Rightarrow> string \<Rightarrow> goerror + HiveTable"
  client_GetPrestoTable :: "history \<Rightarrow> string \<Rightarrow> string \<Rightarrow> goerror + PrestoTable"
  client_ListReportQueries :: "history \<Rightarrow> string \<Rightarrow> goerror + ReportQuery list"
  client_ListReportDataSources :: "history \<Rightarrow> string \<Rightarrow> goerror + ReportDataSource list"

record env = client_env +
  queue_NumRequeues :: "history \<Rightarrow> queue_name \<Rightarrow> string \<Rightarrow> int"

section \<open>Calls\<close>

text \<open>A call whose only answer is that it was made.\<close>

definition emit :: "event \<Rightarrow> unit op" where
  "emit e = call (\<lambda>_. ()) e"

definition nowM :: "'x clock_env_scheme \<Rightarrow> go_time op" where
  "nowM env = call (clock_Now env) ReadClock"

lemma emits_emit [emits_intros]: "P e \<Longrightarrow> Q () \<Longrightarrow> emits (emit e) P Q"
  unfolding emit_def by (rule emits_call) simp_all

lemma emits_nowM [emits_intros]:
  "P ReadClock \<Longrightarrow> (\<And>t. Q t) \<Longrightarrow> emits (nowM env) P Q"
  unfolding nowM_def by (rule emits_call) simp_all

lemma traces_emit [traces_intros]: "R () [e] \<Longrightarrow> traces (emit e) R"
  unfolding emit_def by (rule traces_call)

lemma traces_bind_emit [traces_intros]:
  "traces (f ()) (\<lambda>b es. R b (e # es)) \<Longrightarrow> traces (State_Monad.bind (emit e) f) R"
  unfolding emit_def by (rule traces_bind_call)

lemma traces_bind_nowM [traces_intros]:
  "(\<And>t. traces (f t) (\<lambda>b es. R b (ReadClock # es))) \<Longrightarrow> traces (State_Monad.bind (nowM env) f) R"
  unfolding nowM_def by (rule traces_bind_call)

lemma run_emit [simp, run_simps]: "run_state (emit e) h = ((), h @ [e])"
  by (simp add: emit_def)

lemma run_nowM [simp, run_simps]: "run_state (nowM env) h = (clock_Now env h, h @ [ReadClock])"
  by (simp add: nowM_def)

section \<open>Polling\<close>

text \<open>
  \<^verbatim>\<open>wait.Poll\<close> with a timeout (\<^verbatim>\<open>apimachinery/pkg/util/wait\<close>): the condition is evaluated at each tick that the ticker
  delivers before the timeout and once more when the timeout has closed the channel. How many ticks
  that are depends on the scheduler and is answered by the environment. The condition answers an error, or
  a value, or nothing yet. \<open>None\<close> in the result stands for \<^verbatim>\<open>ErrWaitTimeout\<close>.
\<close>

primrec WaitFor :: "duration \<Rightarrow> nat \<Rightarrow> (goerror + 'a option) op \<Rightarrow> (goerror + 'a option) op" where
  "WaitFor interval 0 cond = do { emit (Sleep interval); cond }"
| "WaitFor interval (Suc ticks) cond = do {
     emit (Sleep interval);
     r \<leftarrow> cond;
     (case r of Inr None \<Rightarrow> WaitFor interval ticks cond | _ \<Rightarrow> State_Monad.return r)
   }"

definition Poll ::
  "'x clock_env_scheme \<Rightarrow> duration \<Rightarrow> duration \<Rightarrow> (goerror + 'a option) op \<Rightarrow> (goerror + 'a option) op" where
  "Poll env interval timeout cond = do {
     ticks \<leftarrow> peek (\<lambda>h. poll_ticks env h interval timeout);
     WaitFor interval ticks cond
   }"

lemma traces_WaitFor:
  assumes "traces cond R" and "R' (Inr None) []"
    and step: "\<And>r es es'. R r es \<Longrightarrow> R' (Inr None) es' \<Longrightarrow> R' r (es' @ Sleep interval # es)"
  shows "traces (WaitFor interval ticks cond) R'"
proof -
  have *: "R' (Inr None) es0 \<Longrightarrow> traces (WaitFor interval ticks cond) (\<lambda>r es. R' r (es0 @ es))" for es0
  proof (induction ticks arbitrary: es0)
    case 0
    have "traces cond (\<lambda>r es. R' r (es0 @ Sleep interval # es))"
      using assms(1) by (rule traces_weaken) (rule step [OF _ 0])
    then show ?case by (auto intro!: traces_intros)
  next
    case (Suc ticks)
    have "traces (case r of Inr None \<Rightarrow> WaitFor interval ticks cond | _ \<Rightarrow> State_Monad.return r)
        (\<lambda>r' es'. R' r' (es0 @ Sleep interval # es @ es'))" if "R r es" for r es
      using step [OF that Suc.prems] Suc.IH [of "es0 @ Sleep interval # es"]
      by (auto intro!: traces_return split: sum.splits option.splits)
    then show ?case
      by (auto intro!: traces_bind_emit traces_bind [OF assms(1)])
  qed
  from * [of "[]"] assms(2) show ?thesis by simp
qed

lemma traces_Poll:
  assumes "traces cond R" and "R' (Inr None) []"
    and "\<And>r es es'. R r es \<Longrightarrow> R' (Inr None) es' \<Longrightarrow> R' r (es' @ Sleep interval # es)"
  shows "traces (Poll env interval timeout cond) R'"
  unfolding Poll_def using assms by (intro traces_bind_peek traces_WaitFor [where R' = R']) blast+

lemma emits_WaitFor:
  assumes "emits cond P Q" and "P (Sleep interval)" and "\<And>r. Q r \<Longrightarrow> Q' r"
  shows "emits (WaitFor interval ticks cond) P Q'"
proof (induction ticks)
  case 0
  then show ?case
    using assms by (auto intro!: emits_bind_any emits_emit elim: emits_weaken)
next
  case (Suc ticks)
  have "emits (case r of Inr None \<Rightarrow> WaitFor interval ticks cond | _ \<Rightarrow> State_Monad.return r) P Q'" if "Q r" for r
    using Suc that assms(3) by (auto intro!: emits_return split: sum.splits option.splits)
  then show ?case
    using assms(1,2) by (auto intro!: emits_bind_any emits_emit emits_bind [OF assms(1)])
qed

lemma emits_Poll [emits_intros]:
  "emits cond P Q \<Longrightarrow> P (Sleep interval) \<Longrightarrow> emits (Poll env interval timeout cond) P Q"
  unfolding Poll_def by (intro emits_bind_any emits_peek emits_WaitFor) simp_all

section \<open>Jitter and retries\<close>

text \<open>
  \<^verbatim>\<open>wait.Jitter\<close>: a random part of \<open>maxJitter\<close>, the product of the factor and the duration, is added to the duration; which
  part is answered by the environment.
\<close>

definition Jitter :: "'x clock_env_scheme \<Rightarrow> duration \<Rightarrow> duration \<Rightarrow> duration op" where
  "Jitter env duration maxJitter = peek (\<lambda>h. duration + jitter env h maxJitter)"

text \<open>
  \<^verbatim>\<open>retry.RetryOnConflict\<close> over \<^verbatim>\<open>wait.ExponentialBackoff\<close>: another attempt after each conflict, \<open>retries\<close> at most, with a pause that
  grows by the factor five and a jitter of a tenth; the last conflict is the error when none is left.
\<close>

primrec RetryOnConflict ::
  "'x clock_env_scheme \<Rightarrow> nat \<Rightarrow> duration \<Rightarrow> (goerror + 'a) op \<Rightarrow> (goerror + 'a) op" where
  "RetryOnConflict env 0 d fn = fn"
| "RetryOnConflict env (Suc retries) d fn = do {
     r \<leftarrow> fn;
     (case r of
        Inr a \<Rightarrow> State_Monad.return (Inr a)
      | Inl e \<Rightarrow>
          if IsConflict e then do {
            w \<leftarrow> Jitter env d (d div 10);
            emit (Sleep w);
            RetryOnConflict env retries (5 * d) fn
          }
          else State_Monad.return (Inl e))
   }"

lemma emits_Jitter [emits_intros]: "(\<And>d. Q d) \<Longrightarrow> emits (Jitter env d m) P Q"
  unfolding Jitter_def by (rule emits_peek) simp

lemma run_Jitter [run_simps]: "run_state (Jitter env d m) h = (d + jitter env h m, h)"
  by (simp add: Jitter_def)

lemma emits_RetryOnConflict [emits_intros]:
  assumes "emits fn P Q" and "\<And>d. P (Sleep d)"
  shows "emits (RetryOnConflict env retries d fn) P Q"
proof (induction retries arbitrary: d)
  case (Suc retries)
  have "emits (case r of Inr a \<Rightarrow> State_Monad.return (Inr a)
      | Inl e \<Rightarrow> if IsConflict e then do { w \<leftarrow> Jitter env d (d div 10); emit (Sleep w); RetryOnConflict env retries (5 * d) fn }
                 else State_Monad.return (Inl e)) P Q" if "Q r" for r
    using that Suc assms(2) by (auto intro!: emits_bind_any emits_Jitter emits_emit emits_return split: sum.split)
  then show ?case by (auto intro!: emits_bind [OF assms(1)])
qed (simp add: assms(1))

section \<open>Resource keys\<close>

text \<open>
  The keys of the work queues (\<^verbatim>\<open>client-go/tools/cache\<close>): the namespace and the name separated by a
  slash, the name alone when there is no namespace.
\<close>

definition MetaNamespaceKeyFunc :: "'a ObjectMeta_scheme \<Rightarrow> string" where
  "MetaNamespaceKeyFunc obj =
     (if length (Namespace obj) > 0 then Namespace obj @ ''/'' @ Name obj else Name obj)"

text \<open>\<^verbatim>\<open>strings.Split(s, "/")\<close> for a one-byte separator.\<close>

fun Split :: "string \<Rightarrow> char \<Rightarrow> string list" where
  "Split [] sep = [[]]"
| "Split (c # s) sep =
     (if c = sep then [] # Split s sep
      else (case Split s sep of [] \<Rightarrow> [[c]] | p # ps \<Rightarrow> (c # p) # ps))"

definition SplitMetaNamespaceKey :: "string \<Rightarrow> goerror + (string \<times> string)" where
  "SplitMetaNamespaceKey key =
     (case Split key (CHR ''/'') of
        [name] \<Rightarrow> Inr ([], name)
      | [ns, name] \<Rightarrow> Inr (ns, name)
      | _ \<Rightarrow> Inl (Err (''unexpected key format: '' @ key)))"

lemma Split_no_sep: "sep \<notin> set s \<Longrightarrow> Split s sep = [s]"
  by (induction s) auto

lemma Split_append: "sep \<notin> set s \<Longrightarrow> Split (s @ sep # t) sep = s # Split t sep"
  by (induction s) auto

text \<open>Kubernetes names and namespaces contain no slash; then the key determines the object.\<close>

lemma SplitMetaNamespaceKey_key:
  assumes "CHR ''/'' \<notin> set (Namespace obj)" and "CHR ''/'' \<notin> set (Name obj)"
  shows "SplitMetaNamespaceKey (MetaNamespaceKeyFunc obj) = Inr (Namespace obj, Name obj)"
  using assms
  by (simp add: SplitMetaNamespaceKey_def MetaNamespaceKeyFunc_def Split_no_sep Split_append)

end
