(* ===== verification/Presto_SQL.thy ===== *)
theory Presto_SQL
  imports Effects
begin

text \<open>
  The Presto client of \<^verbatim>\<open>pkg/presto/util.go\<close>, the table manager of \<^verbatim>\<open>pkg/operator/reporting/db.go\<close> that
  wraps it, and the repository of report results (\<^verbatim>\<open>prestostore/reports.go\<close>) with the report generator
  (\<^verbatim>\<open>reporting/report_generator.go\<close>). Statements are the strings that are sent. The order in which a loop
  visits a Go map is the order of the association list that stands for the map.
\<close>

abbreviation nl :: string where "nl \<equiv> [CHR 0x0A]"
abbreviation tab :: string where "tab \<equiv> [CHR 0x09]"
abbreviation dquote :: string where "dquote \<equiv> [CHR 0x22]"
abbreviation bquote :: string where "bquote \<equiv> [CHR 0x60]"
abbreviation squote :: string where "squote \<equiv> [CHR 0x27]"

section \<open>Statements\<close>

definition quoteColumn :: "Column \<Rightarrow> string" where
  "quoteColumn col = dquote @ col_Name col @ dquote"

definition FormatInsertQuery :: "string \<Rightarrow> string \<Rightarrow> string" where
  "FormatInsertQuery target query = ''INSERT INTO '' @ target @ '' '' @ query"

definition presto_FullyQualifiedTableName :: "string \<Rightarrow> string \<Rightarrow> string \<Rightarrow> string" where
  "presto_FullyQualifiedTableName catalog schema tableName = catalog @ ''.'' @ schema @ ''.'' @ tableName"

definition GenerateQuotedColumnsListSQL :: "Column list \<Rightarrow> string" where
  "GenerateQuotedColumnsListSQL columns = join '','' (map quoteColumn columns)"

definition presto_generateColumnDefinitionListSQL :: "Column list \<Rightarrow> string" where
  "presto_generateColumnDefinitionListSQL columns =
     join '','' (map (\<lambda>col. bquote @ col_Name col @ bquote @ '' '' @ col_Type col) columns)"

definition is_map_column :: "Column \<Rightarrow> bool" where
  "is_map_column col =
     (let colType = ToLower (col_Type col); mapIndex = Index colType ''map(''
      in mapIndex \<noteq> -1 \<and> Index colType '')'' > mapIndex)"

definition GenerateOrderBySQL :: "Column list \<Rightarrow> string" where
  "GenerateOrderBySQL columns =
     join '', '' (map (\<lambda>col. if is_map_column col
                              then ''map_entries('' @ dquote @ col_Name col @ dquote @ '')''
                              else quoteColumn col) columns) @ '' ASC''"

definition GenerateGetRowsSQL :: "string \<Rightarrow> Column list \<Rightarrow> string" where
  "GenerateGetRowsSQL tableName columns =
     ''SELECT '' @ GenerateQuotedColumnsListSQL columns @ '' FROM '' @ tableName @
     '' ORDER BY '' @ GenerateOrderBySQL columns"

definition GenerateGetRowsSQLWithWhere :: "string \<Rightarrow> Column list \<Rightarrow> string \<Rightarrow> string" where
  "GenerateGetRowsSQLWithWhere tableName columns whereClause =
     ''SELECT '' @ GenerateQuotedColumnsListSQL columns @ '' FROM '' @ tableName @ '' '' @ whereClause @
     '' ORDER BY '' @ GenerateOrderBySQL columns"

definition generatePropertiesSQL :: "string gomap \<Rightarrow> string" where
  "generatePropertiesSQL props = join '', '' (map (\<lambda>(k, v). k @ '' = '' @ v) props)"

definition props_clause :: "string gomap option \<Rightarrow> string" where
  "props_clause properties =
     (case properties of None \<Rightarrow> []
      | Some ps \<Rightarrow> if length ps \<noteq> 0 then ''WITH ('' @ generatePropertiesSQL ps @ '')'' else [])"

text \<open>
  The format string has five verbs and is given four arguments: \<^verbatim>\<open>fmt.Sprintf\<close> prints
  \<^verbatim>\<open>%!s(MISSING)\<close> for the last.
\<close>

definition presto_generateCreateTableSQL ::
  "string \<Rightarrow> string \<Rightarrow> string \<Rightarrow> Column list \<Rightarrow> string \<Rightarrow> string gomap option \<Rightarrow> bool \<Rightarrow> string" where
  "presto_generateCreateTableSQL catalog schema tableName columns comment properties ignoreExists =
     (let ifNotExists = (if ignoreExists then ''IF NOT EXISTS'' else []);
          columnsStr = presto_generateColumnDefinitionListSQL columns;
          propsStr = props_clause properties;
          table = presto_FullyQualifiedTableName catalog schema tableName
      in ''CREATE TABLE '' @ ifNotExists @ nl @ table @ '' ('' @ nl @ tab @ columnsStr @ nl @ '')'' @ nl @
         propsStr @ nl @ ''%!s(MISSING)'')"

text \<open>A nil slice of columns is \<open>None\<close>.\<close>

definition generateCreateTableAsSQL ::
  "string \<Rightarrow> string \<Rightarrow> string \<Rightarrow> Column list option \<Rightarrow> string \<Rightarrow> string gomap option \<Rightarrow> bool \<Rightarrow> string \<Rightarrow> string"
  where
  "generateCreateTableAsSQL catalog schema tableName columns comment properties ignoreExists query =
     (let ifNotExists = (if ignoreExists then ''IF NOT EXISTS'' else []);
          columnsStr = (case columns of None \<Rightarrow> [] | Some cs \<Rightarrow> GenerateQuotedColumnsListSQL cs);
          propsStr = props_clause properties;
          table = presto_FullyQualifiedTableName catalog schema tableName
      in ''CREATE TABLE '' @ ifNotExists @ nl @ table @ '' ('' @ nl @ tab @ columnsStr @ nl @ '')'' @ nl @
         propsStr @ nl @ comment @ nl @ ''AS '' @ query)"

section \<open>Executing statements\<close>

definition queryM :: "'x store_env_scheme \<Rightarrow> string \<Rightarrow> (goerror + sql_rows) op" where
  "queryM env sql = call (\<lambda>h. presto_Query env h sql) (PrestoQuery sql)"

text \<open>\<^verbatim>\<open>_, err := queryer.Query(query); return err\<close>: the rows are neither read nor closed.\<close>

definition submitM :: "'x store_env_scheme \<Rightarrow> string \<Rightarrow> goerror option op" where
  "submitM env sql = do {
     r \<leftarrow> queryM env sql;
     State_Monad.return (case r of Inl e \<Rightarrow> Some e | Inr _ \<Rightarrow> None)
   }"

definition execQuery :: "'x store_env_scheme \<Rightarrow> string \<Rightarrow> goerror option op" where
  "execQuery env query = do {
     r \<leftarrow> queryM env query;
     State_Monad.return
       (case r of
          Inl e \<Rightarrow> Some e
        | Inr rows \<Rightarrow>
            (case rows_Err rows of
               Some e \<Rightarrow> Some (wrap (\<lambda>m. ''presto SQL error: '' @ m) e)
             | None \<Rightarrow> None))
   }"

text \<open>The row map of one scanned row: \<^verbatim>\<open>m[colName] = *val\<close> for each column in turn.\<close>

definition row_map :: "string list \<Rightarrow> presto_value list \<Rightarrow> Row" where
  "row_map cols vals = fold (\<lambda>(c, v) m. map_set c v m) (zip cols vals) []"

definition read_rows :: "sql_rows \<Rightarrow> goerror + Row list" where
  "read_rows rows =
     bindR (rows_Columns rows) (\<lambda>cols.
       bindR (mapR (\<lambda>scan. bindR scan (\<lambda>vals. Inr (row_map cols vals))) (rows_Scan rows)) (\<lambda>results.
         (case rows_Err rows of Some e \<Rightarrow> Inl e | None \<Rightarrow> Inr results)))"

definition ExecuteSelect :: "'x store_env_scheme \<Rightarrow> string \<Rightarrow> (goerror + Row list) op" where
  "ExecuteSelect env query = do {
     r \<leftarrow> queryM env query;
     State_Monad.return (bindR r read_rows)
   }"

definition DeleteFrom :: "'x store_env_scheme \<Rightarrow> string \<Rightarrow> goerror option op" where
  "DeleteFrom env tableName = submitM env (''DELETE FROM '' @ tableName)"

definition InsertInto :: "'x store_env_scheme \<Rightarrow> string \<Rightarrow> string \<Rightarrow> goerror option op" where
  "InsertInto env tableName query = execQuery env (FormatInsertQuery tableName query)"

definition GetRows :: "'x store_env_scheme \<Rightarrow> string \<Rightarrow> Column list \<Rightarrow> (goerror + Row list) op" where
  "GetRows env tableName columns = ExecuteSelect env (GenerateGetRowsSQL tableName columns)"

definition GetRowsWhere ::
  "'x store_env_scheme \<Rightarrow> string \<Rightarrow> Column list \<Rightarrow> string \<Rightarrow> (goerror + Row list) op" where
  "GetRowsWhere env tableName columns whereClause =
     ExecuteSelect env (GenerateGetRowsSQLWithWhere tableName columns whereClause)"

definition presto_CreateTable ::
  "'x store_env_scheme \<Rightarrow> string \<Rightarrow> string \<Rightarrow> string \<Rightarrow> Column list \<Rightarrow> string \<Rightarrow> string gomap option \<Rightarrow> bool \<Rightarrow>
   goerror option op" where
  "presto_CreateTable env catalog schema tableName columns comment properties ignoreExists =
     submitM env (presto_generateCreateTableSQL catalog schema tableName columns comment properties ignoreExists)"

definition presto_CreateTableAs ::
  "'x store_env_scheme \<Rightarrow> string \<Rightarrow> string \<Rightarrow> string \<Rightarrow> Column list option \<Rightarrow> string \<Rightarrow> string gomap option \<Rightarrow> bool \<Rightarrow>
   string \<Rightarrow> goerror option op" where
  "presto_CreateTableAs env catalog schema tableName columns comment properties ignoreExists query =
     submitM env (generateCreateTableAsSQL catalog schema tableName columns comment properties ignoreExists query)"

definition presto_DropTable ::
  "'x store_env_scheme \<Rightarrow> string \<Rightarrow> string \<Rightarrow> string \<Rightarrow> bool \<Rightarrow> goerror option op" where
  "presto_DropTable env catalog schema tableName ignoreNotExists =
     submitM env (''DROP TABLE '' @ (if ignoreNotExists then ''IF EXISTS'' else []) @ '' '' @
       presto_FullyQualifiedTableName catalog schema tableName)"

definition presto_CreateView ::
  "'x store_env_scheme \<Rightarrow> string \<Rightarrow> string \<Rightarrow> string \<Rightarrow> string \<Rightarrow> bool \<Rightarrow> goerror option op" where
  "presto_CreateView env catalog schema viewName query replace =
     submitM env (''CREATE'' @ (if replace then '' OR REPLACE'' else []) @ '' VIEW '' @
       presto_FullyQualifiedTableName catalog schema viewName @ '' AS '' @ query)"

definition presto_DropView ::
  "'x store_env_scheme \<Rightarrow> string \<Rightarrow> string \<Rightarrow> string \<Rightarrow> bool \<Rightarrow> goerror option op" where
  "presto_DropView env catalog schema viewName ignoreNotExists =
     submitM env (''DROP VIEW '' @ (if ignoreNotExists then ''IF EXISTS'' else []) @ '' '' @
       presto_FullyQualifiedTableName catalog schema viewName)"

section \<open>The table manager\<close>

definition ptm_CreateTable ::
  "'x store_env_scheme \<Rightarrow> string \<Rightarrow> string \<Rightarrow> string \<Rightarrow> Column list \<Rightarrow> string \<Rightarrow> string gomap option \<Rightarrow> bool \<Rightarrow>
   goerror option op" where
  "ptm_CreateTable env catalog schema tableName columns comment properties ignoreExists =
     presto_CreateTable env catalog schema tableName columns comment properties ignoreExists"

definition ptm_CreateTableAs ::
  "'x store_env_scheme \<Rightarrow> string \<Rightarrow> string \<Rightarrow> string \<Rightarrow> Column list option \<Rightarrow> string \<Rightarrow> string gomap option \<Rightarrow> bool \<Rightarrow>
   string \<Rightarrow> goerror option op" where
  "ptm_CreateTableAs env catalog schema tableName columns comment properties ignoreExists query =
     presto_CreateTableAs env catalog schema tableName columns comment properties ignoreExists query"

definition ptm_DropTable ::
  "'x store_env_scheme \<Rightarrow> string \<Rightarrow> string \<Rightarrow> string \<Rightarrow> bool \<Rightarrow> goerror option op" where
  "ptm_DropTable env catalog schema tableName ignoreNotExists =
     presto_DropTable env catalog schema tableName ignoreNotExists"

definition ptm_CreateView ::
  "'x store_env_scheme \<Rightarrow> string \<Rightarrow> string \<Rightarrow> string \<Rightarrow> string \<Rightarrow> goerror option op" where
  "ptm_CreateView env catalog schema viewName query =
     presto_CreateView env catalog schema viewName query True"

definition ptm_DropView ::
  "'x store_env_scheme \<Rightarrow> string \<Rightarrow> string \<Rightarrow> string \<Rightarrow> bool \<Rightarrow> goerror option op" where
  "ptm_DropView env catalog schema viewName ignoreNotExists =
     presto_DropView env catalog schema viewName ignoreNotExists"

section \<open>Report results\<close>

definition GetReportResults :: "'x store_env_scheme \<Rightarrow> string \<Rightarrow> Column list \<Rightarrow> (goerror + Row list) op" where
  "GetReportResults env tableName columns = GetRows env tableName columns"

definition StoreReportResults :: "'x store_env_scheme \<Rightarrow> string \<Rightarrow> string \<Rightarrow> goerror option op" where
  "StoreReportResults env tableName query = InsertInto env tableName query"

definition DeleteReportResults :: "'x store_env_scheme \<Rightarrow> string \<Rightarrow> goerror option op" where
  "DeleteReportResults env tableName = DeleteFrom env tableName"

definition GenerateReport :: "'x store_env_scheme \<Rightarrow> string \<Rightarrow> string \<Rightarrow> bool \<Rightarrow> goerror option op" where
  "GenerateReport env tableName query deleteExistingData =
     (if tableName = [] then State_Monad.return (Some (Err ''tableName cannot be empty''))
      else do {
        derr \<leftarrow> (if deleteExistingData then DeleteReportResults env tableName else State_Monad.return None);
        (case derr of
           Some e \<Rightarrow> State_Monad.return (Some (wrap (\<lambda>m. ''couldn't empty table '' @ tableName @
             '' of preexisting rows: '' @ m) e))
         | None \<Rightarrow> do {
             err \<leftarrow> StoreReportResults env tableName query;
             State_Monad.return (case err of
               Some e \<Rightarrow> Some (wrap (\<lambda>m. ''Failed to execute query for Report table '' @ tableName @ '': '' @ m) e)
             | None \<Rightarrow> None)
           })
      })"

section \<open>Lemmas\<close>

lemmas presto_op_defs = ptm_CreateTable_def ptm_CreateTableAs_def ptm_DropTable_def ptm_CreateView_def
  ptm_DropView_def presto_CreateTable_def presto_CreateTableAs_def presto_DropTable_def
  presto_CreateView_def presto_DropView_def DeleteFrom_def InsertInto_def GetRows_def GetRowsWhere_def
  GetReportResults_def StoreReportResults_def DeleteReportResults_def

lemma emits_queryM [emits_intros]:
  "P (PrestoQuery sql) \<Longrightarrow> (\<And>r. Q r) \<Longrightarrow> emits (queryM env sql) P Q"
  unfolding queryM_def by (rule emits_call) simp_all

lemma emits_submitM [emits_intros]:
  "P (PrestoQuery sql) \<Longrightarrow> (\<And>r. Q r) \<Longrightarrow> emits (submitM env sql) P Q"
  unfolding submitM_def by (intro emits_intros) simp_all

lemma emits_execQuery [emits_intros]:
  "P (PrestoQuery sql) \<Longrightarrow> (\<And>r. Q r) \<Longrightarrow> emits (execQuery env sql) P Q"
  unfolding execQuery_def by (intro emits_intros) simp_all

lemma emits_ExecuteSelect [emits_intros]:
  "P (PrestoQuery sql) \<Longrightarrow> (\<And>r. Q r) \<Longrightarrow> emits (ExecuteSelect env sql) P Q"
  unfolding ExecuteSelect_def by (intro emits_intros) simp_all

lemma run_submitM [run_simps]:
  "run_state (submitM env sql) h =
     (case presto_Query env h sql of Inl e \<Rightarrow> Some e | Inr _ \<Rightarrow> None, h @ [PrestoQuery sql])"
  by (simp add: submitM_def queryM_def)

lemma run_execQuery [run_simps]:
  "run_state (execQuery env sql) h =
     (case presto_Query env h sql of
        Inl e \<Rightarrow> Some e
      | Inr rows \<Rightarrow> map_option (wrap (\<lambda>m. ''presto SQL error: '' @ m)) (rows_Err rows),
      h @ [PrestoQuery sql])"
  by (simp add: execQuery_def queryM_def split: sum.split option.split)

lemma run_ExecuteSelect [run_simps]:
  "run_state (ExecuteSelect env sql) h = (bindR (presto_Query env h sql) read_rows, h @ [PrestoQuery sql])"
  by (simp add: ExecuteSelect_def queryM_def)

text \<open>Whether a statement is executed without an error, as \<^verbatim>\<open>execQuery\<close> decides it.\<close>

definition executed :: "goerror + sql_rows \<Rightarrow> bool" where
  "executed r \<longleftrightarrow> (\<exists>rows. r = Inr rows \<and> rows_Err rows = None)"

lemma row_map_fold:
  assumes "distinct cols" and "length cols = length vals"
  shows "map_of (fold (\<lambda>(c, v) m. map_set c v m) (zip cols vals) m) = map_of m ++ map_of (zip cols vals)"
  using assms(2,1)
proof (induction cols vals arbitrary: m rule: list_induct2)
  case Nil
  then show ?case by simp
next
  case (Cons c cols v vals)
  then have c: "map_of (zip cols vals) c = None" by (simp add: map_of_zip_is_None)
  have "map_of (fold (\<lambda>(c, v) m. map_set c v m) (zip (c # cols) (v # vals)) m) =
      (map_of m)(c \<mapsto> v) ++ map_of (zip cols vals)"
    using Cons by simp
  also have "\<dots> = map_of m ++ (map_of (zip cols vals))(c \<mapsto> v)"
    using c by (intro ext) (simp only: map_add_def fun_upd_apply split: option.split, simp)
  finally show ?case by (simp only: zip_Cons_Cons map_of.simps fst_conv snd_conv)
qed

lemma row_map_lookup:
  "distinct cols \<Longrightarrow> length cols = length vals \<Longrightarrow> map_of (row_map cols vals) = map_of (zip cols vals)"
  by (simp add: row_map_def row_map_fold)

section \<open>Properties\<close>

text \<open>
  A select that succeeds answers one row map for each row of the result, in order, and each map gives for
  every column name the value that was scanned for it.
\<close>

theorem ExecuteSelect_rows:
  assumes "run_state (ExecuteSelect env sql) h = (Inr results, h')"
    and "presto_Query env h sql = Inr rows" and "rows_Columns rows = Inr cols" and "distinct cols"
    and "\<forall>scan \<in> set (rows_Scan rows). \<forall>vals. scan = Inr vals \<longrightarrow> length vals = length cols"
  shows "h' = h @ [PrestoQuery sql] \<and> rows_Err rows = None \<and>
    list_all2 (\<lambda>scan row. \<exists>vals. scan = Inr vals \<and> map_of row = map_of (zip cols vals)) (rows_Scan rows) results"
proof -
  have h': "h' = h @ [PrestoQuery sql]" and r: "read_rows rows = Inr results"
    using assms(1,2) by (simp_all add: run_ExecuteSelect)
  from r assms(3) have e: "rows_Err rows = None"
    and m: "mapR (\<lambda>scan. bindR scan (\<lambda>vals. Inr (row_map cols vals))) (rows_Scan rows) = Inr results"
    by (auto simp: read_rows_def bindR_eq_Inr split: option.splits)
  have "list_all2 (\<lambda>scan row. \<exists>vals. scan = Inr vals \<and> map_of row = map_of (zip cols vals)) (rows_Scan rows) results"
    unfolding list_all2_conv_all_nth
  proof (intro conjI allI impI)
    show len: "length (rows_Scan rows) = length results" using mapR_length [OF m] by simp
    fix i assume i: "i < length (rows_Scan rows)"
    then obtain vals where v: "rows_Scan rows ! i = Inr vals" "row_map cols vals = results ! i"
      using m len by (auto simp: mapR_Inr_iff list_all2_conv_all_nth bindR_eq_Inr)
    then have "length vals = length cols" using assms(5) i nth_mem by metis
    then have "map_of (row_map cols vals) = map_of (zip cols vals)"
      using assms(4) by (simp add: row_map_lookup)
    with v show "\<exists>vals. rows_Scan rows ! i = Inr vals \<and> map_of (results ! i) = map_of (zip cols vals)"
      by auto
  qed
  with h' e show ?thesis by blast
qed

definition sample_env :: "(goerror + sql_rows) \<Rightarrow> store_env" where
  "sample_env r = \<lparr>clock_Now = \<lambda>h. int (length h), metav1_Now = \<lambda>_. (0, 0), jitter = \<lambda>_ _. 0, poll_ticks = \<lambda>_ _ _. 0, ctx_Done = \<lambda>_. None,
     hive_Exec = \<lambda>_ _. None, presto_Query = \<lambda>_ _. r, prom_QueryRange = \<lambda>_ _ _. Inr (Matrix []),
     fmt_float = \<lambda>_. ''0.000000'', fmt_seconds = \<lambda>_. ''60.000000''\<rparr>"

lemma sample_env_presto [simp]: "presto_Query (sample_env r) h sql = r"
  by (simp add: sample_env_def)

theorem ExecuteSelect_rows_witness:
  "list_all2 (\<lambda>scan row. \<exists>vals. scan = Inr vals \<and> map_of row = map_of (zip [''a''] vals))
     [Inr [PVString ''x'']] [[(''a'', PVString ''x'')]]"
proof -
  let ?rows = "\<lparr>rows_Columns = Inr [''a''], rows_Scan = [Inr [PVString ''x'']], rows_Err = None\<rparr> :: sql_rows"
  have "run_state (ExecuteSelect (sample_env (Inr ?rows)) ''SELECT'') [] =
      (Inr [[(''a'', PVString ''x'')]], [PrestoQuery ''SELECT''])"
    by (simp add: run_ExecuteSelect read_rows_def row_map_def map_set_def)
  from ExecuteSelect_rows [OF this, of ?rows "[''a'']"] show ?thesis by simp
qed

text \<open>
  Generating a report sends at most two statements to Presto: with overwriting, a DELETE of the
  table; then, unless submitting the DELETE failed, one INSERT of the query into the table. The result is
  a success exactly when the DELETE, if there is one, was accepted and the INSERT was executed.
\<close>

theorem GenerateReport_statements:
  assumes "tableName \<noteq> []"
  shows "snd (run_state (GenerateReport env tableName query overwrite) h) =
    (let failedDelete = overwrite \<and> \<not> isOK (presto_Query env h (''DELETE FROM '' @ tableName));
         es = (if overwrite then [PrestoQuery (''DELETE FROM '' @ tableName)] else []) @ (if failedDelete then [] else [PrestoQuery (FormatInsertQuery tableName query)])
     in h @ es) \<and>
    (fst (run_state (GenerateReport env tableName query overwrite) h) = None \<longleftrightarrow>
      (overwrite \<longrightarrow> isOK (presto_Query env h (''DELETE FROM '' @ tableName))) \<and>
      executed (presto_Query env (h @ (if overwrite then [PrestoQuery (''DELETE FROM '' @ tableName)] else [])) (FormatInsertQuery tableName query)))"
  using assms(1)
  by (cases overwrite)
    (auto simp: GenerateReport_def presto_op_defs run_simps executed_def Let_def isOK_iff
      split: sum.splits option.splits)

theorem GenerateReport_statements_witness:
  "run_state (GenerateReport (sample_env (Inr \<lparr>rows_Columns = Inr [], rows_Scan = [], rows_Err = None\<rparr>)) ''t'' ''q'' True) [] =
     (None, [PrestoQuery ''DELETE FROM t'', PrestoQuery ''INSERT INTO t q''])"
  using GenerateReport_statements [of "''t''"
      "sample_env (Inr \<lparr>rows_Columns = Inr [], rows_Scan = [], rows_Err = None\<rparr>)" "''q''" True "[]"]
  by (simp add: Let_def executed_def FormatInsertQuery_def prod_eq_iff)

text \<open>
  The outcome of the DELETE itself is not looked at. When Presto accepts the DELETE and its execution fails,
  which only the rows report, the report is generated as if the old rows were gone, and the result is a
  success.
\<close>

theorem GenerateReport_ignores_failed_delete:
  assumes "tableName \<noteq> []"
    and "presto_Query env h (''DELETE FROM '' @ tableName) = Inr \<lparr>rows_Columns = c, rows_Scan = s, rows_Err = Some e\<rparr>"
    and "executed (presto_Query env (h @ [PrestoQuery (''DELETE FROM '' @ tableName)]) (FormatInsertQuery tableName query))"
  shows "fst (run_state (GenerateReport env tableName query True) h) = None"
  using assms
  by (auto simp: GenerateReport_def presto_op_defs run_simps executed_def)

theorem GenerateReport_ignores_failed_delete_witness:
  "fst (run_state (GenerateReport
     ((sample_env (Inl (Err []))) \<lparr>presto_Query := \<lambda>h _. Inr \<lparr>rows_Columns = Inr [], rows_Scan = [],
        rows_Err = (if h = [] then Some (Err ''Access Denied'') else None)\<rparr>\<rparr>) ''t'' ''q'' True) []) = None"
  by (rule GenerateReport_ignores_failed_delete [of _ _ _ "Inr []" "[]" "Err ''Access Denied''"])
    (simp_all add: executed_def)

text \<open>
  Every CREATE TABLE statement sent to Presto ends in the text that the formatter prints for a
  missing argument, whatever the table and its comment.
\<close>

theorem presto_create_table_malformed:
  "\<exists>s. presto_generateCreateTableSQL catalog schema tableName columns comment properties ignoreExists =
       s @ ''%!s(MISSING)''"
  by (auto simp: presto_generateCreateTableSQL_def Let_def intro!: exI)

end
