(* ===== verification/Hive_SQL.thy ===== *)
theory Hive_SQL
  imports Presto_SQL
begin

text \<open>
  The Hive client of \<^verbatim>\<open>pkg/hive\<close> (statement generation and execution) and the table, database and
  partition manager of \<^verbatim>\<open>pkg/operator/reporting/db.go\<close>.
\<close>

section \<open>Statements\<close>

definition escapeColumn :: "string \<Rightarrow> string \<Rightarrow> string" where
  "escapeColumn columnName columnType = bquote @ columnName @ bquote @ '' '' @ columnType"

definition generateColumnListSQL :: "Column list \<Rightarrow> string" where
  "generateColumnListSQL columns = join '','' (map (\<lambda>col. escapeColumn (col_Name col) (col_Type col)) columns)"

definition generateColumnNoTypesListSQL :: "string list \<Rightarrow> string" where
  "generateColumnNoTypesListSQL columns = join '','' (map (\<lambda>col. bquote @ col @ bquote) columns)"

definition generateSortedByColumnListSQL :: "SortColumn list \<Rightarrow> string" where
  "generateSortedByColumnListSQL columns =
     join '','' (map (\<lambda>col. bquote @ sc_Name col @ bquote @
       (case sc_Decending col of None \<Rightarrow> [] | Some d \<Rightarrow> if d then '' DESC'' else '' ASC'')) columns)"

definition generateDropTableSQL :: "string \<Rightarrow> string \<Rightarrow> bool \<Rightarrow> bool \<Rightarrow> string" where
  "generateDropTableSQL database tableName ignoreNotExists purge =
     (let ifExists = (if ignoreNotExists then ''IF EXISTS'' else []);
          purgeStr = (if purge then ''PURGE'' else []);
          tableName' = (if database \<noteq> [] then database @ ''.'' @ tableName else tableName)
      in ''DROP TABLE '' @ ifExists @ '' '' @ tableName' @ '' '' @ purgeStr)"

text \<open>How \<^verbatim>\<open>fmt\<close> prints a Go map with \<^verbatim>\<open>%s\<close>.\<close>

definition show_gomap :: "string gomap \<Rightarrow> string" where
  "show_gomap m = ''map['' @ join '' '' (map (\<lambda>(k, v). k @ '':'' @ v) m) @ '']''"

definition generateCreateTableSQL :: "TableParameters \<Rightarrow> bool \<Rightarrow> string" where
  "generateCreateTableSQL params ignoreExists =
     (let columnsStr = generateColumnListSQL (tparams_Columns params);
          tableType = (if tparams_External params then ''EXTERNAL'' else []);
          ifNotExists = (if ignoreExists then ''IF NOT EXISTS'' else []);
          tableName = (if tparams_Database params \<noteq> []
                       then tparams_Database params @ ''.'' @ tparams_Name params else tparams_Name params);
          partitionedBy = (if length (tparams_PartitionedBy params) \<noteq> 0
                           then ''PARTITIONED BY ('' @ generateColumnListSQL (tparams_PartitionedBy params) @ '')''
                           else []);
          clustered = (length (tparams_ClusteredBy params) \<noteq> 0);
          clusteredBy = (if clustered
                         then ''CLUSTERED BY ('' @ generateColumnNoTypesListSQL (tparams_ClusteredBy params) @ '')''
                         else []);
          intoBuckets = (if clustered then ''INTO '' @ show_int (tparams_NumBuckets params) @ '' BUCKETS'' else []);
          sortedBy = (if clustered \<and> length (tparams_SortedBy params) \<noteq> 0
                      then ''SORTED BY ('' @ generateSortedByColumnListSQL (tparams_SortedBy params) @ '')''
                      else []);
          rowFormatStr = (if tparams_RowFormat params \<noteq> []
                          then ''ROW FORMAT '' @ TrimSpace (tparams_RowFormat params) else []);
          format = (if tparams_FileFormat params \<noteq> [] then ''STORED AS '' @ tparams_FileFormat params else []);
          location = (if tparams_Location params \<noteq> []
                      then ''LOCATION '' @ dquote @ tparams_Location params @ dquote else []);
          tblProps = (case tparams_TableProperties params of None \<Rightarrow> []
                      | Some m \<Rightarrow> ''TBLPROPERTIES('' @ show_gomap m @ '')'')
      in ''CREATE '' @ tableType @ '' TABLE '' @ ifNotExists @ nl @
         tableName @ '' ('' @ columnsStr @ '') '' @ partitionedBy @ nl @
         clusteredBy @ '' '' @ sortedBy @ '' '' @ intoBuckets @ nl @
         rowFormatStr @ '' '' @ format @ '' '' @ location @ nl @
         tblProps)"

record DatabaseParameters =
  dbp_Name :: string
  dbp_Location :: string

text \<open>The parameter \<^verbatim>\<open>ignoreExists\<close> is not read: the clause depends on the location.\<close>

definition generateCreateDatabaseSQL :: "DatabaseParameters \<Rightarrow> bool \<Rightarrow> string" where
  "generateCreateDatabaseSQL params ignoreExists =
     (let ignoreExistsStr = (if dbp_Location params \<noteq> [] then ''IF NOT EXISTS'' else []);
          locStr = (if dbp_Location params \<noteq> [] then ''LOCATION '' @ squote @ dbp_Location params @ squote else [])
      in ''CREATE DATABASE'' @ nl @ ignoreExistsStr @ nl @ dbp_Name params @ nl @ locStr)"

definition generateDropDatabaseSQL :: "string \<Rightarrow> bool \<Rightarrow> bool \<Rightarrow> string" where
  "generateDropDatabaseSQL dbName ignoreNotExists cascade =
     (let ifExists = (if ignoreNotExists then ''IF EXISTS'' else []);
          cascadeStr = (if cascade then ''CASCADE'' else [])
      in ''DROP DATABASE'' @ nl @ ifExists @ nl @ dbName @ nl @ cascadeStr)"

definition FmtPartitionSpec :: "Column list \<Rightarrow> string gomap \<Rightarrow> string" where
  "FmtPartitionSpec partitionColumns partSpec =
     join '', '' (map (\<lambda>col.
       let val = map_get [] partSpec (col_Name col);
           val' = (if ToLower (col_Type col) = ''string'' then bquote @ val @ bquote else val)
       in bquote @ col_Name col @ bquote @ ''='' @ val') partitionColumns)"

section \<open>Execution\<close>

definition hiveExecM :: "'x store_env_scheme \<Rightarrow> string \<Rightarrow> goerror option op" where
  "hiveExecM env sql = call (\<lambda>h. hive_Exec env h sql) (HiveExec sql)"

definition ExecuteCreateTable :: "'x store_env_scheme \<Rightarrow> TableParameters \<Rightarrow> bool \<Rightarrow> goerror option op" where
  "ExecuteCreateTable env params ignoreExists = hiveExecM env (generateCreateTableSQL params ignoreExists)"

definition ExecuteDropTable :: "'x store_env_scheme \<Rightarrow> string \<Rightarrow> string \<Rightarrow> bool \<Rightarrow> goerror option op" where
  "ExecuteDropTable env dbName tableName ignoreNotExists =
     hiveExecM env (generateDropTableSQL dbName tableName ignoreNotExists False)"

definition ExecuteCreateDatabase :: "'x store_env_scheme \<Rightarrow> DatabaseParameters \<Rightarrow> goerror option op" where
  "ExecuteCreateDatabase env params = hiveExecM env (generateCreateDatabaseSQL params False)"

definition ExecuteDropDatabase :: "'x store_env_scheme \<Rightarrow> string \<Rightarrow> bool \<Rightarrow> bool \<Rightarrow> goerror option op" where
  "ExecuteDropDatabase env dbName ignoreNotExists cascade =
     hiveExecM env (generateDropDatabaseSQL dbName ignoreNotExists cascade)"

definition hm_CreateTable :: "'x store_env_scheme \<Rightarrow> TableParameters \<Rightarrow> bool \<Rightarrow> goerror option op" where
  "hm_CreateTable env params ignoreExists = ExecuteCreateTable env params ignoreExists"

definition hm_DropTable :: "'x store_env_scheme \<Rightarrow> string \<Rightarrow> string \<Rightarrow> bool \<Rightarrow> goerror option op" where
  "hm_DropTable env dbName tableName ignoreNotExists = ExecuteDropTable env dbName tableName ignoreNotExists"

definition hm_CreateDatabase :: "'x store_env_scheme \<Rightarrow> DatabaseParameters \<Rightarrow> goerror option op" where
  "hm_CreateDatabase env params = ExecuteCreateDatabase env params"

definition hm_DropDatabase :: "'x store_env_scheme \<Rightarrow> string \<Rightarrow> bool \<Rightarrow> bool \<Rightarrow> goerror option op" where
  "hm_DropDatabase env dbName ignoreNotExists cascade = ExecuteDropDatabase env dbName ignoreNotExists cascade"

definition hm_AddPartition ::
  "'x store_env_scheme \<Rightarrow> string \<Rightarrow> Column list \<Rightarrow> TablePartition \<Rightarrow> goerror option op" where
  "hm_AddPartition env tableName partitionColumns part =
     (let partitionSpecStr = FmtPartitionSpec partitionColumns (tp_PartitionSpec part);
          locationStr = (if tp_Location part \<noteq> [] then ''LOCATION '' @ tp_Location part else [])
      in hiveExecM env (''ALTER TABLE '' @ tableName @ '' ADD IF NOT EXISTS PARTITION ('' @ partitionSpecStr @
           '') '' @ locationStr))"

definition hm_DropPartition ::
  "'x store_env_scheme \<Rightarrow> string \<Rightarrow> Column list \<Rightarrow> TablePartition \<Rightarrow> goerror option op" where
  "hm_DropPartition env tableName partitionColumns part =
     (let partitionSpecStr = FmtPartitionSpec partitionColumns (tp_PartitionSpec part)
      in hiveExecM env (''ALTER TABLE '' @ tableName @ '' DROP IF EXISTS PARTITION ('' @ partitionSpecStr @ '')''))"

section \<open>Lemmas\<close>

lemmas hive_op_defs = hm_CreateTable_def hm_DropTable_def hm_CreateDatabase_def hm_DropDatabase_def
  hm_AddPartition_def hm_DropPartition_def ExecuteCreateTable_def ExecuteDropTable_def
  ExecuteCreateDatabase_def ExecuteDropDatabase_def

lemma emits_hiveExecM [emits_intros]:
  "P (HiveExec sql) \<Longrightarrow> (\<And>r. Q r) \<Longrightarrow> emits (hiveExecM env sql) P Q"
  unfolding hiveExecM_def by (rule emits_call) simp_all

lemma run_hiveExecM [run_simps]:
  "run_state (hiveExecM env sql) h = (hive_Exec env h sql, h @ [HiveExec sql])"
  by (simp add: hiveExecM_def)

section \<open>Malformed statements\<close>

text \<open>
  The statement that creates a Hive database does not depend on the parameter that asks to ignore an
  existing database; it tolerates one exactly when a location is given, so creating the same database
  without a location twice sends a statement that fails.
\<close>

theorem create_database_ignores_parameter:
  "generateCreateDatabaseSQL params b = generateCreateDatabaseSQL params b' \<and>
   generateCreateDatabaseSQL \<lparr>dbp_Name = name, dbp_Location = []\<rparr> True = ''CREATE DATABASE'' @ nl @ nl @ name @ nl"
  by (simp add: generateCreateDatabaseSQL_def)

text \<open>
  Table properties are printed as a Go map, so the statement that creates a Hive table with
  properties ends in \<^verbatim>\<open>TBLPROPERTIES(map[...])\<close>, which is not a property list.
\<close>

theorem create_table_prints_go_map:
  "\<exists>s. generateCreateTableSQL (params\<lparr>tparams_TableProperties := Some m\<rparr>) ignoreExists =
     s @ ''TBLPROPERTIES(map['' @ join '' '' (map (\<lambda>(k, v). k @ '':'' @ v) m) @ ''])''"
  by (auto simp: generateCreateTableSQL_def Let_def show_gomap_def intro!: exI)

end
