(* ===== verification/Go_Slices.thy ===== *)
theory Go_Slices
  imports Go_Strings
begin

text \<open>
  Go slices with their backing arrays, for the code whose result depends on two slices sharing an array. The
  heap is the list of the arrays; a slice names its array and its length; its capacity is the size of the array.
  The nil slice points at the array 0, which is empty. How far \<^verbatim>\<open>append\<close> grows an array that is full is
  decided by the run-time system: it is the parameter \<open>grow\<close>, which gives at least the needed size.
\<close>

type_synonym arrays = "string list list"

record slice =
  slice_array :: nat
  slice_len :: nat

definition nil_slice :: slice where
  "nil_slice = \<lparr>slice_array = 0, slice_len = 0\<rparr>"

definition empty_heap :: arrays where
  "empty_heap = [[]]"

definition elems :: "arrays \<Rightarrow> slice \<Rightarrow> string list" where
  "elems heap s = take (slice_len s) (heap ! slice_array s)"

text \<open>\<^verbatim>\<open>append(s, x)\<close>: in place when there is room, otherwise in a new array.\<close>

definition append_slice :: "(nat \<Rightarrow> nat \<Rightarrow> nat) \<Rightarrow> arrays \<Rightarrow> slice \<Rightarrow> string \<Rightarrow> arrays \<times> slice" where
  "append_slice grow heap s x =
     (let a = heap ! slice_array s; n = slice_len s
      in if n < length a then (heap[slice_array s := a[n := x]], s\<lparr>slice_len := Suc n\<rparr>)
         else (heap @ [take n a @ x # replicate (grow (length a) (Suc n) - Suc n) []],
               \<lparr>slice_array = length heap, slice_len = Suc n\<rparr>))"

text \<open>\<^verbatim>\<open>sort.Strings(s)\<close> sorts the elements in their array.\<close>

definition sort_slice :: "arrays \<Rightarrow> slice \<Rightarrow> arrays" where
  "sort_slice heap s =
     heap[slice_array s := sort (elems heap s) @ drop (slice_len s) (heap ! slice_array s)]"

definition slice_ok :: "arrays \<Rightarrow> slice \<Rightarrow> bool" where
  "slice_ok heap s \<longleftrightarrow> slice_array s < length heap \<and> slice_len s \<le> length (heap ! slice_array s)"

lemma slice_ok_nil: "slice_ok empty_heap nil_slice" "elems empty_heap nil_slice = []"
  by (simp_all add: slice_ok_def nil_slice_def empty_heap_def elems_def)

text \<open>Appending adds the element to the result, whatever else it does.\<close>

lemma append_slice_elems:
  assumes "slice_ok heap s" and "append_slice grow heap s x = (heap', s')"
  shows "slice_ok heap' s'" and "elems heap' s' = elems heap s @ [x]" and "slice_len s' = Suc (slice_len s)"
    and "\<And>r. slice_ok heap r \<Longrightarrow> slice_ok heap' r"
proof -
  show "slice_ok heap' s'" and "slice_len s' = Suc (slice_len s)"
    using assms by (auto simp: append_slice_def slice_ok_def Let_def split: if_splits)
  show "elems heap' s' = elems heap s @ [x]"
    using assms
    by (auto simp: append_slice_def slice_ok_def elems_def Let_def take_Suc_conv_app_nth nth_append split: if_splits)
  show "\<And>r. slice_ok heap r \<Longrightarrow> slice_ok heap' r"
    using assms by (auto simp: append_slice_def slice_ok_def Let_def nth_list_update nth_append split: if_splits)
qed

text \<open>A slice in another array, or one that ends before, keeps its elements.\<close>

lemma append_slice_other:
  assumes "slice_ok heap s" and "slice_ok heap r" and "append_slice grow heap s x = (heap', s')"
    and "slice_array r \<noteq> slice_array s \<or> slice_len r \<le> slice_len s"
  shows "elems heap' r = elems heap r"
  using assms
  by (auto simp: append_slice_def slice_ok_def elems_def Let_def nth_append nth_list_update split: if_splits)

lemma sort_slice_elems:
  "slice_ok heap s \<Longrightarrow> elems (sort_slice heap s) s = sort (elems heap s)"
  by (simp add: sort_slice_def elems_def slice_ok_def)

lemma sort_slice_ok: "slice_ok heap r \<Longrightarrow> slice_ok (sort_slice heap s) r"
  by (cases "slice_array r = slice_array s") (auto simp: sort_slice_def slice_ok_def elems_def)

end
