(* ===== verification/Table_Naming.thy ===== *)
theory Table_Naming
  imports Presto_SQL
begin

text \<open>
  Names of tables and translation of column types: \<^verbatim>\<open>pkg/operator/reportingutil/util.go\<close>. Strings are
  sequences of bytes; letters and digits are those of ASCII.
\<close>

section \<open>Names\<close>

text \<open>\<^verbatim>\<open>%q\<close> of a string: Go's quoting, for ASCII text.\<close>

definition hex_digit :: "int \<Rightarrow> char" where
  "hex_digit n = (if n < 10 then char_of (48 + n) else char_of (87 + n))"

definition quote_char :: "char \<Rightarrow> string" where
  "quote_char c =
     (let n = (of_char c :: int) in
      if n = 34 \<or> n = 92 then [CHR 0x5C, c]
      else if n = 7 then [CHR 0x5C, CHR ''a'']
      else if n = 8 then [CHR 0x5C, CHR ''b'']
      else if n = 9 then [CHR 0x5C, CHR ''t'']
      else if n = 10 then [CHR 0x5C, CHR ''n'']
      else if n = 11 then [CHR 0x5C, CHR ''v'']
      else if n = 12 then [CHR 0x5C, CHR ''f'']
      else if n = 13 then [CHR 0x5C, CHR ''r'']
      else if n < 32 \<or> n = 127 then [CHR 0x5C, CHR ''x'', hex_digit (n div 16), hex_digit (n mod 16)]
      else [c])"

definition Quote :: "string \<Rightarrow> string" where
  "Quote s = dquote @ concat (map quote_char s) @ dquote"

definition resourceNameReplacer :: "string \<Rightarrow> string" where
  "resourceNameReplacer s = replace_char (CHR ''.'') (CHR ''_'') (replace_char (CHR ''-'') (CHR ''_'') s)"

definition DataSourceTableName :: "string \<Rightarrow> string \<Rightarrow> string" where
  "DataSourceTableName namespace dataSourceName =
     ''datasource_'' @ resourceNameReplacer namespace @ ''_'' @ resourceNameReplacer dataSourceName"

definition ReportTableName :: "string \<Rightarrow> string \<Rightarrow> string" where
  "ReportTableName namespace reportName =
     ''report_'' @ resourceNameReplacer namespace @ ''_'' @ resourceNameReplacer reportName"

definition TableResourceNameFromKind :: "string \<Rightarrow> string \<Rightarrow> string \<Rightarrow> string" where
  "TableResourceNameFromKind kind namespace name = ToLower (kind @ ''-'' @ namespace @ ''-'' @ name)"

definition AWSBillingPeriodTimestamp :: "go_time \<Rightarrow> string" where
  "AWSBillingPeriodTimestamp date = format_date_compact date"

definition FullyQualifiedTableName :: "PrestoTable \<Rightarrow> goerror + string" where
  "FullyQualifiedTableName prestoTable =
     (let errs = (if length (ptst_Catalog (pt_Status prestoTable)) = 0 then [''prestoTable.Status.Catalog is unset''] else []) @
                 (if length (ptst_Schema (pt_Status prestoTable)) = 0 then [''prestoTable.Status.Schema is unset''] else []) @
                 (if length (ptst_TableName (pt_Status prestoTable)) = 0 then [''prestoTable.Status.TableName is unset''] else [])
      in if length errs \<noteq> 0 then Inl (Err (''PrestoTable status is invalid: '' @ join '', '' errs))
         else Inr (presto_FullyQualifiedTableName (ptst_Catalog (pt_Status prestoTable))
                (ptst_Schema (pt_Status prestoTable)) (ptst_TableName (pt_Status prestoTable))))"

definition IsValidSQLIdentifier :: "string \<Rightarrow> bool" where
  "IsValidSQLIdentifier ident =
     (case ident of
        [] \<Rightarrow> False
      | firstChar # rest \<Rightarrow>
          if \<not> is_letter firstChar \<and> firstChar \<noteq> CHR ''_'' then False
          else list_all (\<lambda>r. is_letter r \<or> is_digit r \<or> r = CHR ''_'') rest)"

definition TruncateToMinute :: "go_time \<Rightarrow> go_time" where
  "TruncateToMinute t = Truncate t Minute"

section \<open>Columns\<close>

definition GenerateHiveColumns :: "ReportQuery \<Rightarrow> Column list" where
  "GenerateHiveColumns query = map (\<lambda>col. \<lparr>col_Name = rqc_Name col, col_Type = rqc_Type col\<rparr>) (q_Columns query)"

definition GeneratePrestoColumns :: "ReportQuery \<Rightarrow> Column list" where
  "GeneratePrestoColumns query = map (\<lambda>col. \<lparr>col_Name = rqc_Name col, col_Type = rqc_Type col\<rparr>) (q_Columns query)"

definition SimpleHiveColumnTypeToPrestoColumnType :: "string \<Rightarrow> string" where
  "SimpleHiveColumnTypeToPrestoColumnType colType =
     (let u = ToUpper colType in
      if u \<in> set [''TINYINT'', ''SMALLINT'', ''INT'', ''INTEGER'', ''BIGINT'', ''FLOAT'', ''DOUBLE'', ''BOOLEAN'',
                  ''VARCHAR'', ''CHAR'', ''DATE'', ''TIME'', ''TIMESTAMP'', ''BINARY''] then colType
      else if u = ''STRING'' then ''VARCHAR''
      else [])"

definition SimplePrestoColumnTypeToHiveColumnType :: "string \<Rightarrow> string" where
  "SimplePrestoColumnTypeToHiveColumnType colType =
     (let u = ToUpper colType in
      if u \<in> set [''TINYINT'', ''SMALLINT'', ''INT'', ''INTEGER'', ''BIGINT'', ''FLOAT'', ''DOUBLE'', ''BOOLEAN'',
                  ''CHAR'', ''DATE'', ''TIME'', ''TIMESTAMP'', ''BINARY''] then u
      else if u = ''REAL'' then ''FLOAT''
      else if u = ''VARCHAR'' then ''STRING''
      else [])"

text \<open>
  The slice expression \<^verbatim>\<open>s[i:j]\<close>, which panics out of range.
\<close>

definition slice_str :: "string \<Rightarrow> int \<Rightarrow> int \<Rightarrow> goerror + string" where
  "slice_str s i j =
     (if 0 \<le> i \<and> i \<le> j \<and> j \<le> int (length s) then Inr (take (nat (j - i)) (drop (nat i) s))
      else Inl (GoPanic ''runtime error: slice bounds out of range''))"

text \<open>
  The branch for maps, which the two directions share up to the brackets, the translation of the component types
  and the words of the messages: the components between the first opening and the first closing
  bracket, split at the first comma.
\<close>

definition map_components ::
  "Column \<Rightarrow> string \<Rightarrow> string \<Rightarrow> (string \<Rightarrow> string) \<Rightarrow> string \<Rightarrow> goerror + (string \<times> string)" where
  "map_components column opening closing simple target =
     (let colType = ToUpper (col_Type column) in
      if Contains colType ''ARRAY'' then
        Inl (Err (''cannot convert map containing array into map for Presto, column: '' @ Quote (col_Name column) @
          '', type: '' @ Quote (col_Type column)))
      else
        let beginMapIndex = Index colType opening; endMapIndex = Index colType closing in
        if beginMapIndex = -1 \<or> endMapIndex = -1 then
          Inl (Err (''unable to find matching '' @ opening @ '', '' @ closing @ '' pair for column '' @
            Quote (col_Name column) @ '', type: '' @ Quote (col_Type column)))
        else if beginMapIndex + 1 \<ge> int (length colType) then
          Inl (Err (''invalid map definition in column type, column '' @ Quote (col_Name column) @
            '', type: '' @ Quote (col_Type column)))
        else
          bindR (slice_str colType (beginMapIndex + 1) endMapIndex) (\<lambda>mapComponents.
            (case SplitN2 mapComponents (CHR '','') of
               [k, v] \<Rightarrow>
                 let keyType = TrimSpace k; valueType = TrimSpace v;
                     newKeyType = simple keyType; newValueType = simple valueType
                 in if newKeyType = [] then Inl (Err (''invalid '' @ target @ '' map key type: '' @ Quote keyType))
                    else if newValueType = [] then
                      Inl (Err (''invalid '' @ target @ '' map value type: '' @ Quote valueType))
                    else Inr (newKeyType, newValueType)
             | _ \<Rightarrow>
                 Inl (Err (''invalid map definition in column type, column '' @ Quote (col_Name column) @
                   '', type: '' @ Quote (col_Type column))))))"

definition HiveColumnToPrestoColumn :: "Column \<Rightarrow> goerror + Column" where
  "HiveColumnToPrestoColumn column =
     (let colType = SimpleHiveColumnTypeToPrestoColumnType (col_Type column) in
      if colType \<noteq> [] then Inr \<lparr>col_Name = col_Name column, col_Type = colType\<rparr>
      else if Contains (ToUpper (col_Type column)) ''MAP'' then
        bindR (map_components column ''<'' ''>'' SimpleHiveColumnTypeToPrestoColumnType ''presto'') (\<lambda>(k, v).
          Inr \<lparr>col_Name = col_Name column, col_Type = ''map('' @ k @ '','' @ v @ '')''\<rparr>)
      else Inl (Err (''unsupported hive type: '' @ Quote (col_Type column))))"

definition PrestoColumnToHiveColumn :: "Column \<Rightarrow> goerror + Column" where
  "PrestoColumnToHiveColumn column =
     (let colType = SimplePrestoColumnTypeToHiveColumnType (col_Type column) in
      if colType \<noteq> [] then Inr \<lparr>col_Name = col_Name column, col_Type = colType\<rparr>
      else if Contains (ToUpper (col_Type column)) ''MAP'' then
        bindR (map_components column ''('' '')'' SimplePrestoColumnTypeToHiveColumnType ''hive'') (\<lambda>(k, v).
          Inr \<lparr>col_Name = col_Name column, col_Type = ''MAP<'' @ k @ '','' @ v @ ''>''\<rparr>)
      else Inl (Err (''unsupported hive type: '' @ Quote (col_Type column))))"

definition HiveColumnsToPrestoColumns :: "Column list \<Rightarrow> goerror + Column list" where
  "HiveColumnsToPrestoColumns columns = mapR HiveColumnToPrestoColumn columns"

definition PrestoColumnsToHiveColumns :: "Column list \<Rightarrow> goerror + Column list" where
  "PrestoColumnsToHiveColumns columns = mapR PrestoColumnToHiveColumn columns"

fun ConvertInputDefinitionsIntoInputList :: "ReportQueryInputDefinition list \<Rightarrow> string list" where
  "ConvertInputDefinitionsIntoInputList [] = []"
| "ConvertInputDefinitionsIntoInputList (d # defs) =
     (if def_Required d then def_Name d # ConvertInputDefinitionsIntoInputList defs
      else ConvertInputDefinitionsIntoInputList defs)"

section \<open>Lemmas\<close>

lemma Index_char: "c \<notin> set u \<Longrightarrow> Index (u @ c # w) [c] = int (length u)"
  by (induction u) (auto simp: Let_def)

lemma SplitN2_char: "sep \<notin> set u \<Longrightarrow> SplitN2 (u @ sep # w) sep = [u, w]"
proof -
  assume "sep \<notin> set u"
  then have "dropWhile (\<lambda>c. c \<noteq> sep) (u @ sep # w) = sep # w" "takeWhile (\<lambda>c. c \<noteq> sep) (u @ sep # w) = u"
    by (induction u) auto
  then show ?thesis by (simp add: SplitN2_def)
qed

lemma dropWhile_none: "\<forall>c \<in> set s. \<not> P c \<Longrightarrow> dropWhile P s = s"
  by (cases s) auto

lemma TrimSpace_none: "\<forall>c \<in> set s. \<not> is_space c \<Longrightarrow> TrimSpace s = s"
  by (simp add: TrimSpace_def dropWhile_none)

text \<open>The names of the simple types, in upper case.\<close>

definition presto_types :: "string list" where
  "presto_types = [''TINYINT'', ''SMALLINT'', ''INT'', ''INTEGER'', ''BIGINT'', ''FLOAT'', ''DOUBLE'', ''BOOLEAN'',
     ''VARCHAR'', ''CHAR'', ''DATE'', ''TIME'', ''TIMESTAMP'', ''BINARY'']"

definition hive_types :: "string list" where
  "hive_types = [''TINYINT'', ''SMALLINT'', ''INT'', ''INTEGER'', ''BIGINT'', ''FLOAT'', ''DOUBLE'', ''BOOLEAN'',
     ''CHAR'', ''DATE'', ''TIME'', ''TIMESTAMP'', ''BINARY'', ''STRING'']"

text \<open>Facts of the finitely many simple types, by evaluation.\<close>

definition word_ok :: "string \<Rightarrow> bool" where
  "word_ok t \<longleftrightarrow> t \<noteq> [] \<and> ToUpper t = t \<and> (\<forall>c \<in> set t. c \<notin> set ''<>(),'' \<and> \<not> is_space c)"

lemma types_words: "list_all word_ok presto_types" "list_all word_ok hive_types"
  by code_simp+

lemma simple_there_and_back:
  "list_all (\<lambda>t. SimplePrestoColumnTypeToHiveColumnType t \<in> set hive_types \<and>
     SimpleHiveColumnTypeToPrestoColumnType (SimplePrestoColumnTypeToHiveColumnType t) = t) presto_types"
  by code_simp

lemma no_array_presto:
  "list_all (\<lambda>k. list_all (\<lambda>v. \<not> Contains (''MAP('' @ k @ '','' @ v @ '')'') ''ARRAY'') presto_types) presto_types"
  by code_simp

lemma no_array_hive:
  "list_all (\<lambda>k. list_all (\<lambda>v. \<not> Contains (''MAP<'' @ k @ '','' @ v @ ''>'') ''ARRAY'') hive_types) hive_types"
  by code_simp

lemma SimpleHive_presto: "SimpleHiveColumnTypeToPrestoColumnType t \<noteq> [] \<Longrightarrow>
    ToUpper (SimpleHiveColumnTypeToPrestoColumnType t) \<in> set presto_types"
  by (auto simp: SimpleHiveColumnTypeToPrestoColumnType_def presto_types_def Let_def split: if_splits)
    code_simp

lemma map_components_parse:
  assumes "ToUpper (col_Type col) = ''MAP'' @ [opn] @ k @ '','' @ v @ [cls]" and "word_ok k" and "word_ok v"
    and "\<not> Contains (''MAP'' @ [opn] @ k @ '','' @ v @ [cls]) ''ARRAY''"
    and "(opn, cls) \<in> {(CHR ''<'', CHR ''>''), (CHR ''('', CHR '')'')}"
    and "simple k \<noteq> []" and "simple v \<noteq> []"
  shows "map_components col [opn] [cls] simple target = Inr (simple k, simple v)"
proof -
  let ?t = "''MAP'' @ [opn] @ k @ '','' @ v @ [cls]"
  have ne: "opn \<notin> set ''MAP''" "cls \<notin> set (''MAP'' @ [opn] @ k @ '','' @ v)" "CHR '','' \<notin> set k"
    using assms(2,3,5) by (auto simp: word_ok_def)
  have 1: "Index ?t [opn] = 3"
    using Index_char [OF ne(1), of "k @ '','' @ v @ [cls]"] by simp
  have 2: "Index ?t [cls] = int (length (''MAP'' @ [opn] @ k @ '','' @ v))"
    using Index_char [OF ne(2), of "[]"] by simp
  have 3: "slice_str ?t (3 + 1) (int (length (''MAP'' @ [opn] @ k @ '','' @ v))) = Inr (k @ CHR '','' # v)"
    by (simp add: slice_str_def nat_add_distrib)
  have 4: "SplitN2 (k @ CHR '','' # v) (CHR '','') = [k, v]" by (rule SplitN2_char [OF ne(3)])
  have 5: "TrimSpace k = k" "TrimSpace v = v"
    using assms(2,3) by (simp_all add: word_ok_def TrimSpace_none)
  show ?thesis
    unfolding map_components_def Let_def assms(1) 1 2 3
    using assms(4,6,7) by (simp add: 3 [simplified] 4 5)
qed

lemma ToUpper_append [simp]: "ToUpper (s @ t) = ToUpper s @ ToUpper t"
  by (simp add: ToUpper_def)

lemma in_types:
  "t \<in> set presto_types \<Longrightarrow> word_ok t" "h \<in> set hive_types \<Longrightarrow> word_ok h"
  "t \<in> set presto_types \<Longrightarrow> SimplePrestoColumnTypeToHiveColumnType t \<in> set hive_types"
  "t \<in> set presto_types \<Longrightarrow>
     SimpleHiveColumnTypeToPrestoColumnType (SimplePrestoColumnTypeToHiveColumnType t) = t"
  using types_words simple_there_and_back by (auto simp: list_all_iff)

lemma map_not_simple:
  "SimplePrestoColumnTypeToHiveColumnType (''map('' @ x) = []"
  "SimpleHiveColumnTypeToPrestoColumnType (''MAP<'' @ x) = []"
proof -
  have u: "ToUpper ''map('' = ''MAP(''" "ToUpper ''MAP<'' = ''MAP<''" by code_simp+
  show "SimplePrestoColumnTypeToHiveColumnType (''map('' @ x) = []"
    unfolding SimplePrestoColumnTypeToHiveColumnType_def Let_def ToUpper_append u by simp
  show "SimpleHiveColumnTypeToPrestoColumnType (''MAP<'' @ x) = []"
    unfolding SimpleHiveColumnTypeToPrestoColumnType_def Let_def ToUpper_append u by simp
qed

lemma Contains_prefix [simp]: "Contains (p @ x) p"
  by (auto simp: Contains_iff intro: exI [of _ "[]"])

lemma presto_map_to_hive:
  assumes "ToUpper k = K" and "ToUpper v = V" and "K \<in> set presto_types" and "V \<in> set presto_types"
  shows "PrestoColumnToHiveColumn \<lparr>col_Name = n, col_Type = ''map('' @ k @ '','' @ v @ '')''\<rparr> =
    Inr \<lparr>col_Name = n, col_Type = ''MAP<'' @ SimplePrestoColumnTypeToHiveColumnType K @ '','' @
           SimplePrestoColumnTypeToHiveColumnType V @ ''>''\<rparr>"
proof -
  let ?c = "\<lparr>col_Name = n, col_Type = ''map('' @ k @ '','' @ v @ '')''\<rparr>"
  have "ToUpper ''map('' = ''MAP(''" "ToUpper '','' = '',''" "ToUpper '')'' = '')''" by code_simp+
  with assms(1,2) have u: "ToUpper (col_Type ?c) = ''MAP'' @ [CHR ''(''] @ K @ '','' @ V @ [CHR '')'']"
    by (simp only: ToUpper_append Column.simps) simp
  have "SimplePrestoColumnTypeToHiveColumnType K \<noteq> []" "SimplePrestoColumnTypeToHiveColumnType V \<noteq> []"
    using in_types(2,3) assms(3,4) by (auto simp: word_ok_def)
  moreover have "\<not> Contains (''MAP'' @ [CHR ''(''] @ K @ '','' @ V @ [CHR '')'']) ''ARRAY''"
    using no_array_presto assms(3,4) by (simp add: list_all_iff)
  ultimately have m: "map_components ?c ''('' '')'' SimplePrestoColumnTypeToHiveColumnType ''hive'' =
      Inr (SimplePrestoColumnTypeToHiveColumnType K, SimplePrestoColumnTypeToHiveColumnType V)"
    using in_types(1) assms(3,4) by (intro map_components_parse [OF u]) simp_all
  have "Contains (ToUpper (col_Type ?c)) ''MAP''" unfolding u by (rule Contains_prefix)
  moreover have "SimplePrestoColumnTypeToHiveColumnType (col_Type ?c) = []"
    using map_not_simple(1) [of "k @ '','' @ v @ '')''"] by simp
  ultimately show ?thesis
    unfolding PrestoColumnToHiveColumn_def Let_def m by simp
qed

lemma hive_map_to_presto:
  assumes "k \<in> set hive_types" and "v \<in> set hive_types"
    and "SimpleHiveColumnTypeToPrestoColumnType k \<noteq> []" and "SimpleHiveColumnTypeToPrestoColumnType v \<noteq> []"
  shows "HiveColumnToPrestoColumn \<lparr>col_Name = n, col_Type = ''MAP<'' @ k @ '','' @ v @ ''>''\<rparr> =
    Inr \<lparr>col_Name = n, col_Type = ''map('' @ SimpleHiveColumnTypeToPrestoColumnType k @ '','' @
           SimpleHiveColumnTypeToPrestoColumnType v @ '')''\<rparr>"
proof -
  let ?c = "\<lparr>col_Name = n, col_Type = ''MAP<'' @ k @ '','' @ v @ ''>''\<rparr>"
  have "ToUpper k = k" "ToUpper v = v" using in_types(2) assms by (auto simp: word_ok_def)
  moreover have "ToUpper ''MAP<'' = ''MAP<''" "ToUpper '','' = '',''" "ToUpper ''>'' = ''>''" by code_simp+
  ultimately have u: "ToUpper (col_Type ?c) = ''MAP'' @ [CHR ''<''] @ k @ '','' @ v @ [CHR ''>'']"
    by (simp only: ToUpper_append Column.simps) simp
  have "\<not> Contains (''MAP'' @ [CHR ''<''] @ k @ '','' @ v @ [CHR ''>'']) ''ARRAY''"
    using no_array_hive assms(1,2) by (simp add: list_all_iff)
  then have m: "map_components ?c ''<'' ''>'' SimpleHiveColumnTypeToPrestoColumnType ''presto'' =
      Inr (SimpleHiveColumnTypeToPrestoColumnType k, SimpleHiveColumnTypeToPrestoColumnType v)"
    using in_types(2) assms by (intro map_components_parse [OF u]) simp_all
  have "Contains (ToUpper (col_Type ?c)) ''MAP''" unfolding u by (rule Contains_prefix)
  moreover have "SimpleHiveColumnTypeToPrestoColumnType (col_Type ?c) = []"
    using map_not_simple(2) [of "k @ '','' @ v @ ''>''"] by simp
  ultimately show ?thesis
    unfolding HiveColumnToPrestoColumn_def Let_def m by simp
qed

lemma map_components_types:
  assumes "map_components col opn cls simple target = Inr (k, v)"
  shows "k \<noteq> [] \<and> v \<noteq> [] \<and> (\<exists>x y. k = simple x \<and> v = simple y)"
proof -
  from assms obtain m e where "(case SplitN2 m (CHR '','') of
      [a, b] \<Rightarrow> (if simple (TrimSpace a) = [] then Inl (Err (''invalid '' @ target @ '' map key type: '' @ Quote (TrimSpace a)))
                  else if simple (TrimSpace b) = [] then
                    Inl (Err (''invalid '' @ target @ '' map value type: '' @ Quote (TrimSpace b)))
                  else Inr (simple (TrimSpace a), simple (TrimSpace b)))
    | _ \<Rightarrow> Inl e) = Inr (k, v)"
    unfolding map_components_def Let_def by (auto simp only: bindR_eq_Inr split: if_splits)
  then show ?thesis by (auto split: if_splits list.splits)
qed

lemma hive_to_presto_cases:
  assumes "HiveColumnToPrestoColumn c = Inr p"
  shows "col_Name p = col_Name c \<and>
    (ToUpper (col_Type p) \<in> set presto_types \<or>
     (\<exists>k v. col_Type p = ''map('' @ k @ '','' @ v @ '')'' \<and> ToUpper k \<in> set presto_types \<and> ToUpper v \<in> set presto_types))"
  using assms SimpleHive_presto map_components_types
  by (fastforce simp: HiveColumnToPrestoColumn_def Let_def bindR_eq_Inr split: if_splits)

lemma presto_simple_to_hive:
  assumes "ToUpper (col_Type p) = T" and "T \<in> set presto_types"
  shows "PrestoColumnToHiveColumn p =
    Inr \<lparr>col_Name = col_Name p, col_Type = SimplePrestoColumnTypeToHiveColumnType T\<rparr>"
proof -
  have "ToUpper T = T" using in_types(1) [OF assms(2)] by (simp add: word_ok_def)
  then have "SimplePrestoColumnTypeToHiveColumnType (col_Type p) = SimplePrestoColumnTypeToHiveColumnType T"
    by (simp only: SimplePrestoColumnTypeToHiveColumnType_def assms(1))
  moreover have "SimplePrestoColumnTypeToHiveColumnType T \<noteq> []"
    using in_types(2,3) assms(2) by (auto simp: word_ok_def)
  ultimately show ?thesis by (simp add: PrestoColumnToHiveColumn_def)
qed

section \<open>Properties\<close>

text \<open>
  A column type that is translated from Hive to Presto can always be translated back, and translating the
  result to Presto again gives the same Presto type up to the case of its letters, for simple types
  and for maps of simple types; the column keeps its name.
\<close>

theorem column_types_there_and_back:
  assumes "HiveColumnToPrestoColumn c = Inr p"
  shows "\<exists>h p'. PrestoColumnToHiveColumn p = Inr h \<and> HiveColumnToPrestoColumn h = Inr p' \<and>
    col_Name p = col_Name c \<and> col_Name p' = col_Name c \<and> ToUpper (col_Type p') = ToUpper (col_Type p)"
proof -
  consider (simple) T where "ToUpper (col_Type p) = T" "T \<in> set presto_types"
    | (map) k v K V where "col_Type p = ''map('' @ k @ '','' @ v @ '')''" "ToUpper k = K" "ToUpper v = V"
        "K \<in> set presto_types" "V \<in> set presto_types"
    using hive_to_presto_cases [OF assms] by blast
  then show ?thesis
  proof cases
    case simple
    note t = in_types(1,3,4) [OF simple(2)]
    let ?h = "\<lparr>col_Name = col_Name p, col_Type = SimplePrestoColumnTypeToHiveColumnType T\<rparr>"
    have "HiveColumnToPrestoColumn ?h = Inr \<lparr>col_Name = col_Name p, col_Type = T\<rparr>"
      using t by (simp add: HiveColumnToPrestoColumn_def word_ok_def)
    then show ?thesis
      using presto_simple_to_hive [OF simple] hive_to_presto_cases [OF assms] t(1) simple
      by (auto simp: word_ok_def)
  next
    case map
    let ?K = "SimplePrestoColumnTypeToHiveColumnType K" and ?V = "SimplePrestoColumnTypeToHiveColumnType V"
    have p: "p = \<lparr>col_Name = col_Name p, col_Type = ''map('' @ k @ '','' @ v @ '')''\<rparr>" using map(1) by simp
    have "HiveColumnToPrestoColumn \<lparr>col_Name = col_Name p, col_Type = ''MAP<'' @ ?K @ '','' @ ?V @ ''>''\<rparr> =
        Inr \<lparr>col_Name = col_Name p, col_Type = ''map('' @ K @ '','' @ V @ '')''\<rparr>"
      using hive_map_to_presto [of ?K ?V] in_types(1,3,4) map(4,5) by (auto simp: word_ok_def)
    moreover have "PrestoColumnToHiveColumn p = Inr \<lparr>col_Name = col_Name p, col_Type = ''MAP<'' @ ?K @ '','' @ ?V @ ''>''\<rparr>"
      using presto_map_to_hive [OF map(2-5), of "col_Name p"] p by simp
    moreover have "ToUpper (''map('' @ K @ '','' @ V @ '')'') = ToUpper (col_Type p)"
    proof -
      have "ToUpper K = K" "ToUpper V = V" using in_types(1) map(4,5) by (auto simp: word_ok_def)
      then show ?thesis by (simp only: map(1-3) ToUpper_append)
    qed
    moreover have "col_Name p = col_Name c" using hive_to_presto_cases [OF assms] by blast
    ultimately show ?thesis by simp
  qed
qed

lemma labels_column: "HiveColumnToPrestoColumn \<lparr>col_Name = ''labels'', col_Type = ''map<string, string>''\<rparr> =
    Inr \<lparr>col_Name = ''labels'', col_Type = ''map(VARCHAR,VARCHAR)''\<rparr>"
  by code_simp

theorem column_types_there_and_back_witness:
  "\<exists>h p'. PrestoColumnToHiveColumn \<lparr>col_Name = ''labels'', col_Type = ''map(VARCHAR,VARCHAR)''\<rparr> = Inr h \<and>
     HiveColumnToPrestoColumn h = Inr p' \<and> ToUpper (col_Type p') = ToUpper ''map(VARCHAR,VARCHAR)''"
  using column_types_there_and_back [OF labels_column] by auto

text \<open>
  For a namespace and a name of letters, digits, dots and dashes, which Kubernetes names are, the table name
  of a ReportDataSource and of a Report is a valid SQL identifier.
\<close>

theorem table_names_valid:
  assumes "\<forall>c \<in> set (namespace @ name). is_letter c \<or> is_digit c \<or> c = CHR ''-'' \<or> c = CHR ''.''"
  shows "IsValidSQLIdentifier (DataSourceTableName namespace name) \<and> IsValidSQLIdentifier (ReportTableName namespace name)"
proof -
  have r: "\<forall>c \<in> set (resourceNameReplacer s). is_letter c \<or> is_digit c \<or> c = CHR ''_''"
    if "\<forall>c \<in> set s. is_letter c \<or> is_digit c \<or> c = CHR ''-'' \<or> c = CHR ''.''" for s
    using that by (auto simp: resourceNameReplacer_def replace_char_def)
  have l: "list_all (\<lambda>r. is_letter r \<or> is_digit r \<or> r = CHR ''_'') ''atasource_''" "is_letter (CHR ''d'')"
    "list_all (\<lambda>r. is_letter r \<or> is_digit r \<or> r = CHR ''_'') ''eport_''" "is_letter (CHR ''r'')"
    by code_simp+
  show ?thesis
    using r [of namespace] r [of name] assms l
    by (simp add: IsValidSQLIdentifier_def DataSourceTableName_def ReportTableName_def list_all_iff ball_Un)
qed

theorem table_names_valid_witness:
  "IsValidSQLIdentifier (DataSourceTableName ''openshift-metering'' ''node.v1'') \<and>
   IsValidSQLIdentifier (ReportTableName ''openshift-metering'' ''node.v1'')"
  by (rule table_names_valid) code_simp

text \<open>
  Table names do not determine the resource: a dash and a dot in a name become the separator between namespace
  and name, so resources of different namespaces, and of the same one, share a table name.
\<close>

theorem table_names_collide:
  "DataSourceTableName (ns @ ''-'' @ x) y = DataSourceTableName ns (x @ ''-'' @ y) \<and>
   ReportTableName (ns @ ''-'' @ x) y = ReportTableName ns (x @ ''-'' @ y) \<and>
   ReportTableName ns (x @ ''.'' @ y) = ReportTableName ns (x @ ''-'' @ y)"
  by (simp add: DataSourceTableName_def ReportTableName_def resourceNameReplacer_def replace_char_def)

text \<open>
  A Hive map type in which the closing bracket precedes the opening one makes the translation panic.
\<close>

lemma crossed_brackets_panic:
  "HiveColumnToPrestoColumn \<lparr>col_Name = ''c'', col_Type = ''map> <a,b''\<rparr> =
     Inl (GoPanic ''runtime error: slice bounds out of range'')"
  by code_simp

end
