(* ===== verification/Work_Queues.thy ===== *)
theory Work_Queues
  imports Effects
begin

text \<open>
  The work queues of the operator, \<^verbatim>\<open>pkg/operator/queues.go\<close>: putting resources on a queue, the handlers of the
  informer events that need nothing but the queues, and the worker loop that takes a key from a
  queue, runs the resource's handler and decides whether the key is tried again. The queues
  themselves (\<^verbatim>\<open>client-go/util/workqueue\<close>) are services.
\<close>

section \<open>Putting resources on a queue\<close>

definition enqueueReport :: "Report \<Rightarrow> unit op" where
  "enqueueReport report = emit (QueueAdd ReportQueue (MetaNamespaceKeyFunc report))"

definition enqueueReportAfter :: "Report \<Rightarrow> duration \<Rightarrow> unit op" where
  "enqueueReportAfter report d = emit (QueueAddAfter ReportQueue (MetaNamespaceKeyFunc report) d)"

definition enqueueReportDataSource :: "ReportDataSource \<Rightarrow> unit op" where
  "enqueueReportDataSource ds = emit (QueueAdd ReportDataSourceQueue (MetaNamespaceKeyFunc ds))"

definition enqueueReportDataSourceAfter :: "ReportDataSource \<Rightarrow> duration \<Rightarrow> unit op" where
  "enqueueReportDataSourceAfter ds d = emit (QueueAddAfter ReportDataSourceQueue (MetaNamespaceKeyFunc ds) d)"

definition enqueueReportQuery :: "ReportQuery \<Rightarrow> unit op" where
  "enqueueReportQuery query = emit (QueueAdd ReportQueryQueue (MetaNamespaceKeyFunc query))"

definition enqueuePrestoTable :: "PrestoTable \<Rightarrow> unit op" where
  "enqueuePrestoTable table = emit (QueueAdd PrestoTableQueue (MetaNamespaceKeyFunc table))"

definition enqueueHiveTable :: "HiveTable \<Rightarrow> unit op" where
  "enqueueHiveTable table = emit (QueueAdd HiveTableQueue (MetaNamespaceKeyFunc table))"

definition enqueueStorageLocation :: "StorageLocation \<Rightarrow> unit op" where
  "enqueueStorageLocation storageLocation = emit (QueueAdd StorageLocationQueue (MetaNamespaceKeyFunc storageLocation))"

lemmas enqueue_defs = enqueueReport_def enqueueReportAfter_def enqueueReportDataSource_def
  enqueueReportDataSourceAfter_def enqueueReportQuery_def enqueuePrestoTable_def enqueueHiveTable_def
  enqueueStorageLocation_def

section \<open>Informer events\<close>

text \<open>
  What an informer hands to a delete handler: the object, a tombstone with the object or with
  something else, or something that is neither. In the last two cases the handler reads the name of a nil
  pointer.
\<close>

datatype 'a deleted = Obj 'a | Tombstone 'a | TombstoneOther | NotTombstone

definition deleted_obj :: "'a deleted \<Rightarrow> goerror + 'a" where
  "deleted_obj obj =
     (case obj of
        Obj x \<Rightarrow> Inr x
      | Tombstone x \<Rightarrow> Inr x
      | _ \<Rightarrow> Inl (GoPanic ''runtime error: invalid memory address or nil pointer dereference''))"

definition deleteReport :: "Report deleted \<Rightarrow> (goerror + unit) op" where
  "deleteReport obj =
     (case deleted_obj obj of
        Inl e \<Rightarrow> State_Monad.return (Inl e)
      | Inr report \<Rightarrow> do {
          emit (QueueAdd ReportQueue (MetaNamespaceKeyFunc report));
          State_Monad.return (Inr ())
        })"

definition addReport :: "Report \<Rightarrow> (goerror + unit) op" where
  "addReport report =
     (if DeletionTimestamp report \<noteq> None then deleteReport (Obj report)
      else do { enqueueReport report; State_Monad.return (Inr ()) })"

definition updateReport :: "Report \<Rightarrow> Report \<Rightarrow> (goerror + unit) op" where
  "updateReport prevReport curReport =
     (if DeletionTimestamp curReport \<noteq> None then deleteReport (Obj curReport)
      else if ResourceVersion curReport = ResourceVersion prevReport then State_Monad.return (Inr ())
      else if r_Spec prevReport = r_Spec curReport then State_Monad.return (Inr ())
      else do { enqueueReport curReport; State_Monad.return (Inr ()) })"

definition deleteReportDataSource :: "ReportDataSource deleted \<Rightarrow> (goerror + unit) op" where
  "deleteReportDataSource obj =
     (case deleted_obj obj of
        Inl e \<Rightarrow> State_Monad.return (Inl e)
      | Inr dataSource \<Rightarrow> do {
          emit (QueueAdd ReportDataSourceQueue (MetaNamespaceKeyFunc dataSource));
          State_Monad.return (Inr ())
        })"

definition addReportDataSource :: "ReportDataSource \<Rightarrow> (goerror + unit) op" where
  "addReportDataSource ds =
     (if DeletionTimestamp ds \<noteq> None then deleteReportDataSource (Obj ds)
      else do { enqueueReportDataSource ds; State_Monad.return (Inr ()) })"

definition updateReportDataSource :: "ReportDataSource \<Rightarrow> ReportDataSource \<Rightarrow> (goerror + unit) op" where
  "updateReportDataSource prev cur =
     (if DeletionTimestamp cur \<noteq> None then deleteReportDataSource (Obj cur)
      else
        let isProm = (dspec_PrometheusMetricsImporter (ds_Spec cur) \<noteq> None);
            sameSpec = (ds_Spec cur = ds_Spec prev);
            importStatusChanged = (dstat_PrometheusMetricsImportStatus (ds_Status cur) \<noteq>
                                   dstat_PrometheusMetricsImportStatus (ds_Status prev))
        in if isProm \<and> sameSpec \<and> importStatusChanged then State_Monad.return (Inr ())
           else do { enqueueReportDataSource cur; State_Monad.return (Inr ()) })"

definition addReportQuery :: "ReportQuery \<Rightarrow> unit op" where
  "addReportQuery query = enqueueReportQuery query"

text \<open>The fields of the spec are those of the record that are not metadata.\<close>

definition updateReportQuery :: "ReportQuery \<Rightarrow> ReportQuery \<Rightarrow> unit op" where
  "updateReportQuery prev cur =
     (if ResourceVersion cur = ResourceVersion prev then State_Monad.return ()
      else if (q_Columns prev, q_Query prev, q_Inputs prev) = (q_Columns cur, q_Query cur, q_Inputs cur)
      then State_Monad.return ()
      else enqueueReportQuery cur)"

section \<open>The worker\<close>

text \<open>An item of a queue is a key or something else.\<close>

datatype queue_item = Key string | NotKey string

definition getKeyFromQueueObj :: "queue_name \<Rightarrow> queue_item \<Rightarrow> string option op" where
  "getKeyFromQueueObj queue obj =
     (case obj of
        Key key \<Rightarrow> State_Monad.return (Some key)
      | NotKey s \<Rightarrow> do { emit (QueueForget queue s); State_Monad.return None })"

definition handleErr ::
  "'x env_scheme \<Rightarrow> goerror option \<Rightarrow> queue_name \<Rightarrow> string \<Rightarrow> int \<Rightarrow> unit op" where
  "handleErr env err queue key maxRequeues =
     (case err of
        None \<Rightarrow> emit (QueueForget queue key)
      | Some e \<Rightarrow> do {
          n \<leftarrow> peek (\<lambda>h. queue_NumRequeues env h queue key);
          (if maxRequeues = -1 \<or> n < maxRequeues then emit (QueueAddRateLimited queue key)
           else emit (QueueForget queue key))
        })"

text \<open>A handler that panics ends the worker: nothing is done with the key.\<close>

definition runHandler ::
  "'x env_scheme \<Rightarrow> (string \<Rightarrow> goerror option op) \<Rightarrow> queue_item \<Rightarrow> queue_name \<Rightarrow> int \<Rightarrow> (goerror + unit) op" where
  "runHandler env handlerFunc obj queue maxRequeues = do {
     k \<leftarrow> getKeyFromQueueObj queue obj;
     (case k of
        None \<Rightarrow> State_Monad.return (Inr ())
      | Some key \<Rightarrow> do {
          err \<leftarrow> handlerFunc key;
          (case err of
             Some (GoPanic m) \<Rightarrow> State_Monad.return (Inl (GoPanic m))
           | _ \<Rightarrow> do { handleErr env err queue key maxRequeues; State_Monad.return (Inr ()) })
        })
   }"

text \<open>
  The item that the queue answers; \<open>None\<close>: the queue is shutting down. The deferred \<^verbatim>\<open>Done\<close> also runs when
  the handler panics.
\<close>

definition item_text :: "queue_item \<Rightarrow> string" where
  "item_text obj = (case obj of Key key \<Rightarrow> key | NotKey s \<Rightarrow> s)"

definition processResource ::
  "'x env_scheme \<Rightarrow> (string \<Rightarrow> goerror option op) \<Rightarrow> queue_name \<Rightarrow> int \<Rightarrow> queue_item option \<Rightarrow> (goerror + bool) op" where
  "processResource env handlerFunc queue maxRequeues item =
     (case item of
        None \<Rightarrow> State_Monad.return (Inr False)
      | Some obj \<Rightarrow> do {
          r \<leftarrow> runHandler env handlerFunc obj queue maxRequeues;
          emit (QueueDone queue (item_text obj));
          State_Monad.return (bindR r (\<lambda>_. Inr True))
        })"

section \<open>Namespaces\<close>

text \<open>
  A handler of informer events, and the wrapper that only passes on the events of objects in the target
  namespaces. \<open>ns\<close> gives the namespace of what the informer hands over; what is not an object with
  metadata, such as a tombstone, has none.
\<close>

record 'o event_handler =
  on_add :: "'o \<Rightarrow> (goerror + unit) op"
  on_update :: "'o \<Rightarrow> 'o \<Rightarrow> (goerror + unit) op"
  on_delete :: "'o \<Rightarrow> (goerror + unit) op"

definition inTargetNamespace :: "('o \<Rightarrow> string option) \<Rightarrow> string list \<Rightarrow> 'o \<Rightarrow> bool" where
  "inTargetNamespace ns targetNamespaces obj =
     (case ns obj of None \<Rightarrow> False | Some n \<Rightarrow> list_ex (\<lambda>targetNS. n = targetNS) targetNamespaces)"

definition OnAdd ::
  "('o \<Rightarrow> string option) \<Rightarrow> string list \<Rightarrow> 'o event_handler \<Rightarrow> 'o \<Rightarrow> (goerror + unit) op" where
  "OnAdd ns targetNamespaces handler obj =
     (if inTargetNamespace ns targetNamespaces obj then on_add handler obj else State_Monad.return (Inr ()))"

definition OnUpdate ::
  "('o \<Rightarrow> string option) \<Rightarrow> string list \<Rightarrow> 'o event_handler \<Rightarrow> 'o \<Rightarrow> 'o \<Rightarrow> (goerror + unit) op" where
  "OnUpdate ns targetNamespaces handler oldObj newObj =
     (if inTargetNamespace ns targetNamespaces oldObj \<and> inTargetNamespace ns targetNamespaces newObj
      then on_update handler oldObj newObj else State_Monad.return (Inr ()))"

definition OnDelete ::
  "('o \<Rightarrow> string option) \<Rightarrow> string list \<Rightarrow> 'o event_handler \<Rightarrow> 'o \<Rightarrow> (goerror + unit) op" where
  "OnDelete ns targetNamespaces handler obj =
     (if inTargetNamespace ns targetNamespaces obj then on_delete handler obj else State_Monad.return (Inr ()))"

definition newInTargetNamespaceEventHandler ::
  "('o \<Rightarrow> string option) \<Rightarrow> 'o event_handler \<Rightarrow> string list \<Rightarrow> 'o event_handler" where
  "newInTargetNamespaceEventHandler ns handler targetNamespaces =
     (if length targetNamespaces = 0 then handler
      else \<lparr>on_add = OnAdd ns targetNamespaces handler, on_update = OnUpdate ns targetNamespaces handler,
            on_delete = OnDelete ns targetNamespaces handler\<rparr>)"

section \<open>Properties\<close>


text \<open>An environment in which every update succeeds and nothing is found.\<close>

definition quiet_env :: env where
  "quiet_env = \<lparr>clock_Now = \<lambda>_. 0, metav1_Now = \<lambda>_. (0, 0), jitter = \<lambda>_ _. 0, poll_ticks = \<lambda>_ _ _. 0, ctx_Done = \<lambda>_. None,
     hive_Exec = \<lambda>_ _. None, presto_Query = \<lambda>_ _. Inl (Err []), prom_QueryRange = \<lambda>_ _ _. Inl (Err []),
     fmt_float = \<lambda>_. [], fmt_seconds = \<lambda>_. [],
     lister_Report = \<lambda>_ _ _. Inl (Err []), lister_Reports = \<lambda>_ _. Inr [],
     lister_ReportDataSource = \<lambda>_ _ _. Inl (Err []), lister_ReportDataSources = \<lambda>_ _. Inr [],
     lister_ReportQuery = \<lambda>_ _ _. Inl (Err []), lister_ReportQueries = \<lambda>_ _. Inr [],
     lister_PrestoTable = \<lambda>_ _ _. Inl (Err []), lister_PrestoTables = \<lambda>_ _. Inr [],
     lister_HiveTable = \<lambda>_ _ _. Inl (Err []), lister_StorageLocation = \<lambda>_ _ _. Inl (Err []),
     lister_StorageLocations = \<lambda>_ _. Inr [],
     client_UpdateReport = \<lambda>_. Inr, client_UpdateReportDataSource = \<lambda>_. Inr, client_UpdateHiveTable = \<lambda>_. Inr,
     client_UpdatePrestoTable = \<lambda>_. Inr, client_UpdateStorageLocation = \<lambda>_. Inr,
     client_CreateReportDataSource = \<lambda>_. Inr, client_CreateHiveTable = \<lambda>_. Inr, client_CreatePrestoTable = \<lambda>_. Inr,
     client_GetReportDataSource = \<lambda>_ _ _. Inl (Err []), client_GetHiveTable = \<lambda>_ _ _. Inl (Err []),
     client_GetPrestoTable = \<lambda>_ _ _. Inl (Err []), client_ListReportQueries = \<lambda>_ _. Inr [],
     client_ListReportDataSources = \<lambda>_ _. Inr [], queue_NumRequeues = \<lambda>_ _ _. 5\<rparr>"


text \<open>
  A report whose update changed nothing in its spec, such as one that the operator made to its
  status, is not queued again; one that is marked for deletion is.
\<close>

lemma updateReport_skips_status:
  "DeletionTimestamp cur = None \<Longrightarrow> r_Spec prev = r_Spec cur \<Longrightarrow>
   run_state (updateReport prev cur) h = (Inr (), h)"
  by (simp add: updateReport_def)

lemma updateReport_deleted:
  "DeletionTimestamp cur \<noteq> None \<Longrightarrow>
   run_state (updateReport prev cur) h = (Inr (), h @ [QueueAdd ReportQueue (MetaNamespaceKeyFunc cur)])"
  by (simp add: updateReport_def deleteReport_def deleted_obj_def)

text \<open>
  With target namespaces, the deletion of an object that the informer only knows from a tombstone never
  reaches the handler: a tombstone is not an object with metadata.
\<close>

definition deleted_namespace :: "'a ObjectMeta_scheme deleted \<Rightarrow> string option" where
  "deleted_namespace obj = (case obj of Obj x \<Rightarrow> Some (Namespace x) | _ \<Rightarrow> None)"

lemma tombstones_dropped:
  "targets \<noteq> [] \<Longrightarrow>
   run_state (on_delete (newInTargetNamespaceEventHandler deleted_namespace handler targets) (Tombstone x)) h = (Inr (), h)"
  by (simp add: newInTargetNamespaceEventHandler_def OnDelete_def inTargetNamespace_def deleted_namespace_def)

lemma other_namespaces_ignored:
  assumes "targets \<noteq> []" and "Namespace x \<notin> set targets"
  shows "run_state (on_add (newInTargetNamespaceEventHandler deleted_namespace handler targets) (Obj x)) h = (Inr (), h)"
    and "run_state (on_delete (newInTargetNamespaceEventHandler deleted_namespace handler targets) (Obj x)) h = (Inr (), h)"
  using assms
  by (auto simp: newInTargetNamespaceEventHandler_def OnDelete_def OnAdd_def inTargetNamespace_def
      deleted_namespace_def list_ex_iff)

end
