(* ===== verification/Dependencies.thy ===== *)
theory Dependencies
  imports Table_Naming Work_Queues
begin

text \<open>
  The dependencies of a report query: the resolver of \<^verbatim>\<open>pkg/operator/reporting/dependencies.go\<close> and the
  validation of \<^verbatim>\<open>pkg/operator/reporting/validate.go\<close>. The getters (\<^verbatim>\<open>getters.go\<close>) are lookups in the informer
  caches, which hold one state for the whole resolution. The recursion is bounded by the number of
  levels that are left below \<^verbatim>\<open>maxDepth\<close>.
\<close>

section \<open>Input values\<close>

datatype input_value = IVString string | IVTime go_time | IVInt int

text \<open>
  \<^verbatim>\<open>json.Unmarshal\<close> of a value into a string, an int or a time: \<^verbatim>\<open>null\<close> leaves the zero value. The parser
  of RFC 3339 times is a parameter.
\<close>

fun json_kind :: "json \<Rightarrow> string" where
  "json_kind JNull = ''null''"
| "json_kind (JBool _) = ''bool''"
| "json_kind (JNum _) = ''number''"
| "json_kind (JStr _) = ''string''"
| "json_kind JArray = ''array''"
| "json_kind JObject = ''object''"

definition unmarshal_error :: "string \<Rightarrow> string \<Rightarrow> goerror" where
  "unmarshal_error kind ty = Err (''json: cannot unmarshal '' @ kind @ '' into Go value of type '' @ ty)"

fun unmarshal_string :: "json \<Rightarrow> goerror + string" where
  "unmarshal_string JNull = Inr []"
| "unmarshal_string (JStr s) = Inr s"
| "unmarshal_string j = Inl (unmarshal_error (json_kind j) ''string'')"

fun digits_value :: "int \<Rightarrow> string \<Rightarrow> int option" where
  "digits_value acc [] = Some acc"
| "digits_value acc (c # cs) =
     (if is_digit c then digits_value (10 * acc + (of_char c - 48)) cs else None)"

definition parse_int :: "string \<Rightarrow> int option" where
  "parse_int s =
     (let neg = (s \<noteq> [] \<and> hd s = CHR ''-''); ds = (if neg then tl s else s)
      in if ds = [] then None
         else (case digits_value 0 ds of
                 None \<Rightarrow> None
               | Some n \<Rightarrow> let v = (if neg then - n else n) in if is_int64 v then Some v else None))"

fun unmarshal_int :: "json \<Rightarrow> goerror + int" where
  "unmarshal_int JNull = Inr 0"
| "unmarshal_int (JNum s) =
     (case parse_int s of Some n \<Rightarrow> Inr n | None \<Rightarrow> Inl (unmarshal_error (''number '' @ s) ''int''))"
| "unmarshal_int j = Inl (unmarshal_error (json_kind j) ''int'')"

text \<open>\<^verbatim>\<open>time.Time.UnmarshalJSON\<close> parses the raw text as a quoted RFC 3339 time.\<close>

definition unmarshal_time :: "(string \<Rightarrow> goerror + go_time) \<Rightarrow> RawMessage \<Rightarrow> goerror + go_time" where
  "unmarshal_time parse raw = (case raw_json raw of JNull \<Rightarrow> Inr 0 | _ \<Rightarrow> parse (raw_text raw))"

section \<open>The resolver\<close>

definition maxDepth :: nat where "maxDepth = 50"

definition ReportingStartInputName :: string where "ReportingStartInputName = ''ReportingStart''"
definition ReportingEndInputName :: string where "ReportingEndInputName = ''ReportingEnd''"

record DependencyResolver =
  GetReportQuery :: "string \<Rightarrow> string \<Rightarrow> goerror + ReportQuery"
  GetReportDataSourceByName :: "string \<Rightarrow> string \<Rightarrow> goerror + ReportDataSource"
  GetReportByName :: "string \<Rightarrow> string \<Rightarrow> goerror + Report"
  ParseTime :: "string \<Rightarrow> goerror + go_time"

record resolverContext =
  reportAccumulator :: "Report gomap"
  queryAccumulator :: "ReportQuery gomap"
  datasourceAccumulator :: "ReportDataSource gomap"
  inputValues :: "input_value gomap"

definition newResolverContext :: resolverContext where
  "newResolverContext = \<lparr>reportAccumulator = [], queryAccumulator = [], datasourceAccumulator = [], inputValues = []\<rparr>"

text \<open>\<open>rec ctx defs\<close> stands for the nested \<^verbatim>\<open>resolveDependencies\<close> with nil input values.\<close>

type_synonym nested = "resolverContext \<Rightarrow> ReportQueryInputDefinition list \<Rightarrow> goerror + resolverContext"

definition resolveQuery ::
  "DependencyResolver \<Rightarrow> nested \<Rightarrow> string \<Rightarrow> resolverContext \<Rightarrow> string \<Rightarrow> goerror + resolverContext" where
  "resolveQuery resolver rec namespace ctx queryName =
     (if map_of (queryAccumulator ctx) queryName \<noteq> None then Inr ctx
      else bindR (GetReportQuery resolver namespace queryName) (\<lambda>query.
        bindR (rec ctx (q_Inputs query)) (\<lambda>ctx'.
          Inr (ctx'\<lparr>queryAccumulator := map_set (Name query) query (queryAccumulator ctx')\<rparr>))))"

definition resolveDataSource ::
  "DependencyResolver \<Rightarrow> nested \<Rightarrow> string \<Rightarrow> resolverContext \<Rightarrow> string \<Rightarrow> goerror + resolverContext" where
  "resolveDataSource resolver rec namespace ctx dsName =
     (if map_of (datasourceAccumulator ctx) dsName \<noteq> None then Inr ctx
      else bindR (GetReportDataSourceByName resolver namespace dsName) (\<lambda>datasource.
        bindR (case dspec_ReportQueryView (ds_Spec datasource) of
                 Some v \<Rightarrow> resolveQuery resolver rec namespace ctx (view_QueryName v)
               | None \<Rightarrow> Inr ctx) (\<lambda>ctx'.
          Inr (ctx'\<lparr>datasourceAccumulator := map_set (Name datasource) datasource (datasourceAccumulator ctx')\<rparr>))))"

definition resolveReport ::
  "DependencyResolver \<Rightarrow> nested \<Rightarrow> string \<Rightarrow> resolverContext \<Rightarrow> string \<Rightarrow> goerror + resolverContext" where
  "resolveReport resolver rec namespace ctx reportName =
     (if map_of (reportAccumulator ctx) reportName \<noteq> None then Inr ctx
      else bindR (GetReportByName resolver namespace reportName) (\<lambda>report.
        bindR (resolveQuery resolver rec namespace ctx (rspec_QueryName (r_Spec report))) (\<lambda>ctx'.
          Inr (ctx'\<lparr>reportAccumulator := map_set (Name report) report (reportAccumulator ctx')\<rparr>))))"

text \<open>The type that decides how an input is read.\<close>

definition inputType :: "ReportQueryInputDefinition \<Rightarrow> string" where
  "inputType d =
     (if def_Name d = ReportingStartInputName \<or> def_Name d = ReportingEndInputName then ''time''
      else ToLower (def_Type d))"

definition invalid_input_error :: "ReportQueryInputDefinition \<Rightarrow> RawMessage \<Rightarrow> goerror \<Rightarrow> goerror" where
  "invalid_input_error d raw e =
     wrap (\<lambda>m. ''inputs Name: '' @ def_Name d @ '' is not valid a '' @ squote @ inputType d @ squote @
       '': value: '' @ squote @ raw_text raw @ squote @ '', err: '' @ m) e"

definition unmarshalled :: "ReportQueryInputDefinition \<Rightarrow> RawMessage \<Rightarrow> goerror + 'a \<Rightarrow> goerror + 'a" where
  "unmarshalled d raw r = (case r of Inl e \<Rightarrow> Inl (invalid_input_error d raw e) | Inr v \<Rightarrow> Inr v)"

text \<open>The body of the switch: the value of the input, and the context after its dependencies.\<close>

definition resolveInput ::
  "DependencyResolver \<Rightarrow> nested \<Rightarrow> string \<Rightarrow> resolverContext \<Rightarrow> ReportQueryInputDefinition \<Rightarrow> RawMessage \<Rightarrow>
   goerror + (resolverContext \<times> input_value)" where
  "resolveInput resolver rec namespace ctx d raw =
     (let it = inputType d;
          reference = (\<lambda>resolve. bindR (unmarshalled d raw (unmarshal_string (raw_json raw))) (\<lambda>name.
             bindR (resolve resolver rec namespace ctx name) (\<lambda>ctx'. Inr (ctx', IVString name))))
      in if it = [] \<or> it = ''string'' then
           bindR (unmarshalled d raw (unmarshal_string (raw_json raw))) (\<lambda>s. Inr (ctx, IVString s))
         else if it = ''time'' then
           bindR (unmarshalled d raw (unmarshal_time (ParseTime resolver) raw)) (\<lambda>t. Inr (ctx, IVTime t))
         else if it = ''int'' \<or> it = ''integer'' then
           bindR (unmarshalled d raw (unmarshal_int (raw_json raw))) (\<lambda>n. Inr (ctx, IVInt n))
         else if it = ''reportdatasource'' then reference resolveDataSource
         else if it = ''reportquery'' then reference resolveQuery
         else if it = ''report'' then reference resolveReport
         else Inl (Err (''unsupported input type '' @ it)))"

fun resolveDefs ::
  "DependencyResolver \<Rightarrow> nested \<Rightarrow> string \<Rightarrow> ReportQueryInputValue gomap \<Rightarrow> resolverContext \<Rightarrow>
   ReportQueryInputDefinition list \<Rightarrow> goerror + resolverContext" where
  "resolveDefs resolver rec namespace given ctx [] = Inr ctx"
| "resolveDefs resolver rec namespace given ctx (d # defs) =
     (if map_of (inputValues ctx) (def_Name d) \<noteq> None then resolveDefs resolver rec namespace given ctx defs
      else
        (let givenVal = (case map_of given (def_Name d) of None \<Rightarrow> None | Some v \<Rightarrow> val_Value v);
             inputVal = (if givenVal = None \<and> def_Default d \<noteq> None then def_Default d else givenVal)
         in case inputVal of
              None \<Rightarrow> resolveDefs resolver rec namespace given ctx defs
            | Some raw \<Rightarrow>
                bindR (resolveInput resolver rec namespace ctx d raw) (\<lambda>(ctx', v).
                  resolveDefs resolver rec namespace given
                    (ctx'\<lparr>inputValues := map_set (def_Name d) v (inputValues ctx')\<rparr>) defs)))"

text \<open>The given values by name; a value without a definition is refused.\<close>

fun givenInputs ::
  "ReportQueryInputDefinition list \<Rightarrow> ReportQueryInputValue gomap \<Rightarrow> ReportQueryInputValue list \<Rightarrow>
   goerror + ReportQueryInputValue gomap" where
  "givenInputs inputDefs given [] = Inr given"
| "givenInputs inputDefs given (val # vals) =
     (if \<not> list_ex (\<lambda>d. def_Name d = val_Name val) inputDefs then
        Inl (Err (''invalid input '' @ Quote (val_Name val) @ '', supported inputs: '' @
          join '' ,'' (map def_Name inputDefs)))
      else givenInputs inputDefs (map_set (val_Name val) val given) vals)"

text \<open>\<open>left\<close>: how many levels are left, \<^verbatim>\<open>maxDepth - depth\<close>.\<close>

primrec resolveDependencies ::
  "nat \<Rightarrow> DependencyResolver \<Rightarrow> string \<Rightarrow> resolverContext \<Rightarrow> ReportQueryInputDefinition list \<Rightarrow>
   ReportQueryInputValue list \<Rightarrow> goerror + resolverContext" where
  "resolveDependencies 0 resolver namespace ctx inputDefs inputVals =
     Inl (Err (''detected a cycle at depth '' @ show_int (int maxDepth)))"
| "resolveDependencies (Suc left) resolver namespace ctx inputDefs inputVals =
     bindR (givenInputs inputDefs [] inputVals) (\<lambda>given.
       resolveDefs resolver (\<lambda>ctx' defs. resolveDependencies left resolver namespace ctx' defs []) namespace given
         ctx inputDefs)"

record ReportQueryDependencies =
  deps_ReportQueries :: "ReportQuery list"
  deps_ReportDataSources :: "ReportDataSource list"
  deps_Reports :: "Report list"

record DependencyResolutionResult =
  res_Dependencies :: ReportQueryDependencies
  res_InputValues :: "input_value gomap"

definition ResolveDependencies ::
  "DependencyResolver \<Rightarrow> string \<Rightarrow> ReportQueryInputDefinition list \<Rightarrow> ReportQueryInputValue list \<Rightarrow>
   goerror + DependencyResolutionResult" where
  "ResolveDependencies resolver namespace inputDefs inputVals =
     bindR (resolveDependencies maxDepth resolver namespace newResolverContext inputDefs inputVals) (\<lambda>ctx.
       Inr \<lparr>res_Dependencies =
              \<lparr>deps_ReportQueries = sort_key Name (map snd (queryAccumulator ctx)),
               deps_ReportDataSources = sort_key Name (map snd (datasourceAccumulator ctx)),
               deps_Reports = sort_key Name (map snd (reportAccumulator ctx))\<rparr>,
            res_InputValues = inputValues ctx\<rparr>)"

definition GetQueryDependencies ::
  "DependencyResolver \<Rightarrow> ReportQuery \<Rightarrow> ReportQueryInputValue list \<Rightarrow> goerror + ReportQueryDependencies" where
  "GetQueryDependencies resolver query inputVals =
     bindR (ResolveDependencies resolver (Namespace query) (q_Inputs query) inputVals) (\<lambda>r. Inr (res_Dependencies r))"

section \<open>Validation\<close>

text \<open>The handler of uninitialized data sources, nil or a function.\<close>

type_synonym uninitialized_handler = "(ReportDataSource \<Rightarrow> unit op) option"

definition ValidateQueryDependencies ::
  "ReportQueryDependencies \<Rightarrow> uninitialized_handler \<Rightarrow> goerror option op" where
  "ValidateQueryDependencies deps handler =
     (let uninitializedDataSources =
            filter (\<lambda>ds. dstat_TableRef (ds_Status ds) = []) (deps_ReportDataSources deps);
          uninitializedDataSourceNames = map Name uninitializedDataSources;
          uninitializedReportNames = map Name (filter (\<lambda>r. rstat_TableRef (r_Status r) = []) (deps_Reports deps))
      in do {
        (case handler of
           None \<Rightarrow> State_Monad.return ()
         | Some f \<Rightarrow> for_each f uninitializedDataSources);
        State_Monad.return
          (if uninitializedDataSourceNames \<noteq> [] \<or> uninitializedReportNames \<noteq> []
           then Some (DepsErr uninitializedDataSourceNames uninitializedReportNames) else None)
      })"

definition GetAndValidateQueryDependencies ::
  "DependencyResolver \<Rightarrow> ReportQuery \<Rightarrow> ReportQueryInputValue list \<Rightarrow> uninitialized_handler \<Rightarrow>
   (goerror + ReportQueryDependencies) op" where
  "GetAndValidateQueryDependencies resolver query inputVals handler =
     (case GetQueryDependencies resolver query inputVals of
        Inl e \<Rightarrow> State_Monad.return (Inl e)
      | Inr deps \<Rightarrow> do {
          err \<leftarrow> ValidateQueryDependencies deps handler;
          State_Monad.return (case err of Some e \<Rightarrow> Inl e | None \<Rightarrow> Inr deps)
        })"

definition IsUninitializedDependencyError :: "goerror \<Rightarrow> bool" where
  "IsUninitializedDependencyError err =
     (case err of DepsErr dss rs \<Rightarrow> dss \<noteq> [] \<or> rs \<noteq> [] | _ \<Rightarrow> False)"

definition IsInvalidDependencyError :: "goerror \<Rightarrow> bool" where
  "IsInvalidDependencyError err = (case err of DepsErr _ _ \<Rightarrow> True | _ \<Rightarrow> False)"

text \<open>The handler of the operator: \<^verbatim>\<open>uninitialiedDependendenciesHandler\<close> of \<^verbatim>\<open>reportquery.go\<close>.\<close>

definition uninitialiedDependendenciesHandler :: uninitialized_handler where
  "uninitialiedDependendenciesHandler = Some enqueueReportDataSource"

section \<open>What the resolver keeps\<close>

text \<open>
  The lister answers the object that was asked for.
\<close>

definition getters_ok :: "DependencyResolver \<Rightarrow> bool" where
  "getters_ok resolver \<longleftrightarrow>
     (\<forall>ns n q. GetReportQuery resolver ns n = Inr q \<longrightarrow> Name q = n) \<and>
     (\<forall>ns n d. GetReportDataSourceByName resolver ns n = Inr d \<longrightarrow> Name d = n) \<and>
     (\<forall>ns n r. GetReportByName resolver ns n = Inr r \<longrightarrow> Name r = n)"

text \<open>
  The invariant of a context: every accumulated object is the one that the getter answers for its name, and the
  queries of the accumulated reports and views are accumulated.
\<close>

definition ctx_inv :: "DependencyResolver \<Rightarrow> string \<Rightarrow> resolverContext \<Rightarrow> bool" where
  "ctx_inv resolver ns ctx \<longleftrightarrow>
     (\<forall>n q. map_of (queryAccumulator ctx) n = Some q \<longrightarrow> GetReportQuery resolver ns n = Inr q) \<and>
     (\<forall>n d. map_of (datasourceAccumulator ctx) n = Some d \<longrightarrow> GetReportDataSourceByName resolver ns n = Inr d \<and>
        (\<forall>v. dspec_ReportQueryView (ds_Spec d) = Some v \<longrightarrow>
           view_QueryName v \<in> fst ` set (queryAccumulator ctx))) \<and>
     (\<forall>n r. map_of (reportAccumulator ctx) n = Some r \<longrightarrow> GetReportByName resolver ns n = Inr r \<and>
        rspec_QueryName (r_Spec r) \<in> fst ` set (queryAccumulator ctx)) \<and>
     distinct (map fst (queryAccumulator ctx)) \<and> distinct (map fst (datasourceAccumulator ctx)) \<and>
     distinct (map fst (reportAccumulator ctx))"

text \<open>Accumulators only grow.\<close>

definition grows :: "resolverContext \<Rightarrow> resolverContext \<Rightarrow> bool" where
  "grows ctx ctx' \<longleftrightarrow>
     fst ` set (queryAccumulator ctx) \<subseteq> fst ` set (queryAccumulator ctx') \<and>
     fst ` set (datasourceAccumulator ctx) \<subseteq> fst ` set (datasourceAccumulator ctx') \<and>
     fst ` set (reportAccumulator ctx) \<subseteq> fst ` set (reportAccumulator ctx')"

definition keeps :: "DependencyResolver \<Rightarrow> string \<Rightarrow> resolverContext \<Rightarrow> goerror + resolverContext \<Rightarrow> bool" where
  "keeps resolver ns ctx r \<longleftrightarrow>
     (\<forall>ctx'. r = Inr ctx' \<longrightarrow> ctx_inv resolver ns ctx \<longrightarrow> ctx_inv resolver ns ctx' \<and> grows ctx ctx')"

definition nested_ok :: "DependencyResolver \<Rightarrow> string \<Rightarrow> nested \<Rightarrow> bool" where
  "nested_ok resolver ns rec \<longleftrightarrow> (\<forall>ctx defs. keeps resolver ns ctx (rec ctx defs))"

lemma grows_refl [simp]: "grows ctx ctx"
  by (simp add: grows_def)

lemma grows_trans: "grows a b \<Longrightarrow> grows b c \<Longrightarrow> grows a c"
  unfolding grows_def by (meson subset_trans)

lemma keeps_Inl [simp]: "keeps resolver ns ctx (Inl e)"
  by (simp add: keeps_def)

lemma keeps_refl [simp]: "keeps resolver ns ctx (Inr ctx)"
  by (simp add: keeps_def)

lemma map_of_key: "map_of m k \<noteq> None \<longleftrightarrow> k \<in> fst ` set m"
  by (metis map_of_eq_None_iff)

lemma keeps_bindR:
  assumes "keeps resolver ns ctx r" and "\<And>ctx'. r = Inr ctx' \<Longrightarrow> keeps resolver ns ctx' (f ctx')"
  shows "keeps resolver ns ctx (bindR r f)"
  using assms by (cases r) (auto simp: keeps_def intro: grows_trans)

text \<open>Adding a fetched object under its name keeps the invariant.\<close>

lemma ctx_inv_add_query:
  assumes "getters_ok resolver" and "GetReportQuery resolver ns n = Inr q"
  shows "keeps resolver ns ctx (Inr (ctx\<lparr>queryAccumulator := map_set (Name q) q (queryAccumulator ctx)\<rparr>))"
  using assms by (auto simp: keeps_def ctx_inv_def grows_def getters_ok_def)

lemma ctx_inv_add_datasource:
  assumes "getters_ok resolver" and "GetReportDataSourceByName resolver ns n = Inr d"
    and "\<And>v. dspec_ReportQueryView (ds_Spec d) = Some v \<Longrightarrow> view_QueryName v \<in> fst ` set (queryAccumulator ctx)"
  shows "keeps resolver ns ctx (Inr (ctx\<lparr>datasourceAccumulator := map_set (Name d) d (datasourceAccumulator ctx)\<rparr>))"
  using assms by (auto simp: keeps_def ctx_inv_def grows_def getters_ok_def)

lemma ctx_inv_add_report:
  assumes "getters_ok resolver" and "GetReportByName resolver ns n = Inr r"
    and "rspec_QueryName (r_Spec r) \<in> fst ` set (queryAccumulator ctx)"
  shows "keeps resolver ns ctx (Inr (ctx\<lparr>reportAccumulator := map_set (Name r) r (reportAccumulator ctx)\<rparr>))"
  using assms by (auto simp: keeps_def ctx_inv_def grows_def getters_ok_def)

lemma keeps_resolveQuery:
  assumes "getters_ok resolver" and "nested_ok resolver ns rec"
  shows "keeps resolver ns ctx (resolveQuery resolver rec ns ctx n)"
  unfolding resolveQuery_def
  using assms ctx_inv_add_query
  by (cases "GetReportQuery resolver ns n") (auto simp: nested_ok_def intro!: keeps_bindR)

lemma resolveQuery_adds:
  assumes "getters_ok resolver" and "resolveQuery resolver rec ns ctx n = Inr ctx'"
  shows "n \<in> fst ` set (queryAccumulator ctx')"
proof (cases "map_of (queryAccumulator ctx) n = None")
  case True
  then obtain q c where "GetReportQuery resolver ns n = Inr q"
    "ctx' = c\<lparr>queryAccumulator := map_set (Name q) q (queryAccumulator c)\<rparr>"
    using assms(2) by (auto simp: resolveQuery_def bindR_eq_Inr)
  then show ?thesis using assms(1) by (auto simp: getters_ok_def)
next
  case False
  then show ?thesis using assms(2) map_of_key by (fastforce simp: resolveQuery_def)
qed

lemma keeps_resolveDataSource:
  assumes "getters_ok resolver" and "nested_ok resolver ns rec"
  shows "keeps resolver ns ctx (resolveDataSource resolver rec ns ctx n)"
proof (cases "GetReportDataSourceByName resolver ns n")
  case (Inl e)
  then show ?thesis by (simp add: resolveDataSource_def)
next
  case (Inr d)
  let ?q = "case dspec_ReportQueryView (ds_Spec d) of
      Some v \<Rightarrow> resolveQuery resolver rec ns ctx (view_QueryName v) | None \<Rightarrow> Inr ctx"
  have "keeps resolver ns ctx ?q"
    by (simp add: keeps_resolveQuery [OF assms] split: option.split)
  then have "keeps resolver ns ctx (bindR ?q (\<lambda>ctx'.
      Inr (ctx'\<lparr>datasourceAccumulator := map_set (Name d) d (datasourceAccumulator ctx')\<rparr>)))"
    using resolveQuery_adds [OF assms(1)]
    by (intro keeps_bindR ctx_inv_add_datasource [OF assms(1) Inr]) (auto split: option.splits)
  then show ?thesis using Inr by (simp add: resolveDataSource_def)
qed

lemma keeps_resolveReport:
  assumes "getters_ok resolver" and "nested_ok resolver ns rec"
  shows "keeps resolver ns ctx (resolveReport resolver rec ns ctx n)"
proof (cases "GetReportByName resolver ns n")
  case (Inl e)
  then show ?thesis by (simp add: resolveReport_def)
next
  case (Inr r)
  have "keeps resolver ns ctx (bindR (resolveQuery resolver rec ns ctx (rspec_QueryName (r_Spec r))) (\<lambda>ctx'.
      Inr (ctx'\<lparr>reportAccumulator := map_set (Name r) r (reportAccumulator ctx')\<rparr>)))"
    using resolveQuery_adds [OF assms(1)]
    by (intro keeps_bindR keeps_resolveQuery assms ctx_inv_add_report [OF assms(1) Inr]) auto
  then show ?thesis using Inr by (simp add: resolveReport_def)
qed

lemma ctx_inv_inputValues [simp]:
  "ctx_inv resolver ns (ctx\<lparr>inputValues := vs\<rparr>) \<longleftrightarrow> ctx_inv resolver ns ctx"
  "grows a (ctx\<lparr>inputValues := vs\<rparr>) \<longleftrightarrow> grows a ctx"
  "grows (ctx\<lparr>inputValues := vs\<rparr>) b \<longleftrightarrow> grows ctx b"
  by (simp_all add: ctx_inv_def grows_def)

lemma keeps_resolveInput:
  assumes "getters_ok resolver" and "nested_ok resolver ns rec"
    and "resolveInput resolver rec ns ctx d raw = Inr (ctx', v)"
  shows "keeps resolver ns ctx (Inr ctx')"
  using assms(3) keeps_resolveQuery [OF assms(1,2)] keeps_resolveDataSource [OF assms(1,2)]
    keeps_resolveReport [OF assms(1,2)]
  unfolding resolveInput_def Let_def
  by (auto simp: bindR_eq_Inr split: if_splits) metis+

lemma keeps_resolveDefs:
  assumes "getters_ok resolver" and "nested_ok resolver ns rec"
  shows "keeps resolver ns ctx (resolveDefs resolver rec ns given ctx defs)"
proof (induction defs arbitrary: ctx)
  case Nil
  then show ?case by simp
next
  case (Cons d defs)
  have "keeps resolver ns ctx (bindR (resolveInput resolver rec ns ctx d raw) (\<lambda>(ctx', v).
      resolveDefs resolver rec ns given (ctx'\<lparr>inputValues := map_set (def_Name d) v (inputValues ctx')\<rparr>) defs))" for raw
  proof (cases "resolveInput resolver rec ns ctx d raw")
    case (Inr r)
    obtain c v where [simp]: "r = (c, v)" by (cases r)
    have "keeps resolver ns ctx (Inr c)" using keeps_resolveInput [OF assms] Inr by simp
    then show ?thesis
      using Inr Cons.IH [of "c\<lparr>inputValues := map_set (def_Name d) v (inputValues c)\<rparr>"]
      by (auto simp: keeps_def intro: grows_trans)
  qed simp
  then show ?case using Cons.IH by (simp add: Let_def split: option.split)
qed

lemma resolveDependencies_keeps:
  assumes "getters_ok resolver"
  shows "keeps resolver ns ctx (resolveDependencies n resolver ns ctx defs vals)"
proof (induction n arbitrary: ctx defs vals)
  case 0
  then show ?case by simp
next
  case (Suc n)
  have "nested_ok resolver ns (\<lambda>ctx' defs. resolveDependencies n resolver ns ctx' defs [])"
    using Suc.IH by (simp add: nested_ok_def)
  from keeps_resolveDefs [OF assms this] show ?case
    by (cases "givenInputs defs [] vals") simp_all
qed

lemma acc_lookup: "distinct (map fst m) \<Longrightarrow> (k, v) \<in> set m \<Longrightarrow> map_of m k = Some v"
  by (rule map_of_is_SomeI)

lemma ctx_inv_query:
  assumes "getters_ok resolver" and "ctx_inv resolver ns ctx" and "(n, q) \<in> set (queryAccumulator ctx)"
  shows "Name q = n \<and> GetReportQuery resolver ns n = Inr q"
proof -
  have "map_of (queryAccumulator ctx) n = Some q" using assms(2,3) by (intro acc_lookup) (simp_all add: ctx_inv_def)
  then show ?thesis using assms(1,2) unfolding ctx_inv_def getters_ok_def by blast
qed

lemma ctx_inv_datasource:
  assumes "getters_ok resolver" and "ctx_inv resolver ns ctx" and "(n, d) \<in> set (datasourceAccumulator ctx)"
  shows "Name d = n \<and> GetReportDataSourceByName resolver ns n = Inr d \<and>
    (\<forall>v. dspec_ReportQueryView (ds_Spec d) = Some v \<longrightarrow> view_QueryName v \<in> fst ` set (queryAccumulator ctx))"
proof -
  have "map_of (datasourceAccumulator ctx) n = Some d" using assms(2,3) by (intro acc_lookup) (simp_all add: ctx_inv_def)
  then show ?thesis using assms(1,2) unfolding ctx_inv_def getters_ok_def by blast
qed

lemma ctx_inv_report:
  assumes "getters_ok resolver" and "ctx_inv resolver ns ctx" and "(n, r) \<in> set (reportAccumulator ctx)"
  shows "Name r = n \<and> GetReportByName resolver ns n = Inr r \<and>
    rspec_QueryName (r_Spec r) \<in> fst ` set (queryAccumulator ctx)"
proof -
  have "map_of (reportAccumulator ctx) n = Some r" using assms(2,3) by (intro acc_lookup) (simp_all add: ctx_inv_def)
  then show ?thesis using assms(1,2) unfolding ctx_inv_def getters_ok_def by blast
qed

lemma sorted_by_name:
  assumes "\<And>n x. (n, x) \<in> set m \<Longrightarrow> Name x = n" and "distinct (map fst m)"
  shows "sorted_wrt (<) (map Name (sort_key Name (map snd m)))"
proof -
  have "map Name (map snd m) = map fst m" using assms(1) by auto
  then have "distinct (map Name (sort_key Name (map snd m)))"
    using assms(2) by (metis distinct_map distinct_sort set_sort)
  then show ?thesis by (simp add: strict_sorted_iff)
qed

section \<open>Properties\<close>


text \<open>A namespace with the query \<open>pods\<close>, a view of it and a report over it.\<close>

definition meta_query :: "string \<Rightarrow> ReportQueryInputDefinition list \<Rightarrow> ReportQuery" where
  "meta_query n inputs = \<lparr>Name = n, Namespace = ''ns'', Labels = [], Annotations = [], Finalizers = [],
     DeletionTimestamp = None, ResourceVersion = ''1'', OwnerReferences = [],
     q_Columns = [], q_Query = ''SELECT 1'', q_Inputs = inputs\<rparr>"

definition view_datasource :: "string \<Rightarrow> string \<Rightarrow> string \<Rightarrow> ReportDataSource" where
  "view_datasource n query tableRef = \<lparr>Name = n, Namespace = ''ns'', Labels = [], Annotations = [], Finalizers = [],
     DeletionTimestamp = None, ResourceVersion = ''1'', OwnerReferences = [],
     ds_Spec = \<lparr>dspec_PrometheusMetricsImporter = None, dspec_AWSBilling = None, dspec_PrestoTable = None,
       dspec_ReportQueryView = Some \<lparr>view_QueryName = query, view_Inputs = [], view_Storage = None\<rparr>\<rparr>,
     ds_Status = \<lparr>dstat_TableRef = tableRef, dstat_PrometheusMetricsImportStatus = None\<rparr>\<rparr>"

definition input_def :: "string \<Rightarrow> string \<Rightarrow> string \<Rightarrow> ReportQueryInputDefinition" where
  "input_def n ty dflt = \<lparr>def_Name = n, def_Required = False, def_Type = ty,
     def_Default = Some \<lparr>raw_text = dquote @ dflt @ dquote, raw_json = JStr dflt\<rparr>\<rparr>"

definition sample_resolver :: DependencyResolver where
  "sample_resolver =
     \<lparr>GetReportQuery = \<lambda>ns n. if n = ''pods'' then Inr (meta_query n [input_def ''Window'' ''string'' ''day''])
                        else Inl (APIErr ReasonNotFound n),
      GetReportDataSourceByName = \<lambda>ns n. if n = ''pods-view'' then Inr (view_datasource n ''pods'' ''t'')
                        else Inl (APIErr ReasonNotFound n),
      GetReportByName = \<lambda>ns n. Inl (APIErr ReasonNotFound n),
      ParseTime = \<lambda>s. Inl (Err s)\<rparr>"

lemma sample_resolver_ok: "getters_ok sample_resolver"
  by (auto simp: getters_ok_def sample_resolver_def meta_query_def view_datasource_def)

lemma sample_resolution:
  "ResolveDependencies sample_resolver ''ns'' [input_def ''Source'' ''ReportDataSource'' ''pods-view''] [] =
     Inr \<lparr>res_Dependencies = \<lparr>deps_ReportQueries = [meta_query ''pods'' [input_def ''Window'' ''string'' ''day'']],
            deps_ReportDataSources = [view_datasource ''pods-view'' ''pods'' ''t''], deps_Reports = []\<rparr>,
          res_InputValues = [(''Window'', IVString ''day''), (''Source'', IVString ''pods-view'')]\<rparr>"
  by code_simp




text \<open>
  An input value that the report gives is lost when an earlier input refers to a query that has an input of the same
  name: the default of the nested query is recorded first, and the given value is then taken for
  resolved. Here the report asks for a month and the query is rendered for a day.
\<close>

theorem nested_default_hides_given_value:
  "bindR (ResolveDependencies sample_resolver ''ns''
       [input_def ''Source'' ''ReportDataSource'' ''pods-view'', input_def ''Window'' ''string'' ''week'']
       [\<lparr>val_Name = ''Window'', val_Value = Some \<lparr>raw_text = dquote @ ''month'' @ dquote, raw_json = JStr ''month''\<rparr>\<rparr>])
     (\<lambda>res. Inr (map_of (res_InputValues res) ''Window'')) = Inr (Some (IVString ''day''))"
  by code_simp

text \<open>
  The validation of dependencies succeeds exactly when every data source and every report among them has a table. It
  puts each data source without a table on the queue, in order, and its error names exactly
  the data sources and reports without a table.
\<close>

theorem validation_of_dependencies:
  "run_state (ValidateQueryDependencies deps uninitialiedDependendenciesHandler) h =
    (let dss = filter (\<lambda>ds. dstat_TableRef (ds_Status ds) = []) (deps_ReportDataSources deps);
         rs = filter (\<lambda>r. rstat_TableRef (r_Status r) = []) (deps_Reports deps)
     in (if dss = [] \<and> rs = [] then None else Some (DepsErr (map Name dss) (map Name rs)),
         h @ map (\<lambda>ds. QueueAdd ReportDataSourceQueue (MetaNamespaceKeyFunc ds)) dss))"
proof -
  have "run_state (for_each enqueueReportDataSource dss) h =
      ((), h @ map (\<lambda>ds. QueueAdd ReportDataSourceQueue (MetaNamespaceKeyFunc ds)) dss)" for dss h
    by (induction dss arbitrary: h) (simp_all add: enqueueReportDataSource_def)
  then show ?thesis
    by (simp add: ValidateQueryDependencies_def uninitialiedDependendenciesHandler_def Let_def)
qed

end
