(* ===== verification/Templates.thy ===== *)
theory Templates
  imports Dependencies
begin

text \<open>
  Rendering of query templates, \<^verbatim>\<open>pkg/operator/reporting/templates.go\<close>. The template engine (\<^verbatim>\<open>text/template\<close> with the
  functions of \<^verbatim>\<open>sprig\<close>) is a parameter: from the functions that the templates may call, the text of the template and
  its context it makes an error or the rendered text. A template that renders another query calls back into
  \<open>RenderQuery\<close>; the nesting is bounded by the goroutine's stack, which the first argument counts down.
\<close>

record ReportQueryTemplateContext =
  tctx_Namespace :: string
  tctx_Query :: string
  tctx_RequiredInputs :: "string list"
  tctx_Reports :: "Report list"
  tctx_ReportQueries :: "ReportQuery list"
  tctx_ReportDataSources :: "ReportDataSource list"
  tctx_PrestoTables :: "PrestoTable list"

record ReportTemplateInfo =
  ti_ReportingStart :: "go_time option"
  ti_ReportingEnd :: "go_time option"
  ti_Inputs :: "input_value gomap"

record TemplateContext =
  tc_Report :: ReportTemplateInfo

section \<open>Functions of the templates\<close>

text \<open>The table that a resource of the context refers to.\<close>

definition tableRefName :: "ReportQueryTemplateContext \<Rightarrow> string \<Rightarrow> string \<Rightarrow> goerror + string" where
  "tableRefName ctx name tableRef =
     (if tableRef = [] then Inl (Err (name @ '' tableRef is empty''))
      else (case find (\<lambda>t. Name t = tableRef) (tctx_PrestoTables ctx) of
              Some prestoTable \<Rightarrow> FullyQualifiedTableName prestoTable
            | None \<Rightarrow> Inl (Err (''tableRef PrestoTable '' @ tableRef @ '' not found''))))"

definition dataSourceTableName :: "ReportQueryTemplateContext \<Rightarrow> string \<Rightarrow> goerror + string" where
  "dataSourceTableName ctx name =
     (case find (\<lambda>ds. Name ds = name) (tctx_ReportDataSources ctx) of
        Some ds \<Rightarrow> tableRefName ctx (Name ds) (dstat_TableRef (ds_Status ds))
      | None \<Rightarrow> Inl (Err (''ReportDataSource '' @ name @ '' dependency not found'')))"

definition reportTableName :: "ReportQueryTemplateContext \<Rightarrow> string \<Rightarrow> goerror + string" where
  "reportTableName ctx name =
     (case find (\<lambda>r. Name r = name) (tctx_Reports ctx) of
        Some r \<Rightarrow> tableRefName ctx (Name r) (rstat_TableRef (r_Status r))
      | None \<Rightarrow> Inl (Err (''Report '' @ name @ '' dependency not found'')))"

text \<open>
  An argument of the timestamp functions: a time, a pointer to a time, a string, or another value (with its
  text). The parser of RFC 3339 times is a parameter.
\<close>

datatype template_value = TVTime go_time | TVTimePtr "go_time option" | TVString string | TVOther string

definition TimestampFormat ::
  "(string \<Rightarrow> goerror + go_time) \<Rightarrow> template_value \<Rightarrow> (go_time \<Rightarrow> string) \<Rightarrow> goerror + string" where
  "TimestampFormat parseRFC3339 input format =
     (case input of
        TVTime v \<Rightarrow> Inr (format v)
      | TVTimePtr None \<Rightarrow> Inl (Err ''got nil timestamp'')
      | TVTimePtr (Some v) \<Rightarrow> Inr (format v)
      | TVString v \<Rightarrow> bindR (parseRFC3339 v) (\<lambda>d. Inr (format d))
      | TVOther s \<Rightarrow> Inl (Err (''couldn'' @ squote @ ''t convert '' @ s @ '' to a Presto timestamp'')))"

definition PrometheusMetricPartitionFormat :: "(string \<Rightarrow> goerror + go_time) \<Rightarrow> template_value \<Rightarrow> goerror + string" where
  "PrometheusMetricPartitionFormat parseRFC3339 input = TimestampFormat parseRFC3339 input format_date"

definition PrestoTimestamp :: "(string \<Rightarrow> goerror + go_time) \<Rightarrow> template_value \<Rightarrow> goerror + string" where
  "PrestoTimestamp parseRFC3339 input = TimestampFormat parseRFC3339 input format_presto"

record template_funcs =
  tf_prestoTimestamp :: "template_value \<Rightarrow> goerror + string"
  tf_billingPeriodTimestamp :: "go_time \<Rightarrow> string"
  tf_prometheusMetricPartitionFormat :: "template_value \<Rightarrow> goerror + string"
  tf_reportTableName :: "string \<Rightarrow> goerror + string"
  tf_dataSourceTableName :: "string \<Rightarrow> goerror + string"
  tf_renderReportQuery :: "string \<Rightarrow> TemplateContext \<Rightarrow> goerror + string"

text \<open>The engine parses the template, and executes what it parsed.\<close>

record template_engine =
  te_Parse :: "string \<Rightarrow> goerror option"
  te_Execute :: "template_funcs \<Rightarrow> string \<Rightarrow> TemplateContext \<Rightarrow> goerror + string"
  te_ParseRFC3339 :: "string \<Rightarrow> goerror + go_time"

section \<open>Rendering\<close>

definition missingInputs :: "ReportQueryTemplateContext \<Rightarrow> TemplateContext \<Rightarrow> string list" where
  "missingInputs ctx tmplCtx =
     sort (filter (\<lambda>i. i \<notin> set (map fst (ti_Inputs (tc_Report tmplCtx)))) (remdups (tctx_RequiredInputs ctx)))"

definition renderReportQuery ::
  "(ReportQueryTemplateContext \<Rightarrow> TemplateContext \<Rightarrow> goerror + string) \<Rightarrow> ReportQueryTemplateContext \<Rightarrow> string \<Rightarrow>
   TemplateContext \<Rightarrow> goerror + string" where
  "renderReportQuery render ctx name tmplCtx =
     (case find (\<lambda>q. Name q = name) (tctx_ReportQueries ctx) of
        None \<Rightarrow> Inl (Err (''unknown ReportQuery '' @ name))
      | Some reportQuery \<Rightarrow>
          let newCtx = ctx\<lparr>tctx_RequiredInputs := ConvertInputDefinitionsIntoInputList (q_Inputs reportQuery),
                           tctx_Query := q_Query reportQuery\<rparr>
          in (case render newCtx tmplCtx of
                Inl e \<Rightarrow> Inl (wrap (\<lambda>m. ''unable to render query '' @ name @ '', err: '' @ m) e)
              | Inr s \<Rightarrow> Inr s))"

definition templateFuncMap ::
  "(ReportQueryTemplateContext \<Rightarrow> TemplateContext \<Rightarrow> goerror + string) \<Rightarrow> template_engine \<Rightarrow>
   ReportQueryTemplateContext \<Rightarrow> template_funcs" where
  "templateFuncMap render engine ctx =
     \<lparr>tf_prestoTimestamp = PrestoTimestamp (te_ParseRFC3339 engine), tf_billingPeriodTimestamp = AWSBillingPeriodTimestamp,
      tf_prometheusMetricPartitionFormat = PrometheusMetricPartitionFormat (te_ParseRFC3339 engine),
      tf_reportTableName = reportTableName ctx, tf_dataSourceTableName = dataSourceTableName ctx,
      tf_renderReportQuery = renderReportQuery render ctx\<rparr>"

primrec RenderQuery ::
  "nat \<Rightarrow> template_engine \<Rightarrow> ReportQueryTemplateContext \<Rightarrow> TemplateContext \<Rightarrow> goerror + string" where
  "RenderQuery 0 engine ctx tmplCtx = Inl (GoPanic ''stack overflow'')"
| "RenderQuery (Suc stack) engine ctx tmplCtx =
     (if length (missingInputs ctx tmplCtx) \<noteq> 0
      then Inl (Err (''missing inputs: '' @ join '', '' (missingInputs ctx tmplCtx)))
      else (case te_Parse engine (tctx_Query ctx) of
              Some e \<Rightarrow> Inl (wrap (\<lambda>m. ''error parsing query: '' @ m) e)
            | None \<Rightarrow>
                (case te_Execute engine (templateFuncMap (RenderQuery stack engine) engine ctx) (tctx_Query ctx) tmplCtx of
                   Inl e \<Rightarrow> Inl (wrap (\<lambda>m. ''error executing template: '' @ m) e)
                 | Inr s \<Rightarrow> Inr s)))"

section \<open>Properties\<close>

text \<open>The missing inputs are the required ones that are not given, in order and each once.\<close>

lemma missingInputs_spec:
  "set (missingInputs ctx tmplCtx) = set (tctx_RequiredInputs ctx) - fst ` set (ti_Inputs (tc_Report tmplCtx)) \<and>
   sorted_wrt (<) (missingInputs ctx tmplCtx)"
proof -
  have "distinct (missingInputs ctx tmplCtx)" by (simp add: missingInputs_def)
  then show ?thesis by (auto simp: missingInputs_def strict_sorted_iff)
qed

text \<open>
  a query is rendered only when every input that it requires is given; otherwise the error lists exactly the required
  inputs that are missing, sorted and each once, and the template is not executed.
\<close>

lemma render_requires_inputs:
  "if set (tctx_RequiredInputs ctx) \<subseteq> fst ` set (ti_Inputs (tc_Report tmplCtx))
   then \<exists>parsed executed. RenderQuery (Suc stack) engine ctx tmplCtx =
     (case te_Parse engine (tctx_Query ctx) of Some e \<Rightarrow> parsed e | None \<Rightarrow>
        executed (te_Execute engine (templateFuncMap (RenderQuery stack engine) engine ctx) (tctx_Query ctx) tmplCtx)) \<and>
     (\<forall>s. executed (Inr s) = Inr s)
   else \<exists>missing. RenderQuery (Suc stack) engine ctx tmplCtx = Inl (Err (''missing inputs: '' @ join '', '' missing)) \<and>
     set missing = set (tctx_RequiredInputs ctx) - fst ` set (ti_Inputs (tc_Report tmplCtx)) \<and> sorted_wrt (<) missing"
proof (cases "missingInputs ctx tmplCtx = []")
  case True
  then have "set (tctx_RequiredInputs ctx) \<subseteq> fst ` set (ti_Inputs (tc_Report tmplCtx))"
    using missingInputs_spec [of ctx tmplCtx] by auto
  moreover have "RenderQuery (Suc stack) engine ctx tmplCtx =
      (case te_Parse engine (tctx_Query ctx) of Some e \<Rightarrow> Inl (wrap (\<lambda>m. ''error parsing query: '' @ m) e) | None \<Rightarrow>
         (\<lambda>r. case r of Inl e \<Rightarrow> Inl (wrap (\<lambda>m. ''error executing template: '' @ m) e) | Inr s \<Rightarrow> Inr s)
           (te_Execute engine (templateFuncMap (RenderQuery stack engine) engine ctx) (tctx_Query ctx) tmplCtx))"
    using True by (simp split: option.split)
  ultimately show ?thesis by (auto intro!: exI)
next
  case False
  then have "\<not> set (tctx_RequiredInputs ctx) \<subseteq> fst ` set (ti_Inputs (tc_Report tmplCtx))"
    using missingInputs_spec [of ctx tmplCtx] by (metis Diff_eq_empty_iff set_empty)
  then show ?thesis using False missingInputs_spec [of ctx tmplCtx] by auto
qed

text \<open>
  A query that renders itself exhausts the stack: with an engine that executes a template by rendering the query it names, the
  result is a panic for any stack.
\<close>

definition nesting_engine :: template_engine where
  "nesting_engine = \<lparr>te_Parse = \<lambda>_. None, te_Execute = \<lambda>funcs text c. tf_renderReportQuery funcs text c,
     te_ParseRFC3339 = \<lambda>s. Inl (Err s)\<rparr>"

lemma self_rendering_query_panics:
  assumes "tctx_Query ctx = n" and "tctx_RequiredInputs ctx = []"
    and "\<forall>q \<in> set (tctx_ReportQueries ctx). Name q = n \<longrightarrow> q_Query q = n \<and> q_Inputs q = []"
    and "n \<in> Name ` set (tctx_ReportQueries ctx)"
  shows "RenderQuery stack nesting_engine ctx tmplCtx = Inl (GoPanic ''stack overflow'')"
proof (induction stack)
  case (Suc stack)
  obtain q where q: "find (\<lambda>q. Name q = n) (tctx_ReportQueries ctx) = Some q"
    using assms(4) by (cases "find (\<lambda>q. Name q = n) (tctx_ReportQueries ctx)") (auto simp: find_None_iff)
  then have "q_Query q = n" "q_Inputs q = []" using assms(3) find_SomeD by fastforce+
  have same: "ctx\<lparr>tctx_RequiredInputs := [], tctx_Query := n\<rparr> = ctx" using assms(1,2) by (cases ctx) simp
  show ?case
    using Suc assms(1,2) q \<open>q_Query q = n\<close> \<open>q_Inputs q = []\<close>
    by (simp add: missingInputs_def nesting_engine_def templateFuncMap_def renderReportQuery_def same)
qed simp

end
