(* ===== verification/Finalizers.thy ===== *)
theory Finalizers
  imports Effects
begin

text \<open>
  String slices (\<^verbatim>\<open>pkg/util/slice/slice.go\<close>) and the finalizers of the operator's resources. Every kind of
  resource has its own three functions for its finalizer; what they share is the locale
  \<open>finalized_object\<close>, which the theories of the kinds interpret.
\<close>

section \<open>String slices\<close>

text \<open>A nil slice and an empty slice are the same list. The modifier is optional.\<close>

definition CopyStrings :: "string list \<Rightarrow> string list" where
  "CopyStrings s = s"

definition SortStrings :: "string list \<Rightarrow> string list" where
  "SortStrings s = sort s"

fun ContainsString :: "string list \<Rightarrow> string \<Rightarrow> (string \<Rightarrow> string) option \<Rightarrow> bool" where
  "ContainsString [] s modifier = False"
| "ContainsString (item # items) s modifier =
     (if item = s then True
      else if modifier \<noteq> None \<and> the modifier item = s then True
      else ContainsString items s modifier)"

fun RemoveString :: "string list \<Rightarrow> string \<Rightarrow> (string \<Rightarrow> string) option \<Rightarrow> string list" where
  "RemoveString [] s modifier = []"
| "RemoveString (item # items) s modifier =
     (if item = s then RemoveString items s modifier
      else if modifier \<noteq> None \<and> the modifier item = s then RemoveString items s modifier
      else item # RemoveString items s modifier)"

lemma ContainsString_nil [simp]: "ContainsString items s None \<longleftrightarrow> s \<in> set items"
  by (induction items) auto

lemma RemoveString_nil [simp]: "RemoveString items s None = filter (\<lambda>x. x \<noteq> s) items"
  by (induction items) auto

text \<open>With any modifier, what is removed is no longer contained.\<close>

lemma ContainsString_RemoveString: "\<not> ContainsString (RemoveString items s modifier) s modifier"
  by (induction items) auto

section \<open>The interface\<close>

text \<open>The group of the API.\<close>

definition GroupName :: string where "GroupName = ''metering.openshift.io''"

text \<open>
  A kind of resource with a finalizer: whether an object needs it, adding and removing it. Both write the object
  through the API server, whose answer is \<open>answer\<close>.
\<close>

locale finalized_object =
  fixes finalizer :: string
    and needs :: "'a ObjectMeta_scheme \<Rightarrow> bool"
    and add_finalizer :: "'a ObjectMeta_scheme \<Rightarrow> (goerror + 'a ObjectMeta_scheme) op"
    and remove_finalizer :: "'a ObjectMeta_scheme \<Rightarrow> (goerror + 'a ObjectMeta_scheme) op"
    and update :: "'a ObjectMeta_scheme \<Rightarrow> event"
    and answer :: "history \<Rightarrow> 'a ObjectMeta_scheme \<Rightarrow> goerror + 'a ObjectMeta_scheme"
  assumes needs_iff: "needs obj \<longleftrightarrow> DeletionTimestamp obj = None \<and> finalizer \<notin> set (Finalizers obj)"
    and run_add: "run_state (add_finalizer obj) h =
      (let obj' = obj\<lparr>Finalizers := Finalizers obj @ [finalizer]\<rparr> in (answer h obj', h @ [update obj']))"
    and run_remove: "run_state (remove_finalizer obj) h =
      (if finalizer \<notin> set (Finalizers obj) then (Inr obj, h)
       else let obj' = obj\<lparr>Finalizers := filter (\<lambda>x. x \<noteq> finalizer) (Finalizers obj)\<rparr>
            in (answer h obj', h @ [update obj']))"
begin

text \<open>Adding writes the object with the finalizer, so that it is not needed again; removing writes it without.\<close>

lemma add_settles:
  assumes "run_state (add_finalizer obj) h = (r, h')" and "needs obj"
  shows "\<exists>obj'. h' = h @ [update obj'] \<and> r = answer h obj' \<and> \<not> needs obj' \<and>
    finalizer \<in> set (Finalizers obj') \<and> obj'\<lparr>Finalizers := Finalizers obj\<rparr> = obj"
  using assms by (auto simp: run_add needs_iff Let_def)

lemma remove_settles:
  assumes "run_state (remove_finalizer obj) h = (r, h')"
  shows "if finalizer \<in> set (Finalizers obj)
    then \<exists>obj'. h' = h @ [update obj'] \<and> r = answer h obj' \<and> finalizer \<notin> set (Finalizers obj') \<and>
      set (Finalizers obj') = set (Finalizers obj) - {finalizer}
    else h' = h \<and> r = Inr obj"
  using assms by (auto simp: run_remove Let_def split: if_splits)

text \<open>Adding and then removing restores the object.\<close>

lemma add_remove:
  assumes "needs obj" and "\<And>h x. answer h x = Inr x"
  shows "fst (run_state (State_Monad.bind (add_finalizer obj)
           (\<lambda>r. case r of Inl e \<Rightarrow> State_Monad.return (Inl e) | Inr x \<Rightarrow> remove_finalizer x)) h) = Inr obj"
  using assms by (simp add: run_add run_remove Let_def needs_iff)

lemma traces_add:
  "traces (add_finalizer obj) (\<lambda>r es. \<exists>obj' h. es = [update obj'] \<and> r = answer h obj' \<and>
     obj' = obj\<lparr>Finalizers := Finalizers obj @ [finalizer]\<rparr>)"
  by (rule tracesI) (auto simp: run_add Let_def)

lemma traces_remove:
  "traces (remove_finalizer obj) (\<lambda>r es. (es = [] \<and> r = Inr obj \<and> finalizer \<notin> set (Finalizers obj)) \<or>
     (\<exists>obj' h. es = [update obj'] \<and> r = answer h obj' \<and> finalizer \<in> set (Finalizers obj) \<and>
       obj' = obj\<lparr>Finalizers := filter (\<lambda>x. x \<noteq> finalizer) (Finalizers obj)\<rparr>))"
  by (rule tracesI) (auto simp: run_remove Let_def)

end

section \<open>Cleaning up\<close>

text \<open>
  What the handlers do with an object that is marked for deletion: delete what it stands for, and take its
  finalizer off when that succeeded.
\<close>

definition cleanup :: "('o \<Rightarrow> goerror option op) \<Rightarrow> ('o \<Rightarrow> (goerror + 'o) op) \<Rightarrow> 'o \<Rightarrow> goerror option op" where
  "cleanup drop_object remove_finalizer obj = do {
     err \<leftarrow> drop_object obj;
     (case err of
        Some e \<Rightarrow> State_Monad.return (Some e)
      | None \<Rightarrow> do {
          u \<leftarrow> remove_finalizer obj;
          State_Monad.return (case u of Inl e \<Rightarrow> Some e | Inr _ \<Rightarrow> None)
        })
   }"

text \<open>
  A kind of object that deleting takes the given statements for, whose outcome is \<open>dropped\<close>; writing the
  object is not among them.
\<close>

locale droppable_object = finalized_object finalizer needs add_finalizer remove_finalizer update answer
  for finalizer :: string
    and needs :: "'a ObjectMeta_scheme \<Rightarrow> bool"
    and add_finalizer remove_finalizer :: "'a ObjectMeta_scheme \<Rightarrow> (goerror + 'a ObjectMeta_scheme) op"
    and update :: "'a ObjectMeta_scheme \<Rightarrow> event"
    and answer :: "history \<Rightarrow> 'a ObjectMeta_scheme \<Rightarrow> goerror + 'a ObjectMeta_scheme" +
  fixes drop_object :: "'a ObjectMeta_scheme \<Rightarrow> goerror option op"
    and statements :: "'a ObjectMeta_scheme \<Rightarrow> event list"
    and dropped :: "history \<Rightarrow> 'a ObjectMeta_scheme \<Rightarrow> goerror option"
  assumes run_drop: "run_state (drop_object obj) h = (dropped h obj, h @ statements obj)"
begin

text \<open>
  The statements are sent first; the object is written only when they succeeded, and then it is written once,
  without the finalizer. Conversely, a cleanup without an error has done both.
\<close>

lemma cleanup_order:
  assumes "run_state (cleanup drop_object remove_finalizer obj) h = (err, h')"
  shows "h' = h @ statements obj @ (if dropped h obj = None \<and> finalizer \<in> set (Finalizers obj)
      then [update (obj\<lparr>Finalizers := filter (\<lambda>x. x \<noteq> finalizer) (Finalizers obj)\<rparr>)] else []) \<and>
    (err = None \<longrightarrow> dropped h obj = None \<and> (finalizer \<in> set (Finalizers obj) \<longrightarrow>
      isOK (answer (h @ statements obj) (obj\<lparr>Finalizers := filter (\<lambda>x. x \<noteq> finalizer) (Finalizers obj)\<rparr>))))"
  using assms by (auto simp: cleanup_def run_drop run_remove Let_def split: option.splits sum.splits if_splits)

end

section \<open>Reconciling\<close>

text \<open>The beginning that the handlers of the kinds share: add the finalizer if it is wanted, then reconcile.\<close>

definition withFinalizer ::
  "bool \<Rightarrow> ('o \<Rightarrow> bool) \<Rightarrow> ('o \<Rightarrow> (goerror + 'o) op) \<Rightarrow> ('o \<Rightarrow> goerror option op) \<Rightarrow> 'o \<Rightarrow> goerror option op" where
  "withFinalizer enable needs add_finalizer reconcile obj = do {
     f \<leftarrow> (if enable \<and> needs obj then add_finalizer obj else State_Monad.return (Inr obj));
     (case f of Inl e \<Rightarrow> State_Monad.return (Some e) | Inr obj' \<Rightarrow> reconcile obj')
   }"

text \<open>The object that the API server holds after the events, when it held \<open>obj\<close> before.\<close>

definition stored :: "(event \<Rightarrow> 'o option) \<Rightarrow> 'o \<Rightarrow> event list \<Rightarrow> 'o" where
  "stored written obj es = fold (\<lambda>e x. case written e of Some y \<Rightarrow> y | None \<Rightarrow> x) es obj"

lemma stored_simps [simp]:
  "stored written obj [] = obj"
  "stored written obj (e # es) = stored written (case written e of Some y \<Rightarrow> y | None \<Rightarrow> obj) es"
  "stored written obj (es @ es') = stored written (stored written obj es) es'"
  by (simp_all add: stored_def)

lemma stored_unchanged: "\<forall>e \<in> set es. written e = None \<Longrightarrow> stored written obj es = obj"
  by (induction es) auto

text \<open>
  A kind of object whose reconciliation, once it succeeded against an API server that stores what it is given,
  has nothing left to do for the stored object.
\<close>

locale reconciled_object = finalized_object finalizer needs add_finalizer remove_finalizer update answer
  for finalizer :: string
    and needs :: "'a ObjectMeta_scheme \<Rightarrow> bool"
    and add_finalizer remove_finalizer :: "'a ObjectMeta_scheme \<Rightarrow> (goerror + 'a ObjectMeta_scheme) op"
    and update :: "'a ObjectMeta_scheme \<Rightarrow> event"
    and answer :: "history \<Rightarrow> 'a ObjectMeta_scheme \<Rightarrow> goerror + 'a ObjectMeta_scheme" +
  fixes reconcile :: "'a ObjectMeta_scheme \<Rightarrow> goerror option op"
    and written :: "event \<Rightarrow> 'a ObjectMeta_scheme option"
  assumes written_update: "written (update obj) = Some obj"
    and reconcile_settles: "\<lbrakk>\<And>h x. answer h x = Inr x; run_state (reconcile obj) h = (None, h')\<rbrakk> \<Longrightarrow>
      \<exists>es. h' = h @ es \<and> (\<forall>g. run_state (reconcile (stored written obj es)) g = (None, g)) \<and>
        needs (stored written obj es) = needs obj"
begin

lemma handle_settles:
  assumes ok: "\<And>h x. answer h x = Inr x"
    and run: "run_state (withFinalizer enable needs add_finalizer reconcile obj) h = (None, h')"
  shows "\<exists>es. h' = h @ es \<and>
    (\<forall>g. run_state (withFinalizer enable needs add_finalizer reconcile (stored written obj es)) g = (None, g))"
proof (cases "enable \<and> needs obj")
  case True
  let ?x = "obj\<lparr>Finalizers := Finalizers obj @ [finalizer]\<rparr>"
  have "run_state (reconcile ?x) (h @ [update ?x]) = (None, h')"
    using run True by (simp add: withFinalizer_def run_add Let_def ok)
  from reconcile_settles [OF ok this] obtain es where
    "h' = h @ (update ?x # es)" "\<And>g. run_state (reconcile (stored written ?x es)) g = (None, g)"
    "\<not> needs (stored written ?x es)"
    by (auto simp: needs_iff)
  then show ?thesis
    by (intro exI [of _ "update ?x # es"]) (simp add: withFinalizer_def written_update)
next
  case False
  then have "run_state (reconcile obj) h = (None, h')" using run by (auto simp: withFinalizer_def)
  from reconcile_settles [OF ok this] False show ?thesis by (auto simp: withFinalizer_def)
qed

end

end
