(* ===== verification/Storage_Locations.thy ===== *)
theory Storage_Locations
  imports Finalizers Work_Queues Hive_SQL Table_Naming
begin

text \<open>
  Storage locations: the lookup of \<^verbatim>\<open>pkg/operator/storage.go\<close> and the handler of
  \<^verbatim>\<open>pkg/operator/storagelocations.go\<close>, which creates and drops the Hive database of a StorageLocation, with the delete
  handler of \<^verbatim>\<open>queues.go\<close>.
\<close>

section \<open>Lookup\<close>

definition IsDefaultStorageLocationAnnotation :: string where
  "IsDefaultStorageLocationAnnotation = ''storagelocation.metering.openshift.io/is-default''"

definition getDefaultStorageLocation :: "'x lister_env_scheme \<Rightarrow> string \<Rightarrow> (goerror + StorageLocation option) op" where
  "getDefaultStorageLocation env namespace = do {
     r \<leftarrow> peek (\<lambda>h. lister_StorageLocations env h namespace);
     State_Monad.return
       (case r of
          Inl e \<Rightarrow> Inl e
        | Inr storageLocations \<Rightarrow>
            let defaults = filter (\<lambda>sl. map_get [] (Annotations sl) IsDefaultStorageLocationAnnotation = ''true'')
                             storageLocations
            in if length defaults = 0 then Inr None
               else if length defaults > 1 then
                 Inl (Err (show_int (int (length defaults)) @ '' defaultStorageLocations were found''))
               else Inr (Some (hd defaults)))
   }"

text \<open>A nil reference and a reference with an empty name both ask for the default.\<close>

definition getStorage ::
  "'x lister_env_scheme \<Rightarrow> string option \<Rightarrow> string \<Rightarrow> (goerror + StorageLocation) op" where
  "getStorage env storage namespace =
     (if storage = None \<or> storage = Some [] then do {
        r \<leftarrow> getDefaultStorageLocation env namespace;
        State_Monad.return
          (case r of
             Inl e \<Rightarrow> Inl e
           | Inr None \<Rightarrow> Inl (Err (''storage spec or storageLocationName not set and namespace '' @ namespace @
               '' has no default StorageLocation''))
           | Inr (Some sl) \<Rightarrow> Inr sl)
      }
      else peek (\<lambda>h. lister_StorageLocation env h namespace (the storage)))"

definition getHiveStorage ::
  "'x lister_env_scheme \<Rightarrow> string option \<Rightarrow> string \<Rightarrow> (goerror + StorageLocation) op" where
  "getHiveStorage env storageRef namespace = do {
     r \<leftarrow> getStorage env storageRef namespace;
     State_Monad.return
       (case r of
          Inl e \<Rightarrow> Inl e
        | Inr sl \<Rightarrow>
            if sl_Spec_Hive sl = None
            then Inl (Err ''incorrect storage configuration, has no Hive storage configuration'')
            else Inr sl)
   }"

section \<open>The finalizer\<close>

definition storageLocationFinalizer :: string where
  "storageLocationFinalizer = GroupName @ ''/storagelocation''"

definition updateStorageLocationM :: "'x client_env_scheme \<Rightarrow> StorageLocation \<Rightarrow> (goerror + StorageLocation) op" where
  "updateStorageLocationM env sl = call (\<lambda>h. client_UpdateStorageLocation env h sl) (UpdateStorageLocation sl)"

definition addStorageLocationFinalizer :: "'x client_env_scheme \<Rightarrow> StorageLocation \<Rightarrow> (goerror + StorageLocation) op" where
  "addStorageLocationFinalizer env sl =
     updateStorageLocationM env (sl\<lparr>Finalizers := Finalizers sl @ [storageLocationFinalizer]\<rparr>)"

definition removeStorageLocationFinalizer :: "'x client_env_scheme \<Rightarrow> StorageLocation \<Rightarrow> (goerror + StorageLocation) op" where
  "removeStorageLocationFinalizer env sl =
     (if \<not> ContainsString (Finalizers sl) storageLocationFinalizer None then State_Monad.return (Inr sl)
      else updateStorageLocationM env (sl\<lparr>Finalizers := RemoveString (Finalizers sl) storageLocationFinalizer None\<rparr>))"

definition storageLocationNeedsFinalizer :: "StorageLocation \<Rightarrow> bool" where
  "storageLocationNeedsFinalizer sl \<longleftrightarrow>
     DeletionTimestamp sl = None \<and> \<not> ContainsString (Finalizers sl) storageLocationFinalizer None"

interpretation sl: finalized_object storageLocationFinalizer storageLocationNeedsFinalizer
  "addStorageLocationFinalizer env" "removeStorageLocationFinalizer env" UpdateStorageLocation
  "client_UpdateStorageLocation env" for env :: "'x client_env_scheme"
  by unfold_locales
    (simp_all add: storageLocationNeedsFinalizer_def addStorageLocationFinalizer_def
      removeStorageLocationFinalizer_def updateStorageLocationM_def Let_def)

section \<open>The handler\<close>

record op_config =
  EnableFinalizers :: bool

definition set_hive_status :: "HiveStorage \<Rightarrow> StorageLocation \<Rightarrow> StorageLocation" where
  "set_hive_status hs sl = sl\<lparr>sl_Status_Hive := \<lparr>hss_DatabaseName = hs_DatabaseName hs, hss_Location = hs_Location hs\<rparr>\<rparr>"

text \<open>Queuing the data sources and reports that wait for the storage; errors are collected.\<close>

definition queueDataSourceOfStorage ::
  "'x lister_env_scheme \<Rightarrow> StorageLocation \<Rightarrow> ReportDataSource \<Rightarrow> string list op" where
  "queueDataSourceOfStorage env storageLocation datasource =
     (if dstat_TableRef (ds_Status datasource) \<noteq> [] then State_Monad.return []
      else
        let lookup = (\<lambda>ref. do {
              r \<leftarrow> getStorage env ref (Namespace datasource);
              (case r of
                 Inl e \<Rightarrow> State_Monad.return [Error e]
               | Inr storage \<Rightarrow>
                   if Name storage = Name storageLocation
                   then do { enqueueReportDataSource datasource; State_Monad.return [] }
                   else State_Monad.return [])
            })
        in case dspec_PrometheusMetricsImporter (ds_Spec datasource) of
             Some p \<Rightarrow> lookup (pmi_Storage p)
           | None \<Rightarrow>
               (case dspec_AWSBilling (ds_Spec datasource) of
                  Some a \<Rightarrow> if aws_DatabaseName a = [] then lookup None else State_Monad.return []
                | None \<Rightarrow> State_Monad.return []))"

definition queueReportOfStorage :: "'x lister_env_scheme \<Rightarrow> StorageLocation \<Rightarrow> Report \<Rightarrow> string list op" where
  "queueReportOfStorage env storageLocation report =
     (if rstat_TableRef (r_Status report) \<noteq> [] then State_Monad.return []
      else do {
        r \<leftarrow> getStorage env (rspec_Output (r_Spec report)) (Namespace report);
        (case r of
           Inl e \<Rightarrow> State_Monad.return [Error e]
         | Inr storage \<Rightarrow>
             if Name storage = Name storageLocation
             then do { enqueueReport report; State_Monad.return [] }
             else State_Monad.return [])
      })"

fun collect :: "('a \<Rightarrow> string list op) \<Rightarrow> 'a list \<Rightarrow> string list op" where
  "collect f [] = State_Monad.return []"
| "collect f (x # xs) = do { e \<leftarrow> f x; es \<leftarrow> collect f xs; State_Monad.return (e @ es) }"

definition queueDependentsOfStorageLocation :: "'x lister_env_scheme \<Rightarrow> StorageLocation \<Rightarrow> goerror option op" where
  "queueDependentsOfStorageLocation env storageLocation = do {
     rs \<leftarrow> peek (\<lambda>h. lister_Reports env h (Namespace storageLocation));
     (case rs of Inl e \<Rightarrow> State_Monad.return (Some e) | Inr reports \<Rightarrow> do {
       dss \<leftarrow> peek (\<lambda>h. lister_ReportDataSources env h (Namespace storageLocation));
       (case dss of Inl e \<Rightarrow> State_Monad.return (Some e) | Inr datasources \<Rightarrow> do {
         errs1 \<leftarrow> collect (queueDataSourceOfStorage env storageLocation) datasources;
         errs2 \<leftarrow> collect (queueReportOfStorage env storageLocation) reports;
         let errs = errs1 @ errs2;
         State_Monad.return
           (if errs \<noteq> [] then Some (Err (''got errors queuing dependents of StorageLocation '' @ Name storageLocation @
              '': '' @ join '', '' errs)) else None)
       })
     })
   }"

text \<open>
  The switch of the handler: an error, or the location with its new status and whether it must be
  written.
\<close>

definition provisionStorage ::
  "'x store_env_scheme \<Rightarrow> StorageLocation \<Rightarrow> (goerror + (StorageLocation \<times> bool)) op" where
  "provisionStorage env sl =
     (case sl_Spec_Hive sl of
        None \<Rightarrow> State_Monad.return (Inl (Err ''only Hive storage is supported currently''))
      | Some hs \<Rightarrow>
          if hs_UnmanagedDatabase hs then
            State_Monad.return (Inr (set_hive_status hs sl,
              hss_DatabaseName (sl_Status_Hive sl) \<noteq> hs_DatabaseName hs \<or> hss_Location (sl_Status_Hive sl) \<noteq> hs_Location hs))
          else if hs_DatabaseName hs = [] then
            State_Monad.return (Inl (Err ''spec.hive.databaseName is required if spec.hive is set''))
          else if \<not> IsValidSQLIdentifier (hs_DatabaseName hs) then
            State_Monad.return (Inl (Err (''spec.hive.databaseName '' @ hs_DatabaseName hs @
              '' is invalid, must contain only alpha numeric values, underscores, and start with a letter or underscore'')))
          else if hss_DatabaseName (sl_Status_Hive sl) = [] then do {
            err \<leftarrow> hm_CreateDatabase env \<lparr>dbp_Name = hs_DatabaseName hs, dbp_Location = hs_Location hs\<rparr>;
            State_Monad.return
              (case err of
                 Some e \<Rightarrow> Inl (wrap (\<lambda>m. ''error creating database '' @ hs_DatabaseName hs @ '': '' @ m) e)
               | None \<Rightarrow> Inr (set_hive_status hs sl, True))
          }
          else State_Monad.return (Inr (sl, False)))"

text \<open>
  The part of the handler after the finalizer. When the update fails, the name in the error is the name
  of the empty object that the client answers.
\<close>

definition handleProvisioned :: "'x env_scheme \<Rightarrow> StorageLocation \<Rightarrow> goerror option op" where
  "handleProvisioned env sl = do {
     p \<leftarrow> provisionStorage env sl;
     (case p of Inl e \<Rightarrow> State_Monad.return (Some e) | Inr (sl', needsUpdate) \<Rightarrow>
       if needsUpdate then do {
         u \<leftarrow> updateStorageLocationM env sl';
         (case u of
            Inl e \<Rightarrow> State_Monad.return (Some (wrap (\<lambda>m. ''unable to update StorageLocation  status: '' @ m) e))
          | Inr sl'' \<Rightarrow> do {
              qerr \<leftarrow> queueDependentsOfStorageLocation env sl'';
              State_Monad.return None
            })
       }
       else State_Monad.return None)
   }"

definition handleStorageLocation :: "'x env_scheme \<Rightarrow> op_config \<Rightarrow> StorageLocation \<Rightarrow> goerror option op" where
  "handleStorageLocation env cfg storageLocation =
     withFinalizer (EnableFinalizers cfg) storageLocationNeedsFinalizer (addStorageLocationFinalizer env)
       (handleProvisioned env) storageLocation"

definition deleteStorage :: "'x store_env_scheme \<Rightarrow> StorageLocation \<Rightarrow> goerror option op" where
  "deleteStorage env sl =
     (case sl_Spec_Hive sl of
        None \<Rightarrow> State_Monad.return None
      | Some hs \<Rightarrow>
          if \<not> hs_UnmanagedDatabase hs \<and> hss_DatabaseName (sl_Status_Hive sl) \<noteq> []
          then hm_DropDatabase env (hss_DatabaseName (sl_Status_Hive sl)) True False
          else State_Monad.return None)"

definition syncStorageLocation :: "'x env_scheme \<Rightarrow> op_config \<Rightarrow> string \<Rightarrow> goerror option op" where
  "syncStorageLocation env cfg key =
     (case SplitMetaNamespaceKey key of
        Inl _ \<Rightarrow> State_Monad.return None
      | Inr (namespace, name) \<Rightarrow> do {
          r \<leftarrow> peek (\<lambda>h. lister_StorageLocation env h namespace name);
          (case r of
             Inl e \<Rightarrow> State_Monad.return (if IsNotFound e then None else Some e)
           | Inr storage \<Rightarrow>
               if DeletionTimestamp storage \<noteq> None
               then cleanup (deleteStorage env) (removeStorageLocationFinalizer env) storage
               else handleStorageLocation env cfg storage)
        })"

section \<open>Informer events\<close>

text \<open>A tombstone's object may be nil only in the panicking cases.\<close>

definition deleteStorageLocation ::
  "'x env_scheme \<Rightarrow> op_config \<Rightarrow> StorageLocation deleted \<Rightarrow> (goerror + unit) op" where
  "deleteStorageLocation env cfg obj =
     (case deleted_obj obj of
        Inl e \<Rightarrow> State_Monad.return (Inl e)
      | Inr sl \<Rightarrow> do {
          err \<leftarrow> (if \<not> EnableFinalizers cfg then cleanup (deleteStorage env) (removeStorageLocationFinalizer env) sl
                  else State_Monad.return None);
          (if err = None then do {
             emit (QueueAdd StorageLocationQueue (MetaNamespaceKeyFunc sl));
             State_Monad.return (Inr ())
           }
           else State_Monad.return (Inr ()))
        })"

definition addStorageLocation :: "'x env_scheme \<Rightarrow> op_config \<Rightarrow> StorageLocation \<Rightarrow> (goerror + unit) op" where
  "addStorageLocation env cfg sl =
     (if DeletionTimestamp sl \<noteq> None then deleteStorageLocation env cfg (Obj sl)
      else do { enqueueStorageLocation sl; State_Monad.return (Inr ()) })"

definition updateStorageLocation :: "'x env_scheme \<Rightarrow> op_config \<Rightarrow> StorageLocation \<Rightarrow> (goerror + unit) op" where
  "updateStorageLocation env cfg cur =
     (if DeletionTimestamp cur \<noteq> None then deleteStorageLocation env cfg (Obj cur)
      else do { enqueueStorageLocation cur; State_Monad.return (Inr ()) })"

section \<open>Deletion\<close>

text \<open>The statement that deletes the storage, if there is one to delete.\<close>

definition dropStatement :: "StorageLocation \<Rightarrow> string option" where
  "dropStatement sl =
     (case sl_Spec_Hive sl of
        Some hs \<Rightarrow> if \<not> hs_UnmanagedDatabase hs \<and> hss_DatabaseName (sl_Status_Hive sl) \<noteq> []
          then Some (generateDropDatabaseSQL (hss_DatabaseName (sl_Status_Hive sl)) True False) else None
      | None \<Rightarrow> None)"

lemma run_deleteStorage:
  "run_state (deleteStorage env sl) h =
     ((case dropStatement sl of Some stmt \<Rightarrow> hive_Exec env h stmt | None \<Rightarrow> None),
      h @ (case dropStatement sl of Some stmt \<Rightarrow> [HiveExec stmt] | None \<Rightarrow> []))"
  by (simp add: deleteStorage_def dropStatement_def hive_op_defs run_simps split: option.split)

interpretation sld: droppable_object storageLocationFinalizer storageLocationNeedsFinalizer
  "addStorageLocationFinalizer env" "removeStorageLocationFinalizer env" UpdateStorageLocation
  "client_UpdateStorageLocation env" "deleteStorage env"
  "\<lambda>sl. case dropStatement sl of Some stmt \<Rightarrow> [HiveExec stmt] | None \<Rightarrow> []"
  "\<lambda>h sl. case dropStatement sl of Some stmt \<Rightarrow> hive_Exec env h stmt | None \<Rightarrow> None" for env :: "'x client_env_scheme"
  by unfold_locales (rule run_deleteStorage)

section \<open>Reconciliation\<close>

lemma run_updateStorageLocationM [run_simps]:
  "run_state (updateStorageLocationM env sl) h = (client_UpdateStorageLocation env h sl, h @ [UpdateStorageLocation sl])"
  by (simp add: updateStorageLocationM_def)

lemma run_provisionStorage_nothing:
  assumes "sl_Spec_Hive sl = Some hs"
    and "hs_UnmanagedDatabase hs \<Longrightarrow> sl_Status_Hive sl = \<lparr>hss_DatabaseName = hs_DatabaseName hs, hss_Location = hs_Location hs\<rparr>"
    and "\<not> hs_UnmanagedDatabase hs \<Longrightarrow> hs_DatabaseName hs \<noteq> [] \<and> IsValidSQLIdentifier (hs_DatabaseName hs) \<and>
      hss_DatabaseName (sl_Status_Hive sl) \<noteq> []"
  shows "run_state (provisionStorage env sl) h = (Inr (sl, False), h)"
  using assms by (cases "hs_UnmanagedDatabase hs") (auto simp: provisionStorage_def set_hive_status_def)

definition createStorageDatabase :: "HiveStorage \<Rightarrow> event" where
  "createStorageDatabase hs =
     HiveExec (generateCreateDatabaseSQL \<lparr>dbp_Name = hs_DatabaseName hs, dbp_Location = hs_Location hs\<rparr> False)"

text \<open>The three ways in which provisioning succeeds: unmanaged, created now, created before.\<close>

lemma provisionStorage_cases:
  assumes "run_state (provisionStorage env sl) h = (Inr (sl', upd), h')"
  obtains hs where "sl_Spec_Hive sl = Some hs" "hs_UnmanagedDatabase hs" "sl' = set_hive_status hs sl" "h' = h"
      "\<not> upd \<Longrightarrow> set_hive_status hs sl = sl"
  | hs where "sl_Spec_Hive sl = Some hs" "\<not> hs_UnmanagedDatabase hs" "hs_DatabaseName hs \<noteq> []"
      "IsValidSQLIdentifier (hs_DatabaseName hs)" "sl' = set_hive_status hs sl" "upd" "h' = h @ [createStorageDatabase hs]"
  | hs where "sl_Spec_Hive sl = Some hs" "\<not> hs_UnmanagedDatabase hs" "hs_DatabaseName hs \<noteq> []"
      "IsValidSQLIdentifier (hs_DatabaseName hs)" "hss_DatabaseName (sl_Status_Hive sl) \<noteq> []" "sl' = sl" "\<not> upd" "h' = h"
proof (cases "sl_Spec_Hive sl")
  case None
  with assms show thesis by (simp add: provisionStorage_def)
next
  case (Some hs)
  consider "hs_UnmanagedDatabase hs" | "\<not> hs_UnmanagedDatabase hs" "hss_DatabaseName (sl_Status_Hive sl) = []"
    | "\<not> hs_UnmanagedDatabase hs" "hss_DatabaseName (sl_Status_Hive sl) \<noteq> []" by blast
  then show thesis
  proof cases
    case 1
    then show thesis using assms Some by (intro that(1)) (auto simp: provisionStorage_def set_hive_status_def)
  next
    case 2
    then show thesis
      using assms Some
      by (intro that(2)) (auto simp: provisionStorage_def hive_op_defs run_simps createStorageDatabase_def
          split: if_splits option.splits)
  next
    case 3
    then show thesis
      using assms Some by (intro that(3)) (auto simp: provisionStorage_def split: if_splits)
  qed
qed

text \<open>What provisioning answers needs no provisioning any more.\<close>

lemma provisionStorage_settles:
  assumes "run_state (provisionStorage env sl) h = (Inr (sl', upd), h')"
  shows "run_state (provisionStorage env sl') g = (Inr (sl', False), g)"
  using assms
  by (cases rule: provisionStorage_cases) (auto simp: set_hive_status_def intro!: run_provisionStorage_nothing)

lemma provisionStorage_keeps:
  assumes "run_state (provisionStorage env sl) h = (Inr (sl', upd), h')"
  shows "storageLocationNeedsFinalizer sl' = storageLocationNeedsFinalizer sl"
    and "\<not> upd \<Longrightarrow> sl' = sl \<and> h' = h"
  using assms
  by (cases rule: provisionStorage_cases; auto simp: set_hive_status_def storageLocationNeedsFinalizer_def)+

definition storageWritten :: "event \<Rightarrow> StorageLocation option" where
  "storageWritten e = (case e of UpdateStorageLocation x \<Rightarrow> Some x | _ \<Rightarrow> None)"

definition is_QueueAdd :: "event \<Rightarrow> bool" where
  "is_QueueAdd e \<longleftrightarrow> (case e of QueueAdd _ _ \<Rightarrow> True | _ \<Rightarrow> False)"

lemma emits_getStorage [emits_intros]: "(\<And>r. Q r) \<Longrightarrow> emits (getStorage env ref ns) P Q"
  unfolding getStorage_def getDefaultStorageLocation_def by (intro emits_intros) simp_all

lemma emits_collect [emits_intros]:
  "(\<And>x. x \<in> set xs \<Longrightarrow> emits (f x) P (\<lambda>_. True)) \<Longrightarrow> emits (collect f xs) P (\<lambda>_. True)"
  by (induction xs) (auto intro!: emits_intros)

text \<open>Queuing the dependents does nothing but add keys to queues.\<close>

lemma emits_queueDependentsOfStorageLocation:
  "emits (queueDependentsOfStorageLocation env sl) is_QueueAdd (\<lambda>_. True)"
  unfolding queueDependentsOfStorageLocation_def queueDataSourceOfStorage_def queueReportOfStorage_def Let_def enqueue_defs
  by (intro emits_intros) (simp_all add: is_QueueAdd_def)

lemma storageWritten_queue: "is_QueueAdd e \<Longrightarrow> storageWritten e = None"
  by (auto simp: is_QueueAdd_def storageWritten_def split: event.splits)

lemma handleProvisioned_settles:
  assumes ok: "\<And>h x. client_UpdateStorageLocation env h x = Inr x"
    and run: "run_state (handleProvisioned env sl) h = (None, h')"
  shows "\<exists>es. h' = h @ es \<and>
    (\<forall>g. run_state (handleProvisioned env (stored storageWritten sl es)) g = (None, g)) \<and>
    storageLocationNeedsFinalizer (stored storageWritten sl es) = storageLocationNeedsFinalizer sl"
proof -
  obtain sl' upd h1 where p: "run_state (provisionStorage env sl) h = (Inr (sl', upd), h1)"
    using run by (auto simp: handleProvisioned_def split: prod.splits sum.splits)
  have again: "run_state (handleProvisioned env sl') g = (None, g)" for g
    using provisionStorage_settles [OF p, of g] by (simp add: handleProvisioned_def)
  show ?thesis
  proof (cases upd)
    case False
    then have "sl' = sl" "h1 = h" using provisionStorage_keeps(2) [OF p] by simp_all
    then show ?thesis using run p False again provisionStorage_keeps(1) [OF p]
      by (intro exI [of _ "[]"]) (auto simp: handleProvisioned_def)
  next
    case True
    obtain q es where q: "run_state (queueDependentsOfStorageLocation env sl') (h1 @ [UpdateStorageLocation sl']) =
        (q, (h1 @ [UpdateStorageLocation sl']) @ es)" "\<forall>e \<in> set es. is_QueueAdd e"
      using emits_queueDependentsOfStorageLocation [of env sl'] unfolding emits_def by blast
    obtain pre where pre: "h1 = h @ pre" "stored storageWritten sl pre = sl"
      using p by (cases rule: provisionStorage_cases) (auto simp: createStorageDatabase_def storageWritten_def)
    have "h' = h @ (pre @ UpdateStorageLocation sl' # es)"
      using run p True q(1) pre by (simp add: handleProvisioned_def run_updateStorageLocationM ok)
    then show ?thesis
      using again provisionStorage_keeps(1) [OF p] pre(2) stored_unchanged [of es storageWritten sl'] q(2) storageWritten_queue
      by (auto simp: storageWritten_def)
  qed
qed

interpretation slr: reconciled_object storageLocationFinalizer storageLocationNeedsFinalizer
  "addStorageLocationFinalizer env" "removeStorageLocationFinalizer env" UpdateStorageLocation
  "client_UpdateStorageLocation env" "handleProvisioned env" storageWritten for env :: "'x env_scheme"
  by unfold_locales (simp add: storageWritten_def, rule handleProvisioned_settles)

section \<open>Properties\<close>


text \<open>A storage location in the namespace \<open>ns\<close>.\<close>

definition sample_storage :: "HiveStorage option \<Rightarrow> string \<Rightarrow> go_time option \<Rightarrow> StorageLocation" where
  "sample_storage hs db del = \<lparr>Name = ''store'', Namespace = ''ns'', Labels = [], Annotations = [],
     Finalizers = (if del = None then [] else [storageLocationFinalizer]),
     DeletionTimestamp = del, ResourceVersion = ''1'', OwnerReferences = [],
     sl_Spec_Hive = hs, sl_Status_Hive = \<lparr>hss_DatabaseName = db, hss_Location = []\<rparr>\<rparr>"

definition sample_hive :: "bool \<Rightarrow> HiveStorage" where
  "sample_hive unmanaged = \<lparr>hs_UnmanagedDatabase = unmanaged, hs_DatabaseName = ''metering'', hs_Location = [],
     hs_DefaultTableProperties = None\<rparr>"


text \<open>
  C34: a storage location that is marked for deletion loses its finalizer only after its database is dropped: Hive gets the
  DROP statement first, the location is written without the finalizer exactly when that statement
  succeeded, and the database of an unmanaged or never provisioned location is not dropped at all.
\<close>

theorem storage_dropped_before_finalizer:
  assumes "SplitMetaNamespaceKey key = Inr (ns, name)" and "lister_StorageLocation env h ns name = Inr sl"
    and "DeletionTimestamp sl \<noteq> None" and "storageLocationFinalizer \<in> set (Finalizers sl)"
    and "run_state (syncStorageLocation env cfg key) h = (err, h')"
  shows "case dropStatement sl of
      None \<Rightarrow> h' = h @ [UpdateStorageLocation (sl\<lparr>Finalizers := filter (\<lambda>x. x \<noteq> storageLocationFinalizer) (Finalizers sl)\<rparr>)]
    | Some stmt \<Rightarrow> if hive_Exec env h stmt = None
        then h' = h @ [HiveExec stmt,
          UpdateStorageLocation (sl\<lparr>Finalizers := filter (\<lambda>x. x \<noteq> storageLocationFinalizer) (Finalizers sl)\<rparr>)]
        else err = hive_Exec env h stmt \<and> h' = h @ [HiveExec stmt]"
proof -
  have run: "run_state (cleanup (deleteStorage env) (removeStorageLocationFinalizer env) sl) h = (err, h')"
    using assms(1,2,3,5) by (simp add: syncStorageLocation_def)
  then have "dropStatement sl = Some stmt \<Longrightarrow> hive_Exec env h stmt \<noteq> None \<Longrightarrow> err = hive_Exec env h stmt" for stmt
    by (auto simp: cleanup_def run_deleteStorage)
  then show ?thesis
    using sld.cleanup_order [OF run] assms(4) by (auto split: option.splits if_splits)
qed

theorem storage_dropped_before_finalizer_witness:
  "snd (run_state (syncStorageLocation
      (quiet_env\<lparr>lister_StorageLocation := \<lambda>_ _ _. Inr (sample_storage (Some (sample_hive False)) ''metering'' (Some 0))\<rparr>)
      \<lparr>EnableFinalizers = True\<rparr> ''ns/store'') []) =
   [HiveExec (generateDropDatabaseSQL ''metering'' True False),
    UpdateStorageLocation ((sample_storage (Some (sample_hive False)) ''metering'' (Some 0))\<lparr>Finalizers := []\<rparr>)]"
proof -
  let ?sl = "sample_storage (Some (sample_hive False)) ''metering'' (Some 0)"
  let ?env = "quiet_env\<lparr>lister_StorageLocation := \<lambda>_ _ _. Inr ?sl\<rparr>"
  have "SplitMetaNamespaceKey ''ns/store'' = Inr (''ns'', ''store'')" by code_simp
  moreover obtain err h' where "run_state (syncStorageLocation ?env \<lparr>EnableFinalizers = True\<rparr> ''ns/store'') [] = (err, h')"
    by fastforce
  ultimately show ?thesis
    using storage_dropped_before_finalizer [of "''ns/store''" "''ns''" "''store''" ?env "[]" ?sl "\<lparr>EnableFinalizers = True\<rparr>" err h']
    by (simp add: sample_storage_def sample_hive_def dropStatement_def quiet_env_def)
qed

end
