(* ===== verification/Hive_Tables.thy ===== *)
theory Hive_Tables
  imports Storage_Locations
begin

text \<open>
  HiveTable resources, \<^verbatim>\<open>pkg/operator/hivetables.go\<close>: the handler that creates the table in Hive and the PrestoTable
  resource beside it, the management of its partitions, the cleanup, and what other handlers use to
  have a table made and to wait for it.
\<close>

section \<open>The finalizer\<close>

definition hiveTableFinalizer :: string where
  "hiveTableFinalizer = GroupName @ ''/hivetable''"

definition updateHiveTableM :: "'x client_env_scheme \<Rightarrow> HiveTable \<Rightarrow> (goerror + HiveTable) op" where
  "updateHiveTableM env t = call (\<lambda>h. client_UpdateHiveTable env h t) (UpdateHiveTable t)"

definition addHiveTableFinalizer :: "'x client_env_scheme \<Rightarrow> HiveTable \<Rightarrow> (goerror + HiveTable) op" where
  "addHiveTableFinalizer env t = updateHiveTableM env (t\<lparr>Finalizers := Finalizers t @ [hiveTableFinalizer]\<rparr>)"

definition removeHiveTableFinalizer :: "'x client_env_scheme \<Rightarrow> HiveTable \<Rightarrow> (goerror + HiveTable) op" where
  "removeHiveTableFinalizer env t =
     (if \<not> ContainsString (Finalizers t) hiveTableFinalizer None then State_Monad.return (Inr t)
      else updateHiveTableM env (t\<lparr>Finalizers := RemoveString (Finalizers t) hiveTableFinalizer None\<rparr>))"

definition hiveTableNeedsFinalizer :: "HiveTable \<Rightarrow> bool" where
  "hiveTableNeedsFinalizer t \<longleftrightarrow>
     DeletionTimestamp t = None \<and> \<not> ContainsString (Finalizers t) hiveTableFinalizer None"

definition dropHiveTable :: "'x store_env_scheme \<Rightarrow> HiveTable \<Rightarrow> goerror option op" where
  "dropHiveTable env t =
     (if htst_TableName (ht_Status t) = [] then State_Monad.return None
      else hm_DropTable env (htst_DatabaseName (ht_Status t)) (htst_TableName (ht_Status t)) True)"

definition dropHiveTableStatement :: "HiveTable \<Rightarrow> string option" where
  "dropHiveTableStatement t =
     (if htst_TableName (ht_Status t) = [] then None
      else Some (generateDropTableSQL (htst_DatabaseName (ht_Status t)) (htst_TableName (ht_Status t)) True False))"

lemma run_updateHiveTableM [run_simps]:
  "run_state (updateHiveTableM env t) h = (client_UpdateHiveTable env h t, h @ [UpdateHiveTable t])"
  by (simp add: updateHiveTableM_def)

interpretation ht: droppable_object hiveTableFinalizer hiveTableNeedsFinalizer
  "addHiveTableFinalizer env" "removeHiveTableFinalizer env" UpdateHiveTable "client_UpdateHiveTable env" "dropHiveTable env"
  "\<lambda>t. case dropHiveTableStatement t of Some stmt \<Rightarrow> [HiveExec stmt] | None \<Rightarrow> []"
  "\<lambda>h t. case dropHiveTableStatement t of Some stmt \<Rightarrow> hive_Exec env h stmt | None \<Rightarrow> None"
  for env :: "'x client_env_scheme"
  by unfold_locales
    (simp_all add: hiveTableNeedsFinalizer_def addHiveTableFinalizer_def removeHiveTableFinalizer_def dropHiveTable_def
      dropHiveTableStatement_def hive_op_defs run_simps Let_def)

section \<open>Making a table and waiting for it\<close>

text \<open>The owner reference of \<^verbatim>\<open>metav1.NewControllerRef\<close>: the kind and the name of the owner.\<close>

definition NewControllerRef :: "'a ObjectMeta_scheme \<Rightarrow> string \<Rightarrow> OwnerReference" where
  "NewControllerRef obj kind = \<lparr>or_Kind = kind, or_Name = Name obj\<rparr>"

definition empty_HiveTableStatus :: HiveTableStatus where
  "empty_HiveTableStatus = \<lparr>htst_DatabaseName = [], htst_TableName = [], htst_Columns = [], htst_PartitionedBy = [],
     htst_ClusteredBy = [], htst_SortedBy = [], htst_NumBuckets = 0, htst_Location = [], htst_RowFormat = [],
     htst_FileFormat = [], htst_TableProperties = None, htst_External = False, htst_Partitions = []\<rparr>"

text \<open>The file format of the parameters is not copied.\<close>

definition newHiveTable ::
  "op_config \<Rightarrow> 'a ObjectMeta_scheme \<Rightarrow> string \<Rightarrow> TableParameters \<Rightarrow> bool \<Rightarrow> TablePartition list \<Rightarrow> HiveTable" where
  "newHiveTable cfg obj kind params managePartitions partitions =
     \<lparr>Name = TableResourceNameFromKind kind (Namespace obj) (Name obj), Namespace = Namespace obj, Labels = Labels obj,
      Annotations = [], Finalizers = (if EnableFinalizers cfg then [hiveTableFinalizer] else []),
      DeletionTimestamp = None, ResourceVersion = [], OwnerReferences = [NewControllerRef obj kind],
      ht_Spec = \<lparr>hts_DatabaseName = tparams_Database params, hts_TableName = tparams_Name params,
        hts_Columns = tparams_Columns params, hts_PartitionedBy = tparams_PartitionedBy params,
        hts_ClusteredBy = tparams_ClusteredBy params, hts_SortedBy = tparams_SortedBy params,
        hts_NumBuckets = tparams_NumBuckets params, hts_Location = tparams_Location params,
        hts_RowFormat = tparams_RowFormat params, hts_FileFormat = [],
        hts_TableProperties = tparams_TableProperties params, hts_External = tparams_External params,
        hts_ManagePartitions = managePartitions, hts_Partitions = partitions\<rparr>,
      ht_Status = empty_HiveTableStatus\<rparr>"

definition show_gvk :: "string \<Rightarrow> string" where
  "show_gvk kind = GroupName @ ''/v1, Kind='' @ kind"

definition createHiveTableCR ::
  "'x client_env_scheme \<Rightarrow> op_config \<Rightarrow> 'a ObjectMeta_scheme \<Rightarrow> string \<Rightarrow> TableParameters \<Rightarrow> bool \<Rightarrow>
   TablePartition list \<Rightarrow> (goerror + HiveTable) op" where
  "createHiveTableCR env cfg obj kind params managePartitions partitions =
     (let t = newHiveTable cfg obj kind params managePartitions partitions in do {
        r \<leftarrow> call (\<lambda>h. client_CreateHiveTable env h t) (CreateHiveTable t);
        (case r of
           Inr hiveTable \<Rightarrow> State_Monad.return (Inr hiveTable)
         | Inl e \<Rightarrow>
             if IsAlreadyExists e then peek (\<lambda>h. lister_HiveTable env h (Namespace obj) (Name t))
             else State_Monad.return (Inl (wrap (\<lambda>m. ''couldn'' @ squote @ ''t create HiveTable resource for '' @
               show_gvk kind @ '' '' @ Name obj @ '': '' @ m) e)))
      })"

definition hiveTableCreated :: "'x client_env_scheme \<Rightarrow> string \<Rightarrow> string \<Rightarrow> (goerror + HiveTable option) op" where
  "hiveTableCreated env namespace name = do {
     r \<leftarrow> call (\<lambda>h. client_GetHiveTable env h namespace name) (GetHiveTable namespace name);
     State_Monad.return
       (case r of
          Inl e \<Rightarrow> if IsNotFound e then Inr None else Inl e
        | Inr t \<Rightarrow> if htst_TableName (ht_Status t) \<noteq> [] then Inr (Some t) else Inr None)
   }"

definition timed_out :: "goerror + 'a option \<Rightarrow> goerror + 'a" where
  "timed_out r =
     (case r of
        Inl e \<Rightarrow> Inl e
      | Inr None \<Rightarrow> Inl (Err ''timed out waiting for Hive table to be created'')
      | Inr (Some t) \<Rightarrow> Inr t)"

definition waitForHiveTable ::
  "'x client_env_scheme \<Rightarrow> string \<Rightarrow> string \<Rightarrow> duration \<Rightarrow> duration \<Rightarrow> (goerror + HiveTable) op" where
  "waitForHiveTable env namespace name pollInterval timeout = do {
     r \<leftarrow> Poll env pollInterval timeout (hiveTableCreated env namespace name);
     State_Monad.return (timed_out r)
   }"

section \<open>Partitions\<close>

record partitionChanges =
  toRemovePartitions :: "TablePartition list"
  toAddPartitions :: "TablePartition list"
  toUpdatePartitions :: "TablePartition list"

definition partitionValues :: "Column list \<Rightarrow> TablePartition \<Rightarrow> string list" where
  "partitionValues partitionColumns p = map (\<lambda>col. map_get [] (tp_PartitionSpec p) (col_Name col)) partitionColumns"

definition setID :: "Column list \<Rightarrow> TablePartition \<Rightarrow> string" where
  "setID partitionColumns p = join ''-'' (partitionValues partitionColumns p)"

text \<open>
  A \<^verbatim>\<open>sets.String\<close> is a list without duplicates; \<open>unsorted\<close> is the order in which \<^verbatim>\<open>UnsortedList\<close> walks over the
  underlying Go map. The lookup map is filled with the current partitions first and then with the
  desired ones.
\<close>

fun insertPartitions ::
  "Column list \<Rightarrow> TablePartition gomap \<Rightarrow> string list \<Rightarrow> TablePartition list \<Rightarrow> TablePartition gomap \<times> string list" where
  "insertPartitions cols look ids [] = (look, ids)"
| "insertPartitions cols look ids (p # ps) =
     insertPartitions cols (map_set (setID cols p) p look) (List.insert (setID cols p) ids) ps"

definition getPartitionChanges ::
  "(string list \<Rightarrow> string list) \<Rightarrow> Column list \<Rightarrow> TablePartition list \<Rightarrow> TablePartition list \<Rightarrow> partitionChanges" where
  "getPartitionChanges unsorted partitionColumns current desired =
     (let (lookup1, currSet) = insertPartitions partitionColumns [] [] current;
          (lookup2, desiredSet) = insertPartitions partitionColumns lookup1 [] desired;
          toRemove = filter (\<lambda>i. i \<notin> set desiredSet) currSet;
          toAdd = filter (\<lambda>i. i \<notin> set currSet) desiredSet;
          toUpdate = filter (\<lambda>i. i \<in> set desiredSet) currSet;
          back = (\<lambda>ids. map (\<lambda>i. the (map_of lookup2 i)) (unsorted ids))
      in \<lparr>toRemovePartitions = back toRemove, toAddPartitions = back toAdd, toUpdatePartitions = back toUpdate\<rparr>)"

definition partition_error :: "string \<Rightarrow> Column list \<Rightarrow> string \<Rightarrow> TablePartition \<Rightarrow> goerror \<Rightarrow> goerror" where
  "partition_error verb cols tableName p e =
     (let locStr = (if tp_Location p \<noteq> [] then ''location '' @ tp_Location p else [])
      in wrap (\<lambda>m. ''failed to '' @ verb @ FmtPartitionSpec cols (tp_PartitionSpec p) @ '' '' @ locStr @
           (if verb = ''add partition '' then '' to'' else '' from'') @ '' Hive table '' @ Quote tableName @ '': '' @ m) e)"

definition onError :: "(goerror \<Rightarrow> goerror) \<Rightarrow> goerror option op \<Rightarrow> (goerror + unit) op" where
  "onError f m = do { r \<leftarrow> m; State_Monad.return (case r of Some e \<Rightarrow> Inl (f e) | None \<Rightarrow> Inr ()) }"

text \<open>The block of the handler that brings the partitions up to date.\<close>

definition syncPartitions ::
  "(string list \<Rightarrow> string list) \<Rightarrow> 'x client_env_scheme \<Rightarrow> HiveTable \<Rightarrow> goerror option op" where
  "syncPartitions unsorted env t =
     (let cols = hts_PartitionedBy (ht_Spec t);
          desiredPartitions = hts_Partitions (ht_Spec t);
          changes = getPartitionChanges unsorted cols (htst_Partitions (ht_Status t)) desiredPartitions;
          toRemove = toRemovePartitions changes @ toUpdatePartitions changes;
          toAdd = toAddPartitions changes @ toUpdatePartitions changes;
          tableName = htst_TableName (ht_Status t)
      in do {
        r \<leftarrow> for_eachR (\<lambda>p. onError (partition_error ''drop partition '' cols tableName p) (hm_DropPartition env tableName cols p)) toRemove;
        (case r of Inl e \<Rightarrow> State_Monad.return (Some e) | Inr _ \<Rightarrow> do {
          a \<leftarrow> for_eachR (\<lambda>p. onError (partition_error ''add partition '' cols tableName p) (hm_AddPartition env tableName cols p)) toAdd;
          (case a of Inl e \<Rightarrow> State_Monad.return (Some e) | Inr _ \<Rightarrow> do {
            u \<leftarrow> updateHiveTableM env (t\<lparr>ht_Status := (ht_Status t)\<lparr>htst_Partitions := desiredPartitions\<rparr>\<rparr>);
            (case u of
               Inl e \<Rightarrow> State_Monad.return (Some e)
             | Inr _ \<Rightarrow> do {
                 emit (GaugeSet (''metering_table_partitions '' @ tableName) (int (length desiredPartitions)));
                 State_Monad.return None
               })
          })
        })
      })"

section \<open>The handler\<close>

definition hiveTableParameters :: "HiveTableSpec \<Rightarrow> TableParameters" where
  "hiveTableParameters spec =
     \<lparr>tparams_Database = hts_DatabaseName spec, tparams_Name = hts_TableName spec, tparams_Columns = hts_Columns spec,
      tparams_PartitionedBy = hts_PartitionedBy spec, tparams_ClusteredBy = hts_ClusteredBy spec,
      tparams_SortedBy = hts_SortedBy spec, tparams_NumBuckets = hts_NumBuckets spec, tparams_Location = hts_Location spec,
      tparams_RowFormat = hts_RowFormat spec, tparams_FileFormat = hts_FileFormat spec,
      tparams_TableProperties = hts_TableProperties spec, tparams_External = hts_External spec\<rparr>"

definition createdStatus :: "HiveTableSpec \<Rightarrow> HiveTableStatus" where
  "createdStatus spec =
     \<lparr>htst_DatabaseName = hts_DatabaseName spec, htst_TableName = hts_TableName spec, htst_Columns = hts_Columns spec,
      htst_PartitionedBy = hts_PartitionedBy spec, htst_ClusteredBy = hts_ClusteredBy spec, htst_SortedBy = hts_SortedBy spec,
      htst_NumBuckets = hts_NumBuckets spec, htst_Location = hts_Location spec, htst_RowFormat = hts_RowFormat spec,
      htst_FileFormat = hts_FileFormat spec, htst_TableProperties = hts_TableProperties spec,
      htst_External = hts_External spec, htst_Partitions = hts_Partitions spec\<rparr>"

definition empty_PrestoTableStatus :: PrestoTableStatus where
  "empty_PrestoTableStatus = \<lparr>ptst_Catalog = [], ptst_Schema = [], ptst_TableName = [], ptst_Columns = [],
     ptst_Properties = None, ptst_Comment = [], ptst_View = False, ptst_CreateTableAs = False, ptst_Query = []\<rparr>"

definition prestoTableOfHiveTable :: "HiveTable \<Rightarrow> Column list \<Rightarrow> PrestoTable" where
  "prestoTableOfHiveTable t prestoColumns =
     \<lparr>Name = Name t, Namespace = Namespace t, Labels = Labels t, Annotations = [], Finalizers = [],
      DeletionTimestamp = None, ResourceVersion = [], OwnerReferences = [NewControllerRef t ''HiveTable''],
      pt_Spec = \<lparr>pts_Unmanaged = True, pts_Catalog = ''hive'', pts_Schema = htst_DatabaseName (ht_Status t),
        pts_TableName = htst_TableName (ht_Status t), pts_Columns = prestoColumns, pts_Properties = None, pts_Comment = [],
        pts_View = False, pts_CreateTableAs = False, pts_Query = []\<rparr>,
      pt_Status = empty_PrestoTableStatus\<rparr>"

text \<open>
  When the creation fails the client answers an empty object beside the error, so that the test of its
  table name fails for an object that exists already, too.
\<close>

definition createPrestoTableOfHiveTable :: "'x client_env_scheme \<Rightarrow> HiveTable \<Rightarrow> (goerror + HiveTable) op" where
  "createPrestoTableOfHiveTable env t =
     (case HiveColumnsToPrestoColumns (hts_Columns (ht_Spec t) @ hts_PartitionedBy (ht_Spec t)) of
        Inl e \<Rightarrow> State_Monad.return (Inl (wrap (\<lambda>m. ''unable to create PrestoTable '' @ Name t @
          '', error converting Hive columns to Presto columns: '' @ m) e))
      | Inr prestoColumns \<Rightarrow>
          let newTable = prestoTableOfHiveTable t prestoColumns in do {
            r \<leftarrow> call (\<lambda>h. client_CreatePrestoTable env h newTable) (CreatePrestoTable newTable);
            State_Monad.return
              (case r of
                 Inr _ \<Rightarrow> Inr t
               | Inl e \<Rightarrow>
                   if IsAlreadyExists e \<and> ptst_TableName empty_PrestoTableStatus \<noteq> [] then Inr t
                   else Inl (wrap (\<lambda>m. ''couldn'' @ squote @ ''t create PrestoTable resource '' @ Name t @ '': '' @ m) e))
          })"

text \<open>The block of the handler that creates the table.\<close>

definition createHiveTable :: "'x client_env_scheme \<Rightarrow> HiveTable \<Rightarrow> (goerror + HiveTable) op" where
  "createHiveTable env t = do {
     err \<leftarrow> hm_CreateTable env (hiveTableParameters (ht_Spec t)) True;
     (case err of
        Some e \<Rightarrow> State_Monad.return (Inl (wrap (\<lambda>m. ''couldn'' @ squote @ ''t create table '' @ hts_TableName (ht_Spec t) @
          '' in Hive: '' @ m) e))
      | None \<Rightarrow> do {
          u \<leftarrow> updateHiveTableM env (t\<lparr>ht_Status := createdStatus (ht_Spec t)\<rparr>);
          (case u of Inl e \<Rightarrow> State_Monad.return (Inl e) | Inr t' \<Rightarrow> createPrestoTableOfHiveTable env t')
        })
   }"

text \<open>The part of the handler after the finalizer.\<close>

definition reconcileHiveTable ::
  "(string list \<Rightarrow> string list) \<Rightarrow> 'x client_env_scheme \<Rightarrow> HiveTable \<Rightarrow> goerror option op" where
  "reconcileHiveTable unsorted env t =
     (if hts_TableName (ht_Spec t) = [] then State_Monad.return (Some (Err ''spec.tableName must be set''))
      else if length (hts_Columns (ht_Spec t)) = 0 then State_Monad.return (Some (Err ''spec.columns must be non-empty''))
      else do {
        c \<leftarrow> (if htst_TableName (ht_Status t) \<noteq> [] then State_Monad.return (Inr t) else createHiveTable env t);
        (case c of
           Inl e \<Rightarrow> State_Monad.return (Some e)
         | Inr t' \<Rightarrow> if hts_ManagePartitions (ht_Spec t') then syncPartitions unsorted env t' else State_Monad.return None)
      })"

definition handleHiveTable ::
  "(string list \<Rightarrow> string list) \<Rightarrow> 'x client_env_scheme \<Rightarrow> op_config \<Rightarrow> HiveTable \<Rightarrow> goerror option op" where
  "handleHiveTable unsorted env cfg hiveTable =
     withFinalizer (EnableFinalizers cfg) hiveTableNeedsFinalizer (addHiveTableFinalizer env)
       (reconcileHiveTable unsorted env) hiveTable"

definition syncHiveTable ::
  "(string list \<Rightarrow> string list) \<Rightarrow> 'x client_env_scheme \<Rightarrow> op_config \<Rightarrow> string \<Rightarrow> goerror option op" where
  "syncHiveTable unsorted env cfg key =
     (case SplitMetaNamespaceKey key of
        Inl _ \<Rightarrow> State_Monad.return None
      | Inr (namespace, name) \<Rightarrow> do {
          r \<leftarrow> peek (\<lambda>h. lister_HiveTable env h namespace name);
          (case r of
             Inl e \<Rightarrow> State_Monad.return (if IsNotFound e then None else Some e)
           | Inr t \<Rightarrow>
               if DeletionTimestamp t \<noteq> None then cleanup (dropHiveTable env) (removeHiveTableFinalizer env) t
               else handleHiveTable unsorted env cfg t)
        })"

section \<open>Informer events\<close>

definition deleteHiveTable :: "'x client_env_scheme \<Rightarrow> op_config \<Rightarrow> HiveTable deleted \<Rightarrow> (goerror + unit) op" where
  "deleteHiveTable env cfg obj =
     (case deleted_obj obj of
        Inl e \<Rightarrow> State_Monad.return (Inl e)
      | Inr t \<Rightarrow> do {
          err \<leftarrow> (if \<not> EnableFinalizers cfg then cleanup (dropHiveTable env) (removeHiveTableFinalizer env) t
                  else State_Monad.return None);
          (if err = None then do {
             emit (QueueAdd HiveTableQueue (MetaNamespaceKeyFunc t));
             State_Monad.return (Inr ())
           }
           else State_Monad.return (Inr ()))
        })"

definition addHiveTable :: "'x client_env_scheme \<Rightarrow> op_config \<Rightarrow> HiveTable \<Rightarrow> (goerror + unit) op" where
  "addHiveTable env cfg t =
     (if DeletionTimestamp t \<noteq> None then deleteHiveTable env cfg (Obj t)
      else do { enqueueHiveTable t; State_Monad.return (Inr ()) })"

definition updateHiveTable :: "'x client_env_scheme \<Rightarrow> op_config \<Rightarrow> HiveTable \<Rightarrow> (goerror + unit) op" where
  "updateHiveTable env cfg cur =
     (if DeletionTimestamp cur \<noteq> None then deleteHiveTable env cfg (Obj cur)
      else do { enqueueHiveTable cur; State_Monad.return (Inr ()) })"

section \<open>Partitions of the metastore\<close>

text \<open>
  The partitions of a table in the Hive metastore: the location for the values of the partition columns.
  Dropping and adding a partition as the statements with \<^verbatim>\<open>IF EXISTS\<close> and \<^verbatim>\<open>IF NOT EXISTS\<close> do.
\<close>

type_synonym metastore = "string list \<rightharpoonup> string"

definition storeDrop :: "Column list \<Rightarrow> TablePartition \<Rightarrow> metastore \<Rightarrow> metastore" where
  "storeDrop cols p M = M(partitionValues cols p := None)"

definition storeAdd :: "Column list \<Rightarrow> TablePartition \<Rightarrow> metastore \<Rightarrow> metastore" where
  "storeAdd cols p M = (if M (partitionValues cols p) = None then M(partitionValues cols p \<mapsto> tp_Location p) else M)"

text \<open>What a list of desired partitions asks for; of two with the same values the later one counts.\<close>

definition storeOf :: "Column list \<Rightarrow> TablePartition list \<Rightarrow> metastore" where
  "storeOf cols ps = (\<lambda>v. map_option tp_Location (find (\<lambda>p. partitionValues cols p = v) (rev ps)))"

lemma insertPartitions_spec:
  "map_of (fst (insertPartitions cols look ids ps)) i =
     (case find (\<lambda>p. setID cols p = i) (rev ps) of Some p \<Rightarrow> Some p | None \<Rightarrow> map_of look i) \<and>
   set (snd (insertPartitions cols look ids ps)) = set ids \<union> setID cols ` set ps \<and>
   (distinct ids \<longrightarrow> distinct (snd (insertPartitions cols look ids ps)))"
  by (induction ps arbitrary: look ids) (auto simp: find_append distinct_insert split: option.splits)

lemma find_key: "k \<in> f ` set xs \<Longrightarrow> \<exists>y. find (\<lambda>x. f x = k) (rev xs) = Some y \<and> f y = k \<and> y \<in> set xs"
  by (induction xs) (auto simp: find_append dest: find_SomeD split: option.splits)

text \<open>The two lists of partitions that the handler works through.\<close>

lemma getPartitionChanges_spec:
  assumes perm: "\<forall>xs. mset (unsorted xs) = mset xs"
    and ch: "ch = getPartitionChanges unsorted cols current desired"
  obtains rm add where
    "toRemovePartitions ch @ toUpdatePartitions ch = rm" "toAddPartitions ch @ toUpdatePartitions ch = add"
    "set rm \<subseteq> set current \<union> set desired" "setID cols ` set rm = setID cols ` set current"
    "distinct (map (setID cols) add)" "setID cols ` set add = setID cols ` set desired"
    "\<forall>p \<in> set add. find (\<lambda>q. setID cols q = setID cols p) (rev desired) = Some p"
proof -
  obtain l1 cs where 1: "insertPartitions cols [] [] current = (l1, cs)" by fastforce
  obtain l2 ds where 2: "insertPartitions cols l1 [] desired = (l2, ds)" by fastforce
  have l1: "map_of l1 i = find (\<lambda>p. setID cols p = i) (rev current)" for i
    using insertPartitions_spec [of cols "[]" "[]" current i] 1 by (auto split: option.splits)
  have cs: "set cs = setID cols ` set current" "distinct cs"
    using insertPartitions_spec [of cols "[]" "[]" current] 1 by auto
  have l2: "map_of l2 i = (case find (\<lambda>p. setID cols p = i) (rev desired) of Some p \<Rightarrow> Some p | None \<Rightarrow> map_of l1 i)" for i
    using insertPartitions_spec [of cols l1 "[]" desired i] 2 by auto
  have ds: "set ds = setID cols ` set desired" "distinct ds"
    using insertPartitions_spec [of cols l1 "[]" desired] 2 by auto
  let ?g = "\<lambda>i. the (map_of l2 i)"
  have g_des: "find (\<lambda>q. setID cols q = i) (rev desired) = Some (?g i) \<and> setID cols (?g i) = i \<and> ?g i \<in> set desired"
    if "i \<in> set ds" for i
    using find_key [of i "setID cols" desired] that by (auto simp: ds(1) l2 simp del: image_iff)
  have g_cur: "setID cols (?g i) = i \<and> ?g i \<in> set current \<union> set desired" if "i \<in> set cs" for i
    using find_key [of i "setID cols" current] that by (fastforce simp: cs(1) l2 l1 dest: find_SomeD split: option.splits)
  have su: "set (unsorted xs) = set xs" "distinct (unsorted xs) = distinct xs" for xs
    using perm by (metis set_mset_mset, metis mset_eq_imp_distinct_iff)
  define rm where "rm = unsorted (filter (\<lambda>i. i \<notin> set ds) cs) @ unsorted (filter (\<lambda>i. i \<in> set ds) cs)"
  define ad where "ad = unsorted (filter (\<lambda>i. i \<notin> set cs) ds) @ unsorted (filter (\<lambda>i. i \<in> set ds) cs)"
  have sets: "set rm = set cs" "set ad = set ds" "distinct ad"
    using cs(2) ds(2) by (auto simp: su rm_def ad_def)
  have ids: "map (setID cols) (map ?g ad) = ad" "map (setID cols) (map ?g rm) = rm"
    unfolding map_map using g_des g_cur sets(1,2) by (intro map_idI; simp)+
  show thesis
  proof (rule that)
    show "toRemovePartitions ch @ toUpdatePartitions ch = map ?g rm"
      and "toAddPartitions ch @ toUpdatePartitions ch = map ?g ad"
      by (simp_all add: ch getPartitionChanges_def 1 2 rm_def ad_def)
    show "set (map ?g rm) \<subseteq> set current \<union> set desired"
      using g_cur sets(1) by auto
    show "setID cols ` set (map ?g rm) = setID cols ` set current"
      using arg_cong [OF ids(2), of set] sets(1) cs(1) by (simp only: list.set_map)
    show "distinct (map (setID cols) (map ?g ad))" using sets(3) by (simp only: ids)
    show "setID cols ` set (map ?g ad) = setID cols ` set desired"
      using arg_cong [OF ids(1), of set] sets(2) ds(1) by (simp only: list.set_map)
    show "\<forall>p \<in> set (map ?g ad). find (\<lambda>q. setID cols q = setID cols p) (rev desired) = Some p"
      using g_des sets(2) by simp
  qed
qed

lemma fold_storeDrop:
  "fold (storeDrop cols) ps M = (\<lambda>v. if v \<in> partitionValues cols ` set ps then None else M v)"
  by (induction ps arbitrary: M) (auto simp: storeDrop_def fun_eq_iff)

lemma fold_storeAdd:
  assumes "distinct (map (partitionValues cols) ps)" and "\<forall>p \<in> set ps. M (partitionValues cols p) = None"
  shows "fold (storeAdd cols) ps M = M ++ map_of (map (\<lambda>p. (partitionValues cols p, tp_Location p)) ps)"
  using assms
proof (induction ps arbitrary: M)
  case (Cons p ps)
  let ?M = "M(partitionValues cols p \<mapsto> tp_Location p)"
  have ih: "fold (storeAdd cols) ps ?M = ?M ++ map_of (map (\<lambda>p. (partitionValues cols p, tp_Location p)) ps)"
    using Cons.prems by (intro Cons.IH) (auto, metis imageI)
  have sa: "storeAdd cols p M = ?M" using Cons.prems by (simp add: storeAdd_def)
  have "partitionValues cols p \<notin> Map.dom (map_of (map (\<lambda>p. (partitionValues cols p, tp_Location p)) ps))"
    using Cons.prems(1) by (auto simp: dom_map_of_conv_image_fst image_image)
  then show ?case unfolding fold_Cons comp_apply sa ih by (auto simp: map_add_def split: option.splits)
qed simp

text \<open>Working through the two lists turns the recorded partitions into the desired ones.\<close>

lemma changes_reach_desired:
  assumes "\<forall>xs. mset (unsorted xs) = mset xs"
    and inj: "inj_on (join ''-'') (partitionValues cols ` (set current \<union> set desired))"
    and M: "Map.dom M \<subseteq> partitionValues cols ` set current"
    and ch: "ch = getPartitionChanges unsorted cols current desired"
  shows "fold (storeAdd cols) (toAddPartitions ch @ toUpdatePartitions ch)
      (fold (storeDrop cols) (toRemovePartitions ch @ toUpdatePartitions ch) M) = storeOf cols desired"
proof -
  obtain rm add where *: "toRemovePartitions ch @ toUpdatePartitions ch = rm" "toAddPartitions ch @ toUpdatePartitions ch = add"
    "set rm \<subseteq> set current \<union> set desired" "setID cols ` set rm = setID cols ` set current"
    "distinct (map (setID cols) add)" "setID cols ` set add = setID cols ` set desired"
    "\<forall>p \<in> set add. find (\<lambda>q. setID cols q = setID cols p) (rev desired) = Some p"
    by (rule getPartitionChanges_spec [OF assms(1) ch])
  have same: "setID cols p = setID cols q \<longleftrightarrow> partitionValues cols p = partitionValues cols q"
    if "p \<in> set current \<union> set desired" "q \<in> set current \<union> set desired" for p q
    using inj_onD [OF inj, of "partitionValues cols p" "partitionValues cols q"] that by (auto simp: setID_def)
  have add_in: "p \<in> set desired" if "p \<in> set add" for p using *(7) that find_SomeD by fastforce
  have "M v = None" if v: "v \<notin> partitionValues cols ` set rm" for v
  proof (rule ccontr)
    assume "M v \<noteq> None"
    then obtain p where p: "p \<in> set current" "v = partitionValues cols p" using M by auto
    then obtain q where q: "q \<in> set rm" "setID cols q = setID cols p" using *(4) by (metis imageE imageI)
    then have "partitionValues cols q = v" using same [of q p] p *(3) by auto
    with q(1) v show False by blast
  qed
  then have drop: "fold (storeDrop cols) rm M = Map.empty" by (auto simp: fold_storeDrop)
  have dist: "distinct (map (partitionValues cols) add)"
    using *(5) add_in same by (auto simp: distinct_map inj_on_def)
  have "map_of (map (\<lambda>p. (partitionValues cols p, tp_Location p)) add) v = storeOf cols desired v" for v
  proof (cases "v \<in> partitionValues cols ` set desired")
    case False
    then have "find (\<lambda>p. partitionValues cols p = v) (rev desired) = None" by (auto simp: find_None_iff)
    moreover have "v \<notin> partitionValues cols ` set add" using False add_in by auto
    ultimately show ?thesis by (auto simp: storeOf_def map_of_eq_None_iff image_image)
  next
    case True
    then obtain q where q: "q \<in> set desired" "v = partitionValues cols q" by auto
    then obtain p where p: "p \<in> set add" "setID cols p = setID cols q" using *(6) by (metis imageE imageI)
    have "find (\<lambda>r. partitionValues cols r = v) (rev desired) = find (\<lambda>r. setID cols r = setID cols p) (rev desired)"
      using same q p(2) by (intro find_cong) auto
    then have "storeOf cols desired v = Some (tp_Location p)" using *(7) p(1) by (simp add: storeOf_def)
    moreover have "partitionValues cols p = v" using same [of p q] add_in [OF p(1)] p(2) q by simp
    then have "map_of (map (\<lambda>p. (partitionValues cols p, tp_Location p)) add) v = Some (tp_Location p)"
      using dist p(1) by (intro map_of_is_SomeI) (auto simp: comp_def)
    ultimately show ?thesis by simp
  qed
  then show ?thesis unfolding *(1,2) drop by (simp add: fold_storeAdd [OF dist] fun_eq_iff)
qed

text \<open>The events of a loop over the partitions that reports no error.\<close>

lemma run_partition_loop:
  assumes "run_state (for_eachR (\<lambda>p. onError (f p) (hiveExecM env (stmt p))) ps) h = (Inr (), h')"
  shows "h' = h @ map (\<lambda>p. HiveExec (stmt p)) ps"
  using assms
proof (induction ps arbitrary: h)
  case (Cons p ps)
  then show ?case
    using Cons.IH [of "h @ [HiveExec (stmt p)]"] by (auto simp: onError_def run_hiveExecM split: option.splits)
qed simp

definition dropPartitionSQL :: "string \<Rightarrow> Column list \<Rightarrow> TablePartition \<Rightarrow> string" where
  "dropPartitionSQL tableName cols p =
     ''ALTER TABLE '' @ tableName @ '' DROP IF EXISTS PARTITION ('' @ FmtPartitionSpec cols (tp_PartitionSpec p) @ '')''"

definition addPartitionSQL :: "string \<Rightarrow> Column list \<Rightarrow> TablePartition \<Rightarrow> string" where
  "addPartitionSQL tableName cols p =
     ''ALTER TABLE '' @ tableName @ '' ADD IF NOT EXISTS PARTITION ('' @ FmtPartitionSpec cols (tp_PartitionSpec p) @
     '') '' @ (if tp_Location p \<noteq> [] then ''LOCATION '' @ tp_Location p else [])"

lemma hm_partition_sql:
  "hm_DropPartition env tableName cols p = hiveExecM env (dropPartitionSQL tableName cols p)"
  "hm_AddPartition env tableName cols p = hiveExecM env (addPartitionSQL tableName cols p)"
  by (simp_all add: hm_DropPartition_def hm_AddPartition_def dropPartitionSQL_def addPartitionSQL_def)

section \<open>Properties\<close>


text \<open>A table partitioned by a billing period.\<close>

definition sample_partition :: "string \<Rightarrow> string \<Rightarrow> string \<Rightarrow> TablePartition" where
  "sample_partition b e loc = \<lparr>tp_Location = loc, tp_PartitionSpec = [(''start'', b), (''end'', e)]\<rparr>"

definition sample_table :: "string \<Rightarrow> TablePartition list \<Rightarrow> TablePartition list \<Rightarrow> HiveTable" where
  "sample_table created current desired = \<lparr>Name = ''t'', Namespace = ''ns'', Labels = [], Annotations = [], Finalizers = [],
     DeletionTimestamp = None, ResourceVersion = ''1'', OwnerReferences = [],
     ht_Spec = \<lparr>hts_DatabaseName = ''metering'', hts_TableName = ''tbl'', hts_Columns = [\<lparr>col_Name = ''amount'', col_Type = ''double''\<rparr>],
       hts_PartitionedBy = [\<lparr>col_Name = ''start'', col_Type = ''string''\<rparr>, \<lparr>col_Name = ''end'', col_Type = ''string''\<rparr>],
       hts_ClusteredBy = [], hts_SortedBy = [], hts_NumBuckets = 0, hts_Location = [], hts_RowFormat = [], hts_FileFormat = [],
       hts_TableProperties = None, hts_External = True, hts_ManagePartitions = (desired \<noteq> []), hts_Partitions = desired\<rparr>,
     ht_Status = empty_HiveTableStatus\<lparr>htst_TableName := created, htst_Partitions := current\<rparr>\<rparr>"


text \<open>
  When the PrestoTable beside a Hive table cannot be created, it never will be: the handler fails, but it has already recorded
  the table as created, and from then on handling the stored HiveTable succeeds without creating anything.
\<close>

theorem presto_table_never_retried:
  assumes "\<forall>h x. client_UpdateHiveTable env h x = Inr x" and "\<forall>h s. hive_Exec env h s = None"
    and "\<forall>h p. \<exists>e. client_CreatePrestoTable env h p = Inl e"
    and "hts_TableName (ht_Spec t) \<noteq> []" and "hts_Columns (ht_Spec t) \<noteq> []" and "htst_TableName (ht_Status t) = []"
    and "\<not> hts_ManagePartitions (ht_Spec t)" and "hiveTableFinalizer \<in> set (Finalizers t)"
  shows "\<exists>e es. run_state (handleHiveTable unsorted env cfg t) h = (Some e, h @ es) \<and>
    UpdateHiveTable (t\<lparr>ht_Status := createdStatus (ht_Spec t)\<rparr>) \<in> set es \<and>
    (\<forall>env' g. run_state (handleHiveTable unsorted env' cfg (t\<lparr>ht_Status := createdStatus (ht_Spec t)\<rparr>)) g = (None, g))"
proof -
  let ?t = "t\<lparr>ht_Status := createdStatus (ht_Spec t)\<rparr>"
  have n: "\<not> hiveTableNeedsFinalizer t" "\<not> hiveTableNeedsFinalizer ?t"
    using assms(8) by (simp_all add: hiveTableNeedsFinalizer_def)
  have again: "run_state (handleHiveTable unsorted env' cfg ?t) g = (None, g)" for env' :: "'b client_env_scheme" and g
    using n(2) assms(4,5,7) by (simp add: handleHiveTable_def withFinalizer_def reconcileHiveTable_def createdStatus_def)
  have "\<exists>e es. run_state (createPrestoTableOfHiveTable env ?t) g = (Inl e, g @ es)" for g
    using assms(3) by (auto simp: createPrestoTableOfHiveTable_def Let_def empty_PrestoTableStatus_def split: sum.splits)
      (metis isOK_simps)
  then obtain e es where "run_state (createPrestoTableOfHiveTable env ?t)
      (h @ [HiveExec (generateCreateTableSQL (hiveTableParameters (ht_Spec t)) True), UpdateHiveTable ?t]) =
      (Inl e, (h @ [HiveExec (generateCreateTableSQL (hiveTableParameters (ht_Spec t)) True), UpdateHiveTable ?t]) @ es)"
    by blast
  then have "run_state (handleHiveTable unsorted env cfg t) h =
      (Some e, h @ [HiveExec (generateCreateTableSQL (hiveTableParameters (ht_Spec t)) True), UpdateHiveTable ?t] @ es)"
    using n(1) assms(1,2,4,5,6)
    by (simp add: handleHiveTable_def withFinalizer_def reconcileHiveTable_def createHiveTable_def hive_op_defs run_simps)
  then show ?thesis using again by fastforce
qed

theorem presto_table_never_retried_witness:
  "\<exists>e es. run_state (handleHiveTable rev (quiet_env\<lparr>client_CreatePrestoTable := \<lambda>_ _. Inl (Err ''timeout'')\<rparr>)
       \<lparr>EnableFinalizers = True\<rparr> ((sample_table [] [] [])\<lparr>Finalizers := [hiveTableFinalizer]\<rparr>)) [] = (Some e, es) \<and>
     run_state (handleHiveTable rev quiet_env \<lparr>EnableFinalizers = True\<rparr>
       ((sample_table [] [] [])\<lparr>Finalizers := [hiveTableFinalizer],
          ht_Status := createdStatus (ht_Spec (sample_table [] [] []))\<rparr>)) es = (None, es)"
proof -
  let ?t = "(sample_table [] [] [])\<lparr>Finalizers := [hiveTableFinalizer]\<rparr>"
  have t: "hts_TableName (ht_Spec ?t) \<noteq> []" "hts_Columns (ht_Spec ?t) \<noteq> []" "htst_TableName (ht_Status ?t) = []"
    "\<not> hts_ManagePartitions (ht_Spec ?t)" "hiveTableFinalizer \<in> set (Finalizers ?t)"
    by (simp_all add: sample_table_def empty_HiveTableStatus_def)
  have e: "\<forall>h x. client_UpdateHiveTable (quiet_env\<lparr>client_CreatePrestoTable := \<lambda>_ _. Inl (Err ''timeout'')\<rparr>) h x = Inr x"
    "\<forall>h s. hive_Exec (quiet_env\<lparr>client_CreatePrestoTable := \<lambda>_ _. Inl (Err ''timeout'')\<rparr>) h s = None"
    "\<forall>h p. \<exists>e. client_CreatePrestoTable (quiet_env\<lparr>client_CreatePrestoTable := \<lambda>_ _. Inl (Err ''timeout'')\<rparr>) h p = Inl e"
    by (simp_all add: quiet_env_def)
  from presto_table_never_retried [OF e t, of rev "\<lparr>EnableFinalizers = True\<rparr>" "[]"] show ?thesis by auto
qed

text \<open>
  Waiting for a table answers only a table that the API server answered and that has been created; the
  handler sleeps before each look.
\<close>

lemma traces_waitForHiveTable:
  "traces (waitForHiveTable env ns name d timeout) (\<lambda>r es. set es \<subseteq> {Sleep d, GetHiveTable ns name} \<and>
     (\<forall>t. r = Inr t \<longrightarrow> htst_TableName (ht_Status t) \<noteq> []))"
proof -
  have c: "traces (hiveTableCreated env ns name) (\<lambda>r es. set es \<subseteq> {Sleep d, GetHiveTable ns name} \<and>
      (\<forall>t. r = Inr (Some t) \<longrightarrow> htst_TableName (ht_Status t) \<noteq> []))"
    unfolding hiveTableCreated_def by (intro traces_intros) (auto split: sum.splits if_splits)
  have "traces (Poll env d timeout (hiveTableCreated env ns name)) (\<lambda>r es. set es \<subseteq> {Sleep d, GetHiveTable ns name} \<and>
      (\<forall>t. r = Inr (Some t) \<longrightarrow> htst_TableName (ht_Status t) \<noteq> []))"
    by (rule traces_Poll [OF c]) auto
  then show ?thesis
    unfolding waitForHiveTable_def
    by (rule traces_bind) (auto intro!: traces_return simp: timed_out_def split: sum.splits option.splits)
qed

end
