(* ===== verification/Presto_Tables.thy ===== *)
theory Presto_Tables
  imports Hive_Tables Presto_SQL
begin

text \<open>
  PrestoTable resources, \<^verbatim>\<open>pkg/operator/prestotables.go\<close>: the handler that creates a table or a view in Presto, or only
  records an unmanaged one, the cleanup, and what other handlers use to have a table made and to wait for
  it.
\<close>

section \<open>The finalizer\<close>

definition prestoTableFinalizer :: string where
  "prestoTableFinalizer = GroupName @ ''/prestotable''"

definition updatePrestoTableM :: "'x client_env_scheme \<Rightarrow> PrestoTable \<Rightarrow> (goerror + PrestoTable) op" where
  "updatePrestoTableM env t = call (\<lambda>h. client_UpdatePrestoTable env h t) (UpdatePrestoTable t)"

definition addPrestoTableFinalizer :: "'x client_env_scheme \<Rightarrow> PrestoTable \<Rightarrow> (goerror + PrestoTable) op" where
  "addPrestoTableFinalizer env t = updatePrestoTableM env (t\<lparr>Finalizers := Finalizers t @ [prestoTableFinalizer]\<rparr>)"

definition removePrestoTableFinalizer :: "'x client_env_scheme \<Rightarrow> PrestoTable \<Rightarrow> (goerror + PrestoTable) op" where
  "removePrestoTableFinalizer env t =
     (if \<not> ContainsString (Finalizers t) prestoTableFinalizer None then State_Monad.return (Inr t)
      else updatePrestoTableM env (t\<lparr>Finalizers := RemoveString (Finalizers t) prestoTableFinalizer None\<rparr>))"

definition prestoTableNeedsFinalizer :: "PrestoTable \<Rightarrow> bool" where
  "prestoTableNeedsFinalizer t \<longleftrightarrow>
     DeletionTimestamp t = None \<and> \<not> ContainsString (Finalizers t) prestoTableFinalizer None"

lemma run_updatePrestoTableM [run_simps]:
  "run_state (updatePrestoTableM env t) h = (client_UpdatePrestoTable env h t, h @ [UpdatePrestoTable t])"
  by (simp add: updatePrestoTableM_def)

definition dropPrestoTable :: "'x store_env_scheme \<Rightarrow> PrestoTable \<Rightarrow> goerror option op" where
  "dropPrestoTable env t =
     (if \<not> pts_Unmanaged (pt_Spec t) then
        (if ptst_TableName (pt_Status t) = [] then State_Monad.return None
         else if ptst_View (pt_Status t)
         then ptm_DropView env (ptst_Catalog (pt_Status t)) (ptst_Schema (pt_Status t)) (ptst_TableName (pt_Status t)) True
         else ptm_DropTable env (ptst_Catalog (pt_Status t)) (ptst_Schema (pt_Status t)) (ptst_TableName (pt_Status t)) True)
      else State_Monad.return (Some (Err ''cannot drop unmanaged PrestoTable'')))"

text \<open>What the handler drops of a table that is marked for deletion: nothing of an unmanaged one.\<close>

definition dropManagedPrestoTable :: "'x store_env_scheme \<Rightarrow> PrestoTable \<Rightarrow> goerror option op" where
  "dropManagedPrestoTable env t =
     (if \<not> pts_Unmanaged (pt_Spec t) then dropPrestoTable env t else State_Monad.return None)"

definition dropPrestoStatement :: "PrestoTable \<Rightarrow> string option" where
  "dropPrestoStatement t =
     (if pts_Unmanaged (pt_Spec t) \<or> ptst_TableName (pt_Status t) = [] then None
      else Some ((if ptst_View (pt_Status t) then ''DROP VIEW IF EXISTS '' else ''DROP TABLE IF EXISTS '') @
        presto_FullyQualifiedTableName (ptst_Catalog (pt_Status t)) (ptst_Schema (pt_Status t)) (ptst_TableName (pt_Status t))))"

definition submitted :: "goerror + sql_rows \<Rightarrow> goerror option" where
  "submitted r = (case r of Inl e \<Rightarrow> Some e | Inr _ \<Rightarrow> None)"

interpretation pt: droppable_object prestoTableFinalizer prestoTableNeedsFinalizer
  "addPrestoTableFinalizer env" "removePrestoTableFinalizer env" UpdatePrestoTable "client_UpdatePrestoTable env"
  "dropManagedPrestoTable env"
  "\<lambda>t. case dropPrestoStatement t of Some stmt \<Rightarrow> [PrestoQuery stmt] | None \<Rightarrow> []"
  "\<lambda>h t. case dropPrestoStatement t of Some stmt \<Rightarrow> submitted (presto_Query env h stmt) | None \<Rightarrow> None"
  for env :: "'x client_env_scheme"
  by unfold_locales
    (simp_all add: prestoTableNeedsFinalizer_def addPrestoTableFinalizer_def removePrestoTableFinalizer_def
      dropManagedPrestoTable_def dropPrestoTable_def dropPrestoStatement_def presto_op_defs run_simps submitted_def Let_def)

section \<open>Making a table and waiting for it\<close>

definition newPrestoTable ::
  "op_config \<Rightarrow> 'a ObjectMeta_scheme \<Rightarrow> string \<Rightarrow> string \<Rightarrow> string \<Rightarrow> string \<Rightarrow> Column list \<Rightarrow> bool \<Rightarrow> bool \<Rightarrow> string \<Rightarrow>
   PrestoTable" where
  "newPrestoTable cfg obj kind catalog schema tableName columns unmanaged view query =
     \<lparr>Name = TableResourceNameFromKind kind (Namespace obj) (Name obj), Namespace = Namespace obj, Labels = Labels obj,
      Annotations = [], Finalizers = (if EnableFinalizers cfg then [prestoTableFinalizer] else []),
      DeletionTimestamp = None, ResourceVersion = [], OwnerReferences = [NewControllerRef obj kind],
      pt_Spec = \<lparr>pts_Unmanaged = unmanaged, pts_Catalog = catalog, pts_Schema = schema, pts_TableName = tableName,
        pts_Columns = columns, pts_Properties = None, pts_Comment = [], pts_View = view, pts_CreateTableAs = False,
        pts_Query = query\<rparr>,
      pt_Status = empty_PrestoTableStatus\<rparr>"

definition createPrestoTableCR ::
  "'x client_env_scheme \<Rightarrow> op_config \<Rightarrow> 'a ObjectMeta_scheme \<Rightarrow> string \<Rightarrow> string \<Rightarrow> string \<Rightarrow> string \<Rightarrow> Column list \<Rightarrow>
   bool \<Rightarrow> bool \<Rightarrow> string \<Rightarrow> (goerror + PrestoTable) op" where
  "createPrestoTableCR env cfg obj kind catalog schema tableName columns unmanaged view query =
     (let t = newPrestoTable cfg obj kind catalog schema tableName columns unmanaged view query in do {
        r \<leftarrow> call (\<lambda>h. client_CreatePrestoTable env h t) (CreatePrestoTable t);
        (case r of
           Inr prestoTable \<Rightarrow> State_Monad.return (Inr prestoTable)
         | Inl e \<Rightarrow>
             if IsAlreadyExists e then peek (\<lambda>h. lister_PrestoTable env h (Namespace obj) (Name t))
             else State_Monad.return (Inl (wrap (\<lambda>m. ''couldn'' @ squote @ ''t create PrestoTable resource for '' @
               show_gvk kind @ '' '' @ Name obj @ '': '' @ m) e)))
      })"

definition prestoTableCreated :: "'x client_env_scheme \<Rightarrow> string \<Rightarrow> string \<Rightarrow> (goerror + PrestoTable option) op" where
  "prestoTableCreated env namespace name = do {
     r \<leftarrow> call (\<lambda>h. client_GetPrestoTable env h namespace name) (GetPrestoTable namespace name);
     State_Monad.return
       (case r of
          Inl e \<Rightarrow> if IsNotFound e then Inr None else Inl e
        | Inr t \<Rightarrow> if ptst_TableName (pt_Status t) \<noteq> [] then Inr (Some t) else Inr None)
   }"

definition waitForPrestoTable ::
  "'x client_env_scheme \<Rightarrow> string \<Rightarrow> string \<Rightarrow> duration \<Rightarrow> duration \<Rightarrow> (goerror + PrestoTable) op" where
  "waitForPrestoTable env namespace name pollInterval timeout = do {
     r \<leftarrow> Poll env pollInterval timeout (prestoTableCreated env namespace name);
     State_Monad.return (timed_out r)
   }"

section \<open>The handler\<close>

text \<open>
  Copying the spec to the status. The columns of the status are compared with the spec through a copy that is
  filled from the spec, as long as the status is: what is compared is the number of columns.
  \<^verbatim>\<open>sort.Slice\<close> gives equal results for equal inputs, so that any sorting by name models it.
\<close>

definition copied :: "Column list \<Rightarrow> Column list \<Rightarrow> Column list" where
  "copied dst src = take (length dst) src @ replicate (length dst - length src) \<lparr>col_Name = [], col_Type = []\<rparr>"

definition copyPrestoTableSpecToStatus :: "PrestoTable \<Rightarrow> PrestoTable \<times> bool" where
  "copyPrestoTableSpecToStatus t =
     (let spec = pt_Spec t; status = pt_Status t;
          specColCopy = sort_key col_Name (pts_Columns spec);
          statusColCopy = sort_key col_Name (copied (ptst_Columns status) (pts_Columns spec));
          columnsDiffer = (statusColCopy \<noteq> specColCopy)
      in (t\<lparr>pt_Status :=
            \<lparr>ptst_Catalog = pts_Catalog spec, ptst_Schema = pts_Schema spec, ptst_TableName = pts_TableName spec,
             ptst_Columns = (if columnsDiffer then pts_Columns spec else ptst_Columns status),
             ptst_Properties = pts_Properties spec, ptst_Comment = pts_Comment spec, ptst_View = pts_View spec,
             ptst_CreateTableAs = pts_CreateTableAs spec, ptst_Query = pts_Query spec\<rparr>\<rparr>,
          ptst_Catalog status \<noteq> pts_Catalog spec \<or> ptst_Schema status \<noteq> pts_Schema spec \<or>
          ptst_TableName status \<noteq> pts_TableName spec \<or> columnsDiffer \<or> ptst_Properties status \<noteq> pts_Properties spec \<or>
          ptst_Comment status \<noteq> pts_Comment spec \<or> ptst_View status \<noteq> pts_View spec \<or>
          ptst_CreateTableAs status \<noteq> pts_CreateTableAs spec \<or> ptst_Query status \<noteq> pts_Query spec))"

definition queueDependentsOfPrestoTable :: "'x lister_env_scheme \<Rightarrow> PrestoTable \<Rightarrow> goerror option op" where
  "queueDependentsOfPrestoTable env t = do {
     rs \<leftarrow> peek (\<lambda>h. lister_Reports env h (Namespace t));
     (case rs of Inl e \<Rightarrow> State_Monad.return (Some e) | Inr reports \<Rightarrow> do {
       dss \<leftarrow> peek (\<lambda>h. lister_ReportDataSources env h (Namespace t));
       (case dss of Inl e \<Rightarrow> State_Monad.return (Some e) | Inr datasources \<Rightarrow> do {
         for_each (\<lambda>ds. if dspec_PrestoTable (ds_Spec ds) = Some (Name t) then enqueueReportDataSource ds
                        else State_Monad.return ()) datasources;
         for_each (\<lambda>r. if rstat_TableRef (r_Status r) = Name t then enqueueReport r else State_Monad.return ()) reports;
         State_Monad.return None
       })
     })
   }"

text \<open>The switch that creates a managed table; the word for what is created.\<close>

definition createInPresto :: "'x store_env_scheme \<Rightarrow> PrestoTableSpec \<Rightarrow> string \<times> goerror option op" where
  "createInPresto env spec =
     (if pts_View spec then
        (''view'', ptm_CreateView env (pts_Catalog spec) (pts_Schema spec) (pts_TableName spec) (pts_Query spec))
      else if \<not> pts_CreateTableAs spec then
        (''table'', ptm_CreateTable env (pts_Catalog spec) (pts_Schema spec) (pts_TableName spec) (pts_Columns spec)
           (pts_Comment spec) (pts_Properties spec) True)
      else
        (''table'', ptm_CreateTableAs env (pts_Catalog spec) (pts_Schema spec) (pts_TableName spec) (Some (pts_Columns spec))
           (pts_Comment spec) (pts_Properties spec) False (pts_Query spec)))"

definition validatePrestoTable :: "PrestoTableSpec \<Rightarrow> goerror option" where
  "validatePrestoTable spec =
     (if pts_Catalog spec = [] then Some (Err ''spec.catalog must be set'')
      else if pts_Schema spec = [] then Some (Err ''spec.schema must be set'')
      else if pts_TableName spec = [] then Some (Err ''spec.tableName must be set'')
      else if length (pts_Columns spec) = 0 then Some (Err ''spec.columns must be non-empty'')
      else if pts_CreateTableAs spec \<and> pts_View spec
      then Some (Err ''spec.createTableAs and spec.view are mutually exclusive'')
      else None)"

text \<open>
  The part of the handler after the finalizer. When the update fails, the name in the error is the name of
  the empty object that the client answers.
\<close>

definition reconcilePrestoTable :: "'x env_scheme \<Rightarrow> PrestoTable \<Rightarrow> goerror option op" where
  "reconcilePrestoTable env t =
     (case validatePrestoTable (pt_Spec t) of
        Some e \<Rightarrow> State_Monad.return (Some e)
      | None \<Rightarrow>
          if ptst_TableName (pt_Status t) \<noteq> [] then State_Monad.return None
          else do {
            err \<leftarrow> (if pts_Unmanaged (pt_Spec t) then State_Monad.return None
                    else snd (createInPresto env (pt_Spec t)));
            (case err of
               Some e \<Rightarrow> State_Monad.return (Some (wrap (\<lambda>m. ''error creating '' @ fst (createInPresto env (pt_Spec t)) @ '' '' @
                 pts_TableName (pt_Spec t) @ '': '' @ m) e))
             | None \<Rightarrow>
                 let (t', needsUpdate) = copyPrestoTableSpecToStatus t in
                 if needsUpdate then do {
                   u \<leftarrow> updatePrestoTableM env t';
                   (case u of
                      Inl e \<Rightarrow> State_Monad.return (Some (wrap (\<lambda>m. ''unable to update PrestoTable  status: '' @ m) e))
                    | Inr t'' \<Rightarrow> do {
                        qerr \<leftarrow> queueDependentsOfPrestoTable env t'';
                        State_Monad.return None
                      })
                 }
                 else State_Monad.return None)
          })"

definition handlePrestoTable :: "'x env_scheme \<Rightarrow> op_config \<Rightarrow> PrestoTable \<Rightarrow> goerror option op" where
  "handlePrestoTable env cfg prestoTable =
     withFinalizer (EnableFinalizers cfg) prestoTableNeedsFinalizer (addPrestoTableFinalizer env)
       (reconcilePrestoTable env) prestoTable"

definition syncPrestoTable :: "'x env_scheme \<Rightarrow> op_config \<Rightarrow> string \<Rightarrow> goerror option op" where
  "syncPrestoTable env cfg key =
     (case SplitMetaNamespaceKey key of
        Inl _ \<Rightarrow> State_Monad.return None
      | Inr (namespace, name) \<Rightarrow> do {
          r \<leftarrow> peek (\<lambda>h. lister_PrestoTable env h namespace name);
          (case r of
             Inl e \<Rightarrow> State_Monad.return (if IsNotFound e then None else Some e)
           | Inr t \<Rightarrow>
               if DeletionTimestamp t \<noteq> None then cleanup (dropManagedPrestoTable env) (removePrestoTableFinalizer env) t
               else handlePrestoTable env cfg t)
        })"

section \<open>Informer events\<close>

definition deletePrestoTable :: "'x client_env_scheme \<Rightarrow> op_config \<Rightarrow> PrestoTable deleted \<Rightarrow> (goerror + unit) op" where
  "deletePrestoTable env cfg obj =
     (case deleted_obj obj of
        Inl e \<Rightarrow> State_Monad.return (Inl e)
      | Inr t \<Rightarrow> do {
          err \<leftarrow> (if \<not> EnableFinalizers cfg then cleanup (dropPrestoTable env) (removePrestoTableFinalizer env) t
                  else State_Monad.return None);
          (if err = None then do {
             emit (QueueAdd PrestoTableQueue (MetaNamespaceKeyFunc t));
             State_Monad.return (Inr ())
           }
           else State_Monad.return (Inr ()))
        })"

definition addPrestoTable :: "'x client_env_scheme \<Rightarrow> op_config \<Rightarrow> PrestoTable \<Rightarrow> (goerror + unit) op" where
  "addPrestoTable env cfg t =
     (if DeletionTimestamp t \<noteq> None then deletePrestoTable env cfg (Obj t)
      else do { enqueuePrestoTable t; State_Monad.return (Inr ()) })"

definition updatePrestoTable :: "'x client_env_scheme \<Rightarrow> op_config \<Rightarrow> PrestoTable \<Rightarrow> (goerror + unit) op" where
  "updatePrestoTable env cfg cur =
     (if DeletionTimestamp cur \<noteq> None then deletePrestoTable env cfg (Obj cur)
      else do { enqueuePrestoTable cur; State_Monad.return (Inr ()) })"

section \<open>Reconciliation\<close>

definition prestoWritten :: "event \<Rightarrow> PrestoTable option" where
  "prestoWritten e = (case e of UpdatePrestoTable x \<Rightarrow> Some x | _ \<Rightarrow> None)"

lemma prestoWritten_queue: "is_QueueAdd e \<Longrightarrow> prestoWritten e = None"
  by (auto simp: is_QueueAdd_def prestoWritten_def split: event.splits)

lemma emits_queueDependentsOfPrestoTable:
  "emits (queueDependentsOfPrestoTable env t) is_QueueAdd (\<lambda>_. True)"
  unfolding queueDependentsOfPrestoTable_def enqueue_defs
  by (intro emits_intros) (simp_all add: is_QueueAdd_def)

lemma createInPresto_sends:
  "\<exists>stmt. run_state (snd (createInPresto env spec)) h = (submitted (presto_Query env h stmt), h @ [PrestoQuery stmt])"
  by (auto simp: createInPresto_def presto_op_defs run_simps submitted_def)

lemma copied_length [simp]: "length (copied dst src) = length dst"
  by (simp add: copied_def)

text \<open>The columns of the status are replaced exactly when their number is not that of the spec.\<close>

lemma columns_compared_by_number:
  "sort_key col_Name (copied dst src) = sort_key col_Name src \<longleftrightarrow> length dst = length src"
proof
  assume "sort_key col_Name (copied dst src) = sort_key col_Name src"
  then have "length (sort_key col_Name (copied dst src)) = length (sort_key col_Name src)" by simp
  then show "length dst = length src" by simp
qed (simp add: copied_def)

lemma copyPrestoTableSpecToStatus_keeps:
  assumes "copyPrestoTableSpecToStatus t = (t', upd)"
  shows "pt_Spec t' = pt_Spec t" "ptst_TableName (pt_Status t') = pts_TableName (pt_Spec t)"
    "prestoTableNeedsFinalizer t' = prestoTableNeedsFinalizer t"
    "ptst_TableName (pt_Status t) \<noteq> pts_TableName (pt_Spec t) \<Longrightarrow> upd"
  using assms by (auto simp: copyPrestoTableSpecToStatus_def prestoTableNeedsFinalizer_def Let_def)

text \<open>The events of a reconciliation that succeeds.\<close>

lemma reconcilePrestoTable_events:
  assumes ok: "\<And>h x. client_UpdatePrestoTable env h x = Inr x"
    and run: "run_state (reconcilePrestoTable env t) h = (None, h')"
    and new: "ptst_TableName (pt_Status t) = []"
  obtains pre post where "h' = h @ pre @ UpdatePrestoTable (fst (copyPrestoTableSpecToStatus t)) # post"
    and "\<forall>e \<in> set post. is_QueueAdd e" and "if pts_Unmanaged (pt_Spec t) then pre = [] else \<exists>stmt. pre = [PrestoQuery stmt]"
    and "validatePrestoTable (pt_Spec t) = None"
proof -
  have v: "validatePrestoTable (pt_Spec t) = None"
    using run by (cases "validatePrestoTable (pt_Spec t)") (simp_all add: reconcilePrestoTable_def)
  obtain t' upd where c: "copyPrestoTableSpecToStatus t = (t', upd)" by fastforce
  have upd: "upd" using copyPrestoTableSpecToStatus_keeps(4) [OF c] v new by (auto simp: validatePrestoTable_def split: if_splits)
  define first where "first = (if pts_Unmanaged (pt_Spec t) then State_Monad.return None else snd (createInPresto env (pt_Spec t)))"
  obtain err pre where f: "run_state first h = (err, h @ pre)"
    "if pts_Unmanaged (pt_Spec t) then pre = [] else \<exists>stmt. pre = [PrestoQuery stmt]"
    using createInPresto_sends [of env "pt_Spec t" h] unfolding first_def
    by (cases "pts_Unmanaged (pt_Spec t)") (auto intro: that [of None "[]"])
  obtain q post where q: "run_state (queueDependentsOfPrestoTable env t') ((h @ pre) @ [UpdatePrestoTable t']) =
      (q, ((h @ pre) @ [UpdatePrestoTable t']) @ post)" "\<forall>e \<in> set post. is_QueueAdd e"
    using emits_queueDependentsOfPrestoTable [of env t'] unfolding emits_def by blast
  have "err = None \<and> h' = h @ pre @ UpdatePrestoTable t' # post"
    using run f(1) q(1) upd v new
    by (cases err) (auto simp: reconcilePrestoTable_def c run_updatePrestoTableM ok simp flip: first_def)
  then show thesis using that [of pre post] q(2) f(2) c v by simp
qed

lemma reconcilePrestoTable_settles:
  assumes ok: "\<And>h x. client_UpdatePrestoTable env h x = Inr x"
    and run: "run_state (reconcilePrestoTable env t) h = (None, h')"
  shows "\<exists>es. h' = h @ es \<and> (\<forall>g. run_state (reconcilePrestoTable env (stored prestoWritten t es)) g = (None, g)) \<and>
    prestoTableNeedsFinalizer (stored prestoWritten t es) = prestoTableNeedsFinalizer t"
proof (cases "ptst_TableName (pt_Status t) = []")
  case True
  obtain t' upd where c: "copyPrestoTableSpecToStatus t = (t', upd)" by fastforce
  obtain pre post where e: "h' = h @ pre @ UpdatePrestoTable t' # post" "\<forall>e \<in> set post. is_QueueAdd e"
    "if pts_Unmanaged (pt_Spec t) then pre = [] else \<exists>stmt. pre = [PrestoQuery stmt]" "validatePrestoTable (pt_Spec t) = None"
    using reconcilePrestoTable_events [OF ok run True] c by (metis fst_conv)
  have "stored prestoWritten t pre = t" using e(3) by (auto simp: prestoWritten_def split: if_splits)
  moreover have "stored prestoWritten t' post = t'"
    using e(2) by (intro stored_unchanged) (simp add: prestoWritten_queue)
  ultimately have st: "stored prestoWritten t (pre @ UpdatePrestoTable t' # post) = t'" by (simp add: prestoWritten_def)
  have "run_state (reconcilePrestoTable env t') g = (None, g)" for g
    using copyPrestoTableSpecToStatus_keeps(1,2) [OF c] e(4)
    by (auto simp: reconcilePrestoTable_def validatePrestoTable_def split: if_splits)
  then show ?thesis
    using e(1) st copyPrestoTableSpecToStatus_keeps(3) [OF c] by (metis)
next
  case False
  have v: "validatePrestoTable (pt_Spec t) = None"
    using run by (cases "validatePrestoTable (pt_Spec t)") (simp_all add: reconcilePrestoTable_def)
  with run False show ?thesis by (intro exI [of _ "[]"]) (auto simp: reconcilePrestoTable_def)
qed

interpretation ptr: reconciled_object prestoTableFinalizer prestoTableNeedsFinalizer
  "addPrestoTableFinalizer env" "removePrestoTableFinalizer env" UpdatePrestoTable "client_UpdatePrestoTable env"
  "reconcilePrestoTable env" prestoWritten for env :: "'x env_scheme"
  by unfold_locales (simp add: prestoWritten_def, rule reconcilePrestoTable_settles)

definition not_PrestoQuery :: "event \<Rightarrow> bool" where
  "not_PrestoQuery e \<longleftrightarrow> (\<forall>stmt. e \<noteq> PrestoQuery stmt)"

section \<open>Properties\<close>

text \<open>
  Reconciling a PrestoTable settles it: when the handler succeeds and the API server stores what it is given, handling
  the stored object again sends nothing to Presto, writes nothing and queues nothing.
\<close>

theorem presto_table_settles:
  assumes "\<forall>h x. client_UpdatePrestoTable env h x = Inr x"
    and "run_state (handlePrestoTable env cfg t) h = (None, h')"
  shows "\<exists>es. h' = h @ es \<and>
    run_state (handlePrestoTable env cfg (stored prestoWritten t es)) h' = (None, h')"
  using ptr.handle_settles [of env "EnableFinalizers cfg" t h h'] assms unfolding handlePrestoTable_def by blast

definition sample_presto_table :: "bool \<Rightarrow> go_time option \<Rightarrow> PrestoTable" where
  "sample_presto_table unmanaged del = \<lparr>Name = ''p'', Namespace = ''ns'', Labels = [], Annotations = [],
     Finalizers = (if del = None then [] else [prestoTableFinalizer]),
     DeletionTimestamp = del, ResourceVersion = ''1'', OwnerReferences = [],
     pt_Spec = \<lparr>pts_Unmanaged = unmanaged, pts_Catalog = ''hive'', pts_Schema = ''metering'', pts_TableName = ''tbl'',
       pts_Columns = [\<lparr>col_Name = ''amount'', col_Type = ''double''\<rparr>], pts_Properties = None, pts_Comment = [],
       pts_View = True, pts_CreateTableAs = False, pts_Query = ''SELECT 1''\<rparr>,
     pt_Status = empty_PrestoTableStatus\<rparr>"

theorem presto_table_settles_witness:
  "\<exists>es. snd (run_state (handlePrestoTable quiet_env \<lparr>EnableFinalizers = True\<rparr> (sample_presto_table True None)) []) = es \<and>
    run_state (handlePrestoTable quiet_env \<lparr>EnableFinalizers = True\<rparr>
      (stored prestoWritten (sample_presto_table True None) es)) es = (None, es)"
proof -
  have "fst (run_state (handlePrestoTable quiet_env \<lparr>EnableFinalizers = True\<rparr> (sample_presto_table True None)) []) = None"
    by code_simp
  then show ?thesis
    using presto_table_settles [of quiet_env "\<lparr>EnableFinalizers = True\<rparr>" "sample_presto_table True None" "[]"]
    by (auto simp: quiet_env_def prod_eq_iff)
qed

text \<open>
  A table in Presto that the operator does not manage is never created or dropped by it: whatever the services
  answer, handling such a PrestoTable, deleted or not, sends no statement to Presto.
\<close>

theorem unmanaged_never_touched:
  assumes "SplitMetaNamespaceKey key = Inr (ns, name)" and "lister_PrestoTable env h ns name = Inr t"
    and "pts_Unmanaged (pt_Spec t)" and "\<forall>h x y. client_UpdatePrestoTable env h x = Inr y \<longrightarrow> pt_Spec y = pt_Spec x"
    and "run_state (syncPrestoTable env cfg key) h = (err, h')"
  shows "\<exists>es. h' = h @ es \<and> (\<forall>stmt. PrestoQuery stmt \<notin> set es)"
proof -
  let ?P = not_PrestoQuery
  have q: "emits (queueDependentsOfPrestoTable env x) ?P (\<lambda>_. True)" for x
    by (rule emits_weaken [OF emits_queueDependentsOfPrestoTable]) (auto simp: is_QueueAdd_def not_PrestoQuery_def split: event.splits)
  have rec: "emits (reconcilePrestoTable env x) ?P (\<lambda>_. True)" if "pts_Unmanaged (pt_Spec x)" for x
    unfolding reconcilePrestoTable_def updatePrestoTableM_def using that
    by (intro emits_intros q) (simp_all add: not_PrestoQuery_def)
  have add: "emits (addPrestoTableFinalizer env t) ?P (\<lambda>r. \<forall>y. r = Inr y \<longrightarrow> pts_Unmanaged (pt_Spec y))"
    unfolding addPrestoTableFinalizer_def updatePrestoTableM_def using assms(3,4)
    by (intro emits_intros) (auto simp: not_PrestoQuery_def)
  have "emits (handlePrestoTable env cfg t) ?P (\<lambda>_. True)"
    unfolding handlePrestoTable_def withFinalizer_def
    by (rule emits_bind [where R = "\<lambda>r. \<forall>y. r = Inr y \<longrightarrow> pts_Unmanaged (pt_Spec y)"])
      (auto intro!: emits_intros rec add simp: assms(3))
  moreover have "emits (cleanup (dropManagedPrestoTable env) (removePrestoTableFinalizer env) t) ?P (\<lambda>_. True)"
    unfolding cleanup_def dropManagedPrestoTable_def removePrestoTableFinalizer_def updatePrestoTableM_def
    using assms(3) by (auto intro!: emits_intros simp: not_PrestoQuery_def)
  ultimately have "emits (if DeletionTimestamp t \<noteq> None then cleanup (dropManagedPrestoTable env) (removePrestoTableFinalizer env) t
      else handlePrestoTable env cfg t) ?P (\<lambda>_. True)" by simp
  moreover have "run_state (if DeletionTimestamp t \<noteq> None then cleanup (dropManagedPrestoTable env) (removePrestoTableFinalizer env) t
      else handlePrestoTable env cfg t) h = (err, h')" using assms(1,2,5) by (simp add: syncPrestoTable_def)
  ultimately obtain es where "h' = h @ es" and "\<forall>e \<in> set es. ?P e" by (rule emitsD) blast
  then show ?thesis by (auto simp: not_PrestoQuery_def)
qed

theorem unmanaged_never_touched_witness:
  "\<exists>es. snd (run_state (syncPrestoTable (quiet_env\<lparr>lister_PrestoTable := \<lambda>_ _ _. Inr (sample_presto_table True (Some 0))\<rparr>)
      \<lparr>EnableFinalizers = True\<rparr> ''ns/p'') []) = es \<and> PrestoQuery ''DROP VIEW IF EXISTS hive.metering.tbl'' \<notin> set es"
proof -
  let ?env = "quiet_env\<lparr>lister_PrestoTable := \<lambda>_ _ _. Inr (sample_presto_table True (Some 0))\<rparr>"
  have k: "SplitMetaNamespaceKey ''ns/p'' = Inr (''ns'', ''p'')" by code_simp
  obtain err h' where r: "run_state (syncPrestoTable ?env \<lparr>EnableFinalizers = True\<rparr> ''ns/p'') [] = (err, h')" by fastforce
  have l: "lister_PrestoTable ?env [] ''ns'' ''p'' = Inr (sample_presto_table True (Some 0))" by simp
  have u: "pts_Unmanaged (pt_Spec (sample_presto_table True (Some 0)))" by (simp add: sample_presto_table_def)
  have c: "\<forall>h x y. client_UpdatePrestoTable ?env h x = Inr y \<longrightarrow> pt_Spec y = pt_Spec x" by (simp add: quiet_env_def)
  from unmanaged_never_touched [OF k l u c r] show ?thesis unfolding r by auto
qed

text \<open>
  Without finalizers the informer's delete handler tries to drop an unmanaged table, fails, and neither
  takes the finalizer off nor queues the table: one that still carries a finalizer stays.
\<close>

lemma unmanaged_deletion_ignored:
  "pts_Unmanaged (pt_Spec t) \<Longrightarrow> \<not> EnableFinalizers cfg \<Longrightarrow> run_state (deletePrestoTable env cfg (Obj t)) h = (Inr (), h)"
  by (simp add: deletePrestoTable_def deleted_obj_def cleanup_def dropPrestoTable_def)

end
