(* ===== verification/Report_Conditions.thy ===== *)
theory Report_Conditions
  imports API_Types
begin

text \<open>
  The status conditions of a Report: \<^verbatim>\<open>pkg/apis/metering/v1/util/report_util.go\<close>. A status holds a slice
  of conditions; the package reads, sets and removes the condition of a given type. The interface
  is the locale \<open>condition_store\<close>, whose laws the package's functions satisfy; the report handler
  relies on nothing else of it.
\<close>

section \<open>The package\<close>

definition ScheduledReason :: string where "ScheduledReason = ''Scheduled''"
definition RunImmediatelyReason :: string where "RunImmediatelyReason = ''RunImmediately''"
definition ReportingPeriodWaitingReason :: string where
  "ReportingPeriodWaitingReason = ''ReportingPeriodWaiting''"
definition ReportFinishedReason :: string where "ReportFinishedReason = ''Finished''"
definition InvalidReportReason :: string where "InvalidReportReason = ''InvalidReport''"
definition ReportingPeriodUnmetDependenciesReason :: string where
  "ReportingPeriodUnmetDependenciesReason = ''ReportingPeriodUnmetDependencies''"
definition GenerateReportFailedReason :: string where
  "GenerateReportFailedReason = ''GenerateReportFailed''"

lemmas Reason_defs = ScheduledReason_def RunImmediatelyReason_def ReportingPeriodWaitingReason_def
  ReportFinishedReason_def InvalidReportReason_def ReportingPeriodUnmetDependenciesReason_def
  GenerateReportFailedReason_def

text \<open>The two times are the two calls of \<^verbatim>\<open>metav1.Now()\<close>.\<close>

definition NewReportCondition ::
  "go_time \<times> go_time \<Rightarrow> string \<Rightarrow> string \<Rightarrow> string \<Rightarrow> string \<Rightarrow> ReportCondition" where
  "NewReportCondition now condType status reason message =
     \<lparr>cond_Type = condType, cond_Status = status, cond_LastUpdateTime = fst now,
      cond_LastTransitionTime = snd now, cond_Reason = reason, cond_Message = message\<rparr>"

definition GetReportCondition :: "ReportStatus \<Rightarrow> string \<Rightarrow> ReportCondition option" where
  "GetReportCondition status condType = find (\<lambda>c. cond_Type c = condType) (rstat_Conditions status)"

fun filterOutCondition :: "ReportCondition list \<Rightarrow> string \<Rightarrow> ReportCondition list" where
  "filterOutCondition [] condType = []"
| "filterOutCondition (c # cs) condType =
     (if cond_Type c = condType then filterOutCondition cs condType
      else c # filterOutCondition cs condType)"

definition SetReportCondition :: "ReportStatus \<Rightarrow> ReportCondition \<Rightarrow> ReportStatus" where
  "SetReportCondition status condition =
     (let currentCond = GetReportCondition status (cond_Type condition);
          sameStatus = (case currentCond of None \<Rightarrow> False
                        | Some c \<Rightarrow> cond_Status c = cond_Status condition);
          sameReason = (case currentCond of None \<Rightarrow> False
                        | Some c \<Rightarrow> cond_Reason c = cond_Reason condition)
      in if currentCond \<noteq> None \<and> sameStatus \<and> sameReason then status
         else let condition' =
                    (if currentCond \<noteq> None \<and> sameStatus
                     then condition\<lparr>cond_LastTransitionTime := cond_LastTransitionTime (the currentCond)\<rparr>
                     else condition)
              in status\<lparr>rstat_Conditions :=
                   filterOutCondition (rstat_Conditions status) (cond_Type condition) @ [condition']\<rparr>)"

definition RemoveReportCondition :: "ReportStatus \<Rightarrow> string \<Rightarrow> ReportStatus" where
  "RemoveReportCondition status condType =
     status\<lparr>rstat_Conditions := filterOutCondition (rstat_Conditions status) condType\<rparr>"

section \<open>Well-formed statuses\<close>

text \<open>A status has at most one condition of each type.\<close>

definition conditions_wf :: "ReportStatus \<Rightarrow> bool" where
  "conditions_wf status \<longleftrightarrow> distinct (map cond_Type (rstat_Conditions status))"

lemma filterOutCondition_filter:
  "filterOutCondition cs t = filter (\<lambda>c. cond_Type c \<noteq> t) cs"
  by (induction cs t rule: filterOutCondition.induct) simp_all

lemma GetReportCondition_type:
  "GetReportCondition status t = Some c \<Longrightarrow> cond_Type c = t"
  by (auto simp: GetReportCondition_def dest: find_SomeD)

lemma find_filterOut_same: "find (\<lambda>c. cond_Type c = t) (filterOutCondition cs t) = None"
  by (simp add: filterOutCondition_filter find_filter_None)

lemma find_filterOut_other:
  "t \<noteq> u \<Longrightarrow> find (\<lambda>c. cond_Type c = t) (filterOutCondition cs u) = find (\<lambda>c. cond_Type c = t) cs"
  by (auto simp: filterOutCondition_filter intro!: find_filter_same)

text \<open>What the status holds for the type of a condition that was just set.\<close>

definition merged_condition :: "ReportCondition option \<Rightarrow> ReportCondition \<Rightarrow> ReportCondition" where
  "merged_condition old new =
     (case old of None \<Rightarrow> new
      | Some c \<Rightarrow>
          if cond_Status c = cond_Status new then
            (if cond_Reason c = cond_Reason new then c
             else new\<lparr>cond_LastTransitionTime := cond_LastTransitionTime c\<rparr>)
          else new)"

lemma GetReportCondition_Set:
  "GetReportCondition (SetReportCondition status c) t =
     (if t = cond_Type c then Some (merged_condition (GetReportCondition status t) c)
      else GetReportCondition status t)"
proof (cases "t = cond_Type c")
  case True
  then show ?thesis
    by (auto simp: SetReportCondition_def Let_def merged_condition_def find_append find_filterOut_same
        GetReportCondition_def split: option.splits)
next
  case False
  then show ?thesis
    by (auto simp: SetReportCondition_def Let_def find_append find_filterOut_other
        GetReportCondition_def split: option.splits)
qed

lemma GetReportCondition_Remove:
  "GetReportCondition (RemoveReportCondition status u) t =
     (if t = u then None else GetReportCondition status t)"
  by (simp add: GetReportCondition_def RemoveReportCondition_def find_filterOut_same find_filterOut_other)

lemma distinct_filterOut:
  "distinct (map cond_Type cs) \<Longrightarrow> distinct (map cond_Type (filterOutCondition cs t))"
  by (simp add: filterOutCondition_filter distinct_map_filter)

lemma conditions_wf_Set: "conditions_wf status \<Longrightarrow> conditions_wf (SetReportCondition status c)"
  by (auto simp: conditions_wf_def SetReportCondition_def Let_def distinct_map_filter
      filterOutCondition_filter split: option.splits)

lemma conditions_wf_Remove: "conditions_wf status \<Longrightarrow> conditions_wf (RemoveReportCondition status t)"
  by (simp add: conditions_wf_def RemoveReportCondition_def distinct_filterOut)

section \<open>The interface\<close>

locale condition_store =
  fixes getc :: "'s \<Rightarrow> string \<Rightarrow> ReportCondition option"
    and setc :: "'s \<Rightarrow> ReportCondition \<Rightarrow> 's"
    and removec :: "'s \<Rightarrow> string \<Rightarrow> 's"
    and invar :: "'s \<Rightarrow> bool"
  assumes get_type: "getc s t = Some c \<Longrightarrow> cond_Type c = t"
    and get_set: "getc (setc s c) t = (if t = cond_Type c then Some (merged_condition (getc s t) c) else getc s t)"
    and get_remove: "getc (removec s u) t = (if t = u then None else getc s t)"
    and invar_set: "invar s \<Longrightarrow> invar (setc s c)"
    and invar_remove: "invar s \<Longrightarrow> invar (removec s t)"
begin

text \<open>The condition a client reads back has the status and the reason it set.\<close>

lemma get_set_same:
  obtains c' where "getc (setc s c) (cond_Type c) = Some c'"
    and "cond_Status c' = cond_Status c" and "cond_Reason c' = cond_Reason c" and "cond_Type c' = cond_Type c"
proof -
  let ?c' = "merged_condition (getc s (cond_Type c)) c"
  have 1: "getc (setc s c) (cond_Type c) = Some ?c'" by (simp add: get_set)
  have 2: "cond_Status ?c' = cond_Status c" "cond_Reason ?c' = cond_Reason c"
    by (simp_all add: merged_condition_def split: option.split)
  show thesis using that [OF 1 2] get_type [OF 1] by blast
qed

text \<open>Setting an equivalent condition again changes nothing that can be read.\<close>

lemma get_set_idem:
  assumes "cond_Type d = cond_Type c" "cond_Status d = cond_Status c" "cond_Reason d = cond_Reason c"
  shows "getc (setc (setc s c) d) t = getc (setc s c) t"
  using assms by (auto simp: get_set merged_condition_def split: option.splits)

text \<open>The transition time moves only when the condition's status moves.\<close>

lemma transition_kept:
  assumes "getc s (cond_Type c) = Some old" and "cond_Status old = cond_Status c"
    and "getc (setc s c) (cond_Type c) = Some new"
  shows "cond_LastTransitionTime new = cond_LastTransitionTime old"
  using assms by (auto simp: get_set merged_condition_def split: if_splits)

lemma transition_moves:
  assumes "case getc s (cond_Type c) of None \<Rightarrow> True | Some old \<Rightarrow> cond_Status old \<noteq> cond_Status c"
  shows "getc (setc s c) (cond_Type c) = Some c"
  using assms by (auto simp: get_set merged_condition_def split: option.splits)

text \<open>A sequence of updates: the invariant holds and the last update of a type decides its status.\<close>

lemma invar_fold: "invar s \<Longrightarrow> invar (fold (\<lambda>c s. setc s c) cs s)"
  by (induction cs arbitrary: s) (simp_all add: invar_set)

lemma get_fold_other:
  "t \<notin> cond_Type ` set cs \<Longrightarrow> getc (fold (\<lambda>c s. setc s c) cs s) t = getc s t"
  by (induction cs arbitrary: s) (auto simp: get_set)

lemma get_fold_last:
  assumes "cs \<noteq> []"
  shows "\<exists>c. getc (fold (\<lambda>c s. setc s c) cs s) (cond_Type (last cs)) = Some c \<and>
             cond_Status c = cond_Status (last cs) \<and> cond_Reason c = cond_Reason (last cs)"
proof -
  from assms obtain ds d where "cs = ds @ [d]" by (cases cs rule: rev_cases) auto
  moreover obtain c' where "getc (setc (fold (\<lambda>c s. setc s c) ds s) d) (cond_Type d) = Some c'"
    "cond_Status c' = cond_Status d" "cond_Reason c' = cond_Reason d"
    by (rule get_set_same)
  ultimately show ?thesis by auto
qed

end

interpretation rc: condition_store GetReportCondition SetReportCondition RemoveReportCondition conditions_wf
proof
  show "GetReportCondition s t = Some c \<Longrightarrow> cond_Type c = t" for s t c
    by (rule GetReportCondition_type)
  show "GetReportCondition (SetReportCondition s c) t =
          (if t = cond_Type c then Some (merged_condition (GetReportCondition s t) c)
           else GetReportCondition s t)" for s c t
    by (rule GetReportCondition_Set)
  show "GetReportCondition (RemoveReportCondition s u) t =
          (if t = u then None else GetReportCondition s t)" for s u t
    by (rule GetReportCondition_Remove)
  show "conditions_wf s \<Longrightarrow> conditions_wf (SetReportCondition s c)" for s c
    by (rule conditions_wf_Set)
  show "conditions_wf s \<Longrightarrow> conditions_wf (RemoveReportCondition s t)" for s t
    by (rule conditions_wf_Remove)
qed

section \<open>Facts used by the report handler\<close>

lemma SetReportCondition_rest [simp]:
  "rstat_LastReportTime (SetReportCondition s c) = rstat_LastReportTime s"
  "rstat_NextReportTime (SetReportCondition s c) = rstat_NextReportTime s"
  "rstat_TableRef (SetReportCondition s c) = rstat_TableRef s"
  by (simp_all add: SetReportCondition_def Let_def split: option.splits)

lemma NewReportCondition_sel [simp]:
  "cond_Type (NewReportCondition now t st r m) = t"
  "cond_Status (NewReportCondition now t st r m) = st"
  "cond_Reason (NewReportCondition now t st r m) = r"
  "cond_Message (NewReportCondition now t st r m) = m"
  by (simp_all add: NewReportCondition_def)

text \<open>The running condition's status and reason, as the handler tests them.\<close>

definition running_is :: "ReportStatus \<Rightarrow> string \<Rightarrow> string \<Rightarrow> bool" where
  "running_is s st reason \<longleftrightarrow>
     (\<exists>c. GetReportCondition s ReportRunning = Some c \<and> cond_Status c = st \<and> cond_Reason c = reason)"

lemma running_is_Set:
  "running_is (SetReportCondition s (NewReportCondition now ReportRunning st reason msg)) st reason"
proof -
  obtain c' where "GetReportCondition (SetReportCondition s (NewReportCondition now ReportRunning st reason msg))
      (cond_Type (NewReportCondition now ReportRunning st reason msg)) = Some c'"
    "cond_Status c' = st" "cond_Reason c' = reason"
    by (rule rc.get_set_same [of s "NewReportCondition now ReportRunning st reason msg"]) simp
  then show ?thesis by (auto simp: running_is_def)
qed

section \<open>Properties\<close>

text \<open>
  C29: whatever sequence of conditions is set on a status with at most one condition of each type, the
  status keeps that shape, the type that was set last reads back with its last status and reason,
  and a type that was not set reads as before.
\<close>

theorem set_conditions_sequence:
  assumes "conditions_wf s" and "cs \<noteq> []"
  shows "conditions_wf (fold (\<lambda>c s. SetReportCondition s c) cs s) \<and>
    (\<exists>c. GetReportCondition (fold (\<lambda>c s. SetReportCondition s c) cs s) (cond_Type (last cs)) = Some c \<and>
         cond_Status c = cond_Status (last cs) \<and> cond_Reason c = cond_Reason (last cs)) \<and>
    (\<forall>t. t \<notin> cond_Type ` set cs \<longrightarrow>
         GetReportCondition (fold (\<lambda>c s. SetReportCondition s c) cs s) t = GetReportCondition s t)"
  using rc.invar_fold [OF assms(1)] rc.get_fold_last [OF assms(2)] rc.get_fold_other by blast

theorem set_conditions_sequence_witness:
  "\<exists>c. GetReportCondition
         (fold (\<lambda>c s. SetReportCondition s c)
            [NewReportCondition (1, 1) ReportRunning ConditionFalse ReportingPeriodWaitingReason ''a'',
             NewReportCondition (2, 2) ReportRunning ConditionTrue ScheduledReason ''b'']
            \<lparr>rstat_Conditions = [], rstat_LastReportTime = None, rstat_NextReportTime = None, rstat_TableRef = []\<rparr>)
         ReportRunning = Some c \<and> cond_Status c = ConditionTrue \<and> cond_Reason c = ScheduledReason"
  using set_conditions_sequence
    [of "\<lparr>rstat_Conditions = [], rstat_LastReportTime = None, rstat_NextReportTime = None, rstat_TableRef = []\<rparr>"
        "[NewReportCondition (1, 1) ReportRunning ConditionFalse ReportingPeriodWaitingReason ''a'',
          NewReportCondition (2, 2) ReportRunning ConditionTrue ScheduledReason ''b'']"]
  by (simp add: conditions_wf_def)

text \<open>
  The transition time of a condition that was set is its own time exactly when its status
  differs from the status read before (or there was no such condition); otherwise it is the time
  of the condition it replaces.
\<close>

theorem transition_time_follows_status:
  "map_option cond_LastTransitionTime (GetReportCondition (SetReportCondition s c) (cond_Type c)) =
   Some (case GetReportCondition s (cond_Type c) of
           None \<Rightarrow> cond_LastTransitionTime c
         | Some old \<Rightarrow> if cond_Status old = cond_Status c then cond_LastTransitionTime old
                       else cond_LastTransitionTime c)"
  by (simp add: GetReportCondition_Set merged_condition_def split: option.split)

end
