(* ===== verification/Report_Schedule.thy ===== *)
theory Report_Schedule
  imports Report_Conditions
begin

text \<open>
  When a Report runs and over which period: the schedule and period functions of
  \<^verbatim>\<open>pkg/operator/reports.go\<close> and the field validation of \<^verbatim>\<open>pkg/operator/util.go\<close>. The cron library
  (\<^verbatim>\<open>github.com/robfig/cron\<close>) is a parameter: its two parsers, each giving an error or the
  function \<^verbatim>\<open>Next\<close> of the parsed schedule.
\<close>

section \<open>Validation of the schedule fields\<close>

definition validateHour :: "int \<Rightarrow> goerror option" where
  "validateHour hour = (if 0 \<le> hour \<and> hour \<le> 23 then None
     else Some (Err (''invalid hour: '' @ show_int hour @ '', must be between 0 and 23'')))"

definition validateMinute :: "int \<Rightarrow> goerror option" where
  "validateMinute minute = (if 0 \<le> minute \<and> minute \<le> 59 then None
     else Some (Err (''invalid minute: '' @ show_int minute @ '', must be between 0 and 59'')))"

definition validateSecond :: "int \<Rightarrow> goerror option" where
  "validateSecond sec = (if 0 \<le> sec \<and> sec \<le> 59 then None
     else Some (Err (''invalid second: '' @ show_int sec @ '', must be between 0 and 59'')))"

definition validateDayOfMonth :: "int \<Rightarrow> goerror option" where
  "validateDayOfMonth dayOfMonth = (if 1 \<le> dayOfMonth \<and> dayOfMonth \<le> 31 then None
     else Some (Err (''invalid day of month: '' @ show_int dayOfMonth @ '', must be between 1 and 31'')))"

lemmas validate_defs = validateHour_def validateMinute_def validateSecond_def validateDayOfMonth_def

definition convertDayOfWeek :: "string \<Rightarrow> goerror + int" where
  "convertDayOfWeek dow =
     (let d = ToLower dow in
      if d \<in> {''sun'', ''sunday''} then Inr 0
      else if d \<in> {''mon'', ''monday''} then Inr 1
      else if d \<in> {''tue'', ''tues'', ''tuesday''} then Inr 2
      else if d \<in> {''wed'', ''weds'', ''wednesday''} then Inr 3
      else if d \<in> {''thur'', ''thurs'', ''thursday''} then Inr 4
      else if d \<in> {''fri'', ''friday''} then Inr 5
      else if d \<in> {''sat'', ''saturday''} then Inr 6
      else Inl (Err (''invalid day of week: '' @ dow)))"

lemma convertDayOfWeek_range: "convertDayOfWeek dow = Inr d \<Longrightarrow> 0 \<le> d \<and> d \<le> 6"
  by (auto simp: convertDayOfWeek_def Let_def split: if_splits)

section \<open>Schedules\<close>

text \<open>The cron library: a parsed schedule is its function \<^verbatim>\<open>Next\<close>.\<close>

record cron_lib =
  cron_Parse :: "string \<Rightarrow> goerror + (go_time \<Rightarrow> go_time)"
  cron_ParseStandard :: "string \<Rightarrow> goerror + (go_time \<Rightarrow> go_time)"

text \<open>\<^verbatim>\<open>if err := validate(x); err != nil { return nil, err }\<close>\<close>

definition guard :: "goerror option \<Rightarrow> goerror + 'a \<Rightarrow> goerror + 'a" where
  "guard v k = (case v of Some e \<Rightarrow> Inl e | None \<Rightarrow> k)"

definition getSchedule :: "cron_lib \<Rightarrow> ReportSchedule \<Rightarrow> goerror + (go_time \<Rightarrow> go_time)" where
  "getSchedule cron s =
    (if sched_Period s = ReportPeriodCron then
       (case sched_Cron s of
          None \<Rightarrow> Inl (Err ''spec.schedule.cron.expression must be specified'')
        | Some expr \<Rightarrow>
            if expr = [] then Inl (Err ''spec.schedule.cron.expression must be specified'')
            else cron_ParseStandard cron expr)
     else if sched_Period s = ReportPeriodHourly then
       (let sched = (case sched_Hourly s of Some h \<Rightarrow> h | None \<Rightarrow> \<lparr>hourly_Minute = 0, hourly_Second = 0\<rparr>)
        in guard (validateMinute (hourly_Minute sched))
          (guard (validateSecond (hourly_Second sched))
            (cron_Parse cron (show_int (hourly_Second sched) @ '' '' @ show_int (hourly_Minute sched) @
               '' * * * *''))))
     else if sched_Period s = ReportPeriodDaily then
       (let sched = (case sched_Daily s of Some d \<Rightarrow> d
                     | None \<Rightarrow> \<lparr>daily_Hour = 0, daily_Minute = 0, daily_Second = 0\<rparr>)
        in guard (validateHour (daily_Hour sched))
          (guard (validateMinute (daily_Minute sched))
            (guard (validateSecond (daily_Second sched))
              (cron_Parse cron (show_int (daily_Second sched) @ '' '' @ show_int (daily_Minute sched) @ '' '' @
                 show_int (daily_Hour sched) @ '' * * *'')))))
     else if sched_Period s = ReportPeriodWeekly then
       (let sched = (case sched_Weekly s of Some w \<Rightarrow> w
                     | None \<Rightarrow> \<lparr>weekly_DayOfWeek = None, weekly_Hour = 0, weekly_Minute = 0, weekly_Second = 0\<rparr>)
        in bindR (case weekly_DayOfWeek sched of None \<Rightarrow> Inr 0 | Some d \<Rightarrow> convertDayOfWeek d)
          (\<lambda>dow. guard (validateHour (weekly_Hour sched))
            (guard (validateMinute (weekly_Minute sched))
              (guard (validateSecond (weekly_Second sched))
                (cron_Parse cron (show_int (weekly_Second sched) @ '' '' @ show_int (weekly_Minute sched) @ '' '' @
                   show_int (weekly_Hour sched) @ '' * * '' @ show_int dow))))))
     else if sched_Period s = ReportPeriodMonthly then
       (let sched = (case sched_Monthly s of Some m \<Rightarrow> m
                     | None \<Rightarrow> \<lparr>monthly_DayOfMonth = None, monthly_Hour = 0, monthly_Minute = 0, monthly_Second = 0\<rparr>);
            dayOfMonth = (case monthly_DayOfMonth sched of None \<Rightarrow> 1 | Some d \<Rightarrow> d)
        in guard (validateDayOfMonth dayOfMonth)
          (guard (validateHour (monthly_Hour sched))
            (guard (validateMinute (monthly_Minute sched))
              (guard (validateSecond (monthly_Second sched))
                (cron_Parse cron (show_int (monthly_Second sched) @ '' '' @ show_int (monthly_Minute sched) @ '' '' @
                   show_int (monthly_Hour sched) @ '' '' @ show_int dayOfMonth @ '' * *''))))))
     else Inl (Err (''invalid Report.spec.schedule.period: '' @ sched_Period s)))"

section \<open>Periods\<close>

record reportPeriod =
  periodEnd :: go_time
  periodStart :: go_time

definition getNextReportPeriod :: "(go_time \<Rightarrow> go_time) \<Rightarrow> go_time \<Rightarrow> reportPeriod" where
  "getNextReportPeriod schedule lastScheduled =
     \<lparr>periodEnd = Truncate (schedule lastScheduled) Millisecond,
      periodStart = Truncate lastScheduled Millisecond\<rparr>"

definition getRunOnceReportPeriod :: "Report \<Rightarrow> goerror + reportPeriod" where
  "getRunOnceReportPeriod report =
     (case (rspec_ReportingEnd (r_Spec report), rspec_ReportingStart (r_Spec report)) of
        (Some e, Some s) \<Rightarrow> Inr \<lparr>periodEnd = e, periodStart = s\<rparr>
      | _ \<Rightarrow> Inl (Err ''run-once reports must have both ReportingEnd and ReportingStart''))"

text \<open>
  \<^verbatim>\<open>getReportPeriod\<close> sets \<^verbatim>\<open>status.nextReportTime\<close> of a report that has nothing to start from, so
  the report is returned with the period.
\<close>

definition set_NextReportTime :: "go_time option \<Rightarrow> Report \<Rightarrow> Report" where
  "set_NextReportTime t r = r\<lparr>r_Status := (r_Status r)\<lparr>rstat_NextReportTime := t\<rparr>\<rparr>"

definition set_LastReportTime :: "go_time option \<Rightarrow> Report \<Rightarrow> Report" where
  "set_LastReportTime t r = r\<lparr>r_Status := (r_Status r)\<lparr>rstat_LastReportTime := t\<rparr>\<rparr>"

definition basePeriod :: "cron_lib \<Rightarrow> go_time \<Rightarrow> Report \<Rightarrow> goerror + (Report \<times> reportPeriod)" where
  "basePeriod cron now report =
     (case rspec_Schedule (r_Spec report) of
        Some schedSpec \<Rightarrow>
          bindR (getSchedule cron schedSpec) (\<lambda>reportSchedule.
            (case rstat_LastReportTime (r_Status report) of
               Some t \<Rightarrow> Inr (report, getNextReportPeriod reportSchedule t)
             | None \<Rightarrow>
                 (case rspec_ReportingStart (r_Spec report) of
                    Some t \<Rightarrow> Inr (report, getNextReportPeriod reportSchedule t)
                  | None \<Rightarrow>
                      (case rstat_NextReportTime (r_Status report) of
                         Some t \<Rightarrow> Inr (report, getNextReportPeriod reportSchedule t)
                       | None \<Rightarrow>
                           (let currentPeriod = getNextReportPeriod reportSchedule now;
                                p = getNextReportPeriod reportSchedule (periodEnd currentPeriod)
                            in Inr (set_NextReportTime (Some (periodStart p)) report, p))))))
      | None \<Rightarrow> bindR (getRunOnceReportPeriod report) (\<lambda>p. Inr (report, p)))"

definition getReportPeriod :: "cron_lib \<Rightarrow> go_time \<Rightarrow> Report \<Rightarrow> goerror + (Report \<times> reportPeriod)" where
  "getReportPeriod cron now report =
     bindR (basePeriod cron now report) (\<lambda>(report', p).
       if periodStart p > periodEnd p then Inl (GoPanic ''periodStart should never come after periodEnd'')
       else
         (case rspec_ReportingEnd (r_Spec report') of
            Some e \<Rightarrow> if periodEnd p > e then Inr (report', p\<lparr>periodEnd := e\<rparr>) else Inr (report', p)
          | None \<Rightarrow> Inr (report', p)))"

text \<open>Whether a report has run before and is not to be processed again.\<close>

definition isReportFinished :: "Report \<Rightarrow> bool" where
  "isReportFinished report =
     (case GetReportCondition (r_Status report) ReportRunning of
        None \<Rightarrow> False
      | Some runningCond \<Rightarrow>
          if cond_Reason runningCond = ReportFinishedReason \<and> cond_Status runningCond \<noteq> ConditionTrue then
            (case rspec_Schedule (r_Spec report) of
               None \<Rightarrow> True
             | Some _ \<Rightarrow>
                 (case rspec_ReportingEnd (r_Spec report) of
                    None \<Rightarrow> False
                  | Some e \<Rightarrow>
                      (case rstat_LastReportTime (r_Status report) of
                         Some t \<Rightarrow> if e > t then False else True
                       | None \<Rightarrow> True)))
          else False)"

section \<open>What the cron library promises\<close>

text \<open>
  \<^verbatim>\<open>Next\<close> of a parsed schedule: the next activation, a whole second later than the given
  time, or the zero time when the schedule is never activated within five years.
\<close>

definition next_ok :: "(go_time \<Rightarrow> go_time) \<Rightarrow> bool" where
  "next_ok nxt \<longleftrightarrow> (\<forall>t. nxt t = 0 \<or> (t < nxt t \<and> nxt t mod Second = 0))"

definition cron_ok :: "cron_lib \<Rightarrow> bool" where
  "cron_ok cron \<longleftrightarrow>
     (\<forall>spec nxt. (cron_Parse cron spec = Inr nxt \<or> cron_ParseStandard cron spec = Inr nxt) \<longrightarrow> next_ok nxt)"

lemma guard_eq_Inr [simp]: "guard v k = Inr x \<longleftrightarrow> v = None \<and> k = Inr x"
  by (simp add: guard_def split: option.split)

lemma getSchedule_parsed:
  "getSchedule cron s = Inr nxt \<Longrightarrow>
     (\<exists>spec. cron_Parse cron spec = Inr nxt \<or> cron_ParseStandard cron spec = Inr nxt)"
  by (auto simp: getSchedule_def Let_def bindR_eq_Inr split: if_splits option.splits)

lemma getSchedule_next_ok: "cron_ok cron \<Longrightarrow> getSchedule cron s = Inr nxt \<Longrightarrow> next_ok nxt"
  using getSchedule_parsed by (fastforce simp: cron_ok_def)

lemma second_millisecond: "t mod Second = 0 \<Longrightarrow> t mod Millisecond = 0"
  using dvd_trans [of Millisecond Second t] by (simp add: mod_eq_0_iff_dvd)

lemma nextPeriod_ordered:
  assumes "next_ok nxt" and "nxt t \<noteq> 0"
  shows "periodStart (getNextReportPeriod nxt t) < periodEnd (getNextReportPeriod nxt t)"
proof -
  from assms have "t < nxt t" "nxt t mod Millisecond = 0"
    by (auto simp: next_ok_def intro: second_millisecond)
  then have "Truncate (nxt t) Millisecond = nxt t" by (simp add: Truncate_fixed)
  with \<open>t < nxt t\<close> Truncate_le [of t Millisecond] show ?thesis
    by (simp add: getNextReportPeriod_def)
qed

section \<open>The string given to the cron parser\<close>

definition cron_field_ok :: "int \<times> int \<Rightarrow> string \<Rightarrow> bool" where
  "cron_field_ok rg f \<longleftrightarrow> f = ''*'' \<or> (\<exists>n. fst rg \<le> n \<and> n \<le> snd rg \<and> f = show_int n)"

definition cron_ranges :: "(int \<times> int) list" where
  "cron_ranges = [(0, 59), (0, 59), (0, 23), (1, 31), (1, 12), (0, 6)]"

lemma cron_field_star [simp]: "cron_field_ok rg ''*''"
  by (simp add: cron_field_ok_def)

lemma cron_field_int: "lo \<le> n \<Longrightarrow> n \<le> hi \<Longrightarrow> cron_field_ok (lo, hi) (show_int n)"
  by (auto simp: cron_field_ok_def)

text \<open>Which schedules are accepted.\<close>

definition clock_ok :: "int \<Rightarrow> int \<Rightarrow> int \<Rightarrow> bool" where
  "clock_ok h m s \<longleftrightarrow> 0 \<le> h \<and> h \<le> 23 \<and> 0 \<le> m \<and> m \<le> 59 \<and> 0 \<le> s \<and> s \<le> 59"

definition schedule_valid :: "ReportSchedule \<Rightarrow> bool" where
  "schedule_valid s \<longleftrightarrow>
     (sched_Period s = ReportPeriodHourly \<and>
        (\<forall>h. sched_Hourly s = Some h \<longrightarrow> clock_ok 0 (hourly_Minute h) (hourly_Second h))) \<or>
     (sched_Period s = ReportPeriodDaily \<and>
        (\<forall>d. sched_Daily s = Some d \<longrightarrow> clock_ok (daily_Hour d) (daily_Minute d) (daily_Second d))) \<or>
     (sched_Period s = ReportPeriodWeekly \<and>
        (\<forall>w. sched_Weekly s = Some w \<longrightarrow> clock_ok (weekly_Hour w) (weekly_Minute w) (weekly_Second w) \<and>
           (\<forall>d. weekly_DayOfWeek w = Some d \<longrightarrow> isOK (convertDayOfWeek d)))) \<or>
     (sched_Period s = ReportPeriodMonthly \<and>
        (\<forall>m. sched_Monthly s = Some m \<longrightarrow> clock_ok (monthly_Hour m) (monthly_Minute m) (monthly_Second m) \<and>
           (\<forall>d. monthly_DayOfMonth m = Some d \<longrightarrow> 1 \<le> d \<and> d \<le> 31)))"

lemma join6: "join '' '' [a, b, c, d, e, f] =
  a @ '' '' @ b @ '' '' @ c @ '' '' @ d @ '' '' @ e @ '' '' @ f"
  by simp

text \<open>The fields that an accepted schedule is translated to.\<close>

definition schedule_fields :: "ReportSchedule \<Rightarrow> string list" where
  "schedule_fields s =
     (if sched_Period s = ReportPeriodHourly then
        (case sched_Hourly s of None \<Rightarrow> [show_int 0, show_int 0, ''*'', ''*'', ''*'', ''*'']
         | Some h \<Rightarrow> [show_int (hourly_Second h), show_int (hourly_Minute h), ''*'', ''*'', ''*'', ''*''])
      else if sched_Period s = ReportPeriodDaily then
        (case sched_Daily s of None \<Rightarrow> [show_int 0, show_int 0, show_int 0, ''*'', ''*'', ''*'']
         | Some d \<Rightarrow> [show_int (daily_Second d), show_int (daily_Minute d), show_int (daily_Hour d), ''*'', ''*'', ''*''])
      else if sched_Period s = ReportPeriodWeekly then
        (case sched_Weekly s of None \<Rightarrow> [show_int 0, show_int 0, show_int 0, ''*'', ''*'', show_int 0]
         | Some w \<Rightarrow> [show_int (weekly_Second w), show_int (weekly_Minute w), show_int (weekly_Hour w), ''*'', ''*'',
             show_int (case weekly_DayOfWeek w of None \<Rightarrow> 0
                       | Some d \<Rightarrow> (case convertDayOfWeek d of Inl _ \<Rightarrow> 0 | Inr n \<Rightarrow> n))])
      else
        (case sched_Monthly s of None \<Rightarrow> [show_int 0, show_int 0, show_int 0, show_int 1, ''*'', ''*'']
         | Some m \<Rightarrow> [show_int (monthly_Second m), show_int (monthly_Minute m), show_int (monthly_Hour m),
             show_int (case monthly_DayOfMonth m of None \<Rightarrow> 1 | Some d \<Rightarrow> d), ''*'', ''*'']))"

lemma schedule_fields_ok:
  assumes "schedule_valid s"
  shows "list_all2 cron_field_ok cron_ranges (schedule_fields s)"
proof -
  have dow: "cron_field_ok (0, 6) (show_int (case d of None \<Rightarrow> 0 | Some d \<Rightarrow>
      (case convertDayOfWeek d of Inl _ \<Rightarrow> 0 | Inr n \<Rightarrow> n)))" for d
    by (auto split: option.split sum.split intro!: cron_field_int dest: convertDayOfWeek_range)
  show ?thesis
    using assms unfolding schedule_valid_def
    by (elim disjE)
      (simp_all add: schedule_fields_def cron_ranges_def clock_ok_def ReportPeriod_defs cron_field_int dow
        split: option.split)
qed

lemma guard_simps [simp]: "guard None k = k" "guard (Some e) k = Inl e"
  by (simp_all add: guard_def)

lemma getSchedule_valid:
  assumes "schedule_valid s"
  shows "getSchedule cron s = cron_Parse cron (join '' '' (schedule_fields s))"
  using assms unfolding schedule_valid_def
  by (elim disjE)
    (auto simp: getSchedule_def schedule_fields_def clock_ok_def validate_defs ReportPeriod_defs isOK_iff
      split: option.splits)

lemma clock_invalid:
  assumes "\<not> clock_ok h m s"
  shows "\<exists>msg. guard (validateHour h) (guard (validateMinute m) (guard (validateSecond s) k)) = Inl (Err msg)"
  using assms by (auto simp: clock_ok_def validate_defs)

lemma clock_valid:
  assumes "clock_ok h m s"
  shows "guard (validateHour h) (guard (validateMinute m) (guard (validateSecond s) k)) = k"
  using assms by (simp add: clock_ok_def validate_defs)

lemma convertDayOfWeek_invalid: "\<not> isOK (convertDayOfWeek d) \<Longrightarrow> \<exists>msg. convertDayOfWeek d = Inl (Err msg)"
  by (auto simp: convertDayOfWeek_def Let_def split: if_splits)

lemma getSchedule_invalid:
  assumes "\<not> schedule_valid s" and "sched_Period s \<noteq> ReportPeriodCron"
  shows "\<exists>msg. getSchedule cron s = Inl (Err msg)"
proof -
  consider (H) "sched_Period s = ReportPeriodHourly" | (D) "sched_Period s = ReportPeriodDaily"
    | (W) "sched_Period s = ReportPeriodWeekly" | (M) "sched_Period s = ReportPeriodMonthly"
    | (other) "sched_Period s \<notin> {ReportPeriodHourly, ReportPeriodDaily, ReportPeriodWeekly, ReportPeriodMonthly}"
    by auto
  then show ?thesis
  proof cases
    case H
    with assms(1) obtain h where h: "sched_Hourly s = Some h" "\<not> clock_ok 0 (hourly_Minute h) (hourly_Second h)"
      by (auto simp: schedule_valid_def)
    then show ?thesis using H
      by (auto simp: getSchedule_def ReportPeriod_defs clock_ok_def validate_defs)
  next
    case D
    with assms(1) obtain d where d: "sched_Daily s = Some d"
      "\<not> clock_ok (daily_Hour d) (daily_Minute d) (daily_Second d)"
      by (auto simp: schedule_valid_def)
    then show ?thesis using D
      by (simp add: getSchedule_def ReportPeriod_defs clock_invalid)
  next
    case W
    with assms(1) obtain w where w: "sched_Weekly s = Some w"
      "\<not> clock_ok (weekly_Hour w) (weekly_Minute w) (weekly_Second w) \<or>
       (\<exists>d. weekly_DayOfWeek w = Some d \<and> \<not> isOK (convertDayOfWeek d))"
      by (auto simp: schedule_valid_def)
    let ?d = "case weekly_DayOfWeek w of None \<Rightarrow> Inr 0 | Some d \<Rightarrow> convertDayOfWeek d"
    have "(\<exists>msg. ?d = Inl (Err msg)) \<or>
        (isOK ?d \<and> \<not> clock_ok (weekly_Hour w) (weekly_Minute w) (weekly_Second w))"
      using w(2) convertDayOfWeek_invalid by (auto split: option.split)
    then show ?thesis using W w(1)
      by (auto simp: getSchedule_def ReportPeriod_defs clock_invalid isOK_iff)
  next
    case M
    with assms(1) obtain m where m: "sched_Monthly s = Some m"
      "\<not> clock_ok (monthly_Hour m) (monthly_Minute m) (monthly_Second m) \<or>
       (\<exists>d. monthly_DayOfMonth m = Some d \<and> \<not> (1 \<le> d \<and> d \<le> 31))"
      by (auto simp: schedule_valid_def)
    then show ?thesis using M
      by (auto simp: getSchedule_def ReportPeriod_defs validateDayOfMonth_def clock_invalid Let_def guard_def [of "if _ then _ else _"]
          split: option.split)
  next
    case other
    then show ?thesis using assms(2) by (simp add: getSchedule_def)
  qed
qed

section \<open>The periods of a scheduled report\<close>

lemma getReportPeriod_scheduled:
  assumes "rspec_Schedule (r_Spec r) = Some s" and "rstat_LastReportTime (r_Status r) = Some t"
    and "getReportPeriod cron now r = Inr (r', p)"
  obtains nxt where "getSchedule cron s = Inr nxt" "r' = r"
    "periodStart p = Truncate t Millisecond"
    "periodEnd p = (case rspec_ReportingEnd (r_Spec r) of
        None \<Rightarrow> Truncate (nxt t) Millisecond
      | Some e \<Rightarrow> min e (Truncate (nxt t) Millisecond))"
    "Truncate t Millisecond \<le> Truncate (nxt t) Millisecond"
  using assms
  by (auto simp: getReportPeriod_def basePeriod_def bindR_eq_Inr getNextReportPeriod_def min_def
      split: if_splits option.splits)

text \<open>
  The periods that a scheduled report is generated for, one after the other: the handler computes
  the period and, after generating it, records its end as the last report time. The list holds the
  clock readings of the runs.
\<close>

fun reportPeriods :: "cron_lib \<Rightarrow> go_time list \<Rightarrow> Report \<Rightarrow> goerror + reportPeriod list" where
  "reportPeriods cron [] r = Inr []"
| "reportPeriods cron (now # nows) r =
     bindR (getReportPeriod cron now r) (\<lambda>(r', p).
       bindR (reportPeriods cron nows (set_LastReportTime (Some (periodEnd p)) r')) (\<lambda>ps. Inr (p # ps)))"

text \<open>Every period starts where the one before it ended.\<close>

fun periods_from :: "go_time \<Rightarrow> reportPeriod list \<Rightarrow> bool" where
  "periods_from t [] \<longleftrightarrow> True"
| "periods_from t (p # ps) \<longleftrightarrow> periodStart p = t \<and> periods_from (periodEnd p) ps"

definition ms_aligned :: "go_time option \<Rightarrow> bool" where
  "ms_aligned t \<longleftrightarrow> (\<forall>x. t = Some x \<longrightarrow> x mod Millisecond = 0)"

lemma set_LastReportTime_sel [simp]:
  "r_Spec (set_LastReportTime t r) = r_Spec r"
  "rstat_LastReportTime (r_Status (set_LastReportTime t r)) = t"
  by (simp_all add: set_LastReportTime_def)

lemma Truncate_ms_fixed: "t mod Millisecond = 0 \<Longrightarrow> Truncate t Millisecond = t"
  by (simp add: Truncate_fixed)

lemma scheduled_step:
  assumes "cron_ok cron" and "rspec_Schedule (r_Spec r) = Some s"
    and "rstat_LastReportTime (r_Status r) = Some t" and "t mod Millisecond = 0"
    and "ms_aligned (rspec_ReportingEnd (r_Spec r))"
    and "getReportPeriod cron now r = Inr (r', p)"
  shows "r' = r \<and> periodStart p = t \<and> periodEnd p mod Millisecond = 0 \<and>
    (\<forall>e. rspec_ReportingEnd (r_Spec r) = Some e \<longrightarrow> periodEnd p \<le> e) \<and>
    (0 < t \<and> (\<forall>e. rspec_ReportingEnd (r_Spec r) = Some e \<longrightarrow> t < e) \<longrightarrow> t < periodEnd p)"
proof -
  from assms(2,3,6) obtain nxt where n: "getSchedule cron s = Inr nxt" "r' = r"
    "periodStart p = Truncate t Millisecond"
    "periodEnd p = (case rspec_ReportingEnd (r_Spec r) of
        None \<Rightarrow> Truncate (nxt t) Millisecond | Some e \<Rightarrow> min e (Truncate (nxt t) Millisecond))"
    "Truncate t Millisecond \<le> Truncate (nxt t) Millisecond"
    by (rule getReportPeriod_scheduled)
  have t: "Truncate t Millisecond = t" by (rule Truncate_ms_fixed [OF assms(4)])
  have "next_ok nxt" by (rule getSchedule_next_ok [OF assms(1) n(1)])
  have pos: "0 < t \<Longrightarrow> t < Truncate (nxt t) Millisecond"
  proof -
    assume "0 < t"
    have "nxt t \<noteq> 0"
    proof
      assume "nxt t = 0"
      with n(5) t have "t \<le> 0" by (simp add: Truncate_def)
      with \<open>0 < t\<close> show False by simp
    qed
    with \<open>next_ok nxt\<close> show ?thesis
      using nextPeriod_ordered [of nxt t] t by (simp add: getNextReportPeriod_def)
  qed
  show ?thesis
    using n(2,3,4) t pos assms(5)
    by (auto simp: ms_aligned_def Truncate_mod min_def split: option.splits)
qed

lemma reportPeriods_from:
  assumes "cron_ok cron" and "rspec_Schedule (r_Spec r) = Some s"
    and "rstat_LastReportTime (r_Status r) = Some t" and "t mod Millisecond = 0"
    and "ms_aligned (rspec_ReportingEnd (r_Spec r))"
    and "reportPeriods cron nows r = Inr ps"
  shows "periods_from t ps \<and>
    (\<forall>p \<in> set ps. \<forall>e. rspec_ReportingEnd (r_Spec r) = Some e \<longrightarrow> periodEnd p \<le> e)"
  using assms
proof (induction nows arbitrary: r t ps)
  case Nil
  then show ?case by auto
next
  case (Cons now nows)
  from Cons.prems(6) obtain r' p qs where
    p: "getReportPeriod cron now r = Inr (r', p)"
    and qs: "reportPeriods cron nows (set_LastReportTime (Some (periodEnd p)) r') = Inr qs" "ps = p # qs"
    by (auto simp: bindR_eq_Inr)
  note st = scheduled_step [OF Cons.prems(1-5) p]
  have "periods_from (periodEnd p) qs \<and>
    (\<forall>q \<in> set qs. \<forall>e. rspec_ReportingEnd (r_Spec (set_LastReportTime (Some (periodEnd p)) r')) = Some e \<longrightarrow> periodEnd q \<le> e)"
    using Cons.prems(1,2,5) qs(1) st by (intro Cons.IH) simp_all
  with st qs(2) show ?case by auto
qed

section \<open>Properties\<close>

text \<open>
  The schedule of a Report that is not a cron expression is accepted exactly when its fields are in
  their ranges. An accepted schedule is handed to the cron parser as six fields separated by blanks
  (second, minute, hour, day of month, month, day of week), each a star or a number in
  the range of its field; any other is refused with an error that does not depend on the parser.
\<close>

theorem getSchedule_cron_spec:
  assumes "sched_Period s \<noteq> ReportPeriodCron"
  shows "if schedule_valid s
         then list_all2 cron_field_ok cron_ranges (schedule_fields s) \<and>
              (\<forall>cron. getSchedule cron s = cron_Parse cron (join '' '' (schedule_fields s)))
         else \<forall>cron. \<exists>msg. getSchedule cron s = Inl (Err msg)"
  using schedule_fields_ok getSchedule_valid getSchedule_invalid [OF _ assms] by simp

definition monday_3am :: ReportSchedule where
  "monday_3am = \<lparr>sched_Period = ''weekly'', sched_Cron = None, sched_Hourly = None, sched_Daily = None,
     sched_Weekly = Some \<lparr>weekly_DayOfWeek = Some ''Monday'', weekly_Hour = 3, weekly_Minute = 0, weekly_Second = 0\<rparr>,
     sched_Monthly = None\<rparr>"

lemma monday_3am_fields: "join '' '' (schedule_fields monday_3am) = ''0 0 3 * * 1''"
  by code_simp

lemma monday_3am_ok: "sched_Period monday_3am \<noteq> ReportPeriodCron" "schedule_valid monday_3am"
proof -
  show "sched_Period monday_3am \<noteq> ReportPeriodCron" by code_simp
  have "isOK (convertDayOfWeek ''Monday'')" by code_simp
  then show "schedule_valid monday_3am"
    by (simp add: monday_3am_def schedule_valid_def ReportPeriod_defs clock_ok_def)
qed

theorem getSchedule_cron_spec_witness:
  "getSchedule \<lparr>cron_Parse = (\<lambda>spec. Inl (Err spec)), cron_ParseStandard = (\<lambda>spec. Inl (Err spec))\<rparr> monday_3am =
     Inl (Err ''0 0 3 * * 1'')"
  using getSchedule_cron_spec [OF monday_3am_ok(1)] monday_3am_ok(2) monday_3am_fields by simp


text \<open>A cron library whose every schedule is activated at each full hour.\<close>

definition hourly_cron :: cron_lib where
  "hourly_cron = \<lparr>cron_Parse = (\<lambda>_. Inr (\<lambda>t. t - t mod Hour + Hour)),
                  cron_ParseStandard = (\<lambda>_. Inr (\<lambda>t. t - t mod Hour + Hour))\<rparr>"

lemma hourly_cron_ok: "cron_ok hourly_cron"
proof -
  have "t < t - t mod Hour + Hour" for t :: int
    using pos_mod_bound [of Hour t] by simp
  moreover have "(t - t mod Hour + Hour) mod Second = 0" for t :: int
  proof -
    have "Hour dvd t - t mod Hour + Hour" by (simp add: dvd_minus_mod)
    then have "Second dvd t - t mod Hour + Hour" by (rule dvd_trans [rotated]) simp
    then show ?thesis by simp
  qed
  ultimately show ?thesis by (auto simp: cron_ok_def next_ok_def hourly_cron_def)
qed

definition sample_schedule :: ReportSchedule where
  "sample_schedule = \<lparr>sched_Period = ReportPeriodHourly, sched_Cron = None, sched_Hourly = None,
     sched_Daily = None, sched_Weekly = None, sched_Monthly = None\<rparr>"

definition sample_report :: "go_time option \<Rightarrow> go_time option \<Rightarrow> Report" where
  "sample_report lastReport reportingEnd =
     \<lparr>Name = ''r'', Namespace = ''ns'', Labels = [], Annotations = [], Finalizers = [],
      DeletionTimestamp = None, ResourceVersion = ''1'', OwnerReferences = [],
      r_Spec = \<lparr>rspec_QueryName = ''q'', rspec_Schedule = Some sample_schedule, rspec_ReportingStart = None,
        rspec_ReportingEnd = reportingEnd, rspec_OverwriteExistingData = False, rspec_RunImmediately = False,
        rspec_Inputs = [], rspec_Output = None\<rparr>,
      r_Status = \<lparr>rstat_Conditions = [], rstat_LastReportTime = lastReport, rstat_NextReportTime = None,
        rstat_TableRef = ''report-r''\<rparr>\<rparr>"

lemma sample_report_sel [simp]:
  "rspec_Schedule (r_Spec (sample_report t e)) = Some sample_schedule"
  "rspec_ReportingEnd (r_Spec (sample_report t e)) = e"
  "rstat_LastReportTime (r_Status (sample_report t e)) = t"
  by (simp_all add: sample_report_def)

lemma sample_periods:
  "reportPeriods hourly_cron [0, 0] (sample_report (Some Hour) (Some (2 * Hour + Minute))) =
     Inr [\<lparr>periodEnd = 2 * Hour, periodStart = Hour\<rparr>, \<lparr>periodEnd = 2 * Hour + Minute, periodStart = 2 * Hour\<rparr>]"
  by code_simp


text \<open>
  A scheduled report makes progress: the period that follows a last report time before
  reportingEnd ends strictly later than that time, so the last report time recorded afterwards
  moves forward (the schedule is one that the cron library activates again).
\<close>

theorem report_period_progress:
  assumes "cron_ok cron" and "rspec_Schedule (r_Spec r) = Some s"
    and "rstat_LastReportTime (r_Status r) = Some t" and "0 < t" and "t mod Millisecond = 0"
    and "ms_aligned (rspec_ReportingEnd (r_Spec r))"
    and "case rspec_ReportingEnd (r_Spec r) of None \<Rightarrow> True | Some e \<Rightarrow> t < e"
    and "getReportPeriod cron now r = Inr (r', p)"
  shows "t < periodEnd p"
  using scheduled_step [OF assms(1-3) assms(5,6,8)] assms(4,7) by auto

theorem report_period_progress_witness:
  "Hour < periodEnd \<lparr>periodEnd = 2 * Hour, periodStart = Hour\<rparr>"
proof -
  have "getReportPeriod hourly_cron 0 (sample_report (Some Hour) (Some (3 * Hour))) =
      Inr (sample_report (Some Hour) (Some (3 * Hour)), \<lparr>periodEnd = 2 * Hour, periodStart = Hour\<rparr>)"
    by code_simp
  from report_period_progress [OF hourly_cron_ok _ _ _ _ _ _ this] show ?thesis
    by (simp add: ms_aligned_def)
qed

text \<open>
  A cron expression that is never activated (the 31st of February) makes the period function panic
  instead of returning an error: the library answers the zero time, which lies before the start.
\<close>

theorem never_activated_schedule_panics:
  assumes "rspec_Schedule (r_Spec r) = Some s" and "getSchedule cron s = Inr nxt"
    and "rstat_LastReportTime (r_Status r) = Some t" and "Millisecond \<le> t" and "nxt t = 0"
  shows "getReportPeriod cron now r = Inl (GoPanic ''periodStart should never come after periodEnd'')"
proof -
  have "0 < Truncate t Millisecond"
    using assms(4) Truncate_mono [of Millisecond t Millisecond] by (simp add: Truncate_def)
  then show ?thesis
    using assms by (simp add: getReportPeriod_def basePeriod_def getNextReportPeriod_def Truncate_def)
qed

theorem never_activated_schedule_panics_witness:
  "getReportPeriod \<lparr>cron_Parse = (\<lambda>_. Inr (\<lambda>_. 0)), cron_ParseStandard = (\<lambda>_. Inr (\<lambda>_. 0))\<rparr> 0
     (sample_report (Some Hour) None) = Inl (GoPanic ''periodStart should never come after periodEnd'')"
  by (rule never_activated_schedule_panics [of _ sample_schedule _ "\<lambda>_. 0" Hour])
    (simp_all add: getSchedule_def sample_schedule_def ReportPeriod_defs validate_defs)

text \<open>
  When the spec's reportingEnd is moved before the last report time of a report that is not finished, the
  period function answers a period whose end is before its start: the cut to reportingEnd comes
  after the check that start does not exceed end.
\<close>

theorem reportingEnd_in_the_past_inverts_period:
  assumes "cron_ok cron" and "rspec_Schedule (r_Spec r) = Some s" and "getSchedule cron s = Inr nxt"
    and "rstat_LastReportTime (r_Status r) = Some t" and "t mod Millisecond = 0" and "nxt t \<noteq> 0"
    and "rspec_ReportingEnd (r_Spec r) = Some e" and "e < t"
  shows "getReportPeriod cron now r = Inr (r, \<lparr>periodEnd = e, periodStart = t\<rparr>)"
proof -
  have "Truncate t Millisecond = t" by (rule Truncate_ms_fixed [OF assms(5)])
  moreover have "Truncate t Millisecond < Truncate (nxt t) Millisecond"
    using nextPeriod_ordered [OF getSchedule_next_ok [OF assms(1,3)] assms(6)]
    by (simp add: getNextReportPeriod_def)
  ultimately show ?thesis
    using assms by (simp add: getReportPeriod_def basePeriod_def getNextReportPeriod_def)
qed

theorem reportingEnd_in_the_past_inverts_period_witness:
  "getReportPeriod hourly_cron 0 (sample_report (Some (2 * Hour)) (Some Hour)) =
     Inr (sample_report (Some (2 * Hour)) (Some Hour), \<lparr>periodEnd = Hour, periodStart = 2 * Hour\<rparr>)"
  by (rule reportingEnd_in_the_past_inverts_period [OF hourly_cron_ok, of _ sample_schedule "\<lambda>t. t - t mod Hour + Hour"])
    (simp_all add: getSchedule_def sample_schedule_def ReportPeriod_defs validate_defs hourly_cron_def)

end
