(* ===== verification/Reports.thy ===== *)
theory Reports
  imports Go_Slices Templates Presto_Tables Report_Schedule
begin

text \<open>
  The handler of Reports, \<^verbatim>\<open>pkg/operator/reports.go\<close>: validation, the table of the report, waiting for the end of
  the reporting period, checking that the dependencies have data, generating the report and planning its next run.
  The function \<open>runReport\<close> is the composition of these phases; each is a definition of its own.
\<close>

section \<open>The surroundings\<close>

text \<open>What the handler uses beside the services: the cron library, the template engine and the run-time system.\<close>

record report_lib =
  lib_cron :: cron_lib
  lib_engine :: template_engine
  lib_stack :: nat
  lib_parseTime :: "string \<Rightarrow> goerror + go_time"
  lib_grow :: "nat \<Rightarrow> nat \<Rightarrow> nat"

text \<open>The resolver of the operator reads the informer caches.\<close>

definition listerResolver :: "'x lister_env_scheme \<Rightarrow> report_lib \<Rightarrow> history \<Rightarrow> DependencyResolver" where
  "listerResolver env lib h =
     \<lparr>GetReportQuery = lister_ReportQuery env h, GetReportDataSourceByName = lister_ReportDataSource env h,
      GetReportByName = lister_Report env h, ParseTime = lib_parseTime lib\<rparr>"

section \<open>The finalizer\<close>

definition reportFinalizer :: string where
  "reportFinalizer = GroupName @ ''/report''"

definition updateReportM :: "'x client_env_scheme \<Rightarrow> Report \<Rightarrow> (goerror + Report) op" where
  "updateReportM env r = call (\<lambda>h. client_UpdateReport env h r) (UpdateReport r)"

definition addReportFinalizer :: "'x client_env_scheme \<Rightarrow> Report \<Rightarrow> (goerror + Report) op" where
  "addReportFinalizer env r = updateReportM env (r\<lparr>Finalizers := Finalizers r @ [reportFinalizer]\<rparr>)"

definition removeReportFinalizer :: "'x client_env_scheme \<Rightarrow> Report \<Rightarrow> (goerror + Report) op" where
  "removeReportFinalizer env r =
     (if \<not> ContainsString (Finalizers r) reportFinalizer None then State_Monad.return (Inr r)
      else updateReportM env (r\<lparr>Finalizers := RemoveString (Finalizers r) reportFinalizer None\<rparr>))"

definition reportNeedsFinalizer :: "Report \<Rightarrow> bool" where
  "reportNeedsFinalizer r \<longleftrightarrow> DeletionTimestamp r = None \<and> \<not> ContainsString (Finalizers r) reportFinalizer None"

lemma run_updateReportM [run_simps]:
  "run_state (updateReportM env r) h = (client_UpdateReport env h r, h @ [UpdateReport r])"
  by (simp add: updateReportM_def)

interpretation rp: finalized_object reportFinalizer reportNeedsFinalizer
  "addReportFinalizer env" "removeReportFinalizer env" UpdateReport "client_UpdateReport env" for env :: "'x client_env_scheme"
  by unfold_locales
    (simp_all add: reportNeedsFinalizer_def addReportFinalizer_def removeReportFinalizer_def run_simps Let_def)

section \<open>Status updates\<close>

definition newRunningCondition :: "'x clock_env_scheme \<Rightarrow> string \<Rightarrow> string \<Rightarrow> string \<Rightarrow> ReportCondition op" where
  "newRunningCondition env status reason msg = do {
     t \<leftarrow> call (metav1_Now env) ReadClock;
     State_Monad.return (NewReportCondition t ReportRunning status reason msg)
   }"

definition setCondition :: "ReportCondition \<Rightarrow> Report \<Rightarrow> Report" where
  "setCondition cond report = report\<lparr>r_Status := SetReportCondition (r_Status report) cond\<rparr>"

definition updateReportStatus :: "'x client_env_scheme \<Rightarrow> Report \<Rightarrow> ReportCondition \<Rightarrow> (goerror + Report) op" where
  "updateReportStatus env report cond = updateReportM env (setCondition cond report)"

definition setReportStatusInvalidReport :: "'x client_env_scheme \<Rightarrow> Report \<Rightarrow> string \<Rightarrow> goerror option op" where
  "setReportStatusInvalidReport env report msg =
     (case GetReportCondition (r_Status report) ReportRunning of
        Some c \<Rightarrow>
          if cond_Status c = ConditionFalse \<and> cond_Reason c = InvalidReportReason \<and> cond_Message c = msg
          then State_Monad.return None
          else do {
            cond \<leftarrow> newRunningCondition env ConditionFalse InvalidReportReason msg;
            u \<leftarrow> updateReportStatus env report cond;
            State_Monad.return (case u of Inl e \<Rightarrow> Some e | Inr _ \<Rightarrow> None)
          }
      | None \<Rightarrow> do {
          cond \<leftarrow> newRunningCondition env ConditionFalse InvalidReportReason msg;
          u \<leftarrow> updateReportStatus env report cond;
          State_Monad.return (case u of Inl e \<Rightarrow> Some e | Inr _ \<Rightarrow> None)
        })"

section \<open>Validation\<close>

definition GetReportQueryForReport ::
  "Report \<Rightarrow> (string \<Rightarrow> string \<Rightarrow> goerror + ReportQuery) \<Rightarrow> goerror + ReportQuery" where
  "GetReportQueryForReport report queryGetter = queryGetter (Namespace report) (rspec_QueryName (r_Spec report))"

definition validateReport ::
  "Report \<Rightarrow> DependencyResolver \<Rightarrow> uninitialized_handler \<Rightarrow>
   (goerror + (ReportQuery \<times> DependencyResolutionResult)) op" where
  "validateReport report resolver handler =
     (let spec = r_Spec report in
      if rspec_QueryName spec = [] then State_Monad.return (Inl (Err ''must set spec.query''))
      else if rspec_ReportingStart spec \<noteq> None \<and> rspec_ReportingEnd spec \<noteq> None \<and>
        the (rspec_ReportingStart spec) \<ge> the (rspec_ReportingEnd spec)
      then State_Monad.return (Inl (Err (''spec.reportingEnd ('' @ show_time (the (rspec_ReportingEnd spec)) @
        '') must be after spec.reportingStart ('' @ show_time (the (rspec_ReportingStart spec)) @ '')'')))
      else if rspec_ReportingEnd spec = None \<and> rspec_RunImmediately spec
      then State_Monad.return (Inl (Err ''spec.reportingEnd must be set if report.spec.runImmediately is true''))
      else
        (case GetReportQueryForReport report (GetReportQuery resolver) of
           Inl e \<Rightarrow> State_Monad.return (Inl
             (if IsNotFound e then Err (''ReportQuery ('' @ rspec_QueryName spec @ '') does not exist'')
              else Err ''failed to get report report query''))
         | Inr query \<Rightarrow>
             (case ResolveDependencies resolver (Namespace query) (q_Inputs query) (rspec_Inputs spec) of
                Inl e \<Rightarrow> State_Monad.return (Inl (wrap (\<lambda>m. ''failed to resolve ReportQuery dependencies '' @ Name query @
                  '': '' @ m) e))
              | Inr dependencyResult \<Rightarrow> do {
                  err \<leftarrow> ValidateQueryDependencies (res_Dependencies dependencyResult) handler;
                  State_Monad.return
                    (case err of
                       Some e \<Rightarrow> Inl (wrap (\<lambda>m. ''failed to validate ReportQuery dependencies '' @ Name query @ '': '' @ m) e)
                     | None \<Rightarrow> Inr (query, dependencyResult))
                })))"

section \<open>Dependents\<close>

text \<open>\<^verbatim>\<open>getQueryDependencies\<close> of \<^verbatim>\<open>datasources.go\<close>.\<close>

definition getQueryDependencies ::
  "DependencyResolver \<Rightarrow> string \<Rightarrow> string \<Rightarrow> ReportQueryInputValue list \<Rightarrow> goerror + ReportQueryDependencies" where
  "getQueryDependencies resolver namespace name inputVals =
     bindR (GetReportQuery resolver namespace name) (\<lambda>query.
       bindR (ResolveDependencies resolver (Namespace query) (q_Inputs query) inputVals) (\<lambda>result.
         Inr (res_Dependencies result)))"

definition getReportDependencies :: "DependencyResolver \<Rightarrow> Report \<Rightarrow> goerror + ReportQueryDependencies" where
  "getReportDependencies resolver report =
     getQueryDependencies resolver (Namespace report) (rspec_QueryName (r_Spec report)) (rspec_Inputs (r_Spec report))"

text \<open>A loop that queues the items that \<open>depends\<close> selects and stops at the first error.\<close>

definition queueIf :: "('a \<Rightarrow> goerror + bool) \<Rightarrow> ('a \<Rightarrow> unit op) \<Rightarrow> 'a \<Rightarrow> (goerror + unit) op" where
  "queueIf depends enq x =
     (case depends x of
        Inl e \<Rightarrow> State_Monad.return (Inl e)
      | Inr b \<Rightarrow> if b then do { enq x; State_Monad.return (Inr ()) } else State_Monad.return (Inr ()))"

definition queueDependentReportsForReport :: "'x lister_env_scheme \<Rightarrow> report_lib \<Rightarrow> Report \<Rightarrow> (goerror + unit) op" where
  "queueDependentReportsForReport env lib report = do {
     rs \<leftarrow> peek (\<lambda>h. lister_Reports env h (Namespace report));
     (case rs of
        Inl e \<Rightarrow> State_Monad.return (Inl e)
      | Inr reports \<Rightarrow> do {
          resolver \<leftarrow> peek (listerResolver env lib);
          for_eachR (queueIf (\<lambda>otherReport. bindR (getReportDependencies resolver otherReport) (\<lambda>deps.
            Inr (list_ex (\<lambda>dep. Name dep = Name report) (deps_Reports deps)))) enqueueReport) reports
        })
   }"

definition queueDependentReportQueriesForReport ::
  "'x client_env_scheme \<Rightarrow> report_lib \<Rightarrow> Report \<Rightarrow> (goerror + unit) op" where
  "queueDependentReportQueriesForReport env lib report = do {
     qs \<leftarrow> call (\<lambda>h. client_ListReportQueries env h (Namespace report)) (ListReportQueries (Namespace report));
     (case qs of
        Inl e \<Rightarrow> State_Monad.return (Inl e)
      | Inr queries \<Rightarrow> do {
          resolver \<leftarrow> peek (listerResolver env lib);
          for_eachR (queueIf (\<lambda>query. bindR (getQueryDependencies resolver (Namespace query) (Name query) []) (\<lambda>deps.
            Inr (list_ex (\<lambda>dep. Name dep = Name report) (deps_Reports deps)))) enqueueReportQuery) queries
        })
   }"

text \<open>Both, with their errors only logged.\<close>

definition queueDependentsOfReport :: "'x client_env_scheme \<Rightarrow> report_lib \<Rightarrow> Report \<Rightarrow> unit op" where
  "queueDependentsOfReport env lib report = do {
     _ \<leftarrow> queueDependentReportQueriesForReport env lib report;
     _ \<leftarrow> queueDependentReportsForReport env lib report;
     State_Monad.return ()
   }"

section \<open>The table of a report\<close>

definition bindM :: "(goerror + 'a) op \<Rightarrow> ('a \<Rightarrow> (goerror + 'b) op) \<Rightarrow> (goerror + 'b) op" where
  "bindM m f = do { r \<leftarrow> m; (case r of Inl e \<Rightarrow> State_Monad.return (Inl e) | Inr a \<Rightarrow> f a) }"

definition wrapM :: "(goerror \<Rightarrow> goerror) \<Rightarrow> (goerror + 'a) op \<Rightarrow> (goerror + 'a) op" where
  "wrapM f m = do { r \<leftarrow> m; State_Monad.return (case r of Inl e \<Rightarrow> Inl (f e) | Inr a \<Rightarrow> Inr a) }"

abbreviation liftM :: "goerror + 'a \<Rightarrow> (goerror + 'a) op" where
  "liftM r \<equiv> State_Monad.return r"

definition existingReportTable :: "'x lister_env_scheme \<Rightarrow> Report \<Rightarrow> (goerror + (Report \<times> PrestoTable)) op" where
  "existingReportTable env report =
     bindM (wrapM (wrap (\<lambda>m. ''unable to get PrestoTable {'' @ rstat_TableRef (r_Status report) @ ''} for Report '' @
              Name report @ '', '' @ m))
            (peek (\<lambda>h. lister_PrestoTable env h (Namespace report) (rstat_TableRef (r_Status report)))))
       (\<lambda>prestoTable. liftM (bindR (FullyQualifiedTableName prestoTable) (\<lambda>_. Inr (report, prestoTable))))"

definition reportTableParameters :: "StorageLocation \<Rightarrow> string \<Rightarrow> Column list \<Rightarrow> TableParameters" where
  "reportTableParameters hiveStorage tableName cols =
     (let props = (case sl_Spec_Hive hiveStorage of Some hs \<Rightarrow> hs_DefaultTableProperties hs | None \<Rightarrow> None)
      in \<lparr>tparams_Database = hss_DatabaseName (sl_Status_Hive hiveStorage), tparams_Name = tableName, tparams_Columns = cols,
          tparams_PartitionedBy = [], tparams_ClusteredBy = [], tparams_SortedBy = [], tparams_NumBuckets = 0,
          tparams_Location = [], tparams_RowFormat = (case props of Some p \<Rightarrow> dtp_RowFormat p | None \<Rightarrow> []),
          tparams_FileFormat = (case props of Some p \<Rightarrow> dtp_FileFormat p | None \<Rightarrow> []),
          tparams_TableProperties = None, tparams_External = False\<rparr>)"

definition reportStorage :: "'x lister_env_scheme \<Rightarrow> Report \<Rightarrow> (goerror + StorageLocation) op" where
  "reportStorage env report =
     bindM (wrapM (wrap (\<lambda>m. ''storage incorrectly configured for Report '' @ Name report @ '', err: '' @ m))
              (getHiveStorage env (rspec_Output (r_Spec report)) (Namespace report)))
       (\<lambda>hiveStorage. liftM
          (if hss_DatabaseName (sl_Status_Hive hiveStorage) = [] then
             Inl (Err (''StorageLocation '' @ Name hiveStorage @ '' Hive database '' @
               hs_DatabaseName (the (sl_Spec_Hive hiveStorage)) @ '' does not exist yet''))
           else Inr hiveStorage))"

definition createReportTable ::
  "'x client_env_scheme \<Rightarrow> op_config \<Rightarrow> Report \<Rightarrow> TableParameters \<Rightarrow> (goerror + (HiveTable \<times> PrestoTable)) op" where
  "createReportTable env cfg report params =
     wrapM (wrap (\<lambda>m. ''error creating table for Report '' @ Name report @ '': '' @ m))
       (bindM (createHiveTableCR env cfg report ''Report'' params False []) (\<lambda>created.
          bindM (waitForHiveTable env (Namespace created) (Name created) Second (20 * Second)) (\<lambda>hiveTable.
            bindM (waitForPrestoTable env (Namespace hiveTable) (Name hiveTable) Second (20 * Second)) (\<lambda>prestoTable.
              liftM (Inr (hiveTable, prestoTable))))))"

definition reportDataSource :: "Report \<Rightarrow> PrestoTable \<Rightarrow> ReportDataSource" where
  "reportDataSource report prestoTable =
     \<lparr>Name = ''report-'' @ Name report, Namespace = Namespace prestoTable, Labels = Labels prestoTable, Annotations = [],
      Finalizers = [], DeletionTimestamp = None, ResourceVersion = [],
      OwnerReferences = [NewControllerRef prestoTable ''PrestoTable''],
      ds_Spec = \<lparr>dspec_PrometheusMetricsImporter = None, dspec_AWSBilling = None,
        dspec_PrestoTable = Some (Name prestoTable), dspec_ReportQueryView = None\<rparr>,
      ds_Status = \<lparr>dstat_TableRef = [], dstat_PrometheusMetricsImportStatus = None\<rparr>\<rparr>"

definition createReportDataSource ::
  "'x client_env_scheme \<Rightarrow> Report \<Rightarrow> PrestoTable \<Rightarrow> (goerror + unit) op" where
  "createReportDataSource env report prestoTable =
     (let ds = reportDataSource report prestoTable in do {
        r \<leftarrow> call (\<lambda>h. client_CreateReportDataSource env h ds) (CreateReportDataSource ds);
        State_Monad.return
          (case r of
             Inr _ \<Rightarrow> Inr ()
           | Inl e \<Rightarrow> if IsAlreadyExists e then Inr ()
               else Inl (wrap (\<lambda>m. ''error creating PrestoTable ReportDataSource '' @ Name ds @ '': '' @ m) e))
      })"

text \<open>The branch for a report without a table.\<close>

definition newReportTable ::
  "'x client_env_scheme \<Rightarrow> report_lib \<Rightarrow> op_config \<Rightarrow> Report \<Rightarrow> ReportQuery \<Rightarrow> (goerror + (Report \<times> PrestoTable)) op" where
  "newReportTable env lib cfg report reportQuery =
     bindM (reportStorage env report) (\<lambda>hiveStorage.
       bindM (wrapM (wrap (\<lambda>m. ''unable to convert Presto columns to Hive columns: '' @ m))
                (liftM (PrestoColumnsToHiveColumns (GeneratePrestoColumns reportQuery)))) (\<lambda>cols.
         bindM (createReportTable env cfg report
                  (reportTableParameters hiveStorage (ReportTableName (Namespace report) (Name report)) cols))
           (\<lambda>(hiveTable, prestoTable).
           bindM (liftM (FullyQualifiedTableName prestoTable)) (\<lambda>_.
             bindM (createReportDataSource env report prestoTable) (\<lambda>_.
               bindM (updateReportM env (report\<lparr>r_Status := (r_Status report)\<lparr>rstat_TableRef := Name hiveTable\<rparr>\<rparr>)) (\<lambda>report'. do {
                 queueDependentsOfReport env lib report';
                 State_Monad.return (Inr (report', prestoTable))
               }))))))"

definition ensureReportTable ::
  "'x client_env_scheme \<Rightarrow> report_lib \<Rightarrow> op_config \<Rightarrow> Report \<Rightarrow> ReportQuery \<Rightarrow> (goerror + (Report \<times> PrestoTable)) op" where
  "ensureReportTable env lib cfg report reportQuery =
     (if rstat_TableRef (r_Status report) \<noteq> [] then existingReportTable env report
      else newReportTable env lib cfg report reportQuery)"

section \<open>Waiting for the end of the period\<close>

definition show_period :: "reportPeriod \<Rightarrow> string" where
  "show_period p = ''['' @ show_time (periodStart p) @ '' to '' @ show_time (periodEnd p) @ '']''"

definition waitMsg :: "reportPeriod \<Rightarrow> go_time \<Rightarrow> string" where
  "waitMsg p nextRunTime =
     ''Next scheduled report period is '' @ show_period p @ ''. next run time is '' @ show_time nextRunTime @ ''.''"

definition waitForPeriod :: "'x client_env_scheme \<Rightarrow> go_time \<Rightarrow> Report \<Rightarrow> reportPeriod \<Rightarrow> goerror option op" where
  "waitForPeriod env now report p =
     (let waitTime = Sub (periodEnd p) now in
      if (case GetReportCondition (r_Status report) ReportRunning of
            Some c \<Rightarrow> cond_Status c = ConditionTrue \<and> cond_Reason c = ReportingPeriodWaitingReason
          | None \<Rightarrow> False)
      then do { enqueueReportAfter report waitTime; State_Monad.return None }
      else do {
        cond \<leftarrow> newRunningCondition env ConditionFalse ReportingPeriodWaitingReason (waitMsg p (periodEnd p));
        u \<leftarrow> updateReportStatus env report cond;
        (case u of
           Inl e \<Rightarrow> State_Monad.return (Some e)
         | Inr report' \<Rightarrow> do { enqueueReportAfter report' waitTime; State_Monad.return None })
      })"

section \<open>Data of the dependencies\<close>

text \<open>
  The slices of the names of the data sources without any data, with data that begins too late and with data that ends
  too early, and the heap of their arrays. A name without data is appended to the second slice and the
  result stored in the first.
\<close>

record unmet =
  unmet_heap :: arrays
  unstarted :: slice
  unmetStart :: slice
  unmetEnd :: slice

definition no_unmet :: unmet where
  "no_unmet = \<lparr>unmet_heap = empty_heap, unstarted = nil_slice, unmetStart = nil_slice, unmetEnd = nil_slice\<rparr>"

definition startUncovered :: "reportPeriod \<Rightarrow> PrometheusMetricsImportStatus \<Rightarrow> bool" where
  "startUncovered p st = (case pis_ImportDataStartTime st of None \<Rightarrow> True | Some t \<Rightarrow> periodStart p < t)"

definition endUncovered :: "reportPeriod \<Rightarrow> PrometheusMetricsImportStatus \<Rightarrow> bool" where
  "endUncovered p st = (case pis_ImportDataEndTime st of None \<Rightarrow> True | Some t \<Rightarrow> periodEnd p > t)"

definition checkDataSource ::
  "(nat \<Rightarrow> nat \<Rightarrow> nat) \<Rightarrow> reportPeriod \<Rightarrow> unmet \<Rightarrow> ReportDataSource \<Rightarrow> unmet \<times> bool" where
  "checkDataSource grow p u ds =
     (if dspec_PrometheusMetricsImporter (ds_Spec ds) = None then (u, False)
      else
        (case dstat_PrometheusMetricsImportStatus (ds_Status ds) of
           None \<Rightarrow>
             let (heap, s) = append_slice grow (unmet_heap u) (unmetStart u) (Name ds)
             in (u\<lparr>unmet_heap := heap, unstarted := s\<rparr>, True)
         | Some st \<Rightarrow>
             let u1 = (if startUncovered p st then
                         let (heap, s) = append_slice grow (unmet_heap u) (unmetStart u) (Name ds)
                         in u\<lparr>unmet_heap := heap, unmetStart := s\<rparr> else u);
                 u2 = (if endUncovered p st then
                         let (heap, s) = append_slice grow (unmet_heap u1) (unmetEnd u1) (Name ds)
                         in u1\<lparr>unmet_heap := heap, unmetEnd := s\<rparr> else u1)
             in (u2, startUncovered p st \<or> endUncovered p st)))"

fun checkDataSources ::
  "(nat \<Rightarrow> nat \<Rightarrow> nat) \<Rightarrow> reportPeriod \<Rightarrow> unmet \<Rightarrow> ReportDataSource list \<Rightarrow> unmet op" where
  "checkDataSources grow p u [] = State_Monad.return u"
| "checkDataSources grow p u (ds # dss) =
     (let (u', queue) = checkDataSource grow p u ds in do {
        (if queue then enqueueReportDataSource ds else State_Monad.return ());
        checkDataSources grow p u' dss
      })"

definition subReportUnmet :: "reportPeriod \<Rightarrow> Report \<Rightarrow> bool" where
  "subReportUnmet p subReport =
     (case rstat_LastReportTime (r_Status subReport) of Some t \<Rightarrow> t < periodEnd p | None \<Rightarrow> False)"

definition checkSubReports :: "reportPeriod \<Rightarrow> Report list \<Rightarrow> string list op" where
  "checkSubReports p reports = do {
     for_each (\<lambda>r. if subReportUnmet p r then enqueueReport r else State_Monad.return ()) reports;
     State_Monad.return (map Name (filter (subReportUnmet p) reports))
   }"

text \<open>The message: each slice is sorted in place before its names are joined.\<close>

definition unmetMessages :: "reportPeriod \<Rightarrow> unmet \<Rightarrow> string list" where
  "unmetMessages p u =
     (let h0 = unmet_heap u;
          h1 = (if slice_len (unstarted u) \<noteq> 0 then sort_slice h0 (unstarted u) else h0);
          m1 = (if slice_len (unstarted u) \<noteq> 0 then [''no data: ['' @ join '', '' (elems h1 (unstarted u)) @ '']''] else []);
          h2 = (if slice_len (unmetStart u) \<noteq> 0 then sort_slice h1 (unmetStart u) else h1);
          m2 = (if slice_len (unmetStart u) \<noteq> 0 then [''periodStart '' @ show_time (periodStart p) @
                  '' is before importDataStartTime of ['' @ join '', '' (elems h2 (unmetStart u)) @ '']''] else []);
          h3 = (if slice_len (unmetEnd u) \<noteq> 0 then sort_slice h2 (unmetEnd u) else h2);
          m3 = (if slice_len (unmetEnd u) \<noteq> 0 then [''periodEnd '' @ show_time (periodEnd p) @
                  '' is after importDataEndTime of ['' @ join '', '' (elems h3 (unmetEnd u)) @ '']''] else [])
      in m1 @ m2 @ m3)"

definition anyDataSourceUnmet :: "unmet \<Rightarrow> bool" where
  "anyDataSourceUnmet u \<longleftrightarrow> slice_len (unstarted u) \<noteq> 0 \<or> slice_len (unmetStart u) \<noteq> 0 \<or> slice_len (unmetEnd u) \<noteq> 0"

definition unmetMsg :: "reportPeriod \<Rightarrow> unmet \<Rightarrow> string list \<Rightarrow> string" where
  "unmetMsg p u unmetReports =
     ''The following Report dependencies do not have data currently available for the current reportPeriod being processed:'' @
     (if anyDataSourceUnmet u then '' ReportDataSources: '' @ join '', '' (unmetMessages p u) else []) @
     (if unmetReports \<noteq> [] then '' Reports: lastReportTime not prior to periodEnd '' @ show_time (periodEnd p) @ '': ['' @
        join '', '' (sort unmetReports) @ '']'' else [])"

text \<open>
  Checking the dependencies: \<open>None\<close> when all have their data, otherwise the result of the handler.
  \<open>runningCond\<close> is the condition that the report had when its handling began.
\<close>

definition checkDependencies ::
  "'x client_env_scheme \<Rightarrow> report_lib \<Rightarrow> Report \<Rightarrow> ReportCondition option \<Rightarrow> reportPeriod \<Rightarrow> ReportQueryDependencies \<Rightarrow>
   goerror option option op" where
  "checkDependencies env lib report runningCond p deps = do {
     u \<leftarrow> checkDataSources (lib_grow lib) p no_unmet (deps_ReportDataSources deps);
     unmetReports \<leftarrow> checkSubReports p (deps_Reports deps);
     (if anyDataSourceUnmet u \<or> unmetReports \<noteq> [] then
        let msg = unmetMsg p u unmetReports in
        if (case runningCond of
              Some c \<Rightarrow> cond_Status c = ConditionFalse \<and> cond_Reason c = ReportingPeriodUnmetDependenciesReason \<and>
                cond_Message c = msg
            | None \<Rightarrow> False)
        then State_Monad.return (Some None)
        else do {
          cond \<leftarrow> newRunningCondition env ConditionFalse ReportingPeriodUnmetDependenciesReason msg;
          w \<leftarrow> updateReportStatus env report cond;
          State_Monad.return (Some (case w of Inl e \<Rightarrow> Some e | Inr _ \<Rightarrow> None))
        }
      else State_Monad.return None)
   }"

section \<open>Generating the report\<close>

text \<open>The resources that a query may refer to, read one list after the other.\<close>

definition listResources ::
  "'x lister_env_scheme \<Rightarrow> string \<Rightarrow>
   (goerror + (PrestoTable list \<times> Report list \<times> ReportDataSource list \<times> ReportQuery list)) op" where
  "listResources env namespace =
     bindM (peek (\<lambda>h. lister_PrestoTables env h namespace)) (\<lambda>prestoTables.
       bindM (peek (\<lambda>h. lister_Reports env h namespace)) (\<lambda>reports.
         bindM (peek (\<lambda>h. lister_ReportDataSources env h namespace)) (\<lambda>datasources.
           bindM (peek (\<lambda>h. lister_ReportQueries env h namespace)) (\<lambda>queries.
             liftM (Inr (prestoTables, reports, datasources, queries))))))"

definition renderReport ::
  "'x lister_env_scheme \<Rightarrow> report_lib \<Rightarrow> Report \<Rightarrow> ReportQuery \<Rightarrow> reportPeriod \<Rightarrow> input_value gomap \<Rightarrow> (goerror + string) op" where
  "renderReport env lib report reportQuery p inputs =
     bindM (listResources env (Namespace report)) (\<lambda>(prestoTables, reports, datasources, queries).
       liftM (RenderQuery (lib_stack lib) (lib_engine lib)
         \<lparr>tctx_Namespace = Namespace report, tctx_Query = q_Query reportQuery,
          tctx_RequiredInputs = ConvertInputDefinitionsIntoInputList (q_Inputs reportQuery),
          tctx_Reports = reports, tctx_ReportQueries = queries, tctx_ReportDataSources = datasources,
          tctx_PrestoTables = prestoTables\<rparr>
         \<lparr>tc_Report = \<lparr>ti_ReportingStart = Some (periodStart p), ti_ReportingEnd = Some (periodEnd p), ti_Inputs = inputs\<rparr>\<rparr>))"

definition reportMetric :: "string \<Rightarrow> Report \<Rightarrow> string \<Rightarrow> string" where
  "reportMetric metric report tableName =
     metric @ '' '' @ join '','' [Name report, Namespace report, rspec_QueryName (r_Spec report), tableName]"

text \<open>Running the query, with the metrics around it.\<close>

definition generate :: "'x store_env_scheme \<Rightarrow> Report \<Rightarrow> string \<Rightarrow> string \<Rightarrow> goerror option op" where
  "generate env report tableName query = do {
     emit (CounterInc (reportMetric ''metering_generate_reports_total'' report tableName));
     start \<leftarrow> nowM env;
     err \<leftarrow> GenerateReport env tableName query (rspec_OverwriteExistingData (r_Spec report));
     stop \<leftarrow> nowM env;
     emit (ObserveDuration (reportMetric ''metering_generate_report_duration_seconds'' report tableName) (Sub stop start));
     State_Monad.return err
   }"

definition generationFailed ::
  "'x client_env_scheme \<Rightarrow> Report \<Rightarrow> string \<Rightarrow> goerror \<Rightarrow> goerror option op" where
  "generationFailed env report tableName err = do {
     emit (CounterInc (reportMetric ''metering_generate_reports_failed_total'' report tableName));
     cond \<leftarrow> newRunningCondition env ConditionFalse GenerateReportFailedReason
       (''error occurred while generating report: '' @ Error err);
     u \<leftarrow> updateReportStatus env report cond;
     State_Monad.return
       (case u of
          Inl updateErr \<Rightarrow> Some updateErr
        | Inr _ \<Rightarrow> Some (wrap (\<lambda>m. ''failed to generateReport for Report '' @ Name report @ '', err: '' @ m) err))
   }"

text \<open>What is recorded of a generated report, and when it runs again.\<close>

definition planNextRun ::
  "'x clock_env_scheme \<Rightarrow> cron_lib \<Rightarrow> Report \<Rightarrow> reportPeriod \<Rightarrow> (goerror + Report) op" where
  "planNextRun env cron report p =
     (let report1 = set_LastReportTime (Some (periodEnd p)) report in
      if rspec_ReportingEnd (r_Spec report) = Some (periodEnd p) then do {
        cond \<leftarrow> newRunningCondition env ConditionFalse ReportFinishedReason
          (''Report has finished reporting. Report has reached the configured spec.reportingEnd: '' @ show_time (periodEnd p));
        State_Monad.return (Inr (setCondition cond report1))
      }
      else
        (case rspec_Schedule (r_Spec report) of
           None \<Rightarrow> State_Monad.return (Inr report1)
         | Some schedSpec \<Rightarrow>
             (case getSchedule cron schedSpec of
                Inl e \<Rightarrow> State_Monad.return (Inl e)
              | Inr reportSchedule \<Rightarrow>
                  let nextPeriod = getNextReportPeriod reportSchedule (periodEnd p);
                      report2 = set_NextReportTime (Some (periodEnd nextPeriod)) report1
                  in do {
                    now \<leftarrow> nowM env;
                    cond \<leftarrow> newRunningCondition env ConditionFalse ReportingPeriodWaitingReason (waitMsg p (periodEnd nextPeriod));
                    enqueueReportAfter (setCondition cond report2) (Sub (periodEnd nextPeriod) now);
                    State_Monad.return (Inr (setCondition cond report2))
                  })))"

definition finishReport ::
  "'x client_env_scheme \<Rightarrow> report_lib \<Rightarrow> Report \<Rightarrow> reportPeriod \<Rightarrow> goerror option op" where
  "finishReport env lib report p = do {
     r \<leftarrow> bindM (planNextRun env (lib_cron lib) report p) (\<lambda>planned.
       bindM (updateReportM env planned) (\<lambda>stored. do {
         queueDependentsOfReport env lib stored;
         State_Monad.return (Inr ())
       }));
     State_Monad.return (case r of Inl e \<Rightarrow> Some e | Inr _ \<Rightarrow> None)
   }"

definition runGeneration ::
  "'x client_env_scheme \<Rightarrow> report_lib \<Rightarrow> Report \<Rightarrow> ReportQuery \<Rightarrow> PrestoTable \<Rightarrow> reportPeriod \<Rightarrow> input_value gomap \<Rightarrow>
   string \<Rightarrow> string \<Rightarrow> goerror option op" where
  "runGeneration env lib report reportQuery prestoTable p inputs reason msg = do {
     cond \<leftarrow> newRunningCondition env ConditionTrue reason msg;
     u \<leftarrow> updateReportStatus env report cond;
     (case u of Inl e \<Rightarrow> State_Monad.return (Some e) | Inr report' \<Rightarrow> do {
       q \<leftarrow> renderReport env lib report' reportQuery p inputs;
       (case q of Inl e \<Rightarrow> State_Monad.return (Some e) | Inr query \<Rightarrow>
         (case FullyQualifiedTableName prestoTable of Inl e \<Rightarrow> State_Monad.return (Some e) | Inr tableName \<Rightarrow> do {
            err \<leftarrow> generate env report' tableName query;
            (case err of
               Some e \<Rightarrow> generationFailed env report' tableName e
             | None \<Rightarrow> finishReport env lib report' p)
          }))
     })
   }"

section \<open>The handler\<close>

definition runImmediatelyMsg :: "Report \<Rightarrow> reportPeriod \<Rightarrow> string" where
  "runImmediatelyMsg report p = ''Report '' @ Name report @ '' scheduled: runImmediately=true bypassing reporting period '' @
     show_period p @ ''.''"

definition scheduledMsg :: "Report \<Rightarrow> reportPeriod \<Rightarrow> string" where
  "scheduledMsg report p = ''Report '' @ Name report @ '' scheduled: reached end of reporting period '' @ show_period p @ ''.''"

definition runPeriod ::
  "'x client_env_scheme \<Rightarrow> report_lib \<Rightarrow> go_time \<Rightarrow> Report \<Rightarrow> ReportCondition option \<Rightarrow> ReportQuery \<Rightarrow> PrestoTable \<Rightarrow>
   reportPeriod \<Rightarrow> DependencyResolutionResult \<Rightarrow> goerror option op" where
  "runPeriod env lib now report runningCond reportQuery prestoTable p deps =
     (if rspec_RunImmediately (r_Spec report) then
        runGeneration env lib report reportQuery prestoTable p (res_InputValues deps) RunImmediatelyReason
          (runImmediatelyMsg report p)
      else if periodEnd p > now then waitForPeriod env now report p
      else do {
        c \<leftarrow> checkDependencies env lib report runningCond p (res_Dependencies deps);
        (case c of
           Some result \<Rightarrow> State_Monad.return result
         | None \<Rightarrow> runGeneration env lib report reportQuery prestoTable p (res_InputValues deps) ScheduledReason
             (scheduledMsg report p))
      })"

definition runReport :: "'x client_env_scheme \<Rightarrow> report_lib \<Rightarrow> op_config \<Rightarrow> Report \<Rightarrow> goerror option op" where
  "runReport env lib cfg report =
     (if isReportFinished report then State_Monad.return None
      else do {
        resolver \<leftarrow> peek (listerResolver env lib);
        v \<leftarrow> validateReport report resolver uninitialiedDependendenciesHandler;
        (case v of
           Inl e \<Rightarrow> setReportStatusInvalidReport env report (Error e)
         | Inr (reportQuery, dependencyResult) \<Rightarrow> do {
             now \<leftarrow> nowM env;
             (case getReportPeriod (lib_cron lib) now report of
                Inl e \<Rightarrow> State_Monad.return (Some e)
              | Inr (report', p) \<Rightarrow> do {
                  t \<leftarrow> ensureReportTable env lib cfg report' reportQuery;
                  (case t of
                     Inl e \<Rightarrow> State_Monad.return (Some e)
                   | Inr (report'', prestoTable) \<Rightarrow>
                       runPeriod env lib now report'' (GetReportCondition (r_Status report) ReportRunning) reportQuery
                         prestoTable p dependencyResult)
                })
           })
      })"

definition handleReport :: "'x client_env_scheme \<Rightarrow> report_lib \<Rightarrow> op_config \<Rightarrow> Report \<Rightarrow> goerror option op" where
  "handleReport env lib cfg report =
     withFinalizer (EnableFinalizers cfg) reportNeedsFinalizer (addReportFinalizer env) (runReport env lib cfg) report"

definition syncReport :: "'x client_env_scheme \<Rightarrow> report_lib \<Rightarrow> op_config \<Rightarrow> string \<Rightarrow> goerror option op" where
  "syncReport env lib cfg key =
     (case SplitMetaNamespaceKey key of
        Inl _ \<Rightarrow> State_Monad.return None
      | Inr (namespace, name) \<Rightarrow> do {
          r \<leftarrow> peek (\<lambda>h. lister_Report env h namespace name);
          (case r of
             Inl e \<Rightarrow> State_Monad.return (if IsNotFound e then None else Some e)
           | Inr report \<Rightarrow>
               if DeletionTimestamp report \<noteq> None then do {
                 u \<leftarrow> removeReportFinalizer env report;
                 State_Monad.return (case u of Inl e \<Rightarrow> Some e | Inr _ \<Rightarrow> None)
               }
               else handleReport env lib cfg report)
        })"

section \<open>Report queries\<close>

text \<open>The handler of ReportQueries, \<^verbatim>\<open>reportquery.go\<close>.\<close>

definition queueDependentReportDataSourcesForQuery :: "'x client_env_scheme \<Rightarrow> ReportQuery \<Rightarrow> goerror option op" where
  "queueDependentReportDataSourcesForQuery env query = do {
     r \<leftarrow> call (\<lambda>h. client_ListReportDataSources env h (Namespace query)) (ListReportDataSources (Namespace query));
     (case r of
        Inl e \<Rightarrow> State_Monad.return (Some e)
      | Inr dss \<Rightarrow> do {
          for_each (\<lambda>ds.
            (case dspec_ReportQueryView (ds_Spec ds) of
               Some v \<Rightarrow> if view_QueryName v = Name query then enqueueReportDataSource ds else State_Monad.return ()
             | None \<Rightarrow> State_Monad.return ())) dss;
          State_Monad.return None
        })
   }"

definition handleReportQuery :: "'x client_env_scheme \<Rightarrow> ReportQuery \<Rightarrow> goerror option op" where
  "handleReportQuery env query = queueDependentReportDataSourcesForQuery env query"

definition syncReportQuery :: "'x client_env_scheme \<Rightarrow> string \<Rightarrow> goerror option op" where
  "syncReportQuery env key =
     (case SplitMetaNamespaceKey key of
        Inl _ \<Rightarrow> State_Monad.return None
      | Inr (namespace, name) \<Rightarrow> do {
          r \<leftarrow> peek (\<lambda>h. lister_ReportQuery env h namespace name);
          (case r of
             Inl e \<Rightarrow> State_Monad.return (if IsNotFound e then None else Some e)
           | Inr query \<Rightarrow> handleReportQuery env query)
        })"

section \<open>Events of the combinators\<close>

lemma emits_bindM [emits_intros]:
  "emits m P (\<lambda>_. True) \<Longrightarrow> (\<And>a. emits (f a) P Q) \<Longrightarrow> (\<And>e. Q (Inl e)) \<Longrightarrow> emits (bindM m f) P Q"
  unfolding bindM_def by (intro emits_intros) simp_all

lemma emits_bindM_that:
  assumes "emits m P R" and "\<And>a. R (Inr a) \<Longrightarrow> emits (f a) P Q" and "\<And>e. Q (Inl e)"
  shows "emits (bindM m f) P Q"
  unfolding bindM_def using assms by (intro emits_bind [OF assms(1)] emits_case_sum emits_return) auto

lemma emits_wrapM [emits_intros]: "emits m P (\<lambda>_. True) \<Longrightarrow> (\<And>r. Q r) \<Longrightarrow> emits (wrapM f m) P Q"
  unfolding wrapM_def by (intro emits_intros) simp_all

lemma emits_queueIf [emits_intros]:
  "(\<And>x. emits (enq x) P (\<lambda>_. True)) \<Longrightarrow> emits (queueIf depends enq x) P (\<lambda>_. True)"
  unfolding queueIf_def by (intro emits_intros) simp_all

section \<open>The check of the dependencies\<close>

text \<open>Whether a data source has the data that a period needs.\<close>

definition covers :: "reportPeriod \<Rightarrow> ReportDataSource \<Rightarrow> bool" where
  "covers p ds \<longleftrightarrow>
     (dspec_PrometheusMetricsImporter (ds_Spec ds) \<noteq> None \<longrightarrow>
       (\<exists>st s e. dstat_PrometheusMetricsImportStatus (ds_Status ds) = Some st \<and> pis_ImportDataStartTime st = Some s \<and>
          pis_ImportDataEndTime st = Some e \<and> s \<le> periodStart p \<and> periodEnd p \<le> e))"

definition unmet_ok :: "unmet \<Rightarrow> bool" where
  "unmet_ok u \<longleftrightarrow> slice_ok (unmet_heap u) (unstarted u) \<and> slice_ok (unmet_heap u) (unmetStart u) \<and>
     slice_ok (unmet_heap u) (unmetEnd u)"

lemma no_unmet_ok: "unmet_ok no_unmet" "\<not> anyDataSourceUnmet no_unmet"
  by (simp_all add: unmet_ok_def no_unmet_def slice_ok_nil) (simp add: anyDataSourceUnmet_def no_unmet_def nil_slice_def)

lemma checkDataSource_spec:
  assumes "checkDataSource grow p u ds = (u', queue)"
  shows "queue \<longleftrightarrow> \<not> covers p ds" and "anyDataSourceUnmet u' \<longleftrightarrow> anyDataSourceUnmet u \<or> \<not> covers p ds"
proof -
  have app: "slice_len (snd (append_slice grow heap s x)) = Suc (slice_len s)" for heap s x
    by (simp add: append_slice_def Let_def)
  have cov: "covers p ds \<longleftrightarrow> dspec_PrometheusMetricsImporter (ds_Spec ds) = None \<or>
      (\<exists>st. dstat_PrometheusMetricsImportStatus (ds_Status ds) = Some st \<and> \<not> startUncovered p st \<and> \<not> endUncovered p st)"
    by (fastforce simp: covers_def startUncovered_def endUncovered_def split: option.splits)
  show "queue \<longleftrightarrow> \<not> covers p ds"
    using assms by (auto simp: checkDataSource_def cov split_beta Let_def split: if_splits option.splits)
  show "anyDataSourceUnmet u' \<longleftrightarrow> anyDataSourceUnmet u \<or> \<not> covers p ds"
    using assms app
    by (auto simp: checkDataSource_def cov anyDataSourceUnmet_def split_beta Let_def
        split: if_splits option.splits)
qed

text \<open>The loop queues exactly the data sources that do not cover the period, and notices them.\<close>

lemma run_checkDataSources:
  "\<exists>u'. run_state (checkDataSources grow p u dss) h =
     (u', h @ map (\<lambda>ds. QueueAdd ReportDataSourceQueue (MetaNamespaceKeyFunc ds)) (filter (\<lambda>ds. \<not> covers p ds) dss)) \<and>
     (anyDataSourceUnmet u' \<longleftrightarrow> anyDataSourceUnmet u \<or> (\<exists>ds \<in> set dss. \<not> covers p ds))"
proof (induction dss arbitrary: u h)
  case (Cons ds dss)
  obtain u1 q where c: "checkDataSource grow p u ds = (u1, q)" by fastforce
  show ?case
    using Cons.IH [of u1 "if q then h @ [QueueAdd ReportDataSourceQueue (MetaNamespaceKeyFunc ds)] else h"]
      checkDataSource_spec [OF c] c
    by (cases q) (auto simp: enqueueReportDataSource_def)
qed simp

lemma run_checkSubReports:
  "run_state (checkSubReports p rs) h =
     (map Name (filter (subReportUnmet p) rs),
      h @ map (\<lambda>r. QueueAdd ReportQueue (MetaNamespaceKeyFunc r)) (filter (subReportUnmet p) rs))"
proof -
  have "run_state (for_each (\<lambda>r. if subReportUnmet p r then enqueueReport r else State_Monad.return ()) rs) h =
      ((), h @ map (\<lambda>r. QueueAdd ReportQueue (MetaNamespaceKeyFunc r)) (filter (subReportUnmet p) rs))" for h
    by (induction rs arbitrary: h) (simp_all add: enqueueReport_def)
  then show ?thesis by (simp add: checkSubReports_def)
qed

definition dependenciesMet :: "reportPeriod \<Rightarrow> ReportQueryDependencies \<Rightarrow> bool" where
  "dependenciesMet p deps \<longleftrightarrow>
     (\<forall>ds \<in> set (deps_ReportDataSources deps). covers p ds) \<and> (\<forall>r \<in> set (deps_Reports deps). \<not> subReportUnmet p r)"

lemma checkDependencies_met:
  assumes "run_state (checkDependencies env lib report runningCond p deps) h = (None, h')"
  shows "dependenciesMet p deps \<and> h' = h"
proof -
  obtain u h1 where u: "run_state (checkDataSources (lib_grow lib) p no_unmet (deps_ReportDataSources deps)) h = (u, h1)"
    "anyDataSourceUnmet u \<longleftrightarrow> (\<exists>ds \<in> set (deps_ReportDataSources deps). \<not> covers p ds)"
    "h1 = h @ map (\<lambda>ds. QueueAdd ReportDataSourceQueue (MetaNamespaceKeyFunc ds))
      (filter (\<lambda>ds. \<not> covers p ds) (deps_ReportDataSources deps))"
    using run_checkDataSources [of "lib_grow lib" p no_unmet "deps_ReportDataSources deps" h] no_unmet_ok(2) by blast
  have m: "\<not> anyDataSourceUnmet u" "filter (subReportUnmet p) (deps_Reports deps) = []" and
    h': "h' = h1 @ map (\<lambda>r. QueueAdd ReportQueue (MetaNamespaceKeyFunc r)) (filter (subReportUnmet p) (deps_Reports deps))"
    using assms u(1) by (auto simp: checkDependencies_def run_checkSubReports Let_def newRunningCondition_def
        updateReportStatus_def run_simps split: if_splits)
  have c: "\<forall>ds \<in> set (deps_ReportDataSources deps). covers p ds" using u(2) m(1) by blast
  then have "filter (\<lambda>ds. \<not> covers p ds) (deps_ReportDataSources deps) = []" by (simp add: filter_empty_conv)
  with c m(2) h' u(3) show ?thesis by (auto simp: dependenciesMet_def filter_empty_conv)
qed

text \<open>
  The names of the data sources that have no data yet are lost but one: each is appended to another slice that
  stays empty, and the result replaces the list, so that the message of the report names the last one
  alone, however the run-time system grows arrays.
\<close>

theorem unstarted_names_lost:
  assumes "dss \<noteq> []"
    and "\<forall>ds \<in> set dss. dspec_PrometheusMetricsImporter (ds_Spec ds) \<noteq> None \<and>
      dstat_PrometheusMetricsImportStatus (ds_Status ds) = None"
  shows "unmetMessages p (fst (run_state (checkDataSources grow p no_unmet dss) h)) =
    [''no data: ['' @ Name (last dss) @ '']'']"
proof -
  have len: "slice_len (snd (append_slice grow heap nil_slice x)) = 1" for heap x
    by (simp add: append_slice_def Let_def nil_slice_def)
  have *: "\<exists>heap s. fst (run_state (checkDataSources grow p u ds) h) =
      \<lparr>unmet_heap = heap, unstarted = s, unmetStart = nil_slice, unmetEnd = nil_slice\<rparr> \<and> slice_ok heap nil_slice \<and>
      slice_ok heap s \<and> elems heap s = [Name (last ds)] \<and> slice_len s = 1"
    if "ds \<noteq> []" "set ds \<subseteq> set dss" "unmetStart u = nil_slice" "unmetEnd u = nil_slice" "slice_ok (unmet_heap u) nil_slice"
    for ds u h
    using that
  proof (induction ds arbitrary: u h)
    case (Cons d ds)
    obtain heap s where a: "append_slice grow (unmet_heap u) nil_slice (Name d) = (heap, s)" by fastforce
    note ok = append_slice_elems [OF Cons.prems(5) a]
    have ok': "slice_ok heap nil_slice" by (rule ok(4) [OF Cons.prems(5)])
    have e: "elems heap s = [Name d]" using ok(2) by (simp add: elems_def nil_slice_def)
    have c: "checkDataSource grow p u d = (u\<lparr>unmet_heap := heap, unstarted := s\<rparr>, True)"
      using Cons.prems a assms(2) by (simp add: checkDataSource_def)
    show ?case
    proof (cases "ds = []")
      case True
      then show ?thesis
        using c ok(1,3) ok' e Cons.prems by (cases u) (simp add: enqueueReportDataSource_def nil_slice_def)
    next
      case False
      then show ?thesis
        using c ok' Cons.prems Cons.IH [of "u\<lparr>unmet_heap := heap, unstarted := s\<rparr>"]
        by (simp add: enqueueReportDataSource_def)
    qed
  qed simp
  obtain heap s where "fst (run_state (checkDataSources grow p no_unmet dss) h) =
      \<lparr>unmet_heap = heap, unstarted = s, unmetStart = nil_slice, unmetEnd = nil_slice\<rparr>" "slice_ok heap s"
      "elems heap s = [Name (last dss)]" "slice_len s = 1"
    using * [of dss no_unmet h] assms(1) slice_ok_nil(1) by (auto simp: no_unmet_def)
  then show ?thesis by (simp add: unmetMessages_def nil_slice_def sort_slice_elems)
qed

text \<open>A data source of a metric that nothing was imported for yet.\<close>

definition unstarted_datasource :: "string \<Rightarrow> ReportDataSource" where
  "unstarted_datasource n = (view_datasource n ''q'' ''t'')\<lparr>
     ds_Spec := \<lparr>dspec_PrometheusMetricsImporter = Some \<lparr>pmi_Query = ''up'', pmi_QueryConfig = None, pmi_Storage = None,
         pmi_PrometheusURL = None\<rparr>, dspec_AWSBilling = None, dspec_PrestoTable = None, dspec_ReportQueryView = None\<rparr>\<rparr>"

theorem unstarted_names_lost_witness:
  "unmetMessages \<lparr>periodEnd = Hour, periodStart = 0\<rparr> (fst (run_state (checkDataSources (\<lambda>c n. max n (2 * c))
       \<lparr>periodEnd = Hour, periodStart = 0\<rparr> no_unmet (map unstarted_datasource [''cpu'', ''mem'', ''net''])) [])) =
     [''no data: [net]'']"
proof -
  have d: "map unstarted_datasource [''cpu'', ''mem'', ''net''] \<noteq> []" by simp
  have "\<forall>ds \<in> set (map unstarted_datasource [''cpu'', ''mem'', ''net'']).
      dspec_PrometheusMetricsImporter (ds_Spec ds) \<noteq> None \<and> dstat_PrometheusMetricsImportStatus (ds_Status ds) = None"
    by (simp add: unstarted_datasource_def view_datasource_def)
  from unstarted_names_lost [OF d this] show ?thesis by (simp add: unstarted_datasource_def view_datasource_def)
qed

end
