(* ===== verification/Report_Runs.thy ===== *)
theory Report_Runs
  imports Reports
begin

text \<open>
  What a run of a report does, for every behaviour of the services: a report is generated only when it is
  due, and its status says that it reported on a period only after the query for that period was executed.
\<close>

section \<open>Events of the phases\<close>

definition lastReport :: "Report \<Rightarrow> go_time option" where
  "lastReport r = rstat_LastReportTime (r_Status r)"

text \<open>An event that neither queries Presto nor writes another time of the last report than \<open>L\<close>.\<close>

definition harmless :: "go_time option \<Rightarrow> event \<Rightarrow> bool" where
  "harmless L e \<longleftrightarrow> (\<forall>stmt. e \<noteq> PrestoQuery stmt) \<and> (\<forall>x. e = UpdateReport x \<longrightarrow> lastReport x = L)"

lemma harmless_simps [simp]:
  "harmless L ReadClock" "harmless L (QueueAdd q k)" "harmless L (QueueAddAfter q k d)" "harmless L (Sleep d)"
  "harmless L (CreateHiveTable t)" "harmless L (CreateReportDataSource ds)" "harmless L (GetHiveTable ns n)"
  "harmless L (GetPrestoTable ns n)" "harmless L (ListReportQueries ns)" "harmless L (CounterInc m)"
  "harmless L (ObserveDuration m d)" "harmless L (UpdateReport x) = (lastReport x = L)"
  by (simp_all add: harmless_def)

text \<open>What the API server answers to an update is what it was given, up to its own metadata.\<close>

definition answersStored :: "'x client_env_scheme \<Rightarrow> bool" where
  "answersStored env \<longleftrightarrow>
     (\<forall>h x y. client_UpdateReport env h x = Inr y \<longrightarrow> r_Spec y = r_Spec x \<and> r_Status y = r_Status x)"

lemma lastReport_setCondition [simp]: "lastReport (setCondition cond r) = lastReport r"
  by (simp add: lastReport_def setCondition_def SetReportCondition_def Let_def)

lemma r_Spec_setCondition [simp]: "r_Spec (setCondition cond r) = r_Spec r"
  by (simp add: setCondition_def)

lemma lastReport_TableRef [simp]:
  "lastReport (r\<lparr>r_Status := (r_Status r)\<lparr>rstat_TableRef := t\<rparr>\<rparr>) = lastReport r"
  by (simp add: lastReport_def)

lemma emits_newRunningCondition [emits_intros]:
  "P ReadClock \<Longrightarrow> (\<And>c. Q c) \<Longrightarrow> emits (newRunningCondition env status reason msg) P Q"
  unfolding newRunningCondition_def by (intro emits_intros) simp_all

lemma emits_updateReportM [emits_intros]:
  "P (UpdateReport r) \<Longrightarrow> (\<And>x. Q x) \<Longrightarrow> emits (updateReportM env r) P Q"
  unfolding updateReportM_def by (rule emits_call) simp_all

lemma emits_updateReportStatus [emits_intros]:
  "P (UpdateReport (setCondition cond r)) \<Longrightarrow> (\<And>x. Q x) \<Longrightarrow> emits (updateReportStatus env r cond) P Q"
  unfolding updateReportStatus_def by (rule emits_updateReportM)

lemma emits_enqueue [emits_intros]:
  "P (QueueAdd ReportQueue (MetaNamespaceKeyFunc r)) \<Longrightarrow> Q () \<Longrightarrow> emits (enqueueReport r) P Q"
  "P (QueueAdd ReportQueryQueue (MetaNamespaceKeyFunc q)) \<Longrightarrow> Q () \<Longrightarrow> emits (enqueueReportQuery q) P Q"
  "P (QueueAdd ReportDataSourceQueue (MetaNamespaceKeyFunc ds)) \<Longrightarrow> Q () \<Longrightarrow> emits (enqueueReportDataSource ds) P Q"
  "P (QueueAddAfter ReportQueue (MetaNamespaceKeyFunc r) d) \<Longrightarrow> Q () \<Longrightarrow> emits (enqueueReportAfter r d) P Q"
  by (simp_all add: enqueue_defs emits_emit)

lemma emits_queueDependentsOfReport [emits_intros]:
  assumes "\<And>q k. P (QueueAdd q k)" and "\<And>ns. P (ListReportQueries ns)" and "Q ()"
  shows "emits (queueDependentsOfReport env lib r) P Q"
  unfolding queueDependentsOfReport_def queueDependentReportQueriesForReport_def queueDependentReportsForReport_def
  using assms by (intro emits_intros) simp_all

lemma emits_ValidateQueryDependencies [emits_intros]:
  "(\<And>q k. P (QueueAdd q k)) \<Longrightarrow> (\<And>r. Q r) \<Longrightarrow>
   emits (ValidateQueryDependencies deps uninitialiedDependendenciesHandler) P Q"
  unfolding ValidateQueryDependencies_def uninitialiedDependendenciesHandler_def Let_def option.case
  by (intro emits_intros) simp_all

lemma emits_validateReport:
  "emits (validateReport report resolver uninitialiedDependendenciesHandler) (harmless L) (\<lambda>r. \<forall>q res. r = Inr (q, res) \<longrightarrow>
     GetReportQueryForReport report (GetReportQuery resolver) = Inr q \<and>
     ResolveDependencies resolver (Namespace q) (q_Inputs q) (rspec_Inputs (r_Spec report)) = Inr res)"
  unfolding validateReport_def Let_def by (intro emits_intros) (auto split: option.splits)

lemma emits_getHiveStorage [emits_intros]: "(\<And>r. Q r) \<Longrightarrow> emits (getHiveStorage env ref ns) P Q"
  unfolding getHiveStorage_def by (intro emits_intros) simp_all

lemma emits_newReportTable:
  assumes "answersStored env"
  shows "emits (newReportTable env lib cfg report reportQuery) (harmless (lastReport report))
    (\<lambda>r. \<forall>x t. r = Inr (x, t) \<longrightarrow> r_Spec x = r_Spec report \<and> lastReport x = lastReport report)"
proof -
  have storage: "emits (reportStorage env report) (harmless (lastReport report)) (\<lambda>_. True)"
    unfolding reportStorage_def by (intro emits_intros) simp_all
  have create: "emits (createReportTable env cfg report params) (harmless (lastReport report)) (\<lambda>_. True)" for params
    unfolding createReportTable_def createHiveTableCR_def waitForHiveTable_def waitForPrestoTable_def hiveTableCreated_def
      prestoTableCreated_def Let_def
    by (intro emits_intros) simp_all
  have ds: "emits (createReportDataSource env report t) (harmless (lastReport report)) (\<lambda>_. True)" for t
    unfolding createReportDataSource_def Let_def by (intro emits_intros) simp_all
  have upd: "emits (updateReportM env r) (harmless (lastReport report))
      (\<lambda>x. \<forall>y. x = Inr y \<longrightarrow> r_Spec y = r_Spec r \<and> lastReport y = lastReport r)" if "lastReport r = lastReport report" for r
    unfolding updateReportM_def using assms that
    by (intro emits_call) (auto simp: answersStored_def lastReport_def)
  show ?thesis
    unfolding newReportTable_def
    by (intro emits_bindM storage create ds emits_case_prod emits_wrapM emits_return emits_bindM_that [OF upd])
      (auto intro!: emits_intros)
qed

lemma emits_ensureReportTable:
  assumes "answersStored env"
  shows "emits (ensureReportTable env lib cfg report reportQuery) (harmless (lastReport report))
    (\<lambda>r. \<forall>x t. r = Inr (x, t) \<longrightarrow> r_Spec x = r_Spec report \<and> lastReport x = lastReport report)"
proof -
  have "emits (existingReportTable env report) (harmless (lastReport report))
      (\<lambda>r. \<forall>x t. r = Inr (x, t) \<longrightarrow> r_Spec x = r_Spec report \<and> lastReport x = lastReport report)"
    unfolding existingReportTable_def by (intro emits_intros) (auto simp: bindR_eq_Inr)
  then show ?thesis
    unfolding ensureReportTable_def by (intro emits_if emits_newReportTable [OF assms])
qed

lemma emits_waitForPeriod: "emits (waitForPeriod env now report p) (harmless (lastReport report)) (\<lambda>_. True)"
  unfolding waitForPeriod_def Let_def by (intro emits_intros) simp_all

lemma emits_checkDataSources [emits_intros]:
  "(\<And>q k. P (QueueAdd q k)) \<Longrightarrow> emits (checkDataSources grow p u dss) P (\<lambda>_. True)"
  by (induction dss arbitrary: u) (auto intro!: emits_intros)

lemma emits_checkDependencies:
  "emits (checkDependencies env lib report runningCond p deps) (harmless (lastReport report)) (\<lambda>_. True)"
  unfolding checkDependencies_def checkSubReports_def Let_def by (intro emits_intros) simp_all

section \<open>The generation\<close>

text \<open>What \<^verbatim>\<open>GenerateReport\<close> sends; without an error the INSERT is the last statement and was executed.\<close>

lemma run_GenerateReport:
  "\<exists>err pre post. run_state (GenerateReport env tableName query overwrite) h = (err, h @ pre @ post) \<and>
     set pre \<subseteq> {PrestoQuery (''DELETE FROM '' @ tableName)} \<and>
     (post = [] \<or> post = [PrestoQuery (FormatInsertQuery tableName query)]) \<and>
     (err = None \<longrightarrow> post \<noteq> [] \<and> executed (presto_Query env (h @ pre) (FormatInsertQuery tableName query)))"
proof (cases "tableName = []")
  case True
  then show ?thesis by (simp add: GenerateReport_def)
next
  case False
  define del where "del = (if overwrite then [PrestoQuery (''DELETE FROM '' @ tableName)] else [])"
  define ins where "ins = (if overwrite \<and> \<not> isOK (presto_Query env h (''DELETE FROM '' @ tableName)) then []
    else [PrestoQuery (FormatInsertQuery tableName query)])"
  have "\<exists>err. run_state (GenerateReport env tableName query overwrite) h = (err, h @ del @ ins) \<and>
      (err = None \<longrightarrow> ins \<noteq> [] \<and> executed (presto_Query env (h @ del) (FormatInsertQuery tableName query)))"
    using False unfolding del_def ins_def
    by (cases overwrite)
      (auto simp: GenerateReport_def presto_op_defs run_simps executed_def isOK_iff split: sum.splits option.splits)
  moreover have "set del \<subseteq> {PrestoQuery (''DELETE FROM '' @ tableName)}"
    "ins = [] \<or> ins = [PrestoQuery (FormatInsertQuery tableName query)]"
    by (auto simp: del_def ins_def)
  ultimately show ?thesis by blast
qed

text \<open>The writes of a generation that failed keep the time of the last report.\<close>

lemma emits_generationFailed:
  "emits (generationFailed env report tableName e) (harmless (lastReport report)) (\<lambda>_. True)"
  unfolding generationFailed_def by (intro emits_intros) simp_all

lemma lastReport_set [simp]: "lastReport (set_LastReportTime t r) = t" "lastReport (set_NextReportTime t r) = lastReport r"
  by (simp_all add: lastReport_def set_LastReportTime_def set_NextReportTime_def)

lemma emits_finishReport: "emits (finishReport env lib report p) (harmless (Some (periodEnd p))) (\<lambda>_. True)"
proof -
  have plan: "emits (planNextRun env cron report p) (harmless (Some (periodEnd p)))
      (\<lambda>r. \<forall>x. r = Inr x \<longrightarrow> lastReport x = Some (periodEnd p))" for cron
    unfolding planNextRun_def Let_def by (intro emits_intros) simp_all
  show ?thesis
    unfolding finishReport_def
    by (intro emits_bind_any emits_return emits_bindM_that [OF plan] emits_bindM emits_updateReportM
        emits_queueDependentsOfReport) auto
qed

text \<open>The times of the last report that events write.\<close>

definition recorded :: "event list \<Rightarrow> go_time option set" where
  "recorded es = {lastReport x |x. UpdateReport x \<in> set es}"

lemma recorded_simps [simp]:
  "recorded [] = {}" "recorded (es @ es') = recorded es \<union> recorded es'"
  "recorded (UpdateReport x # es) = insert (lastReport x) (recorded es)"
  "recorded (PrestoQuery s # es) = recorded es" "recorded (ReadClock # es) = recorded es"
  "recorded (CounterInc m # es) = recorded es" "recorded (ObserveDuration m d # es) = recorded es"
  by (auto simp: recorded_def)

lemma recorded_harmless: "\<forall>e \<in> set es. harmless L e \<Longrightarrow> recorded es \<subseteq> {L}"
  by (auto simp: recorded_def harmless_def)

lemma run_newRunningCondition [run_simps]:
  "run_state (newRunningCondition env status reason msg) h =
     (NewReportCondition (metav1_Now env h) ReportRunning status reason msg, h @ [ReadClock])"
  by (simp add: newRunningCondition_def)

lemma run_renderReport: "\<exists>r. run_state (renderReport env lib report q p inputs) h = (r, h)"
proof -
  have "emits (renderReport env lib report q p inputs) (\<lambda>_. False) (\<lambda>_. True)"
    unfolding renderReport_def listResources_def by (intro emits_intros) simp_all
  then show ?thesis by (fastforce simp: emits_def)
qed

text \<open>A generation ends after setting the condition, or goes on to run the query.\<close>

lemma runGeneration_cases:
  assumes "run_state (runGeneration env lib report reportQuery prestoTable p inputs reason msg) h = (err, h')"
  obtains upd where "lastReport upd = lastReport report" "h' = h @ [ReadClock, UpdateReport upd]"
  | upd report' tableName query where "lastReport upd = lastReport report"
      "client_UpdateReport env (h @ [ReadClock]) upd = Inr report'"
      "run_state (State_Monad.bind (generate env report' tableName query) (\<lambda>err. case err of
          Some e \<Rightarrow> generationFailed env report' tableName e | None \<Rightarrow> finishReport env lib report' p))
        (h @ [ReadClock, UpdateReport upd]) = (err, h')"
proof -
  let ?upd = "setCondition (NewReportCondition (metav1_Now env h) ReportRunning ConditionTrue reason msg) report"
  let ?h1 = "h @ [ReadClock, UpdateReport ?upd]"
  note run = assms [unfolded runGeneration_def updateReportStatus_def, simplified run_simps State_Monad.run_state_bind, simplified]
  show thesis
  proof (cases "client_UpdateReport env (h @ [ReadClock]) ?upd")
    case (Inl e)
    then show thesis using run by (intro that(1) [of ?upd]) simp_all
  next
    case (Inr report')
    obtain q where q: "run_state (renderReport env lib report' reportQuery p inputs) ?h1 = (q, ?h1)"
      using run_renderReport [of env lib report' reportQuery p inputs ?h1] by blast
    consider "h' = ?h1" | query tableName where "q = Inr query" "FullyQualifiedTableName prestoTable = Inr tableName"
      using run Inr q by (cases q; cases "FullyQualifiedTableName prestoTable") simp_all
    then show thesis
    proof cases
      case 1
      then show thesis by (intro that(1) [of ?upd]) simp_all
    next
      case (2 query tableName)
      then show thesis using run Inr q by (intro that(2) [of ?upd report' tableName query]) simp_all
    qed
  qed
qed

text \<open>
  The writes of a generation keep the time of the last report, or they follow an INSERT that was executed, and then those
  after it record the end of the period.
\<close>

lemma runGeneration_events:
  assumes ans: "answersStored env"
    and run: "run_state (runGeneration env lib report reportQuery prestoTable p inputs reason msg) h = (err, h')"
  shows "(\<exists>es. h' = h @ es \<and> recorded es \<subseteq> {lastReport report}) \<or>
    (\<exists>pre tableName query post. h' = h @ pre @ PrestoQuery (FormatInsertQuery tableName query) # post \<and>
      recorded pre \<subseteq> {lastReport report} \<and> recorded post \<subseteq> {Some (periodEnd p)} \<and>
      executed (presto_Query env (h @ pre) (FormatInsertQuery tableName query)))"
  using run
proof (cases rule: runGeneration_cases)
  case (1 upd)
  then show ?thesis by (intro disjI1 exI [of _ "[ReadClock, UpdateReport upd]"]) simp
next
  case (2 upd report' tableName query)
  let ?h1 = "h @ [ReadClock, UpdateReport upd]"
  have last: "lastReport report' = lastReport report"
    using ans 2(1,2) unfolding answersStored_def lastReport_def by metis
    let ?c = "CounterInc (reportMetric ''metering_generate_reports_total'' report' tableName)"
    let ?g = "?h1 @ [?c, ReadClock]" and ?ow = "rspec_OverwriteExistingData (r_Spec report')"
    obtain gerr dels ins where g: "run_state (GenerateReport env tableName query ?ow) ?g = (gerr, ?g @ dels @ ins)"
      "set dels \<subseteq> {PrestoQuery (''DELETE FROM '' @ tableName)}"
      "ins = [] \<or> ins = [PrestoQuery (FormatInsertQuery tableName query)]"
      "gerr = None \<longrightarrow> ins \<noteq> [] \<and> executed (presto_Query env (?g @ dels) (FormatInsertQuery tableName query))"
      using run_GenerateReport [of env tableName query ?ow ?g] by blast
    obtain o1 where gen: "run_state (generate env report' tableName query) ?h1 = (gerr, ?g @ dels @ ins @ [ReadClock, o1])"
      and o1: "\<exists>m d. o1 = ObserveDuration m d"
      using g(1) by (auto simp: generate_def)
    have rd: "recorded dels = {}" using g(2) by (auto simp: recorded_def)
    show ?thesis
    proof (cases gerr)
      case None
      obtain es where es: "h' = (?g @ dels @ ins @ [ReadClock, o1]) @ es" "\<forall>e \<in> set es. harmless (Some (periodEnd p)) e"
        using 2(3) gen None emits_finishReport [of env lib report' p] by (auto elim: emitsD)
      have "ins = [PrestoQuery (FormatInsertQuery tableName query)]" using g(3,4) None by blast
      then show ?thesis
        using 2(1) es g(4) None o1 rd recorded_harmless [OF es(2)]
        by (intro disjI2 exI [of _ "[ReadClock, UpdateReport upd, ?c, ReadClock] @ dels"]
            exI [of _ tableName] exI [of _ query] exI [of _ "[ReadClock, o1] @ es"]) auto
    next
      case (Some e)
      obtain es where es: "h' = (?g @ dels @ ins @ [ReadClock, o1]) @ es" "\<forall>e \<in> set es. harmless (lastReport report') e"
        using 2(3) gen Some emits_generationFailed [of env report' tableName e] by (auto elim: emitsD)
      moreover have "recorded ins = {}" using g(3) by auto
      ultimately show ?thesis
        using 2(1) o1 rd recorded_harmless [OF es(2)] last
        by (intro disjI1 exI [of _ "[ReadClock, UpdateReport upd, ?c, ReadClock] @
          dels @ ins @ [ReadClock, o1] @ es"]) auto
    qed
qed

section \<open>Runs\<close>

text \<open>When a report may be generated.\<close>

definition due :: "ReportSpec \<Rightarrow> go_time \<Rightarrow> reportPeriod \<Rightarrow> ReportQueryDependencies \<Rightarrow> bool" where
  "due spec now p deps \<longleftrightarrow> rspec_RunImmediately spec \<or> (periodEnd p \<le> now \<and> dependenciesMet p deps)"

lemma getReportPeriod_keeps:
  "getReportPeriod cron now report = Inr (report', p) \<Longrightarrow> r_Spec report' = r_Spec report \<and> lastReport report' = lastReport report"
  by (auto simp: getReportPeriod_def basePeriod_def bindR_eq_Inr set_NextReportTime_def lastReport_def Let_def
      split: option.splits if_splits)

lemma runPeriod_cases:
  assumes "run_state (runPeriod env lib now report cond q t p res) h = (err, h')"
  obtains es where "h' = h @ es" "\<forall>e \<in> set es. harmless (lastReport report) e"
  | reason msg where "due (r_Spec report) now p (res_Dependencies res)"
      "run_state (runGeneration env lib report q t p (res_InputValues res) reason msg) h = (err, h')"
proof (cases "rspec_RunImmediately (r_Spec report)")
  case True
  then show thesis using assms by (intro that(2)) (simp_all add: runPeriod_def due_def)
next
  case imm: False
  show thesis
  proof (cases "periodEnd p > now")
    case True
    then have "run_state (waitForPeriod env now report p) h = (err, h')" using assms imm by (simp add: runPeriod_def)
    with emits_waitForPeriod show thesis by (rule emitsD) (rule that(1))
  next
    case False
    obtain c h1 where c: "run_state (checkDependencies env lib report cond p (res_Dependencies res)) h = (c, h1)" by fastforce
    show thesis
    proof (cases c)
      case None
      then show thesis
        using assms imm False c checkDependencies_met [OF c [unfolded None]]
        by (intro that(2)) (simp_all add: runPeriod_def due_def)
    next
      case (Some r)
      then have "h' = h1" using assms imm False c by (simp add: runPeriod_def)
      with emitsD [OF emits_checkDependencies c] show thesis by (metis that(1))
    qed
  qed
qed

lemma runReport_cases:
  assumes ans: "answersStored env"
    and run: "run_state (runReport env lib cfg report) h = (err, h')"
  shows "(\<exists>es. h' = h @ es \<and> (\<forall>e \<in> set es. harmless (lastReport report) e)) \<or>
    (\<exists>es1 q res g report1 p report2 t reason msg.
      GetReportQueryForReport report (lister_ReportQuery env h) = Inr q \<and>
      ResolveDependencies (listerResolver env lib h) (Namespace q) (q_Inputs q) (rspec_Inputs (r_Spec report)) = Inr res \<and>
      getReportPeriod (lib_cron lib) (clock_Now env g) report = Inr (report1, p) \<and>
      due (r_Spec report) (clock_Now env g) p (res_Dependencies res) \<and>
      (\<forall>e \<in> set es1. harmless (lastReport report) e) \<and> lastReport report2 = lastReport report \<and>
      run_state (runGeneration env lib report2 q t p (res_InputValues res) reason msg) (h @ es1) = (err, h'))"
    (is "?quiet \<or> ?gen")
proof (cases "isReportFinished report")
  case True
  then show ?thesis using run by (intro disjI1 exI [of _ "[]"]) (simp add: runReport_def)
next
  case False
  obtain v h1 where v: "run_state (validateReport report (listerResolver env lib h) uninitialiedDependendenciesHandler) h = (v, h1)"
    by fastforce
  obtain es1 where 1: "h1 = h @ es1" "\<forall>e \<in> set es1. harmless (lastReport report) e" "\<forall>q res. v = Inr (q, res) \<longrightarrow>
      GetReportQueryForReport report (lister_ReportQuery env h) = Inr q \<and>
      ResolveDependencies (listerResolver env lib h) (Namespace q) (q_Inputs q) (rspec_Inputs (r_Spec report)) = Inr res"
    using emitsD [OF emits_validateReport v, of "lastReport report"] by (auto simp: listerResolver_def)
  show ?thesis
  proof (cases v)
    case (Inl e)
    then have "run_state (setReportStatusInvalidReport env report (Error e)) h1 = (err, h')"
      using run False v by (simp add: runReport_def)
    moreover have "emits (setReportStatusInvalidReport env report (Error e)) (harmless (lastReport report)) (\<lambda>_. True)"
      unfolding setReportStatusInvalidReport_def by (intro emits_intros) simp_all
    ultimately obtain es where "h' = h1 @ es" "\<forall>e \<in> set es. harmless (lastReport report) e" by (elim emitsD) blast
    then show ?thesis using 1 by (intro disjI1 exI [of _ "es1 @ es"]) auto
  next
    case (Inr qr)
    obtain q res where qr: "qr = (q, res)" by fastforce
    let ?now = "clock_Now env h1"
    show ?thesis
    proof (cases "getReportPeriod (lib_cron lib) ?now report")
      case (Inl e)
      then have "h' = h @ (es1 @ [ReadClock])" using run False v Inr qr 1(1) by (simp add: runReport_def)
      then show ?thesis using 1(2) by (intro disjI1 exI [of _ "es1 @ [ReadClock]"]) auto
    next
      case period: (Inr rp)
      obtain report1 p where rp: "rp = (report1, p)" by fastforce
      note kept = getReportPeriod_keeps [OF period [unfolded rp]]
      obtain t h2 where t: "run_state (ensureReportTable env lib cfg report1 q) (h1 @ [ReadClock]) = (t, h2)" by fastforce
      obtain es2 where 2: "h2 = h @ (es1 @ ReadClock # es2)" "\<forall>e \<in> set es2. harmless (lastReport report) e"
        "\<forall>x pt. t = Inr (x, pt) \<longrightarrow> r_Spec x = r_Spec report \<and> lastReport x = lastReport report"
        using emitsD [OF emits_ensureReportTable [OF ans] t] kept 1(1) by auto
      have harm: "\<forall>e \<in> set (es1 @ ReadClock # es2). harmless (lastReport report) e" using 1(2) 2(2) by auto
      show ?thesis
      proof (cases t)
        case (Inl e)
        then have "h' = h2" using run False v Inr qr period rp t by (simp add: runReport_def)
        then show ?thesis using harm 2(1) by blast
      next
        case table: (Inr xt)
        obtain x pt where xt: "xt = (x, pt)" by fastforce
        have x: "r_Spec x = r_Spec report" "lastReport x = lastReport report" using 2(3) table xt by auto
        have "run_state (runPeriod env lib ?now x (GetReportCondition (r_Status report) ReportRunning) q pt p res) h2 = (err, h')"
          using run False v Inr qr period rp t table xt by (simp add: runReport_def)
        then show ?thesis
        proof (cases rule: runPeriod_cases)
          case (1 es)
          then show ?thesis using harm 2(1) x(2) by (intro disjI1 exI [of _ "(es1 @ ReadClock # es2) @ es"]) auto
        next
          case gen: (2 reason msg)
          have "?gen"
            using 1(3) Inr qr period rp gen harm x 2(1)
            by (intro exI [of _ "es1 @ ReadClock # es2"] exI [of _ q] exI [of _ res] exI [of _ h1] exI [of _ report1]
                exI [of _ p] exI [of _ x] exI [of _ pt] exI [of _ reason] exI [of _ msg]) auto
          then show ?thesis ..
        qed
      qed
    qed
  qed
qed

section \<open>Properties\<close>



text \<open>A report that runs once over the first hour, with a query without inputs and an existing table.\<close>

definition once_report :: Report where
  "once_report = \<lparr>Name = ''once'', Namespace = ''ns'', Labels = [], Annotations = [], Finalizers = [],
     DeletionTimestamp = None, ResourceVersion = ''1'', OwnerReferences = [],
     r_Spec = \<lparr>rspec_QueryName = ''pods'', rspec_Schedule = None, rspec_ReportingStart = Some 0,
       rspec_ReportingEnd = Some Hour, rspec_OverwriteExistingData = True, rspec_RunImmediately = False,
       rspec_Inputs = [], rspec_Output = None\<rparr>,
     r_Status = \<lparr>rstat_Conditions = [], rstat_LastReportTime = None, rstat_NextReportTime = None, rstat_TableRef = ''t''\<rparr>\<rparr>"

definition once_table :: PrestoTable where
  "once_table = (sample_presto_table True None)\<lparr>Name := ''t'',
     pt_Status := empty_PrestoTableStatus\<lparr>ptst_Catalog := ''hive'', ptst_Schema := ''m'', ptst_TableName := ''t''\<rparr>\<rparr>"

definition once_env :: env where
  "once_env = quiet_env\<lparr>clock_Now := \<lambda>_. 2 * Hour, lister_ReportQuery := \<lambda>_ _ n. Inr (meta_query n []),
     lister_PrestoTable := \<lambda>_ _ _. Inr once_table,
     presto_Query := \<lambda>_ _. Inr \<lparr>rows_Columns = Inr [], rows_Scan = [], rows_Err = None\<rparr>\<rparr>"

definition once_lib :: report_lib where
  "once_lib = \<lparr>lib_cron = hourly_cron,
     lib_engine = \<lparr>te_Parse = \<lambda>_. None, te_Execute = \<lambda>_ text _. Inr text, te_ParseRFC3339 = \<lambda>s. Inl (Err s)\<rparr>,
     lib_stack = 10, lib_parseTime = \<lambda>s. Inl (Err s), lib_grow = \<lambda>c n. max n (2 * c)\<rparr>"

definition once_events :: "event list" where
  "once_events = snd (run_state (runReport once_env once_lib \<lparr>EnableFinalizers = False\<rparr> once_report) [])"

definition reported_at :: "go_time \<Rightarrow> event \<Rightarrow> bool" where
  "reported_at t e = (case e of UpdateReport x \<Rightarrow> lastReport x = Some t | _ \<Rightarrow> False)"

definition queried :: "string \<Rightarrow> event \<Rightarrow> bool" where
  "queried stmt e = (case e of PrestoQuery s \<Rightarrow> s = stmt | _ \<Rightarrow> False)"

lemma queried_iff: "queried stmt e \<longleftrightarrow> e = PrestoQuery stmt"
  by (cases e) (auto simp: queried_def)

lemma reported_at_iff: "reported_at t e \<longleftrightarrow> (\<exists>x. e = UpdateReport x \<and> lastReport x = Some t)"
  by (cases e) (auto simp: reported_at_def)

lemma once_run:
  "run_state (runReport once_env once_lib \<lparr>EnableFinalizers = False\<rparr> once_report) [] = (None, [] @ once_events)"
proof -
  have "fst (run_state (runReport once_env once_lib \<lparr>EnableFinalizers = False\<rparr> once_report) []) = None" by code_simp
  then show ?thesis by (simp add: once_events_def prod_eq_iff)
qed

lemma once_queried: "PrestoQuery ''INSERT INTO hive.m.t SELECT 1'' \<in> set once_events"
proof -
  have "list_ex (queried ''INSERT INTO hive.m.t SELECT 1'') once_events" by code_simp
  then show ?thesis by (simp add: list_ex_iff queried_iff)
qed

lemma once_recorded: "\<exists>x. UpdateReport x \<in> set once_events \<and> lastReport x = Some Hour"
proof -
  have "list_ex (reported_at Hour) once_events" by code_simp
  then show ?thesis by (auto simp: list_ex_iff reported_at_iff)
qed

lemma once_stored: "answersStored once_env"
  by (simp add: answersStored_def once_env_def quiet_env_def)



section \<open>The next run\<close>



text \<open>
  a report that is already marked invalid keeps its old message: when it is found invalid for another reason the status is
  written again with the conditions unchanged.
\<close>

lemma stale_invalid_message:
  assumes "GetReportCondition (r_Status report) ReportRunning = Some c" and "cond_Status c = ConditionFalse"
    and "cond_Reason c = InvalidReportReason" and "cond_Message c \<noteq> msg"
  shows "\<exists>err. run_state (setReportStatusInvalidReport env report msg) h = (err, h @ [ReadClock, UpdateReport report])"
  using assms by (auto simp: setReportStatusInvalidReport_def newRunningCondition_def updateReportStatus_def setCondition_def
      SetReportCondition_def NewReportCondition_def run_simps)

theorem stale_invalid_message_witness:
  "\<exists>err. run_state (setReportStatusInvalidReport once_env
       (once_report\<lparr>r_Status := (r_Status once_report)\<lparr>rstat_Conditions :=
          [NewReportCondition (0, 0) ReportRunning ConditionFalse InvalidReportReason ''old'']\<rparr>\<rparr>) ''new'') [] =
     (err, [] @ [ReadClock, UpdateReport (once_report\<lparr>r_Status := (r_Status once_report)\<lparr>rstat_Conditions :=
          [NewReportCondition (0, 0) ReportRunning ConditionFalse InvalidReportReason ''old'']\<rparr>\<rparr>)])"
  by (rule stale_invalid_message
      [where c = "NewReportCondition (0, 0) ReportRunning ConditionFalse InvalidReportReason ''old''"])
    (simp_all add: GetReportCondition_def NewReportCondition_def)

end
