(* ===== verification/Workers.thy ===== *)
theory Workers
  imports Reports Presto_Tables
begin

text \<open>
  The worker functions of the kinds of resources: each takes items from its queue and handles them one after the other until the queue is
  shut down. The bounds on retries are those of the code. The worker of data sources shares its importers with other workers and is not
  here.
\<close>

text \<open>
  What \<^verbatim>\<open>Get\<close> answers, in order, is a list: an item, or \<open>None\<close> when the queue is shutting down. At the end of the list the worker is blocked:
  the result is \<open>True\<close>; it is \<open>False\<close> when the worker has ended.
\<close>

fun workerLoop ::
  "'x env_scheme \<Rightarrow> (string \<Rightarrow> goerror option op) \<Rightarrow> queue_name \<Rightarrow> int \<Rightarrow> queue_item option list \<Rightarrow> (goerror + bool) op" where
  "workerLoop env handlerFunc queue maxRequeues [] = State_Monad.return (Inr True)"
| "workerLoop env handlerFunc queue maxRequeues (item # items) = do {
     r \<leftarrow> processResource env handlerFunc queue maxRequeues item;
     (case r of
        Inl e \<Rightarrow> State_Monad.return (Inl e)
      | Inr True \<Rightarrow> workerLoop env handlerFunc queue maxRequeues items
      | Inr False \<Rightarrow> State_Monad.return (Inr False))
   }"

definition runReportWorker where
  "runReportWorker env lib cfg = workerLoop env (syncReport env lib cfg) ReportQueue 5"

definition runReportQueryWorker where
  "runReportQueryWorker env = workerLoop env (syncReportQuery env) ReportQueryQueue 10"

definition runHiveTableWorker where
  "runHiveTableWorker unsorted env cfg = workerLoop env (syncHiveTable unsorted env cfg) HiveTableQueue 10"

definition runPrestoTableWorker where
  "runPrestoTableWorker env cfg = workerLoop env (syncPrestoTable env cfg) PrestoTableQueue 10"

definition runStorageLocationWorker where
  "runStorageLocationWorker env cfg = workerLoop env (syncStorageLocation env cfg) StorageLocationQueue (-1)"

text \<open>A worker whose handler does not panic ends exactly when its queue is shut down.\<close>

definition handled_without_panic :: "(string \<Rightarrow> goerror option op) \<Rightarrow> bool" where
  "handled_without_panic handlerFunc \<longleftrightarrow> (\<forall>key h m. fst (run_state (handlerFunc key) h) \<noteq> Some (GoPanic m))"

lemma runHandler_returns:
  assumes "handled_without_panic handlerFunc"
  shows "fst (run_state (runHandler env handlerFunc obj queue n) h) = Inr ()"
proof (cases obj)
  case (Key key)
  obtain err h' where r: "run_state (handlerFunc key) h = (err, h')" by fastforce
  with assms have "\<forall>m. err \<noteq> Some (GoPanic m)" unfolding handled_without_panic_def by (metis fst_conv)
  with Key r show ?thesis
    by (auto simp: runHandler_def getKeyFromQueueObj_def split: option.split goerror.split prod.split)
qed (simp add: runHandler_def getKeyFromQueueObj_def)

lemma workerLoop_ends:
  assumes "handled_without_panic handlerFunc"
  shows "fst (run_state (workerLoop env handlerFunc queue n items) h) = Inr (None \<notin> set items)"
proof (induction items arbitrary: h)
  case (Cons item items)
  show ?case
  proof (cases item)
    case (Some obj)
    obtain r h' where r: "run_state (runHandler env handlerFunc obj queue n) h = (r, h')" by fastforce
    then have "r = Inr ()" using runHandler_returns [OF assms, of env obj queue n h] by simp
    with Some r Cons.IH show ?thesis by (simp add: processResource_def)
  qed (simp add: processResource_def)
qed simp

end
