(* ===== verification/Http_Writers.thy ===== *)
theory Http_Writers
  imports Effects
begin

text \<open>
  Go's writers as the HTTP API uses them: the response of \<^verbatim>\<open>net/http\<close>, the buffered writer of \<^verbatim>\<open>bufio\<close> and the CSV writer of
  \<^verbatim>\<open>encoding/csv\<close> on top of it, with a reference reader of CSV. A write answers an error or nothing, beside the
  changed writer.
\<close>

section \<open>Responses\<close>

text \<open>
  The headers may be set until the first \<^verbatim>\<open>WriteHeader\<close>, which sends them with the status; later ones are
  superfluous. A \<^verbatim>\<open>Write\<close> sends the status 200 first when none was sent.
\<close>

record response_writer =
  rw_Header :: "string gomap"
  rw_sent :: "(int \<times> string gomap) option"
  rw_body :: string

definition new_response :: response_writer where
  "new_response = \<lparr>rw_Header = [], rw_sent = None, rw_body = []\<rparr>"

definition Header_Set :: "string \<Rightarrow> string \<Rightarrow> response_writer \<Rightarrow> response_writer" where
  "Header_Set k v w = w\<lparr>rw_Header := map_set k v (rw_Header w)\<rparr>"

definition WriteHeader :: "int \<Rightarrow> response_writer \<Rightarrow> response_writer" where
  "WriteHeader code w = (case rw_sent w of Some _ \<Rightarrow> w | None \<Rightarrow> w\<lparr>rw_sent := Some (code, rw_Header w)\<rparr>)"

text \<open>
  The connection is a parameter: from what was sent and what is to be sent, either nothing or the
  number of bytes that still went out and the error.
\<close>

type_synonym connection = "string \<Rightarrow> string \<Rightarrow> (nat \<times> goerror) option"

definition Write :: "connection \<Rightarrow> string \<Rightarrow> response_writer \<Rightarrow> goerror option \<times> response_writer" where
  "Write conn p w =
     (let w = WriteHeader 200 w in
      case conn (rw_body w) p of
        None \<Rightarrow> (None, w\<lparr>rw_body := rw_body w @ p\<rparr>)
      | Some (n, e) \<Rightarrow> (Some e, w\<lparr>rw_body := rw_body w @ take n p\<rparr>))"

definition up :: connection where "up sent p = None"

definition status :: "response_writer \<Rightarrow> int" where
  "status w = (case rw_sent w of Some (code, _) \<Rightarrow> code | None \<Rightarrow> 200)"

lemma WriteHeader_body [simp]: "rw_body (WriteHeader code w) = rw_body w"
  by (simp add: WriteHeader_def split: option.split)

lemma WriteHeader_sent: "rw_sent (WriteHeader code w) \<noteq> None"
  by (simp add: WriteHeader_def split: option.split)

lemma WriteHeader_again [simp]: "rw_sent w \<noteq> None \<Longrightarrow> WriteHeader code w = w"
  by (auto simp: WriteHeader_def)

section \<open>Buffered writers\<close>

text \<open>
  A \<^verbatim>\<open>bufio.Writer\<close> over a writer with the operation \<open>wr\<close>: it passes its buffer on when another byte does not fit, and
  keeps the first error. What is left in the buffer after an error never goes out.
\<close>

type_synonym 'w writes = "string \<Rightarrow> 'w \<Rightarrow> goerror option \<times> 'w"

record 'w bufio =
  bw_buf :: string
  bw_err :: "goerror option"
  bw_out :: 'w

definition defaultBufSize :: nat where "defaultBufSize = 4096"

definition NewWriter :: "'w \<Rightarrow> 'w bufio" where
  "NewWriter w = \<lparr>bw_buf = [], bw_err = None, bw_out = w\<rparr>"

definition bufio_Flush :: "'w writes \<Rightarrow> 'w bufio \<Rightarrow> 'w bufio" where
  "bufio_Flush wr b =
     (if bw_err b \<noteq> None \<or> bw_buf b = [] then b
      else (case wr (bw_buf b) (bw_out b) of
              (None, out) \<Rightarrow> b\<lparr>bw_buf := [], bw_out := out\<rparr>
            | (Some e, out) \<Rightarrow> b\<lparr>bw_err := Some e, bw_out := out\<rparr>))"

definition bufio_WriteByte :: "'w writes \<Rightarrow> char \<Rightarrow> 'w bufio \<Rightarrow> 'w bufio" where
  "bufio_WriteByte wr c b =
     (let b = (if length (bw_buf b) \<ge> defaultBufSize then bufio_Flush wr b else b) in
      if bw_err b \<noteq> None then b else b\<lparr>bw_buf := bw_buf b @ [c]\<rparr>)"

definition bufio_WriteString :: "'w writes \<Rightarrow> string \<Rightarrow> 'w bufio \<Rightarrow> 'w bufio" where
  "bufio_WriteString wr s b = fold (bufio_WriteByte wr) s b"

text \<open>
  Over a connection that is up: the bytes that have left the buffer are full buffers, as long as something more was
  written; the rest is buffered.
\<close>

definition flushed :: "string \<Rightarrow> string" where
  "flushed s = take ((length s - 1) div defaultBufSize * defaultBufSize) s"

definition send :: "string \<Rightarrow> response_writer \<Rightarrow> response_writer" where
  "send s w = (if s = [] then w else (WriteHeader 200 w)\<lparr>rw_body := rw_body w @ s\<rparr>)"

definition buffered :: "response_writer \<Rightarrow> string \<Rightarrow> response_writer bufio" where
  "buffered w s = \<lparr>bw_buf = drop (length (flushed s)) s, bw_err = None, bw_out = send (flushed s) w\<rparr>"

lemma Write_up: "s \<noteq> [] \<Longrightarrow> Write up s w = (None, send s w)"
  by (simp add: Write_def up_def Let_def send_def)

lemma send_send: "send t (send s w) = send (s @ t) w"
  using WriteHeader_sent [of 200 w] by (auto simp: send_def WriteHeader_def split: option.split)

lemma NewWriter_buffered: "NewWriter w = buffered w []"
  by (simp add: NewWriter_def buffered_def flushed_def send_def)

lemma length_flushed: "length (flushed s) = (length s - 1) div defaultBufSize * defaultBufSize"
proof -
  have "(length s - 1) div defaultBufSize * defaultBufSize \<le> length s - 1"
    by (rule div_times_less_eq_dividend)
  then have "(length s - 1) div defaultBufSize * defaultBufSize \<le> length s" by linarith
  then show ?thesis by (simp add: flushed_def)
qed

lemma length_flushed_le [simp]: "length (flushed s) \<le> length s"
  by (simp add: flushed_def)

lemma flushed_rest: "flushed s @ drop (length (flushed s)) s = s"
  by (simp add: flushed_def min_def)

lemma flushed_snoc:
  "flushed (s @ [c]) = (if length s \<noteq> 0 \<and> defaultBufSize dvd length s then s else flushed s)"
proof (cases "length s")
  case (Suc n)
  have "Suc n div 4096 = n div 4096 \<or> (4096::nat) dvd Suc n"
    using div_Suc [of n 4096] by (auto simp: dvd_eq_mod_eq_0)
  moreover have "n div 4096 * 4096 \<le> n" "Suc n div 4096 * 4096 \<le> Suc n"
    by (rule div_times_less_eq_dividend)+
  moreover have "Suc n div 4096 \<noteq> n div 4096" if "(4096::nat) dvd Suc n"
    using div_Suc [of n 4096] that by (simp add: dvd_eq_mod_eq_0)
  ultimately show ?thesis
    using Suc by (auto simp: flushed_def defaultBufSize_def)
qed (simp add: flushed_def)

lemma buffered_full: "length (bw_buf (buffered w s)) \<ge> defaultBufSize \<longleftrightarrow> length s \<noteq> 0 \<and> defaultBufSize dvd length s"
proof (cases "length s")
  case (Suc n)
  have "Suc n - n div 4096 * 4096 = Suc (n mod 4096)" "n mod 4096 < 4096"
    by (simp_all add: Suc_diff_le minus_div_mult_eq_mod)
  moreover have "(4096::nat) dvd Suc n \<longleftrightarrow> n mod 4096 = 4095"
    by (auto simp: dvd_eq_mod_eq_0 mod_Suc)
  ultimately show ?thesis
    using Suc by (auto simp: buffered_def length_flushed defaultBufSize_def)
qed (simp add: buffered_def defaultBufSize_def)

lemma WriteByte_buffered: "bufio_WriteByte (Write up) c (buffered w s) = buffered w (s @ [c])"
proof (cases "length s \<noteq> 0 \<and> defaultBufSize dvd length s")
  case True
  then have "bw_buf (buffered w s) \<noteq> []"
    using buffered_full [of w s] by (auto simp: defaultBufSize_def)
  then show ?thesis
    using True buffered_full [of w s]
    by (simp add: bufio_WriteByte_def bufio_Flush_def Write_up send_send buffered_def flushed_snoc flushed_rest)
next
  case False
  then show ?thesis
    using buffered_full [of w s] by (auto simp: bufio_WriteByte_def buffered_def flushed_snoc)
qed

lemma WriteString_buffered: "bufio_WriteString (Write up) t (buffered w s) = buffered w (s @ t)"
  by (induction t arbitrary: s) (simp_all add: bufio_WriteString_def WriteByte_buffered)

lemma Flush_buffered: "bufio_Flush (Write up) (buffered w s) = \<lparr>bw_buf = [], bw_err = None, bw_out = send s w\<rparr>"
  using flushed_rest [of s]
  by (cases "bw_buf (buffered w s) = []") (auto simp: bufio_Flush_def buffered_def Write_up send_send)

lemma buffered_simps [simp]: "bw_err (buffered w s) = None" "bw_out (buffered w s) = send (flushed s) w"
  by (simp_all add: buffered_def)

section \<open>CSV\<close>

text \<open>The first rune of a field is a space of Unicode, by its encoding.\<close>

definition space_runes :: "nat list list" where
  "space_runes =
     [[9], [10], [11], [12], [13], [32], [0xC2, 0x85], [0xC2, 0xA0], [0xE1, 0x9A, 0x80]] @
     map (\<lambda>b. [0xE2, 0x80, b]) ([0x80..<0x8B] @ [0xA8, 0xA9, 0xAF]) @ [[0xE2, 0x81, 0x9F], [0xE3, 0x80, 0x80]]"

definition starts_with_space :: "string \<Rightarrow> bool" where
  "starts_with_space s \<longleftrightarrow> list_ex (\<lambda>p. prefix p (map of_char s)) space_runes"

definition fieldNeedsQuotes :: "char \<Rightarrow> string \<Rightarrow> bool" where
  "fieldNeedsQuotes comma field \<longleftrightarrow>
     field \<noteq> [] \<and>
     (field = [CHR 0x5C, CHR ''.''] \<or> comma \<in> set field \<or> CHR 0x22 \<in> set field \<or> CHR 0x0D \<in> set field \<or>
      CHR 0x0A \<in> set field \<or> starts_with_space field)"

definition csv_field :: "char \<Rightarrow> string \<Rightarrow> string" where
  "csv_field comma field =
     (if fieldNeedsQuotes comma field
      then [CHR 0x22] @ concat (map (\<lambda>c. if c = CHR 0x22 then [CHR 0x22, CHR 0x22] else [c]) field) @ [CHR 0x22]
      else field)"

definition csv_line :: "char \<Rightarrow> string list \<Rightarrow> string" where
  "csv_line comma record = join [comma] (map (csv_field comma) record) @ [CHR 0x0A]"

text \<open>\<^verbatim>\<open>csv.Writer.Write\<close>: the error is that of the buffered writer.\<close>

definition csv_Write :: "'w writes \<Rightarrow> char \<Rightarrow> string list \<Rightarrow> 'w bufio \<Rightarrow> goerror option \<times> 'w bufio" where
  "csv_Write wr comma record b = (let b = bufio_WriteString wr (csv_line comma record) b in (bw_err b, b))"

text \<open>
  A reference reader, after RFC 4180 with lines that end in a newline: a field that begins with a quote ends with the next single
  one, and a doubled quote in it is a quote.
\<close>

datatype csv_state = FieldStart | Plain | Quoted | QuoteSeen

fun csv_scan :: "char \<Rightarrow> csv_state \<Rightarrow> string \<Rightarrow> string list \<Rightarrow> string \<Rightarrow> string list list option" where
  "csv_scan comma st f r [] = (if st = FieldStart \<and> r = [] then Some [] else None)"
| "csv_scan comma Quoted f r (c # s) =
     (if c = CHR 0x22 then csv_scan comma QuoteSeen f r s else csv_scan comma Quoted (f @ [c]) r s)"
| "csv_scan comma st f r (c # s) =
     (if c = CHR 0x22 then
        (case st of
           FieldStart \<Rightarrow> csv_scan comma Quoted f r s
         | QuoteSeen \<Rightarrow> csv_scan comma Quoted (f @ [c]) r s
         | _ \<Rightarrow> None)
      else if c = comma then csv_scan comma FieldStart [] (r @ [f]) s
      else if c = CHR 0x0A then map_option ((#) (r @ [f])) (csv_scan comma FieldStart [] [] s)
      else if st = QuoteSeen then None
      else csv_scan comma Plain (f @ [c]) r s)"

definition csv_read :: "char \<Rightarrow> string \<Rightarrow> string list list option" where
  "csv_read comma s = csv_scan comma FieldStart [] [] s"

text \<open>A written field is read back, whatever state its end leaves: the next character is a separator.\<close>

definition csv_delim :: "char \<Rightarrow> bool" where
  "csv_delim comma \<longleftrightarrow> comma \<noteq> CHR 0x22 \<and> comma \<noteq> CHR 0x0A"

lemma csv_scan_plain:
  assumes "comma \<notin> set s" "CHR 0x22 \<notin> set s" "CHR 0x0A \<notin> set s" and "st \<in> {FieldStart, Plain}"
    and "c \<in> {comma, CHR 0x0A}" and "csv_delim comma"
  shows "csv_scan comma st f r (s @ c # t) = csv_scan comma Plain (f @ s) r (c # t)"
  using assms by (induction s arbitrary: f st) (auto simp: csv_delim_def)

lemma csv_scan_quoted:
  "csv_scan comma Quoted f r
     (concat (map (\<lambda>c. if c = CHR 0x22 then [CHR 0x22, CHR 0x22] else [c]) s) @ CHR 0x22 # t) =
   csv_scan comma QuoteSeen (f @ s) r t"
  by (induction s arbitrary: f) auto

lemma csv_scan_end:
  assumes "c \<in> {comma, CHR 0x0A}" and "csv_delim comma" and "st \<noteq> Quoted"
  shows "csv_scan comma st f r (c # t) = csv_scan comma FieldStart f r (c # t)"
  using assms by (cases st) (auto simp: csv_delim_def)

lemma csv_scan_field:
  assumes "c \<in> {comma, CHR 0x0A}" and "csv_delim comma"
  shows "csv_scan comma FieldStart [] r (csv_field comma f @ c # t) = csv_scan comma FieldStart f r (c # t)"
proof (cases "fieldNeedsQuotes comma f")
  case True
  have "csv_scan comma FieldStart [] r (csv_field comma f @ c # t) = csv_scan comma QuoteSeen f r (c # t)"
    using True csv_scan_quoted [of comma "[]" r f "c # t"] by (simp add: csv_field_def)
  then show ?thesis using csv_scan_end [OF assms, of QuoteSeen f r t] by (simp del: csv_scan.simps)
next
  case False
  then have "f = [] \<or> comma \<notin> set f \<and> CHR 0x22 \<notin> set f \<and> CHR 0x0A \<notin> set f"
    by (auto simp: fieldNeedsQuotes_def)
  then show ?thesis
    using False csv_scan_plain [of comma f FieldStart c "[]" r t] csv_scan_end [OF assms, of Plain f r t] assms
    by (auto simp: csv_field_def simp del: csv_scan.simps)
qed

lemma csv_scan_line:
  assumes "fs \<noteq> []" and "csv_delim comma"
  shows "csv_scan comma FieldStart [] r (csv_line comma fs @ t) = map_option ((#) (r @ fs)) (csv_read comma t)"
  using assms
proof (induction fs arbitrary: r rule: induct_list012)
  case (2 f)
  then show ?case
    using csv_scan_field [of "CHR 0x0A" comma r f t] by (auto simp: csv_line_def csv_read_def csv_delim_def)
next
  case (3 f g fs)
  have "csv_line comma (f # g # fs) = csv_field comma f @ comma # csv_line comma (g # fs)"
    by (simp add: csv_line_def)
  then have "csv_scan comma FieldStart [] r (csv_line comma (f # g # fs) @ t) =
      csv_scan comma FieldStart [] (r @ [f]) (csv_line comma (g # fs) @ t)"
    using csv_scan_field [of comma comma r f "csv_line comma (g # fs) @ t"] "3.prems" by (simp add: csv_delim_def)
  also have "\<dots> = map_option ((#) ((r @ [f]) @ g # fs)) (csv_read comma t)"
    using 3 by blast
  finally show ?case by simp
qed simp

lemma csv_read_lines:
  assumes "\<forall>fs \<in> set rows. fs \<noteq> []" and "csv_delim comma"
  shows "csv_read comma (concat (map (csv_line comma) rows)) = Some rows"
  using assms(1)
proof (induction rows)
  case Nil
  then show ?case by (simp add: csv_read_def)
next
  case (Cons fs rows)
  then have "csv_read comma (csv_line comma fs @ concat (map (csv_line comma) rows)) = map_option ((#) fs) (Some rows)"
    using csv_scan_line [OF _ assms(2), of fs "[]"] by (simp add: csv_read_def)
  then show ?case by simp
qed

end
