(* ===== verification/Ordered_Maps.thy ===== *)
theory Ordered_Maps
  imports Table_Naming
begin

text \<open>
  Maps that keep the order of their keys, \<^verbatim>\<open>pkg/util/orderedmap/orderedmap.go\<close>, with the recovery of the order from a JSON
  text. The JSON encoder and decoder of Go are parameters.
\<close>

section \<open>The map and its operations\<close>

text \<open>
  A decoded JSON value. Nested objects become ordered maps (\<open>VOrdered\<close>) when the order of their keys has been
  recovered. A number is its literal.
\<close>

datatype jvalue =
    VNull
  | VBool bool
  | VNum string
  | VStr string
  | VArray "jvalue list"
  | VObject "(string \<times> jvalue) list"
  | VOrdered "string list" "(string \<times> jvalue) list"

record OrderedMap =
  om_keys :: "string list"
  om_values :: "jvalue gomap"

definition om_New :: OrderedMap where
  "om_New = \<lparr>om_keys = [], om_values = []\<rparr>"

definition om_Get :: "OrderedMap \<Rightarrow> string \<Rightarrow> jvalue option" where
  "om_Get m k = map_of (om_values m) k"

definition om_Set :: "OrderedMap \<Rightarrow> string \<Rightarrow> jvalue \<Rightarrow> OrderedMap" where
  "om_Set m k v =
     m\<lparr>om_keys := (if map_of (om_values m) k = None then om_keys m @ [k] else om_keys m),
       om_values := map_set k v (om_values m)\<rparr>"

text \<open>The first occurrence of the key is cut out of the keys.\<close>

definition om_Delete :: "OrderedMap \<Rightarrow> string \<Rightarrow> OrderedMap" where
  "om_Delete m k =
     (if map_of (om_values m) k = None then m
      else m\<lparr>om_keys := remove1 k (om_keys m), om_values := map_del k (om_values m)\<rparr>)"

section \<open>The order of the keys of a JSON text\<close>

record json_lib =
  lib_MarshalRow :: "Row \<Rightarrow> goerror + string"
  lib_MarshalValue :: "jvalue \<Rightarrow> goerror + string"
  lib_UnmarshalMap :: "string \<Rightarrow> goerror + jvalue gomap"
  lib_UnmarshalSlice :: "string \<Rightarrow> goerror + jvalue list"
  lib_UnmarshalAny :: "string \<Rightarrow> goerror + jvalue"

definition LastIndex :: "string \<Rightarrow> string \<Rightarrow> nat option" where
  "LastIndex s sub = find (\<lambda>i. prefix sub (drop i s)) (rev [0..<Suc (length s)])"

definition escapeQuotes :: "string \<Rightarrow> string" where
  "escapeQuotes k = concat (map (\<lambda>c. if c = CHR 0x22 then [CHR 0x5C, CHR 0x22] else [c]) k)"

definition quotedKey :: "string \<Rightarrow> string" where
  "quotedKey k = dquote @ escapeQuotes k @ dquote"

lemma LastIndex_less: "LastIndex s sub = Some i \<Longrightarrow> sub \<noteq> [] \<Longrightarrow> i + length sub \<le> length s"
  by (auto simp: LastIndex_def dest!: find_SomeD prefix_length_le)

lemma length_TrimSpace: "length (TrimSpace s) \<le> length s"
  using length_dropWhile_le [of is_space s] length_dropWhile_le [of is_space "rev (dropWhile is_space s)"]
  by (simp add: TrimSpace_def)

definition dropComma :: "string \<Rightarrow> string" where
  "dropComma s = (if s \<noteq> [] \<and> last s = CHR '','' then butlast s else s)"

lemma length_dropComma: "length (dropComma s) \<le> length s"
  by (simp add: dropComma_def)

text \<open>
  Where a key stands: the last occurrence of the quoted key before which the text, closed with a brace, is a
  JSON object; its position, and the length of the text before it.
\<close>

function locateKey :: "json_lib \<Rightarrow> string \<Rightarrow> string \<Rightarrow> (nat \<times> nat) option" where
  "locateKey lib k sTrimmed =
     (if sTrimmed = [] then None
      else (case LastIndex sTrimmed (quotedKey k) of
              None \<Rightarrow> None
            | Some lastIndex \<Rightarrow>
                let t = dropComma (TrimSpace (take lastIndex sTrimmed)) in
                if isOK (lib_UnmarshalMap lib (t @ ''}'')) then Some (lastIndex, length t)
                else locateKey lib k t))"
  by pat_completeness auto
termination
proof (relation "measure (\<lambda>(lib, k, s). length s)")
  fix lib k s i t
  assume "s \<noteq> []" and i: "LastIndex s (quotedKey k) = Some i" and t: "t = dropComma (TrimSpace (take i s))"
  have "length t \<le> length (take i s)"
    unfolding t by (rule order_trans [OF length_dropComma length_TrimSpace])
  moreover have "i < length s"
    using LastIndex_less [OF i] by (simp add: quotedKey_def)
  ultimately show "((lib, k, t), (lib, k, s)) \<in> measure (\<lambda>(lib, k, s). length s)" by simp
qed simp

declare locateKey.simps [simp del]

text \<open>The text of the value: after the key, the colon and spaces, up to the last byte of the object.\<close>

definition valueText :: "string \<Rightarrow> string \<Rightarrow> nat \<Rightarrow> goerror + string" where
  "valueText s k lastIndex =
     bindR (slice_str s (int (lastIndex + length (quotedKey k))) (int (length s) - 1)) (\<lambda>v.
       let v = TrimSpace v;
           v = TrimSpace (if v \<noteq> [] \<and> hd v = CHR '':'' then tl v else v)
       in if v = [] then Inl (GoPanic ''runtime error: index out of range'') else Inr v)"

text \<open>The first closing bracket at which the text is complete.\<close>

definition closedText :: "(string \<Rightarrow> bool) \<Rightarrow> char \<Rightarrow> string \<Rightarrow> string option" where
  "closedText valid closing v =
     map_option (\<lambda>i. take (Suc i) v) (find (\<lambda>i. v ! i = closing \<and> valid (take (Suc i) v)) [1..<length v])"

definition ordered :: "OrderedMap \<Rightarrow> jvalue" where
  "ordered o1 = VOrdered (om_keys o1) (om_values o1)"

text \<open>
  The items of an array: each text up to a comma, or up to the last byte, that is a JSON value is an item; an item that is an
  object is converted by \<open>conv\<close>.
\<close>

definition convertItem ::
  "(string \<Rightarrow> jvalue gomap \<Rightarrow> goerror + OrderedMap) \<Rightarrow> string \<Rightarrow> nat \<Rightarrow> jvalue \<Rightarrow> goerror + jvalue" where
  "convertItem conv item itemIndex mk =
     (if item = [] then Inl (GoPanic ''runtime error: index out of range'')
      else if hd item = CHR ''{'' then
        (case mk of
           VArray mkTyped \<Rightarrow>
             if itemIndex < length mkTyped then
               (case mkTyped ! itemIndex of
                  VObject m \<Rightarrow> bindR (conv item m) (\<lambda>oo. Inr (VArray (mkTyped[itemIndex := ordered oo])))
                | _ \<Rightarrow> Inl (GoPanic ''interface conversion''))
             else Inl (GoPanic ''runtime error: index out of range'')
         | _ \<Rightarrow> Inl (GoPanic ''interface conversion''))
      else Inr mk)"

function convertItems ::
  "json_lib \<Rightarrow> (string \<Rightarrow> jvalue gomap \<Rightarrow> goerror + OrderedMap) \<Rightarrow> string \<Rightarrow> nat \<Rightarrow> nat \<Rightarrow> nat \<Rightarrow> jvalue \<Rightarrow>
   goerror + jvalue" where
  "convertItems lib conv itemsStr itemIndex startItem endItem mk =
     (if endItem \<ge> length itemsStr then Inr mk
      else if itemsStr ! endItem \<noteq> CHR '','' \<and> Suc endItem < length itemsStr then
        convertItems lib conv itemsStr itemIndex startItem (Suc endItem) mk
      else
        let item = TrimSpace (take (endItem - startItem) (drop startItem itemsStr)) in
        if \<not> isOK (lib_UnmarshalAny lib item) then convertItems lib conv itemsStr itemIndex startItem (Suc endItem) mk
        else (case convertItem conv item itemIndex mk of
                Inl e \<Rightarrow> Inl e
              | Inr mk' \<Rightarrow> convertItems lib conv itemsStr (Suc itemIndex) (Suc endItem) (Suc endItem) mk'))"
  by pat_completeness auto
termination
  by (relation "measure (\<lambda>(lib, conv, s, i, st, en, mk). length s - en)") auto

declare convertItems.simps [simp del]

text \<open>The value \<^verbatim>\<open>m[k]\<close> after its conversion, for the text of the value.\<close>

definition convertValue ::
  "json_lib \<Rightarrow> (string \<Rightarrow> jvalue gomap \<Rightarrow> goerror + OrderedMap) \<Rightarrow> string \<Rightarrow> jvalue \<Rightarrow> goerror + jvalue" where
  "convertValue lib conv v mk =
     (if hd v = CHR ''{'' then
        (case closedText (\<lambda>t. isOK (lib_UnmarshalMap lib t)) (CHR ''}'') v of
           None \<Rightarrow> Inr mk
         | Some t \<Rightarrow>
             (case mk of
                VObject m \<Rightarrow> bindR (conv t m) (\<lambda>oo. Inr (ordered oo))
              | _ \<Rightarrow> Inl (GoPanic ''interface conversion'')))
      else if hd v = CHR ''['' then
        (case closedText (\<lambda>t. isOK (lib_UnmarshalSlice lib t)) (CHR '']'') v of
           None \<Rightarrow> Inr mk
         | Some t \<Rightarrow> convertItems lib conv (butlast (tl t)) 0 0 0 mk)
      else Inr mk)"

text \<open>One key of the map: its position, when it is found, and the entry with the converted value.\<close>

definition orderEntry ::
  "json_lib \<Rightarrow> (string \<Rightarrow> jvalue gomap \<Rightarrow> goerror + OrderedMap) \<Rightarrow> string \<Rightarrow> string \<times> jvalue \<Rightarrow>
   goerror + ((string \<times> nat) option \<times> (string \<times> jvalue))" where
  "orderEntry lib conv s entry =
     (case entry of (k, mk) \<Rightarrow>
        (case locateKey lib k s of
           None \<Rightarrow> Inr (None, entry)
         | Some (lastIndex, index) \<Rightarrow>
             bindR (valueText s k lastIndex) (\<lambda>v.
               bindR (convertValue lib conv v mk) (\<lambda>mk'. Inr (Some (k, index), (k, mk'))))))"

text \<open>
  The conversion of the values calls back for nested objects, whose text is shorter; that the test of
  the length always succeeds is a lemma below. The positions of the keys differ, so the sort is determined.
\<close>

function mapToOrderedMap :: "json_lib \<Rightarrow> string \<Rightarrow> jvalue gomap \<Rightarrow> goerror + OrderedMap" where
  "mapToOrderedMap lib s m =
     bindR (mapR (orderEntry lib (\<lambda>t mt. if length t < length s then mapToOrderedMap lib t mt
                                          else Inl (GoPanic ''stack overflow'')) s) m) (\<lambda>rs.
       Inr \<lparr>om_keys = map fst (sort_key snd (List.map_filter fst rs)), om_values = map snd rs\<rparr>)"
  by pat_completeness auto
termination
  by (relation "measure (\<lambda>(lib, s, m). length s)") auto

declare mapToOrderedMap.simps [simp del]

definition om_UnmarshalJSON :: "json_lib \<Rightarrow> string \<Rightarrow> goerror + OrderedMap" where
  "om_UnmarshalJSON lib b = bindR (lib_UnmarshalMap lib b) (mapToOrderedMap lib b)"

definition NewFromMap :: "json_lib \<Rightarrow> Row \<Rightarrow> goerror + OrderedMap" where
  "NewFromMap lib m = bindR (lib_MarshalRow lib m) (om_UnmarshalJSON lib)"

section \<open>Printing\<close>

fun marshalEntries :: "json_lib \<Rightarrow> jvalue gomap \<Rightarrow> string list \<Rightarrow> string \<Rightarrow> goerror + string" where
  "marshalEntries lib values [] s = Inr s"
| "marshalEntries lib values (k # ks) s =
     (case lib_MarshalValue lib (map_get VNull values k) of
        Inl e \<Rightarrow> Inl e
      | Inr vBytes \<Rightarrow> marshalEntries lib values ks (s @ dquote @ escapeQuotes k @ dquote @ '':'' @ vBytes @ '',''))"

definition om_MarshalJSON :: "json_lib \<Rightarrow> OrderedMap \<Rightarrow> goerror + string" where
  "om_MarshalJSON lib m =
     bindR (marshalEntries lib (om_values m) (om_keys m) ''{'') (\<lambda>s.
       Inr ((if om_keys m \<noteq> [] then butlast s else s) @ ''}''))"

section \<open>Nested objects have shorter texts\<close>

lemma length_valueText:
  assumes "valueText s k i = Inr v"
  shows "length v < length s"
proof -
  obtain u where u: "slice_str s (int (i + length (quotedKey k))) (int (length s) - 1) = Inr u"
    and v: "v = TrimSpace u \<or> v = TrimSpace (TrimSpace u) \<or> v = TrimSpace (tl (TrimSpace u))"
    using assms by (auto simp: valueText_def Let_def bindR_eq_Inr split: if_splits)
  from u have "length u < length s" by (auto simp: slice_str_def split: if_splits)
  moreover have "length v \<le> length u"
    using v length_TrimSpace [of u] length_TrimSpace [of "TrimSpace u"] length_TrimSpace [of "tl (TrimSpace u)"]
    by auto
  ultimately show ?thesis by simp
qed

lemma length_closedText: "closedText valid c v = Some t \<Longrightarrow> length t \<le> length v"
  by (auto simp: closedText_def)

lemma convertItem_cong:
  "(\<And>m. conv item m = conv' item m) \<Longrightarrow> convertItem conv item i mk = convertItem conv' item i mk"
  by (auto simp: convertItem_def split: jvalue.split)

lemma convertItems_cong:
  assumes "\<And>t m. length t \<le> length s \<Longrightarrow> conv t m = conv' t m"
  shows "convertItems lib conv s i st en mk = convertItems lib conv' s i st en mk"
  using assms
proof (induction lib conv s i st en mk rule: convertItems.induct)
  case (1 lib conv s i st en mk)
  have "length (TrimSpace (take (en - st) (drop st s))) \<le> length s"
    by (rule order_trans [OF length_TrimSpace]) simp
  then have "convertItem conv (TrimSpace (take (en - st) (drop st s))) i mk =
      convertItem conv' (TrimSpace (take (en - st) (drop st s))) i mk"
    by (intro convertItem_cong "1.prems")
  then show ?case
    using 1 by (subst (1 2) convertItems.simps) (simp add: Let_def split: sum.split)
qed

lemma convertValue_cong:
  assumes "\<And>t m. length t \<le> length v \<Longrightarrow> conv t m = conv' t m"
  shows "convertValue lib conv v mk = convertValue lib conv' v mk"
proof -
  have "convertItems lib conv (butlast (tl t)) 0 0 0 mk = convertItems lib conv' (butlast (tl t)) 0 0 0 mk"
    if "length t \<le> length v" for t
    using that by (intro convertItems_cong assms) simp
  then show ?thesis
    using assms
    by (auto simp: convertValue_def dest!: length_closedText split: option.split jvalue.split)
qed

lemma orderEntry_cong:
  assumes "\<And>t m. length t < length s \<Longrightarrow> conv t m = conv' t m"
  shows "orderEntry lib conv s entry = orderEntry lib conv' s entry"
proof -
  have "bindR (valueText s k i) (\<lambda>v. bindR (convertValue lib conv v mk) (\<lambda>mk'. Inr (Some (k, j), (k, mk')))) =
      bindR (valueText s k i) (\<lambda>v. bindR (convertValue lib conv' v mk) (\<lambda>mk'. Inr (Some (k, j), (k, mk'))))" for k i j mk
  proof (cases "valueText s k i")
    case (Inr v)
    then have "convertValue lib conv v mk = convertValue lib conv' v mk"
      by (intro convertValue_cong assms) (auto dest: length_valueText)
    with Inr show ?thesis by simp
  qed simp
  then show ?thesis by (auto simp: orderEntry_def split: prod.split option.split)
qed

text \<open>
  The recovery of the order terminates: a nested object is a shorter text, so the recursion of the code is
  well-founded and the function satisfies the recursive equation of the code.
\<close>

theorem mapToOrderedMap_recursion:
  "mapToOrderedMap lib s m =
     bindR (mapR (orderEntry lib (mapToOrderedMap lib) s) m) (\<lambda>rs.
       Inr \<lparr>om_keys = map fst (sort_key snd (List.map_filter fst rs)), om_values = map snd rs\<rparr>)"
proof -
  have "orderEntry lib (\<lambda>t mt. if length t < length s then mapToOrderedMap lib t mt
          else Inl (GoPanic ''stack overflow'')) s = orderEntry lib (mapToOrderedMap lib) s"
    by (rule ext, rule orderEntry_cong) simp
  then show ?thesis by (subst mapToOrderedMap.simps) simp
qed

section \<open>The map is a list of entries\<close>

text \<open>
  What the operations promise: the map is a list of entries with different keys, in the order in which the keys were first
  set; setting replaces an entry where it is or appends it, deleting removes it.
\<close>

datatype om_op = OpSet string jvalue | OpDelete string

locale entry_list =
  fixes new :: 'm
    and get :: "'m \<Rightarrow> string \<Rightarrow> jvalue option"
    and put :: "'m \<Rightarrow> string \<Rightarrow> jvalue \<Rightarrow> 'm"
    and del :: "'m \<Rightarrow> string \<Rightarrow> 'm"
    and wf :: "'m \<Rightarrow> bool"
    and entries :: "'m \<Rightarrow> (string \<times> jvalue) list"
  assumes new_wf: "wf new" and entries_new: "entries new = []"
    and put_wf: "wf m \<Longrightarrow> wf (put m k v)"
    and entries_put: "wf m \<Longrightarrow> entries (put m k v) = AList.update k v (entries m)"
    and del_wf: "wf m \<Longrightarrow> wf (del m k)"
    and entries_del: "wf m \<Longrightarrow> entries (del m k) = AList.delete k (entries m)"
    and get_entries: "wf m \<Longrightarrow> get m k = map_of (entries m) k"
begin

definition step :: "om_op \<Rightarrow> 'm \<Rightarrow> 'm" where
  "step p m = (case p of OpSet k v \<Rightarrow> put m k v | OpDelete k \<Rightarrow> del m k)"

definition step_entries :: "om_op \<Rightarrow> (string \<times> jvalue) list \<Rightarrow> (string \<times> jvalue) list" where
  "step_entries p xs = (case p of OpSet k v \<Rightarrow> AList.update k v xs | OpDelete k \<Rightarrow> AList.delete k xs)"

lemma step_refines: "wf m \<Longrightarrow> wf (step p m) \<and> entries (step p m) = step_entries p (entries m)"
  by (cases p) (simp_all add: step_def step_entries_def put_wf entries_put del_wf entries_del)

lemma run_refines:
  "wf m \<Longrightarrow> wf (fold step ops m) \<and> entries (fold step ops m) = fold step_entries ops (entries m)"
  by (induction ops arbitrary: m) (simp_all add: step_refines)

lemma run_from_new:
  "wf (fold step ops new) \<and> entries (fold step ops new) = fold step_entries ops [] \<and>
   get (fold step ops new) k = map_of (fold step_entries ops []) k"
  using run_refines [OF new_wf, of ops] by (simp add: entries_new get_entries)

end

definition om_wf :: "OrderedMap \<Rightarrow> bool" where
  "om_wf m \<longleftrightarrow> distinct (om_keys m) \<and> set (om_keys m) = fst ` set (om_values m)"

definition om_entries :: "OrderedMap \<Rightarrow> (string \<times> jvalue) list" where
  "om_entries m = map (\<lambda>k. (k, map_get VNull (om_values m) k)) (om_keys m)"

lemma om_has_key: "om_wf m \<Longrightarrow> map_of (om_values m) k = None \<longleftrightarrow> k \<notin> set (om_keys m)"
  by (simp add: om_wf_def map_of_eq_None_iff)

lemma update_entries:
  "distinct ks \<Longrightarrow>
   AList.update k v (map (\<lambda>k. (k, f k)) ks) = map (\<lambda>j. (j, (f(k := v)) j)) (if k \<in> set ks then ks else ks @ [k])"
  by (induction ks) auto

lemma delete_entries:
  "distinct ks \<Longrightarrow> AList.delete k (map (\<lambda>k. (k, f k)) ks) = map (\<lambda>j. (j, f j)) (remove1 k ks)"
  by (simp add: AList.delete_eq filter_map o_def distinct_remove1_removeAll removeAll_filter_not_eq eq_commute)

lemma om_Set_entries: "om_wf m \<Longrightarrow> om_entries (om_Set m k v) = AList.update k v (om_entries m)"
  by (auto simp: om_entries_def om_Set_def om_has_key update_entries om_wf_def map_get_def)

lemma om_Delete_entries: "om_wf m \<Longrightarrow> om_entries (om_Delete m k) = AList.delete k (om_entries m)"
  by (auto simp: om_entries_def om_Delete_def om_has_key delete_entries remove1_idem om_wf_def map_get_def)

lemma om_Set_wf: "om_wf m \<Longrightarrow> om_wf (om_Set m k v)"
  using om_has_key [of m k] by (auto simp: om_wf_def om_Set_def)

lemma keys_map_del: "fst ` set (map_del k m) = fst ` set m - {k}"
  by (auto simp: map_del_def AList.delete_eq)

lemma om_Delete_wf: "om_wf m \<Longrightarrow> om_wf (om_Delete m k)"
  by (auto simp: om_wf_def om_Delete_def keys_map_del)

lemma om_New_entries: "om_wf om_New" "om_entries om_New = []"
  by (simp_all add: om_wf_def om_entries_def om_New_def)

lemma om_Get_entries: "om_wf m \<Longrightarrow> om_Get m k = map_of (om_entries m) k"
  using om_has_key [of m k]
  by (auto simp: om_Get_def om_entries_def map_of_map_restrict restrict_map_def map_get_def o_def split: option.split)

interpretation om: entry_list om_New om_Get om_Set om_Delete om_wf om_entries
  by unfold_locales
    (simp_all add: om_Set_entries om_Delete_entries om_Set_wf om_Delete_wf om_Get_entries om_New_entries)

definition om_apply :: "om_op \<Rightarrow> OrderedMap \<Rightarrow> OrderedMap" where
  "om_apply p m = (case p of OpSet k v \<Rightarrow> om_Set m k v | OpDelete k \<Rightarrow> om_Delete m k)"

definition entry_apply :: "om_op \<Rightarrow> (string \<times> jvalue) list \<Rightarrow> (string \<times> jvalue) list" where
  "entry_apply p xs = (case p of OpSet k v \<Rightarrow> AList.update k v xs | OpDelete k \<Rightarrow> AList.delete k xs)"

text \<open>
  C28: any sequence of Set and Delete on a new ordered map refines the list of its entries: the keys are different, in the order in
  which they were first set, and Get reads the entry of a key.
\<close>

theorem ordered_map_refines:
  "om_wf (fold om_apply ops om_New) \<and>
   om_entries (fold om_apply ops om_New) = fold entry_apply ops [] \<and>
   om_Get (fold om_apply ops om_New) k = map_of (fold entry_apply ops []) k"
proof -
  have "om_apply = om.step" "entry_apply = om.step_entries"
    by (simp_all add: fun_eq_iff om_apply_def om.step_def entry_apply_def om.step_entries_def)
  then show ?thesis using om.run_from_new [of ops k] by simp
qed

section \<open>Printing is the join of the entries\<close>

definition entryText :: "json_lib \<Rightarrow> jvalue gomap \<Rightarrow> string \<Rightarrow> goerror + string" where
  "entryText lib values k = bindR (lib_MarshalValue lib (map_get VNull values k)) (\<lambda>v. Inr (quotedKey k @ '':'' @ v))"

lemma marshalEntries_text:
  "marshalEntries lib values ks s =
     bindR (mapR (entryText lib values) ks) (\<lambda>es. Inr (s @ concat (map (\<lambda>e. e @ '','') es)))"
  by (induction ks arbitrary: s)
    (auto simp: entryText_def quotedKey_def bindR_def split: sum.split)

lemma join_commas: "es \<noteq> [] \<Longrightarrow> butlast (s @ concat (map (\<lambda>e. e @ '','') es)) = s @ join '','' es"
proof (induction es arbitrary: s rule: induct_list012)
  case (3 e f es)
  from "3.IH"(2) [of "s @ e @ '',''"] show ?case by (simp add: butlast_append)
qed (simp_all add: butlast_append)

text \<open>
  The loop that prints an ordered map, which ends each entry with a comma and cuts the last one off, gives the entries in their order,
  separated by commas, in braces, and the first error of an entry is its error.
\<close>

theorem MarshalJSON_joins_entries:
  "om_MarshalJSON lib m =
     bindR (mapR (entryText lib (om_values m)) (om_keys m)) (\<lambda>es. Inr (''{'' @ join '','' es @ ''}''))"
proof (cases "mapR (entryText lib (om_values m)) (om_keys m)")
  case (Inr es)
  then have "es = [] \<longleftrightarrow> om_keys m = []" by (auto dest: mapR_length)
  then show ?thesis
    using Inr join_commas [of es "''{''"] by (auto simp: om_MarshalJSON_def marshalEntries_text)
qed (simp add: om_MarshalJSON_def marshalEntries_text)

end
