(* ===== verification/Metric_Store.thy ===== *)
theory Metric_Store
  imports Table_Naming
begin

text \<open>
  Storing Prometheus metrics in a Presto table and reading them back:
  \<^verbatim>\<open>pkg/operator/prestostore/prometheusmetric.go\<close>. The buffer of the statement is the string it holds; its
  capacity is a parameter (one million bytes for the default pool).
\<close>

section \<open>The code\<close>

record PrometheusMetric =
  pm_Labels :: "string gomap"
  pm_Amount :: float64
  pm_StepSize :: duration
  pm_Timestamp :: go_time
  pm_Dt :: string

definition PrometheusMetricHiveTableColumns :: "Column list" where
  "PrometheusMetricHiveTableColumns =
     [\<lparr>col_Name = ''amount'', col_Type = ''double''\<rparr>, \<lparr>col_Name = ''timestamp'', col_Type = ''timestamp''\<rparr>,
      \<lparr>col_Name = ''timePrecision'', col_Type = ''double''\<rparr>, \<lparr>col_Name = ''labels'', col_Type = ''map<string, string>''\<rparr>]"

definition PrometheusMetricHivePartitionColumns :: "Column list" where
  "PrometheusMetricHivePartitionColumns = [\<lparr>col_Name = ''dt'', col_Type = ''string''\<rparr>]"

text \<open>The package's \<^verbatim>\<open>init\<close> function: it panics when a column cannot be translated.\<close>

definition PrometheusMetricPrestoAllColumns :: "goerror + Column list" where
  "PrometheusMetricPrestoAllColumns =
     (case HiveColumnsToPrestoColumns PrometheusMetricHiveTableColumns of
        Inl e \<Rightarrow> Inl (GoPanic (Error e))
      | Inr cols \<Rightarrow>
          (case HiveColumnsToPrestoColumns PrometheusMetricHivePartitionColumns of
             Inl e \<Rightarrow> Inl (GoPanic (Error e))
           | Inr parts \<Rightarrow> Inr (cols @ parts)))"

definition PrometheusMetricTimestampPartition :: "go_time \<Rightarrow> string" where
  "PrometheusMetricTimestampPartition t = format_date t"

definition generatePrometheusMetricSQLValues :: "'x store_env_scheme \<Rightarrow> PrometheusMetric \<Rightarrow> string" where
  "generatePrometheusMetricSQLValues env metric =
     (let keys = map (\<lambda>(k, v). squote @ k @ squote) (pm_Labels metric);
          vals = map (\<lambda>(k, v). squote @ v @ squote) (pm_Labels metric);
          keyString = ''ARRAY['' @ join '','' keys @ '']'';
          valString = ''ARRAY['' @ join '','' vals @ '']'';
          dt = PrometheusMetricTimestampPartition (pm_Timestamp metric)
      in ''('' @ fmt_float env (pm_Amount metric) @ '',timestamp '' @ squote @ format_presto (pm_Timestamp metric) @ squote @
         '','' @ fmt_seconds env (pm_StepSize metric) @ '',map('' @ keyString @ '','' @ valString @ ''),'' @
         squote @ dt @ squote @ '')'')"

text \<open>
  The loop over the metrics. \<open>queryCap\<close> is the capacity of the buffer less the \<^verbatim>\<open>INSERT INTO\<close> part;
  \<open>buf\<close> and \<open>inBuf\<close> are \<^verbatim>\<open>queryBuf\<close> and \<^verbatim>\<open>metricsInBuffer\<close>.
\<close>

definition exceed_error :: "int \<Rightarrow> int \<Rightarrow> string \<Rightarrow> string \<Rightarrow> goerror" where
  "exceed_error bufferCapacity queryCap buf toWrite =
     Err (''writing '' @ Quote toWrite @ '' would exceed buffer size, please adjust buffer size: bufferCapacityBytes: '' @
       show_int bufferCapacity @ '', queryCapacityBytes: '' @ show_int queryCap @ '', currentBufferSize: '' @
       show_int (int (length buf)) @ '' bytesToWrite: '' @ show_int (int (length toWrite)))"

definition insertBuffer :: "'x store_env_scheme \<Rightarrow> string \<Rightarrow> string \<Rightarrow> goerror option op" where
  "insertBuffer env tableName buf = do {
     err \<leftarrow> InsertInto env tableName buf;
     State_Monad.return (map_option (wrap (\<lambda>m. ''failed to store metrics into presto: '' @ m)) err)
   }"

fun store_loop ::
  "'x store_env_scheme \<Rightarrow> string \<Rightarrow> int \<Rightarrow> int \<Rightarrow> PrometheusMetric list \<Rightarrow> string \<Rightarrow> bool \<Rightarrow> goerror option op" where
  "store_loop env tableName bufferCapacity queryCap [] buf inBuf = State_Monad.return None"
| "store_loop env tableName bufferCapacity queryCap (metric # metrics) buf inBuf = do {
     cancelled \<leftarrow> peek (ctx_Done env);
     (case cancelled of
        Some e \<Rightarrow> State_Monad.return (Some e)
      | None \<Rightarrow>
          let metricSQLStr = generatePrometheusMetricSQLValues env metric;
              lastMetric = (metrics = []);
              flush = (inBuf \<and> int (length ('','' @ metricSQLStr)) + int (length buf) > queryCap)
          in do {
            ferr \<leftarrow> (if flush then insertBuffer env tableName buf else State_Monad.return None);
            (case ferr of
               Some e \<Rightarrow> State_Monad.return (Some e)
             | None \<Rightarrow>
                 let buf' = (if flush then [] else buf); inBuf' = (if flush then False else inBuf);
                     toWrite = (if \<not> inBuf' then ''VALUES '' @ metricSQLStr else '','' @ metricSQLStr)
                 in if int (length toWrite) + int (length buf') > queryCap
                    then State_Monad.return (Some (exceed_error bufferCapacity queryCap buf' toWrite))
                    else if lastMetric then do {
                      lerr \<leftarrow> insertBuffer env tableName (buf' @ toWrite);
                      (case lerr of
                         Some e \<Rightarrow> State_Monad.return (Some e)
                       | None \<Rightarrow> store_loop env tableName bufferCapacity queryCap metrics [] True)
                    }
                    else store_loop env tableName bufferCapacity queryCap metrics (buf' @ toWrite) True)
          })
   }"

definition StorePrometheusMetricsWithBuffer ::
  "'x store_env_scheme \<Rightarrow> int \<Rightarrow> string \<Rightarrow> PrometheusMetric list \<Rightarrow> goerror option op" where
  "StorePrometheusMetricsWithBuffer env bufferCapacity tableName metrics =
     (let insertStatementLength = int (length (FormatInsertQuery tableName []));
          queryCap = bufferCapacity - insertStatementLength
      in store_loop env tableName bufferCapacity queryCap metrics [] False)"

definition defaultPrestoQueryCap :: int where "defaultPrestoQueryCap = 1000000"

definition StorePrometheusMetrics ::
  "'x store_env_scheme \<Rightarrow> int \<Rightarrow> string \<Rightarrow> PrometheusMetric list \<Rightarrow> goerror option op" where
  "StorePrometheusMetrics env bufferCapacity tableName metrics =
     StorePrometheusMetricsWithBuffer env bufferCapacity tableName metrics"

section \<open>Reading\<close>

definition lastTimestampQuery :: "string \<Rightarrow> string" where
  "lastTimestampQuery tableName =
     nl @ tab @ tab @ tab @ tab @ ''SELECT '' @ dquote @ ''timestamp'' @ dquote @ nl @
     tab @ tab @ tab @ tab @ ''FROM '' @ tableName @ nl @
     tab @ tab @ tab @ tab @ ''ORDER BY '' @ dquote @ ''timestamp'' @ dquote @ '' DESC'' @ nl @
     tab @ tab @ tab @ tab @ ''LIMIT 1''"

definition GetLastTimestampForTable :: "'x store_env_scheme \<Rightarrow> string \<Rightarrow> (goerror + go_time option) op" where
  "GetLastTimestampForTable env tableName = do {
     r \<leftarrow> ExecuteSelect env (lastTimestampQuery tableName);
     State_Monad.return
       (case r of
          Inl e \<Rightarrow> Inl (wrap (\<lambda>m. ''error getting last timestamp for table '' @ tableName @
                     '', maybe table doesn't exist yet? '' @ m) e)
        | Inr [] \<Rightarrow> Inr None
        | Inr (row # _) \<Rightarrow>
            (case map_of row ''timestamp'' of
               Some (PVTime ts) \<Rightarrow> Inr (Some ts)
             | _ \<Rightarrow> Inl (GoPanic ''interface conversion: interface {} is not time.Time'')))
   }"

text \<open>
  The decoding of a row: each type assertion panics when the value has another type; a label that is not a
  string is an error. \<open>to_int\<close> is the conversion of a \<^verbatim>\<open>float64\<close> to an integer.
\<close>

definition wrap64 :: "int \<Rightarrow> int" where
  "wrap64 n = (n + 2 ^ 63) mod 2 ^ 64 - 2 ^ 63"

definition decode_labels :: "(string \<times> string option) list \<Rightarrow> goerror + string gomap" where
  "decode_labels rowLabels =
     mapR (\<lambda>(key, value). (case value of
         Some s \<Rightarrow> Inr (key, s)
       | None \<Rightarrow> Inl (Err (''invalid label '' @ key)))) rowLabels"

definition decode_metric :: "(float64 \<Rightarrow> int) \<Rightarrow> Row \<Rightarrow> goerror + PrometheusMetric" where
  "decode_metric to_int row =
     (case (map_of row ''labels'', map_of row ''amount'', map_of row ''timePrecision'', map_of row ''timestamp'',
            map_of row ''dt'') of
        (Some (PVMap ls), Some (PVFloat a), Some (PVFloat p), Some (PVTime t), Some (PVString d)) \<Rightarrow>
          bindR (decode_labels ls) (\<lambda>labels.
            Inr \<lparr>pm_Labels = labels, pm_Amount = a, pm_StepSize = wrap64 (to_int p * Second),
                 pm_Timestamp = t, pm_Dt = d\<rparr>)
      | _ \<Rightarrow> Inl (GoPanic ''interface conversion''))"

definition whereClause :: "go_time \<Rightarrow> go_time \<Rightarrow> string" where
  "whereClause start end =
     (if start \<noteq> 0 then ''WHERE '' @ dquote @ ''timestamp'' @ dquote @ '' >= timestamp '' @ squote @
        format_presto start @ squote @ '' '' else []) @
     (if end \<noteq> 0 then (if start \<noteq> 0 then '' AND '' else '' WHERE '') @
        dquote @ ''timestamp'' @ dquote @ '' <= timestamp '' @ squote @ format_presto end @ squote else [])"

definition GetPrometheusMetrics ::
  "'x store_env_scheme \<Rightarrow> (float64 \<Rightarrow> int) \<Rightarrow> string \<Rightarrow> go_time \<Rightarrow> go_time \<Rightarrow> (goerror + PrometheusMetric list) op" where
  "GetPrometheusMetrics env to_int tableName start end =
     (case PrometheusMetricPrestoAllColumns of
        Inl e \<Rightarrow> State_Monad.return (Inl e)
      | Inr cols \<Rightarrow> do {
          r \<leftarrow> GetRowsWhere env tableName cols (whereClause start end);
          State_Monad.return (bindR r (mapR (decode_metric to_int)))
        })"

section \<open>The statements of a store\<close>

text \<open>The statement for a group of metrics, and what the buffer holds for the metrics written to it.\<close>

definition values_stmt :: "string list \<Rightarrow> string" where
  "values_stmt g = (if g = [] then [] else ''VALUES '' @ join '','' g)"

definition insert_event :: "string \<Rightarrow> string list \<Rightarrow> event" where
  "insert_event tableName g = PrestoQuery (FormatInsertQuery tableName (values_stmt g))"

lemma values_stmt_snoc:
  "values_stmt (g @ [x]) = values_stmt g @ (if g = [] then ''VALUES '' @ x else '','' @ x)"
  by (simp add: values_stmt_def join_snoc)

lemma values_stmt_Nil [simp]: "values_stmt [] = []"
  by (simp add: values_stmt_def)

lemma run_insertBuffer [run_simps]:
  "run_state (insertBuffer env tableName (values_stmt g)) h =
     (map_option (wrap (\<lambda>m. ''failed to store metrics into presto: '' @ m))
        (fst (run_state (InsertInto env tableName (values_stmt g)) h)), h @ [insert_event tableName g])"
  by (simp add: insertBuffer_def presto_op_defs run_execQuery insert_event_def)

text \<open>Groups of SQL tuples that are inserted one after the other, none of them larger than the capacity.\<close>

definition grouped :: "int \<Rightarrow> string list \<Rightarrow> string list list \<Rightarrow> bool" where
  "grouped queryCap xs groups \<longleftrightarrow> concat groups = xs \<and>
     (\<forall>g \<in> set groups. g \<noteq> [] \<and> int (length (values_stmt g)) \<le> queryCap)"

lemma grouped_Cons:
  "g \<noteq> [] \<Longrightarrow> int (length (values_stmt g)) \<le> queryCap \<Longrightarrow> grouped queryCap xs groups \<Longrightarrow>
   grouped queryCap (g @ xs) (g # groups)"
  by (auto simp: grouped_def)

text \<open>One iteration with the pending tuples \<open>g\<close> in the buffer, on its way to success.\<close>

lemma store_loop_step:
  assumes "run_state (store_loop env t cap qc (m # ms) (values_stmt g) (g \<noteq> [])) h = (None, h')"
  defines "x \<equiv> generatePrometheusMetricSQLValues env m"
  obtains (writes) "int (length (values_stmt (g @ [x]))) \<le> qc" "ms \<noteq> []"
      "run_state (store_loop env t cap qc ms (values_stmt (g @ [x])) True) h = (None, h')"
    | (final) "int (length (values_stmt (g @ [x]))) \<le> qc" "ms = []" "h' = h @ [insert_event t (g @ [x])]"
    | (flushes) "g \<noteq> []" "int (length (values_stmt [x])) \<le> qc" "ms \<noteq> []"
      "run_state (store_loop env t cap qc ms (values_stmt [x]) True) (h @ [insert_event t g]) = (None, h')"
    | (flushes_final) "g \<noteq> []" "int (length (values_stmt [x])) \<le> qc" "ms = []"
      "h' = h @ [insert_event t g, insert_event t [x]]"
proof (cases "g \<noteq> [] \<and> int (length ('','' @ x)) + int (length (values_stmt g)) > qc")
  case True
  have 1: "values_stmt [x] = ''VALUES '' @ x" by (simp add: values_stmt_def)
  from assms(1) True show ?thesis
    using flushes flushes_final
    by (auto simp: Let_def x_def [symmetric] run_insertBuffer 1 [symmetric] simp del: append.simps(2)
        split: option.splits if_splits)
next
  case no_flush: False
  show ?thesis
  proof (cases "g = []")
    case True
    have 1: "''VALUES '' @ x = values_stmt [x]" by (simp add: values_stmt_def)
    from assms(1) True show ?thesis
      using writes final
      by (auto simp: Let_def x_def [symmetric] run_insertBuffer 1 simp del: append.simps(2) length_append
          split: option.splits if_splits)
  next
    case False
    have 1: "values_stmt g @ '','' @ x = values_stmt (g @ [x])" using False by (simp add: values_stmt_snoc)
    have 2: "int (length (values_stmt (g @ [x]))) = int (length ('','' @ x)) + int (length (values_stmt g))"
      using False by (simp add: values_stmt_snoc)
    from assms(1) False no_flush show ?thesis
      using writes final
      by (auto simp: Let_def x_def [symmetric] run_insertBuffer 1 2 simp del: append.simps(2) length_append
          split: option.splits if_splits)
  qed
qed

lemma store_loop_groups:
  assumes "run_state (store_loop env t cap qc ms (values_stmt g) (g \<noteq> [])) h = (None, h')" and "ms \<noteq> []"
    and "g \<noteq> [] \<Longrightarrow> int (length (values_stmt g)) \<le> qc"
  shows "\<exists>groups. grouped qc (g @ map (generatePrometheusMetricSQLValues env) ms) groups \<and>
    h' = h @ map (insert_event t) groups"
  using assms
proof (induction ms arbitrary: g h)
  case Nil
  then show ?case by simp
next
  case (Cons m ms)
  let ?gen = "generatePrometheusMetricSQLValues env"
  let ?x = "?gen m"
  from Cons.prems(1) show ?case
  proof (cases rule: store_loop_step)
    case writes
    then show ?thesis using Cons.IH [of "g @ [?x]" h] by simp
  next
    case final
    then have "grouped qc (g @ map ?gen (m # ms)) [g @ [?x]] \<and> h' = h @ map (insert_event t) [g @ [?x]]"
      by (simp add: grouped_def)
    then show ?thesis by blast
  next
    case flushes
    then obtain groups where "grouped qc ([?x] @ map ?gen ms) groups"
      "h' = (h @ [insert_event t g]) @ map (insert_event t) groups"
      using Cons.IH [of "[?x]" "h @ [insert_event t g]"] by auto
    with grouped_Cons [OF flushes(1) Cons.prems(3) [OF flushes(1)]]
    have "grouped qc (g @ map ?gen (m # ms)) (g # groups) \<and> h' = h @ map (insert_event t) (g # groups)"
      by simp
    then show ?thesis by blast
  next
    case flushes_final
    then have "grouped qc (g @ map ?gen (m # ms)) [g, [?x]] \<and> h' = h @ map (insert_event t) [g, [?x]]"
      using Cons.prems(3) by (simp add: grouped_def)
    then show ?thesis by blast
  qed
qed

text \<open>When every metric fits into the buffer and the services answer, the store succeeds.\<close>

definition presto_works :: "'x store_env_scheme \<Rightarrow> bool" where
  "presto_works env \<longleftrightarrow> (\<forall>h sql. executed (presto_Query env h sql)) \<and> (\<forall>h. ctx_Done env h = None)"

lemma insertBuffer_works:
  assumes "presto_works env"
  shows "run_state (insertBuffer env t buf) h = (None, h @ [PrestoQuery (FormatInsertQuery t buf)])"
proof -
  obtain rows where "presto_Query env h (FormatInsertQuery t buf) = Inr rows" "rows_Err rows = None"
    using assms unfolding presto_works_def executed_def by blast
  then show ?thesis by (simp add: insertBuffer_def presto_op_defs run_execQuery)
qed

lemma store_loop_succeeds:
  assumes "presto_works env"
    and "\<forall>m \<in> set ms. int (length (''VALUES '' @ generatePrometheusMetricSQLValues env m)) \<le> qc"
    and "inBuf \<or> buf = []"
  shows "fst (run_state (store_loop env t cap qc ms buf inBuf) h) = None"
  using assms
proof (induction ms arbitrary: buf inBuf h)
  case Nil
  then show ?case by simp
next
  case (Cons m ms)
  have "ctx_Done env h = None" for h using Cons.prems(1) by (simp add: presto_works_def)
  then show ?case
    using Cons.prems(2,3) Cons.IH [OF Cons.prems(1)]
    by (auto simp: Let_def insertBuffer_works [OF Cons.prems(1)])
qed

section \<open>Properties\<close>

text \<open>
  C16: a store of metrics that succeeds inserts every metric exactly once and in order: the statements sent to Presto
  are the inserts of consecutive groups that together are all the metrics, no group is empty, and no
  statement is longer than the capacity of the buffer.
\<close>

theorem store_inserts_every_metric:
  assumes "run_state (StorePrometheusMetricsWithBuffer env cap t metrics) h = (None, h')" and "metrics \<noteq> []"
  shows "\<exists>groups. concat groups = map (generatePrometheusMetricSQLValues env) metrics \<and>
    h' = h @ map (\<lambda>g. PrestoQuery (''INSERT INTO '' @ t @ '' VALUES '' @ join '','' g)) groups \<and>
    (\<forall>g \<in> set groups. g \<noteq> [] \<and> int (length (''INSERT INTO '' @ t @ '' VALUES '' @ join '','' g)) \<le> cap)"
proof -
  let ?qc = "cap - int (length (FormatInsertQuery t []))"
  have "run_state (store_loop env t cap ?qc metrics (values_stmt []) ([] \<noteq> ([] :: string list))) h = (None, h')"
    using assms(1) by (simp add: StorePrometheusMetricsWithBuffer_def Let_def)
  from store_loop_groups [OF this assms(2)] obtain groups where
    g: "grouped ?qc (map (generatePrometheusMetricSQLValues env) metrics) groups" "h' = h @ map (insert_event t) groups"
    by auto
  then have "map (insert_event t) groups =
      map (\<lambda>g. PrestoQuery (''INSERT INTO '' @ t @ '' VALUES '' @ join '','' g)) groups"
    by (auto simp: grouped_def insert_event_def FormatInsertQuery_def values_stmt_def)
  with g show ?thesis
    by (intro exI [of _ groups]) (auto simp: grouped_def FormatInsertQuery_def values_stmt_def)
qed

definition sample_metric :: "string \<Rightarrow> PrometheusMetric" where
  "sample_metric v = \<lparr>pm_Labels = [(''pod'', v)], pm_Amount = 0, pm_StepSize = Minute, pm_Timestamp = 0, pm_Dt = []\<rparr>"

definition good_env :: store_env where
  "good_env = sample_env (Inr \<lparr>rows_Columns = Inr [], rows_Scan = [], rows_Err = None\<rparr>)"

lemma good_env_works: "presto_works good_env"
  by (simp add: presto_works_def good_env_def executed_def) (simp add: sample_env_def)

lemma sample_metric_fits:
  "int (length (''VALUES '' @ generatePrometheusMetricSQLValues good_env (sample_metric ''a''))) \<le> 186"
  "int (length (''VALUES '' @ generatePrometheusMetricSQLValues good_env (sample_metric ''b''))) \<le> 186"
  by code_simp+

theorem store_inserts_every_metric_witness:
  "\<exists>groups h'. run_state (StorePrometheusMetricsWithBuffer good_env 200 ''t'' [sample_metric ''a'', sample_metric ''b'']) [] =
      (None, h') \<and>
     concat groups = map (generatePrometheusMetricSQLValues good_env) [sample_metric ''a'', sample_metric ''b''] \<and>
     h' = map (\<lambda>g. PrestoQuery (''INSERT INTO t VALUES '' @ join '','' g)) groups"
proof -
  have "fst (run_state (StorePrometheusMetricsWithBuffer good_env 200 ''t'' [sample_metric ''a'', sample_metric ''b'']) []) = None"
    unfolding StorePrometheusMetricsWithBuffer_def Let_def
    using good_env_works sample_metric_fits by (intro store_loop_succeeds) (simp_all add: FormatInsertQuery_def)
  then obtain h' where r:
    "run_state (StorePrometheusMetricsWithBuffer good_env 200 ''t'' [sample_metric ''a'', sample_metric ''b'']) [] = (None, h')"
    by (metis prod.collapse)
  from store_inserts_every_metric [OF this] show ?thesis using r by auto
qed

text \<open>
  When the services answer and every metric fits into the buffer on its own, storing any number of metrics
  succeeds: the buffer is flushed before it would overflow.
\<close>

theorem store_succeeds:
  assumes "presto_works env"
    and "\<forall>m \<in> set metrics. int (length (''INSERT INTO '' @ t @ '' VALUES '' @ generatePrometheusMetricSQLValues env m)) \<le> cap"
  shows "fst (run_state (StorePrometheusMetricsWithBuffer env cap t metrics) h) = None"
  unfolding StorePrometheusMetricsWithBuffer_def Let_def
  using assms by (intro store_loop_succeeds) (auto simp: FormatInsertQuery_def)

theorem store_succeeds_witness:
  "fst (run_state (StorePrometheusMetricsWithBuffer good_env 200 ''t'' [sample_metric ''a'', sample_metric ''b'']) []) = None"
  by (rule store_succeeds [OF good_env_works]) (use sample_metric_fits in simp)

text \<open>
  A label value is copied between quotes as it is: one that contains a quote ends the string literal.
\<close>

lemma label_values_not_escaped:
  "\<exists>pre post. generatePrometheusMetricSQLValues env (m\<lparr>pm_Labels := [(k, v)]\<rparr>) = pre @ squote @ v @ squote @ post"
proof -
  let ?pre = "''('' @ fmt_float env (pm_Amount m) @ '',timestamp '' @ squote @ format_presto (pm_Timestamp m) @ squote @
    '','' @ fmt_seconds env (pm_StepSize m) @ '',map(ARRAY['' @ squote @ k @ squote @ ''],ARRAY[''"
  have "generatePrometheusMetricSQLValues env (m\<lparr>pm_Labels := [(k, v)]\<rparr>) =
      ?pre @ squote @ v @ squote @ ''])'' @ '','' @ squote @ PrometheusMetricTimestampPartition (pm_Timestamp m) @ squote @ '')''"
    by (simp add: generatePrometheusMetricSQLValues_def)
  then show ?thesis by blast
qed

end
