(* ===== verification/Http_Api.thy ===== *)
theory Http_Api
  imports Http_Writers Ordered_Maps Metric_Store Report_Conditions
begin

text \<open>
  The HTTP API, \<^verbatim>\<open>pkg/operator/http.go\<close> with the response helpers of \<^verbatim>\<open>pkg/operator/util.go\<close>: the results of reports as JSON, CSV or
  text columns, and the endpoints to import, store and fetch metrics. A handler takes the request and the response
  so far and answers the response it leaves, or the panic it ends with.

  The JSON encoder and decoder, \<^verbatim>\<open>text/tabwriter\<close>, the formatting of floating-point numbers and of values of unknown type and the connection to
  the client are parameters. Log lines are not modelled.
\<close>

section \<open>Requests, documents and parameters\<close>

text \<open>
  A request: \<^verbatim>\<open>ParseForm\<close> answers an error or fills the form; the URL parameters come from the router; the body is
  what the JSON decoder makes of it for each of the endpoints that read one.
\<close>

record store_body =
  body_Open :: "goerror option"
  body_Items :: "(goerror + PrometheusMetric) list"
  body_Close :: "goerror option"

record request =
  req_Method :: string
  req_Path :: string
  req_ParseForm :: "goerror option"
  req_Form :: "string list gomap"
  req_URLParam :: "string gomap"
  req_Collect :: "goerror + go_time \<times> go_time"
  req_Store :: store_body

definition FormValue :: "request \<Rightarrow> string \<Rightarrow> string" where
  "FormValue r key = (case map_get [] (req_Form r) key of [] \<Rightarrow> [] | v # _ \<Rightarrow> v)"

definition URLParam :: "request \<Rightarrow> string \<Rightarrow> string" where
  "URLParam r key = map_get [] (req_URLParam r) key"

record ReportResultValues =
  rrv_Name :: string
  rrv_Value :: presto_value
  rrv_TableHidden :: bool
  rrv_Unit :: string

type_synonym ReportResultEntry = "ReportResultValues list"
type_synonym GetReportResults_doc = "ReportResultEntry list"

record prometheusImportResults =
  pir_ReportDataSource :: string
  pir_Namespace :: string
  pir_MetricsImportedCount :: int

text \<open>What is encoded as JSON in a response.\<close>

datatype json_doc =
    ErrorDoc string
  | RowsDoc "OrderedMap list"
  | ReportDoc GetReportResults_doc
  | CollectDoc "prometheusImportResults list"
  | MetricsDoc "PrometheusMetric list"
  | StatusDoc string "string option"
  | EmptyDoc

text \<open>
  \<open>hl_Sprintf\<close>: formatting without arguments. \<open>hl_tabs\<close>: what \<^verbatim>\<open>tabwriter\<close> writes, for its padding, when a text is written to it
  after others; \<open>hl_tabs_flush\<close>: what it writes when it is flushed.
\<close>

record http_lib =
  hl_conn :: connection
  hl_json :: json_lib
  hl_Marshal :: "json_doc \<Rightarrow> goerror + string"
  hl_Sprintf :: "string \<Rightarrow> string"
  hl_fmt_float :: "float64 \<Rightarrow> string"
  hl_fmt_t :: "presto_value \<Rightarrow> string"
  hl_fmt_v :: "presto_value \<Rightarrow> string"
  hl_tabs :: "int \<Rightarrow> string \<Rightarrow> string \<Rightarrow> string list"
  hl_tabs_flush :: "int \<Rightarrow> string \<Rightarrow> string list"
  hl_Parse_RFC3339 :: "string \<Rightarrow> goerror + go_time"
  hl_to_int :: "float64 \<Rightarrow> int"
  hl_bufferCap :: int

abbreviation StatusOK :: int where "StatusOK \<equiv> 200"
abbreviation StatusAccepted :: int where "StatusAccepted \<equiv> 202"
abbreviation StatusBadRequest :: int where "StatusBadRequest \<equiv> 400"
abbreviation StatusNotFound :: int where "StatusNotFound \<equiv> 404"
abbreviation StatusInternalServerError :: int where "StatusInternalServerError \<equiv> 500"

section \<open>Responses\<close>

definition writeResponseAsJSON :: "http_lib \<Rightarrow> response_writer \<Rightarrow> int \<Rightarrow> json_doc \<Rightarrow> response_writer" where
  "writeResponseAsJSON lib w code resp =
     (case hl_Marshal lib resp of
        Inl _ \<Rightarrow> WriteHeader StatusInternalServerError w
      | Inr enc \<Rightarrow>
          snd (Write (hl_conn lib) enc (WriteHeader code (Header_Set ''Content-Type'' ''application/json'' w))))"

text \<open>The message is formatted by the caller; without arguments it is still taken for a format.\<close>

definition writeErrorResponse :: "http_lib \<Rightarrow> response_writer \<Rightarrow> int \<Rightarrow> string \<Rightarrow> response_writer" where
  "writeErrorResponse lib w code msg = writeResponseAsJSON lib w code (ErrorDoc msg)"

text \<open>The response to an error of a call; a panic of the call ends the handler.\<close>

definition errorResponse ::
  "http_lib \<Rightarrow> response_writer \<Rightarrow> int \<Rightarrow> (string \<Rightarrow> string) \<Rightarrow> goerror \<Rightarrow> goerror + response_writer" where
  "errorResponse lib w code f e =
     (case e of GoPanic m \<Rightarrow> Inl (GoPanic m) | _ \<Rightarrow> Inr (writeErrorResponse lib w code (f (Error e))))"

section \<open>CSV and text columns\<close>

definition csv_cell :: "http_lib \<Rightarrow> Row \<Rightarrow> string \<Rightarrow> goerror + string" where
  "csv_cell lib row key =
     (case map_of row key of
        None \<Rightarrow> Inl (Err (''report results schema doesn't match expected schema, unexpected key: '' @ Quote key))
      | Some val \<Rightarrow>
          (case val of
             PVString v \<Rightarrow> Inr v
           | PVBytes v \<Rightarrow> Inr v
           | PVInt v \<Rightarrow> Inr (show_int v)
           | PVFloat v \<Rightarrow> Inr (hl_fmt_float lib v)
           | PVBool v \<Rightarrow> Inr (if v then ''true'' else ''false'')
           | PVTime v \<Rightarrow> Inr (show_time v)
           | PVNull \<Rightarrow> Inr []
           | _ \<Rightarrow> Inl (Err (''error marshalling csv: unknown type '' @ hl_fmt_t lib val @ '' for value '' @ hl_fmt_v lib val))))"

fun csv_rows ::
  "http_lib \<Rightarrow> 'w writes \<Rightarrow> char \<Rightarrow> string list \<Rightarrow> Row list \<Rightarrow> 'w bufio \<Rightarrow> goerror option \<times> 'w bufio" where
  "csv_rows lib wr delimiter keys [] b = (None, b)"
| "csv_rows lib wr delimiter keys (row # rows) b =
     (case mapR (csv_cell lib row) keys of
        Inl e \<Rightarrow> (Some e, b)
      | Inr vals \<Rightarrow>
          (case csv_Write wr delimiter vals b of
             (Some e, b) \<Rightarrow> (Some e, b)
           | (None, b) \<Rightarrow> csv_rows lib wr delimiter keys rows b))"

definition csv_header ::
  "'w writes \<Rightarrow> char \<Rightarrow> string list \<Rightarrow> Row list \<Rightarrow> 'w bufio \<Rightarrow> goerror option \<times> 'w bufio" where
  "csv_header wr delimiter keys results b = (if results = [] then (None, b) else csv_Write wr delimiter keys b)"

definition writeResultsAsCSV ::
  "http_lib \<Rightarrow> ReportQueryColumn list \<Rightarrow> Row list \<Rightarrow> 'w writes \<Rightarrow> 'w \<Rightarrow> char \<Rightarrow> goerror option \<times> 'w" where
  "writeResultsAsCSV lib columns results wr w delimiter =
     (let keys = map rqc_Name columns in
      case csv_header wr delimiter keys results (NewWriter w) of
        (Some e, b) \<Rightarrow> (Some e, bw_out b)
      | (None, b) \<Rightarrow>
          (case csv_rows lib wr delimiter keys results b of
             (Some e, b) \<Rightarrow> (Some e, bw_out b)
           | (None, b) \<Rightarrow> (let b = bufio_Flush wr b in (bw_err b, bw_out b))))"

definition writeResultsResponseAsCSV ::
  "http_lib \<Rightarrow> string \<Rightarrow> ReportQueryColumn list \<Rightarrow> Row list \<Rightarrow> response_writer \<Rightarrow> response_writer" where
  "writeResultsResponseAsCSV lib name columns results w =
     (let w = Header_Set ''Content-Type'' ''text/csv'' w;
          w = Header_Set ''Content-Disposition'' (''attachment;filename='' @ name @ ''.csv'') w
      in case writeResultsAsCSV lib columns results (Write (hl_conn lib)) w (CHR '','') of
           (Some e, w) \<Rightarrow> writeErrorResponse lib w StatusInternalServerError (hl_Sprintf lib (Error e))
         | (None, w) \<Rightarrow> WriteHeader StatusOK w)"

text \<open>\<^verbatim>\<open>strconv.Atoi\<close>.\<close>

fun atoi_digits :: "int \<Rightarrow> string \<Rightarrow> string + int" where
  "atoi_digits n [] = Inr n"
| "atoi_digits n (c # cs) =
     (if \<not> is_digit c then Inl ''invalid syntax''
      else let n' = 10 * n + (of_char c - 48) in
           if n' \<ge> 2 ^ 64 then Inl ''value out of range'' else atoi_digits n' cs)"

definition Atoi :: "string \<Rightarrow> goerror + int" where
  "Atoi s =
     (let neg = (s \<noteq> [] \<and> hd s = CHR ''-''); signed = (neg \<or> (s \<noteq> [] \<and> hd s = CHR ''+''));
          ds = (if signed then tl s else s);
          r = (if ds = [] then Inl ''invalid syntax'' else atoi_digits 0 ds)
      in case r of
           Inl m \<Rightarrow> Inl (Err (''strconv.Atoi: parsing '' @ Quote s @ '': '' @ m))
         | Inr n \<Rightarrow>
             if is_int64 (if neg then - n else n) then Inr (if neg then - n else n)
             else Inl (Err (''strconv.Atoi: parsing '' @ Quote s @ '': value out of range'')))"

text \<open>A \<^verbatim>\<open>tabwriter.Writer\<close>: the text written to it so far and the response behind it. It is made only with a padding that is not negative.\<close>

record tabwriter =
  tw_text :: string
  tw_out :: response_writer

fun writePieces :: "connection \<Rightarrow> string list \<Rightarrow> response_writer \<Rightarrow> goerror option \<times> response_writer" where
  "writePieces conn [] w = (None, w)"
| "writePieces conn (p # ps) w =
     (case Write conn p w of (Some e, w) \<Rightarrow> (Some e, w) | (None, w) \<Rightarrow> writePieces conn ps w)"

definition tabwriter_NewWriter :: "int \<Rightarrow> response_writer \<Rightarrow> goerror + tabwriter" where
  "tabwriter_NewWriter padding w =
     (if padding < 0 then Inl (GoPanic ''negative minwidth, tabwidth, or padding'')
      else Inr \<lparr>tw_text = [], tw_out = w\<rparr>)"

definition tabwriter_Write :: "http_lib \<Rightarrow> int \<Rightarrow> tabwriter writes" where
  "tabwriter_Write lib padding p tw =
     (case writePieces (hl_conn lib) (hl_tabs lib padding (tw_text tw) p) (tw_out tw) of
        (err, w) \<Rightarrow> (err, \<lparr>tw_text = tw_text tw @ p, tw_out = w\<rparr>))"

definition tabwriter_Flush :: "http_lib \<Rightarrow> int \<Rightarrow> tabwriter \<Rightarrow> goerror option \<times> response_writer" where
  "tabwriter_Flush lib padding tw = writePieces (hl_conn lib) (hl_tabs_flush lib padding (tw_text tw)) (tw_out tw)"

definition tabular_padding :: "request \<Rightarrow> goerror + int" where
  "tabular_padding r =
     (let paddingStr = FormValue r ''padding'' in
      if paddingStr \<noteq> [] then
        (case Atoi paddingStr of
           Inl e \<Rightarrow> Inl (Err (''invalid padding value '' @ paddingStr @ '', err: '' @ Error e))
         | Inr p \<Rightarrow> Inr p)
      else Inr 2)"

definition writeResultsResponseAsTabular ::
  "http_lib \<Rightarrow> string \<Rightarrow> ReportQueryColumn list \<Rightarrow> Row list \<Rightarrow> request \<Rightarrow> response_writer \<Rightarrow> goerror + response_writer"
  where
  "writeResultsResponseAsTabular lib name columns results r w =
     (let w = Header_Set ''Content-Type'' ''text/tab-separated-values'' w;
          w = Header_Set ''Content-Disposition'' (''attachment;filename='' @ name @ ''.tsv'') w
      in case tabular_padding r of
           Inl e \<Rightarrow> Inr (writeErrorResponse lib w StatusInternalServerError (Error e))
         | Inr padding \<Rightarrow>
             bindR (tabwriter_NewWriter padding w) (\<lambda>tabWriter.
               (case writeResultsAsCSV lib columns results (tabwriter_Write lib padding) tabWriter (CHR 0x09) of
                  (Some e, tw) \<Rightarrow>
                    Inr (writeErrorResponse lib (tw_out tw) StatusInternalServerError (hl_Sprintf lib (Error e)))
                | (None, tw) \<Rightarrow>
                    (case tabwriter_Flush lib padding tw of
                       (Some e, w) \<Rightarrow> Inr (writeErrorResponse lib w StatusInternalServerError (hl_Sprintf lib (Error e)))
                     | (None, w) \<Rightarrow> Inr (WriteHeader StatusOK w)))))"

section \<open>Results of reports\<close>

definition writeResultsResponseAsJSON ::
  "http_lib \<Rightarrow> string \<Rightarrow> Row list \<Rightarrow> response_writer \<Rightarrow> goerror + response_writer" where
  "writeResultsResponseAsJSON lib name results w =
     (let w = Header_Set ''Content-Disposition'' (''attachment;filename='' @ name @ ''.json'') w in
      case mapR (NewFromMap (hl_json lib)) results of
        Inl e \<Rightarrow> errorResponse lib w StatusInternalServerError (\<lambda>m. ''error converting results: '' @ m) e
      | Inr newResults \<Rightarrow> Inr (writeResponseAsJSON lib w StatusOK (RowsDoc newResults)))"

definition writeResultsResponse ::
  "http_lib \<Rightarrow> string \<Rightarrow> string \<Rightarrow> ReportQueryColumn list \<Rightarrow> Row list \<Rightarrow> request \<Rightarrow> response_writer \<Rightarrow>
   goerror + response_writer" where
  "writeResultsResponse lib format name columns results r w =
     (if format = ''json'' then writeResultsResponseAsJSON lib name results w
      else if format = ''csv'' then Inr (writeResultsResponseAsCSV lib name columns results w)
      else if format = ''tab'' \<or> format = ''tabular'' then writeResultsResponseAsTabular lib name columns results r w
      else Inr w)"

text \<open>The map from the name of a column to the column, the last of each name.\<close>

definition columnsByName :: "ReportQueryColumn list \<Rightarrow> ReportQueryColumn gomap" where
  "columnsByName columns = fold (\<lambda>column m. map_set (rqc_Name column) column m) columns []"

definition noColumn :: ReportQueryColumn where
  "noColumn = \<lparr>rqc_Name = [], rqc_Type = [], rqc_TableHidden = False, rqc_Unit = []\<rparr>"

definition convertRow :: "ReportQueryColumn gomap \<Rightarrow> Row \<Rightarrow> ReportResultEntry" where
  "convertRow columnsMap row =
     map (\<lambda>(columnName, columnValue).
        \<lparr>rrv_Name = columnName, rrv_Value = columnValue,
         rrv_TableHidden = rqc_TableHidden (map_get noColumn columnsMap columnName),
         rrv_Unit = rqc_Unit (map_get noColumn columnsMap columnName)\<rparr>) row"

definition convertsToGetReportResults :: "Row list \<Rightarrow> ReportQueryColumn list \<Rightarrow> GetReportResults_doc" where
  "convertsToGetReportResults input columns = map (convertRow (columnsByName columns)) input"

text \<open>The loop that deletes the values of hidden columns from a row, when \<open>hide\<close> says that they are not shown.\<close>

definition filterRow :: "bool \<Rightarrow> ReportQueryColumn gomap \<Rightarrow> Row \<Rightarrow> Row" where
  "filterRow hide columnsMap row =
     fold (\<lambda>(_, column) row.
        let c = map_get noColumn columnsMap (rqc_Name column) in
        if rqc_TableHidden c \<and> hide then map_del (rqc_Name c) row else row) columnsMap row"

definition filterColumns :: "bool \<Rightarrow> ReportQueryColumn list \<Rightarrow> ReportQueryColumn list" where
  "filterColumns hide columns = filter (\<lambda>column. \<not> (rqc_TableHidden column \<and> hide)) columns"

definition writeResultsResponseV1 ::
  "http_lib \<Rightarrow> string \<Rightarrow> string \<Rightarrow> ReportQueryColumn list \<Rightarrow> Row list \<Rightarrow> request \<Rightarrow> response_writer \<Rightarrow>
   goerror + response_writer" where
  "writeResultsResponseV1 lib format name columns results r w =
     writeResultsResponse lib format name (filterColumns True columns)
       (map (filterRow True (columnsByName columns)) results) r w"

definition writeResultsResponseV2 ::
  "http_lib \<Rightarrow> bool \<Rightarrow> string \<Rightarrow> string \<Rightarrow> ReportQueryColumn list \<Rightarrow> Row list \<Rightarrow> request \<Rightarrow> response_writer \<Rightarrow>
   goerror + response_writer" where
  "writeResultsResponseV2 lib full format name columns results r w =
     (let format = ToLower format;
          isTableFormat = (format = ''csv'' \<or> format = ''tab'' \<or> format = ''tabular'');
          hide = (isTableFormat \<or> \<not> full);
          filteredColumns = filterColumns hide columns;
          results = map (filterRow hide (columnsByName columns)) results
      in if format = ''json'' then
           Inr (writeResponseAsJSON lib
             (Header_Set ''Content-Disposition'' (''attachment;filename='' @ name @ ''.json'') w) StatusOK
             (ReportDoc (convertsToGetReportResults results filteredColumns)))
         else writeResultsResponse lib format name filteredColumns results r w)"

section \<open>Getting a report\<close>

definition checkForFields :: "string list \<Rightarrow> string list gomap \<Rightarrow> goerror option" where
  "checkForFields required vals =
     (let missingFields = filter (\<lambda>f. map_get [] vals f = [] \<or> hd (map_get [] vals f) = []) required in
      if missingFields \<noteq> [] then Some (Err (''the following fields are missing or empty: '' @ join '','' missingFields))
      else None)"

text \<open>The answer is whether the request is valid, beside the response.\<close>

definition validateGetReportReq ::
  "http_lib \<Rightarrow> string list \<Rightarrow> request \<Rightarrow> response_writer \<Rightarrow> bool \<times> response_writer" where
  "validateGetReportReq lib requiredQueryParams r w =
     (if req_Method r \<noteq> ''GET'' then (False, writeErrorResponse lib w StatusNotFound (hl_Sprintf lib ''Not found''))
      else (case req_ParseForm r of
        Some e \<Rightarrow> (False, writeErrorResponse lib w StatusBadRequest (''couldn't parse URL query params: '' @ Error e))
      | None \<Rightarrow>
          (case checkForFields requiredQueryParams (req_Form r) of
             Some e \<Rightarrow> (False, writeErrorResponse lib w StatusBadRequest (Error e))
           | None \<Rightarrow>
               if hd (map_get [] (req_Form r) ''format'') \<in> set [''json'', ''csv'', ''tab'', ''tabular''] then (True, w)
               else (False, writeErrorResponse lib w StatusBadRequest
                       (hl_Sprintf lib ''format must be one of: csv, json or tabular'')))))"

definition failedState :: "Report \<Rightarrow> ReportCondition option" where
  "failedState report =
     (case GetReportCondition (r_Status report) ReportRunning of
        Some cond \<Rightarrow>
          if cond_Status cond = ConditionFalse \<and> cond_Reason cond = GenerateReportFailedReason then Some cond else None
      | None \<Rightarrow> None)"

text \<open>
  \<^verbatim>\<open>getReport\<close> in two parts. The first finds the report, its query and its table in the caches, or answers the
  response; the comparison of the columns of the query and of the table only leads to log lines.
\<close>

definition findReportTable ::
  "http_lib \<Rightarrow> 'x lister_env_scheme \<Rightarrow> string \<Rightarrow> string \<Rightarrow> request \<Rightarrow> response_writer \<Rightarrow>
   ((goerror + response_writer) + (ReportQuery \<times> PrestoTable \<times> string)) op" where
  "findReportTable lib env name namespace r w = do {
     rep \<leftarrow> peek (\<lambda>h. lister_Report env h namespace name);
     (case rep of
        Inl e \<Rightarrow> State_Monad.return (Inl (errorResponse lib w
            (if IsNotFound e then StatusNotFound else StatusInternalServerError) (\<lambda>m. ''error getting report: '' @ m) e))
      | Inr report \<Rightarrow>
          (case (if FormValue r ''ignore_failed'' \<noteq> ''true'' then failedState report else None) of
             Some cond \<Rightarrow> State_Monad.return (Inl (Inr (writeErrorResponse lib w StatusInternalServerError
                 (''report is is failed state, reason: '' @ cond_Reason cond @ '', message: '' @ cond_Message cond))))
           | None \<Rightarrow> do {
               q \<leftarrow> peek (\<lambda>h. lister_ReportQuery env h (Namespace report) (rspec_QueryName (r_Spec report)));
               (case q of
                  Inl e \<Rightarrow> State_Monad.return (Inl (errorResponse lib w StatusInternalServerError
                      (\<lambda>m. ''error getting report: '' @ m) e))
                | Inr reportQuery \<Rightarrow> do {
                    t \<leftarrow> peek (\<lambda>h. lister_PrestoTable env h (Namespace report)
                           (TableResourceNameFromKind ''report'' (Namespace report) (Name report)));
                    State_Monad.return
                      (case t of
                         Inl e \<Rightarrow>
                           if IsNotFound e then Inl (Inr (writeErrorResponse lib w StatusAccepted
                               (hl_Sprintf lib ''Report is not processed yet'')))
                           else Inl (errorResponse lib w StatusInternalServerError (\<lambda>m. ''error getting presto table: '' @ m) e)
                       | Inr prestoTable \<Rightarrow>
                           if ptst_Columns (pt_Status prestoTable) = [] then
                             Inl (Inr (writeErrorResponse lib w StatusInternalServerError
                               (''PrestoTable '' @ Name prestoTable @ '' has 0 columns'')))
                           else (case FullyQualifiedTableName prestoTable of
                             Inl e \<Rightarrow> Inl (errorResponse lib w StatusInternalServerError
                                 (\<lambda>m. ''invalid prestoTable.Status fields: '' @ m) e)
                           | Inr tableName \<Rightarrow> Inr (reportQuery, prestoTable, tableName)))
                  })
             }))
   }"

definition serveResults ::
  "http_lib \<Rightarrow> string \<Rightarrow> bool \<Rightarrow> bool \<Rightarrow> ReportQuery \<Rightarrow> PrestoTable \<Rightarrow> goerror + Row list \<Rightarrow> request \<Rightarrow> response_writer \<Rightarrow>
   goerror + response_writer" where
  "serveResults lib format useNewFormat full reportQuery prestoTable res r w =
     (case res of
        Inl e \<Rightarrow> errorResponse lib w StatusInternalServerError
            (\<lambda>m. ''failed to perform presto query (see operator logs for more details): '' @ m) e
      | Inr results \<Rightarrow>
          if results \<noteq> [] \<and> length (ptst_Columns (pt_Status prestoTable)) \<noteq> length (hd results) then
            Inr (writeErrorResponse lib w StatusInternalServerError
              (hl_Sprintf lib ''report results schema doesn't match expected schema''))
          else if useNewFormat then
            writeResultsResponseV2 lib full format (Name reportQuery) (q_Columns reportQuery) results r w
          else writeResultsResponseV1 lib format (Name reportQuery) (q_Columns reportQuery) results r w)"

definition getReport ::
  "http_lib \<Rightarrow> 'x lister_env_scheme \<Rightarrow> string \<Rightarrow> string \<Rightarrow> string \<Rightarrow> bool \<Rightarrow> bool \<Rightarrow> request \<Rightarrow> response_writer \<Rightarrow>
   (goerror + response_writer) op" where
  "getReport lib env name namespace format useNewFormat full r w = do {
     found \<leftarrow> findReportTable lib env name namespace r w;
     (case found of
        Inl answer \<Rightarrow> State_Monad.return answer
      | Inr (reportQuery, prestoTable, tableName) \<Rightarrow> do {
          res \<leftarrow> GetReportResults env tableName (ptst_Columns (pt_Status prestoTable));
          State_Monad.return (serveResults lib format useNewFormat full reportQuery prestoTable res r w)
        })
   }"

definition getReportV1Handler ::
  "http_lib \<Rightarrow> 'x lister_env_scheme \<Rightarrow> request \<Rightarrow> response_writer \<Rightarrow> (goerror + response_writer) op" where
  "getReportV1Handler lib env r w =
     (case validateGetReportReq lib [''name'', ''namespace'', ''format''] r w of
        (False, w) \<Rightarrow> State_Monad.return (Inr w)
      | (True, w) \<Rightarrow>
          getReport lib env (hd (map_get [] (req_Form r) ''name'')) (hd (map_get [] (req_Form r) ''namespace''))
            (hd (map_get [] (req_Form r) ''format'')) False True r w)"

text \<open>The two handlers of the second version, which differ in \<open>full\<close>.\<close>

definition getReportV2 ::
  "http_lib \<Rightarrow> 'x lister_env_scheme \<Rightarrow> bool \<Rightarrow> request \<Rightarrow> response_writer \<Rightarrow> (goerror + response_writer) op" where
  "getReportV2 lib env full r w =
     (if URLParam r ''name'' = [] then
        State_Monad.return (Inr (writeErrorResponse lib w StatusBadRequest
          (hl_Sprintf lib ''the following fields are missing or empty: name'')))
      else (case validateGetReportReq lib [''format''] r w of
        (False, w) \<Rightarrow> State_Monad.return (Inr w)
      | (True, w) \<Rightarrow>
          getReport lib env (URLParam r ''name'') (URLParam r ''namespace'') (hd (map_get [] (req_Form r) ''format''))
            True full r w))"

definition getReportV2FullHandler ::
  "http_lib \<Rightarrow> 'x lister_env_scheme \<Rightarrow> request \<Rightarrow> response_writer \<Rightarrow> (goerror + response_writer) op" where
  "getReportV2FullHandler lib env r w = getReportV2 lib env True r w"

definition getReportV2TableHandler ::
  "http_lib \<Rightarrow> 'x lister_env_scheme \<Rightarrow> request \<Rightarrow> response_writer \<Rightarrow> (goerror + response_writer) op" where
  "getReportV2TableHandler lib env r w = getReportV2 lib env False r w"

text \<open>A handler for running reports, which no route uses.\<close>

definition server_runReport :: "http_lib \<Rightarrow> response_writer \<Rightarrow> response_writer" where
  "server_runReport lib w =
     snd (Write (hl_conn lib) ''method not yet implemented'' (WriteHeader StatusInternalServerError w))"

section \<open>Metrics\<close>

type_synonym prometheusImporterFunc =
  "string \<Rightarrow> string \<Rightarrow> go_time \<Rightarrow> go_time \<Rightarrow> (goerror + prometheusImportResults list) op"

definition collectPrometheusMetricsDataHandler ::
  "http_lib \<Rightarrow> prometheusImporterFunc \<Rightarrow> request \<Rightarrow> response_writer \<Rightarrow> (goerror + response_writer) op" where
  "collectPrometheusMetricsDataHandler lib collectorFunc r w =
     (let namespace = URLParam r ''namespace''; dsName = URLParam r ''datasource'' in
      case req_Collect r of
        Inl e \<Rightarrow> State_Monad.return (errorResponse lib w StatusInternalServerError
            (\<lambda>m. ''unable to decode response as JSON: '' @ m) e)
      | Inr (start, end) \<Rightarrow> do {
          res \<leftarrow> collectorFunc namespace dsName start end;
          State_Monad.return
            (case res of
               Inl e \<Rightarrow> errorResponse lib w StatusInternalServerError (\<lambda>m. ''unable to collect prometheus data: '' @ m) e
             | Inr results \<Rightarrow> Inr (writeResponseAsJSON lib w StatusOK (CollectDoc results)))
        })"

text \<open>The table of a data source, which storing and fetching look up in the same way.\<close>

definition findMetricsTable ::
  "http_lib \<Rightarrow> 'x lister_env_scheme \<Rightarrow> request \<Rightarrow> response_writer \<Rightarrow> ((goerror + response_writer) + string) op" where
  "findMetricsTable lib env r w =
     (let name = URLParam r ''datasourceName''; namespace = URLParam r ''namespace'' in do {
        ds \<leftarrow> peek (\<lambda>h. lister_ReportDataSource env h namespace name);
        (case ds of
           Inl e \<Rightarrow> State_Monad.return (Inl (errorResponse lib w StatusInternalServerError
               (\<lambda>m. ''unable to get ReportDataSource '' @ name @ '': '' @ m) e))
         | Inr dataSource \<Rightarrow>
             if dstat_TableRef (ds_Status dataSource) = [] then
               State_Monad.return (Inl (Inr (writeErrorResponse lib w StatusInternalServerError
                 (''ReportDataSource '' @ name @ '' table not created yet''))))
             else do {
               t \<leftarrow> peek (\<lambda>h. lister_PrestoTable env h (Namespace dataSource) (dstat_TableRef (ds_Status dataSource)));
               State_Monad.return
                 (case t of
                    Inl e \<Rightarrow> Inl (errorResponse lib w StatusInternalServerError
                        (\<lambda>m. ''unable to get PrestoTable '' @ dstat_TableRef (ds_Status dataSource) @ '': '' @ m) e)
                  | Inr prestoTable \<Rightarrow>
                      if ptst_TableName (pt_Status prestoTable) = [] then
                        Inl (Inr (writeErrorResponse lib w StatusInternalServerError
                          (''PrestoTable '' @ Name prestoTable @ '' table '' @ pts_TableName (pt_Spec prestoTable) @
                           '' not created yet'')))
                      else (case FullyQualifiedTableName prestoTable of
                        Inl e \<Rightarrow> Inl (errorResponse lib w StatusInternalServerError
                            (\<lambda>m. ''invalid PrestoTable '' @ Name prestoTable @ '': '' @ m) e)
                      | Inr tableName \<Rightarrow> Inr tableName))
             })
      })"

text \<open>The opening bracket, the items and the closing bracket of the array in the body.\<close>

definition decodeMetrics :: "store_body \<Rightarrow> goerror + PrometheusMetric list" where
  "decodeMetrics body =
     (case body_Open body of
        Some e \<Rightarrow> Inl e
      | None \<Rightarrow>
          bindR (mapR (\<lambda>item. item) (body_Items body)) (\<lambda>metrics.
            (case body_Close body of Some e \<Rightarrow> Inl e | None \<Rightarrow> Inr metrics)))"

definition storePrometheusMetricsDataHandler ::
  "http_lib \<Rightarrow> 'x lister_env_scheme \<Rightarrow> request \<Rightarrow> response_writer \<Rightarrow> (goerror + response_writer) op" where
  "storePrometheusMetricsDataHandler lib env r w =
     (case decodeMetrics (req_Store r) of
        Inl e \<Rightarrow> State_Monad.return (errorResponse lib w StatusInternalServerError
            (\<lambda>m. ''unable to decode response as JSON: '' @ m) e)
      | Inr metrics \<Rightarrow> do {
          found \<leftarrow> findMetricsTable lib env r w;
          (case found of
             Inl answer \<Rightarrow> State_Monad.return answer
           | Inr tableName \<Rightarrow> do {
               err \<leftarrow> StorePrometheusMetrics env (hl_bufferCap lib) tableName metrics;
               State_Monad.return
                 (case err of
                    Some e \<Rightarrow> errorResponse lib w StatusInternalServerError (\<lambda>m. ''unable to store prometheus metrics: '' @ m) e
                  | None \<Rightarrow> Inr (writeResponseAsJSON lib w StatusOK EmptyDoc))
             })
        })"

text \<open>A time parameter of the query: the zero time when it is empty.\<close>

definition timeParam :: "http_lib \<Rightarrow> request \<Rightarrow> string \<Rightarrow> goerror + go_time" where
  "timeParam lib r which =
     (let v = FormValue r which in
      if v \<noteq> [] then
        (case hl_Parse_RFC3339 lib v of
           Inl e \<Rightarrow> Inl (wrap (\<lambda>m. ''invalid '' @ which @ '' time parameter: '' @ m) e)
         | Inr t \<Rightarrow> Inr t)
      else Inr 0)"

definition fetchPrometheusMetricsDataHandler ::
  "http_lib \<Rightarrow> 'x lister_env_scheme \<Rightarrow> request \<Rightarrow> response_writer \<Rightarrow> (goerror + response_writer) op" where
  "fetchPrometheusMetricsDataHandler lib env r w =
     (case req_ParseForm r of
        Some e \<Rightarrow> State_Monad.return (errorResponse lib w StatusInternalServerError
            (\<lambda>m. ''unable to decode body: '' @ m) e)
      | None \<Rightarrow>
          (case bindR (timeParam lib r ''start'') (\<lambda>s. bindR (timeParam lib r ''end'') (\<lambda>e. Inr (s, e))) of
             Inl e \<Rightarrow> State_Monad.return (errorResponse lib w StatusInternalServerError (\<lambda>m. m) e)
           | Inr (startTime, endTime) \<Rightarrow> do {
               found \<leftarrow> findMetricsTable lib env r w;
               (case found of
                  Inl answer \<Rightarrow> State_Monad.return answer
                | Inr tableName \<Rightarrow> do {
                    res \<leftarrow> GetPrometheusMetrics env (hl_to_int lib) tableName startTime endTime;
                    State_Monad.return
                      (case res of
                         Inl e \<Rightarrow> errorResponse lib w StatusInternalServerError (\<lambda>m. ''error querying for datasource: '' @ m) e
                       | Inr results \<Rightarrow> Inr (writeResponseAsJSON lib w StatusOK (MetricsDoc results)))
                  })
             }))"

section \<open>Routes\<close>

text \<open>
  The router matches the path segment by segment: a segment in braces of a pattern takes any segment, and an empty one only before
  another.
\<close>

fun matchSegments :: "string list \<Rightarrow> string list \<Rightarrow> string gomap option" where
  "matchSegments [] [] = Some []"
| "matchSegments (p # ps) (x # xs) =
     (if p \<noteq> [] \<and> hd p = CHR ''{'' then
        (if x = [] \<and> xs = [] then None else map_option ((#) (butlast (tl p), x)) (matchSegments ps xs))
      else if p = x then matchSegments ps xs
      else None)"
| "matchSegments _ _ = None"

definition matchPattern :: "string \<Rightarrow> string \<Rightarrow> string gomap option" where
  "matchPattern pattern path = matchSegments (Split pattern (CHR ''/'')) (Split path (CHR ''/''))"

datatype endpoint = ReportV2Full | ReportV2Table | ReportV1 | CollectMetrics | StoreMetrics | FetchMetrics

definition routes :: "(string \<times> endpoint) list" where
  "routes =
     [(''/api/v2/reports/{namespace}/{name}/full'', ReportV2Full),
      (''/api/v2/reports/{namespace}/{name}/table'', ReportV2Table),
      (''/api/v1/reports/get'', ReportV1),
      (''/api/v1/datasources/prometheus/collect/{namespace}'', CollectMetrics),
      (''/api/v1/datasources/prometheus/collect/{namespace}/{datasourceName}'', CollectMetrics),
      (''/api/v1/datasources/prometheus/store/{namespace}/{datasourceName}'', StoreMetrics),
      (''/api/v1/datasources/prometheus/fetch/{namespace}/{datasourceName}'', FetchMetrics)]"

definition route :: "string \<Rightarrow> (endpoint \<times> string gomap) option" where
  "route path =
     (case filter (\<lambda>(pattern, _). matchPattern pattern path \<noteq> None) routes of
        (pattern, endpoint) # _ \<Rightarrow> map_option (Pair endpoint) (matchPattern pattern path)
      | [] \<Rightarrow> None)"

text \<open>The router answers a path that no pattern matches by itself.\<close>

definition serveHTTP ::
  "http_lib \<Rightarrow> 'x lister_env_scheme \<Rightarrow> prometheusImporterFunc \<Rightarrow> request \<Rightarrow> response_writer \<Rightarrow>
   (goerror + response_writer) op" where
  "serveHTTP lib env collectorFunc r w =
     (case route (req_Path r) of
        None \<Rightarrow> State_Monad.return (Inr (snd (Write (hl_conn lib) (''404 page not found'' @ nl) (WriteHeader StatusNotFound
            (Header_Set ''X-Content-Type-Options'' ''nosniff''
              (Header_Set ''Content-Type'' ''text/plain; charset=utf-8'' w))))))
      | Some (endpoint, params) \<Rightarrow>
          let r = r\<lparr>req_URLParam := params\<rparr> in
          (case endpoint of
             ReportV2Full \<Rightarrow> getReportV2FullHandler lib env r w
           | ReportV2Table \<Rightarrow> getReportV2TableHandler lib env r w
           | ReportV1 \<Rightarrow> getReportV1Handler lib env r w
           | CollectMetrics \<Rightarrow> collectPrometheusMetricsDataHandler lib collectorFunc r w
           | StoreMetrics \<Rightarrow> storePrometheusMetricsDataHandler lib env r w
           | FetchMetrics \<Rightarrow> fetchPrometheusMetricsDataHandler lib env r w))"

end
