(* ===== verification/Http_Responses.thy ===== *)
theory Http_Responses
  imports Http_Api Presto_Tables Dependencies
begin

text \<open>
  What the HTTP API serves: a CSV document reads back as the table of the results, values of hidden columns have no influence on the
  tables, a request for a report sends at most one SELECT to Presto, and what happens to a response that fails half way.
\<close>

section \<open>CSV documents\<close>

text \<open>The lines of the results up to the first value that cannot be printed, and the error it gives.\<close>

fun csv_table :: "http_lib \<Rightarrow> string list \<Rightarrow> Row list \<Rightarrow> string list list \<times> goerror option" where
  "csv_table lib keys [] = ([], None)"
| "csv_table lib keys (row # rows) =
     (case mapR (csv_cell lib row) keys of
        Inl e \<Rightarrow> ([], Some e)
      | Inr vals \<Rightarrow> (vals # fst (csv_table lib keys rows), snd (csv_table lib keys rows)))"

definition csv_text :: "char \<Rightarrow> string list \<Rightarrow> string list list \<Rightarrow> string" where
  "csv_text d keys table = concat (map (csv_line d) (keys # table))"

definition csv_document :: "ReportQueryColumn list \<Rightarrow> string list list \<Rightarrow> string" where
  "csv_document columns table = csv_text (CHR '','') (map rqc_Name columns) table"

lemma csv_Write_buffered: "csv_Write (Write up) d vals (buffered w s) = (None, buffered w (s @ csv_line d vals))"
  by (simp add: csv_Write_def WriteString_buffered)

lemma csv_rows_buffered:
  "csv_rows lib (Write up) d keys rows (buffered w s) =
     (snd (csv_table lib keys rows), buffered w (s @ concat (map (csv_line d) (fst (csv_table lib keys rows)))))"
  by (induction rows arbitrary: s) (auto simp: csv_Write_buffered split: sum.split)

lemma writeResultsAsCSV_up:
  assumes "results \<noteq> []" and "csv_table lib (map rqc_Name columns) results = (table, err)"
  shows "writeResultsAsCSV lib columns results (Write up) w d =
     (err, send ((if err = None then (\<lambda>s. s) else flushed) (csv_text d (map rqc_Name columns) table)) w)"
  using assms
  by (simp add: writeResultsAsCSV_def csv_header_def csv_text_def NewWriter_buffered csv_Write_buffered csv_rows_buffered
      Flush_buffered Let_def split: option.split)

lemma csv_table_width: "table = fst (csv_table lib keys rows) \<Longrightarrow> \<forall>vals \<in> set table. length vals = length keys"
  by (induction rows arbitrary: table) (auto dest: mapR_length split: sum.splits)

definition fresh :: "response_writer \<Rightarrow> bool" where
  "fresh w \<longleftrightarrow> rw_sent w = None \<and> rw_body w = []"

definition csvHeaders :: "string \<Rightarrow> response_writer \<Rightarrow> response_writer" where
  "csvHeaders name w =
     Header_Set ''Content-Disposition'' (''attachment;filename='' @ name @ ''.csv'') (Header_Set ''Content-Type'' ''text/csv'' w)"

lemma fresh_csvHeaders [simp]: "fresh (csvHeaders name w) = fresh w"
  by (simp add: fresh_def csvHeaders_def Header_Set_def)

text \<open>A response that has something in its body has its status.\<close>

lemma send_fresh:
  "fresh w \<Longrightarrow> s \<noteq> [] \<Longrightarrow> rw_body (send s w) = s \<and> rw_sent (send s w) = Some (200, rw_Header w)"
  by (simp add: fresh_def send_def WriteHeader_def)

text \<open>
  C27: a CSV response to which every value of the results could be printed has the status 200, and a reader of CSV gets back the
  names of the columns and then, row by row, the printed values.
\<close>

theorem csv_response_reads_back:
  assumes "hl_conn lib = up" and "fresh w" and "columns \<noteq> []" and "results \<noteq> []"
    and "csv_table lib (map rqc_Name columns) results = (table, None)"
  shows "status (writeResultsResponseAsCSV lib name columns results w) = 200 \<and>
    csv_read (CHR '','') (rw_body (writeResultsResponseAsCSV lib name columns results w)) =
      Some (map rqc_Name columns # table)"
proof -
  define doc where "doc = csv_text (CHR '','') (map rqc_Name columns) table"
  have "doc \<noteq> []" by (simp add: doc_def csv_text_def csv_line_def)
  then have sent: "rw_body (send doc (csvHeaders name w)) = doc"
      "rw_sent (send doc (csvHeaders name w)) = Some (200, rw_Header (csvHeaders name w))"
    using assms(2) send_fresh [of "csvHeaders name w" doc] by auto
  have "writeResultsResponseAsCSV lib name columns results w = send doc (csvHeaders name w)"
    using writeResultsAsCSV_up [OF assms(4,5), of "csvHeaders name w" "CHR '',''"] assms(1) sent(2)
    by (simp add: writeResultsResponseAsCSV_def csvHeaders_def doc_def Let_def)
  moreover have "\<forall>vals \<in> set (map rqc_Name columns # table). vals \<noteq> []"
    using csv_table_width [of table lib "map rqc_Name columns" results] assms(3,5) by auto
  then have "csv_read (CHR '','') doc = Some (map rqc_Name columns # table)"
    unfolding doc_def csv_text_def by (rule csv_read_lines) (simp add: csv_delim_def)
  ultimately show ?thesis using sent by (simp add: status_def)
qed

text \<open>
  When a value cannot be printed (one of a map type, say), the error is sent with the status 500 only while the lines before it
  fit into the buffer. After that the status is 200, and the body is the part of the CSV text that was already sent, followed by the error
  as JSON.
\<close>

theorem csv_failure_after_flush:
  assumes "hl_conn lib = up" and "fresh w" and "results \<noteq> []"
    and "csv_table lib (map rqc_Name columns) results = (table, Some e)"
    and "hl_Marshal lib (ErrorDoc (hl_Sprintf lib (Error e))) = Inr enc" and "enc \<noteq> []"
  shows "status (writeResultsResponseAsCSV lib name columns results w) = (if length (csv_document columns table) \<le> 4096 then 500 else 200) \<and>
    rw_body (writeResultsResponseAsCSV lib name columns results w) = flushed (csv_document columns table) @ enc"
proof -
  define doc where "doc = csv_text (CHR '','') (map rqc_Name columns) table"
  have empty: "flushed doc = [] \<longleftrightarrow> length doc \<le> 4096"
    using length_flushed [of doc] by (cases "length doc") (auto simp: defaultBufSize_def)
  have "writeResultsResponseAsCSV lib name columns results w =
      writeErrorResponse lib (send (flushed doc) (csvHeaders name w)) 500 (hl_Sprintf lib (Error e))"
    using writeResultsAsCSV_up [OF assms(3,4), of "csvHeaders name w" "CHR '',''"] assms(1)
    by (simp add: writeResultsResponseAsCSV_def csvHeaders_def doc_def Let_def)
  moreover have "fresh (csvHeaders name w)" using assms(2) by simp
  ultimately show ?thesis
    using empty assms(1,5,6)
    by (auto simp: csv_document_def doc_def [symmetric] writeErrorResponse_def writeResponseAsJSON_def Write_up send_def WriteHeader_def Header_Set_def
        fresh_def status_def split: option.splits)
qed

text \<open>A concrete instance of the parameters, for the witnesses.\<close>

definition sample_lib :: http_lib where
  "sample_lib =
     \<lparr>hl_conn = up,
      hl_json = \<lparr>lib_MarshalRow = \<lambda>_. Inl (Err ''json''), lib_MarshalValue = \<lambda>_. Inl (Err ''json''),
        lib_UnmarshalMap = \<lambda>_. Inl (Err ''json''), lib_UnmarshalSlice = \<lambda>_. Inl (Err ''json''),
        lib_UnmarshalAny = \<lambda>_. Inl (Err ''json'')\<rparr>,
      hl_Marshal = \<lambda>d. Inr (case d of ErrorDoc m \<Rightarrow> ''{error}'' | _ \<Rightarrow> ''{}''),
      hl_Sprintf = \<lambda>m. m, hl_fmt_float = \<lambda>_. ''0.000000'', hl_fmt_t = \<lambda>_. ''%!t'', hl_fmt_v = \<lambda>_. ''map[]'',
      hl_tabs = \<lambda>_ _ _. [], hl_tabs_flush = \<lambda>_ s. [s], hl_Parse_RFC3339 = \<lambda>_. Inl (Err ''time''), hl_to_int = \<lambda>_. 0,
      hl_bufferCap = 1000000\<rparr>"

definition column :: "string \<Rightarrow> bool \<Rightarrow> ReportQueryColumn" where
  "column name hidden = \<lparr>rqc_Name = name, rqc_Type = ''varchar'', rqc_TableHidden = hidden, rqc_Unit = []\<rparr>"

lemma sample_lib_simps [simp]:
  "hl_conn sample_lib = up" "hl_Marshal sample_lib (ErrorDoc m) = Inr ''{error}''" "hl_Sprintf sample_lib m = m"
  by (simp_all add: sample_lib_def)

theorem csv_response_reads_back_witness:
  "csv_read (CHR '','') (rw_body (writeResultsResponseAsCSV sample_lib ''q'' [column ''pod'' False, column ''x'' False]
     [[(''pod'', PVString ''a,b''), (''x'', PVBool True)]] new_response)) = Some [[''pod'', ''x''], [''a,b'', ''true'']]"
  using csv_response_reads_back [of sample_lib new_response "[column ''pod'' False, column ''x'' False]"
      "[[(''pod'', PVString ''a,b''), (''x'', PVBool True)]]" "[[''a,b'', ''true'']]" "''q''"]
  by (simp add: fresh_def new_response_def column_def csv_cell_def)

theorem csv_failure_after_flush_witness:
  "status (writeResultsResponseAsCSV sample_lib ''q'' [column ''labels'' False]
     [[(''labels'', PVString ''a'')], [(''labels'', PVMap [])]] new_response) = 500"
  using csv_failure_after_flush [of sample_lib new_response "[[(''labels'', PVString ''a'')], [(''labels'', PVMap [])]]"
      "[column ''labels'' False]" "[[''a'']]"
      "Err (''error marshalling csv: unknown type '' @ hl_fmt_t sample_lib (PVMap []) @ '' for value '' @ hl_fmt_v sample_lib (PVMap []))"
      "''{error}''" "''q''"]
  by (simp add: fresh_def new_response_def column_def csv_cell_def csv_document_def csv_text_def csv_line_def csv_field_def
      fieldNeedsQuotes_def)

section \<open>Hidden columns\<close>

text \<open>A name is hidden when the last column of that name is.\<close>

definition hiddenName :: "ReportQueryColumn list \<Rightarrow> string \<Rightarrow> bool" where
  "hiddenName columns k \<longleftrightarrow> rqc_TableHidden (map_get noColumn (columnsByName columns) k)"

definition visible :: "ReportQueryColumn list \<Rightarrow> Row \<Rightarrow> Row" where
  "visible columns row = filter (\<lambda>(k, _). \<not> hiddenName columns k) row"

lemma columnsByName_wf:
  "distinct (map fst (columnsByName columns)) \<and> (\<forall>(k, c) \<in> set (columnsByName columns). rqc_Name c = k)"
proof -
  have "distinct (map fst (fold (\<lambda>column m. map_set (rqc_Name column) column m) columns m)) \<and>
      (\<forall>(k, c) \<in> set (fold (\<lambda>column m. map_set (rqc_Name column) column m) columns m). rqc_Name c = k)"
    if "distinct (map fst m)" and "\<forall>(k, c) \<in> set m. rqc_Name c = k" for m
    using that
  proof (induction columns arbitrary: m)
    case (Cons c columns)
    have "\<forall>(k, c') \<in> set (map_set (rqc_Name c) c m). rqc_Name c' = k"
    proof clarify
      fix k c'
      assume "(k, c') \<in> set (map_set (rqc_Name c) c m)"
      then have "map_of (map_set (rqc_Name c) c m) k = Some c'"
        using Cons.prems(1) by (simp add: map_of_is_SomeI del: map_of_map_set)
      then show "rqc_Name c' = k"
        using Cons.prems(2) by (auto split: if_splits dest: map_of_SomeD)
    qed
    then show ?case using Cons.IH [of "map_set (rqc_Name c) c m"] Cons.prems(1) by simp
  qed simp
  from this [of "[]"] show ?thesis by (simp add: columnsByName_def)
qed

lemma fold_delete:
  "fold (\<lambda>x row. if P x then map_del (f x) row else row) xs row =
     filter (\<lambda>(k, _). \<not> (\<exists>x \<in> set xs. P x \<and> f x = k)) row"
proof (induction xs arbitrary: row)
  case (Cons x xs)
  have "map_del k row = filter (\<lambda>(j, _). k \<noteq> j) row" for k
    by (simp add: map_del_def AList.delete_eq)
  with Cons show ?case by (auto intro!: filter_cong simp: split_beta)
qed simp

lemma filterRow_visible: "filterRow True (columnsByName columns) row = visible columns row"
proof -
  let ?m = "columnsByName columns"
  have m: "map_get noColumn ?m (rqc_Name c) = c \<and> rqc_Name c = k" if "(k, c) \<in> set ?m" for k c
    using that columnsByName_wf [of columns] by (auto simp: map_get_def map_of_is_SomeI)
  have "filterRow True ?m row =
      filter (\<lambda>(k, _). \<not> (\<exists>x \<in> set ?m. rqc_TableHidden (map_get noColumn ?m (rqc_Name (snd x))) \<and>
        rqc_Name (map_get noColumn ?m (rqc_Name (snd x))) = k)) row"
    unfolding filterRow_def Let_def by (subst fold_delete [symmetric]) (auto intro!: fold_cong)
  also have "\<dots> = visible columns row"
    unfolding visible_def
  proof (rule filter_cong [OF refl], clarify)
    fix k v
    have "(\<exists>x \<in> set ?m. rqc_TableHidden (map_get noColumn ?m (rqc_Name (snd x))) \<and>
        rqc_Name (map_get noColumn ?m (rqc_Name (snd x))) = k) \<longleftrightarrow> (\<exists>c. (k, c) \<in> set ?m \<and> rqc_TableHidden c)" (is "?L \<longleftrightarrow> ?R")
    proof
      assume ?L
      then obtain j c where "(j, c) \<in> set ?m" "rqc_TableHidden (map_get noColumn ?m (rqc_Name c))"
        "rqc_Name (map_get noColumn ?m (rqc_Name c)) = k" by auto
      with m [of j c] show ?R by auto
    next
      assume ?R
      then obtain c where "(k, c) \<in> set ?m" "rqc_TableHidden c" by blast
      with m [of k c] show ?L by (intro bexI [of _ "(k, c)"]) auto
    qed
    also have "\<dots> \<longleftrightarrow> hiddenName columns k"
    proof -
      have "(k, c) \<in> set ?m \<longleftrightarrow> map_of ?m k = Some c" for c
        using map_of_eq_Some_iff [of ?m k c] columnsByName_wf [of columns] by blast
      then show ?thesis
        by (cases "map_of ?m k") (simp_all add: hiddenName_def map_get_def noColumn_def)
    qed
    finally show "(\<not> (\<exists>x \<in> set ?m. rqc_TableHidden (map_get noColumn ?m (rqc_Name (snd x))) \<and>
        rqc_Name (map_get noColumn ?m (rqc_Name (snd x))) = k)) = (\<not> hiddenName columns k)" by simp
  qed
  finally show ?thesis .
qed

text \<open>The requests whose answers are tables.\<close>

definition servesTable :: "bool \<Rightarrow> bool \<Rightarrow> string \<Rightarrow> bool" where
  "servesTable useNewFormat full format \<longleftrightarrow>
     \<not> useNewFormat \<or> \<not> full \<or> ToLower format \<in> {''csv'', ''tab'', ''tabular''}"

text \<open>
  C26: the values of hidden columns have no influence on what the first version of the API, the table endpoint and the CSV and tabular formats
  serve: results that agree on the visible columns give the same response.
\<close>

theorem hidden_columns_not_served:
  assumes "servesTable useNewFormat full format"
    and "map (visible (q_Columns query)) results = map (visible (q_Columns query)) results'"
    and "map length results = map length results'"
  shows "serveResults lib format useNewFormat full query prestoTable (Inr results) r w =
    serveResults lib format useNewFormat full query prestoTable (Inr results') r w"
proof -
  have eq: "map (filterRow True (columnsByName (q_Columns query))) results =
      map (filterRow True (columnsByName (q_Columns query))) results'"
    using assms(2) by (simp add: fun_eq_iff filterRow_visible cong: map_cong)
  have len: "results = [] \<longleftrightarrow> results' = []" "results \<noteq> [] \<Longrightarrow> length (hd results) = length (hd results')"
    using assms(3) by (cases results; cases results'; auto)+
  have "writeResultsResponseV1 lib format (Name query) (q_Columns query) results r w =
      writeResultsResponseV1 lib format (Name query) (q_Columns query) results' r w"
    by (simp add: writeResultsResponseV1_def eq)
  moreover have "useNewFormat \<Longrightarrow> writeResultsResponseV2 lib full format (Name query) (q_Columns query) results r w =
      writeResultsResponseV2 lib full format (Name query) (q_Columns query) results' r w"
    using assms(1) by (auto simp: writeResultsResponseV2_def servesTable_def eq Let_def)
  ultimately show ?thesis using len by (auto simp: serveResults_def)
qed

definition get_request :: "string \<Rightarrow> request" where
  "get_request path = \<lparr>req_Method = ''GET'', req_Path = path, req_ParseForm = None, req_Form = [], req_URLParam = [],
     req_Collect = Inr (0, 0), req_Store = \<lparr>body_Open = None, body_Items = [], body_Close = None\<rparr>\<rparr>"

definition hidden_query :: ReportQuery where
  "hidden_query = (meta_query ''q'' [])\<lparr>q_Columns := [column ''a'' False, column ''b'' True]\<rparr>"

theorem hidden_columns_not_served_witness:
  "serveResults sample_lib ''csv'' True True hidden_query (sample_presto_table True None)
     (Inr [[(''a'', PVString ''x''), (''b'', PVString ''secret'')]]) (get_request ''/'') new_response =
   serveResults sample_lib ''csv'' True True hidden_query (sample_presto_table True None)
     (Inr [[(''a'', PVString ''x''), (''b'', PVNull)]]) (get_request ''/'') new_response"
proof -
  have "servesTable True True ''csv''" by code_simp
  then show ?thesis
    by (rule hidden_columns_not_served)
      (simp_all add: hidden_query_def visible_def hiddenName_def columnsByName_def map_set_def map_get_def column_def)
qed

section \<open>Requests for reports\<close>

text \<open>The report is there and has not failed, or its failure is ignored.\<close>

definition servable :: "'x lister_env_scheme \<Rightarrow> history \<Rightarrow> request \<Rightarrow> string \<Rightarrow> string \<Rightarrow> PrestoTable \<Rightarrow> string \<Rightarrow> bool" where
  "servable env h r namespace name prestoTable tableName \<longleftrightarrow>
     (\<exists>report query. lister_Report env h namespace name = Inr report \<and>
        (failedState report = None \<or> FormValue r ''ignore_failed'' = ''true'') \<and>
        lister_ReportQuery env h (Namespace report) (rspec_QueryName (r_Spec report)) = Inr query \<and>
        lister_PrestoTable env h (Namespace report) (TableResourceNameFromKind ''report'' (Namespace report) (Name report)) =
          Inr prestoTable \<and>
        ptst_Columns (pt_Status prestoTable) \<noteq> [] \<and> FullyQualifiedTableName prestoTable = Inr tableName)"

lemma findReportTable_silent: "snd (run_state (findReportTable lib env name namespace r w) h) = h"
  by (simp add: findReportTable_def split: sum.split option.split)

lemma findReportTable_servable:
  assumes "run_state (findReportTable lib env name namespace r w) h = (Inr (q, t, n), h')"
  shows "servable env h r namespace name t n"
  using assms
  by (auto simp: findReportTable_def servable_def split: sum.splits option.splits if_splits)

lemma run_GetReportResults: "snd (run_state (GetReportResults env n cols) h) = h @ [PrestoQuery (GenerateGetRowsSQL n cols)]"
  by (simp add: presto_op_defs ExecuteSelect_def queryM_def split: prod.split)

text \<open>
  A request for a report sends nothing, or exactly one statement: the SELECT of the recorded columns from the table of the
  report, and only for a report that is there and whose last generation did not fail, or whose failure is to be ignored.
\<close>

theorem report_request_only_selects:
  assumes "run_state (getReport lib env name namespace format useNewFormat full r w) h = (answer, h')"
  shows "h' = h \<or>
    (\<exists>t n. servable env h r namespace name t n \<and>
       h' = h @ [PrestoQuery (GenerateGetRowsSQL n (ptst_Columns (pt_Status t)))])"
proof -
  obtain found where found: "run_state (findReportTable lib env name namespace r w) h = (found, h)"
    using findReportTable_silent [of lib env name namespace r w h] by (cases "run_state (findReportTable lib env name namespace r w) h") simp
  show ?thesis
  proof (cases found)
    case (Inl answer')
    with assms found show ?thesis by (simp add: getReport_def)
  next
    case (Inr qtn)
    obtain q t n where qtn: "qtn = (q, t, n)" by (cases qtn)
    obtain res where "run_state (GetReportResults env n (ptst_Columns (pt_Status t))) h =
        (res, h @ [PrestoQuery (GenerateGetRowsSQL n (ptst_Columns (pt_Status t)))])"
      using run_GetReportResults [of env n "ptst_Columns (pt_Status t)" h]
      by (cases "run_state (GetReportResults env n (ptst_Columns (pt_Status t))) h") simp
    with assms found Inr qtn have "h' = h @ [PrestoQuery (GenerateGetRowsSQL n (ptst_Columns (pt_Status t)))]"
      by (simp add: getReport_def)
    with findReportTable_servable [OF found [unfolded Inr qtn]] show ?thesis by blast
  qed
qed

definition http_report :: Report where
  "http_report = \<lparr>Name = ''r'', Namespace = ''ns'', Labels = [], Annotations = [], Finalizers = [],
     DeletionTimestamp = None, ResourceVersion = ''1'', OwnerReferences = [],
     r_Spec = \<lparr>rspec_QueryName = ''q'', rspec_Schedule = None, rspec_ReportingStart = None,
       rspec_ReportingEnd = None, rspec_OverwriteExistingData = False, rspec_RunImmediately = True,
       rspec_Inputs = [], rspec_Output = None\<rparr>,
     r_Status = \<lparr>rstat_Conditions = [], rstat_LastReportTime = None, rstat_NextReportTime = None, rstat_TableRef = ''t''\<rparr>\<rparr>"

definition http_table :: PrestoTable where
  "http_table = (sample_presto_table True None)\<lparr>pt_Status := empty_PrestoTableStatus\<lparr>ptst_Catalog := ''hive'',
     ptst_Schema := ''metering'', ptst_TableName := ''tbl'', ptst_Columns := [\<lparr>col_Name = ''a'', col_Type = ''varchar''\<rparr>]\<rparr>\<rparr>"

definition http_env :: env where
  "http_env = quiet_env\<lparr>lister_Report := \<lambda>_ _ _. Inr http_report, lister_ReportQuery := \<lambda>_ _ _. Inr hidden_query,
     lister_PrestoTable := \<lambda>_ _ _. Inr http_table\<rparr>"

theorem report_request_only_selects_witness:
  "\<exists>t n. servable http_env [] (get_request ''/'') ''ns'' ''r'' t n \<and>
     snd (run_state (getReport sample_lib http_env ''r'' ''ns'' ''csv'' True True (get_request ''/'') new_response) []) =
       [PrestoQuery (GenerateGetRowsSQL n (ptst_Columns (pt_Status t)))]"
proof -
  let ?run = "run_state (getReport sample_lib http_env ''r'' ''ns'' ''csv'' True True (get_request ''/'') new_response) []"
  have "snd ?run \<noteq> []"
    by (simp add: getReport_def findReportTable_def http_env_def http_report_def http_table_def failedState_def
        GetReportCondition_def FullyQualifiedTableName_def presto_op_defs ExecuteSelect_def queryM_def)
  with report_request_only_selects [of sample_lib http_env "''r''" "''ns''" "''csv''" True True "get_request ''/''" new_response
      "[]" "fst ?run" "snd ?run"]
  show ?thesis by auto
qed

section \<open>Importing on demand\<close>

definition collectPath :: "string \<Rightarrow> string" where
  "collectPath rest = ''/api/v1/datasources/prometheus/collect/'' @ rest"

lemma Split_no_slash: "CHR ''/'' \<notin> set s \<Longrightarrow> Split s (CHR ''/'') = [s]"
  by (rule Split_no_sep)

lemma route_collect:
  assumes "CHR ''/'' \<notin> set ns" "ns \<noteq> []" "CHR ''/'' \<notin> set ds" "ds \<noteq> []"
  shows "route (collectPath ns) = Some (CollectMetrics, [(''namespace'', ns)])"
    and "route (collectPath (ns @ ''/'' @ ds)) = Some (CollectMetrics, [(''namespace'', ns), (''datasourceName'', ds)])"
  using assms
  by (simp_all add: route_def routes_def matchPattern_def collectPath_def Split_no_sep Split_append)

text \<open>
  The endpoint for importing one data source ignores its name: it does what the endpoint for the whole namespace does, because the
  handler reads a URL parameter that the route does not have.
\<close>

theorem collect_ignores_datasource:
  assumes "CHR ''/'' \<notin> set ns" "ns \<noteq> []" "CHR ''/'' \<notin> set ds" "ds \<noteq> []"
  shows "serveHTTP lib env collectorFunc (r\<lparr>req_Path := collectPath (ns @ ''/'' @ ds)\<rparr>) w =
    serveHTTP lib env collectorFunc (r\<lparr>req_Path := collectPath ns\<rparr>) w"
  using route_collect [OF assms]
  by (simp add: serveHTTP_def collectPrometheusMetricsDataHandler_def URLParam_def map_get_def Let_def split: sum.split)

theorem collect_ignores_datasource_witness:
  "serveHTTP sample_lib quiet_env (\<lambda>_ _ _ _. State_Monad.return (Inr []))
     (get_request [] \<lparr>req_Path := collectPath (''ns'' @ ''/'' @ ''ds'')\<rparr>) new_response =
   serveHTTP sample_lib quiet_env (\<lambda>_ _ _ _. State_Monad.return (Inr []))
     (get_request [] \<lparr>req_Path := collectPath ''ns''\<rparr>) new_response"
  by (rule collect_ignores_datasource) simp_all

text \<open>A negative padding makes the handler of the tabular format panic.\<close>

lemma negative_padding_panics:
  assumes "FormValue r ''padding'' = ''-1''"
  shows "writeResultsResponseAsTabular lib name columns results r w = Inl (GoPanic ''negative minwidth, tabwidth, or padding'')"
proof -
  have "Atoi ''-1'' = Inr (- 1)" by code_simp
  with assms show ?thesis
    by (simp add: writeResultsResponseAsTabular_def tabular_padding_def tabwriter_NewWriter_def Let_def)
qed

end
