(* ===== verification/Go_Paths.thy ===== *)
theory Go_Paths
  imports Effects
begin

text \<open>
  Slash-separated paths as Go's \<^verbatim>\<open>path\<close> package treats them, and \<^verbatim>\<open>path/filepath\<close> on Unix likewise: \<^verbatim>\<open>Clean\<close>, \<^verbatim>\<open>Split\<close>, \<^verbatim>\<open>Dir\<close> and
  \<^verbatim>\<open>Join\<close>.
\<close>

section \<open>Definitions\<close>

text \<open>The elements of a path one after the other: empty ones and \<^verbatim>\<open>.\<close> vanish, \<^verbatim>\<open>..\<close> removes the element before it.\<close>

definition clean_step :: "bool \<Rightarrow> string list \<Rightarrow> string \<Rightarrow> string list" where
  "clean_step rooted out e =
     (if e = [] \<or> e = ''.'' then out
      else if e = ''..'' then
        (if out \<noteq> [] \<and> last out \<noteq> ''..'' then butlast out else if rooted then out else out @ [e])
      else out @ [e])"

definition Clean :: "string \<Rightarrow> string" where
  "Clean p =
     (if p = [] then ''.''
      else
        let rooted = (hd p = CHR ''/'');
            out = (if rooted then ''/'' else []) @ join ''/'' (foldl (clean_step rooted) [] (Split p (CHR ''/'')))
        in if out = [] then ''.'' else out)"

text \<open>The directory of a path with its final slash, and the file after it.\<close>

definition path_Split :: "string \<Rightarrow> string \<times> string" where
  "path_Split p =
     (rev (dropWhile (\<lambda>c. c \<noteq> CHR ''/'') (rev p)), rev (takeWhile (\<lambda>c. c \<noteq> CHR ''/'') (rev p)))"

definition path_Dir :: "string \<Rightarrow> string" where
  "path_Dir p = Clean (fst (path_Split p))"

definition path_Join :: "string list \<Rightarrow> string" where
  "path_Join elems = (let es = filter (\<lambda>e. e \<noteq> []) elems in if es = [] then [] else Clean (join ''/'' es))"

definition TrimPrefix :: "string \<Rightarrow> string \<Rightarrow> string" where
  "TrimPrefix s p = (if HasPrefix s p then drop (length p) s else s)"

section \<open>Lemmas\<close>

text \<open>The names that a path keeps as they are.\<close>

definition plain_name :: "string \<Rightarrow> bool" where
  "plain_name s \<longleftrightarrow> s \<noteq> [] \<and> s \<noteq> ''.'' \<and> s \<noteq> ''..'' \<and> CHR ''/'' \<notin> set s"

lemma clean_plain: "\<forall>e \<in> set es. plain_name e \<Longrightarrow> foldl (clean_step rooted) out es = out @ es"
proof (induction es arbitrary: out)
  case (Cons e es)
  then have "clean_step rooted out e = out @ [e]" by (simp add: clean_step_def plain_name_def)
  with Cons show ?case by simp
qed simp

lemma Split_join:
  "es \<noteq> [] \<Longrightarrow> \<forall>e \<in> set es. sep \<notin> set e \<Longrightarrow> Split (join [sep] es) sep = es"
proof (induction es)
  case (Cons e es)
  then show ?case by (cases es) (simp_all add: Split_no_sep Split_append)
qed simp

lemma path_Split_file: "CHR ''/'' \<notin> set f \<Longrightarrow> path_Split (d @ CHR ''/'' # f) = (d @ ''/'', f)"
proof -
  assume "CHR ''/'' \<notin> set f"
  then have "\<forall>c \<in> set (rev f). c \<noteq> CHR ''/''" by auto
  then show ?thesis by (simp add: path_Split_def dropWhile_append takeWhile_append)
qed

lemma path_Split_no_slash: "CHR ''/'' \<notin> set f \<Longrightarrow> path_Split f = ([], f)"
proof -
  assume "CHR ''/'' \<notin> set f"
  then have *: "\<forall>c \<in> set (rev f). c \<noteq> CHR ''/''" by auto
  then have t: "takeWhile (\<lambda>c. c \<noteq> CHR ''/'') (rev f) = rev f" by (simp only: takeWhile_eq_all_conv)
  show ?thesis unfolding path_Split_def t using * by simp
qed

text \<open>The directory of a file below plain directories is their path; without any it is a dot.\<close>

lemma path_Dir_plain:
  assumes "\<forall>d \<in> set ds. plain_name d" and "CHR ''/'' \<notin> set f"
  shows "path_Dir (join ''/'' (ds @ [f])) = (if ds = [] then ''.'' else join ''/'' ds)"
proof (cases "ds = []")
  case True
  with assms show ?thesis by (simp add: path_Dir_def path_Split_no_slash Clean_def)
next
  case False
  then obtain d ds' where ds: "ds = d # ds'" by (cases ds) auto
  have s: "path_Split (join ''/'' (ds @ [f])) = (join ''/'' ds @ ''/'', f)"
    using path_Split_file [OF assms(2), of "join ''/'' ds"] False by (simp add: join_snoc)
  have e: "join ''/'' ds @ ''/'' = join ''/'' (ds @ [[]])" using False by (simp add: join_snoc)
  have p: "Split (join ''/'' (ds @ [[]])) (CHR ''/'') = ds @ [[]]"
    using assms(1) by (intro Split_join) (auto simp: plain_name_def)
  have h: "join ''/'' ds \<noteq> []" "hd (join ''/'' ds) \<noteq> CHR ''/''"
    using assms(1) ds by (cases d; cases ds'; auto simp: plain_name_def)+
  then have "join ''/'' (ds @ [[]]) \<noteq> []" "hd (join ''/'' (ds @ [[]])) \<noteq> CHR ''/''" using e [symmetric] by simp_all
  then show ?thesis
    using False h(1) s e p clean_plain [OF assms(1), of False "[]"]
    by (simp add: path_Dir_def Clean_def Let_def clean_step_def)
qed

lemma TrimPrefix_append [simp]: "TrimPrefix (p @ s) p = s"
  by (simp add: TrimPrefix_def HasPrefix_def)

lemma fst_path_Split_Nil: "fst (path_Split p) = [] \<longleftrightarrow> CHR ''/'' \<notin> set p"
proof -
  have "fst (path_Split p) = [] \<longleftrightarrow> (\<forall>c \<in> set (rev p). c \<noteq> CHR ''/'')" by (simp add: path_Split_def dropWhile_eq_Nil_conv)
  then show ?thesis by auto
qed

lemma slash_in_join: "\<forall>d \<in> set ds. CHR ''/'' \<notin> set d \<Longrightarrow> CHR ''/'' \<in> set (join ''/'' ds) \<longleftrightarrow> 2 \<le> length ds"
proof (induction ds)
  case (Cons d ds)
  then show ?case by (cases ds) auto
qed simp

end
