(* ===== verification/AWS_Billing.thy ===== *)
theory AWS_Billing
  imports Go_Paths Reports
begin

text \<open>
  AWS billing data: the manifests in an S3 bucket (\<^verbatim>\<open>pkg/aws\<close>), the external Hive table over them and its partitions
  (\<^verbatim>\<open>pkg/operator/aws_usage_hive.go\<close>, \<^verbatim>\<open>S3Location\<close> of \<^verbatim>\<open>pkg/hive/table.go\<close>). The AWS client, the JSON decoder
  and the parsers of times and URLs are parameters.
\<close>

section \<open>Manifests\<close>

record AWSColumn =
  ac_Category :: string
  ac_Name :: string

record BillingPeriod =
  bp_Start :: go_time
  bp_End :: go_time

record Manifest =
  mf_AssemblyID :: string
  mf_Account :: string
  mf_Columns :: "AWSColumn list"
  mf_Charset :: string
  mf_Compression :: string
  mf_ContentType :: string
  mf_ReportID :: string
  mf_ReportName :: string
  mf_BillingPeriod :: BillingPeriod
  mf_Bucket :: string
  mf_ReportKeys :: "string list"
  mf_AdditionalArtifactKeys :: "string list"

text \<open>
  The libraries: the pages of keys that a listing delivers with the error that ends it, the body of an object, the JSON decoder
  with the decoding of times that it calls, \<^verbatim>\<open>time.Parse\<close> with the layout of the manifests, and a URL parsed and printed.
\<close>

record s3_lib =
  s3_ListObjectsV2Pages :: "history \<Rightarrow> string \<Rightarrow> string \<Rightarrow> string \<Rightarrow> string list list \<times> goerror option"
  s3_GetObject :: "history \<Rightarrow> string \<Rightarrow> string \<Rightarrow> string \<Rightarrow> goerror + string"
  json_Decode :: "(string \<Rightarrow> goerror + go_time) \<Rightarrow> string \<Rightarrow> goerror + Manifest"
  parse_manifestTime :: "string \<Rightarrow> goerror + go_time"
  url_Parse :: "string \<Rightarrow> goerror + string"

text \<open>\<^verbatim>\<open>Time.UnmarshalJSON\<close> strips the first and the last byte; a literal of one byte makes the slice expression panic.\<close>

definition UnmarshalJSON :: "s3_lib \<Rightarrow> string \<Rightarrow> goerror + go_time" where
  "UnmarshalJSON s3 b =
     (if length b < 2 then Inl (GoPanic ''runtime error: slice bounds out of range'')
      else parse_manifestTime s3 (take (length b - 2) (drop 1 b)))"

text \<open>The directories of the report keys, each once.\<close>

definition manifest_paths :: "Manifest \<Rightarrow> string list" where
  "manifest_paths m = foldl (\<lambda>paths key. if path_Dir key \<in> set paths then paths else paths @ [path_Dir key]) [] (mf_ReportKeys m)"

definition DataDirectory :: "Manifest \<Rightarrow> string" where
  "DataDirectory m = (case manifest_paths m of [] \<Rightarrow> [] | p # _ \<Rightarrow> p)"

section \<open>Retrieving the manifests\<close>

definition ManifestSuffix :: string where
  "ManifestSuffix = ''.json''"

definition isTopLevelManifest :: "string \<Rightarrow> string \<Rightarrow> bool" where
  "isTopLevelManifest pfx key \<longleftrightarrow>
     HasSuffix key ManifestSuffix \<and> fst (path_Split (path_Dir (TrimPrefix key pfx))) = []"

definition filterObjects :: "string \<Rightarrow> string list \<Rightarrow> string list" where
  "filterObjects pfx objects = filter (isTopLevelManifest pfx) objects"

definition retrieveManifest :: "s3_lib \<Rightarrow> string \<Rightarrow> string \<Rightarrow> string \<Rightarrow> (goerror + Manifest) op" where
  "retrieveManifest s3 region bucket key =
     bindM (call (\<lambda>h. s3_GetObject s3 h region bucket key) (S3GetObject bucket key)) (\<lambda>body.
       liftM (json_Decode s3 (UnmarshalJSON s3) body))"

fun retrieveKeys ::
  "s3_lib \<Rightarrow> string \<Rightarrow> string \<Rightarrow> string list \<Rightarrow> Manifest list \<Rightarrow> (goerror + Manifest list) op" where
  "retrieveKeys s3 region bucket [] manifests = State_Monad.return (Inr manifests)"
| "retrieveKeys s3 region bucket (key # keys) manifests =
     bindM (wrapM (wrap (\<lambda>m. ''can't get manifest from bucket '' @ squote @ bucket @ squote @ '' with key '' @
              squote @ key @ squote @ '': '' @ m)) (retrieveManifest s3 region bucket key))
       (\<lambda>manifest. retrieveKeys s3 region bucket keys (manifests @ [manifest]))"

text \<open>
  The pages one after the other. An error with a manifest ends the listing without an error of its own, so that the error
  of the listing is not reached.
\<close>

fun retrievePages ::
  "s3_lib \<Rightarrow> string \<Rightarrow> string \<Rightarrow> string \<Rightarrow> string list list \<Rightarrow> goerror option \<Rightarrow> Manifest list \<Rightarrow>
   (goerror + Manifest list) op" where
  "retrievePages s3 region bucket pfx [] listErr manifests =
     State_Monad.return
       (case listErr of
          Some e \<Rightarrow> Inl (wrap (\<lambda>m. ''could not list retrieve AWS billing report keys: '' @ m) e)
        | None \<Rightarrow> Inr manifests)"
| "retrievePages s3 region bucket pfx (page # pages) listErr manifests =
     bindM (retrieveKeys s3 region bucket (filterObjects pfx page) manifests) (\<lambda>manifests'.
       retrievePages s3 region bucket pfx pages listErr manifests')"

definition slashed :: "string \<Rightarrow> string" where
  "slashed pfx = (if length pfx = 0 then ''/'' else if last pfx \<noteq> CHR ''/'' then pfx @ ''/'' else pfx)"

definition RetrieveManifests :: "s3_lib \<Rightarrow> string \<Rightarrow> string \<Rightarrow> string \<Rightarrow> (goerror + Manifest list) op" where
  "RetrieveManifests s3 region bucket pfx = do {
     r \<leftarrow> call (\<lambda>h. s3_ListObjectsV2Pages s3 h region bucket (slashed pfx)) (S3ListObjects bucket (slashed pfx));
     (case r of (pages, listErr) \<Rightarrow> retrievePages s3 region bucket (slashed pfx) pages listErr [])
   }"

section \<open>The Hive table\<close>

definition S3Location :: "s3_lib \<Rightarrow> string \<Rightarrow> string \<Rightarrow> goerror + string" where
  "S3Location s3 bucket pfx =
     (let b = path_Join [bucket, pfx] in
      if b = [] then Inl (GoPanic ''runtime error: index out of range'')
      else url_Parse s3 (''s3a://'' @ (if last b \<noteq> CHR ''/'' then b @ ''/'' else b)))"

definition AWSUsageHivePartitions :: "Column list" where
  "AWSUsageHivePartitions =
     [\<lparr>col_Name = ''billing_period_start'', col_Type = ''string''\<rparr>, \<lparr>col_Name = ''billing_period_end'', col_Type = ''string''\<rparr>]"

definition AWSUsageHiveRowFormat :: string where
  "AWSUsageHiveRowFormat =
     nl @ ''SERDE '' @ squote @ ''org.apache.hadoop.hive.serde2.lazy.LazySimpleSerDe'' @ squote @ nl @
     ''WITH SERDEPROPERTIES ('' @ nl @
     ''    '' @ dquote @ ''serialization.format'' @ dquote @ '' = '' @ dquote @ '','' @ dquote @ '','' @ nl @
     ''    '' @ dquote @ ''field.delim'' @ dquote @ ''          = '' @ dquote @ '','' @ dquote @ '','' @ nl @
     ''    '' @ dquote @ ''collection.delim'' @ dquote @ ''     = '' @ dquote @ ''undefined'' @ dquote @ '','' @ nl @
     ''    '' @ dquote @ ''mapkey.delim'' @ dquote @ ''         = '' @ dquote @ ''undefined'' @ dquote @ '','' @ nl @
     ''    '' @ dquote @ ''timestamp.formats'' @ dquote @ ''    = '' @ dquote @ ''yyyy-MM-dd'' @ squote @ ''T'' @ squote @ ''HH:mm:ssZ'' @ dquote @ nl @
     '')'' @ nl"

definition SanetizeAWSColumnForHive :: "AWSColumn \<Rightarrow> string" where
  "SanetizeAWSColumnForHive col =
     ToLower (replace_char (CHR ''.'') (CHR ''_'') (replace_char (CHR '':'') (CHR ''_'')
       (TrimSpace (ac_Category col) @ ''_'' @ TrimSpace (ac_Name col))))"

definition AWSColumnToHiveColumnType :: "AWSColumn \<Rightarrow> string" where
  "AWSColumnToHiveColumnType c =
     (let n = SanetizeAWSColumnForHive c in
      if n = ''lineitem_usagestartdate'' \<or> n = ''lineitem_usageenddate'' then ''timestamp''
      else if n = ''lineitem_blendedcost'' then ''double'' else ''string'')"

text \<open>The columns of all manifests, the first of each name.\<close>

definition manifestColumns :: "Manifest list \<Rightarrow> Column list" where
  "manifestColumns manifests =
     foldl (\<lambda>columns c.
       if SanetizeAWSColumnForHive c \<in> col_Name ` set columns then columns
       else columns @ [\<lparr>col_Name = SanetizeAWSColumnForHive c, col_Type = AWSColumnToHiveColumnType c\<rparr>])
       [] (concat (map mf_Columns manifests))"

definition billingDatabase :: "'x lister_env_scheme \<Rightarrow> ReportDataSource \<Rightarrow> string \<Rightarrow> (goerror + string) op" where
  "billingDatabase env dataSource databaseName =
     bindM
       (if databaseName = [] then
          bindM (wrapM (wrap (\<lambda>m. ''storage incorrectly configured for ReportDataSource '' @ Name dataSource @ '', err: '' @ m))
                   (getHiveStorage env None (Namespace dataSource)))
            (\<lambda>hiveStorage. liftM
               (if hs_DatabaseName (the (sl_Spec_Hive hiveStorage)) = [] then
                  Inl (Err (''StorageLocation '' @ Name hiveStorage @ '' Hive database '' @
                    hs_DatabaseName (the (sl_Spec_Hive hiveStorage)) @ '' does not exist yet''))
                else Inr (hss_DatabaseName (sl_Status_Hive hiveStorage))))
        else liftM (Inr databaseName))
       (\<lambda>dbName. liftM
          (if dbName = [] then
             Inl (GoPanic (''unable to get dbName for ReportDataSource: '' @ Name dataSource @
               '': should properly return error when database cannot be determined''))
           else Inr dbName))"

definition billingTableParameters :: "string \<Rightarrow> string \<Rightarrow> string \<Rightarrow> Manifest list \<Rightarrow> TableParameters" where
  "billingTableParameters dbName tableName location manifests =
     \<lparr>tparams_Database = dbName, tparams_Name = tableName, tparams_Columns = manifestColumns manifests,
      tparams_PartitionedBy = AWSUsageHivePartitions, tparams_ClusteredBy = [], tparams_SortedBy = [], tparams_NumBuckets = 0,
      tparams_Location = location, tparams_RowFormat = AWSUsageHiveRowFormat, tparams_FileFormat = ''textfile'',
      tparams_TableProperties = None, tparams_External = True\<rparr>"

definition createAWSUsageHiveTableCR ::
  "'x client_env_scheme \<Rightarrow> op_config \<Rightarrow> s3_lib \<Rightarrow> ReportDataSource \<Rightarrow> string \<Rightarrow> string \<Rightarrow> string \<Rightarrow> string \<Rightarrow> Manifest list \<Rightarrow>
   (goerror + HiveTable) op" where
  "createAWSUsageHiveTableCR env cfg s3 dataSource databaseName tableName bucket pfx manifests =
     bindM (liftM (S3Location s3 bucket pfx)) (\<lambda>location.
       bindM (billingDatabase env dataSource databaseName) (\<lambda>dbName.
         let failed = wrap (\<lambda>m. ''error creating Hive table for ReportDataSource '' @ Name dataSource @ '': '' @ m) in
         bindM (wrapM failed (createHiveTableCR env cfg dataSource ''ReportDataSource''
             (billingTableParameters dbName tableName location manifests) True [])) (\<lambda>created.
           bindM (wrapM failed (waitForHiveTable env (Namespace created) (Name created) Second (30 * Second))) (\<lambda>hiveTable.
             bindM (wrapM (wrap (\<lambda>m. ''error creating table for ReportDataSource '' @ Name dataSource @ '': '' @ m))
                (waitForPrestoTable env (Namespace hiveTable) (Name hiveTable) Second (30 * Second))) (\<lambda>_.
               liftM (Inr hiveTable))))))"

section \<open>The partitions\<close>

fun getDesiredPartitions :: "s3_lib \<Rightarrow> string \<Rightarrow> Manifest list \<Rightarrow> goerror + TablePartition list" where
  "getDesiredPartitions s3 bucket [] = Inr []"
| "getDesiredPartitions s3 bucket (manifest # manifests) =
     bindR (S3Location s3 bucket (DataDirectory manifest)) (\<lambda>location.
       bindR (getDesiredPartitions s3 bucket manifests) (\<lambda>ps.
         Inr (\<lparr>tp_Location = location,
               tp_PartitionSpec = [(''start'', AWSBillingPeriodTimestamp (bp_Start (mf_BillingPeriod manifest))),
                                   (''end'', AWSBillingPeriodTimestamp (bp_End (mf_BillingPeriod manifest)))]\<rparr> # ps)))"

definition updateAWSBillingPartitions ::
  "'x client_env_scheme \<Rightarrow> s3_lib \<Rightarrow> S3Bucket \<Rightarrow> HiveTable \<Rightarrow> Manifest list \<Rightarrow> (goerror + unit) op" where
  "updateAWSBillingPartitions env s3 source hiveTable manifests =
     (if manifests = [] then State_Monad.return (Inr ())
      else
        bindM (liftM (getDesiredPartitions s3 (s3_Bucket source) manifests)) (\<lambda>ps.
          bindM (updateHiveTableM env (hiveTable\<lparr>ht_Spec := (ht_Spec hiveTable)\<lparr>hts_Partitions := ps\<rparr>\<rparr>)) (\<lambda>_.
            liftM (Inr ()))))"

section \<open>Properties\<close>

lemma distinct_manifest_paths: "distinct (manifest_paths m) \<and> set (manifest_paths m) = path_Dir ` set (mf_ReportKeys m)"
proof -
  have "distinct ps \<Longrightarrow>
      distinct (foldl (\<lambda>paths key. if path_Dir key \<in> set paths then paths else paths @ [path_Dir key]) ps keys) \<and>
      set (foldl (\<lambda>paths key. if path_Dir key \<in> set paths then paths else paths @ [path_Dir key]) ps keys) =
        set ps \<union> path_Dir ` set keys" for ps keys
    by (induction keys arbitrary: ps) auto
  then show ?thesis by (simp add: manifest_paths_def)
qed

lemma manifestColumns_unique: "distinct (map col_Name (manifestColumns manifests))"
proof -
  have "distinct (map col_Name cols) \<Longrightarrow>
      distinct (map col_Name (foldl (\<lambda>columns c.
        if SanetizeAWSColumnForHive c \<in> col_Name ` set columns then columns
        else columns @ [\<lparr>col_Name = SanetizeAWSColumnForHive c, col_Type = AWSColumnToHiveColumnType c\<rparr>]) cols cs))" for cols cs
    by (induction cs arbitrary: cols) auto
  then show ?thesis by (simp add: manifestColumns_def)
qed

lemma slashed_slash: "\<exists>p. slashed pfx = p @ ''/''"
proof (cases "slashed pfx = pfx")
  case True
  then have "pfx \<noteq> []" "last pfx = CHR ''/''" by (auto simp: slashed_def split: if_splits)
  then have "slashed pfx = butlast pfx @ ''/''" using True append_butlast_last_id [of pfx] by simp
  then show ?thesis ..
qed (auto simp: slashed_def split: if_splits)

text \<open>A suffix without a slash lies behind the last slash.\<close>

lemma suffix_after_slash:
  assumes "CHR ''/'' \<notin> set s"
  shows "suffix s (a @ CHR ''/'' # f) \<longleftrightarrow> suffix s f"
proof
  assume "suffix s (a @ CHR ''/'' # f)"
  then obtain x where "x @ s = a @ CHR ''/'' # f" by (auto simp: suffix_def)
  then obtain us where "x = a @ us \<and> us @ s = CHR ''/'' # f \<or> x @ us = a \<and> s = us @ CHR ''/'' # f"
    by (auto simp: append_eq_append_conv2)
  then show "suffix s f"
  proof
    assume "x = a @ us \<and> us @ s = CHR ''/'' # f"
    with assms show ?thesis by (cases us) (auto simp: suffix_def)
  qed (use assms in auto)
next
  assume "suffix s f"
  then obtain x where "f = x @ s" by (auto simp: suffix_def)
  then have "a @ CHR ''/'' # f = (a @ CHR ''/'' # x) @ s" by simp
  then show "suffix s (a @ CHR ''/'' # f)" unfolding suffix_def by blast
qed

text \<open>
  Of the files below the prefix exactly those are taken for manifests whose name ends in \<open>.json\<close> and that lie in a directory
  of the prefix or in the prefix itself; the copies in the directories of the assemblies are left out.
\<close>

theorem top_level_manifests:
  assumes "\<forall>d \<in> set ds. plain_name d" and "CHR ''/'' \<notin> set f"
  shows "slashed pfx @ join ''/'' (ds @ [f]) \<in> set (filterObjects (slashed pfx) keys) \<longleftrightarrow>
    slashed pfx @ join ''/'' (ds @ [f]) \<in> set keys \<and> HasSuffix f ''.json'' \<and> length ds \<le> 1"
proof -
  obtain p where p: "slashed pfx = p @ ''/''" using slashed_slash by blast
  have "\<exists>a. slashed pfx @ join ''/'' (ds @ [f]) = a @ CHR ''/'' # f"
    using p join_snoc [of ds "''/''" f] by (cases "ds = []") auto
  then have s: "HasSuffix (slashed pfx @ join ''/'' (ds @ [f])) ManifestSuffix \<longleftrightarrow> HasSuffix f ''.json''"
    using suffix_after_slash [of "''.json''"] by (auto simp: HasSuffix_def ManifestSuffix_def)
  have "\<forall>d \<in> set ds. CHR ''/'' \<notin> set d" using assms(1) by (simp add: plain_name_def)
  then have "fst (path_Split (path_Dir (join ''/'' (ds @ [f])))) = [] \<longleftrightarrow> length ds \<le> 1"
    using slash_in_join [of ds] by (auto simp: path_Dir_plain [OF assms] fst_path_Split_Nil)
  with s show ?thesis by (auto simp: filterObjects_def isTopLevelManifest_def)
qed

theorem top_level_manifests_witness:
  "filterObjects (slashed ''bill'') [''bill/2017/m.json'', ''bill/2017/asm/m.json'', ''bill/2017/data.csv''] = [''bill/2017/m.json'']"
proof -
  let ?keys = "[''bill/2017/m.json'', ''bill/2017/asm/m.json'', ''bill/2017/data.csv'']"
  have *: "\<forall>d \<in> set [''2017'']. plain_name d" "\<forall>d \<in> set [''2017'', ''asm'']. plain_name d" by (simp_all add: plain_name_def)
  have "''bill/2017/m.json'' \<in> set (filterObjects (slashed ''bill'') ?keys)"
    using top_level_manifests [OF *(1), of "''m.json''" "''bill''" ?keys] by (simp add: slashed_def HasSuffix_def suffix_def)
  moreover have "''bill/2017/asm/m.json'' \<notin> set (filterObjects (slashed ''bill'') ?keys)"
    using top_level_manifests [OF *(2), of "''m.json''" "''bill''" ?keys] by (simp add: slashed_def)
  moreover have "''bill/2017/data.csv'' \<notin> set (filterObjects (slashed ''bill'') ?keys)"
    using top_level_manifests [OF *(1), of "''data.csv''" "''bill''" ?keys] by (simp add: slashed_def HasSuffix_def suffix_def)
  ultimately show ?thesis unfolding filterObjects_def set_filter mem_Collect_eq by simp
qed

text \<open>
  The partitions of a billing table cannot be told apart in Hive: their specifications have the keys \<open>start\<close> and \<open>end\<close>, while the
  columns of the table are named \<open>billing_period_start\<close> and \<open>billing_period_end\<close>, so that every statement that adds or drops one
  names the partition with empty values.
\<close>

theorem billing_partitions_indistinguishable:
  assumes "getDesiredPartitions s3 bucket manifests = Inr ps" and "p \<in> set ps"
  shows "FmtPartitionSpec AWSUsageHivePartitions (tp_PartitionSpec p) = ''`billing_period_start`=``, `billing_period_end`=``''"
  using assms
proof (induction manifests arbitrary: ps)
  case (Cons m manifests)
  then obtain location ps' where ps: "getDesiredPartitions s3 bucket manifests = Inr ps'"
    "ps = \<lparr>tp_Location = location,
       tp_PartitionSpec = [(''start'', AWSBillingPeriodTimestamp (bp_Start (mf_BillingPeriod m))),
                           (''end'', AWSBillingPeriodTimestamp (bp_End (mf_BillingPeriod m)))]\<rparr> # ps'"
    by (auto simp: bindR_eq_Inr)
  show ?case
  proof (cases "p \<in> set ps'")
    case False
    with ps(2) Cons.prems(2) show ?thesis
      by (simp add: FmtPartitionSpec_def AWSUsageHivePartitions_def map_get_def ToLower_def lower_char_def)
  qed (rule Cons.IH [OF ps(1)])
qed simp

definition sample_manifest :: "string \<Rightarrow> go_time \<Rightarrow> Manifest" where
  "sample_manifest n t = \<lparr>mf_AssemblyID = n, mf_Account = [], mf_Columns = [], mf_Charset = [], mf_Compression = [],
     mf_ContentType = [], mf_ReportID = [], mf_ReportName = [], mf_BillingPeriod = \<lparr>bp_Start = t, bp_End = t + 24 * Hour\<rparr>,
     mf_Bucket = [], mf_ReportKeys = [''bill/'' @ n @ ''/1.csv''], mf_AdditionalArtifactKeys = []\<rparr>"

definition sample_s3 :: s3_lib where
  "sample_s3 = \<lparr>s3_ListObjectsV2Pages = \<lambda>_ _ _ _. ([], None), s3_GetObject = \<lambda>_ _ _ _. Inl (Err []), json_Decode = \<lambda>_ _. Inl (Err []),
     parse_manifestTime = \<lambda>s. Inl (Err s), url_Parse = Inr\<rparr>"

theorem billing_partitions_indistinguishable_witness:
  "\<exists>p p'. getDesiredPartitions sample_s3 ''b'' [sample_manifest ''x'' 0, sample_manifest ''y'' (24 * Hour)] = Inr [p, p'] \<and> p \<noteq> p' \<and>
     FmtPartitionSpec AWSUsageHivePartitions (tp_PartitionSpec p) = FmtPartitionSpec AWSUsageHivePartitions (tp_PartitionSpec p')"
proof -
  let ?ms = "[sample_manifest ''x'' 0, sample_manifest ''y'' (24 * Hour)]"
  have "\<exists>p p'. getDesiredPartitions sample_s3 ''b'' ?ms = Inr [p, p'] \<and>
      tp_Location p = ''s3a://b/bill/x/'' \<and> tp_Location p' = ''s3a://b/bill/y/''"
    by (simp add: sample_manifest_def sample_s3_def S3Location_def DataDirectory_def manifest_paths_def path_Dir_def
        path_Split_def Clean_def clean_step_def path_Join_def Let_def)
  then obtain p p' where ps: "getDesiredPartitions sample_s3 ''b'' ?ms = Inr [p, p']"
    "tp_Location p = ''s3a://b/bill/x/''" "tp_Location p' = ''s3a://b/bill/y/''" by blast
  then have "p \<noteq> p'" by auto
  with ps(1) billing_partitions_indistinguishable [OF ps(1)] show ?thesis by simp
qed

end
