(* ===== verification/Time_Ranges.thy ===== *)
theory Time_Ranges
  imports Effects
begin

text \<open>
  How an import divides a time span into Prometheus range queries: \<^verbatim>\<open>getTimeRangesChunked\<close> and
  \<^verbatim>\<open>truncateToSecond\<close> of \<^verbatim>\<open>pkg/operator/prestostore/query.go\<close>. The loop has no bound when
  \<^verbatim>\<open>maxTimeRanges\<close> is not positive, so it is a partial function whose value is \<open>None\<close> when it does not
  end; when it ends is a theorem. What the importer needs of the ranges is the locale
  \<open>range_chunker\<close>.
\<close>

section \<open>The code\<close>

text \<open>The name says second; the code truncates to the minute.\<close>

definition truncateToSecond :: "go_time \<Rightarrow> go_time" where
  "truncateToSecond t = Truncate t Minute"

record chunk_params =
  cp_endTime :: go_time
  cp_chunkSize :: duration
  cp_stepSize :: duration
  cp_maxTimeRanges :: int
  cp_allowIncompleteChunks :: bool

text \<open>
  One iteration of the loop: stop with the ranges so far, or go on with one more. The state is the
  counter, the bounds of the chunk and the ranges.
\<close>

definition chunk_range :: "chunk_params \<Rightarrow> go_time \<Rightarrow> go_time \<Rightarrow> prom_Range" where
  "chunk_range cp chunkStart chunkEnd = \<lparr>rng_Start = chunkStart, rng_End = chunkEnd, rng_Step = cp_stepSize cp\<rparr>"

datatype chunk_step = Break "prom_Range list" | Continue int go_time go_time "prom_Range list"

definition chunk_iter ::
  "chunk_params \<Rightarrow> int \<Rightarrow> go_time \<Rightarrow> go_time \<Rightarrow> prom_Range list \<Rightarrow> chunk_step" where
  "chunk_iter cp i chunkStart chunkEnd timeRanges =
     (let disableMax = (cp_maxTimeRanges cp \<le> 0) in
      if \<not> (disableMax \<or> i < cp_maxTimeRanges cp) then Break timeRanges
      else
        let chunkEnd' = (if cp_allowIncompleteChunks cp \<and> chunkEnd > cp_endTime cp
                         then truncateToSecond (cp_endTime cp) else chunkEnd)
        in
        if cp_allowIncompleteChunks cp \<and> chunkEnd' = chunkStart then Break timeRanges
        else if \<not> cp_allowIncompleteChunks cp \<and> chunkEnd' > cp_endTime cp then Break timeRanges
        else if \<not> cp_allowIncompleteChunks cp \<and> Sub chunkEnd' chunkStart < cp_chunkSize cp then Break timeRanges
        else
          let timeRanges' = timeRanges @ [chunk_range cp chunkStart chunkEnd'] in
          if cp_allowIncompleteChunks cp \<and> chunkEnd' = truncateToSecond (cp_endTime cp) then Break timeRanges'
          else
            let chunkStart' = truncateToSecond (chunkEnd' + cp_stepSize cp)
            in Continue (i + 1) chunkStart' (truncateToSecond (chunkStart' + cp_chunkSize cp)) timeRanges')"

partial_function (option) chunk_loop ::
  "chunk_params \<Rightarrow> int \<Rightarrow> go_time \<Rightarrow> go_time \<Rightarrow> prom_Range list \<Rightarrow> prom_Range list option" where
  "chunk_loop cp i chunkStart chunkEnd timeRanges =
     (case chunk_iter cp i chunkStart chunkEnd timeRanges of
        Break rs \<Rightarrow> Some rs
      | Continue i' s e rs \<Rightarrow> chunk_loop cp i' s e rs)"

declare chunk_loop.simps [code]

definition getTimeRangesChunked ::
  "go_time \<Rightarrow> go_time \<Rightarrow> duration \<Rightarrow> duration \<Rightarrow> int \<Rightarrow> bool \<Rightarrow> prom_Range list option" where
  "getTimeRangesChunked beginTime endTime chunkSize stepSize maxTimeRanges allowIncompleteChunks =
     (let chunkStart = truncateToSecond beginTime;
          chunkEnd = truncateToSecond (chunkStart + chunkSize)
      in chunk_loop \<lparr>cp_endTime = endTime, cp_chunkSize = chunkSize, cp_stepSize = stepSize,
           cp_maxTimeRanges = maxTimeRanges, cp_allowIncompleteChunks = allowIncompleteChunks\<rparr>
           0 chunkStart chunkEnd [])"

section \<open>Induction over the loop\<close>

lemma Truncate_Minute_le: "truncateToSecond t \<le> t"
  by (simp add: truncateToSecond_def Truncate_le)

lemma truncateToSecond_idem [simp]: "truncateToSecond (truncateToSecond t) = truncateToSecond t"
  by (simp add: truncateToSecond_def)

lemma truncateToSecond_mono: "t \<le> u \<Longrightarrow> truncateToSecond t \<le> truncateToSecond u"
  by (simp add: truncateToSecond_def Truncate_mono)

lemma aligned_gap:
  assumes "truncateToSecond x = x" and "truncateToSecond y = y" and "x < y"
  shows "x + Minute \<le> y"
proof -
  from assms(1,2) have "Minute dvd y - x"
    by (simp add: truncateToSecond_def Truncate_fixed mod_eq_0_iff_dvd)
  from zdvd_imp_le [OF this] assms(3) show ?thesis by simp
qed

text \<open>The ranges follow one another: each starts one step, truncated to the minute, after the end of the last.\<close>

fun chained :: "duration \<Rightarrow> prom_Range list \<Rightarrow> bool" where
  "chained step [] \<longleftrightarrow> True"
| "chained step [r] \<longleftrightarrow> True"
| "chained step (r # r' # rs) \<longleftrightarrow> rng_Start r' = truncateToSecond (rng_End r + step) \<and> chained step (r' # rs)"

lemma chained_append:
  "chained step (rs @ ss) \<longleftrightarrow> chained step rs \<and> chained step ss \<and>
     (rs \<noteq> [] \<and> ss \<noteq> [] \<longrightarrow> rng_Start (hd ss) = truncateToSecond (rng_End (last rs) + step))"
proof (induction step rs rule: chained.induct)
  case (2 step r)
  then show ?case by (cases ss) auto
qed auto

text \<open>
  The invariant of the loop: the ranges so far are chained from the first start, have the step and end
  by the end time, and the next chunk continues them.
\<close>

definition chunk_inv :: "chunk_params \<Rightarrow> go_time \<Rightarrow> go_time \<Rightarrow> prom_Range list \<Rightarrow> bool" where
  "chunk_inv cp begin0 chunkStart rs \<longleftrightarrow>
     chained (cp_stepSize cp) rs \<and>
     (\<forall>r \<in> set rs. rng_End r \<le> cp_endTime cp \<and> rng_Step r = cp_stepSize cp) \<and>
     (if rs = [] then chunkStart = begin0
      else rng_Start (hd rs) = begin0 \<and> chunkStart = truncateToSecond (rng_End (last rs) + cp_stepSize cp))"

lemma chunk_inv_append:
  assumes "chunk_inv cp begin0 s rs" and "e \<le> cp_endTime cp"
  shows "chunk_inv cp begin0 (truncateToSecond (e + cp_stepSize cp)) (rs @ [chunk_range cp s e])"
  using assms by (auto simp: chunk_inv_def chained_append chunk_range_def hd_append)

lemma chunk_iter_Break:
  assumes "chunk_iter cp i s e rs = Break rs'"
  shows "rs' = rs \<or> (\<exists>e'. e' \<le> cp_endTime cp \<and> rs' = rs @ [chunk_range cp s e'] \<and>
    (cp_maxTimeRanges cp \<le> 0 \<or> i < cp_maxTimeRanges cp) \<and> cp_allowIncompleteChunks cp \<and>
    e' = truncateToSecond (cp_endTime cp) \<and> e' \<noteq> s \<and> e' \<le> e)"
proof -
  have "truncateToSecond (cp_endTime cp) \<le> cp_endTime cp" by (rule Truncate_Minute_le)
  then have "e \<le> cp_endTime cp \<or> truncateToSecond (cp_endTime cp) \<le> e" by linarith
  with assms \<open>truncateToSecond (cp_endTime cp) \<le> cp_endTime cp\<close> show ?thesis
    unfolding chunk_iter_def Let_def by (simp split: if_splits)
qed

lemma chunk_iter_Continue:
  assumes "chunk_iter cp i s e rs = Continue i' s' e' rs'"
  shows "e \<le> cp_endTime cp" "i' = i + 1" "rs' = rs @ [chunk_range cp s e]"
    "s' = truncateToSecond (e + cp_stepSize cp)" "e' = truncateToSecond (s' + cp_chunkSize cp)"
    "cp_maxTimeRanges cp \<le> 0 \<or> i < cp_maxTimeRanges cp"
    "\<not> cp_allowIncompleteChunks cp \<Longrightarrow> cp_chunkSize cp \<le> Sub e s"
    "cp_allowIncompleteChunks cp \<Longrightarrow> e \<noteq> s \<and> e \<noteq> truncateToSecond (cp_endTime cp)"
  using assms by (auto simp: chunk_iter_def Let_def split: if_splits)

text \<open>An invariant of the iterations gives a property of the result.\<close>

lemma chunk_loop_induct:
  assumes "chunk_loop cp i s e rs = Some res" and "Inv i s e rs"
    and "\<And>i s e rs i' s' e' rs'. Inv i s e rs \<Longrightarrow> chunk_iter cp i s e rs = Continue i' s' e' rs' \<Longrightarrow> Inv i' s' e' rs'"
    and "\<And>i s e rs rs'. Inv i s e rs \<Longrightarrow> chunk_iter cp i s e rs = Break rs' \<Longrightarrow> Q rs'"
  shows "Q res"
proof -
  let ?P = "\<lambda>cp0 i s e rs res. cp0 = cp \<longrightarrow> Inv i s e rs \<longrightarrow> Q res"
  have "?P cp i s e rs res"
  proof (rule chunk_loop.raw_induct [of ?P, rotated], rule assms(1), intro impI)
    fix loop cp0 i s e rs res
    assume IH: "\<And>cp0 i s e rs res. loop cp0 i s e rs = Some res \<Longrightarrow> ?P cp0 i s e rs res"
      and loop: "(case chunk_iter cp0 i s e rs of Break rs \<Rightarrow> Some rs | Continue i' s e rs \<Rightarrow> loop cp0 i' s e rs) = Some res"
      and [simp]: "cp0 = cp" and inv: "Inv i s e rs"
    show "Q res"
    proof (cases "chunk_iter cp i s e rs")
      case (Break rs')
      then show ?thesis using loop assms(4) [OF inv Break] by simp
    next
      case (Continue i' s' e' rs')
      then have "loop cp i' s' e' rs' = Some res" using loop by simp
      from IH [OF this] show ?thesis using assms(3) [OF inv Continue] by simp
    qed
  qed
  with assms(2) show ?thesis by simp
qed

lemma chunk_loop_inv:
  assumes "chunk_loop cp i s e rs = Some res" and "chunk_inv cp begin0 s rs"
  shows "\<exists>s'. chunk_inv cp begin0 s' res"
  using assms(1)
proof (rule chunk_loop_induct [where Inv = "\<lambda>i s e rs. chunk_inv cp begin0 s rs"])
  show "chunk_inv cp begin0 s rs" by (rule assms(2))
next
  fix i s e rs i' s' e' rs'
  assume "chunk_inv cp begin0 s rs" and "chunk_iter cp i s e rs = Continue i' s' e' rs'"
  then show "chunk_inv cp begin0 s' rs'"
    using chunk_inv_append chunk_iter_Continue by metis
next
  fix i s e rs rs'
  assume "chunk_inv cp begin0 s rs" and "chunk_iter cp i s e rs = Break rs'"
  then show "\<exists>s'. chunk_inv cp begin0 s' rs'"
    using chunk_inv_append chunk_iter_Break by metis
qed

section \<open>Termination\<close>

lemma chunk_loop_max:
  assumes "0 < cp_maxTimeRanges cp"
  shows "\<exists>res. chunk_loop cp i s e rs = Some res \<and> length res \<le> length rs + nat (cp_maxTimeRanges cp - i)"
proof (induction "nat (cp_maxTimeRanges cp - i)" arbitrary: i s e rs rule: less_induct)
  case less
  show ?case
  proof (cases "chunk_iter cp i s e rs")
    case (Break rs')
    have "length rs' \<le> length rs + nat (cp_maxTimeRanges cp - i)"
      using chunk_iter_Break [OF Break] assms by auto
    then show ?thesis using Break by (subst chunk_loop.simps) simp
  next
    case (Continue i' s' e' rs')
    note c = chunk_iter_Continue [OF Continue]
    have "nat (cp_maxTimeRanges cp - i') < nat (cp_maxTimeRanges cp - i)" using c(2,6) assms by simp
    from less [OF this] obtain res where
      "chunk_loop cp i' s' e' rs' = Some res" "length res \<le> length rs' + nat (cp_maxTimeRanges cp - i')"
      by blast
    moreover have "length rs' + nat (cp_maxTimeRanges cp - i') = length rs + nat (cp_maxTimeRanges cp - i)"
      using c(2,3,6) assms by simp
    ultimately show ?thesis using Continue by (subst chunk_loop.simps) simp
  qed
qed

lemma truncate_add_Minute: "Minute \<le> d \<Longrightarrow> truncateToSecond t + Minute \<le> truncateToSecond (truncateToSecond t + d)"
  using truncateToSecond_mono [of "truncateToSecond t + Minute" "truncateToSecond t + d"]
  by (simp add: truncateToSecond_def Truncate_add) (simp add: Truncate_def)

lemma truncate_add_small: "0 \<le> d \<Longrightarrow> d < Minute \<Longrightarrow> truncateToSecond (truncateToSecond t + d) = truncateToSecond t"
  unfolding truncateToSecond_def by (simp add: Truncate_add) (simp add: Truncate_def)

text \<open>The shape of the state at each iteration: the chunk starts at a full minute and spans the chunk size, truncated.\<close>

definition chunk_shape :: "chunk_params \<Rightarrow> go_time \<Rightarrow> go_time \<Rightarrow> bool" where
  "chunk_shape cp s e \<longleftrightarrow> truncateToSecond s = s \<and> e = truncateToSecond (s + cp_chunkSize cp)"

lemma chunk_shape_Continue:
  "chunk_iter cp i s e rs = Continue i' s' e' rs' \<Longrightarrow> chunk_shape cp s' e'"
  unfolding chunk_shape_def by (metis chunk_iter_Continue(4,5) truncateToSecond_idem)

lemma chunk_small_breaks:
  assumes "chunk_shape cp s e" and "0 < cp_chunkSize cp" and "cp_chunkSize cp < Minute"
  shows "\<exists>res. chunk_iter cp i s e rs = Break res"
proof -
  have "e = s" using assms truncate_add_small [of "cp_chunkSize cp" s] by (simp add: chunk_shape_def)
  moreover have "Sub s s = 0" by (simp add: Sub_def minDuration_def maxDuration_def)
  ultimately show ?thesis using assms(2) by (simp add: chunk_iter_def Let_def)
qed

lemma chunk_loop_terminates:
  assumes "0 < cp_chunkSize cp" and "0 \<le> cp_stepSize cp" and "chunk_shape cp s e"
  shows "\<exists>res. chunk_loop cp i s e rs = Some res"
  using assms(3)
proof (induction "nat (cp_endTime cp + 1 - e)" arbitrary: i s e rs rule: less_induct)
  case less
  show ?case
  proof (cases "chunk_iter cp i s e rs")
    case (Break rs')
    then show ?thesis by (subst chunk_loop.simps) simp
  next
    case (Continue i' s' e' rs')
    note c = chunk_iter_Continue [OF Continue]
    have big: "Minute \<le> cp_chunkSize cp"
    proof (rule ccontr)
      assume "\<not> Minute \<le> cp_chunkSize cp"
      with chunk_small_breaks [OF less.prems assms(1), of i rs] Continue show False by simp
    qed
    have "e = truncateToSecond e" using less.prems by (simp add: chunk_shape_def)
    also have "\<dots> \<le> s'" unfolding c(4) using assms(2) by (intro truncateToSecond_mono) simp
    finally have "e + Minute \<le> e'"
      using truncate_add_Minute [OF big, of s'] unfolding c(4,5) by simp
    then have "nat (cp_endTime cp + 1 - e') < nat (cp_endTime cp + 1 - e)" using c(1) by simp
    from less.hyps [OF this chunk_shape_Continue [OF Continue]]
    show ?thesis using Continue by (subst chunk_loop.simps) simp
  qed
qed

section \<open>The interface of the importer\<close>

text \<open>
  What the importer relies on: the ranges for a span are chained, start at the begin of the span
  (truncated) and end by its end.
\<close>

locale range_chunker =
  fixes ranges :: "go_time \<Rightarrow> go_time \<Rightarrow> prom_Range list option"
    and step :: duration
  assumes ranges_chained: "ranges b e = Some rs \<Longrightarrow> chained step rs"
    and ranges_first: "ranges b e = Some rs \<Longrightarrow> rs \<noteq> [] \<Longrightarrow> rng_Start (hd rs) = truncateToSecond b"
    and ranges_bounded: "ranges b e = Some rs \<Longrightarrow> r \<in> set rs \<Longrightarrow> rng_End r \<le> e \<and> rng_Step r = step"
begin

text \<open>
  Import after import, each starting one step after the last range of the ones before: where the next one
  starts, and the ranges of all of them.
\<close>

fun runs :: "go_time \<Rightarrow> go_time list \<Rightarrow> prom_Range list option" where
  "runs b [] = Some []"
| "runs b (e # es) =
     (case ranges b e of
        None \<Rightarrow> None
      | Some rs \<Rightarrow>
          (case runs (if rs = [] then b else rng_End (last rs) + step) es of
             None \<Rightarrow> None
           | Some rss \<Rightarrow> Some (rs @ rss)))"

lemma runs_chained:
  "runs b es = Some rs \<Longrightarrow> chained step rs \<and> (rs \<noteq> [] \<longrightarrow> rng_Start (hd rs) = truncateToSecond b)"
proof (induction es arbitrary: b rs)
  case Nil
  then show ?case by simp
next
  case (Cons e es)
  then obtain rs1 rs2 where r: "ranges b e = Some rs1"
    "runs (if rs1 = [] then b else rng_End (last rs1) + step) es = Some rs2" "rs = rs1 @ rs2"
    by (auto split: option.splits)
  note IH = Cons.IH [OF r(2)]
  show ?case
    using IH ranges_chained [OF r(1)] ranges_first [OF r(1)] r(3)
    by (auto simp: chained_append split: if_splits)
qed

end

lemma getTimeRangesChunked_inv:
  assumes "getTimeRangesChunked b e chunk step mx allow = Some rs"
  shows "\<exists>s. chunk_inv \<lparr>cp_endTime = e, cp_chunkSize = chunk, cp_stepSize = step, cp_maxTimeRanges = mx,
    cp_allowIncompleteChunks = allow\<rparr> (truncateToSecond b) s rs"
  using assms unfolding getTimeRangesChunked_def Let_def
  by (rule chunk_loop_inv) (simp add: chunk_inv_def)

interpretation trc: range_chunker "\<lambda>b e. getTimeRangesChunked b e chunk step mx allow" step
  for chunk step mx allow
proof
  fix b e rs r
  assume "getTimeRangesChunked b e chunk step mx allow = Some rs"
  from getTimeRangesChunked_inv [OF this] obtain s where inv: "chunk_inv
      \<lparr>cp_endTime = e, cp_chunkSize = chunk, cp_stepSize = step, cp_maxTimeRanges = mx,
       cp_allowIncompleteChunks = allow\<rparr> (truncateToSecond b) s rs" ..
  from inv show "chained step rs" by (simp add: chunk_inv_def)
  from inv show "rs \<noteq> [] \<Longrightarrow> rng_Start (hd rs) = truncateToSecond b" by (simp add: chunk_inv_def)
  from inv show "r \<in> set rs \<Longrightarrow> rng_End r \<le> e \<and> rng_Step r = step" by (simp add: chunk_inv_def)
qed

section \<open>Complete chunks\<close>

lemma Sub_full:
  assumes "e \<le> s + d" and "d \<le> Sub e s" and "is_int64 d" and "0 < d"
  shows "e = s + d"
  using assms by (auto simp: Sub_def is_int64_def minDuration_def maxDuration_def split: if_splits)

lemma chunks_complete:
  assumes "chunk_loop cp i s e rs = Some res" and "\<not> cp_allowIncompleteChunks cp"
    and "0 < cp_chunkSize cp" and "is_int64 (cp_chunkSize cp)" and "chunk_shape cp s e"
    and "\<forall>r \<in> set rs. rng_End r = rng_Start r + cp_chunkSize cp"
  shows "\<forall>r \<in> set res. rng_End r = rng_Start r + cp_chunkSize cp"
  using assms(1)
proof (rule chunk_loop_induct
    [where Inv = "\<lambda>i s e rs. chunk_shape cp s e \<and> (\<forall>r \<in> set rs. rng_End r = rng_Start r + cp_chunkSize cp)"])
  show "chunk_shape cp s e \<and> (\<forall>r \<in> set rs. rng_End r = rng_Start r + cp_chunkSize cp)"
    using assms(5,6) by blast
next
  fix i s e rs i' s' e' rs'
  assume inv: "chunk_shape cp s e \<and> (\<forall>r \<in> set rs. rng_End r = rng_Start r + cp_chunkSize cp)"
    and it: "chunk_iter cp i s e rs = Continue i' s' e' rs'"
  have "e \<le> s + cp_chunkSize cp" using inv Truncate_Minute_le by (simp add: chunk_shape_def)
  then have "e = s + cp_chunkSize cp"
    using Sub_full chunk_iter_Continue(7) [OF it assms(2)] assms(3,4) by blast
  then show "chunk_shape cp s' e' \<and> (\<forall>r \<in> set rs'. rng_End r = rng_Start r + cp_chunkSize cp)"
    using inv chunk_shape_Continue [OF it] chunk_iter_Continue(3) [OF it] by (auto simp: chunk_range_def)
next
  fix i s e rs rs'
  assume "chunk_shape cp s e \<and> (\<forall>r \<in> set rs. rng_End r = rng_Start r + cp_chunkSize cp)"
    and "chunk_iter cp i s e rs = Break rs'"
  then show "\<forall>r \<in> set rs'. rng_End r = rng_Start r + cp_chunkSize cp"
    using chunk_iter_Break assms(2) by fastforce
qed

text \<open>Where the chunk after the given ranges would start.\<close>

definition next_start :: "go_time \<Rightarrow> duration \<Rightarrow> prom_Range list \<Rightarrow> go_time" where
  "next_start b step rs =
     (if rs = [] then truncateToSecond b else truncateToSecond (rng_End (last rs) + step))"

lemma chunks_maximal:
  assumes "chunk_loop cp i s e rs = Some res" and "\<not> cp_allowIncompleteChunks cp"
    and "cp_maxTimeRanges cp \<le> 0" and "0 < cp_chunkSize cp" and "cp_chunkSize cp mod Minute = 0"
    and "is_int64 (cp_chunkSize cp)"
    and "chunk_shape cp s e" and "s = next_start b (cp_stepSize cp) rs"
  shows "cp_endTime cp < next_start b (cp_stepSize cp) res + cp_chunkSize cp"
  using assms(1)
proof (rule chunk_loop_induct
    [where Inv = "\<lambda>i s e rs. chunk_shape cp s e \<and> s = next_start b (cp_stepSize cp) rs"])
  show "chunk_shape cp s e \<and> s = next_start b (cp_stepSize cp) rs" using assms(7,8) by blast
next
  fix i s e rs i' s' e' rs'
  assume "chunk_iter cp i s e rs = Continue i' s' e' rs'"
  from chunk_shape_Continue [OF this] chunk_iter_Continue(3,4) [OF this]
  show "chunk_shape cp s' e' \<and> s' = next_start b (cp_stepSize cp) rs'"
    by (simp add: next_start_def chunk_range_def)
next
  fix i s e rs rs'
  assume inv: "chunk_shape cp s e \<and> s = next_start b (cp_stepSize cp) rs" and br: "chunk_iter cp i s e rs = Break rs'"
  have "Truncate (cp_chunkSize cp) Minute = cp_chunkSize cp" using assms(5) by (simp add: Truncate_fixed)
  then have e: "e = s + cp_chunkSize cp"
    using conjunct1 [OF inv] Truncate_add [of Minute s "cp_chunkSize cp"] unfolding chunk_shape_def truncateToSecond_def by simp
  then have "Sub e s = cp_chunkSize cp" using assms(6) by (simp add: Sub_exact)
  then have "rs' = rs" "cp_endTime cp < e"
    using br assms(2,3) by (auto simp: chunk_iter_def Let_def split: if_splits)
  then show "cp_endTime cp < next_start b (cp_stepSize cp) rs' + cp_chunkSize cp" using inv e by simp
qed

section \<open>Incomplete chunks\<close>

lemma chunks_proper:
  assumes "chunk_loop cp i s e rs = Some res" and "cp_allowIncompleteChunks cp"
    and "0 < cp_chunkSize cp" and "0 \<le> cp_stepSize cp" and "cp_stepSize cp < 2 * Minute"
    and "chunk_shape cp s e" and "s \<le> truncateToSecond (cp_endTime cp)"
    and "\<forall>r \<in> set rs. rng_Start r < rng_End r"
  shows "\<forall>r \<in> set res. rng_Start r < rng_End r"
  using assms(1)
proof (rule chunk_loop_induct [where Inv = "\<lambda>i s e rs. chunk_shape cp s e \<and>
      s \<le> truncateToSecond (cp_endTime cp) \<and> (\<forall>r \<in> set rs. rng_Start r < rng_End r)"])
  show "chunk_shape cp s e \<and> s \<le> truncateToSecond (cp_endTime cp) \<and> (\<forall>r \<in> set rs. rng_Start r < rng_End r)"
    using assms(6-8) by blast
next
  fix i s e rs i' s' e' rs'
  assume inv: "chunk_shape cp s e \<and> s \<le> truncateToSecond (cp_endTime cp) \<and> (\<forall>r \<in> set rs. rng_Start r < rng_End r)"
    and it: "chunk_iter cp i s e rs = Continue i' s' e' rs'"
  note c = chunk_iter_Continue [OF it]
  have "s \<le> e" using inv assms(3) truncateToSecond_mono [of s "s + cp_chunkSize cp"] by (simp add: chunk_shape_def)
  then have se: "s < e" using c(8) assms(2) by simp
  have et: "e = truncateToSecond e" using inv by (simp add: chunk_shape_def)
  have "e \<le> truncateToSecond (cp_endTime cp)" using truncateToSecond_mono [OF c(1)] et by simp
  then have "e < truncateToSecond (cp_endTime cp)" using c(8) assms(2) by simp
  then have "e + Minute \<le> truncateToSecond (cp_endTime cp)"
    using et by (intro aligned_gap) simp_all
  moreover have "s' \<le> e + Minute"
  proof -
    have "truncateToSecond (e + cp_stepSize cp) = e + Truncate (cp_stepSize cp) Minute"
      using et Truncate_add [of Minute e "cp_stepSize cp"] by (simp add: truncateToSecond_def)
    moreover have "Truncate (cp_stepSize cp) Minute \<le> Minute"
    proof -
      have "truncateToSecond (2 * Minute) = 2 * Minute" by (simp add: truncateToSecond_def Truncate_def)
      moreover have "truncateToSecond (cp_stepSize cp) < 2 * Minute"
        using assms(5) Truncate_Minute_le [of "cp_stepSize cp"] by simp
      ultimately have "truncateToSecond (cp_stepSize cp) + Minute \<le> 2 * Minute"
        by (intro aligned_gap) simp_all
      then show ?thesis by (simp add: truncateToSecond_def)
    qed
    ultimately show ?thesis unfolding c(4) by simp
  qed
  ultimately show "chunk_shape cp s' e' \<and> s' \<le> truncateToSecond (cp_endTime cp) \<and> (\<forall>r \<in> set rs'. rng_Start r < rng_End r)"
    using inv chunk_shape_Continue [OF it] c(3) se by (auto simp: chunk_range_def)
next
  fix i s e rs rs'
  assume "chunk_shape cp s e \<and> s \<le> truncateToSecond (cp_endTime cp) \<and> (\<forall>r \<in> set rs. rng_Start r < rng_End r)"
    and "chunk_iter cp i s e rs = Break rs'"
  then show "\<forall>r \<in> set rs'. rng_Start r < rng_End r"
    using chunk_iter_Break by (fastforce simp: chunk_range_def)
qed

section \<open>Properties\<close>

text \<open>
  With a positive chunk size and a step that is not negative the division into ranges ends, also without
  a bound on their number; with a bound, whatever the sizes, it ends with at most that many ranges.
\<close>

theorem getTimeRangesChunked_terminates:
  "(0 < chunk \<and> 0 \<le> step \<longrightarrow> (\<exists>rs. getTimeRangesChunked b e chunk step mx allow = Some rs)) \<and>
   (0 < mx \<longrightarrow> (\<exists>rs. getTimeRangesChunked b e chunk step mx allow = Some rs \<and> int (length rs) \<le> mx))"
  (is "(?P \<longrightarrow> ?A) \<and> (?R \<longrightarrow> ?B)")
proof (intro conjI impI)
  let ?cp = "\<lparr>cp_endTime = e, cp_chunkSize = chunk, cp_stepSize = step, cp_maxTimeRanges = mx,
    cp_allowIncompleteChunks = allow\<rparr>"
  show ?A if "?P"
    unfolding getTimeRangesChunked_def Let_def
    using that by (intro chunk_loop_terminates) (simp_all add: chunk_shape_def)
  show ?B if mx: "?R"
  proof -
    obtain rs where "getTimeRangesChunked b e chunk step mx allow = Some rs" "length rs \<le> nat mx"
      using chunk_loop_max [of ?cp 0 "truncateToSecond b" "truncateToSecond (truncateToSecond b + chunk)" "[]"] mx
      by (auto simp: getTimeRangesChunked_def Let_def)
    then show ?thesis using mx by auto
  qed
qed

theorem getTimeRangesChunked_terminates_witness:
  "\<exists>rs. getTimeRangesChunked 0 Hour (5 * Minute) Minute 0 True = Some rs"
  using getTimeRangesChunked_terminates [of "5 * Minute" Minute 0 Hour 0 True] by simp

text \<open>
  With complete chunks only, every range spans exactly one chunk size and ends by the end time, the
  first starts at the begin time truncated to the minute, each of the others one truncated step after the end of the
  one before it. When the chunk size is whole minutes and the number of ranges is not bounded,
  they are all there are: the next chunk would end after the end time.
\<close>

theorem complete_chunks:
  assumes "getTimeRangesChunked b e chunk step mx False = Some rs" and "0 < chunk" and "is_int64 chunk"
  shows "chained step rs \<and> (rs \<noteq> [] \<longrightarrow> rng_Start (hd rs) = truncateToSecond b) \<and>
    (\<forall>r \<in> set rs. rng_End r = rng_Start r + chunk \<and> rng_End r \<le> e \<and> rng_Step r = step) \<and>
    (mx \<le> 0 \<and> chunk mod Minute = 0 \<longrightarrow> e < next_start b step rs + chunk)"
proof -
  let ?cp = "\<lparr>cp_endTime = e, cp_chunkSize = chunk, cp_stepSize = step, cp_maxTimeRanges = mx,
    cp_allowIncompleteChunks = False\<rparr>"
  have loop: "chunk_loop ?cp 0 (truncateToSecond b) (truncateToSecond (truncateToSecond b + chunk)) [] = Some rs"
    using assms(1) by (simp add: getTimeRangesChunked_def Let_def)
  have "\<forall>r \<in> set rs. rng_End r = rng_Start r + chunk"
    using chunks_complete [OF loop] assms(2,3) by (simp add: chunk_shape_def)
  moreover have "mx \<le> 0 \<and> chunk mod Minute = 0 \<longrightarrow> e < next_start b step rs + chunk"
  proof (intro impI, elim conjE)
    assume mx: "mx \<le> 0" "chunk mod Minute = 0"
    have "cp_endTime ?cp < next_start b (cp_stepSize ?cp) rs + cp_chunkSize ?cp"
      by (rule chunks_maximal [OF loop])
        (simp_all add: chunk_shape_def next_start_def assms(2,3) mx)
    then show "e < next_start b step rs + chunk" by simp
  qed
  moreover have "chained step rs" by (rule trc.ranges_chained [OF assms(1)])
  moreover have "rs \<noteq> [] \<longrightarrow> rng_Start (hd rs) = truncateToSecond b" using trc.ranges_first [OF assms(1)] by simp
  moreover have "\<forall>r \<in> set rs. rng_End r \<le> e \<and> rng_Step r = step" using trc.ranges_bounded [OF assms(1)] by simp
  ultimately show ?thesis by simp
qed

lemma sample_chunks:
  "getTimeRangesChunked 0 (11 * Minute) (5 * Minute) Minute 0 False =
     Some [\<lparr>rng_Start = 0, rng_End = 5 * Minute, rng_Step = Minute\<rparr>,
           \<lparr>rng_Start = 6 * Minute, rng_End = 11 * Minute, rng_Step = Minute\<rparr>]"
  by code_simp

theorem complete_chunks_witness:
  "11 * Minute < next_start 0 Minute [\<lparr>rng_Start = 0, rng_End = 5 * Minute, rng_Step = Minute\<rparr>,
           \<lparr>rng_Start = 6 * Minute, rng_End = 11 * Minute, rng_Step = Minute\<rparr>] + 5 * Minute"
  using complete_chunks [OF sample_chunks] by (simp add: is_int64_def minDuration_def maxDuration_def)

text \<open>
  With incomplete chunks allowed and a step below two minutes, every range of a span whose begin is not
  after its end starts before it ends.
\<close>

theorem incomplete_chunks_proper:
  assumes "getTimeRangesChunked b e chunk step mx True = Some rs" and "b \<le> e" and "0 < chunk"
    and "0 \<le> step" and "step < 2 * Minute"
  shows "\<forall>r \<in> set rs. rng_Start r < rng_End r \<and> rng_End r \<le> e"
proof -
  let ?cp = "\<lparr>cp_endTime = e, cp_chunkSize = chunk, cp_stepSize = step, cp_maxTimeRanges = mx,
    cp_allowIncompleteChunks = True\<rparr>"
  have loop: "chunk_loop ?cp 0 (truncateToSecond b) (truncateToSecond (truncateToSecond b + chunk)) [] = Some rs"
    using assms(1) by (simp add: getTimeRangesChunked_def Let_def)
  have "\<forall>r \<in> set rs. rng_Start r < rng_End r"
    using chunks_proper [OF loop] assms(2-5) truncateToSecond_mono by (simp add: chunk_shape_def)
  moreover have "\<forall>r \<in> set rs. rng_End r \<le> e" using trc.ranges_bounded [OF assms(1)] by simp
  ultimately show ?thesis by simp
qed

lemma sample_incomplete_chunks:
  "getTimeRangesChunked 0 (8 * Minute) (5 * Minute) Minute 0 True =
     Some [\<lparr>rng_Start = 0, rng_End = 5 * Minute, rng_Step = Minute\<rparr>,
           \<lparr>rng_Start = 6 * Minute, rng_End = 8 * Minute, rng_Step = Minute\<rparr>]"
  by code_simp

theorem incomplete_chunks_proper_witness:
  "list_all (\<lambda>r. rng_Start r < rng_End r \<and> rng_End r \<le> 8 * Minute)
     [\<lparr>rng_Start = 0, rng_End = 5 * Minute, rng_Step = Minute\<rparr>,
      \<lparr>rng_Start = 6 * Minute, rng_End = 8 * Minute, rng_Step = Minute\<rparr>]"
  using incomplete_chunks_proper [OF sample_incomplete_chunks] by simp

text \<open>
  With a larger step a range can come out whose end is before its start: chunks of five minutes with a step of
  two minutes over six minutes give a second range from the seventh to the sixth minute.
\<close>

lemma incomplete_chunks_inverted:
  "getTimeRangesChunked 0 (6 * Minute) (5 * Minute) (2 * Minute) 0 True =
     Some [\<lparr>rng_Start = 0, rng_End = 5 * Minute, rng_Step = 2 * Minute\<rparr>,
           \<lparr>rng_Start = 7 * Minute, rng_End = 6 * Minute, rng_Step = 2 * Minute\<rparr>]"
  by code_simp

end
