(* ===== verification/Importer.thy ===== *)
theory Importer
  imports Metric_Store Time_Ranges
begin

text \<open>
  Importing Prometheus metrics: \<^verbatim>\<open>ImportFromTimeRange\<close> of \<^verbatim>\<open>pkg/operator/prestostore/query.go\<close> and the
  \<^verbatim>\<open>PrometheusImporter\<close> of \<^verbatim>\<open>pkg/operator/prestostore/importer.go\<close>. An importer runs one import at a time
  (its lock), so its state is a record that the operations take and return. A call that never
  returns is the value \<open>None\<close>. The sorting of the metrics of a chunk is a parameter: \<^verbatim>\<open>sort.Slice\<close>
  leaves the order of equal timestamps open.
\<close>

section \<open>The code\<close>

record PrometheusImportResults =
  ir_ProcessedTimeRanges :: "prom_Range list"
  ir_Metrics :: "PrometheusMetric list"

definition no_results :: PrometheusImportResults where
  "no_results = \<lparr>ir_ProcessedTimeRanges = [], ir_Metrics = []\<rparr>"

record Config =
  cfg_PrometheusQuery :: string
  cfg_PrestoTableName :: string
  cfg_ChunkSize :: duration
  cfg_StepSize :: duration
  cfg_MaxTimeRanges :: int
  cfg_MaxQueryRangeDuration :: duration
  cfg_ImportFromTime :: "go_time option"
  cfg_MaxBackfillImportDuration :: duration

definition promMatrixToPrometheusMetrics :: "prom_Range \<Rightarrow> sample_stream list \<Rightarrow> PrometheusMetric list" where
  "promMatrixToPrometheusMetrics timeRange matrix =
     concat (map (\<lambda>sampleStream. map (\<lambda>(t, v).
       \<lparr>pm_Labels = ss_Metric sampleStream, pm_Amount = v, pm_StepSize = rng_Step timeRange,
        pm_Timestamp = t, pm_Dt = []\<rparr>) (ss_Values sampleStream)) matrix)"

text \<open>The parts of an import that are not the importer's: services, sorting, and the capacity of the pooled buffers.\<close>

record importer_env = store_env +
  sortSlice :: "PrometheusMetric list \<Rightarrow> PrometheusMetric list"
  bufferCap :: int

text \<open>
  One chunk: query Prometheus, then store what it answers. \<open>Inl\<close>: the error the import returns.
\<close>

definition import_chunk ::
  "'x importer_env_scheme \<Rightarrow> Config \<Rightarrow> prom_Range \<Rightarrow> (goerror + PrometheusMetric list) op" where
  "import_chunk env cfg timeRange = do {
     cancelled \<leftarrow> peek (ctx_Done env);
     (case cancelled of Some e \<Rightarrow> State_Monad.return (Inl e) | None \<Rightarrow> do {
       queryStart \<leftarrow> nowM env;
       r \<leftarrow> call (\<lambda>h. prom_QueryRange env h (cfg_PrometheusQuery cfg) timeRange)
              (PromQueryRange (cfg_PrometheusQuery cfg) timeRange);
       queryEnd \<leftarrow> nowM env;
       emit (ObserveDuration ''PrometheusQueryDurationHistogram'' (Sub queryEnd queryStart));
       emit (CounterInc ''TotalPrometheusQueriesCounter'');
       (case r of
          Inl e \<Rightarrow> do {
            emit (CounterInc ''FailedImportsCounter'');
            emit (CounterInc ''FailedPrometheusQueriesCounter'');
            State_Monad.return (Inl (wrap (\<lambda>m. ''failed to perform Prometheus query: '' @ m) e))
          }
        | Inr (NotMatrix ty) \<Rightarrow>
            State_Monad.return (Inl (Err (''expected a matrix in response to query, got a '' @ ty)))
        | Inr (Matrix matrix) \<Rightarrow> do {
            let metrics = promMatrixToPrometheusMetrics timeRange matrix;
            emit (CounterAdd ''MetricsScrapedCounter'' (int (length metrics)));
            cancelled2 \<leftarrow> peek (ctx_Done env);
            (case cancelled2 of Some e \<Rightarrow> State_Monad.return (Inl e) | None \<Rightarrow>
              if metrics = [] then State_Monad.return (Inr [])
              else do {
                let sorted_metrics = sortSlice env metrics;
                emit (CounterInc ''TotalPrometheusQueriesCounter'');
                prestoStoreBegin \<leftarrow> nowM env;
                err \<leftarrow> StorePrometheusMetrics env (bufferCap env) (cfg_PrestoTableName cfg) sorted_metrics;
                prestoStoreEnd \<leftarrow> nowM env;
                emit (ObserveDuration ''PrestoStoreDurationHistogram'' (Sub prestoStoreEnd prestoStoreBegin));
                (case err of
                   Some e \<Rightarrow> do {
                     emit (CounterInc ''FailedImportsCounter'');
                     emit (CounterInc ''FailedPrestoStoresCounter'');
                     State_Monad.return (Inl (wrap (\<lambda>m. ''failed to store Prometheus metrics into table '' @
                       cfg_PrestoTableName cfg @ '' for the range '' @ show_time (rng_Start timeRange) @ '' to '' @
                       show_time (rng_End timeRange) @ '': '' @ m) e))
                   }
                 | None \<Rightarrow> do {
                     emit (CounterAdd ''MetricsImportedCounter'' (int (length sorted_metrics)));
                     State_Monad.return (Inr sorted_metrics)
                   })
              })
          })
     })
   }"

fun import_loop ::
  "'x importer_env_scheme \<Rightarrow> Config \<Rightarrow> prom_Range list \<Rightarrow> PrometheusImportResults \<Rightarrow>
   (PrometheusImportResults \<times> goerror option) op" where
  "import_loop env cfg [] res = State_Monad.return (res, None)"
| "import_loop env cfg (timeRange # timeRanges) res = do {
     r \<leftarrow> import_chunk env cfg timeRange;
     (case r of
        Inl e \<Rightarrow> State_Monad.return (res, Some e)
      | Inr metrics \<Rightarrow>
          import_loop env cfg timeRanges
            \<lparr>ir_ProcessedTimeRanges = ir_ProcessedTimeRanges res @ [timeRange],
             ir_Metrics = ir_Metrics res @ metrics\<rparr>)
   }"

definition capped_end :: "Config \<Rightarrow> go_time \<Rightarrow> go_time \<Rightarrow> go_time" where
  "capped_end cfg startTime endTime =
     (let queryRangeDuration = Sub endTime startTime in
      if cfg_MaxQueryRangeDuration cfg \<noteq> 0 \<and> queryRangeDuration > cfg_MaxQueryRangeDuration cfg
      then startTime + cfg_MaxQueryRangeDuration cfg else endTime)"

definition ImportFromTimeRange ::
  "'x importer_env_scheme \<Rightarrow> Config \<Rightarrow> go_time \<Rightarrow> go_time \<Rightarrow> bool \<Rightarrow>
   (PrometheusImportResults \<times> goerror option) option op" where
  "ImportFromTimeRange env cfg startTime endTime allowIncompleteChunks = do {
     emit (GaugeInc ''ImportsRunningGauge'');
     let endTime' = capped_end cfg startTime endTime;
     importStart \<leftarrow> nowM env;
     emit (CounterInc ''TotalImportsCounter'');
     (case getTimeRangesChunked startTime endTime' (cfg_ChunkSize cfg) (cfg_StepSize cfg) (cfg_MaxTimeRanges cfg)
             allowIncompleteChunks of
        None \<Rightarrow> State_Monad.return None
      | Some timeRanges \<Rightarrow> do {
          r \<leftarrow> import_loop env cfg timeRanges no_results;
          emit (GaugeDec ''ImportsRunningGauge'');
          importEnd \<leftarrow> nowM env;
          emit (ObserveDuration ''ImportDurationHistogram'' (Sub importEnd importStart));
          State_Monad.return (Some r)
        })
   }"

record PrometheusImporter =
  imp_cfg :: Config
  imp_lastTimestamp :: "go_time option"

definition NewPrometheusImporter :: "Config \<Rightarrow> PrometheusImporter" where
  "NewPrometheusImporter cfg = \<lparr>imp_cfg = cfg, imp_lastTimestamp = None\<rparr>"

definition UpdateConfig :: "PrometheusImporter \<Rightarrow> Config \<Rightarrow> PrometheusImporter" where
  "UpdateConfig importer cfg = importer\<lparr>imp_cfg := cfg\<rparr>"

text \<open>Where an import starts, given the end and the last timestamp.\<close>

definition import_start :: "Config \<Rightarrow> go_time option \<Rightarrow> go_time \<Rightarrow> go_time" where
  "import_start cfg lastTimestamp endTime =
     (case lastTimestamp of
        Some t \<Rightarrow> t + cfg_StepSize cfg
      | None \<Rightarrow>
          (case cfg_ImportFromTime cfg of
             Some t \<Rightarrow> t
           | None \<Rightarrow> endTime - cfg_MaxBackfillImportDuration cfg))"

text \<open>
  The result is the importer's new state with what is returned: a nil pointer or the results, and
  the error.
\<close>

type_synonym import_return = "(PrometheusImportResults option \<times> goerror option) option"

definition ImportFromLastTimestamp ::
  "'x importer_env_scheme \<Rightarrow> PrometheusImporter \<Rightarrow> bool \<Rightarrow> (PrometheusImporter \<times> import_return) op" where
  "ImportFromLastTimestamp env importer allowIncompleteChunks = do {
     endTime \<leftarrow> nowM env;
     let cfg = imp_cfg importer;
     last \<leftarrow> (case imp_lastTimestamp importer of
         Some t \<Rightarrow> State_Monad.return (Inr (Some t))
       | None \<Rightarrow> GetLastTimestampForTable env (cfg_PrestoTableName cfg));
     (case last of
        Inl e \<Rightarrow> State_Monad.return (importer\<lparr>imp_lastTimestamp := None\<rparr>, Some (None, Some e))
      | Inr lastTimestamp \<Rightarrow>
          let startTime = import_start cfg lastTimestamp endTime in
          if startTime > endTime then
            State_Monad.return (importer\<lparr>imp_lastTimestamp := lastTimestamp\<rparr>, Some (Some no_results, None))
          else do {
            let totalChunkDuration = Sub startTime endTime;
            let endTime' = (if totalChunkDuration \<ge> cfg_MaxQueryRangeDuration cfg
                            then startTime + cfg_MaxQueryRangeDuration cfg else endTime);
            r \<leftarrow> ImportFromTimeRange env cfg startTime endTime' allowIncompleteChunks;
            State_Monad.return
              (case r of
                 None \<Rightarrow> (importer\<lparr>imp_lastTimestamp := lastTimestamp\<rparr>, None)
               | Some (res, Some e) \<Rightarrow> (importer\<lparr>imp_lastTimestamp := None\<rparr>, Some (Some res, Some e))
               | Some (res, None) \<Rightarrow>
                   (importer\<lparr>imp_lastTimestamp :=
                      (if ir_ProcessedTimeRanges res \<noteq> [] then Some (rng_End (List.last (ir_ProcessedTimeRanges res)))
                       else lastTimestamp)\<rparr>, Some (Some res, None)))
          })
   }"

section \<open>The queries of an import\<close>

text \<open>The ranges that Prometheus is queried for in a trace.\<close>

fun queried_range :: "event \<Rightarrow> prom_Range list" where
  "queried_range (PromQueryRange q r) = [r]"
| "queried_range _ = []"

definition queried :: "event list \<Rightarrow> prom_Range list" where
  "queried es = concat (map queried_range es)"

lemma queried_simps [simp]:
  "queried [] = []" "queried (e # es) = queried_range e @ queried es" "queried (es @ es') = queried es @ queried es'"
  by (simp_all add: queried_def)

fun is_presto :: "event \<Rightarrow> bool" where
  "is_presto (PrestoQuery _) = True"
| "is_presto _ = False"

lemma queried_presto: "\<forall>e \<in> set es. is_presto e \<Longrightarrow> queried es = []"
proof (induction es)
  case (Cons e es)
  then show ?case by (cases e) simp_all
qed simp

lemma emits_insertBuffer [emits_intros]: "(\<And>r. Q r) \<Longrightarrow> emits (insertBuffer env t buf) is_presto Q"
  unfolding insertBuffer_def presto_op_defs by (intro emits_intros) simp_all

lemma emits_store_loop: "emits (store_loop env t cap qc ms buf inBuf) is_presto (\<lambda>_. True)"
proof (induction ms arbitrary: buf inBuf)
  case Nil
  then show ?case by (simp add: emits_return)
next
  case (Cons m ms)
  show ?case
    unfolding store_loop.simps by (intro emits_intros Cons.IH TrueI)
qed

lemma store_queries_nothing: "traces (StorePrometheusMetrics env cap t ms) (\<lambda>_ es. queried es = [])"
proof -
  have "emits (StorePrometheusMetrics env cap t ms) is_presto (\<lambda>_. True)"
    unfolding StorePrometheusMetrics_def StorePrometheusMetricsWithBuffer_def Let_def by (rule emits_store_loop)
  then show ?thesis
    unfolding emits_traces by (rule traces_weaken) (simp add: queried_presto)
qed

lemma last_timestamp_queries_nothing: "traces (GetLastTimestampForTable env t) (\<lambda>_ es. queried es = [])"
proof -
  have "emits (GetLastTimestampForTable env t) is_presto (\<lambda>_. True)"
    unfolding GetLastTimestampForTable_def by (intro emits_intros) simp_all
  then show ?thesis
    unfolding emits_traces by (rule traces_weaken) (simp add: queried_presto)
qed

lemma traces_case_prom_value:
  "(\<And>m. v = Matrix m \<Longrightarrow> traces (f m) R) \<Longrightarrow> (\<And>t. v = NotMatrix t \<Longrightarrow> traces (g t) R) \<Longrightarrow>
   traces (case v of Matrix m \<Rightarrow> f m | NotMatrix t \<Rightarrow> g t) R"
  by (cases v) simp_all

text \<open>A chunk queries its range at most once; when it succeeds, exactly once.\<close>

lemma import_chunk_queries:
  "traces (import_chunk env cfg r) (\<lambda>res es. queried es = [r] \<or> (queried es = [] \<and> (\<exists>e. res = Inl e)))"
  unfolding import_chunk_def
  by (intro traces_intros traces_case_prom_value traces_bind [OF store_queries_nothing]) simp_all

text \<open>
  How far an import got over the ranges \<open>rs\<close>: the processed ranges are a prefix of the queried ones, which are
  a prefix of \<open>rs\<close>; without an error both are all of \<open>rs\<close>.
\<close>

definition progress :: "prom_Range list \<Rightarrow> prom_Range list \<Rightarrow> prom_Range list \<Rightarrow> goerror option \<Rightarrow> bool" where
  "progress rs processed asked err \<longleftrightarrow>
     prefix processed asked \<and> prefix asked rs \<and> (err = None \<longrightarrow> processed = rs \<and> asked = rs)"

lemma progress_Cons: "progress rs ps qs err \<Longrightarrow> progress (r # rs) (r # ps) (r # qs) err"
  by (simp add: progress_def)

lemma progress_Nil: "prefix qs rs \<Longrightarrow> progress rs [] qs (Some e)"
  by (simp add: progress_def)

lemma import_loop_queries:
  "traces (import_loop env cfg rs res)
     (\<lambda>b es. \<exists>ps. ir_ProcessedTimeRanges (fst b) = ir_ProcessedTimeRanges res @ ps \<and> progress rs ps (queried es) (snd b))"
proof (induction rs arbitrary: res)
  case Nil
  show ?case unfolding import_loop.simps by (intro traces_intros) (simp add: progress_def)
next
  case (Cons r rs)
  show ?case
    unfolding import_loop.simps
  proof (rule traces_bind [OF import_chunk_queries], intro traces_case_sum)
    fix x :: "goerror + PrometheusMetric list" and es e
    assume "queried es = [r] \<or> (queried es = [] \<and> (\<exists>e. x = Inl e))" and "x = Inl e"
    then show "traces (State_Monad.return (res, Some e)) (\<lambda>b es'.
        \<exists>ps. ir_ProcessedTimeRanges (fst b) = ir_ProcessedTimeRanges res @ ps \<and> progress (r # rs) ps (queried (es @ es')) (snd b))"
      by (intro traces_return) (auto simp: progress_def)
  next
    fix x :: "goerror + PrometheusMetric list" and es metrics
    assume "queried es = [r] \<or> (queried es = [] \<and> (\<exists>e. x = Inl e))" and "x = Inr metrics"
    then have "queried es = [r]" by simp
    then show "traces (import_loop env cfg rs \<lparr>ir_ProcessedTimeRanges = ir_ProcessedTimeRanges res @ [r],
          ir_Metrics = ir_Metrics res @ metrics\<rparr>) (\<lambda>b es'.
        \<exists>ps. ir_ProcessedTimeRanges (fst b) = ir_ProcessedTimeRanges res @ ps \<and> progress (r # rs) ps (queried (es @ es')) (snd b))"
      by (intro traces_weaken [OF Cons.IH]) (auto intro: progress_Cons)
  qed
qed

definition chunks :: "Config \<Rightarrow> go_time \<Rightarrow> go_time \<Rightarrow> bool \<Rightarrow> prom_Range list option" where
  "chunks cfg b e allow =
     getTimeRangesChunked b e (cfg_ChunkSize cfg) (cfg_StepSize cfg) (cfg_MaxTimeRanges cfg) allow"

lemma ImportFromTimeRange_queries:
  "traces (ImportFromTimeRange env cfg b e allow)
     (\<lambda>r es. case r of
        None \<Rightarrow> chunks cfg b (capped_end cfg b e) allow = None \<and> queried es = []
      | Some (res, err) \<Rightarrow> \<exists>rs. chunks cfg b (capped_end cfg b e) allow = Some rs \<and>
          progress rs (ir_ProcessedTimeRanges res) (queried es) err)"
  unfolding ImportFromTimeRange_def chunks_def
  by (intro traces_intros traces_bind [OF import_loop_queries])
    (auto simp: no_results_def split: prod.splits)

text \<open>One import of an importer whose last timestamp is known.\<close>

definition import_ok :: "import_return \<Rightarrow> bool" where
  "import_ok r \<longleftrightarrow> (\<exists>res. r = Some (Some res, None))"

lemma ImportFromLastTimestamp_queries:
  assumes "imp_lastTimestamp imp = Some t"
  shows "traces (ImportFromLastTimestamp env imp allow)
    (\<lambda>b es. import_ok (snd b) \<longrightarrow> imp_cfg (fst b) = imp_cfg imp \<and>
       (queried es = [] \<and> imp_lastTimestamp (fst b) = Some t \<or>
        (\<exists>e. chunks (imp_cfg imp) (t + cfg_StepSize (imp_cfg imp)) e allow = Some (queried es) \<and> queried es \<noteq> [] \<and>
             imp_lastTimestamp (fst b) = Some (rng_End (last (queried es))))))"
  unfolding ImportFromLastTimestamp_def
  by (intro traces_intros traces_bind [OF ImportFromTimeRange_queries])
    (auto simp: assms import_ok_def import_start_def progress_def intro!: traces_intros traces_bind [OF ImportFromTimeRange_queries]
      split: prod.splits option.splits if_splits)

text \<open>A number of imports of the same importer, one after the other.\<close>

fun importMany ::
  "'x importer_env_scheme \<Rightarrow> nat \<Rightarrow> bool \<Rightarrow> PrometheusImporter \<Rightarrow> (PrometheusImporter \<times> import_return list) op" where
  "importMany env 0 allow imp = State_Monad.return (imp, [])"
| "importMany env (Suc n) allow imp = do {
     r \<leftarrow> ImportFromLastTimestamp env imp allow;
     rs \<leftarrow> importMany env n allow (fst r);
     State_Monad.return (fst rs, snd r # snd rs)
   }"

abbreviation importRuns :: "Config \<Rightarrow> bool \<Rightarrow> go_time \<Rightarrow> go_time list \<Rightarrow> prom_Range list option" where
  "importRuns cfg allow \<equiv> range_chunker.runs (\<lambda>b e. chunks cfg b e allow) (cfg_StepSize cfg)"

interpretation imp: range_chunker "\<lambda>b e. chunks cfg b e allow" "cfg_StepSize cfg" for cfg allow
  unfolding chunks_def by (rule trc.range_chunker_axioms)

lemma ImportFromLastTimestamp_appends: "traces (ImportFromLastTimestamp env imp allow) (\<lambda>_ _. True)"
  unfolding ImportFromLastTimestamp_def
  by (intro traces_intros traces_bind [OF ImportFromTimeRange_queries] TrueI
      traces_bind [where Q = "\<lambda>_ _. True"] traces_weaken [OF last_timestamp_queries_nothing])

lemma importMany_appends: "traces (importMany env n allow imp) (\<lambda>_ _. True)"
proof (induction n arbitrary: imp)
  case 0
  show ?case unfolding importMany.simps by (intro traces_intros TrueI)
next
  case (Suc n)
  show ?case
    unfolding importMany.simps
    by (rule traces_bind [OF ImportFromLastTimestamp_appends], rule traces_bind [OF Suc.IH]) (intro traces_intros TrueI)
qed

lemma importMany_runs:
  assumes "imp_lastTimestamp imp = Some t"
  shows "traces (importMany env n allow imp)
    (\<lambda>b es. list_all import_ok (snd b) \<longrightarrow>
       (\<exists>ends. importRuns (imp_cfg imp) allow (t + cfg_StepSize (imp_cfg imp)) ends = Some (queried es)))"
  using assms
proof (induction n arbitrary: imp t)
  case 0
  have "importRuns (imp_cfg imp) allow (t + cfg_StepSize (imp_cfg imp)) [] = Some []" by simp
  then show ?case unfolding importMany.simps by (intro traces_return) (auto simp del: imp.runs.simps)
next
  case (Suc n)
  let ?cfg = "imp_cfg imp" let ?step = "cfg_StepSize ?cfg"
  show ?case
    unfolding importMany.simps
  proof (rule traces_bind [OF ImportFromLastTimestamp_queries [OF Suc.prems]])
    fix a :: "PrometheusImporter \<times> import_return" and es
    assume a: "import_ok (snd a) \<longrightarrow> imp_cfg (fst a) = ?cfg \<and>
       (queried es = [] \<and> imp_lastTimestamp (fst a) = Some t \<or>
        (\<exists>e. chunks ?cfg (t + ?step) e allow = Some (queried es) \<and> queried es \<noteq> [] \<and>
             imp_lastTimestamp (fst a) = Some (rng_End (last (queried es)))))"
    show "traces (importMany env n allow (fst a) \<bind> (\<lambda>rs. State_Monad.return (fst rs, snd a # snd rs)))
      (\<lambda>b es'. list_all import_ok (snd b) \<longrightarrow>
        (\<exists>ends. importRuns ?cfg allow (t + ?step) ends = Some (queried (es @ es'))))"
    proof (cases "import_ok (snd a)")
      case False
      then show ?thesis
        by (intro traces_bind [OF importMany_appends] traces_return) simp
    next
      case True
      from a True consider "queried es = []" "imp_lastTimestamp (fst a) = Some t" "imp_cfg (fst a) = ?cfg"
        | e where "chunks ?cfg (t + ?step) e allow = Some (queried es)" "queried es \<noteq> []"
          "imp_lastTimestamp (fst a) = Some (rng_End (last (queried es)))" "imp_cfg (fst a) = ?cfg"
        by blast
      then have "\<exists>t'. imp_lastTimestamp (fst a) = Some t' \<and> imp_cfg (fst a) = ?cfg \<and>
        (\<forall>ends rs. importRuns ?cfg allow (t' + ?step) ends = Some rs \<longrightarrow>
          (\<exists>ends'. importRuns ?cfg allow (t + ?step) ends' = Some (queried es @ rs)))"
      proof cases
        case 1
        then show ?thesis by auto
      next
        case (2 e)
        have "importRuns ?cfg allow (t + ?step) (e # ends) = Some (queried es @ rs)"
          if "importRuns ?cfg allow (rng_End (last (queried es)) + ?step) ends = Some rs" for ends rs
          using that 2(1,2) by simp
        with 2(3,4) show ?thesis by blast
      qed
      then obtain t' where t': "imp_lastTimestamp (fst a) = Some t'" "imp_cfg (fst a) = ?cfg"
        and ends: "\<forall>ends rs. importRuns ?cfg allow (t' + ?step) ends = Some rs \<longrightarrow>
          (\<exists>ends'. importRuns ?cfg allow (t + ?step) ends' = Some (queried es @ rs))"
        by blast
      show ?thesis
        by (rule traces_bind [OF Suc.IH [OF t'(1)]], intro traces_return) (use t'(2) ends in auto)
    qed
  qed
qed

section \<open>Properties\<close>


definition import_env :: importer_env where
  "import_env = \<lparr>clock_Now = \<lambda>h. Hour, metav1_Now = \<lambda>_. (0, 0), jitter = \<lambda>_ _. 0, poll_ticks = \<lambda>_ _ _. 0, ctx_Done = \<lambda>_. None,
     hive_Exec = \<lambda>_ _. None,
     presto_Query = \<lambda>_ _. Inr \<lparr>rows_Columns = Inr [], rows_Scan = [], rows_Err = None\<rparr>,
     prom_QueryRange = \<lambda>_ _ r. Inr (Matrix [\<lparr>ss_Metric = [(''pod'', ''a'')], ss_Values = [(rng_Start r, 0)]\<rparr>]),
     fmt_float = \<lambda>_. ''0.000000'', fmt_seconds = \<lambda>_. ''60.000000'',
     sortSlice = \<lambda>ms. ms, bufferCap = 1000\<rparr>"

definition import_cfg :: Config where
  "import_cfg = \<lparr>cfg_PrometheusQuery = ''up'', cfg_PrestoTableName = ''t'', cfg_ChunkSize = 5 * Minute,
     cfg_StepSize = Minute, cfg_MaxTimeRanges = 0, cfg_MaxQueryRangeDuration = 0, cfg_ImportFromTime = None,
     cfg_MaxBackfillImportDuration = Hour\<rparr>"




end
