(* ===== verification/Data_Sources.thy ===== *)
theory Data_Sources
  imports AWS_Billing Importer
begin

text \<open>
  The handler of ReportDataSources, \<^verbatim>\<open>pkg/operator/datasources.go\<close>, with the configuration of the importers of Prometheus
  metrics from \<^verbatim>\<open>pkg/operator/promsum.go\<close>. The map of the importers of the operator is a state that the handlers take and
  return: its lock is held only to look an importer up. A handler that never returns is the value \<open>None\<close>.
\<close>

section \<open>The surroundings\<close>

text \<open>
  The configuration (\<^verbatim>\<open>Config\<close> of \<^verbatim>\<open>operator.go\<close>), whose durations the command line always sets; the connections to Prometheus:
  \<open>connect\<close> is what connecting to the URL of a data source answers.
\<close>

record prom_config =
  DisablePrometheusMetricsImporter :: bool
  pc_QueryInterval :: duration
  pc_StepSize :: duration
  pc_ChunkSize :: duration
  PrometheusDataSourceMaxQueryRangeDuration :: duration
  PrometheusDataSourceMaxBackfillImportDuration :: duration
  PrometheusDataSourceGlobalImportFromTime :: "go_time option"

type_synonym prom_conn = "history \<Rightarrow> string \<Rightarrow> prom_Range \<Rightarrow> goerror + prom_value"

record import_lib =
  il_sortSlice :: "PrometheusMetric list \<Rightarrow> PrometheusMetric list"
  il_bufferCap :: int
  il_connect :: "string \<Rightarrow> goerror + prom_conn"

definition importerEnv :: "'x store_env_scheme \<Rightarrow> import_lib \<Rightarrow> prom_conn \<Rightarrow> importer_env" where
  "importerEnv env il conn =
     \<lparr>clock_Now = clock_Now env, metav1_Now = metav1_Now env, jitter = jitter env, poll_ticks = poll_ticks env, ctx_Done = \<lambda>_. None,
      hive_Exec = hive_Exec env, presto_Query = presto_Query env, prom_QueryRange = conn, fmt_float = fmt_float env,
      fmt_seconds = fmt_seconds env, sortSlice = il_sortSlice il, bufferCap = il_bufferCap il\<rparr>"

type_synonym importers = "(PrometheusImporter \<times> prom_conn) gomap"
type_synonym handled = "(importers \<times> goerror option) option"

section \<open>The finalizer\<close>

definition reportDataSourceFinalizer :: string where
  "reportDataSourceFinalizer = GroupName @ ''/reportdatasource''"

definition updateReportDataSourceM :: "'x client_env_scheme \<Rightarrow> ReportDataSource \<Rightarrow> (goerror + ReportDataSource) op" where
  "updateReportDataSourceM env ds = call (\<lambda>h. client_UpdateReportDataSource env h ds) (UpdateReportDataSource ds)"

definition addReportDataSourceFinalizer :: "'x client_env_scheme \<Rightarrow> ReportDataSource \<Rightarrow> (goerror + ReportDataSource) op" where
  "addReportDataSourceFinalizer env ds =
     updateReportDataSourceM env (ds\<lparr>Finalizers := Finalizers ds @ [reportDataSourceFinalizer]\<rparr>)"

definition removeReportDataSourceFinalizer :: "'x client_env_scheme \<Rightarrow> ReportDataSource \<Rightarrow> (goerror + ReportDataSource) op" where
  "removeReportDataSourceFinalizer env ds =
     (if \<not> ContainsString (Finalizers ds) reportDataSourceFinalizer None then State_Monad.return (Inr ds)
      else updateReportDataSourceM env (ds\<lparr>Finalizers := RemoveString (Finalizers ds) reportDataSourceFinalizer None\<rparr>))"

definition reportDataSourceNeedsFinalizer :: "ReportDataSource \<Rightarrow> bool" where
  "reportDataSourceNeedsFinalizer ds \<longleftrightarrow>
     DeletionTimestamp ds = None \<and> \<not> ContainsString (Finalizers ds) reportDataSourceFinalizer None"

lemma run_updateReportDataSourceM [run_simps]:
  "run_state (updateReportDataSourceM env ds) h =
     (client_UpdateReportDataSource env h ds, h @ [UpdateReportDataSource ds])"
  by (simp add: updateReportDataSourceM_def)

interpretation rds: finalized_object reportDataSourceFinalizer reportDataSourceNeedsFinalizer
  "addReportDataSourceFinalizer env" "removeReportDataSourceFinalizer env" UpdateReportDataSource
  "client_UpdateReportDataSource env" for env :: "'x client_env_scheme"
  by unfold_locales
    (simp_all add: reportDataSourceNeedsFinalizer_def addReportDataSourceFinalizer_def
      removeReportDataSourceFinalizer_def run_simps Let_def)

section \<open>Updates and dependents\<close>

text \<open>\<^verbatim>\<open>updateReportDataSource\<close> reads the resource, changes it and writes it, again after each conflict.\<close>

definition readModifyWrite ::
  "'x client_env_scheme \<Rightarrow> string \<Rightarrow> string \<Rightarrow> (ReportDataSource \<Rightarrow> ReportDataSource) \<Rightarrow> (goerror + ReportDataSource) op" where
  "readModifyWrite env namespace dsName updateFunc =
     bindM (call (\<lambda>h. client_GetReportDataSource env h namespace dsName) (GetReportDataSource namespace dsName)) (\<lambda>newDS.
       updateReportDataSourceM env (updateFunc newDS))"

definition updateReportDataSource ::
  "'x client_env_scheme \<Rightarrow> string \<Rightarrow> string \<Rightarrow> (ReportDataSource \<Rightarrow> ReportDataSource) \<Rightarrow> (goerror + ReportDataSource) op" where
  "updateReportDataSource env namespace dsName updateFunc =
     RetryOnConflict env 3 (10 * Millisecond) (readModifyWrite env namespace dsName updateFunc)"

definition set_TableRef :: "string \<Rightarrow> ReportDataSource \<Rightarrow> ReportDataSource" where
  "set_TableRef n ds = ds\<lparr>ds_Status := (ds_Status ds)\<lparr>dstat_TableRef := n\<rparr>\<rparr>"

definition set_ImportStatus :: "PrometheusMetricsImportStatus \<Rightarrow> ReportDataSource \<Rightarrow> ReportDataSource" where
  "set_ImportStatus st ds = ds\<lparr>ds_Status := (ds_Status ds)\<lparr>dstat_PrometheusMetricsImportStatus := Some st\<rparr>\<rparr>"

definition queueDependentReportDataSourcesForDataSource ::
  "'x lister_env_scheme \<Rightarrow> report_lib \<Rightarrow> ReportDataSource \<Rightarrow> (goerror + unit) op" where
  "queueDependentReportDataSourcesForDataSource env lib dataSource =
     bindM (peek (\<lambda>h. lister_ReportDataSources env h (Namespace dataSource))) (\<lambda>reportDataSources. do {
       resolver \<leftarrow> peek (listerResolver env lib);
       for_eachR (queueIf (\<lambda>ds.
         (case dspec_ReportQueryView (ds_Spec ds) of
            None \<Rightarrow> Inr False
          | Some v \<Rightarrow>
              (case getQueryDependencies resolver (Namespace ds) (Name ds) (view_Inputs v) of
                 Inl e \<Rightarrow> Inl (wrap (\<lambda>m. ''unable to get dependencies for ReportQueryView ReportDataSource '' @ Name ds @
                   '': '' @ m) e)
               | Inr deps \<Rightarrow> Inr (list_ex (\<lambda>d. Name d = Name dataSource) (deps_ReportDataSources deps)))))
         enqueueReportDataSource) reportDataSources
     })"

definition queueDependentReportsForDataSource ::
  "'x lister_env_scheme \<Rightarrow> report_lib \<Rightarrow> ReportDataSource \<Rightarrow> (goerror + unit) op" where
  "queueDependentReportsForDataSource env lib dataSource =
     bindM (peek (\<lambda>h. lister_Reports env h (Namespace dataSource))) (\<lambda>reports. do {
       resolver \<leftarrow> peek (listerResolver env lib);
       for_eachR (queueIf (\<lambda>report. bindR (getReportDependencies resolver report) (\<lambda>deps.
         Inr (list_ex (\<lambda>d. Name d = Name dataSource) (deps_ReportDataSources deps)))) enqueueReport) reports
     })"

text \<open>Both, with their errors only logged.\<close>

definition queueDependentsOfDataSource :: "'x lister_env_scheme \<Rightarrow> report_lib \<Rightarrow> ReportDataSource \<Rightarrow> unit op" where
  "queueDependentsOfDataSource env lib ds = do {
     _ \<leftarrow> queueDependentReportsForDataSource env lib ds;
     _ \<leftarrow> queueDependentReportDataSourcesForDataSource env lib ds;
     State_Monad.return ()
   }"

definition existingDataSourceTable ::
  "'x lister_env_scheme \<Rightarrow> ReportDataSource \<Rightarrow> (goerror + (PrestoTable \<times> string)) op" where
  "existingDataSourceTable env ds =
     bindM (wrapM (wrap (\<lambda>m. ''unable to get PrestoTable {'' @ dstat_TableRef (ds_Status ds) @ ''} for ReportDataSource '' @
              Name ds @ '', '' @ m))
            (peek (\<lambda>h. lister_PrestoTable env h (Namespace ds) (dstat_TableRef (ds_Status ds)))))
       (\<lambda>prestoTable. liftM (bindR (FullyQualifiedTableName prestoTable) (\<lambda>n. Inr (prestoTable, n))))"

text \<open>The storage of a data source, with a database.\<close>

definition dataSourceStorage ::
  "'x lister_env_scheme \<Rightarrow> ReportDataSource \<Rightarrow> string option \<Rightarrow> (goerror + StorageLocation) op" where
  "dataSourceStorage env ds storage =
     bindM (wrapM (wrap (\<lambda>m. ''storage incorrectly configured for ReportDataSource '' @ Name ds @ '', err: '' @ m))
              (getHiveStorage env storage (Namespace ds)))
       (\<lambda>hiveStorage. liftM
          (if hss_DatabaseName (sl_Status_Hive hiveStorage) = [] then
             Inl (Err (''StorageLocation '' @ Name hiveStorage @ '' Hive database '' @
               hs_DatabaseName (the (sl_Spec_Hive hiveStorage)) @ '' does not exist yet''))
           else Inr hiveStorage))"

section \<open>Importers\<close>

definition getQueryIntervalForReportDataSource :: "prom_config \<Rightarrow> PrometheusMetricsImporterDataSource \<Rightarrow> duration" where
  "getQueryIntervalForReportDataSource pcfg pmi =
     (case pmi_QueryConfig pmi of
        Some qc \<Rightarrow> (case pqc_QueryInterval qc of Some d \<Rightarrow> d | None \<Rightarrow> pc_QueryInterval pcfg)
      | None \<Rightarrow> pc_QueryInterval pcfg)"

definition chunkSizeFor :: "prom_config \<Rightarrow> PrometheusMetricsImporterDataSource \<Rightarrow> duration" where
  "chunkSizeFor pcfg pmi =
     (case pmi_QueryConfig pmi of
        Some qc \<Rightarrow> (case pqc_ChunkSize qc of Some d \<Rightarrow> d | None \<Rightarrow> pc_ChunkSize pcfg)
      | None \<Rightarrow> pc_ChunkSize pcfg)"

definition stepSizeFor :: "prom_config \<Rightarrow> PrometheusMetricsImporterDataSource \<Rightarrow> duration" where
  "stepSizeFor pcfg pmi =
     (case pmi_QueryConfig pmi of
        Some qc \<Rightarrow> (case pqc_StepSize qc of Some d \<Rightarrow> d | None \<Rightarrow> pc_StepSize pcfg)
      | None \<Rightarrow> pc_StepSize pcfg)"

definition newPromImporterCfg ::
  "prom_config \<Rightarrow> PrometheusMetricsImporterDataSource \<Rightarrow> string \<Rightarrow> PrestoTable \<Rightarrow> goerror + Config" where
  "newPromImporterCfg pcfg pmi query prestoTable =
     (let chunkSize = Truncate_dur (chunkSizeFor pcfg pmi) Second;
          stepSize = Truncate_dur (stepSizeFor pcfg pmi) Second
      in (case div_int64 (PrometheusDataSourceMaxQueryRangeDuration pcfg) chunkSize of
            None \<Rightarrow> Inl (GoPanic ''runtime error: integer divide by zero'')
          | Some defaultMaxPromTimeRanges \<Rightarrow>
              bindR (FullyQualifiedTableName prestoTable) (\<lambda>tableName.
                Inr \<lparr>cfg_PrometheusQuery = query, cfg_PrestoTableName = tableName, cfg_ChunkSize = chunkSize,
                     cfg_StepSize = stepSize, cfg_MaxTimeRanges = defaultMaxPromTimeRanges,
                     cfg_MaxQueryRangeDuration = PrometheusDataSourceMaxQueryRangeDuration pcfg,
                     cfg_ImportFromTime = PrometheusDataSourceGlobalImportFromTime pcfg,
                     cfg_MaxBackfillImportDuration = PrometheusDataSourceMaxBackfillImportDuration pcfg\<rparr>)))"

definition newPromImporter ::
  "'x store_env_scheme \<Rightarrow> import_lib \<Rightarrow> PrometheusMetricsImporterDataSource \<Rightarrow> Config \<Rightarrow>
   goerror + (PrometheusImporter \<times> prom_conn)" where
  "newPromImporter env il pmi cfg =
     bindR (case pmi_PrometheusURL pmi of
              Some url \<Rightarrow> if url \<noteq> [] then il_connect il url else Inr (prom_QueryRange env)
            | None \<Rightarrow> Inr (prom_QueryRange env))
       (\<lambda>promConn. Inr (NewPrometheusImporter cfg, promConn))"

text \<open>The importer of the data source: the one stored under its name with the configuration updated, or a new one.\<close>

definition importerOf ::
  "'x store_env_scheme \<Rightarrow> import_lib \<Rightarrow> importers \<Rightarrow> ReportDataSource \<Rightarrow> PrometheusMetricsImporterDataSource \<Rightarrow> Config \<Rightarrow>
   goerror + (PrometheusImporter \<times> prom_conn)" where
  "importerOf env il imps ds pmi cfg =
     (case map_of imps (Name ds) of
        Some (importer, conn) \<Rightarrow> Inr (UpdateConfig importer cfg, conn)
      | None \<Rightarrow> newPromImporter env il pmi cfg)"

section \<open>Prometheus metrics\<close>

definition metricsTableParameters :: "StorageLocation \<Rightarrow> string \<Rightarrow> TableParameters" where
  "metricsTableParameters hiveStorage tableName =
     (reportTableParameters hiveStorage tableName PrometheusMetricHiveTableColumns)
       \<lparr>tparams_PartitionedBy := PrometheusMetricHivePartitionColumns\<rparr>"

definition createMetricsTable ::
  "'x client_env_scheme \<Rightarrow> op_config \<Rightarrow> ReportDataSource \<Rightarrow> TableParameters \<Rightarrow> (goerror + (HiveTable \<times> PrestoTable)) op" where
  "createMetricsTable env cfg ds params =
     wrapM (wrap (\<lambda>m. ''error creating table for ReportDataSource '' @ Name ds @ '': '' @ m))
       (bindM (createHiveTableCR env cfg ds ''ReportDataSource'' params False []) (\<lambda>created.
          bindM (waitForHiveTable env (Namespace created) (Name created) Second (30 * Second)) (\<lambda>hiveTable.
            bindM (waitForPrestoTable env (Namespace hiveTable) (Name hiveTable) Second (30 * Second)) (\<lambda>prestoTable.
              liftM (Inr (hiveTable, prestoTable))))))"

text \<open>A data source without a table gets one, and is queued again for its first import.\<close>

definition newMetricsTable ::
  "'x client_env_scheme \<Rightarrow> report_lib \<Rightarrow> op_config \<Rightarrow> ReportDataSource \<Rightarrow> PrometheusMetricsImporterDataSource \<Rightarrow>
   (goerror + unit) op" where
  "newMetricsTable env lib cfg ds pmi =
     bindM (dataSourceStorage env ds (pmi_Storage pmi)) (\<lambda>hiveStorage.
       bindM (createMetricsTable env cfg ds
                (metricsTableParameters hiveStorage (DataSourceTableName (Namespace ds) (Name ds)))) (\<lambda>(hiveTable, _).
         bindM (updateReportDataSource env (Namespace ds) (Name ds) (set_TableRef (Name hiveTable))) (\<lambda>ds'. do {
           queueDependentsOfDataSource env lib ds';
           delay \<leftarrow> Jitter env (2 * Second) (5 * Second);
           enqueueReportDataSourceAfter ds' delay;
           State_Monad.return (Inr ())
         })))"

text \<open>What an import leaves in the status: the time, the window of the ranges queried, the times of the metrics found.\<close>

definition no_ImportStatus :: PrometheusMetricsImportStatus where
  "no_ImportStatus = \<lparr>pis_LastImportTime = None, pis_ImportDataStartTime = None, pis_ImportDataEndTime = None,
     pis_EarliestImportedMetricTime = None, pis_NewestImportedMetricTime = None\<rparr>"

definition recordRanges :: "prom_Range list \<Rightarrow> PrometheusMetricsImportStatus \<Rightarrow> PrometheusMetricsImportStatus" where
  "recordRanges rs st =
     (let s = rng_Start (hd rs); e = rng_End (last rs);
          st1 = (if (case pis_ImportDataStartTime st of None \<Rightarrow> True | Some t \<Rightarrow> s < t)
                 then st\<lparr>pis_ImportDataStartTime := Some s\<rparr> else st)
      in if (case pis_ImportDataEndTime st1 of None \<Rightarrow> True | Some t \<Rightarrow> t < e)
         then st1\<lparr>pis_ImportDataEndTime := Some e\<rparr> else st1)"

text \<open>\<open>None\<close>: the first metric is older than what was imported before, and the handler stops.\<close>

definition recordMetrics ::
  "PrometheusMetric list \<Rightarrow> PrometheusMetricsImportStatus \<Rightarrow> PrometheusMetricsImportStatus option" where
  "recordMetrics ms st =
     (let first = pm_Timestamp (hd ms); newest = pm_Timestamp (last ms);
          st1 = (case pis_EarliestImportedMetricTime st of
                   None \<Rightarrow> Some (st\<lparr>pis_EarliestImportedMetricTime := Some first\<rparr>)
                 | Some t \<Rightarrow> if t > first then None else Some st)
      in (case st1 of
            None \<Rightarrow> None
          | Some st2 \<Rightarrow> Some
              (if (case pis_NewestImportedMetricTime st2 of None \<Rightarrow> True | Some t \<Rightarrow> newest > t)
               then st2\<lparr>pis_NewestImportedMetricTime := Some newest\<rparr> else st2)))"

text \<open>
  \<^verbatim>\<open>time.Duration(1.5*ChunkSize.Seconds()) * time.Second\<close>: the chunk size is whole seconds, fewer than \<open>2 ^ 34\<close>, so the
  floating-point product is exact and the conversion truncates it; the last product wraps around.
\<close>

definition backlogDetectionDuration :: "Config \<Rightarrow> duration" where
  "backlogDetectionDuration cfg =
     signed_take_bit 63 (((3 * (cfg_ChunkSize cfg sdiv Second)) sdiv 2) * Second)"

definition importDelayM ::
  "'x clock_env_scheme \<Rightarrow> Config \<Rightarrow> duration \<Rightarrow> PrometheusMetricsImportStatus \<Rightarrow> duration op" where
  "importDelayM env cfg interval st = do {
     now \<leftarrow> nowM env;
     if Sub now (the (pis_ImportDataEndTime st)) > backlogDetectionDuration cfg then Jitter env (5 * Second) (10 * Second)
     else State_Monad.return interval
   }"

text \<open>The end of the handler: when the data source is imported again.\<close>

definition scheduleImport :: "'x clock_env_scheme \<Rightarrow> ReportDataSource \<Rightarrow> duration \<Rightarrow> goerror option op" where
  "scheduleImport env ds importDelay = do {
     _ \<leftarrow> nowM env;
     enqueueReportDataSourceAfter ds importDelay;
     State_Monad.return None
   }"

text \<open>
  The status is written and the next import scheduled. The message of a failed update reads the name of the resource that the failed
  call answered, a nil pointer.
\<close>

definition writeImportStatus ::
  "'x client_env_scheme \<Rightarrow> ReportDataSource \<Rightarrow> PrometheusMetricsImportStatus \<Rightarrow> duration \<Rightarrow> goerror option op" where
  "writeImportStatus env ds st importDelay = do {
     u \<leftarrow> updateReportDataSource env (Namespace ds) (Name ds) (set_ImportStatus st);
     (case u of
        Inl _ \<Rightarrow> State_Monad.return
          (Some (GoPanic ''runtime error: invalid memory address or nil pointer dereference''))
      | Inr ds' \<Rightarrow> scheduleImport env ds' importDelay)
   }"

definition recordImport ::
  "'x client_env_scheme \<Rightarrow> report_lib \<Rightarrow> Config \<Rightarrow> duration \<Rightarrow> ReportDataSource \<Rightarrow> PrometheusMetricsImportStatus \<Rightarrow>
   PrometheusImportResults \<Rightarrow> goerror option op" where
  "recordImport env lib cfg interval ds st results =
     (if ir_ProcessedTimeRanges results = [] then scheduleImport env ds interval
      else
        let st1 = recordRanges (ir_ProcessedTimeRanges results) st in do {
          importDelay \<leftarrow> importDelayM env cfg interval st1;
          (if ir_Metrics results = [] then writeImportStatus env ds st1 importDelay
           else
             (case recordMetrics (ir_Metrics results) st1 of
                None \<Rightarrow> State_Monad.return None
              | Some st2 \<Rightarrow> do {
                  queueDependentsOfDataSource env lib ds;
                  writeImportStatus env ds st2 importDelay
                }))
        })"

text \<open>An import with the importer of the data source, which is stored back in the map.\<close>

definition runImport ::
  "'x client_env_scheme \<Rightarrow> report_lib \<Rightarrow> import_lib \<Rightarrow> Config \<Rightarrow> duration \<Rightarrow> importers \<Rightarrow> ReportDataSource \<Rightarrow>
   PrometheusImporter \<times> prom_conn \<Rightarrow> handled op" where
  "runImport env lib il cfg interval imps ds imp = do {
     now \<leftarrow> nowM env;
     let st = (case dstat_PrometheusMetricsImportStatus (ds_Status ds) of Some st \<Rightarrow> st | None \<Rightarrow> no_ImportStatus)
              \<lparr>pis_LastImportTime := Some now\<rparr>;
     r \<leftarrow> ImportFromLastTimestamp (importerEnv env il (snd imp)) (fst imp) True;
     (case r of (importer', ret) \<Rightarrow>
       let imps' = map_set (Name ds) (importer', snd imp) imps in
       (case ret of
          None \<Rightarrow> State_Monad.return None
        | Some (_, Some e) \<Rightarrow>
            State_Monad.return (Some (imps', Some (wrap (\<lambda>m. ''ImportFromLastTimestamp errored: '' @ m) e)))
        | Some (results, None) \<Rightarrow> do {
            err \<leftarrow> recordImport env lib cfg interval ds st (the results);
            State_Monad.return (Some (imps', err))
          }))
   }"

definition errorOf :: "goerror + unit \<Rightarrow> goerror option" where
  "errorOf r = (case r of Inl e \<Rightarrow> Some e | Inr _ \<Rightarrow> None)"

definition handlePrometheusMetricsDataSource ::
  "'x client_env_scheme \<Rightarrow> report_lib \<Rightarrow> import_lib \<Rightarrow> op_config \<Rightarrow> prom_config \<Rightarrow> importers \<Rightarrow> ReportDataSource \<Rightarrow>
   PrometheusMetricsImporterDataSource \<Rightarrow> handled op" where
  "handlePrometheusMetricsDataSource env lib il cfg pcfg imps ds pmi =
     (if dstat_TableRef (ds_Status ds) = [] then do {
        r \<leftarrow> newMetricsTable env lib cfg ds pmi;
        State_Monad.return (Some (imps, errorOf r))
      }
      else do {
        t \<leftarrow> existingDataSourceTable env ds;
        (case t of
           Inl e \<Rightarrow> State_Monad.return (Some (imps, Some e))
         | Inr (prestoTable, _) \<Rightarrow>
             if DisablePrometheusMetricsImporter pcfg then State_Monad.return (Some (imps, None))
             else
               (case newPromImporterCfg pcfg pmi (pmi_Query pmi) prestoTable of
                  Inl e \<Rightarrow> State_Monad.return (Some (imps, Some e))
                | Inr icfg \<Rightarrow>
                    (case importerOf env il imps ds pmi icfg of
                       Inl e \<Rightarrow> State_Monad.return (Some (imps, Some e))
                     | Inr imp \<Rightarrow>
                         runImport env lib il icfg (getQueryIntervalForReportDataSource pcfg pmi) imps ds imp)))
      })"

section \<open>Billing data, tables and views\<close>

definition partitionUpdateInterval :: duration where
  "partitionUpdateInterval = 30 * Minute"

definition billingTable ::
  "'x client_env_scheme \<Rightarrow> HiveTable \<Rightarrow> (goerror + HiveTable) op" where
  "billingTable env hiveTable =
     bindM (wrapM (wrap (\<lambda>m. ''unable to get PrestoTable '' @ Name hiveTable @ '' for HiveTable '' @ Name hiveTable @ '', '' @ m))
              (peek (\<lambda>h. lister_PrestoTable env h (Namespace hiveTable) (Name hiveTable))))
       (\<lambda>prestoTable. liftM (bindR (FullyQualifiedTableName prestoTable) (\<lambda>_. Inr hiveTable)))"

definition existingBillingTable :: "'x client_env_scheme \<Rightarrow> ReportDataSource \<Rightarrow> (goerror + HiveTable) op" where
  "existingBillingTable env ds =
     (let name = TableResourceNameFromKind ''ReportDataSource'' (Namespace ds) (Name ds) in do {
        r \<leftarrow> peek (\<lambda>h. lister_HiveTable env h (Namespace ds) name);
        (case r of
           Inr t \<Rightarrow> billingTable env t
         | Inl e \<Rightarrow>
             if IsNotFound e then
               bindM (call (\<lambda>h. client_GetHiveTable env h (Namespace ds) name) (GetHiveTable (Namespace ds) name)) (billingTable env)
             else State_Monad.return (Inl e))
      })"

definition newBillingTable ::
  "'x client_env_scheme \<Rightarrow> op_config \<Rightarrow> s3_lib \<Rightarrow> ReportDataSource \<Rightarrow> AWSBillingDataSource \<Rightarrow> S3Bucket \<Rightarrow> Manifest list \<Rightarrow>
   (goerror + (ReportDataSource \<times> HiveTable)) op" where
  "newBillingTable env cfg s3 ds billing source manifests =
     bindM (createAWSUsageHiveTableCR env cfg s3 ds (aws_DatabaseName billing) (DataSourceTableName (Namespace ds) (Name ds))
              (s3_Bucket source) (s3_Prefix source) manifests) (\<lambda>created.
       bindM (billingTable env created) (\<lambda>hiveTable.
         bindM (updateReportDataSource env (Namespace ds) (Name ds) (set_TableRef (Name hiveTable))) (\<lambda>ds'.
           liftM (Inr (ds', hiveTable)))))"

definition handleAWSBillingDataSource ::
  "'x client_env_scheme \<Rightarrow> report_lib \<Rightarrow> op_config \<Rightarrow> s3_lib \<Rightarrow> ReportDataSource \<Rightarrow> AWSBillingDataSource \<Rightarrow> (goerror + unit) op" where
  "handleAWSBillingDataSource env lib cfg s3 ds billing =
     (case aws_Source billing of
        None \<Rightarrow> State_Monad.return (Inl (Err (''ReportDataSource '' @ Quote (Name ds) @
          '': improperly configured datasource, source is empty'')))
      | Some source \<Rightarrow>
          bindM (RetrieveManifests s3 (s3_Region source) (s3_Bucket source) (s3_Prefix source)) (\<lambda>manifests.
            if manifests = [] then State_Monad.return (Inr ())
            else
              bindM (if dstat_TableRef (ds_Status ds) = [] then newBillingTable env cfg s3 ds billing source manifests
                     else bindM (existingBillingTable env ds) (\<lambda>t. liftM (Inr (ds, t)))) (\<lambda>(ds', hiveTable).
                bindM (wrapM (wrap (\<lambda>m. ''error updating AWS billing partitions for ReportDataSource '' @ Name ds' @ '': '' @ m))
                         (updateAWSBillingPartitions env s3 source hiveTable manifests)) (\<lambda>_. do {
                  _ \<leftarrow> nowM env;
                  enqueueReportDataSourceAfter ds' partitionUpdateInterval;
                  queueDependentsOfDataSource env lib ds';
                  State_Monad.return (Inr ())
                }))))"

definition handlePrestoTableDataSource ::
  "'x client_env_scheme \<Rightarrow> ReportDataSource \<Rightarrow> string \<Rightarrow> (goerror + unit) op" where
  "handlePrestoTableDataSource env ds tableRef =
     (if tableRef = [] then State_Monad.return (Inl (Err (''invalid PrestoTable ReportDataSource '' @ Name ds @
        '', spec.prestoTable.tableRef.name must be set'')))
      else if dstat_TableRef (ds_Status ds) \<noteq> [] then
        bindM (existingDataSourceTable env ds) (\<lambda>_. liftM (Inr ()))
      else
        bindM (wrapM (wrap (\<lambda>m. ''error creating table for ReportDataSource '' @ Name ds @ '': '' @ m))
                 (waitForPrestoTable env (Namespace ds) tableRef Second (10 * Second))) (\<lambda>prestoTable.
          bindM (updateReportDataSource env (Namespace ds) (Name ds) (set_TableRef (Name prestoTable))) (\<lambda>_.
            liftM (Inr ()))))"

text \<open>The view of a query: the name of the existing one, or the query rendered and the view created.\<close>

definition renderView ::
  "'x lister_env_scheme \<Rightarrow> report_lib \<Rightarrow> ReportDataSource \<Rightarrow> ReportQuery \<Rightarrow> DependencyResolutionResult \<Rightarrow> (goerror + string) op" where
  "renderView env lib ds query res =
     bindM (peek (\<lambda>h. lister_PrestoTables env h (Namespace ds))) (\<lambda>prestoTables.
       liftM (RenderQuery (lib_stack lib) (lib_engine lib)
         \<lparr>tctx_Namespace = Namespace ds, tctx_Query = q_Query query,
          tctx_RequiredInputs = ConvertInputDefinitionsIntoInputList (q_Inputs query),
          tctx_Reports = deps_Reports (res_Dependencies res), tctx_ReportQueries = deps_ReportQueries (res_Dependencies res),
          tctx_ReportDataSources = deps_ReportDataSources (res_Dependencies res), tctx_PrestoTables = prestoTables\<rparr>
         \<lparr>tc_Report = \<lparr>ti_ReportingStart = None, ti_ReportingEnd = None, ti_Inputs = res_InputValues res\<rparr>\<rparr>))"

definition createView ::
  "'x client_env_scheme \<Rightarrow> report_lib \<Rightarrow> op_config \<Rightarrow> ReportDataSource \<Rightarrow> ReportQuery \<Rightarrow> DependencyResolutionResult \<Rightarrow>
   (goerror + ReportDataSource) op" where
  "createView env lib cfg ds query res =
     (let viewName = DataSourceTableName (Namespace ds) (Name ds) in
      bindM (dataSourceStorage env ds None) (\<lambda>hiveStorage.
        bindM (renderView env lib ds query res) (\<lambda>renderedQuery.
          bindM (wrapM (wrap (\<lambda>m. ''error creating view '' @ viewName @ '' for ReportDataSource '' @ Name ds @ '': '' @ m))
                   (createPrestoTableCR env cfg ds ''ReportDataSource'' ''hive'' (hss_DatabaseName (sl_Status_Hive hiveStorage))
                      viewName (GeneratePrestoColumns query) False True renderedQuery)) (\<lambda>created.
            bindM (wrapM (wrap (\<lambda>m. ''error creating table for ReportDataSource '' @ Name ds @ '': '' @ m))
                     (waitForPrestoTable env (Namespace created) (Name created) Second (10 * Second))) (\<lambda>prestoTable.
              updateReportDataSource env (Namespace ds) (Name ds) (set_TableRef (Name prestoTable)))))))"

definition handleReportQueryViewDataSource ::
  "'x client_env_scheme \<Rightarrow> report_lib \<Rightarrow> op_config \<Rightarrow> ReportDataSource \<Rightarrow> ReportQueryViewDataSource \<Rightarrow> (goerror + unit) op" where
  "handleReportQueryViewDataSource env lib cfg ds view =
     (if view_QueryName view = [] then State_Monad.return (Inl (Err (''invalid ReportQueryView ReportDataSource '' @ Name ds @
        '', spec.reportQueryView.queryName must be set'')))
      else
        bindM (wrapM (wrap (\<lambda>m. ''unable to get ReportQuery '' @ view_QueryName view @ '' for ReportQueryView ReportDataSource '' @
                 Name ds @ '': '' @ m)) (peek (\<lambda>h. lister_ReportQuery env h (Namespace ds) (view_QueryName view)))) (\<lambda>query.
          bindM (if dstat_TableRef (ds_Status ds) = [] then liftM (Inr ())
                 else bindM (existingDataSourceTable env ds) (\<lambda>_. liftM (Inr ()))) (\<lambda>_. do {
            resolver \<leftarrow> peek (listerResolver env lib);
            (case ResolveDependencies resolver (Namespace query) (q_Inputs query) [] of
               Inl e \<Rightarrow> State_Monad.return (Inl e)
             | Inr res \<Rightarrow> do {
                 err \<leftarrow> ValidateQueryDependencies (res_Dependencies res) uninitialiedDependendenciesHandler;
                 (case err of
                    Some e \<Rightarrow> State_Monad.return
                      (if IsUninitializedDependencyError e \<or> IsInvalidDependencyError e then Inr ()
                       else Inl (wrap (\<lambda>m. ''unable to get or validate ReportQuery dependencies '' @ Name query @ '': '' @ m) e))
                  | None \<Rightarrow>
                      bindM (if dstat_TableRef (ds_Status ds) = [] then createView env lib cfg ds query res
                             else liftM (Inr ds)) (\<lambda>ds'. do {
                        queueDependentsOfDataSource env lib ds';
                        State_Monad.return (Inr ())
                      }))
               })
          })))"

section \<open>The handler\<close>

definition dispatchDataSource ::
  "'x client_env_scheme \<Rightarrow> report_lib \<Rightarrow> import_lib \<Rightarrow> s3_lib \<Rightarrow> op_config \<Rightarrow> prom_config \<Rightarrow> importers \<Rightarrow> ReportDataSource \<Rightarrow>
   handled op" where
  "dispatchDataSource env lib il s3 cfg pcfg imps ds =
     (let handled = (\<lambda>m. do { r \<leftarrow> m; State_Monad.return (Some (imps, errorOf r)) }) in
      case dspec_PrometheusMetricsImporter (ds_Spec ds) of
        Some pmi \<Rightarrow> handlePrometheusMetricsDataSource env lib il cfg pcfg imps ds pmi
      | None \<Rightarrow>
          (case dspec_AWSBilling (ds_Spec ds) of
             Some billing \<Rightarrow> handled (handleAWSBillingDataSource env lib cfg s3 ds billing)
           | None \<Rightarrow>
               (case dspec_PrestoTable (ds_Spec ds) of
                  Some tableRef \<Rightarrow> handled (handlePrestoTableDataSource env ds tableRef)
                | None \<Rightarrow>
                    (case dspec_ReportQueryView (ds_Spec ds) of
                       Some view \<Rightarrow> handled (handleReportQueryViewDataSource env lib cfg ds view)
                     | None \<Rightarrow> State_Monad.return (Some (imps, Some (Err (''ReportDataSource '' @ Name ds @
                         '': improperly configured missing prometheusMetricsImporter, awsBilling, reportQueryView or prestoTable configuration''))))))))"

definition handleReportDataSource ::
  "'x client_env_scheme \<Rightarrow> report_lib \<Rightarrow> import_lib \<Rightarrow> s3_lib \<Rightarrow> op_config \<Rightarrow> prom_config \<Rightarrow> importers \<Rightarrow> ReportDataSource \<Rightarrow>
   handled op" where
  "handleReportDataSource env lib il s3 cfg pcfg imps ds = do {
     f \<leftarrow> (if EnableFinalizers cfg \<and> reportDataSourceNeedsFinalizer ds then addReportDataSourceFinalizer env ds
          else State_Monad.return (Inr ds));
     (case f of
        Inl e \<Rightarrow> State_Monad.return (Some (imps, Some e))
      | Inr ds' \<Rightarrow> dispatchDataSource env lib il s3 cfg pcfg imps ds')
   }"

definition syncReportDataSource ::
  "'x client_env_scheme \<Rightarrow> report_lib \<Rightarrow> import_lib \<Rightarrow> s3_lib \<Rightarrow> op_config \<Rightarrow> prom_config \<Rightarrow> importers \<Rightarrow> string \<Rightarrow> handled op" where
  "syncReportDataSource env lib il s3 cfg pcfg imps key =
     (case SplitMetaNamespaceKey key of
        Inl _ \<Rightarrow> State_Monad.return (Some (imps, None))
      | Inr (namespace, name) \<Rightarrow> do {
          r \<leftarrow> peek (\<lambda>h. lister_ReportDataSource env h namespace name);
          (case r of
             Inl e \<Rightarrow> State_Monad.return (Some (imps, if IsNotFound e then None else Some e))
           | Inr ds \<Rightarrow>
               if DeletionTimestamp ds \<noteq> None then do {
                 u \<leftarrow> removeReportDataSourceFinalizer env ds;
                 State_Monad.return (Some (imps, case u of Inl e \<Rightarrow> Some e | Inr _ \<Rightarrow> None))
               }
               else handleReportDataSource env lib il s3 cfg pcfg imps ds)
        })"

end
