(* ===== verification/Data_Source_Runs.thy ===== *)
theory Data_Source_Runs
  imports Data_Sources
begin

text \<open>
  What the handling of a data source of Prometheus metrics does over the importer: the window of data that it records is the hull of
  the one recorded before and the ranges queried, it always returns, and the importers are found by name alone.
\<close>

section \<open>The import inside the handler\<close>

text \<open>An event that leaves the data sources of the API server as they are.\<close>

definition keepsDataSources :: "event \<Rightarrow> bool" where
  "keepsDataSources e \<longleftrightarrow> (\<forall>x. e \<noteq> UpdateReportDataSource x)"

lemma keepsDataSources_simps [simp]:
  "keepsDataSources ReadClock" "keepsDataSources (CounterInc m)" "keepsDataSources (CounterAdd m n)" "keepsDataSources (GaugeInc m)"
  "keepsDataSources (GaugeDec m)" "keepsDataSources (ObserveDuration m d)" "keepsDataSources (PromQueryRange q r)"
  "keepsDataSources (PrestoQuery s)"
  by (simp_all add: keepsDataSources_def)

lemma presto_keeps: "is_presto e \<Longrightarrow> keepsDataSources e"
  by (cases e) simp_all

lemma emits_store_keeps: "emits (StorePrometheusMetrics env cap t ms) keepsDataSources (\<lambda>_. True)"
  unfolding StorePrometheusMetrics_def StorePrometheusMetricsWithBuffer_def Let_def
  by (rule emits_weaken [OF emits_store_loop]) (simp_all add: presto_keeps)

lemma emits_last_keeps: "emits (GetLastTimestampForTable env t) keepsDataSources (\<lambda>_. True)"
  unfolding GetLastTimestampForTable_def by (intro emits_intros) simp_all

lemma emits_case_prom_value:
  "(\<And>m. v = Matrix m \<Longrightarrow> emits (f m) P Q) \<Longrightarrow> (\<And>t. v = NotMatrix t \<Longrightarrow> emits (g t) P Q) \<Longrightarrow>
   emits (case v of Matrix m \<Rightarrow> f m | NotMatrix t \<Rightarrow> g t) P Q"
  by (cases v) simp_all

lemma emits_chunk_keeps: "emits (import_chunk env cfg r) keepsDataSources (\<lambda>_. True)"
  unfolding import_chunk_def by (intro emits_intros emits_case_prom_value emits_store_keeps TrueI) simp_all

lemma emits_loop_keeps: "emits (import_loop env cfg rs res) keepsDataSources (\<lambda>_. True)"
proof (induction rs arbitrary: res)
  case (Cons r rs)
  show ?case unfolding import_loop.simps by (intro emits_intros emits_chunk_keeps Cons.IH TrueI)
qed (simp add: emits_return)

lemma emits_import_keeps: "emits (ImportFromLastTimestamp env imp allow) keepsDataSources (\<lambda>_. True)"
  unfolding ImportFromLastTimestamp_def ImportFromTimeRange_def
  by (intro emits_intros emits_loop_keeps emits_last_keeps TrueI) simp_all

text \<open>An import without an error answers the ranges it queried.\<close>

lemma import_processed:
  "traces (ImportFromLastTimestamp env imp allow)
     (\<lambda>b es. \<forall>res. snd b = Some (res, None) \<longrightarrow> (\<exists>r. res = Some r \<and> ir_ProcessedTimeRanges r = queried es))"
  unfolding ImportFromLastTimestamp_def
  by (intro traces_intros traces_bind [OF ImportFromTimeRange_queries] traces_bind [OF last_timestamp_queries_nothing])
    (auto simp: no_results_def progress_def intro!: traces_intros traces_bind [OF ImportFromTimeRange_queries]
      traces_bind [OF last_timestamp_queries_nothing] split: prod.splits option.splits if_splits)

text \<open>An import returns when its chunks are longer than nothing and its steps do not go back.\<close>

lemma chunks_return:
  assumes "0 < cfg_ChunkSize cfg" and "0 \<le> cfg_StepSize cfg"
  shows "chunks cfg b e allow \<noteq> None"
  using chunk_loop_terminates [of "\<lparr>cp_endTime = e, cp_chunkSize = cfg_ChunkSize cfg, cp_stepSize = cfg_StepSize cfg,
      cp_maxTimeRanges = cfg_MaxTimeRanges cfg, cp_allowIncompleteChunks = allow\<rparr>"] assms
  by (auto simp: chunks_def getTimeRangesChunked_def Let_def chunk_shape_def)

lemma Truncate_dur_nonneg: "0 \<le> d \<Longrightarrow> 0 \<le> Truncate_dur d m"
  using mod_less_eq_dividend [of "nat d" "nat m"]
  by (auto simp: Truncate_dur_def signed_modulo_int_def sgn_if zmod_le_nonneg_dividend)

lemma importer_cfg_sizes:
  assumes "newPromImporterCfg pcfg pmi q t = Inr icfg" and "0 \<le> chunkSizeFor pcfg pmi" and "0 \<le> stepSizeFor pcfg pmi"
  shows "0 < cfg_ChunkSize icfg" and "0 \<le> cfg_StepSize icfg"
  using assms Truncate_dur_nonneg [of "chunkSizeFor pcfg pmi" Second] Truncate_dur_nonneg [of "stepSizeFor pcfg pmi" Second]
  by (auto simp: newPromImporterCfg_def Let_def div_int64_def bindR_eq_Inr split: option.splits if_splits)

lemma import_returns:
  assumes "0 < cfg_ChunkSize (imp_cfg imp)" and "0 \<le> cfg_StepSize (imp_cfg imp)"
  shows "traces (ImportFromLastTimestamp env imp allow) (\<lambda>b _. snd b \<noteq> None)"
proof -
  have returns: "(chunks (imp_cfg imp) b e allow = None) = False" for b e
    using chunks_return [OF assms] by simp
  show ?thesis
    unfolding ImportFromLastTimestamp_def
    by (intro traces_intros traces_bind [OF ImportFromTimeRange_queries] traces_bind [OF last_timestamp_queries_nothing])
      (auto simp: returns intro!: traces_intros traces_bind [OF ImportFromTimeRange_queries]
        traces_bind [OF last_timestamp_queries_nothing] split: prod.splits option.splits if_splits)
qed

section \<open>Recording an import\<close>

text \<open>
  The events after an import: Prometheus is not queried again, and a data source is written only with the window that the ranges
  give, when there are any.
\<close>

definition windowOf :: "PrometheusMetricsImportStatus \<Rightarrow> go_time option \<times> go_time option" where
  "windowOf st = (pis_ImportDataStartTime st, pis_ImportDataEndTime st)"

definition recorded_as :: "(go_time option \<times> go_time option) option \<Rightarrow> event \<Rightarrow> bool" where
  "recorded_as w e \<longleftrightarrow> queried_range e = [] \<and>
     (\<forall>x. e = UpdateReportDataSource x \<longrightarrow>
       w = map_option windowOf (dstat_PrometheusMetricsImportStatus (ds_Status x)) \<and> w \<noteq> None)"

lemma recorded_as_simps [simp]:
  "recorded_as w ReadClock" "recorded_as w (QueueAdd q k)" "recorded_as w (QueueAddAfter q k d)" "recorded_as w (Sleep d)"
  "recorded_as w (GetReportDataSource ns n)"
  "recorded_as w (UpdateReportDataSource x) \<longleftrightarrow>
     w = map_option windowOf (dstat_PrometheusMetricsImportStatus (ds_Status x)) \<and> w \<noteq> None"
  by (auto simp: recorded_as_def)

lemma emits_queueDependents: "emits (queueDependentsOfDataSource env lib ds) (recorded_as w) (\<lambda>_. True)"
  unfolding queueDependentsOfDataSource_def queueDependentReportsForDataSource_def
    queueDependentReportDataSourcesForDataSource_def enqueue_defs
  by (intro emits_intros TrueI) simp_all

lemma emits_writeImportStatus:
  assumes "w = Some (windowOf st)"
  shows "emits (writeImportStatus env ds st d) (recorded_as w) (\<lambda>_. True)"
  unfolding writeImportStatus_def scheduleImport_def updateReportDataSource_def readModifyWrite_def updateReportDataSourceM_def
    enqueue_defs
  by (intro emits_intros TrueI) (simp_all add: assms set_ImportStatus_def)

lemma recordMetrics_window: "recordMetrics ms st = Some st' \<Longrightarrow> windowOf st' = windowOf st"
  by (auto simp: recordMetrics_def windowOf_def Let_def split: option.splits if_splits)

lemma emits_recordImport:
  "emits (recordImport env lib cfg interval ds st results)
     (recorded_as (if ir_ProcessedTimeRanges results = [] then None
                   else Some (windowOf (recordRanges (ir_ProcessedTimeRanges results) st)))) (\<lambda>_. True)"
  unfolding recordImport_def scheduleImport_def importDelayM_def enqueue_defs Let_def
  by (intro emits_intros emits_writeImportStatus emits_queueDependents TrueI)
    (simp_all add: recordMetrics_window)

text \<open>The hull of a window and an interval.\<close>

definition joined :: "(go_time \<Rightarrow> go_time \<Rightarrow> go_time) \<Rightarrow> go_time option \<Rightarrow> go_time \<Rightarrow> go_time" where
  "joined f old t = (case old of None \<Rightarrow> t | Some u \<Rightarrow> f u t)"

lemma recordRanges_window:
  "windowOf (recordRanges rs st) =
     (Some (joined min (pis_ImportDataStartTime st) (rng_Start (hd rs))),
      Some (joined max (pis_ImportDataEndTime st) (rng_End (last rs))))"
  by (auto simp: recordRanges_def windowOf_def joined_def Let_def min_def max_def split: option.splits)

section \<open>The handler\<close>

lemma traces_conj: "traces m R \<Longrightarrow> traces m R' \<Longrightarrow> traces m (\<lambda>a es. R a es \<and> R' a es)"
  unfolding traces_def by (metis Pair_inject same_append_eq)

definition importStatusOf :: "ReportDataSource \<Rightarrow> PrometheusMetricsImportStatus" where
  "importStatusOf ds = (case dstat_PrometheusMetricsImportStatus (ds_Status ds) of Some st \<Rightarrow> st | None \<Rightarrow> no_ImportStatus)"

text \<open>The window that handling the data source may write when it queries the ranges.\<close>

definition hull :: "ReportDataSource \<Rightarrow> prom_Range list \<Rightarrow> go_time option \<times> go_time option" where
  "hull ds rs =
     (Some (joined min (pis_ImportDataStartTime (importStatusOf ds)) (rng_Start (hd rs))),
      Some (joined max (pis_ImportDataEndTime (importStatusOf ds)) (rng_End (last rs))))"

definition windows_ok :: "ReportDataSource \<Rightarrow> event list \<Rightarrow> bool" where
  "windows_ok ds es \<longleftrightarrow>
     (\<forall>x. UpdateReportDataSource x \<in> set es \<longrightarrow> queried es \<noteq> [] \<and>
        map_option windowOf (dstat_PrometheusMetricsImportStatus (ds_Status x)) = Some (hull ds (queried es)))"

lemma windows_ok_keeps: "\<forall>e \<in> set es. keepsDataSources e \<Longrightarrow> windows_ok ds es"
  by (auto simp: windows_ok_def keepsDataSources_def)

lemma recorded_as_queried: "recorded_as w e \<Longrightarrow> queried_range e = []"
  by (simp add: recorded_as_def)

lemma queried_recorded: "\<forall>e \<in> set es. recorded_as w e \<Longrightarrow> queried es = []"
  by (induction es) (auto dest: recorded_as_queried)

lemma windows_ok_recorded:
  assumes "\<forall>e \<in> set es. keepsDataSources e"
    and "\<forall>e \<in> set es'. recorded_as (if queried es = [] then None else Some (hull ds (queried es))) e"
  shows "windows_ok ds (ReadClock # es @ es')"
proof -
  have k: "UpdateReportDataSource x \<notin> set es" for x using assms(1) by (auto simp: keepsDataSources_def)
  have q: "queried es' = []" by (rule queried_recorded [OF assms(2)])
  show ?thesis
    unfolding windows_ok_def
  proof (intro allI impI)
    fix x
    assume "UpdateReportDataSource x \<in> set (ReadClock # es @ es')"
    with k have "UpdateReportDataSource x \<in> set es'" by auto
    with assms(2) have "recorded_as (if queried es = [] then None else Some (hull ds (queried es))) (UpdateReportDataSource x)"
      by blast
    with q show "queried (ReadClock # es @ es') \<noteq> [] \<and>
        map_option windowOf (dstat_PrometheusMetricsImportStatus (ds_Status x)) =
          Some (hull ds (queried (ReadClock # es @ es')))"
      by (simp del: map_option_eq_Some add: eq_commute split: if_splits)
  qed
qed

lemma traces_afterImport:
  fixes b :: "PrometheusImporter \<times> import_return"
  assumes processed: "\<forall>res. snd b = Some (res, None) \<longrightarrow> (\<exists>r. res = Some r \<and> ir_ProcessedTimeRanges r = queried es)"
    and keeps: "\<forall>e \<in> set es. keepsDataSources e"
    and window: "\<And>rs. windowOf (recordRanges rs st) = hull ds rs"
  shows "traces (case b of (importer', ret) \<Rightarrow>
      let imps' = map_set (Name ds) (importer', snd imp) imps in
      case ret of None \<Rightarrow> State_Monad.return None
      | Some (_, Some e) \<Rightarrow> State_Monad.return (Some (imps', Some (wrap (\<lambda>m. ''ImportFromLastTimestamp errored: '' @ m) e)))
      | Some (results, None) \<Rightarrow> do {
          err \<leftarrow> recordImport env lib cfg interval ds st (the results);
          State_Monad.return (Some (imps', err))
        }) (\<lambda>_ es'. windows_ok ds (ReadClock # es @ es'))"
proof -
  have k: "windows_ok ds (ReadClock # es)" using keeps by (intro windows_ok_keeps) simp
  have r: "traces (do { err \<leftarrow> recordImport env lib cfg interval ds st (the res); State_Monad.return (Some (imps', err)) })
      (\<lambda>_ es'. windows_ok ds (ReadClock # es @ es'))" if "snd b = Some (res, None)" for res imps'
  proof -
    from processed that obtain r where "res = Some r" "ir_ProcessedTimeRanges r = queried es" by blast
    then have "emits (recordImport env lib cfg interval ds st (the res))
        (recorded_as (if queried es = [] then None else Some (hull ds (queried es)))) (\<lambda>_. True)"
      using emits_recordImport [of env lib cfg interval ds st r] window by (cases "queried es = []") simp_all
    then have "traces (recordImport env lib cfg interval ds st (the res)) (\<lambda>_ es'. windows_ok ds (ReadClock # es @ es'))"
      unfolding emits_traces by (rule traces_weaken) (use keeps windows_ok_recorded in blast)
    then show ?thesis by (rule traces_bind) (simp add: traces_return)
  qed
  show ?thesis
    using k by (auto simp: Let_def intro!: traces_return r split: prod.splits option.splits)
qed

lemma traces_runImport: "traces (runImport env lib il cfg interval imps ds imp) (\<lambda>_ es. windows_ok ds es)"
  unfolding runImport_def
proof (intro traces_bind_nowM traces_let,
    rule traces_bind [OF traces_conj [OF import_processed emits_import_keeps [unfolded emits_traces]]], rule traces_afterImport)
  show "windowOf (recordRanges rs ((case dstat_PrometheusMetricsImportStatus (ds_Status ds) of Some st \<Rightarrow> st | None \<Rightarrow> no_ImportStatus)
      \<lparr>pis_LastImportTime := Some now\<rparr>)) = hull ds rs" for rs now
    by (simp add: recordRanges_window hull_def importStatusOf_def split: option.split)
qed simp_all

text \<open>What a handling without an error leaves in the map of the importers.\<close>

lemma traces_afterImport_result:
  fixes b :: "PrometheusImporter \<times> import_return"
  shows "traces (case b of (importer', ret) \<Rightarrow>
      let imps' = map_set (Name ds) (importer', snd imp) imps in
      case ret of None \<Rightarrow> State_Monad.return None
      | Some (_, Some e) \<Rightarrow> State_Monad.return (Some (imps', Some (wrap (\<lambda>m. ''ImportFromLastTimestamp errored: '' @ m) e)))
      | Some (results, None) \<Rightarrow> do {
          err \<leftarrow> recordImport env lib cfg interval ds st (the results);
          State_Monad.return (Some (imps', err))
        }) (\<lambda>r es'. queried es' = [] \<and> (\<forall>imps'. r = Some (imps', None) \<longrightarrow>
              (\<exists>res. snd b = Some (res, None)) \<and> imps' = map_set (Name ds) (fst b, snd imp) imps))"
proof -
  have q: "traces (recordImport env lib cfg interval ds st res) (\<lambda>_ es'. queried es' = [])" for res
    using emits_recordImport unfolding emits_traces by (rule traces_weaken) (auto dest: queried_recorded)
  show ?thesis
    by (auto simp: Let_def intro!: traces_return traces_bind [OF q] split: prod.splits option.splits)
qed

lemma import_last_timestamp:
  "traces (ImportFromLastTimestamp env imp allow)
     (\<lambda>b es. import_ok (snd b) \<longrightarrow> queried es \<noteq> [] \<longrightarrow> imp_lastTimestamp (fst b) = Some (rng_End (last (queried es))))"
  unfolding ImportFromLastTimestamp_def
  by (intro traces_intros traces_bind [OF ImportFromTimeRange_queries] traces_bind [OF last_timestamp_queries_nothing])
    (auto simp: import_ok_def progress_def intro!: traces_intros traces_bind [OF ImportFromTimeRange_queries]
      traces_bind [OF last_timestamp_queries_nothing] split: prod.splits option.splits if_splits)

definition continued :: "string \<Rightarrow> PrometheusImporter \<Rightarrow> importers \<Rightarrow> event list \<Rightarrow> bool" where
  "continued n imp imps' es \<longleftrightarrow>
     (\<exists>importer' conn. map_of imps' n = Some (importer', conn) \<and>
        (queried es \<noteq> [] \<longrightarrow> imp_lastTimestamp importer' = Some (rng_End (last (queried es))))) \<and>
     (\<forall>t. imp_lastTimestamp imp = Some t \<longrightarrow> queried es = [] \<or>
        (\<exists>e. chunks (imp_cfg imp) (t + cfg_StepSize (imp_cfg imp)) e True = Some (queried es)))"

lemma import_continues:
  "traces (ImportFromLastTimestamp env imp True)
     (\<lambda>b es. import_ok (snd b) \<longrightarrow>
       (\<forall>t. imp_lastTimestamp imp = Some t \<longrightarrow> queried es = [] \<or>
        (\<exists>e. chunks (imp_cfg imp) (t + cfg_StepSize (imp_cfg imp)) e True = Some (queried es))))"
proof (cases "imp_lastTimestamp imp")
  case None
  then show ?thesis by (intro traces_weaken [OF ImportFromLastTimestamp_appends]) simp
next
  case (Some t)
  show ?thesis by (rule traces_weaken [OF ImportFromLastTimestamp_queries [OF Some]]) (auto simp: Some)
qed

lemma runImport_continued:
  "traces (runImport env lib il cfg interval imps ds imp)
     (\<lambda>r es. \<forall>imps'. r = Some (imps', None) \<longrightarrow> continued (Name ds) (fst imp) imps' es)"
  unfolding runImport_def
proof (intro traces_bind_nowM traces_let,
    rule traces_bind [OF traces_conj [OF import_processed traces_conj [OF import_last_timestamp import_continues]]],
    rule traces_weaken [OF traces_afterImport_result], elim conjE, intro allI impI)
  fix b :: "PrometheusImporter \<times> import_return" and es r es' imps'
  assume a: "\<forall>res. snd b = Some (res, None) \<longrightarrow> (\<exists>r. res = Some r \<and> ir_ProcessedTimeRanges r = queried es)"
    "import_ok (snd b) \<longrightarrow> queried es \<noteq> [] \<longrightarrow> imp_lastTimestamp (fst b) = Some (rng_End (last (queried es)))"
    "import_ok (snd b) \<longrightarrow> (\<forall>t. imp_lastTimestamp (fst imp) = Some t \<longrightarrow> queried es = [] \<or>
        (\<exists>e. chunks (imp_cfg (fst imp)) (t + cfg_StepSize (imp_cfg (fst imp))) e True = Some (queried es)))"
    and q: "queried es' = []" and "r = Some (imps', None)"
    and "\<forall>imps'. r = Some (imps', None) \<longrightarrow>
        (\<exists>res. snd b = Some (res, None)) \<and> imps' = map_set (Name ds) (fst b, snd imp) imps"
  then have "import_ok (snd b)" "imps' = map_set (Name ds) (fst b, snd imp) imps" by (auto simp: import_ok_def)
  with a(2,3) q show "continued (Name ds) (fst imp) imps' (ReadClock # es @ es')"
    by (auto simp: continued_def)
qed

lemma traces_existing: "traces (existingDataSourceTable env ds) (\<lambda>_ es. es = [])"
  by (rule tracesI) (auto simp: existingDataSourceTable_def bindM_def wrapM_def split: sum.split)

lemma traces_handle:
  assumes "dstat_TableRef (ds_Status ds) \<noteq> []"
  shows "traces (handlePrometheusMetricsDataSource env lib il cfg pcfg imps ds pmi) (\<lambda>_ es. windows_ok ds es)"
proof -
  have "windows_ok ds []" by (simp add: windows_ok_def)
  with assms show ?thesis
    unfolding handlePrometheusMetricsDataSource_def
    by (auto intro!: traces_return traces_runImport traces_bind [OF traces_existing] split: sum.split prod.split)
qed

section \<open>Properties\<close>

text \<open>A status that cannot be written makes the handler panic: its message reads the name of the resource that the update did not answer.\<close>

lemma failed_status_update_panics:
  assumes "run_state (updateReportDataSource env (Namespace ds) (Name ds) (set_ImportStatus st)) h = (Inl e, h')"
  shows "run_state (writeImportStatus env ds st d) h =
    (Some (GoPanic ''runtime error: invalid memory address or nil pointer dereference''), h')"
  using assms by (simp add: writeImportStatus_def)

text \<open>
  The dependents of a data source among the views are looked up with the name of the view in place of the name of its query: a view whose
  query is not named like it ends the search with an error, and no view after it is queued.
\<close>

lemma view_dependents_by_wrong_name:
  assumes "lister_ReportDataSources env h (Namespace ds) = Inr (v # vs)" and "dspec_ReportQueryView (ds_Spec v) \<noteq> None"
    and "lister_ReportQuery env h (Namespace v) (Name v) = Inl e"
  shows "\<exists>e'. run_state (queueDependentReportDataSourcesForDataSource env lib ds) h = (Inl e', h)"
  using assms
  by (auto simp: queueDependentReportDataSourcesForDataSource_def bindM_def queueIf_def getQueryDependencies_def listerResolver_def
      bindR_def)

text \<open>
  C4: when handling a data source of Prometheus metrics writes the resource, Prometheus was queried, and the window of imported
  data that it writes is the hull of the recorded window and the ranges queried: the window only grows, and by
  exactly what was queried.
\<close>

theorem import_window_grows:
  assumes "dstat_TableRef (ds_Status ds) \<noteq> []"
    and "run_state (handlePrometheusMetricsDataSource env lib il cfg pcfg imps ds pmi) h = (r, h @ es)"
    and "UpdateReportDataSource x \<in> set es"
  shows "queried es \<noteq> [] \<and> (\<exists>st. dstat_PrometheusMetricsImportStatus (ds_Status x) = Some st \<and>
    pis_ImportDataStartTime st = Some (joined min (pis_ImportDataStartTime (importStatusOf ds)) (rng_Start (hd (queried es)))) \<and>
    pis_ImportDataEndTime st = Some (joined max (pis_ImportDataEndTime (importStatusOf ds)) (rng_End (last (queried es)))))"
proof -
  from tracesD [OF traces_handle [OF assms(1)] assms(2)] have "windows_ok ds es" by simp
  with assms(3) show ?thesis by (auto simp: windows_ok_def windowOf_def hull_def)
qed


lemma handle_continued:
  assumes "dstat_TableRef (ds_Status ds) \<noteq> []"
    and "run_state (handlePrometheusMetricsDataSource env lib il cfg pcfg imps ds pmi) h = (Some (imps', None), h @ es)"
    and "queried es \<noteq> []"
  shows "\<exists>q t icfg imp. newPromImporterCfg pcfg pmi q t = Inr icfg \<and> importerOf env il imps ds pmi icfg = Inr imp \<and>
    imp_cfg (fst imp) = icfg \<and> continued (Name ds) (fst imp) imps' es"
proof -
  have c: "imp_cfg (fst imp) = icfg" if "importerOf env il imps ds pmi icfg = Inr imp" for imp icfg
    using that by (auto simp: importerOf_def newPromImporter_def NewPrometheusImporter_def UpdateConfig_def bindR_eq_Inr
        split: option.splits)
  define found where "found imps' es \<longleftrightarrow>
    (\<exists>q t icfg imp. newPromImporterCfg pcfg pmi q t = Inr icfg \<and> importerOf env il imps ds pmi icfg = Inr imp \<and>
      continued (Name ds) (fst imp) imps' es)" for imps' es
  have f: "found imps' es" if "newPromImporterCfg pcfg pmi q t = Inr icfg" "importerOf env il imps ds pmi icfg = Inr (i, conn)"
    "continued (Name ds) i imps' es" for imps' es q t icfg i conn
    using that unfolding found_def by (metis fst_conv)
  have "traces (handlePrometheusMetricsDataSource env lib il cfg pcfg imps ds pmi)
      (\<lambda>r es. \<forall>imps'. r = Some (imps', None) \<longrightarrow> queried es \<noteq> [] \<longrightarrow> found imps' es)"
    unfolding handlePrometheusMetricsDataSource_def
    using assms(1) by (auto intro!: traces_return traces_bind [OF traces_existing] traces_weaken [OF runImport_continued]
        split: sum.split prod.split) (rule f)
  from tracesD [OF this assms(2)] assms(3) have "found imps' es" by simp
  with c show ?thesis unfolding found_def by blast
qed

text \<open>
  C5: the imports of data sources of the same name continue one another: the ranges queried for the second begin one step
  after the end of the last range queried for the first. That is right for a data source that is
  handled again, but nothing here asks the two to be in the same namespace: the importers are found by name alone.
\<close>

theorem imports_continue_by_name:
  assumes "dstat_TableRef (ds_Status ds1) \<noteq> []" and "dstat_TableRef (ds_Status ds2) \<noteq> []" and "Name ds1 = Name ds2"
    and "run_state (handlePrometheusMetricsDataSource env lib il cfg pcfg imps ds1 pmi1) h = (Some (imps1, None), h @ es1)"
    and "run_state (handlePrometheusMetricsDataSource env lib il cfg pcfg imps1 ds2 pmi2) (h @ es1 @ es) =
      (Some (imps2, None), (h @ es1 @ es) @ es2)"
    and "queried es1 \<noteq> []" and "queried es2 \<noteq> []"
  shows "\<exists>q t icfg e. newPromImporterCfg pcfg pmi2 q t = Inr icfg \<and>
    getTimeRangesChunked (rng_End (last (queried es1)) + cfg_StepSize icfg) e (cfg_ChunkSize icfg) (cfg_StepSize icfg)
      (cfg_MaxTimeRanges icfg) True = Some (queried es2)"
proof -
  from handle_continued [OF assms(1,4,6)] obtain importer' conn where
    i: "map_of imps1 (Name ds1) = Some (importer', conn)" "imp_lastTimestamp importer' = Some (rng_End (last (queried es1)))"
    using assms(6) by (auto simp: continued_def)
  from handle_continued [OF assms(2,5,7)] obtain q t icfg imp where
    2: "newPromImporterCfg pcfg pmi2 q t = Inr icfg" "importerOf env il imps1 ds2 pmi2 icfg = Inr imp"
      "imp_cfg (fst imp) = icfg" "continued (Name ds2) (fst imp) imps2 es2" by blast
  have "imp_lastTimestamp (fst imp) = Some (rng_End (last (queried es1)))"
    using 2(2) i assms(3) by (auto simp: importerOf_def UpdateConfig_def)
  with 2(1,3,4) assms(7) show ?thesis by (auto simp: continued_def chunks_def)
qed

text \<open>Two data sources of one name in different namespaces, with importers that find nothing in Prometheus.\<close>

definition metrics_datasource :: "string \<Rightarrow> ReportDataSource" where
  "metrics_datasource ns = (unstarted_datasource ''cpu'')\<lparr>Namespace := ns\<rparr>"

definition metrics_importer :: PrometheusMetricsImporterDataSource where
  "metrics_importer = \<lparr>pmi_Query = ''up'', pmi_QueryConfig = None, pmi_Storage = None, pmi_PrometheusURL = None\<rparr>"

fun is_write :: "event \<Rightarrow> bool" where
  "is_write (UpdateReportDataSource _) = True"
| "is_write _ = False"

definition metrics_env :: env where
  "metrics_env = quiet_env\<lparr>clock_Now := \<lambda>h. if list_ex is_write h then Hour + 6 * Minute else Hour,
     lister_PrestoTable := \<lambda>_ _ n. Inr ((sample_presto_table True None)\<lparr>Name := n,
       pt_Status := empty_PrestoTableStatus\<lparr>ptst_Catalog := ''hive'', ptst_Schema := ''m'', ptst_TableName := n\<rparr>\<rparr>),
     presto_Query := \<lambda>_ _. Inr \<lparr>rows_Columns = Inr [], rows_Scan = [], rows_Err = None\<rparr>,
     prom_QueryRange := \<lambda>_ _ _. Inr (Matrix []),
     client_GetReportDataSource := \<lambda>_ ns _. Inr (metrics_datasource ns)\<rparr>"

definition metrics_config :: prom_config where
  "metrics_config = \<lparr>DisablePrometheusMetricsImporter = False, pc_QueryInterval = 5 * Minute, pc_StepSize = Minute,
     pc_ChunkSize = 5 * Minute, PrometheusDataSourceMaxQueryRangeDuration = 0,
     PrometheusDataSourceMaxBackfillImportDuration = 5 * Minute, PrometheusDataSourceGlobalImportFromTime = None\<rparr>"

definition metrics_lib :: report_lib where
  "metrics_lib = \<lparr>lib_cron = hourly_cron,
     lib_engine = \<lparr>te_Parse = \<lambda>_. None, te_Execute = \<lambda>_ text _. Inr text, te_ParseRFC3339 = \<lambda>s. Inl (Err s)\<rparr>,
     lib_stack = 10, lib_parseTime = \<lambda>s. Inl (Err s), lib_grow = \<lambda>c n. max n (2 * c)\<rparr>"

definition metrics_il :: import_lib where
  "metrics_il = \<lparr>il_sortSlice = \<lambda>ms. ms, il_bufferCap = 1000, il_connect = \<lambda>_. Inl (Err [])\<rparr>"

definition importersAfter :: "handled \<Rightarrow> importers option" where
  "importersAfter r = (case r of Some (imps, None) \<Rightarrow> Some imps | _ \<Rightarrow> None)"

abbreviation metrics_handle :: "importers \<Rightarrow> string \<Rightarrow> handled op" where
  "metrics_handle imps ns \<equiv> handlePrometheusMetricsDataSource metrics_env metrics_lib metrics_il \<lparr>EnableFinalizers = False\<rparr>
     metrics_config imps (metrics_datasource ns) metrics_importer"

definition metrics_both :: "(handled \<times> history \<times> handled) op" where
  "metrics_both = do {
     r1 \<leftarrow> metrics_handle [] ''a'';
     h1 \<leftarrow> peek (\<lambda>h. h);
     r2 \<leftarrow> metrics_handle (case importersAfter r1 of Some imps \<Rightarrow> imps | None \<Rightarrow> []) ''b'';
     State_Monad.return (r1, h1, r2)
   }"

fun metrics_ok :: "(handled \<times> history \<times> handled) \<times> history \<Rightarrow> bool" where
  "metrics_ok ((r1, h1, r2), h2) \<longleftrightarrow> importersAfter r1 \<noteq> None \<and> importersAfter r2 \<noteq> None \<and> queried h1 \<noteq> [] \<and>
     list_ex is_write h1 \<and> queried (drop (length h1) h2) \<noteq> []"

lemma metrics_both_ok: "metrics_ok (run_state metrics_both [])"
  by code_simp

lemma is_write_iff: "is_write e \<longleftrightarrow> (\<exists>x. e = UpdateReportDataSource x)"
  by (cases e) auto

lemma importersAfter_Some: "importersAfter r = Some imps \<longleftrightarrow> r = Some (imps, None)"
  by (auto simp: importersAfter_def split: option.splits)

lemma handle_appends:
  assumes "dstat_TableRef (ds_Status ds) \<noteq> []"
    and "run_state (handlePrometheusMetricsDataSource env lib il cfg pcfg imps ds pmi) h = (r, h')"
  shows "h' = h @ drop (length h) h'"
proof -
  obtain es where "h' = h @ es" by (rule tracesD [OF traces_handle [OF assms(1)] assms(2)])
  then show ?thesis by simp
qed

lemma metrics_datasource_table: "dstat_TableRef (ds_Status (metrics_datasource ns)) \<noteq> []"
  by (simp add: metrics_datasource_def unstarted_datasource_def view_datasource_def)

text \<open>Both runs, as \<open>metrics_both\<close> makes them.\<close>

lemma metrics_runs:
  "\<exists>imps1 imps2 es1 es2 x. run_state (metrics_handle [] ''a'') [] = (Some (imps1, None), [] @ es1) \<and>
     run_state (metrics_handle imps1 ''b'') ([] @ es1 @ []) = (Some (imps2, None), ([] @ es1 @ []) @ es2) \<and>
     queried es1 \<noteq> [] \<and> queried es2 \<noteq> [] \<and> UpdateReportDataSource x \<in> set es1"
proof -
  obtain r1 h1 where 1: "run_state (metrics_handle [] ''a'') [] = (r1, h1)" by fastforce
  define imps where "imps = (case importersAfter r1 of Some imps \<Rightarrow> imps | None \<Rightarrow> [])"
  obtain r2 h2 where 2: "run_state (metrics_handle imps ''b'') h1 = (r2, h2)" by fastforce
  have "run_state metrics_both [] = ((r1, h1, r2), h2)"
    using 1 2 by (simp add: metrics_both_def imps_def)
  then have ok: "importersAfter r1 \<noteq> None" "importersAfter r2 \<noteq> None" "queried h1 \<noteq> []" "list_ex is_write h1"
    "queried (drop (length h1) h2) \<noteq> []" using metrics_both_ok by auto
  obtain imps1 imps2 where i: "importersAfter r1 = Some imps1" "importersAfter r2 = Some imps2" using ok(1,2) by blast
  then have r: "imps = imps1" "r1 = Some (imps1, None)" "r2 = Some (imps2, None)"
    by (simp add: imps_def) (use i in \<open>simp_all add: importersAfter_Some\<close>)
  obtain x where "UpdateReportDataSource x \<in> set h1" using ok(4) by (auto simp: list_ex_iff is_write_iff)
  moreover have "h2 = h1 @ drop (length h1) h2" by (rule handle_appends [OF metrics_datasource_table 2])
  ultimately show ?thesis using 1 2 r ok(3,5) by auto
qed

theorem imports_continue_by_name_witness:
  "\<exists>es1 es2. queried es2 \<noteq> [] \<and> Namespace (metrics_datasource ''a'') \<noteq> Namespace (metrics_datasource ''b'') \<and>
     (\<exists>q t icfg e. newPromImporterCfg metrics_config metrics_importer q t = Inr icfg \<and>
       getTimeRangesChunked (rng_End (last (queried es1)) + cfg_StepSize icfg) e (cfg_ChunkSize icfg) (cfg_StepSize icfg)
         (cfg_MaxTimeRanges icfg) True = Some (queried es2))"
proof -
  obtain imps1 imps2 es1 es2 where r: "run_state (metrics_handle [] ''a'') [] = (Some (imps1, None), [] @ es1)"
    "run_state (metrics_handle imps1 ''b'') ([] @ es1 @ []) = (Some (imps2, None), ([] @ es1 @ []) @ es2)"
    "queried es1 \<noteq> []" "queried es2 \<noteq> []" using metrics_runs by blast
  have n: "Name (metrics_datasource ''a'') = Name (metrics_datasource ''b'')"
    "Namespace (metrics_datasource ''a'') \<noteq> Namespace (metrics_datasource ''b'')" by (simp_all add: metrics_datasource_def)
  from imports_continue_by_name [OF metrics_datasource_table metrics_datasource_table n(1) r] r(4) n(2) show ?thesis by blast
qed

theorem import_window_grows_witness:
  "\<exists>es x st. UpdateReportDataSource x \<in> set es \<and> dstat_PrometheusMetricsImportStatus (ds_Status x) = Some st \<and>
     pis_ImportDataStartTime st = Some (joined min None (rng_Start (hd (queried es)))) \<and>
     pis_ImportDataEndTime st = Some (joined max None (rng_End (last (queried es))))"
proof -
  obtain imps1 es1 x where r: "run_state (metrics_handle [] ''a'') [] = (Some (imps1, None), [] @ es1)"
    "UpdateReportDataSource x \<in> set es1" using metrics_runs by blast
  have s: "importStatusOf (metrics_datasource ''a'') = no_ImportStatus"
    by (simp add: importStatusOf_def metrics_datasource_def unstarted_datasource_def view_datasource_def)
  from import_window_grows [OF metrics_datasource_table r] r(2) show ?thesis by (auto simp: s no_ImportStatus_def)
qed


end
