(* ===== verification/Step_Systems.thy ===== *)
theory Step_Systems
  imports Metering_Prelude
begin

text \<open>
  What the step relations of the development share: an invariant of the states that are reached, a measure of the work that is left, and
  the progress of steps until a state is settled. A component shows the laws of a locale for its own steps and has the consequences.
\<close>

section \<open>Invariants\<close>

locale step_invariant =
  fixes step :: "'s \<Rightarrow> 's \<Rightarrow> bool" and start :: 's and inv :: "'s \<Rightarrow> bool"
  assumes inv_start: "inv start"
    and inv_step: "step s s' \<Longrightarrow> inv s \<Longrightarrow> inv s'"
begin

lemma reached_inv: "step\<^sup>*\<^sup>* start s \<Longrightarrow> inv s"
  by (induction rule: rtranclp_induct) (auto intro: inv_start inv_step)

end

section \<open>Work\<close>

locale working_steps =
  fixes step :: "'s \<Rightarrow> 's \<Rightarrow> bool" and work :: "'s \<Rightarrow> nat"
  assumes step_works: "step s s' \<Longrightarrow> work s' < work s"
begin

lemma run_bounded: "(step ^^ n) s s' \<Longrightarrow> n + work s' \<le> work s"
proof (induction n arbitrary: s')
  case (Suc n)
  then obtain u where "(step ^^ n) s u" "step u s'" by auto
  with Suc.IH [of u] step_works [of u s'] show ?case by simp
qed simp

lemma no_endless_run: "\<not> (\<forall>n. step (run n) (run (Suc n)))"
proof
  assume run: "\<forall>n. step (run n) (run (Suc n))"
  have "work (run n) + n \<le> work (run 0)" for n
  proof (induction n)
    case (Suc n)
    with step_works [of "run n" "run (Suc n)"] run show ?case by simp
  qed simp
  from this [of "Suc (work (run 0))"] show False by simp
qed

end

text \<open>Work that is the sum of the work of several parties, one of which moves on.\<close>

lemma sum_work_decreases:
  fixes f :: "'a \<Rightarrow> nat"
  assumes "i < length xs" and "f y < f (xs ! i)"
  shows "sum_list (map f (xs[i := y])) < sum_list (map f xs)"
  using assms elem_le_sum_list [of i "map f xs"] by (simp add: map_update sum_list_update)

section \<open>Progress\<close>

locale settling_steps = working_steps step work
  for step :: "'s \<Rightarrow> 's \<Rightarrow> bool" and work :: "'s \<Rightarrow> nat" +
  fixes inv settled :: "'s \<Rightarrow> bool"
  assumes keeps: "step s s' \<Longrightarrow> inv s \<Longrightarrow> inv s'"
    and proceeds: "inv s \<Longrightarrow> \<not> settled s \<Longrightarrow> \<exists>s'. step s s'"
begin

lemma run_keeps: "(step ^^ n) s s' \<Longrightarrow> inv s \<Longrightarrow> inv s'"
proof (induction n arbitrary: s')
  case (Suc n)
  then obtain u where "(step ^^ n) s u" "step u s'" by auto
  with Suc.IH [of u] Suc.prems(2) keeps [of u s'] show ?case by simp
qed simp

lemma run_settles: "(step ^^ n) s s' \<Longrightarrow> inv s \<Longrightarrow> n \<le> work s \<and> (settled s' \<or> (\<exists>u. step s' u))"
  using run_bounded [of n s s'] run_keeps [of n s s'] proceeds [of s'] by auto

lemma settles: "inv s \<Longrightarrow> \<exists>s'. step\<^sup>*\<^sup>* s s' \<and> inv s' \<and> settled s'"
proof (induction "work s" arbitrary: s rule: less_induct)
  case less
  show ?case
  proof (cases "settled s")
    case False
    then obtain u where u: "step s u" using proceeds less.prems by blast
    with less.hyps [of u] less.prems keeps [of s u] step_works [of s u] show ?thesis
      by (meson converse_rtranclp_into_rtranclp)
  qed (use less.prems in blast)
qed

end

end
