(* ===== verification/On_Demand_Import.thy ===== *)
theory On_Demand_Import
  imports Data_Source_Runs Http_Api Step_Systems
begin

text \<open>
  The import on demand, \<^verbatim>\<open>importPrometheusForTimeRange\<close> of \<^verbatim>\<open>pkg/operator/promsum.go\<close>, which the HTTP API calls: one goroutine for each data source
  of a namespace, at most four of them importing at a time, the results collected over a channel. The goroutines are a step
  relation on the state of their group: every interleaving of their steps is a run. An import is one step; the
  history that its calls see is arbitrary, since the others call the same services meanwhile.
\<close>

section \<open>The data sources\<close>

text \<open>The loop over the listed data sources: one without a table ends the call.\<close>

fun dataSourcesToImport :: "string \<Rightarrow> ReportDataSource list \<Rightarrow> goerror + ReportDataSource list" where
  "dataSourcesToImport dsName [] = Inr []"
| "dataSourcesToImport dsName (ds # dss) =
     (if dspec_PrometheusMetricsImporter (ds_Spec ds) = None then dataSourcesToImport dsName dss
      else if dsName \<noteq> [] \<and> dsName \<noteq> Name ds then dataSourcesToImport dsName dss
      else if dstat_TableRef (ds_Status ds) = [] then
        Inl (Err (''ReportDataSource '' @ Name ds @ '' has no table created yet''))
      else bindR (dataSourcesToImport dsName dss) (\<lambda>rest. Inr (ds # rest)))"

section \<open>One goroutine\<close>

text \<open>Before the semaphore: the table from the cache and the configuration, without the global start of imports.\<close>

definition prepareImport ::
  "'x lister_env_scheme \<Rightarrow> prom_config \<Rightarrow> history \<Rightarrow> ReportDataSource \<Rightarrow> goerror + Config" where
  "prepareImport env pcfg h ds =
     (case lister_PrestoTable env h (Namespace ds) (dstat_TableRef (ds_Status ds)) of
        Inl e \<Rightarrow> Inl (wrap (\<lambda>m. ''unable to get PrestoTable {'' @ dstat_TableRef (ds_Status ds) @ ''} for ReportDataSource '' @
            Name ds @ '', '' @ m) e)
      | Inr prestoTable \<Rightarrow>
          (let pmi = the (dspec_PrometheusMetricsImporter (ds_Spec ds)) in
           bindR (newPromImporterCfg pcfg pmi (pmi_Query pmi) prestoTable) (\<lambda>importCfg.
             Inr (importCfg\<lparr>cfg_ImportFromTime := None\<rparr>))))"

text \<open>With the semaphore: the connection and the import. \<open>ctxDone\<close> says when the context of the group is seen cancelled.\<close>

definition runOnDemand ::
  "'x store_env_scheme \<Rightarrow> import_lib \<Rightarrow> (history \<Rightarrow> goerror option) \<Rightarrow> ReportDataSource \<Rightarrow> Config \<Rightarrow> go_time \<Rightarrow> go_time \<Rightarrow>
   (goerror + prometheusImportResults) option op" where
  "runOnDemand env il ctxDone ds importCfg start end =
     (case newPromImporter env il (the (dspec_PrometheusMetricsImporter (ds_Spec ds))) importCfg of
        Inl e \<Rightarrow> State_Monad.return (Some (Inl e))
      | Inr (_, promConn) \<Rightarrow> do {
          r \<leftarrow> ImportFromTimeRange ((importerEnv env il promConn)\<lparr>ctx_Done := ctxDone\<rparr>) importCfg start end True;
          State_Monad.return
            (case r of
               None \<Rightarrow> None
             | Some (_, Some e) \<Rightarrow>
                 Some (Inl (wrap (\<lambda>m. ''error importing Prometheus data for ReportDataSource '' @ Name ds @ '': '' @ m) e))
             | Some (importResults, None) \<Rightarrow>
                 Some (Inr \<lparr>pir_ReportDataSource = Name ds, pir_Namespace = Namespace ds,
                            pir_MetricsImportedCount = int (length (ir_Metrics importResults))\<rparr>))
        })"

section \<open>The group\<close>

text \<open>
  Where a goroutine is: before the semaphore, waiting for it, importing with it, sending its result with it, or at its end. The group
  keeps the first error, which also cancels the context; a panic in a goroutine ends the process.
\<close>

datatype phase =
    Starting
  | Waiting Config
  | Importing Config
  | Sending prometheusImportResults
  | Finished "goerror option"

record import_group =
  ig_tasks :: "(ReportDataSource \<times> phase) list"
  ig_err :: "goerror option"
  ig_results :: "prometheusImportResults list"
  ig_crashed :: bool

definition concurrency :: nat where "concurrency = 4"

fun holds_semaphore :: "phase \<Rightarrow> bool" where
  "holds_semaphore (Importing _) = True"
| "holds_semaphore (Sending _) = True"
| "holds_semaphore _ = False"

definition holders :: "import_group \<Rightarrow> nat" where
  "holders g = length (filter (\<lambda>t. holds_semaphore (snd t)) (ig_tasks g))"

definition startGroup :: "ReportDataSource list \<Rightarrow> import_group" where
  "startGroup dss = \<lparr>ig_tasks = map (\<lambda>ds. (ds, Starting)) dss, ig_err = None, ig_results = [], ig_crashed = False\<rparr>"

definition enter :: "nat \<Rightarrow> phase \<Rightarrow> import_group \<Rightarrow> import_group" where
  "enter i p g = g\<lparr>ig_tasks := (ig_tasks g)[i := (fst (ig_tasks g ! i), p)]\<rparr>"

text \<open>The function of a goroutine returns an error, or panics.\<close>

definition fails :: "nat \<Rightarrow> goerror \<Rightarrow> import_group \<Rightarrow> import_group" where
  "fails i e g =
     (enter i (Finished (Some e)) g)
       \<lparr>ig_err := (case ig_err g of None \<Rightarrow> Some e | Some e' \<Rightarrow> Some e'),
        ig_crashed := (\<exists>m. e = GoPanic m)\<rparr>"

definition canceled :: goerror where "canceled = Err ''context canceled''"

inductive import_step ::
  "'x lister_env_scheme \<Rightarrow> import_lib \<Rightarrow> prom_config \<Rightarrow> go_time \<Rightarrow> go_time \<Rightarrow> import_group \<Rightarrow> import_group \<Rightarrow> bool"
  for env il pcfg start finish where
  prepared: "\<lbrakk>\<not> ig_crashed g; i < length (ig_tasks g); ig_tasks g ! i = (ds, Starting);
      prepareImport env pcfg h ds = Inr cfg\<rbrakk>
    \<Longrightarrow> import_step env il pcfg start finish g (enter i (Waiting cfg) g)"
| not_prepared: "\<lbrakk>\<not> ig_crashed g; i < length (ig_tasks g); ig_tasks g ! i = (ds, Starting);
      prepareImport env pcfg h ds = Inl e\<rbrakk>
    \<Longrightarrow> import_step env il pcfg start finish g (fails i e g)"
| acquire: "\<lbrakk>\<not> ig_crashed g; i < length (ig_tasks g); ig_tasks g ! i = (ds, Waiting cfg); holders g < concurrency\<rbrakk>
    \<Longrightarrow> import_step env il pcfg start finish g (enter i (Importing cfg) g)"
| abandon: "\<lbrakk>\<not> ig_crashed g; i < length (ig_tasks g); ig_tasks g ! i = (ds, Waiting cfg); ig_err g \<noteq> None\<rbrakk>
    \<Longrightarrow> import_step env il pcfg start finish g (fails i canceled g)"
| imported: "\<lbrakk>\<not> ig_crashed g; i < length (ig_tasks g); ig_tasks g ! i = (ds, Importing cfg);
      ig_err g = None \<Longrightarrow> ctxDone = (\<lambda>_. None);
      run_state (runOnDemand env il ctxDone ds cfg start finish) h = (Some (Inr x), h')\<rbrakk>
    \<Longrightarrow> import_step env il pcfg start finish g (enter i (Sending x) g)"
| not_imported: "\<lbrakk>\<not> ig_crashed g; i < length (ig_tasks g); ig_tasks g ! i = (ds, Importing cfg);
      ig_err g = None \<Longrightarrow> ctxDone = (\<lambda>_. None);
      run_state (runOnDemand env il ctxDone ds cfg start finish) h = (Some (Inl e), h')\<rbrakk>
    \<Longrightarrow> import_step env il pcfg start finish g (fails i e g)"
| received: "\<lbrakk>\<not> ig_crashed g; i < length (ig_tasks g); ig_tasks g ! i = (ds, Sending x)\<rbrakk>
    \<Longrightarrow> import_step env il pcfg start finish g ((enter i (Finished None) g)\<lparr>ig_results := ig_results g @ [x]\<rparr>)"

definition reaches ::
  "'x lister_env_scheme \<Rightarrow> import_lib \<Rightarrow> prom_config \<Rightarrow> go_time \<Rightarrow> go_time \<Rightarrow> import_group \<Rightarrow> import_group \<Rightarrow> bool" where
  "reaches env il pcfg start finish = (import_step env il pcfg start finish)\<^sup>*\<^sup>*"

text \<open>The end of the call: all goroutines have ended; it returns the results and the first error.\<close>

definition groupDone :: "import_group \<Rightarrow> bool" where
  "groupDone g \<longleftrightarrow> (\<forall>t \<in> set (ig_tasks g). \<exists>err. snd t = Finished err)"

text \<open>
  The whole call: listing the data sources, selecting them, and the answers that the runs of the group may end with.
\<close>

definition importPrometheusForTimeRange ::
  "'x client_env_scheme \<Rightarrow> import_lib \<Rightarrow> prom_config \<Rightarrow> history \<Rightarrow> string \<Rightarrow> string \<Rightarrow> go_time \<Rightarrow> go_time \<Rightarrow>
   prometheusImportResults list \<times> goerror option \<Rightarrow> bool" where
  "importPrometheusForTimeRange env il pcfg h namespace dsName start finish answer \<longleftrightarrow>
     (case bindR (client_ListReportDataSources env h namespace) (dataSourcesToImport dsName) of
        Inl e \<Rightarrow> answer = ([], Some e)
      | Inr dss \<Rightarrow> (\<exists>g. reaches env il pcfg start finish (startGroup dss) g \<and> groupDone g \<and> \<not> ig_crashed g \<and>
          answer = (ig_results g, ig_err g)))"

section \<open>The invariant of the group\<close>

definition sourceKey :: "ReportDataSource \<Rightarrow> string \<times> string" where
  "sourceKey ds = (Namespace ds, Name ds)"

definition resultKey :: "prometheusImportResults \<Rightarrow> string \<times> string" where
  "resultKey x = (pir_Namespace x, pir_ReportDataSource x)"

text \<open>How many elements satisfy a predicate after an element is replaced.\<close>

lemma mset_replace: "i < length xs \<Longrightarrow> add_mset (xs ! i) (mset (xs[i := y])) = add_mset y (mset xs)"
  by (simp add: mset_update)

lemma filter_replace:
  assumes "i < length xs"
  shows "(if P (xs ! i) then add_mset (xs ! i) else (\<lambda>m. m)) (filter_mset P (mset (xs[i := y]))) =
    (if P y then add_mset y else (\<lambda>m. m)) (filter_mset P (mset xs))"
  using arg_cong [OF mset_replace [OF assms, of y], of "filter_mset P"] by (simp split: if_splits)

lemma count_replace:
  assumes "i < length xs"
  shows "length (filter P (xs[i := y])) + (if P (xs ! i) then 1 else 0) = length (filter P xs) + (if P y then 1 else 0)"
  using arg_cong [OF filter_replace [OF assms, of P y], of size]
  by (simp flip: mset_filter split: if_splits)

lemma filter_mset_all: "filter_mset P M = M \<longleftrightarrow> (\<forall>x \<in># M. P x)"
proof
  assume "filter_mset P M = M"
  then have "set_mset (filter_mset P M) = set_mset M" by simp
  then show "\<forall>x \<in># M. P x" by auto
next
  assume "\<forall>x \<in># M. P x"
  then show "filter_mset P M = M" by (induction M) auto
qed

lemma filter_mset_all_size: "size (filter_mset P M) = size M \<Longrightarrow> filter_mset P M = M"
  using mset_subset_size [of "filter_mset P M" M] multiset_filter_subset [of P M] by (auto simp: subset_mset.less_le)

definition task_ok :: "import_group \<Rightarrow> ReportDataSource \<times> phase \<Rightarrow> bool" where
  "task_ok g t \<longleftrightarrow>
     (case snd t of
        Sending x \<Rightarrow> resultKey x = sourceKey (fst t)
      | Finished (Some e) \<Rightarrow> ig_err g \<noteq> None
      | _ \<Rightarrow> True)"

definition group_ok :: "ReportDataSource list \<Rightarrow> import_group \<Rightarrow> bool" where
  "group_ok dss g \<longleftrightarrow>
     map fst (ig_tasks g) = dss \<and> holders g \<le> concurrency \<and> (\<forall>t \<in> set (ig_tasks g). task_ok g t) \<and>
     (ig_err g \<noteq> None \<longrightarrow> (\<exists>t \<in> set (ig_tasks g). snd t = Finished (ig_err g))) \<and>
     image_mset resultKey (mset (ig_results g)) =
       image_mset (\<lambda>t. sourceKey (fst t)) (filter_mset (\<lambda>t. snd t = Finished None) (mset (ig_tasks g)))"

lemma enter_simps [simp]:
  "ig_err (enter i p g) = ig_err g" "ig_results (enter i p g) = ig_results g" "ig_crashed (enter i p g) = ig_crashed g"
  by (simp_all add: enter_def)

lemma fst_enter: "i < length (ig_tasks g) \<Longrightarrow> map fst (ig_tasks (enter i p g)) = map fst (ig_tasks g)"
  by (simp add: enter_def map_update list_update_same_conv)

lemma holders_enter:
  "i < length (ig_tasks g) \<Longrightarrow>
   holders (enter i p g) + (if holds_semaphore (snd (ig_tasks g ! i)) then 1 else 0) =
   holders g + (if holds_semaphore p then 1 else 0)"
  using count_replace [of i "ig_tasks g" "\<lambda>t. holds_semaphore (snd t)" "(fst (ig_tasks g ! i), p)"]
  by (simp add: holders_def enter_def)

lemma tasks_enter:
  assumes "i < length (ig_tasks g)" and "t \<in> set (ig_tasks (enter i p g))"
  shows "t = (fst (ig_tasks g ! i), p) \<or> t \<in> set (ig_tasks g)"
  using assms set_update_subset_insert [of "ig_tasks g" i] by (auto simp: enter_def)

lemma task_kept:
  assumes "i < length (ig_tasks g)" and "t \<in> set (ig_tasks g)" and "t \<noteq> ig_tasks g ! i"
  shows "t \<in> set (ig_tasks (enter i p g))"
  using assms by (auto simp: enter_def in_set_conv_nth nth_list_update)

lemma finished_enter:
  assumes "i < length (ig_tasks g)" and "snd (ig_tasks g ! i) \<noteq> Finished None"
  shows "filter_mset (\<lambda>t. snd t = Finished None) (mset (ig_tasks (enter i p g))) =
    (if p = Finished None then add_mset (fst (ig_tasks g ! i), p) else (\<lambda>m. m))
      (filter_mset (\<lambda>t. snd t = Finished None) (mset (ig_tasks g)))"
  using filter_replace [OF assms(1), of "\<lambda>t. snd t = Finished None" "(fst (ig_tasks g ! i), p)"] assms(2)
  by (simp add: enter_def split: if_splits)

text \<open>A step of a goroutine that has not ended, without an error and with an error.\<close>

lemma group_ok_enter:
  assumes "group_ok dss g" and "i < length (ig_tasks g)" and "\<forall>e. snd (ig_tasks g ! i) \<noteq> Finished e"
    and "\<forall>e. p \<noteq> Finished e" and "holds_semaphore p \<longrightarrow> holds_semaphore (snd (ig_tasks g ! i)) \<or> holders g < concurrency"
    and "\<forall>x. p = Sending x \<longrightarrow> resultKey x = sourceKey (fst (ig_tasks g ! i))"
  shows "group_ok dss (enter i p g)"
proof -
  have "task_ok (enter i p g) t" if "t \<in> set (ig_tasks (enter i p g))" for t
    using tasks_enter [OF assms(2) that] assms(1,4,6)
    by (cases p) (auto simp: group_ok_def task_ok_def split: phase.splits option.splits)
  moreover have "\<exists>t \<in> set (ig_tasks (enter i p g)). snd t = Finished (ig_err g)" if "ig_err g \<noteq> None"
  proof -
    from assms(1) that obtain t where "t \<in> set (ig_tasks g)" "snd t = Finished (ig_err g)"
      by (auto simp: group_ok_def)
    with task_kept [OF assms(2), of t] assms(3) show ?thesis by force
  qed
  moreover have "holders (enter i p g) \<le> concurrency"
    using holders_enter [OF assms(2), of p] assms(1,5) by (auto simp: group_ok_def split: if_splits)
  ultimately show ?thesis
    using assms(1-4) fst_enter [OF assms(2)] finished_enter [OF assms(2), of p] by (auto simp: group_ok_def)
qed

lemma group_ok_fails:
  assumes "group_ok dss g" and "i < length (ig_tasks g)" and "\<forall>e. snd (ig_tasks g ! i) \<noteq> Finished e"
  shows "group_ok dss (fails i e g)"
proof -
  let ?g = "enter i (Finished (Some e)) g"
  have f: "ig_tasks (fails i e g) = ig_tasks ?g" "ig_results (fails i e g) = ig_results g"
    "ig_err (fails i e g) = (case ig_err g of None \<Rightarrow> Some e | Some e' \<Rightarrow> Some e')"
    by (simp_all add: fails_def)
  have h: "holders (fails i e g) = holders ?g" by (simp add: holders_def f)
  have "task_ok (fails i e g) t" if "t \<in> set (ig_tasks ?g)" for t
    using tasks_enter [OF assms(2) that] assms(1)
    by (auto simp: group_ok_def task_ok_def f split: phase.splits option.splits)
  moreover have "\<exists>t \<in> set (ig_tasks ?g). snd t = Finished (ig_err (fails i e g))"
  proof (cases "ig_err g")
    case None
    have "(fst (ig_tasks g ! i), Finished (Some e)) \<in> set (ig_tasks ?g)"
      using assms(2) by (simp add: enter_def set_update_memI)
    with None show ?thesis by (force simp: f)
  next
    case (Some e')
    with assms(1) obtain t where "t \<in> set (ig_tasks g)" "snd t = Finished (ig_err g)"
      by (auto simp: group_ok_def)
    with task_kept [OF assms(2), of t] assms(3) Some show ?thesis by (force simp: f)
  qed
  moreover have "holders ?g \<le> concurrency"
    using holders_enter [OF assms(2), of "Finished (Some e)"] assms(1) by (auto simp: group_ok_def split: if_splits)
  ultimately show ?thesis
    using assms(1) fst_enter [OF assms(2)] finished_enter [OF assms(2), of "Finished (Some e)"] assms(3)
    by (auto simp: group_ok_def f h)
qed

lemma group_ok_received:
  assumes "group_ok dss g" and "i < length (ig_tasks g)" and "ig_tasks g ! i = (ds, Sending x)"
  shows "group_ok dss ((enter i (Finished None) g)\<lparr>ig_results := ig_results g @ [x]\<rparr>)"
proof -
  let ?g = "enter i (Finished None) g"
  have x: "resultKey x = sourceKey ds"
    using assms nth_mem [OF assms(2)] by (fastforce simp: group_ok_def task_ok_def)
  have "task_ok (?g\<lparr>ig_results := r\<rparr>) t" if "t \<in> set (ig_tasks ?g)" for t r
    using tasks_enter [OF assms(2) that] assms(1) by (auto simp: group_ok_def task_ok_def split: phase.splits option.splits)
  moreover have "\<exists>t \<in> set (ig_tasks ?g). snd t = Finished (ig_err g)" if "ig_err g \<noteq> None"
  proof -
    from assms(1) that obtain t where "t \<in> set (ig_tasks g)" "snd t = Finished (ig_err g)"
      by (auto simp: group_ok_def)
    with task_kept [OF assms(2), of t] assms(3) show ?thesis by force
  qed
  moreover have "holders (?g\<lparr>ig_results := r\<rparr>) = holders ?g" for r by (simp add: holders_def)
  moreover have "holders ?g \<le> concurrency"
    using holders_enter [OF assms(2), of "Finished None"] assms(1) by (auto simp: group_ok_def split: if_splits)
  ultimately show ?thesis
    using assms(1,3) x fst_enter [OF assms(2)] finished_enter [OF assms(2), of "Finished None"]
    by (auto simp: group_ok_def)
qed

lemma group_ok_err:
  assumes "group_ok dss g" and "groupDone g"
  shows "ig_err g = None \<longleftrightarrow> (\<forall>t \<in> set (ig_tasks g). snd t = Finished None)"
proof
  assume none: "ig_err g = None"
  show "\<forall>t \<in> set (ig_tasks g). snd t = Finished None"
  proof
    fix t
    assume t: "t \<in> set (ig_tasks g)"
    then obtain err where err: "snd t = Finished err" using assms(2) by (auto simp: groupDone_def)
    have "task_ok g t" using assms(1) t by (simp add: group_ok_def)
    with err none show "snd t = Finished None" by (cases err) (simp_all add: task_ok_def)
  qed
next
  assume all: "\<forall>t \<in> set (ig_tasks g). snd t = Finished None"
  show "ig_err g = None"
  proof (rule ccontr)
    assume some: "ig_err g \<noteq> None"
    then obtain t where "t \<in> set (ig_tasks g)" "snd t = Finished (ig_err g)"
      using assms(1) unfolding group_ok_def by blast
    with all some show False by simp
  qed
qed

lemma group_ok_start: "group_ok dss (startGroup dss)"
  by (auto simp: group_ok_def startGroup_def holders_def task_ok_def o_def filter_mset_False intro: filter_mset_cong)

lemma runOnDemand_key:
  assumes "run_state (runOnDemand env il ctxDone ds cfg start finish) h = (Some (Inr x), h')"
  shows "resultKey x = sourceKey ds"
  using assms
  by (auto simp: runOnDemand_def resultKey_def sourceKey_def split: sum.splits prod.splits option.splits)

lemma group_ok_step:
  assumes "import_step env il pcfg start finish g g'" and "group_ok dss g"
  shows "group_ok dss g'"
  using assms(1)
proof (cases rule: import_step.cases)
  case (prepared i ds h cfg)
  with assms(2) show ?thesis by (auto intro!: group_ok_enter)
next
  case (not_prepared i ds h e)
  with assms(2) show ?thesis by (auto intro!: group_ok_fails)
next
  case (acquire i ds cfg)
  with assms(2) show ?thesis by (auto intro!: group_ok_enter)
next
  case (abandon i ds cfg)
  with assms(2) show ?thesis by (auto intro!: group_ok_fails)
next
  case (imported i ds cfg ctxDone h x h')
  with assms(2) runOnDemand_key [of env il ctxDone ds cfg start finish h x h'] show ?thesis
    by (auto intro!: group_ok_enter)
next
  case (not_imported i ds cfg ctxDone h e h')
  with assms(2) show ?thesis by (auto intro!: group_ok_fails)
next
  case (received i ds x)
  with assms(2) show ?thesis by (auto intro: group_ok_received)
qed

interpretation group: step_invariant "import_step env il pcfg start finish" "startGroup dss" "group_ok dss"
  for env :: "'x lister_env_scheme" and il pcfg start finish dss
  by unfold_locales (auto intro: group_ok_start group_ok_step)

lemma group_ok_reaches: "reaches env il pcfg start finish (startGroup dss) g \<Longrightarrow> group_ok dss g"
  unfolding reaches_def by (rule group.reached_inv)

section \<open>Every run ends\<close>

primrec remaining :: "phase \<Rightarrow> nat" where
  "remaining Starting = 4"
| "remaining (Waiting _) = 3"
| "remaining (Importing _) = 2"
| "remaining (Sending _) = 1"
| "remaining (Finished _) = 0"

definition work :: "import_group \<Rightarrow> nat" where
  "work g = sum_list (map (\<lambda>t. remaining (snd t)) (ig_tasks g))"

lemma work_enter:
  assumes "i < length (ig_tasks g)" and "remaining p < remaining (snd (ig_tasks g ! i))"
  shows "work (enter i p g) < work g"
  using sum_work_decreases [of i "ig_tasks g" "\<lambda>t. remaining (snd t)"] assms by (simp add: work_def enter_def)

lemma work_simps [simp]: "work (g\<lparr>ig_results := r\<rparr>) = work g" "work (fails i e g) = work (enter i (Finished (Some e)) g)"
  by (simp_all add: work_def fails_def)

lemma step_works:
  assumes "import_step env il pcfg start finish g g'"
  shows "work g' < work g"
  using assms by cases (auto intro!: work_enter)

interpretation group_work: working_steps "import_step env il pcfg start finish" work
  for env :: "'x lister_env_scheme" and il pcfg start finish
  by unfold_locales (rule step_works)

lemma runOnDemand_returns:
  assumes "0 < cfg_ChunkSize cfg" and "0 \<le> cfg_StepSize cfg"
  obtains r h' where "run_state (runOnDemand env il ctxDone ds cfg start finish) h = (Some r, h')"
proof -
  have returns: "(chunks cfg b e allow = None) = False" for b e allow
    using chunks_return [OF assms] by simp
  have "traces (runOnDemand env il ctxDone ds cfg start finish) (\<lambda>r _. r \<noteq> None)"
    unfolding runOnDemand_def
    by (intro traces_intros traces_bind [OF ImportFromTimeRange_queries])
      (auto simp: returns intro!: traces_intros split: option.splits prod.splits)
  from traces_run [OF this, of h] that show thesis by auto
qed

text \<open>The configuration that a goroutine waits or imports with has usable sizes, when those configured are not negative.\<close>

definition sizes_ok :: "prom_config \<Rightarrow> ReportDataSource \<Rightarrow> bool" where
  "sizes_ok pcfg ds \<longleftrightarrow>
     (let pmi = the (dspec_PrometheusMetricsImporter (ds_Spec ds)) in 0 \<le> chunkSizeFor pcfg pmi \<and> 0 \<le> stepSizeFor pcfg pmi)"

fun phase_cfg_ok :: "phase \<Rightarrow> bool" where
  "phase_cfg_ok (Waiting cfg) \<longleftrightarrow> 0 < cfg_ChunkSize cfg \<and> 0 \<le> cfg_StepSize cfg"
| "phase_cfg_ok (Importing cfg) \<longleftrightarrow> 0 < cfg_ChunkSize cfg \<and> 0 \<le> cfg_StepSize cfg"
| "phase_cfg_ok _ \<longleftrightarrow> True"

definition cfgs_ok :: "prom_config \<Rightarrow> import_group \<Rightarrow> bool" where
  "cfgs_ok pcfg g \<longleftrightarrow> (\<forall>t \<in> set (ig_tasks g). sizes_ok pcfg (fst t) \<and> phase_cfg_ok (snd t))"

lemma prepared_sizes:
  "prepareImport env pcfg h ds = Inr cfg \<Longrightarrow> sizes_ok pcfg ds \<Longrightarrow> phase_cfg_ok (Waiting cfg)"
  by (auto simp: prepareImport_def sizes_ok_def Let_def bindR_eq_Inr dest: importer_cfg_sizes split: sum.splits)

lemma cfgs_ok_enter:
  assumes "cfgs_ok pcfg g" and "i < length (ig_tasks g)" and "phase_cfg_ok p"
  shows "cfgs_ok pcfg (enter i p g)"
  unfolding cfgs_ok_def
proof
  fix t
  assume "t \<in> set (ig_tasks (enter i p g))"
  with tasks_enter [OF assms(2), of t p] assms nth_mem [OF assms(2)]
  show "sizes_ok pcfg (fst t) \<and> phase_cfg_ok (snd t)" by (auto simp: cfgs_ok_def)
qed

lemma cfgs_ok_at: "cfgs_ok pcfg g \<Longrightarrow> i < length (ig_tasks g) \<Longrightarrow> ig_tasks g ! i = (ds, p) \<Longrightarrow> sizes_ok pcfg ds \<and> phase_cfg_ok p"
  using nth_mem [of i "ig_tasks g"] by (force simp: cfgs_ok_def)

lemma cfgs_ok_simps [simp]:
  "cfgs_ok pcfg (g\<lparr>ig_results := r\<rparr>) = cfgs_ok pcfg g"
  "cfgs_ok pcfg (fails i e g) = cfgs_ok pcfg (enter i (Finished (Some e)) g)"
  by (simp_all add: cfgs_ok_def fails_def)

lemma cfgs_ok_step:
  assumes "import_step env il pcfg start finish g g'" and "cfgs_ok pcfg g"
  shows "cfgs_ok pcfg g'"
  using assms by cases (auto intro!: cfgs_ok_enter dest: prepared_sizes cfgs_ok_at)

lemma cfgs_ok_reaches:
  assumes "\<forall>ds \<in> set dss. sizes_ok pcfg ds" and "reaches env il pcfg start finish (startGroup dss) g"
  shows "cfgs_ok pcfg g"
  using assms(2) unfolding reaches_def
proof (induction rule: rtranclp_induct)
  case base
  show ?case using assms(1) by (auto simp: cfgs_ok_def startGroup_def)
qed (rule cfgs_ok_step)

text \<open>A goroutine that has not ended can make a step, or waits for one of those that hold the semaphore, which can.\<close>

lemma holder_steps:
  assumes "cfgs_ok pcfg g" and "\<not> ig_crashed g" and "i < length (ig_tasks g)" and "holds_semaphore (snd (ig_tasks g ! i))"
  shows "\<exists>g'. import_step env il pcfg start finish g g'"
proof -
  obtain ds p where t: "ig_tasks g ! i = (ds, p)" by (cases "ig_tasks g ! i")
  with assms(4) consider cfg where "p = Importing cfg" | x where "p = Sending x" by (cases p) auto
  then show ?thesis
  proof cases
    case 1
    then have "0 < cfg_ChunkSize cfg" "0 \<le> cfg_StepSize cfg"
      using cfgs_ok_at [OF assms(1,3) t] by simp_all
    then obtain r h' where "run_state (runOnDemand env il (\<lambda>_. None) ds cfg start finish) [] = (Some r, h')"
      by (rule runOnDemand_returns)
    then show ?thesis
      using assms(2,3) t 1 by (cases r) (blast intro: imported not_imported)+
  next
    case 2
    then show ?thesis using assms(2,3) t by (blast intro: received)
  qed
qed

lemma group_steps:
  assumes "cfgs_ok pcfg g" and "\<not> ig_crashed g" and "\<not> groupDone g"
  shows "\<exists>g'. import_step env il pcfg start finish g g'"
proof -
  obtain i ds p where i: "i < length (ig_tasks g)" "ig_tasks g ! i = (ds, p)" and p: "\<forall>e. p \<noteq> Finished e"
    using assms(3) unfolding groupDone_def by (metis in_set_conv_nth prod.collapse)
  show ?thesis
  proof (cases p)
    case Starting
    then show ?thesis
      using assms(2) i by (cases "prepareImport env pcfg [] ds") (blast intro: prepared not_prepared)+
  next
    case (Waiting cfg)
    show ?thesis
    proof (cases "holders g < concurrency")
      case True
      then show ?thesis using assms(2) i Waiting by (blast intro: acquire)
    next
      case False
      then have "filter (\<lambda>t. holds_semaphore (snd t)) (ig_tasks g) \<noteq> []"
        by (auto simp: holders_def concurrency_def)
      then obtain j where "j < length (ig_tasks g)" "holds_semaphore (snd (ig_tasks g ! j))"
        by (auto simp: filter_empty_conv in_set_conv_nth)
      then show ?thesis using holder_steps [OF assms(1,2)] by blast
    qed
  qed (use holder_steps [OF assms(1,2) i(1)] i(2) p in auto)
qed

section \<open>Properties\<close>



text \<open>
  C9: an import on demand answers, for some of the selected data sources, one result each; it answers no error exactly when
  it answers a result for all of them.
\<close>

theorem on_demand_results:
  assumes "client_ListReportDataSources env h namespace = Inr listed" and "dataSourcesToImport dsName listed = Inr dss"
    and "importPrometheusForTimeRange env il pcfg h namespace dsName start finish (results, err)"
  shows "mset (map resultKey results) \<subseteq># mset (map sourceKey dss) \<and>
    (err = None \<longleftrightarrow> mset (map resultKey results) = mset (map sourceKey dss))"
proof -
  obtain g where g: "reaches env il pcfg start finish (startGroup dss) g" "groupDone g" "results = ig_results g" "err = ig_err g"
    using assms by (auto simp: importPrometheusForTimeRange_def)
  from group_ok_reaches [OF g(1)] have ok: "group_ok dss g" .
  let ?done = "filter_mset (\<lambda>t. snd t = Finished None) (mset (ig_tasks g))"
  have keys: "mset (map sourceKey dss) = image_mset (\<lambda>t. sourceKey (fst t)) (mset (ig_tasks g))"
    using ok by (auto simp: group_ok_def simp flip: mset_map simp: o_def)
  have res: "mset (map resultKey results) = image_mset (\<lambda>t. sourceKey (fst t)) ?done"
    using ok g(3) by (simp add: group_ok_def)
  have sub: "mset (map resultKey results) \<subseteq># mset (map sourceKey dss)"
    unfolding keys res by (rule image_mset_subseteq_mono) simp
  have "err = None \<longleftrightarrow> (\<forall>t \<in> set (ig_tasks g). snd t = Finished None)"
    using group_ok_err [OF ok g(2)] g(4) by simp
  also have "\<dots> \<longleftrightarrow> ?done = mset (ig_tasks g)"
    by (simp add: filter_mset_all)
  also have "\<dots> \<longleftrightarrow> mset (map resultKey results) = mset (map sourceKey dss)"
  proof
    assume "mset (map resultKey results) = mset (map sourceKey dss)"
    then have "size ?done = size (mset (ig_tasks g))"
      unfolding keys res by (metis size_image_mset)
    then show "?done = mset (ig_tasks g)"
      by (rule filter_mset_all_size)
  qed (simp only: keys res)
  finally show ?thesis using sub by blast
qed

text \<open>A data source with metrics, for the witnesses.\<close>

definition demanded :: ReportDataSource where
  "demanded = (metrics_datasource ''ns'')
     \<lparr>ds_Spec := (ds_Spec (metrics_datasource ''ns''))\<lparr>dspec_PrometheusMetricsImporter := Some metrics_importer\<rparr>\<rparr>"

lemma demanded_prepared: "\<exists>cfg. prepareImport metrics_env metrics_config [] demanded = Inr cfg"
  by (simp add: prepareImport_def demanded_def metrics_env_def newPromImporterCfg_def metrics_importer_def metrics_config_def
      chunkSizeFor_def stepSizeFor_def Truncate_dur_def div_int64_def FullyQualifiedTableName_def metrics_datasource_def
      unstarted_datasource_def view_datasource_def signed_modulo_int_def signed_divide_int_def)



text \<open>A data source whose table is not in the cache: its goroutine fails, and the call answers the error and no result.\<close>

definition tableless_env :: env where
  "tableless_env = quiet_env\<lparr>client_ListReportDataSources := \<lambda>_ _. Inr [demanded]\<rparr>"

theorem on_demand_results_witness:
  "\<exists>e. importPrometheusForTimeRange tableless_env metrics_il metrics_config [] ''ns'' [] 0 Hour ([], Some e) \<and>
     {#} \<subseteq># mset (map sourceKey [demanded])"
proof -
  let ?g = "startGroup [demanded]"
  have listed: "client_ListReportDataSources tableless_env [] ''ns'' = Inr [demanded]"
    "dataSourcesToImport [] [demanded] = Inr [demanded]"
    by (simp_all add: tableless_env_def demanded_def metrics_datasource_def unstarted_datasource_def view_datasource_def)
  obtain e where e: "prepareImport tableless_env metrics_config [] demanded = Inl e" "\<forall>m. e \<noteq> GoPanic m"
    by (simp add: prepareImport_def tableless_env_def quiet_env_def)
  have "import_step tableless_env metrics_il metrics_config 0 Hour ?g (fails 0 e ?g)"
    by (rule not_prepared [OF _ _ _ e(1)]) (simp_all add: startGroup_def)
  then have "reaches tableless_env metrics_il metrics_config 0 Hour ?g (fails 0 e ?g)"
    by (simp add: reaches_def)
  moreover have "groupDone (fails 0 e ?g)" "\<not> ig_crashed (fails 0 e ?g)" "ig_results (fails 0 e ?g) = []"
    "ig_err (fails 0 e ?g) = Some e"
    using e(2) by (simp_all add: groupDone_def fails_def enter_def startGroup_def)
  ultimately have "importPrometheusForTimeRange tableless_env metrics_il metrics_config [] ''ns'' [] 0 Hour ([], Some e)"
    using listed by (auto simp: importPrometheusForTimeRange_def)
  with on_demand_results [OF listed this] show ?thesis by auto
qed

end
