(* ===== verification/Health.thy ===== *)
theory Health
  imports Hive_SQL Http_Api
begin

text \<open>
  The health checks: \<^verbatim>\<open>pkg/operator/reporting/health.go\<close> asks Presto and Hive, \<^verbatim>\<open>pkg/operator/health.go\<close> answers the readiness endpoint, and
  \<^verbatim>\<open>Run\<close> of \<^verbatim>\<open>pkg/operator/operator.go\<close> adds it to the router under two paths. How callers share a check is in \<open>Single_Flight\<close>.
\<close>

section \<open>Asking Presto\<close>

definition TestReadFromPresto :: "'x store_env_scheme \<Rightarrow> bool op" where
  "TestReadFromPresto env = do {
     r \<leftarrow> ExecuteSelect env ''SELECT * FROM system.runtime.nodes'';
     State_Monad.return (isOK r)
   }"

definition check_params :: "string \<Rightarrow> string \<Rightarrow> TableParameters" where
  "check_params databaseName tableName =
     \<lparr>tparams_Database = databaseName, tparams_Name = tableName,
      tparams_Columns = [\<lparr>col_Name = ''check_time'', col_Type = ''TIMESTAMP''\<rparr>],
      tparams_PartitionedBy = [], tparams_ClusteredBy = [], tparams_SortedBy = [], tparams_NumBuckets = 0, tparams_Location = [],
      tparams_RowFormat = [], tparams_FileFormat = [], tparams_TableProperties = None, tparams_External = False\<rparr>"

definition TestWriteToPresto :: "'x store_env_scheme \<Rightarrow> string \<Rightarrow> string \<Rightarrow> bool op" where
  "TestWriteToPresto env databaseName tableName = do {
     err \<leftarrow> hm_CreateTable env (check_params databaseName tableName) True;
     (case err of
        Some _ \<Rightarrow> State_Monad.return False
      | None \<Rightarrow> do {
          err \<leftarrow> InsertInto env tableName ''VALUES (cast(now() AS TIMESTAMP))'';
          State_Monad.return (err = None)
        })
   }"

section \<open>The readiness endpoint\<close>

definition readinessHandler ::
  "http_lib \<Rightarrow> bool \<Rightarrow> bool op \<Rightarrow> response_writer \<Rightarrow> response_writer op" where
  "readinessHandler lib initialized testReadFromPrestoFunc w =
     (if \<not> initialized then
        State_Monad.return (writeResponseAsJSON lib w StatusInternalServerError (StatusDoc ''not ready'' (Some ''not initialized'')))
      else do {
        healthy \<leftarrow> testReadFromPrestoFunc;
        State_Monad.return
          (if \<not> healthy then
             writeResponseAsJSON lib w StatusInternalServerError (StatusDoc ''not ready'' (Some ''cannot read from PrestoDB''))
           else writeResponseAsJSON lib w StatusOK (StatusDoc ''ok'' None))
      })"

text \<open>The router of the operator: the API, and the same handler for readiness and health.\<close>

definition apiRouter ::
  "http_lib \<Rightarrow> 'x lister_env_scheme \<Rightarrow> prometheusImporterFunc \<Rightarrow> bool \<Rightarrow> request \<Rightarrow> response_writer \<Rightarrow>
   (goerror + response_writer) op" where
  "apiRouter lib env collectorFunc initialized r w =
     (if req_Path r \<in> {''/ready'', ''/healthy''} then do {
        w \<leftarrow> readinessHandler lib initialized (TestReadFromPresto env) w;
        State_Monad.return (Inr w)
      }
      else serveHTTP lib env collectorFunc r w)"

text \<open>
  The readiness endpoint answers 200 exactly when the operator is initialized and Presto answers the test query; before the
  operator is initialized, no query is sent.
\<close>

theorem ready_iff:
  assumes "hl_Marshal lib (StatusDoc ''ok'' None) = Inr ok" and "req_Path r \<in> {''/ready'', ''/healthy''}"
  shows "\<exists>w. run_state (apiRouter lib env collectorFunc initialized r new_response) h =
      (Inr w, if initialized then h @ [PrestoQuery ''SELECT * FROM system.runtime.nodes''] else h) \<and>
    (status w = StatusOK \<longleftrightarrow>
       initialized \<and> isOK (bindR (presto_Query env h ''SELECT * FROM system.runtime.nodes'') read_rows))"
proof -
  have "status (writeResponseAsJSON lib new_response StatusInternalServerError doc) = StatusInternalServerError" for doc
    by (simp add: writeResponseAsJSON_def new_response_def status_def WriteHeader_def Write_def Header_Set_def Let_def
        split: sum.split option.split)
  moreover have "status (writeResponseAsJSON lib new_response StatusOK (StatusDoc ''ok'' None)) = StatusOK"
    using assms(1) by (simp add: writeResponseAsJSON_def new_response_def status_def WriteHeader_def Write_def Header_Set_def Let_def
        split: option.split)
  ultimately show ?thesis
    using assms(2) by (simp add: apiRouter_def readinessHandler_def TestReadFromPresto_def run_ExecuteSelect)
qed

end
