(* ===== verification/Single_Flight.thy ===== *)
theory Single_Flight
  imports Step_Systems
begin

text \<open>
  The health checks of \<^verbatim>\<open>pkg/operator/reporting/health.go\<close> share their queries through \<^verbatim>\<open>golang.org/x/sync/singleflight\<close>: a caller that finds a call
  of its key in the map of the group waits for that call, and otherwise makes one. The function of a call forgets its key when it
  returns. The callers are goroutines, so the group is a step relation: \<open>ask\<close> is the arrival of a caller, \<open>proceed\<close> a step of one
  that is there. What happens under the mutex of the group is one step.
\<close>

section \<open>The group and its callers\<close>

text \<open>
  Where a caller is: waiting for a call, or carrying one out. \<open>Querying\<close>: the query of the call has not ended; \<open>Queried\<close>: it has, and the
  key is not yet forgotten; \<open>Forgotten\<close>: the function of the call returns; \<open>Leaving\<close>: those who wait were woken.
\<close>

datatype caller =
    Waiting nat
  | Querying nat
  | Queried nat bool
  | Forgotten nat bool
  | Leaving nat bool
  | Answered bool

record flight_group =
  fg_m :: "string \<rightharpoonup> nat"
  fg_val :: "nat \<rightharpoonup> bool"
  fg_next :: nat
  fg_callers :: "(string \<times> caller) list"

definition new_group :: flight_group where
  "new_group = \<lparr>fg_m = Map.empty, fg_val = Map.empty, fg_next = 0, fg_callers = []\<rparr>"

definition move :: "nat \<Rightarrow> string \<Rightarrow> caller \<Rightarrow> flight_group \<Rightarrow> flight_group" where
  "move t key c g = g\<lparr>fg_callers := (fg_callers g)[t := (key, c)]\<rparr>"

definition at :: "flight_group \<Rightarrow> nat \<Rightarrow> string \<Rightarrow> caller \<Rightarrow> bool" where
  "at g t key c \<longleftrightarrow> t < length (fg_callers g) \<and> fg_callers g ! t = (key, c)"

inductive ask :: "flight_group \<Rightarrow> flight_group \<Rightarrow> bool" where
  join: "fg_m g key = Some c \<Longrightarrow> ask g (g\<lparr>fg_callers := fg_callers g @ [(key, Waiting c)]\<rparr>)"
| start: "fg_m g key = None \<Longrightarrow>
    ask g (g\<lparr>fg_m := (fg_m g)(key \<mapsto> fg_next g), fg_next := Suc (fg_next g),
             fg_callers := fg_callers g @ [(key, Querying (fg_next g))]\<rparr>)"

inductive proceed :: "flight_group \<Rightarrow> flight_group \<Rightarrow> bool" where
  query: "at g t key (Querying c) \<Longrightarrow> proceed g (move t key (Queried c healthy) g)"
| forget: "at g t key (Queried c healthy) \<Longrightarrow>
    proceed g (move t key (Forgotten c healthy) (g\<lparr>fg_m := (fg_m g)(key := None)\<rparr>))"
| wg_done: "at g t key (Forgotten c healthy) \<Longrightarrow>
    proceed g (move t key (Leaving c healthy) (g\<lparr>fg_val := (fg_val g)(c \<mapsto> healthy)\<rparr>))"
| leave: "at g t key (Leaving c healthy) \<Longrightarrow>
    proceed g (move t key (Answered healthy) (g\<lparr>fg_m := (fg_m g)(key := None)\<rparr>))"
| wake: "at g t key (Waiting c) \<Longrightarrow> fg_val g c = Some healthy \<Longrightarrow> proceed g (move t key (Answered healthy) g)"

definition flight_step :: "flight_group \<Rightarrow> flight_group \<Rightarrow> bool" where
  "flight_step g g' \<longleftrightarrow> ask g g' \<or> proceed g g'"

abbreviation flights :: "flight_group \<Rightarrow> bool" where
  "flights g \<equiv> flight_step\<^sup>*\<^sup>* new_group g"

section \<open>Every caller is answered\<close>

text \<open>A call is carried by a caller until those who wait for it can be woken; then its value is there.\<close>

fun carries :: "caller \<Rightarrow> nat \<Rightarrow> bool" where
  "carries (Querying d) c \<longleftrightarrow> d = c"
| "carries (Queried d healthy) c \<longleftrightarrow> d = c"
| "carries (Forgotten d healthy) c \<longleftrightarrow> d = c"
| "carries x c \<longleftrightarrow> False"

definition covered :: "flight_group \<Rightarrow> nat \<Rightarrow> bool" where
  "covered g c \<longleftrightarrow> (\<exists>t key x. at g t key x \<and> carries x c) \<or> fg_val g c \<noteq> None"

definition flight_inv :: "flight_group \<Rightarrow> bool" where
  "flight_inv g \<longleftrightarrow>
     (\<forall>key c. fg_m g key = Some c \<longrightarrow> covered g c) \<and> (\<forall>t key c. at g t key (Waiting c) \<longrightarrow> covered g c)"

lemma at_move: "at (move t k c g) s k' c' \<longleftrightarrow> (if s = t \<and> t < length (fg_callers g) then k' = k \<and> c' = c else at g s k' c')"
  by (auto simp: at_def move_def nth_list_update)

lemma at_updates [simp]:
  "at (g\<lparr>fg_m := m\<rparr>) t k c = at g t k c" "at (g\<lparr>fg_val := v\<rparr>) t k c = at g t k c" "at (g\<lparr>fg_next := n\<rparr>) t k c = at g t k c"
  by (simp_all add: at_def)

lemma move_fields [simp]: "fg_m (move t k c g) = fg_m g" "fg_val (move t k c g) = fg_val g"
  "length (fg_callers (move t k c g)) = length (fg_callers g)"
  by (simp_all add: move_def)

lemma at_unique: "at g t k c \<Longrightarrow> at g t k' c' \<longleftrightarrow> k' = k \<and> c' = c"
  by (auto simp: at_def)

lemma at_append: "fg_callers g' = fg_callers g @ [(k, c)] \<Longrightarrow>
    at g' t k' c' \<longleftrightarrow> at g t k' c' \<or> t = length (fg_callers g) \<and> k' = k \<and> c' = c"
  by (auto simp: at_def nth_append less_Suc_eq)

text \<open>A caller that moves takes nothing from the calls that others carry.\<close>

lemma covered_move:
  assumes "covered g c" and "at g t key x" and "carries x c \<Longrightarrow> carries y c \<or> v c \<noteq> None" and "fg_val g c \<noteq> None \<Longrightarrow> v c \<noteq> None"
  shows "covered (move t key y (g\<lparr>fg_m := m, fg_val := v\<rparr>)) c"
proof (cases "fg_val g c = None")
  case True
  with assms(1) obtain s k z where z: "at g s k z" "carries z c" by (auto simp: covered_def)
  show ?thesis
  proof (cases "s = t")
    case True
    with z assms(2) have "carries x c" by (auto simp: at_unique)
    moreover from assms(2) have "t < length (fg_callers g)" by (simp add: at_def)
    then have "at (move t key y (g\<lparr>fg_m := m, fg_val := v\<rparr>)) t key y" by (simp add: at_move)
    ultimately show ?thesis using assms(3) by (auto simp: covered_def)
  next
    case False
    with z show ?thesis by (auto simp: covered_def at_move)
  qed
qed (use assms(4) in \<open>auto simp: covered_def\<close>)

lemma covered_proceed: "proceed g g' \<Longrightarrow> covered g c \<Longrightarrow> covered g' c"
proof (induction rule: proceed.induct)
  case (query g t key d healthy)
  with covered_move [of g c t key "Querying d" "Queried d healthy" "fg_val g" "fg_m g"] show ?case by simp
next
  case (forget g t key d healthy)
  with covered_move [of g c t key "Queried d healthy" "Forgotten d healthy" "fg_val g" "(fg_m g)(key := None)"] show ?case by simp
next
  case (wg_done g t key d healthy)
  with covered_move [of g c t key "Forgotten d healthy" "Leaving d healthy" "(fg_val g)(d \<mapsto> healthy)" "fg_m g"] show ?case by auto
next
  case (leave g t key d healthy)
  with covered_move [of g c t key "Leaving d healthy" "Answered healthy" "fg_val g" "(fg_m g)(key := None)"] show ?case by simp
next
  case (wake g t key d healthy)
  with covered_move [of g c t key "Waiting d" "Answered healthy" "fg_val g" "fg_m g"] show ?case by simp
qed

lemma covered_ask: "ask g g' \<Longrightarrow> covered g c \<Longrightarrow> covered g' c"
  by (induction rule: ask.induct) (auto simp: covered_def at_append)

lemma proceed_waiting: "proceed g g' \<Longrightarrow> at g' t key (Waiting c) \<Longrightarrow> at g t key (Waiting c)"
  by (induction rule: proceed.induct) (auto simp: at_move split: if_splits)

lemma proceed_map: "proceed g g' \<Longrightarrow> fg_m g' key = Some c \<Longrightarrow> fg_m g key = Some c"
  by (induction rule: proceed.induct) (auto split: if_splits)

lemma flight_inv_ask: "ask g g' \<Longrightarrow> flight_inv g \<Longrightarrow> flight_inv g'"
proof (induction rule: ask.induct)
  case (join g key c)
  let ?g = "g\<lparr>fg_callers := fg_callers g @ [(key, Waiting c)]\<rparr>"
  have "covered g d \<Longrightarrow> covered ?g d" for d by (rule covered_ask [OF ask.join [OF join(1)]])
  with join show ?case by (auto simp: flight_inv_def at_append)
next
  case (start g key)
  let ?g = "g\<lparr>fg_m := (fg_m g)(key \<mapsto> fg_next g), fg_next := Suc (fg_next g),
    fg_callers := fg_callers g @ [(key, Querying (fg_next g))]\<rparr>"
  have "covered g d \<Longrightarrow> covered ?g d" for d by (rule covered_ask [OF ask.start [OF start(1)]])
  moreover have "at ?g (length (fg_callers g)) key (Querying (fg_next g))" by (simp add: at_def)
  then have "covered ?g (fg_next g)" unfolding covered_def using carries.simps(1) by blast
  ultimately show ?case using start by (auto simp: flight_inv_def at_append)
qed

lemma flight_inv_proceed: "proceed g g' \<Longrightarrow> flight_inv g \<Longrightarrow> flight_inv g'"
  using covered_proceed proceed_waiting proceed_map unfolding flight_inv_def by metis

interpretation flight: step_invariant flight_step new_group flight_inv
proof
  show "flight_inv new_group" by (simp add: flight_inv_def new_group_def at_def)
  show "flight_step g g' \<Longrightarrow> flight_inv g \<Longrightarrow> flight_inv g'" for g g'
    using flight_inv_ask flight_inv_proceed unfolding flight_step_def by blast
qed

text \<open>How many steps a caller has left at most.\<close>

fun steps_left :: "caller \<Rightarrow> nat" where
  "steps_left (Querying c) = 4"
| "steps_left (Queried c healthy) = 3"
| "steps_left (Forgotten c healthy) = 2"
| "steps_left (Leaving c healthy) = 1"
| "steps_left (Waiting c) = 1"
| "steps_left (Answered healthy) = 0"

definition work_left :: "flight_group \<Rightarrow> nat" where
  "work_left g = sum_list (map (steps_left \<circ> snd) (fg_callers g))"

definition all_answered :: "flight_group \<Rightarrow> bool" where
  "all_answered g \<longleftrightarrow> list_all (\<lambda>(key, x). \<exists>healthy. x = Answered healthy) (fg_callers g)"

lemma work_left_move:
  assumes "at g t key x" and "steps_left y < steps_left x" and "fg_callers h = fg_callers g"
  shows "work_left (move t key y h) < work_left g"
  using sum_work_decreases [of t "fg_callers g" "steps_left \<circ> snd" "(key, y)"] assms
  by (simp add: work_left_def move_def at_def)

lemma proceed_work: "proceed g g' \<Longrightarrow> work_left g' < work_left g"
  by (induction rule: proceed.induct) (erule work_left_move; simp)+

lemma work_left_bound: "work_left g \<le> 4 * length (fg_callers g)"
proof -
  have "steps_left x \<le> 4" for x by (cases x) auto
  then have "sum_list (map (steps_left \<circ> snd) cs) \<le> 4 * length cs" for cs :: "(string \<times> caller) list"
    by (induction cs) (auto simp: add_le_mono)
  then show ?thesis by (simp add: work_left_def)
qed

lemma flight_proceeds:
  assumes "flight_inv g" and "\<not> all_answered g"
  shows "\<exists>g'. proceed g g'"
proof -
  from assms(2) obtain t key x where x: "at g t key x" "\<forall>healthy. x \<noteq> Answered healthy"
    unfolding all_answered_def list_all_length at_def by (metis (mono_tags, lifting) case_prodI2)
  have carrier: "\<exists>g'. proceed g g'" if "at g s k y" "carries y c" for s k y c
    using that by (cases y) (auto intro: proceed.intros)
  show ?thesis
  proof (cases x)
    case (Waiting c)
    with x(1) assms(1) have "covered g c" by (auto simp: flight_inv_def)
    with carrier x(1) Waiting show ?thesis by (auto simp: covered_def intro: proceed.wake)
  qed (use x in \<open>auto intro: proceed.intros\<close>)
qed

interpretation callers: settling_steps proceed work_left flight_inv all_answered
  by unfold_locales (auto intro: proceed_work flight_inv_proceed flight_proceeds)

text \<open>
  C40: no caller of a health check waits for ever: however the callers arrive and overtake one another, those that are there need at
  most four steps each, and as long as one of them has no answer some step is possible.
\<close>

theorem health_checks_answered:
  assumes "flights g" and "(proceed ^^ n) g g'"
  shows "n \<le> 4 * length (fg_callers g) \<and> (all_answered g' \<or> (\<exists>g''. proceed g' g''))"
  using callers.run_settles [OF assms(2) flight.reached_inv [OF assms(1)]] work_left_bound [of g] by auto

theorem health_checks_answered_witness:
  "let g = \<lparr>fg_m = [''presto-read'' \<mapsto> 0], fg_val = Map.empty, fg_next = 1, fg_callers = [(''presto-read'', Querying 0)]\<rparr> in
     flights g \<and> \<not> all_answered g \<and> (\<exists>g''. proceed g g'')"
proof -
  let ?g = "\<lparr>fg_m = [''presto-read'' \<mapsto> 0], fg_val = Map.empty, fg_next = 1, fg_callers = [(''presto-read'', Querying 0)]\<rparr>"
  have "ask new_group ?g" using ask.start [of new_group "''presto-read''"] by (simp add: new_group_def)
  then have "flights ?g" by (auto simp: flight_step_def)
  moreover have "\<not> all_answered ?g" by (simp add: all_answered_def)
  ultimately show ?thesis using health_checks_answered [of ?g 0 ?g] by simp
qed

section \<open>Two queries at once\<close>

lemma flights_ask: "flights g \<Longrightarrow> ask g g' \<Longrightarrow> flights g'"
  by (erule rtranclp.rtrancl_into_rtrancl) (simp add: flight_step_def)

lemma flights_proceed: "flights g \<Longrightarrow> proceed g g' \<Longrightarrow> flights g'"
  by (erule rtranclp.rtrancl_into_rtrancl) (simp add: flight_step_def)

definition querying :: "string \<Rightarrow> string \<times> caller \<Rightarrow> bool" where
  "querying key e \<longleftrightarrow> fst e = key \<and> (case snd e of Querying c \<Rightarrow> True | _ \<Rightarrow> False)"

text \<open>A call that is made and forgotten, a second that is made before the first has left, and the first leaves.\<close>

lemma one_more_query:
  assumes "flights g" and "fg_m g key = None"
  shows "\<exists>g'. flights g' \<and> fg_m g' key = None \<and>
    fg_callers g' = fg_callers g @ [(key, Answered True), (key, Querying (Suc (fg_next g)))]"
proof -
  obtain m v a cs where g: "g = \<lparr>fg_m = m, fg_val = v, fg_next = a, fg_callers = cs\<rparr>" by (cases g)
  let ?g = "\<lambda>m v n xs. \<lparr>fg_m = m, fg_val = v, fg_next = n, fg_callers = cs @ xs\<rparr>"
  let ?first = "\<lambda>x. [(key, x a True)]" and ?both = "\<lambda>x. [(key, x), (key, Querying (Suc a))]" and ?none = "m(key := None)"
  let ?t = "length cs"
  have 1: "ask g (?g (m(key \<mapsto> a)) v (Suc a) [(key, Querying a)])"
    using ask.start [OF assms(2)] by (simp add: g)
  have 2: "proceed (?g (m(key \<mapsto> a)) v (Suc a) [(key, Querying a)]) (?g (m(key \<mapsto> a)) v (Suc a) (?first Queried))"
    using proceed.query [of "?g (m(key \<mapsto> a)) v (Suc a) [(key, Querying a)]" ?t key a True]
    by (simp add: at_def move_def)
  have 3: "proceed (?g (m(key \<mapsto> a)) v (Suc a) (?first Queried)) (?g ?none v (Suc a) (?first Forgotten))"
    using proceed.forget [of "?g (m(key \<mapsto> a)) v (Suc a) (?first Queried)" ?t key a True]
    by (simp add: at_def move_def)
  have 4: "ask (?g ?none v (Suc a) (?first Forgotten)) (?g (m(key \<mapsto> Suc a)) v (Suc (Suc a)) (?both (Forgotten a True)))"
    using ask.start [of "?g ?none v (Suc a) (?first Forgotten)" key] by simp
  have 5: "proceed (?g (m(key \<mapsto> Suc a)) v (Suc (Suc a)) (?both (Forgotten a True)))
      (?g (m(key \<mapsto> Suc a)) (v(a \<mapsto> True)) (Suc (Suc a)) (?both (Leaving a True)))"
    using proceed.wg_done [of "?g (m(key \<mapsto> Suc a)) v (Suc (Suc a)) (?both (Forgotten a True))" ?t key a True]
    by (simp add: at_def move_def nth_append)
  have 6: "proceed (?g (m(key \<mapsto> Suc a)) (v(a \<mapsto> True)) (Suc (Suc a)) (?both (Leaving a True)))
      (?g ?none (v(a \<mapsto> True)) (Suc (Suc a)) (?both (Answered True)))"
    using proceed.leave [of "?g (m(key \<mapsto> Suc a)) (v(a \<mapsto> True)) (Suc (Suc a)) (?both (Leaving a True))" ?t key a True]
    by (simp add: at_def move_def nth_append)
  have "flights (?g ?none (v(a \<mapsto> True)) (Suc (Suc a)) (?both (Answered True)))"
    by (rule flights_proceed [OF flights_proceed [OF flights_ask [OF flights_proceed [OF flights_proceed [OF flights_ask
            [OF assms(1) 1] 2] 3] 4] 5] 6])
  then show ?thesis by (intro exI conjI, assumption) (simp_all add: g)
qed

text \<open>
  The group does not keep the queries of one key apart: a caller that has forgotten its key removes it once more when it leaves, and
  thereby the call that another caller has made in between; while that query runs, a third caller starts another. Any number of queries
  of one key can run at once, where the comment on the group promises that there is at most one.
\<close>

theorem health_queries_overlap: "\<exists>g. flights g \<and> length (filter (querying ''presto-read'') (fg_callers g)) = n"
proof -
  have "\<exists>g. flights g \<and> fg_m g ''presto-read'' = None \<and> length (filter (querying ''presto-read'') (fg_callers g)) = n"
  proof (induction n)
    case 0
    show ?case by (intro exI [of _ new_group]) (simp add: new_group_def)
  next
    case (Suc n)
    then obtain g where g: "flights g" "fg_m g ''presto-read'' = None" "length (filter (querying ''presto-read'') (fg_callers g)) = n"
      by blast
    from one_more_query [OF g(1,2)] obtain g' where "flights g'" "fg_m g' ''presto-read'' = None"
      "fg_callers g' = fg_callers g @ [(''presto-read'', Answered True), (''presto-read'', Querying (Suc (fg_next g)))]"
      by blast
    moreover have "\<not> querying ''presto-read'' (''presto-read'', Answered True)" "querying ''presto-read'' (''presto-read'', Querying c)" for c
      by (simp_all add: querying_def)
    ultimately show ?case using g(3) by (intro exI [of _ g']) simp
  qed
  then show ?thesis by blast
qed

end
