(* ===== verification/Operator_Config.thy ===== *)
theory Operator_Config
  imports Work_Queues Data_Sources
begin

text \<open>
  The configuration of the operator: the flags and environment variables of \<^verbatim>\<open>cmd/reporting-operator/start.go\<close>, and what \<^verbatim>\<open>New\<close>, \<^verbatim>\<open>Run\<close> and
  \<^verbatim>\<open>newPrometheusConnFromURL\<close> of \<^verbatim>\<open>pkg/operator/operator.go\<close> make of them: the namespace that is watched, the clients and the connections to Hive,
  Presto and Prometheus. The libraries that load files, certificates, cluster configurations and URLs are parameters.
\<close>

section \<open>Configuration\<close>

record TLSConfig =
  UseTLS :: bool
  TLSCert :: string
  TLSKey :: string

definition TLSConfig_Valid :: "TLSConfig \<Rightarrow> goerror option" where
  "TLSConfig_Valid cfg =
     (if UseTLS cfg then
        if TLSCert cfg = [] then Some (Err ''Must set TLS certificate if TLS is enabled'')
        else if TLSKey cfg = [] then Some (Err ''Must set TLS private key if TLS is enabled'')
        else None
      else None)"

record PrometheusConfig =
  Address :: string
  SkipTLSVerify :: bool
  BearerToken :: string
  BearerTokenFile :: string
  CAFile :: string

text \<open>The fields that start-up reads; those of the importers and handlers are in the records of their theories.\<close>

record start_config =
  Hostname :: string
  OwnNamespace :: string
  AllNamespaces :: bool
  TargetNamespaces :: "string list"
  Kubeconfig :: string
  HiveHost :: string
  HiveUseTLS :: bool
  HiveCAFile :: string
  HiveTLSInsecureSkipVerify :: bool
  HiveUseClientCertAuth :: bool
  HiveClientCertFile :: string
  HiveClientKeyFile :: string
  PrestoHost :: string
  PrestoUseTLS :: bool
  PrestoCAFile :: string
  PrestoTLSInsecureSkipVerify :: bool
  PrestoUseClientCertAuth :: bool
  PrestoClientCertFile :: string
  PrestoClientKeyFile :: string
  PrestoMaxQueryLength :: int
  GlobalImportFromTime :: "go_time option"
  APITLSConfig :: TLSConfig
  MetricsTLSConfig :: TLSConfig
  op_PrometheusConfig :: PrometheusConfig

section \<open>Flags from the environment\<close>

text \<open>
  A flag with the text of its value. Setting a flag fails when the text is not one of its type, and leaves the flag as it was; the
  list is in the order in which the flags are visited.
\<close>

record flag =
  f_Name :: string
  f_Value :: string
  f_Changed :: bool

text \<open>The flags of the start command with the texts of their defaults, in the order in which they are declared.\<close>

definition start_flags :: "(string \<times> string) list" where
  "start_flags =
     [(''log-level'', ''debug''), (''log-timestamp'', ''true''), (''disable-timestamp'', ''false''), (''kubeconfig'', []),
      (''namespace'', []), (''all-namespaces'', ''false''), (''target-namespaces'', ''[]''), (''api-listen'', ''127.0.0.1:8080''),
      (''metrics-listen'', ''127.0.0.1:8082''), (''pprof-listen'', ''127.0.0.1:6060''), (''hive-host'', ''hive:10000''),
      (''hive-use-tls'', ''false''), (''hive-tls-insecure-skip-verify'', ''false''), (''hive-ca-file'', []),
      (''hive-use-auth'', ''false''), (''hive-client-cert-file'', []), (''hive-client-key-file'', []),
      (''presto-host'', ''presto:8080''), (''presto-use-tls'', ''false''), (''presto-tls-insecure-skip-verify'', ''false''),
      (''presto-ca-file'', []), (''presto-use-auth'', ''false''), (''presto-client-cert-file'', []), (''presto-client-key-file'', []),
      (''prometheus-host'', ''http://prometheus-k8s.monitoring.svc:9090/''), (''prometheus-skip-tls-verify'', ''false''),
      (''prometheus-bearer-token'', []), (''prometheus-bearer-token-file'', []), (''prometheus-ca-file'', []),
      (''disable-prometheus-metrics-importer'', ''false''), (''log-dml-queries'', ''false''), (''log-ddl-queries'', ''false''),
      (''enable-finalizers'', ''false''), (''prometheus-metrics-importer-interval'', ''5m0s''),
      (''prometheus-metrics-importer-step-size'', ''1m0s''), (''prometheus-metrics-importer-chunk-size'', ''5m0s''),
      (''presto-max-query-length'', ''0''), (''prometheus-datasource-max-query-range-duration'', ''10m0s''),
      (''prometheus-datasource-max-import-backfill-duration'', ''2h0m0s''), (''prometheus-datasource-import-from'', []),
      (''lease-duration'', ''1m0s''), (''use-tls'', ''false''), (''tls-cert'', []), (''tls-key'', []),
      (''metrics-use-tls'', ''false''), (''metrics-tls-cert'', []), (''metrics-tls-key'', [])]"

definition env_key :: "string \<Rightarrow> string \<Rightarrow> string" where
  "env_key pre name = pre @ ''_'' @ ToUpper (replace_char (CHR ''-'') (CHR ''_'') name)"

definition setFlagFromEnv :: "(string \<Rightarrow> string) \<Rightarrow> (string \<Rightarrow> string \<Rightarrow> goerror option) \<Rightarrow> string \<Rightarrow> flag \<Rightarrow> flag \<times> goerror option" where
  "setFlagFromEnv getenv valid pre f =
     (let key = env_key pre (f_Name f); val = getenv key in
      if f_Changed f \<or> val = [] then (f, None)
      else case valid (f_Name f) val of
        None \<Rightarrow> (f\<lparr>f_Value := val, f_Changed := True\<rparr>, None)
      | Some serr \<Rightarrow> (f, Some (Err (''invalid value '' @ Quote val @ '' for '' @ key @ '': '' @ Error serr))))"

text \<open>The error of the last flag that could not be set is returned.\<close>

fun SetFlagsFromEnv ::
  "(string \<Rightarrow> string) \<Rightarrow> (string \<Rightarrow> string \<Rightarrow> goerror option) \<Rightarrow> string \<Rightarrow> flag list \<Rightarrow> flag list \<times> goerror option" where
  "SetFlagsFromEnv getenv valid pre [] = ([], None)"
| "SetFlagsFromEnv getenv valid pre (f # fs) =
     (let (f', err) = setFlagFromEnv getenv valid pre f; (fs', err') = SetFlagsFromEnv getenv valid pre fs
      in (f' # fs', if err' \<noteq> None then err' else err))"

section \<open>Starting\<close>

record start_lib =
  sl_ReadFile :: "string \<Rightarrow> goerror + string"
  sl_Hostname :: "goerror + string"
  sl_ParseRFC3339 :: "string \<Rightarrow> goerror + go_time"

text \<open>A fatal log line ends the process: it is the error.\<close>

definition startReporting :: "start_lib \<Rightarrow> string \<Rightarrow> start_config \<Rightarrow> goerror + start_config" where
  "startReporting lib importFrom cfg =
     bindR (if OwnNamespace cfg = [] then
              (case sl_ReadFile lib ''/var/run/secrets/kubernetes.io/serviceaccount/namespace'' of
                 Inl e \<Rightarrow> Inl (wrap (\<lambda>m. ''could not determine namespace'') e)
               | Inr namespace \<Rightarrow> Inr (cfg\<lparr>OwnNamespace := namespace\<rparr>))
            else Inr cfg) (\<lambda>cfg.
     bindR (case sl_Hostname lib of
              Inl e \<Rightarrow> Inl (wrap (\<lambda>m. ''unable to get hostname, err: '' @ m) e)
            | Inr host \<Rightarrow> Inr (cfg\<lparr>Hostname := host\<rparr>)) (\<lambda>cfg.
     if importFrom \<noteq> [] then
       (case sl_ParseRFC3339 lib importFrom of
          Inl e \<Rightarrow> Inl (wrap (\<lambda>m. ''Invalid RFC3339 timestamp for --prometheus-datasource-import-from, '' @ importFrom @ '': '' @ m) e)
        | Inr t \<Rightarrow> Inr (cfg\<lparr>GlobalImportFromTime := Some t\<rparr>))
     else Inr cfg))"

section \<open>The operator\<close>

record 'k kube_lib =
  kl_Default :: "goerror + 'k"
  kl_LoadFromFile :: "string \<Rightarrow> goerror + (goerror + 'k)"
  kl_CoreClient :: "'k \<Rightarrow> goerror option"
  kl_MeteringClient :: "'k \<Rightarrow> goerror option"

record 'k reporting_op =
  op_cfg :: start_config
  op_kubeConfig :: 'k
  op_informerNamespace :: string
  op_queueList :: "queue_name list"
  op_initialized :: bool
  op_importers :: "string list"

text \<open>The configuration of the cluster: loading a file may fail, and so may what was loaded.\<close>

definition clientConfig :: "'k kube_lib \<Rightarrow> start_config \<Rightarrow> goerror + 'k" where
  "clientConfig lib cfg =
     bindR (if Kubeconfig cfg = [] then Inr (kl_Default lib) else kl_LoadFromFile lib (Kubeconfig cfg))
       (\<lambda>config. case config of
          Inl e \<Rightarrow> Inl (wrap (\<lambda>m. ''Unable to get Kubernetes client config: '' @ m) e)
        | Inr kubeConfig \<Rightarrow> Inr kubeConfig)"

definition informerNamespaceOf :: "start_config \<Rightarrow> goerror + string" where
  "informerNamespaceOf cfg =
     (if AllNamespaces cfg then Inr []
      else if length (TargetNamespaces cfg) = 1 then Inr (TargetNamespaces cfg ! 0)
      else if length (TargetNamespaces cfg) > 1 \<and> \<not> AllNamespaces cfg
        then Inl (Err ''must set --all-namespaces if more than one namespace is passed to --target-namespaces'')
      else Inr (OwnNamespace cfg))"

definition newReportingOperator :: "start_config \<Rightarrow> 'k \<Rightarrow> string \<Rightarrow> 'k reporting_op" where
  "newReportingOperator cfg kubeConfig informerNamespace =
     \<lparr>op_cfg = cfg, op_kubeConfig = kubeConfig, op_informerNamespace = informerNamespace,
      op_queueList = [ReportQueue, ReportDataSourceQueue, ReportQueryQueue, PrestoTableQueue, HiveTableQueue, StorageLocationQueue],
      op_initialized = False, op_importers = []\<rparr>"

definition New :: "'k kube_lib \<Rightarrow> start_config \<Rightarrow> goerror + 'k reporting_op" where
  "New lib cfg =
     (case TLSConfig_Valid (APITLSConfig cfg) of Some e \<Rightarrow> Inl e | None \<Rightarrow>
     (case TLSConfig_Valid (MetricsTLSConfig cfg) of Some e \<Rightarrow> Inl e | None \<Rightarrow>
     bindR (clientConfig lib cfg) (\<lambda>kubeConfig.
     (case kl_CoreClient lib kubeConfig of
        Some e \<Rightarrow> Inl (wrap (\<lambda>m. ''Unable to create Kubernetes client: '' @ m) e)
      | None \<Rightarrow>
     (case kl_MeteringClient lib kubeConfig of
        Some e \<Rightarrow> Inl (wrap (\<lambda>m. ''Unable to create Metering client: '' @ m) e)
      | None \<Rightarrow>
     bindR (informerNamespaceOf cfg) (\<lambda>informerNamespace.
       Inr (newReportingOperator cfg kubeConfig informerNamespace)))))))"

text \<open>
  What the informers of a factory for a namespace deliver, the empty name standing for all namespaces: an object of the namespace
  reaches the handler that was registered, wrapped with the target namespaces.
\<close>

definition informer_delivers :: "string \<Rightarrow> string \<Rightarrow> bool" where
  "informer_delivers informerNamespace ns \<longleftrightarrow> informerNamespace = [] \<or> ns = informerNamespace"

definition registered :: "'k reporting_op \<Rightarrow> 'a ObjectMeta_scheme deleted event_handler \<Rightarrow> 'a ObjectMeta_scheme deleted event_handler" where
  "registered op handler = newInTargetNamespaceEventHandler deleted_namespace handler (TargetNamespaces (op_cfg op))"

definition informerAdd ::
  "'k reporting_op \<Rightarrow> 'a ObjectMeta_scheme deleted event_handler \<Rightarrow> 'a ObjectMeta_scheme \<Rightarrow> (goerror + unit) op" where
  "informerAdd op handler x =
     (if informer_delivers (op_informerNamespace op) (Namespace x) then on_add (registered op handler) (Obj x)
      else State_Monad.return (Inr ()))"

section \<open>Connections\<close>

text \<open>
  The files and URLs that \<^verbatim>\<open>Run\<close> loads. A certificate pool is the text it was made from, a pair of client certificate and key what was
  loaded; of a URL the scheme, the user, the host and the query are read or changed.
\<close>

record url =
  url_Scheme :: string
  url_User :: string
  url_Host :: string
  url_Query :: "string gomap"

record 'cert tls_config =
  tls_RootCAs :: string
  tls_InsecureSkipVerify :: bool
  tls_Certificates :: "'cert list"

record transport_config =
  tc_CAFile :: string
  tc_Insecure :: bool
  tc_BearerToken :: string
  tc_BearerTokenFile :: string

record ('cert, 'rt) net_lib =
  nl_ReadFile :: "string \<Rightarrow> goerror + string"
  nl_LoadX509KeyPair :: "string \<Rightarrow> string \<Rightarrow> goerror + 'cert"
  nl_ParseURL :: "string \<Rightarrow> goerror + url"
  nl_Stat :: "string \<Rightarrow> goerror option"
  nl_Transport :: "transport_config \<Rightarrow> goerror + 'rt"
  nl_OpenHive :: "'cert tls_config option \<Rightarrow> string \<Rightarrow> goerror option"
  nl_OpenPresto :: "url \<Rightarrow> goerror option"

text \<open>The settings of a connection over TLS: the authorities from a file, and a client certificate when it is asked for.\<close>

definition loadTLS ::
  "('cert, 'rt) net_lib \<Rightarrow> (string \<Rightarrow> string) \<Rightarrow> (string \<Rightarrow> string) \<Rightarrow> string \<Rightarrow> bool \<Rightarrow> bool \<Rightarrow> string \<Rightarrow> string \<Rightarrow>
   goerror + 'cert tls_config" where
  "loadTLS lib caError certError caFile insecure useCert certFile keyFile =
     (case nl_ReadFile lib caFile of
        Inl e \<Rightarrow> Inl (wrap caError e)
      | Inr rootCert \<Rightarrow>
          let config = \<lparr>tls_RootCAs = rootCert, tls_InsecureSkipVerify = insecure, tls_Certificates = []\<rparr> in
          if useCert then
            (case nl_LoadX509KeyPair lib certFile keyFile of
               Inl e \<Rightarrow> Inl (wrap certError e)
             | Inr clientCert \<Rightarrow> Inr (config\<lparr>tls_Certificates := [clientCert]\<rparr>))
          else Inr config)"

text \<open>Hive: the dialer, plain or with TLS, and the name of the source it is opened with.\<close>

definition hiveConnection :: "('cert, 'rt) net_lib \<Rightarrow> start_config \<Rightarrow> goerror + ('cert tls_config option \<times> string)" where
  "hiveConnection lib cfg =
     bindR (if HiveUseTLS cfg then
              bindR (loadTLS lib (\<lambda>m. ''error loading Hive CA File: '' @ m) (\<lambda>m. ''error loading Hive client cert/key: '' @ m)
                  (HiveCAFile cfg) (HiveTLSInsecureSkipVerify cfg) (HiveUseClientCertAuth cfg) (HiveClientCertFile cfg)
                  (HiveClientKeyFile cfg)) (\<lambda>config. Inr (Some config))
            else Inr None)
       (\<lambda>dialer. let dsn = ''hive://'' @ HiveHost cfg @ ''?batch=500'' in
          case nl_OpenHive lib dialer dsn of Some e \<Rightarrow> Inl e | None \<Rightarrow> Inr (dialer, dsn))"

text \<open>Presto: the URL of the endpoint and the settings of the client that is registered for it.\<close>

definition prestoConnection :: "('cert, 'rt) net_lib \<Rightarrow> start_config \<Rightarrow> goerror + (url \<times> 'cert tls_config option)" where
  "prestoConnection lib cfg =
     bindR (nl_ParseURL lib (''http://reporting-operator@'' @ PrestoHost cfg @ ''?'')) (\<lambda>prestoURL.
     let val = map_set ''schema'' ''default'' (map_set ''catalog'' ''hive'' (url_Query prestoURL)) in
     bindR (if PrestoUseTLS cfg then
       bindR (loadTLS lib (\<lambda>m. ''presto: Error loading SSL Cert File: '' @ m) (\<lambda>m. ''presto: Error loading SSL Client cert/key file: '' @ m)
           (PrestoCAFile cfg) (PrestoTLSInsecureSkipVerify cfg) (PrestoUseClientCertAuth cfg) (PrestoClientCertFile cfg)
           (PrestoClientKeyFile cfg))
         (\<lambda>config. Inr (prestoURL\<lparr>url_Scheme := ''https'', url_Query := map_set ''custom_client'' ''httpClient'' val\<rparr>, Some config))
     else Inr (prestoURL\<lparr>url_Query := val\<rparr>, None))
       (\<lambda>(endpoint, config). case nl_OpenPresto lib endpoint of Some e \<Rightarrow> Inl e | None \<Rightarrow> Inr (endpoint, config)))"

definition prometheusTransport :: "('cert, 'rt) net_lib \<Rightarrow> PrometheusConfig \<Rightarrow> goerror + transport_config" where
  "prometheusTransport lib cfg =
     (let config = \<lparr>tc_CAFile = [], tc_Insecure = False, tc_BearerToken = [], tc_BearerTokenFile = []\<rparr> in
      bindR (if CAFile cfg \<noteq> [] then
               (case nl_Stat lib (CAFile cfg) of None \<Rightarrow> Inr (config\<lparr>tc_CAFile := CAFile cfg\<rparr>) | Some e \<Rightarrow> Inl e)
             else Inr config) (\<lambda>config.
      let config = (if SkipTLSVerify cfg then config\<lparr>tc_Insecure := True, tc_CAFile := []\<rparr> else config);
          config = (if BearerToken cfg \<noteq> [] then config\<lparr>tc_BearerToken := BearerToken cfg\<rparr> else config)
      in Inr (if BearerTokenFile cfg \<noteq> [] then config\<lparr>tc_BearerTokenFile := BearerTokenFile cfg\<rparr> else config)))"

definition newPrometheusConnFromURL ::
  "('cert, 'rt) net_lib \<Rightarrow> (string \<Rightarrow> 'rt \<Rightarrow> goerror + prom_conn) \<Rightarrow> start_config \<Rightarrow> string \<Rightarrow> goerror + prom_conn" where
  "newPrometheusConnFromURL lib newClient cfg addr =
     bindR (prometheusTransport lib (op_PrometheusConfig cfg)) (\<lambda>config.
     bindR (nl_Transport lib config) (\<lambda>roundTripper.
       (case newClient addr roundTripper of
          Inl e \<Rightarrow> Inl (wrap (\<lambda>m. ''can't connect to prometheus: '' @ m) e)
        | Inr conn \<Rightarrow> Inr conn)))"

text \<open>
  What \<^verbatim>\<open>Run\<close> opens before it starts the API server, in this order: Hive, Presto, Prometheus. Statements to Presto are built in buffers of a bounded
  size only when a bound is configured.
\<close>

record ('cert) op_connections =
  oc_hive :: "'cert tls_config option \<times> string"
  oc_presto :: "url \<times> 'cert tls_config option"
  oc_prom :: prom_conn
  oc_queryBuffer :: "int option"

definition setupConnections ::
  "('cert, 'rt) net_lib \<Rightarrow> (string \<Rightarrow> 'rt \<Rightarrow> goerror + prom_conn) \<Rightarrow> start_config \<Rightarrow> goerror + 'cert op_connections" where
  "setupConnections lib newClient cfg =
     bindR (hiveConnection lib cfg) (\<lambda>hive.
     bindR (prestoConnection lib cfg) (\<lambda>presto.
     bindR (newPrometheusConnFromURL lib newClient cfg (Address (op_PrometheusConfig cfg))) (\<lambda>prom.
       Inr \<lparr>oc_hive = hive, oc_presto = presto, oc_prom = prom,
             oc_queryBuffer = (if 0 < PrestoMaxQueryLength cfg then Some (PrestoMaxQueryLength cfg) else None)\<rparr>)))"

section \<open>Properties\<close>

text \<open>
  C39: the operator handles the resources of its target namespaces; without target namespaces, those of all namespaces when
  all are to be watched and those of its own namespace otherwise. The informer's namespace and the filter of the handlers, chosen in two
  places, agree on that.
\<close>

definition watched :: "start_config \<Rightarrow> string \<Rightarrow> bool" where
  "watched cfg ns \<longleftrightarrow>
     (if TargetNamespaces cfg = [] then AllNamespaces cfg \<or> ns = OwnNamespace cfg else ns \<in> set (TargetNamespaces cfg))"


text \<open>The flags of the command at their defaults, in the namespace \<^verbatim>\<open>metering\<close>.\<close>

definition default_config :: start_config where
  "default_config =
     \<lparr>Hostname = ''host'', OwnNamespace = ''metering'', AllNamespaces = False, TargetNamespaces = [], Kubeconfig = [],
      HiveHost = ''hive:10000'', HiveUseTLS = False, HiveCAFile = [], HiveTLSInsecureSkipVerify = False, HiveUseClientCertAuth = False,
      HiveClientCertFile = [], HiveClientKeyFile = [], PrestoHost = ''presto:8080'', PrestoUseTLS = False, PrestoCAFile = [],
      PrestoTLSInsecureSkipVerify = False, PrestoUseClientCertAuth = False, PrestoClientCertFile = [], PrestoClientKeyFile = [],
      PrestoMaxQueryLength = 0, GlobalImportFromTime = None,
      APITLSConfig = \<lparr>UseTLS = False, TLSCert = [], TLSKey = []\<rparr>, MetricsTLSConfig = \<lparr>UseTLS = False, TLSCert = [], TLSKey = []\<rparr>,
      op_PrometheusConfig = \<lparr>Address = ''http://prometheus-k8s.monitoring.svc:9090/'', SkipTLSVerify = False, BearerToken = [],
        BearerTokenFile = [], CAFile = []\<rparr>\<rparr>"


text \<open>A transport that skips verification carries no certificate authority, which the transport library would refuse.\<close>

lemma insecure_without_authority:
  "prometheusTransport lib cfg = Inr config \<Longrightarrow> tc_Insecure config \<longleftrightarrow> SkipTLSVerify cfg"
  "prometheusTransport lib cfg = Inr config \<Longrightarrow> tc_Insecure config \<Longrightarrow> tc_CAFile config = []"
  by (auto simp: prometheusTransport_def Let_def bindR_eq_Inr split: if_splits option.splits)

text \<open>A missing file of authorities stops the operator even when verification is skipped and the file is not used.\<close>

lemma unused_authority_required:
  "SkipTLSVerify cfg \<Longrightarrow> CAFile cfg \<noteq> [] \<Longrightarrow> nl_Stat lib (CAFile cfg) = Some e \<Longrightarrow> prometheusTransport lib cfg = Inl e"
  by (simp add: prometheusTransport_def Let_def)

text \<open>
  Flags that are set keep their values; the others take the value of their variable when it is not empty and valid. An error is
  returned exactly when some value was not.
\<close>

lemma SetFlagsFromEnv_values:
  "fst (SetFlagsFromEnv getenv valid pre fs) = map (\<lambda>f. fst (setFlagFromEnv getenv valid pre f)) fs"
  by (induction fs) (auto simp: Let_def split: prod.splits)

lemma SetFlagsFromEnv_error:
  "snd (SetFlagsFromEnv getenv valid pre fs) = None \<longleftrightarrow> (\<forall>f \<in> set fs. snd (setFlagFromEnv getenv valid pre f) = None)"
  by (induction fs) (auto simp: Let_def split: prod.splits)

lemma setFlagFromEnv_set: "f_Changed f \<Longrightarrow> setFlagFromEnv getenv valid pre f = (f, None)"
  by (simp add: setFlagFromEnv_def Let_def)

text \<open>
  No two flags of the start command take their value from the same variable: their names are of lower-case letters and dashes, on which
  the name of the variable determines that of the flag.
\<close>

definition flag_chars :: string where "flag_chars = ''-abcdefghijklmnopqrstuvwxyz''"

lemma flag_names: "list_all (\<lambda>(name, val). list_all (\<lambda>c. c \<in> set flag_chars) name) start_flags"
  by code_simp

lemma flag_names_distinct: "distinct (map fst start_flags)"
  by code_simp

lemma env_char_inj: "inj_on (\<lambda>c. upper_char (if c = CHR ''-'' then CHR ''_'' else c)) (set flag_chars)"
proof -
  have "distinct (map (\<lambda>c. upper_char (if c = CHR ''-'' then CHR ''_'' else c)) flag_chars)" by code_simp
  then show ?thesis by (simp only: distinct_map)
qed

lemma env_key_inj: "set a \<subseteq> set flag_chars \<Longrightarrow> set b \<subseteq> set flag_chars \<Longrightarrow> env_key pre a = env_key pre b \<longleftrightarrow> a = b"
  using inj_on_map_eq_map [OF env_char_inj [THEN inj_on_subset], of a b]
  by (auto simp: env_key_def ToUpper_def replace_char_def comp_def)

lemma flag_variables_distinct: "distinct (map (\<lambda>(name, val). env_key pre name) start_flags)"
proof -
  have chars: "set (fst p) \<subseteq> set flag_chars" if "p \<in> set start_flags" for p
    using bspec [OF flag_names [unfolded list_all_iff] that] by (cases p) (simp add: subset_iff)
  have "inj_on (env_key pre \<circ> fst) (set start_flags)"
  proof (rule inj_onI)
    fix p q
    assume pq: "p \<in> set start_flags" "q \<in> set start_flags" "(env_key pre \<circ> fst) p = (env_key pre \<circ> fst) q"
    then have "fst p = fst q" using env_key_inj [OF chars chars] by simp
    with pq(1,2) show "p = q" using flag_names_distinct by (metis distinct_map inj_onD)
  qed
  moreover have "distinct start_flags" using flag_names_distinct by (simp only: distinct_map)
  ultimately show ?thesis by (simp add: distinct_map comp_def case_prod_unfold)
qed

text \<open>A connection to Presto is over TLS, with the registered client, exactly when TLS is configured.\<close>

lemma presto_over_TLS:
  assumes "prestoConnection lib cfg = Inr (endpoint, config)" and "nl_ParseURL lib (''http://reporting-operator@'' @ PrestoHost cfg @ ''?'') = Inr u"
    and "url_Scheme u = ''http''" and "map_of (url_Query u) ''custom_client'' = None"
  shows "url_Scheme endpoint = ''https'' \<longleftrightarrow> PrestoUseTLS cfg" and "config \<noteq> None \<longleftrightarrow> PrestoUseTLS cfg"
    and "map_of (url_Query endpoint) ''custom_client'' = (if PrestoUseTLS cfg then Some ''httpClient'' else None)"
  using assms by (auto simp: prestoConnection_def Let_def bindR_eq_Inr split: if_splits option.splits)

end
