(* ===== verification/Operator_Run.thy ===== *)
theory Operator_Run
  imports Operator_Config Step_Systems
begin

text \<open>
  The life of the operator, \<^verbatim>\<open>Run\<close> and \<^verbatim>\<open>startWorkers\<close> of \<^verbatim>\<open>pkg/operator/operator.go\<close>, from the start of its servers to its return. \<^verbatim>\<open>Run\<close> is one of many
  goroutines: the servers, the informers, the leader election of client-go with its callbacks, the workers and the signal handler proceed
  beside it, so the life is a step relation \<open>op_step\<close> in which any of them may take the next step.
\<close>

section \<open>State\<close>

datatype srv = MetricsServer | PprofServer | APIServer

datatype srv_state = Idle | Serving | Exited

datatype run_error = SetupFailed | PollStopped | CacheNotSynced | LockFailed | LostLeadership | ServerFailed srv

text \<open>Where \<^verbatim>\<open>Run\<close> is. \<open>Syncing ks\<close>: it waits for the caches of the kinds \<open>ks\<close>. \<open>Stopping\<close>: it waits for the wait group.\<close>

datatype run_pc =
    SettingUp
  | PollingPresto
  | StartingInformers
  | Syncing "string list"
  | Selecting
  | Stopping
  | Returned "run_error option"

datatype elector = NotRunning | Acquiring | Leading | StoppedLeading

text \<open>
  \<open>s_errs\<close> is the buffered channel of the servers' errors and \<open>s_wg\<close> the counter of the wait group. \<open>s_informers\<close> and \<open>s_becoming\<close> say that the
  goroutine that starts the informers, or the callback of a new leader, has not run yet. Workers have been spawned, or have entered
  their loop and are running. \<open>s_lost\<close> is the context of lost leadership; \<open>s_expired\<close> records that a lease could not be renewed.
\<close>

record op_state =
  s_pc :: run_pc
  s_ctx :: bool
  s_initialized :: bool
  s_server :: "srv \<Rightarrow> srv_state"
  s_errs :: "srv list"
  s_informers :: bool
  s_started :: bool
  s_synced :: "string set"
  s_elector :: elector
  s_becoming :: bool
  s_spawned :: nat
  s_running :: nat
  s_lost :: bool
  s_expired :: bool
  s_shutdowns :: "srv list"
  s_queues_down :: bool
  s_wg :: int

definition informer_kinds :: "string list" where
  "informer_kinds = [''PrestoTable'', ''HiveTable'', ''ReportDataSource'', ''ReportQuery'', ''Report'', ''StorageLocation'']"

text \<open>The workers of each queue, as \<^verbatim>\<open>startWorkers\<close> starts them.\<close>

definition worker_threads :: "(queue_name \<times> nat) list" where
  "worker_threads =
     [(StorageLocationQueue, 4), (HiveTableQueue, 10), (PrestoTableQueue, 10), (ReportDataSourceQueue, 8), (ReportQueryQueue, 4),
      (ReportQueue, 6)]"

definition startWorkers :: "op_state \<Rightarrow> op_state" where
  "startWorkers s =
     (let threads = sum_list (map snd worker_threads) in s\<lparr>s_spawned := s_spawned s + threads, s_wg := s_wg s + int threads\<rparr>)"

definition srvErrChan_cap :: nat where "srvErrChan_cap = 3"

definition run_start :: op_state where
  "run_start =
     \<lparr>s_pc = SettingUp, s_ctx = False, s_initialized = False, s_server = (\<lambda>_. Serving)(APIServer := Idle), s_errs = [],
      s_informers = False, s_started = False, s_synced = {}, s_elector = NotRunning, s_becoming = False, s_spawned = 0, s_running = 0,
      s_lost = False, s_expired = False, s_shutdowns = [], s_queues_down = False, s_wg = 2\<rparr>"

text \<open>The channel that stops the workers: the context of the election, which ends with the context of the operator.\<close>

definition stopped :: "op_state \<Rightarrow> bool" where
  "stopped s \<longleftrightarrow> s_ctx s \<or> s_elector s = StoppedLeading"

section \<open>Steps\<close>

inductive op_step :: "op_state \<Rightarrow> op_state \<Rightarrow> bool" where
  signal: "op_step s (s\<lparr>s_ctx := True\<rparr>)"
| setup_fails: "s_pc s = SettingUp \<Longrightarrow> op_step s (s\<lparr>s_pc := Returned (Some SetupFailed)\<rparr>)"
| setup_done: "s_pc s = SettingUp \<Longrightarrow>
    op_step s (s\<lparr>s_pc := PollingPresto, s_server := (s_server s)(APIServer := Serving), s_wg := s_wg s + 1\<rparr>)"
| presto_read: "s_pc s = PollingPresto \<Longrightarrow>
    op_step s (s\<lparr>s_pc := StartingInformers, s_initialized := True, s_informers := True\<rparr>)"
| poll_stopped: "s_pc s = PollingPresto \<Longrightarrow> s_ctx s \<Longrightarrow> op_step s (s\<lparr>s_pc := Returned (Some PollStopped)\<rparr>)"
| informers_start: "s_informers s \<Longrightarrow> op_step s (s\<lparr>s_informers := False, s_started := True\<rparr>)"
| snapshot: "s_pc s = StartingInformers \<Longrightarrow>
    op_step s (s\<lparr>s_pc := Syncing (if s_started s then informer_kinds else [])\<rparr>)"
| cache_synced: "s_started s \<Longrightarrow> k \<in> set informer_kinds \<Longrightarrow> op_step s (s\<lparr>s_synced := insert k (s_synced s)\<rparr>)"
| cache_waited: "s_pc s = Syncing (k # ks) \<Longrightarrow> k \<in> s_synced s \<Longrightarrow> op_step s (s\<lparr>s_pc := Syncing ks\<rparr>)"
| cache_stopped: "s_pc s = Syncing (k # ks) \<Longrightarrow> k \<notin> s_synced s \<Longrightarrow> s_ctx s \<Longrightarrow>
    op_step s (s\<lparr>s_pc := Returned (Some CacheNotSynced)\<rparr>)"
| lock_fails: "s_pc s = Syncing [] \<Longrightarrow> op_step s (s\<lparr>s_pc := Returned (Some LockFailed)\<rparr>)"
| election: "s_pc s = Syncing [] \<Longrightarrow> op_step s (s\<lparr>s_pc := Selecting, s_elector := Acquiring\<rparr>)"
| acquired: "s_elector s = Acquiring \<Longrightarrow> op_step s (s\<lparr>s_elector := Leading, s_becoming := True\<rparr>)"
| acquire_stopped: "s_elector s = Acquiring \<Longrightarrow> s_ctx s \<Longrightarrow> op_step s (s\<lparr>s_elector := StoppedLeading, s_lost := True\<rparr>)"
| renew_fails: "s_elector s = Leading \<Longrightarrow> op_step s (s\<lparr>s_elector := StoppedLeading, s_lost := True, s_expired := True\<rparr>)"
| renew_stopped: "s_elector s = Leading \<Longrightarrow> s_ctx s \<Longrightarrow> op_step s (s\<lparr>s_elector := StoppedLeading, s_lost := True\<rparr>)"
| started_leading: "s_becoming s \<Longrightarrow> op_step s (startWorkers (s\<lparr>s_becoming := False\<rparr>))"
| worker_enters: "s_spawned s = Suc n \<Longrightarrow> \<not> stopped s \<Longrightarrow> op_step s (s\<lparr>s_spawned := n, s_running := Suc (s_running s)\<rparr>)"
| worker_turns_back: "s_spawned s = Suc n \<Longrightarrow> stopped s \<Longrightarrow> op_step s (s\<lparr>s_spawned := n, s_wg := s_wg s - 1\<rparr>)"
| worker_stops: "s_running s = Suc n \<Longrightarrow> stopped s \<Longrightarrow> s_queues_down s \<Longrightarrow>
    op_step s (s\<lparr>s_running := n, s_wg := s_wg s - 1\<rparr>)"
| server_exits: "s_server s x = Serving \<Longrightarrow> length (s_errs s) < srvErrChan_cap \<Longrightarrow>
    op_step s (s\<lparr>s_server := (s_server s)(x := Exited), s_errs := s_errs s @ [x], s_wg := s_wg s - 1\<rparr>)"
| select_stop: "s_pc s = Selecting \<Longrightarrow> s_ctx s \<Longrightarrow>
    op_step s (s\<lparr>s_pc := Stopping, s_shutdowns := [APIServer, MetricsServer, PprofServer], s_wg := s_wg s + 3\<rparr>)"
| select_lost: "s_pc s = Selecting \<Longrightarrow> s_lost s \<Longrightarrow> op_step s (s\<lparr>s_pc := Returned (Some LostLeadership)\<rparr>)"
| select_server: "s_pc s = Selecting \<Longrightarrow> s_errs s = x # xs \<Longrightarrow>
    op_step s (s\<lparr>s_pc := Returned (Some (ServerFailed x)), s_errs := xs\<rparr>)"
| shutdown_done: "x \<in> set (s_shutdowns s) \<Longrightarrow> op_step s (s\<lparr>s_shutdowns := remove1 x (s_shutdowns s), s_wg := s_wg s - 1\<rparr>)"
| queues_shut: "s_pc s = Stopping \<or> s_pc s = Returned None \<Longrightarrow> op_step s (s\<lparr>s_queues_down := True\<rparr>)"
| waited: "s_pc s = Stopping \<Longrightarrow> s_wg s = 0 \<Longrightarrow> op_step s (s\<lparr>s_pc := Returned None\<rparr>)"

abbreviation life :: "op_state \<Rightarrow> bool" where
  "life s \<equiv> op_step\<^sup>*\<^sup>* run_start s"

section \<open>Invariant\<close>

fun servers_in :: "srv_state \<Rightarrow> (srv \<Rightarrow> srv_state) \<Rightarrow> nat" where
  "servers_in x f = of_bool (f MetricsServer = x) + of_bool (f PprofServer = x) + of_bool (f APIServer = x)"

text \<open>The wait group counts the goroutines that will call \<^verbatim>\<open>Done\<close>, and the channel has room for the error of every server.\<close>

definition counts :: "op_state \<Rightarrow> bool" where
  "counts s \<longleftrightarrow>
     s_wg s = int (servers_in Serving (s_server s) + s_spawned s + s_running s + length (s_shutdowns s)) \<and>
     length (s_errs s) \<le> servers_in Exited (s_server s) \<and>
     (s_server s APIServer = Idle \<longrightarrow> s_pc s \<in> {SettingUp, Returned (Some SetupFailed)}) \<and>
     (s_pc s = SettingUp \<longrightarrow> s_server s APIServer = Idle) \<and>
     s_server s MetricsServer \<noteq> Idle \<and> s_server s PprofServer \<noteq> Idle \<and> 
     (s_shutdowns s \<noteq> [] \<longrightarrow> s_pc s \<in> {Stopping, Returned None})"

definition early :: "run_pc \<Rightarrow> bool" where
  "early pc \<longleftrightarrow> pc \<in> {SettingUp, PollingPresto}"

definition leads :: "op_state \<Rightarrow> bool" where
  "leads s \<longleftrightarrow>
     (s_elector s \<noteq> NotRunning \<longrightarrow> s_initialized s \<and> s_pc s \<noteq> StartingInformers \<and> (\<forall>ks. s_pc s \<noteq> Syncing ks)) \<and>
     (s_initialized s \<longrightarrow> \<not> early (s_pc s)) \<and>
     (s_becoming s \<or> 0 < s_spawned s \<or> 0 < s_running s \<longrightarrow> s_elector s \<in> {Leading, StoppedLeading}) \<and>
     (s_pc s \<in> {StartingInformers, Selecting, Stopping, Returned None} \<or> (\<exists>ks. s_pc s = Syncing ks) \<longrightarrow> s_initialized s)"

definition returns :: "op_state \<Rightarrow> bool" where
  "returns s \<longleftrightarrow>
     (s_pc s \<in> {Stopping, Returned None} \<longrightarrow> s_ctx s) \<and>
     (s_pc s = Returned None \<longrightarrow> s_running s = 0 \<and> servers_in Serving (s_server s) = 0 \<and> s_shutdowns s = [])"

declare servers_in.simps [simp del]

lemma serving_pos: "0 < servers_in Serving f \<longleftrightarrow> (\<exists>x. f x = Serving)"
proof
  assume "0 < servers_in Serving f"
  then show "\<exists>x. f x = Serving" by (auto simp: servers_in.simps)
next
  assume "\<exists>x. f x = Serving"
  then obtain x where "f x = Serving" ..
  then show "0 < servers_in Serving f" by (cases x) (auto simp: servers_in.simps)
qed

lemma servers_bound: "servers_in Exited f + servers_in Serving f \<le> srvErrChan_cap"
  by (simp add: servers_in.simps srvErrChan_cap_def)

lemma count_exits: "f x = Serving \<Longrightarrow>
    Suc (servers_in Serving (f(x := Exited))) = servers_in Serving f \<and> servers_in Exited (f(x := Exited)) = Suc (servers_in Exited f)"
  by (cases x) (auto simp: servers_in.simps)

lemma counts_step: "op_step s s' \<Longrightarrow> counts s \<Longrightarrow> counts s'"
proof (induction rule: op_step.induct)
  case (server_exits s x)
  with count_exits [of "s_server s" x] show ?case
    by (auto simp: counts_def)
next
  case (shutdown_done x s)
  then have "int (length (remove1 x (s_shutdowns s))) = int (length (s_shutdowns s)) - 1"
    using length_pos_if_in_set [OF shutdown_done(1)] by (simp add: length_remove1 of_nat_diff Suc_leI)
  with shutdown_done show ?case by (auto simp: counts_def)
qed (auto simp: counts_def startWorkers_def Let_def servers_in.simps)

lemma leads_step: "op_step s s' \<Longrightarrow> leads s \<Longrightarrow> leads s'"
  by (induction rule: op_step.induct) (auto simp: leads_def early_def startWorkers_def Let_def)

text \<open>When the wait group is down to zero nothing it counts is left; afterwards only workers that turn back are spawned.\<close>

lemma returns_step: "op_step s s' \<Longrightarrow> counts s \<Longrightarrow> returns s \<Longrightarrow> returns s'"
proof (induction rule: op_step.induct)
  case (server_exits s x)
  with count_exits [of "s_server s" x] show ?case by (auto simp: returns_def)
next
  case (waited s)
  then have "servers_in Serving (s_server s) + s_spawned s + s_running s + length (s_shutdowns s) = 0"
    unfolding counts_def by linarith
  with waited show ?case by (auto simp: returns_def)
qed (auto simp: returns_def counts_def startWorkers_def stopped_def Let_def)

definition run_inv :: "op_state \<Rightarrow> bool" where
  "run_inv s \<longleftrightarrow> counts s \<and> leads s \<and> returns s"

interpretation running: step_invariant op_step run_start run_inv
proof
  show "run_inv run_start"
    by (simp add: run_inv_def run_start_def counts_def leads_def returns_def servers_in.simps)
  show "op_step s s' \<Longrightarrow> run_inv s \<Longrightarrow> run_inv s'" for s s'
    unfolding run_inv_def by (blast intro: counts_step leads_step returns_step)
qed

lemma life_inv: "life s \<Longrightarrow> counts s \<and> leads s \<and> returns s"
  using running.reached_inv unfolding run_inv_def .

lemma errs_fit: "counts s \<Longrightarrow> length (s_errs s) + servers_in Serving (s_server s) \<le> srvErrChan_cap"
  using servers_bound [of "s_server s"] by (auto simp: counts_def)

text \<open>While the operator stops, something that the wait group counts can end.\<close>

lemma stopping_step:
  assumes "counts s" and "s_ctx s" and "s_pc s = Stopping" and "s_queues_down s" and "s_wg s \<noteq> 0"
  shows "\<exists>s'. op_step s s' \<and> s_wg s' = s_wg s - 1 \<and> s_pc s' = Stopping \<and> s_queues_down s'"
proof -
  have stop: "stopped s" using assms(2) by (simp add: stopped_def)
  consider n where "s_spawned s = Suc n" | n where "s_running s = Suc n" | x where "x \<in> set (s_shutdowns s)"
    | "0 < servers_in Serving (s_server s)"
    using assms(1,5) by (cases "s_spawned s"; cases "s_running s"; cases "s_shutdowns s") (auto simp: counts_def)
  then show ?thesis
  proof cases
    case 1
    from op_step.worker_turns_back [OF this stop] assms(3,4) show ?thesis by force
  next
    case 2
    from op_step.worker_stops [OF this stop assms(4)] assms(3,4) show ?thesis by force
  next
    case 3
    from op_step.shutdown_done [OF this] assms(3,4) show ?thesis by force
  next
    case 4
    then obtain x where x: "s_server s x = Serving" using serving_pos by blast
    have "length (s_errs s) < srvErrChan_cap" using errs_fit [OF assms(1)] 4 by simp
    from op_step.server_exits [OF x this] assms(3,4) show ?thesis by force
  qed
qed

text \<open>The steps by which a stopping operator comes to its end.\<close>

definition stop_step :: "op_state \<Rightarrow> op_state \<Rightarrow> bool" where
  "stop_step s s' \<longleftrightarrow> op_step s s' \<and> 0 < s_wg s \<and> s_wg s' = s_wg s - 1 \<and> s_pc s' = Stopping \<and> s_queues_down s'"

interpretation stop: settling_steps stop_step "nat \<circ> s_wg" "\<lambda>s. run_inv s \<and> s_pc s = Stopping \<and> s_queues_down s" "\<lambda>s. s_wg s = 0"
proof
  show "stop_step s s' \<Longrightarrow> (nat \<circ> s_wg) s' < (nat \<circ> s_wg) s" for s s' by (auto simp: stop_step_def)
  show "stop_step s s' \<Longrightarrow> run_inv s \<and> s_pc s = Stopping \<and> s_queues_down s \<Longrightarrow>
      run_inv s' \<and> s_pc s' = Stopping \<and> s_queues_down s'" for s s'
    by (auto simp: stop_step_def intro: running.inv_step)
  show "\<exists>s'. stop_step s s'" if "run_inv s \<and> s_pc s = Stopping \<and> s_queues_down s" "s_wg s \<noteq> 0" for s
  proof -
    have "counts s" "s_ctx s" using that by (auto simp: run_inv_def returns_def)
    with stopping_step [of s] that show ?thesis by (auto simp: stop_step_def counts_def)
  qed
qed

lemma stopping_returns:
  assumes "life s" and "s_pc s = Stopping"
  shows "\<exists>s'. op_step\<^sup>*\<^sup>* s s' \<and> s_pc s' = Returned None"
proof -
  let ?q = "s\<lparr>s_queues_down := True\<rparr>"
  have q: "op_step s ?q" using assms(2) by (simp add: op_step.queues_shut)
  with assms have "run_inv ?q \<and> s_pc ?q = Stopping \<and> s_queues_down ?q"
    using running.inv_step running.reached_inv by auto
  from stop.settles [OF this] obtain u where u: "stop_step\<^sup>*\<^sup>* ?q u" "s_pc u = Stopping" "s_wg u = 0" by auto
  have "op_step\<^sup>*\<^sup>* ?q u"
    using u(1) by (rule rtranclp_mono [THEN predicate2D, rotated]) (auto simp: stop_step_def)
  moreover have "op_step u (u\<lparr>s_pc := Returned None\<rparr>)" using u(2,3) by (rule op_step.waited)
  ultimately have "op_step\<^sup>*\<^sup>* s (u\<lparr>s_pc := Returned None\<rparr>)" using q by (meson converse_rtranclp_into_rtranclp rtranclp.rtrancl_into_rtrancl)
  then show ?thesis by (intro exI conjI, assumption) simp
qed

section \<open>Sample states\<close>

lemma life_step: "life s \<Longrightarrow> op_step s s' \<Longrightarrow> life s'"
  by (rule rtranclp.rtrancl_into_rtrancl)

text \<open>
  \<^verbatim>\<open>Run\<close> at its choice, the election under way. The informers are started by a goroutine of its own: here \<^verbatim>\<open>Run\<close> looked for the started
  informers before that goroutine had run, found none whose caches it could wait for, and went on.
\<close>

definition electing_state :: op_state where
  "electing_state = run_start\<lparr>s_pc := Selecting, s_server := \<lambda>_. Serving, s_wg := 3, s_initialized := True, s_informers := True, s_elector := Acquiring\<rparr>"

lemma life_electing: "life electing_state"
proof -
  define s1 where "s1 = run_start\<lparr>s_pc := PollingPresto, s_server := (s_server run_start)(APIServer := Serving), s_wg := s_wg run_start + 1\<rparr>"
  define s2 where "s2 = s1\<lparr>s_pc := StartingInformers, s_initialized := True, s_informers := True\<rparr>"
  define s3 where "s3 = s2\<lparr>s_pc := Syncing (if s_started s2 then informer_kinds else [])\<rparr>"
  define s4 where "s4 = s3\<lparr>s_pc := Selecting, s_elector := Acquiring\<rparr>"
  note states = s1_def s2_def s3_def s4_def run_start_def
  have "life s1" unfolding s1_def by (rule life_step [OF rtranclp.rtrancl_refl op_step.setup_done]) (simp add: run_start_def)
  then have "life s2" unfolding s2_def by (rule life_step [OF _ op_step.presto_read]) (simp add: s1_def)
  then have "life s3" unfolding s3_def by (rule life_step [OF _ op_step.snapshot]) (simp add: s2_def)
  then have "life s4" unfolding s4_def by (rule life_step [OF _ op_step.election]) (simp add: states)
  moreover have "s4 = electing_state" by (simp add: states electing_state_def fun_eq_iff)
  ultimately show ?thesis by simp
qed

text \<open>The leader, with its workers spawned; and the operator that was told to stop before it led.\<close>

definition leading_state :: op_state where
  "leading_state = electing_state\<lparr>s_elector := Leading, s_spawned := 42, s_wg := 45\<rparr>"

definition stopping_state :: op_state where
  "stopping_state = electing_state\<lparr>s_ctx := True, s_pc := Stopping, s_shutdowns := [APIServer, MetricsServer, PprofServer], s_wg := 6\<rparr>"

lemma life_leading: "life leading_state"
proof -
  define s1 where "s1 = electing_state\<lparr>s_elector := Leading, s_becoming := True\<rparr>"
  have "life s1" unfolding s1_def by (rule life_step [OF life_electing op_step.acquired]) (simp add: electing_state_def)
  then have "life (startWorkers (s1\<lparr>s_becoming := False\<rparr>))"
    by (rule life_step [OF _ op_step.started_leading]) (simp add: s1_def)
  moreover have "startWorkers (s1\<lparr>s_becoming := False\<rparr>) = leading_state"
    by (simp add: s1_def leading_state_def electing_state_def run_start_def startWorkers_def worker_threads_def)
  ultimately show ?thesis by simp
qed

lemma life_stopping: "life stopping_state"
proof -
  define s1 where "s1 = electing_state\<lparr>s_ctx := True\<rparr>"
  have "life s1" unfolding s1_def by (rule life_step [OF life_electing op_step.signal])
  then have "life (s1\<lparr>s_pc := Stopping, s_shutdowns := [APIServer, MetricsServer, PprofServer], s_wg := s_wg s1 + 3\<rparr>)"
    by (rule life_step [OF _ op_step.select_stop]) (simp_all add: s1_def electing_state_def)
  moreover have "s1\<lparr>s_pc := Stopping, s_shutdowns := [APIServer, MetricsServer, PprofServer], s_wg := s_wg s1 + 3\<rparr> = stopping_state"
    by (simp add: s1_def stopping_state_def electing_state_def)
  ultimately show ?thesis by simp
qed

section \<open>Properties\<close>

text \<open>
  C12: a worker begins to handle resources only while the operator is initialized, that is, after Presto has answered, holds the
  leadership and has not been told to stop.
\<close>

theorem workers_need_leadership:
  assumes "life s" and "op_step s s'" and "s_running s < s_running s'"
  shows "s_initialized s \<and> s_elector s = Leading \<and> \<not> s_ctx s"
proof -
  from assms(2,3) have "0 < s_spawned s" "\<not> stopped s"
    by (cases rule: op_step.cases; simp add: startWorkers_def Let_def)+
  with life_inv [OF assms(1)] show ?thesis by (auto simp: leads_def stopped_def)
qed

theorem workers_need_leadership_witness:
  "let s' = leading_state\<lparr>s_spawned := 41, s_running := 1\<rparr> in
     life leading_state \<and> op_step leading_state s' \<and> s_running leading_state < s_running s' \<and>
     s_initialized leading_state \<and> s_elector leading_state = Leading"
proof -
  have step: "op_step leading_state (leading_state\<lparr>s_spawned := 41, s_running := 1\<rparr>)"
    using op_step.worker_enters [of leading_state 41]
    by (simp add: leading_state_def electing_state_def run_start_def stopped_def)
  have more: "s_running leading_state < s_running (leading_state\<lparr>s_spawned := 41, s_running := 1\<rparr>)"
    by (simp add: leading_state_def electing_state_def run_start_def)
  from workers_need_leadership [OF life_leading step more] step more life_leading show ?thesis by simp
qed

text \<open>
  C13: when \<^verbatim>\<open>Run\<close> returns without an error the operator was told to stop, all servers have exited and no worker is running, and none
  begins afterwards, not even one of a leadership that was gained while the operator stopped.
\<close>

theorem clean_return:
  assumes "life s" and "s_pc s = Returned None"
  shows "s_ctx s \<and> s_running s = 0 \<and> (\<forall>x. s_server s x = Exited) \<and> (\<forall>s'. op_step s s' \<longrightarrow> s_running s' = 0)"
proof -
  note inv = life_inv [OF assms(1)]
  then have r: "s_ctx s" "s_running s = 0" "servers_in Serving (s_server s) = 0"
    using assms(2) by (auto simp: returns_def)
  have "s_server s x = Exited" for x
    using inv assms(2) r(3) by (cases x; cases "s_server s x") (auto simp: counts_def servers_in.simps)
  moreover have "s_running s' = 0" if "op_step s s'" for s'
    using that r(1,2) by (cases rule: op_step.cases) (auto simp: stopped_def startWorkers_def Let_def)
  ultimately show ?thesis using r by blast
qed

theorem clean_return_witness: "\<exists>s. life s \<and> s_pc s = Returned None \<and> s_running s = 0 \<and> (\<forall>x. s_server s x = Exited)"
proof -
  have "s_pc stopping_state = Stopping" by (simp add: stopping_state_def)
  from stopping_returns [OF life_stopping this] obtain s where s: "op_step\<^sup>*\<^sup>* stopping_state s" "s_pc s = Returned None" by blast
  then have "life s" using life_stopping by (meson rtranclp_trans)
  with clean_return [of s] s(2) show ?thesis by blast
qed

text \<open>
  C15: the channel of the servers' errors has always room for the error of a server that is serving, so that a server that exits never
  waits for somebody to read it, and the counter of the wait group is never negative.
\<close>

theorem server_errors_fit:
  assumes "life s"
  shows "0 \<le> s_wg s \<and> length (s_errs s) + servers_in Serving (s_server s) \<le> srvErrChan_cap \<and>
    (s_server s x = Serving \<longrightarrow> (\<exists>s'. op_step s s' \<and> s_server s' x = Exited \<and> s_wg s' = s_wg s - 1))"
proof -
  have c: "counts s" using life_inv [OF assms] by simp
  then have fit: "length (s_errs s) + servers_in Serving (s_server s) \<le> srvErrChan_cap" by (rule errs_fit)
  moreover have "\<exists>s'. op_step s s' \<and> s_server s' x = Exited \<and> s_wg s' = s_wg s - 1" if x: "s_server s x = Serving"
  proof -
    have "0 < servers_in Serving (s_server s)" using x serving_pos by blast
    with fit have "length (s_errs s) < srvErrChan_cap" by simp
    from op_step.server_exits [OF x this] show ?thesis by force
  qed
  ultimately show ?thesis using c by (auto simp: counts_def)
qed

theorem server_errors_fit_witness:
  "life leading_state \<and> s_server leading_state APIServer = Serving \<and> s_wg leading_state = 45 \<and>
   (\<exists>s'. op_step leading_state s' \<and> s_server s' APIServer = Exited \<and> s_wg s' = 44)"
proof -
  have "s_server leading_state APIServer = Serving" "s_wg leading_state = 45"
    by (simp_all add: leading_state_def electing_state_def)
  with server_errors_fit [OF life_leading, of APIServer] life_leading show ?thesis by auto
qed

text \<open>
  C14: an operator that has begun to stop can always finish: from every state in which \<^verbatim>\<open>Run\<close> waits for the wait group there are steps of the
  servers, the workers and the goroutines of the shutdown after which it returns without an error.
\<close>

theorem shutdown_completes:
  assumes "life s" and "s_pc s = Stopping"
  shows "\<exists>s'. op_step\<^sup>*\<^sup>* s s' \<and> s_pc s' = Returned None"
  using assms by (rule stopping_returns)

theorem shutdown_completes_witness:
  "life stopping_state \<and> s_pc stopping_state = Stopping \<and> (\<exists>s'. op_step\<^sup>*\<^sup>* stopping_state s' \<and> s_pc s' = Returned None)"
proof -
  have "s_pc stopping_state = Stopping" by (simp add: stopping_state_def)
  with shutdown_completes [OF life_stopping] life_stopping show ?thesis by simp
qed

section \<open>Races\<close>

text \<open>
  C38: a worker can handle resources although no cache is synced and no informer is even started, although \<^verbatim>\<open>Run\<close> waits for the caches before
  it takes part in the election.
\<close>

theorem workers_without_caches: "\<exists>s. life s \<and> 0 < s_running s \<and> \<not> s_started s \<and> s_synced s = {}"
proof -
  have "life (leading_state\<lparr>s_spawned := 41, s_running := Suc (s_running leading_state)\<rparr>)"
    by (rule life_step [OF life_leading op_step.worker_enters])
      (simp_all add: leading_state_def electing_state_def run_start_def stopped_def)
  then show ?thesis by (intro exI conjI) (assumption, simp_all add: leading_state_def electing_state_def run_start_def)
qed

text \<open>
  A shutdown can be reported as lost leadership: the election that ends with the context of the operator cancels the context of lost
  leadership too, and when \<^verbatim>\<open>Run\<close> comes to its choice both are ready. The comment says that a shutdown is not meant to be taken for a lost
  election.
\<close>

theorem stop_reported_as_lost: "\<exists>s. life s \<and> s_pc s = Returned (Some LostLeadership) \<and> s_ctx s \<and> \<not> s_expired s"
proof -
  define s1 where "s1 = electing_state\<lparr>s_ctx := True\<rparr>"
  define s2 where "s2 = s1\<lparr>s_elector := StoppedLeading, s_lost := True\<rparr>"
  define s3 where "s3 = s2\<lparr>s_pc := Returned (Some LostLeadership)\<rparr>"
  note states = s1_def s2_def s3_def electing_state_def run_start_def
  have "life s1" unfolding s1_def by (rule life_step [OF life_electing op_step.signal])
  then have "life s2" unfolding s2_def by (rule life_step [OF _ op_step.acquire_stopped]) (simp_all add: states)
  then have "life s3" unfolding s3_def by (rule life_step [OF _ op_step.select_lost]) (simp_all add: states)
  then show ?thesis by (intro exI [of _ s3]) (simp add: states)
qed

text \<open>
  The errors of the servers are read only after the election has begun: while Presto cannot be read, an operator whose servers have
  all failed keeps polling.
\<close>

lemma failed_servers_unnoticed:
  "\<exists>s. life s \<and> s_pc s = PollingPresto \<and> (\<forall>x. s_server s x = Exited) \<and> \<not> s_ctx s \<and>
     (\<forall>s'. op_step s s' \<longrightarrow> s_pc s' \<in> {PollingPresto, StartingInformers})"
proof -
  define exit where "exit s x = s\<lparr>s_server := (s_server s)(x := Exited), s_errs := s_errs s @ [x], s_wg := s_wg s - 1\<rparr>" for s :: op_state and x
  define s1 where "s1 = run_start\<lparr>s_pc := PollingPresto, s_server := (s_server run_start)(APIServer := Serving), s_wg := s_wg run_start + 1\<rparr>"
  define s2 where "s2 = exit s1 MetricsServer"
  define s3 where "s3 = exit s2 PprofServer"
  define s4 where "s4 = exit s3 APIServer"
  note states = s1_def s2_def s3_def s4_def exit_def run_start_def srvErrChan_cap_def
  have "life s1" unfolding s1_def by (rule life_step [OF rtranclp.rtrancl_refl op_step.setup_done]) (simp add: run_start_def)
  then have "life s2" unfolding s2_def exit_def by (rule life_step [OF _ op_step.server_exits]) (simp_all add: states)
  then have "life s3" unfolding s3_def exit_def by (rule life_step [OF _ op_step.server_exits]) (simp_all add: states)
  then have "life s4" unfolding s4_def exit_def by (rule life_step [OF _ op_step.server_exits]) (simp_all add: states)
  moreover have pc: "s_pc s4 = PollingPresto" "\<not> s_ctx s4" by (simp_all add: states)
  moreover have "s_server s4 x = Exited" for x by (cases x) (simp_all add: states)
  moreover have "s_pc s' \<in> {PollingPresto, StartingInformers}" if "op_step s4 s'" for s'
    using that pc by (cases rule: op_step.cases) (auto simp: startWorkers_def Let_def)
  ultimately show ?thesis by blast
qed

end
