(* ===== verification/Line_Buffers.thy ===== *)
theory Line_Buffers
  imports Go_Strings
begin

text \<open>
  The line buffer of \<^verbatim>\<open>gotools/test2json/internal/test2json/test2json.go\<close>: bytes are written to a buffer of a fixed size, whole lines go to
  one callback and parts of lines that do not fit to another. The loop of \<^verbatim>\<open>write\<close> has no bound, so it is a partial function whose value \<open>None\<close>
  means that it does not end; a callback may likewise answer \<open>None\<close>. Where a text may be cut is the locale \<open>byte_scan\<close>, and what the
  callbacks of a buffer have to satisfy is the locale \<open>byte_sink\<close> over it.
\<close>

section \<open>Splitting at UTF-8 boundaries\<close>

abbreviation newline :: char where "newline \<equiv> CHR 0x0A"
abbreviation tabulator :: char where "tabulator \<equiv> CHR 0x09"

text \<open>The masks of the first bytes of UTF-8 sequences, as quotients: \<^verbatim>\<open>c&0xc0 == 0x80\<close> and so on.\<close>

definition continuation :: "char \<Rightarrow> bool" where
  "continuation c \<longleftrightarrow> (of_char c :: nat) div 64 = 2"

definition lead2 :: "char \<Rightarrow> bool" where
  "lead2 c \<longleftrightarrow> (of_char c :: nat) div 32 = 6"

definition lead3 :: "char \<Rightarrow> bool" where
  "lead3 c \<longleftrightarrow> (of_char c :: nat) div 16 = 14"

definition lead4 :: "char \<Rightarrow> bool" where
  "lead4 c \<longleftrightarrow> (of_char c :: nat) div 8 = 30"

text \<open>The scan backward over at most three bytes: how many bytes at the end are left out.\<close>

fun trim_back :: "nat \<Rightarrow> string \<Rightarrow> nat" where
  "trim_back i [] = 0"
| "trim_back i (c # cs) =
     (if continuation c then trim_back (Suc i) cs
      else if lead2 c then (if i < 2 then i else 0)
      else if lead3 c then (if i < 3 then i else 0)
      else if lead4 c then (if i < 4 then i else 0)
      else 0)"

definition trimUTF8 :: "string \<Rightarrow> nat" where
  "trimUTF8 b = length b - trim_back 1 (take 3 (rev b))"

lemma trim_back_le: "trim_back i cs = 0 \<or> trim_back i cs < i + length cs"
  by (induction i cs rule: trim_back.induct) auto

lemma trimUTF8_pos: "4 \<le> length b \<Longrightarrow> 0 < trimUTF8 b"
  using trim_back_le [of 1 "take 3 (rev b)"] by (auto simp: trimUTF8_def)

section \<open>Where a text may be cut\<close>

text \<open>
  A text is read byte by byte; the state is the number of bytes that the current sequence still lacks, and \<open>None\<close> says that the text
  is not well formed. \<open>utf8_step\<close> reads the structure of UTF-8 sequences; \<open>any_step\<close> accepts every text, each byte for itself.
\<close>

definition scan :: "(char \<Rightarrow> nat \<Rightarrow> nat option) \<Rightarrow> string \<Rightarrow> nat option" where
  "scan step b = fold (\<lambda>c r. Option.bind r (step c)) b (Some 0)"

definition ascii :: "char \<Rightarrow> bool" where
  "ascii c \<longleftrightarrow> (of_char c :: nat) < 128"

fun utf8_step :: "char \<Rightarrow> nat \<Rightarrow> nat option" where
  "utf8_step c 0 =
     (if ascii c then Some 0 else if lead2 c then Some 1 else if lead3 c then Some 2 else if lead4 c then Some 3 else None)"
| "utf8_step c (Suc k) = (if continuation c then Some k else None)"

definition any_step :: "char \<Rightarrow> nat \<Rightarrow> nat option" where
  "any_step c k = (if k = 0 then Some 0 else None)"

lemma scan_Nil [simp]: "scan step [] = Some 0"
  by (simp add: scan_def)

lemma scan_snoc: "scan step (b @ [c]) = Option.bind (scan step b) (step c)"
  by (simp add: scan_def)

lemma fold_bind_None [simp]: "fold (\<lambda>c r. Option.bind r (step c)) b None = None"
  by (induction b) auto

lemma scan_append: "scan step a = Some 0 \<Longrightarrow> scan step (a @ b) = scan step b"
  by (simp add: scan_def)

lemma scan_prefix: "scan step (a @ b) \<noteq> None \<Longrightarrow> scan step a \<noteq> None"
  by (cases "scan step a") (simp_all add: scan_def)

lemma scan_cong: "scan step a = scan step b \<Longrightarrow> scan step (a @ d) = scan step (b @ d)"
  by (simp add: scan_def)

locale byte_scan =
  fixes step :: "char \<Rightarrow> nat \<Rightarrow> nat option"
  assumes newline_alone: "step newline k = Some j \<Longrightarrow> j = 0"
    and tabulator_alone: "step tabulator k = Some j \<Longrightarrow> j = 0"
    and trim_whole: "scan step b \<noteq> None \<Longrightarrow> scan step (take (trimUTF8 b) b) = Some 0"
begin

lemma scan_line: "scan step (a @ [newline]) \<noteq> None \<Longrightarrow> scan step (a @ [newline]) = Some 0"
  using newline_alone by (auto simp: scan_snoc bind_eq_Some_conv)

lemma scan_field: "scan step (a @ [tabulator]) \<noteq> None \<Longrightarrow> scan step (a @ [tabulator]) = Some 0"
  using tabulator_alone by (auto simp: scan_snoc bind_eq_Some_conv)

end

section \<open>Line buffers\<close>

text \<open>Whether a letter is in lower case is decided by the tables of Unicode, a parameter on the bytes that begin with the letter.\<close>

type_synonym lower_table = "string \<Rightarrow> bool"

definition isBenchmarkName :: "lower_table \<Rightarrow> string \<Rightarrow> bool" where
  "isBenchmarkName isLower b \<longleftrightarrow>
     HasPrefix b ''Benchmark'' \<and> (length b = length ''Benchmark'' \<or> \<not> isLower (drop (length ''Benchmark'') b))"

definition TrimRightSpaces :: "string \<Rightarrow> string" where
  "TrimRightSpaces b = rev (dropWhile (\<lambda>c. c = CHR '' '') (rev b))"

record line_buffer =
  lb_b :: string
  lb_mid :: bool

type_synonym 's callback = "string \<Rightarrow> 's \<Rightarrow> 's option"

text \<open>The inner loop, on what is left of the buffer: it answers the fragment that remains.\<close>

function lb_lines ::
  "lower_table \<Rightarrow> 's callback \<Rightarrow> 's callback \<Rightarrow> string \<Rightarrow> bool \<Rightarrow> 's \<Rightarrow> (string \<times> bool \<times> 's) option" where
  "lb_lines isLower line part rest mid s =
     (case dropWhile (\<lambda>c. c \<noteq> newline) rest of
        [] \<Rightarrow>
          (case dropWhile (\<lambda>c. c \<noteq> tabulator) rest of
             [] \<Rightarrow> Some (rest, mid, s)
           | _ # after \<Rightarrow>
               if \<not> mid \<and> isBenchmarkName isLower (TrimRightSpaces (takeWhile (\<lambda>c. c \<noteq> tabulator) rest)) then
                 map_option (\<lambda>s. (after, True, s)) (part (takeWhile (\<lambda>c. c \<noteq> tabulator) rest @ [tabulator]) s)
               else Some (rest, mid, s))
      | _ # after \<Rightarrow>
          (case (if mid then part else line) (takeWhile (\<lambda>c. c \<noteq> newline) rest @ [newline]) s of
             None \<Rightarrow> None
           | Some s \<Rightarrow> lb_lines isLower line part after False s))"
  by pat_completeness auto
termination
proof (relation "measure (\<lambda>(isLower, line, part, rest, mid, s). length rest)")
  fix rest after :: string and x
  assume "dropWhile (\<lambda>c. c \<noteq> newline) rest = x # after"
  then have "length (x # after) \<le> length rest" by (metis length_dropWhile_le)
  then show "((isLower, line, part, after, False, s'), (isLower, line, part, rest, mid, s)) \<in>
      measure (\<lambda>(isLower, line, part, rest, mid, s). length rest)" for isLower line part mid and s s' :: 's by simp
qed simp

declare lb_lines.simps [simp del]

text \<open>
  After the inner loop: when nothing was consumed and the buffer is full, the buffer but for an incomplete sequence at its end is a part of
  a line.
\<close>

definition lb_full ::
  "nat \<Rightarrow> 's callback \<Rightarrow> string \<Rightarrow> string \<times> bool \<times> 's \<Rightarrow> (line_buffer \<times> 's) option" where
  "lb_full cap part buf left =
     (case left of (rest, mid, s) \<Rightarrow>
        if length rest = length buf \<and> length buf = cap then
          map_option (\<lambda>s. (\<lparr>lb_b = drop (trimUTF8 buf) buf, lb_mid = True\<rparr>, s)) (part (take (trimUTF8 buf) buf) s)
        else Some (\<lparr>lb_b = rest, lb_mid = mid\<rparr>, s))"

partial_function (option) lb_write ::
  "lower_table \<Rightarrow> nat \<Rightarrow> 's callback \<Rightarrow> 's callback \<Rightarrow> string \<Rightarrow> line_buffer \<Rightarrow> 's \<Rightarrow> (line_buffer \<times> 's) option" where
  "lb_write isLower cap line part b l s =
     (if b = [] then Some (l, s)
      else
        let m = cap - length (lb_b l); buf = lb_b l @ take m b in
        Option.bind (Option.bind (lb_lines isLower line part buf (lb_mid l) s) (lb_full cap part buf))
          (\<lambda>(l, s). lb_write isLower cap line part (drop m b) l s))"

declare lb_write.simps [code]

definition lb_flush :: "'s callback \<Rightarrow> line_buffer \<Rightarrow> 's \<Rightarrow> (line_buffer \<times> 's) option" where
  "lb_flush part l s =
     (if lb_b l \<noteq> [] then map_option (\<lambda>s. (l\<lparr>lb_b := []\<rparr>, s)) (part (lb_b l) s) else Some (l, s))"

section \<open>Callbacks that keep every byte\<close>

text \<open>
  What a buffer needs of its callbacks: on a state that satisfies \<open>inv\<close> and a text of whole sequences they return a state that satisfies
  \<open>inv\<close> too, and the bytes that the state has accepted are those before and the new ones. Then the same holds of the buffer and the state
  together.
\<close>

locale byte_sink = byte_scan step
  for step :: "char \<Rightarrow> nat \<Rightarrow> nat option" +
  fixes line part :: "'s callback" and inv :: "'s \<Rightarrow> bool" and accepted :: "'s \<Rightarrow> string"
  assumes line_accepts: "inv s \<Longrightarrow> scan step x = Some 0 \<Longrightarrow> \<exists>s'. line x s = Some s' \<and> inv s' \<and> accepted s' = accepted s @ x"
    and part_accepts: "inv s \<Longrightarrow> scan step x = Some 0 \<Longrightarrow> \<exists>s'. part x s = Some s' \<and> inv s' \<and> accepted s' = accepted s @ x"
begin

lemma callback_accepts:
  "inv s \<Longrightarrow> scan step x = Some 0 \<Longrightarrow>
   \<exists>s'. (if mid then part else line) x s = Some s' \<and> inv s' \<and> accepted s' = accepted s @ x"
  using line_accepts part_accepts by simp

lemma lines_accept:
  assumes "inv s" and "scan step rest \<noteq> None"
  shows "\<exists>p rest' mid' s'. lb_lines isLower line part rest mid s = Some (rest', mid', s') \<and> inv s' \<and>
     rest = p @ rest' \<and> scan step p = Some 0 \<and> accepted s' = accepted s @ p"
  using assms
proof (induction "length rest" arbitrary: rest mid s rule: less_induct)
  case less
  show ?case
  proof (cases "dropWhile (\<lambda>c. c \<noteq> newline) rest")
    case Nil
    show ?thesis
    proof (cases "dropWhile (\<lambda>c. c \<noteq> tabulator) rest")
      case (Cons t after)
      let ?p = "takeWhile (\<lambda>c. c \<noteq> tabulator) rest @ [tabulator]"
      let ?name = "\<not> mid \<and> isBenchmarkName isLower (TrimRightSpaces (takeWhile (\<lambda>c. c \<noteq> tabulator) rest))"
      have "t = tabulator" using Cons hd_dropWhile [of "\<lambda>c. c \<noteq> tabulator" rest] by simp
      with Cons have rest: "rest = ?p @ after"
        using takeWhile_dropWhile_id [of "\<lambda>c. c \<noteq> tabulator" rest] by simp
      have run: "lb_lines isLower line part rest mid s =
          (if ?name then map_option (\<lambda>s. (after, True, s)) (part ?p s) else Some (rest, mid, s))"
        by (subst lb_lines.simps) (simp add: Nil Cons)
      have "scan step ?p = Some 0"
        using less.prems(2) rest by (metis scan_field scan_prefix)
      with part_accepts [OF less.prems(1) this] show ?thesis
        unfolding run using rest less.prems(1) by (cases ?name) auto
    next
      case empty: Nil
      have "lb_lines isLower line part rest mid s = Some (rest, mid, s)"
        by (subst lb_lines.simps) (simp only: Nil empty list.case)
      then show ?thesis using less.prems by simp
    qed
  next
    case (Cons n after)
    let ?l = "takeWhile (\<lambda>c. c \<noteq> newline) rest @ [newline]"
    have "n = newline" using Cons hd_dropWhile [of "\<lambda>c. c \<noteq> newline" rest] by simp
    with Cons have rest: "rest = ?l @ after"
      using takeWhile_dropWhile_id [of "\<lambda>c. c \<noteq> newline" rest] by simp
    have shorter: "length after < length rest" using length_dropWhile_le [of "\<lambda>c. c \<noteq> newline" rest] Cons by simp
    have whole: "scan step ?l = Some 0"
      using less.prems(2) rest by (metis scan_line scan_prefix)
    then have "scan step after \<noteq> None"
      using less.prems(2) rest scan_append by metis
    obtain s1 where s1: "(if mid then part else line) ?l s = Some s1" "inv s1" "accepted s1 = accepted s @ ?l"
      using callback_accepts [OF less.prems(1) whole] by blast
    from less.hyps [OF shorter s1(2) \<open>scan step after \<noteq> None\<close>] obtain p rest' mid' s' where
      IH: "lb_lines isLower line part after False s1 = Some (rest', mid', s')" "inv s'"
        "after = p @ rest'" "scan step p = Some 0" "accepted s' = accepted s1 @ p"
      by blast
    have "lb_lines isLower line part rest mid s = Some (rest', mid', s')"
      using s1(1) IH(1) by (subst lb_lines.simps) (simp add: Cons)
    moreover have "rest = (?l @ p) @ rest'" using rest IH(3) by (metis append.assoc)
    moreover have "scan step (?l @ p) = Some 0" using IH(4) scan_append [OF whole] by metis
    moreover have "accepted s' = accepted s @ (?l @ p)" using IH(5) s1(3) by (metis append.assoc)
    ultimately show ?thesis using IH(2) by blast
  qed
qed

text \<open>One round of \<^verbatim>\<open>write\<close> makes room in the buffer.\<close>

lemma round_accepts:
  assumes "inv s" and "4 \<le> cap" and "length buf \<le> cap" and "scan step buf \<noteq> None"
  shows "\<exists>p l' s'. Option.bind (lb_lines isLower line part buf mid s) (lb_full cap part buf) = Some (l', s') \<and> inv s' \<and>
    buf = p @ lb_b l' \<and> scan step p = Some 0 \<and> accepted s' = accepted s @ p \<and> length (lb_b l') < cap"
proof -
  obtain p rest mid' s1 where r: "lb_lines isLower line part buf mid s = Some (rest, mid', s1)" "inv s1"
    "buf = p @ rest" "scan step p = Some 0" "accepted s1 = accepted s @ p"
    using lines_accept [OF assms(1,4)] by blast
  show ?thesis
  proof (cases "length rest = length buf \<and> length buf = cap")
    case True
    let ?t = "take (trimUTF8 buf) buf"
    from True r(3,5) have "accepted s1 = accepted s" by simp
    obtain s2 where "part ?t s1 = Some s2" "inv s2" "accepted s2 = accepted s1 @ ?t"
      using part_accepts [OF r(2) trim_whole [OF assms(4)]] by blast
    moreover have "length (drop (trimUTF8 buf) buf) < cap"
      using trimUTF8_pos [of buf] True assms(2) by simp
    moreover have "buf = ?t @ drop (trimUTF8 buf) buf" by simp
    ultimately show ?thesis
      using r(1) True \<open>accepted s1 = accepted s\<close> trim_whole [OF assms(4)]
      by (intro exI [of _ ?t] exI [of _ "\<lparr>lb_b = drop (trimUTF8 buf) buf, lb_mid = True\<rparr>"] exI [of _ s2])
        (simp add: lb_full_def)
  next
    case False
    with r(3) assms(3) have "length rest < cap" by (cases p) auto
    with False r show ?thesis by (auto simp: lb_full_def)
  qed
qed

lemma write_accepts:
  assumes "inv s" and "4 \<le> cap" and "length (lb_b l) < cap" and "scan step (lb_b l @ b) \<noteq> None"
  shows "\<exists>l' s'. lb_write isLower cap line part b l s = Some (l', s') \<and> inv s' \<and>
    accepted s' @ lb_b l' = accepted s @ lb_b l @ b \<and> scan step (lb_b l') = scan step (lb_b l @ b) \<and> length (lb_b l') < cap"
  using assms
proof (induction "length b" arbitrary: b l s rule: less_induct)
  case less
  show ?case
  proof (cases "b = []")
    case True
    with less.prems show ?thesis by (simp add: lb_write.simps)
  next
    case False
    let ?m = "cap - length (lb_b l)" and ?buf = "lb_b l @ take (cap - length (lb_b l)) b"
    have all: "lb_b l @ b = ?buf @ drop ?m b" by simp
    have "length ?buf \<le> cap" using less.prems(3) by simp
    moreover have "scan step ?buf \<noteq> None" using less.prems(4) all by (metis scan_prefix)
    ultimately obtain p l1 s1 where
      1: "Option.bind (lb_lines isLower line part ?buf (lb_mid l) s) (lb_full cap part ?buf) = Some (l1, s1)"
        "inv s1" "?buf = p @ lb_b l1" "scan step p = Some 0" "accepted s1 = accepted s @ p" "length (lb_b l1) < cap"
      using round_accepts [OF less.prems(1,2), of ?buf isLower "lb_mid l"] by blast
    have left: "lb_b l @ b = p @ lb_b l1 @ drop ?m b" using all 1(3) by (metis append.assoc)
    then have same: "scan step (lb_b l @ b) = scan step (lb_b l1 @ drop ?m b)" using scan_append [OF 1(4)] by metis
    have "length (drop ?m b) < length b" using False less.prems(3) by (cases b) auto
    from less.hyps [OF this 1(2) less.prems(2) 1(6)] less.prems(4) same obtain l' s' where
      2: "lb_write isLower cap line part (drop ?m b) l1 s1 = Some (l', s')" "inv s'"
        "accepted s' @ lb_b l' = accepted s1 @ lb_b l1 @ drop ?m b"
        "scan step (lb_b l') = scan step (lb_b l1 @ drop ?m b)" "length (lb_b l') < cap"
      by metis
    have "lb_write isLower cap line part b l s = Some (l', s')"
      using False 1(1) 2(1) by (subst lb_write.simps) (simp add: Let_def del: Option.bind_assoc)
    moreover have "accepted s' @ lb_b l' = accepted s @ lb_b l @ b"
      using 2(3) 1(5) left by (metis append.assoc)
    ultimately show ?thesis using 2(2,4,5) same by metis
  qed
qed

lemma flush_accepts:
  assumes "inv s" and "scan step (lb_b l) = Some 0"
  shows "\<exists>l' s'. lb_flush part l s = Some (l', s') \<and> inv s' \<and> accepted s' = accepted s @ lb_b l \<and> lb_b l' = []"
  using assms part_accepts [OF assms] by (auto simp: lb_flush_def)

end

section \<open>UTF-8 and arbitrary bytes\<close>

lemma byte_kinds:
  "ascii c \<Longrightarrow> \<not> continuation c \<and> \<not> lead2 c \<and> \<not> lead3 c \<and> \<not> lead4 c"
  "lead2 c \<Longrightarrow> \<not> continuation c \<and> \<not> lead3 c \<and> \<not> lead4 c"
  "lead3 c \<Longrightarrow> \<not> continuation c \<and> \<not> lead4 c"
  "lead4 c \<Longrightarrow> \<not> continuation c"
  by (auto simp: ascii_def continuation_def lead2_def lead3_def lead4_def)

lemma utf8_step_Some:
  "utf8_step c k = Some j \<longleftrightarrow>
     k = 0 \<and> (ascii c \<and> j = 0 \<or> lead2 c \<and> j = 1 \<or> lead3 c \<and> j = 2 \<or> lead4 c \<and> j = 3) \<or> k = Suc j \<and> continuation c"
  using byte_kinds by (cases k) auto

declare utf8_step.simps [simp del]

text \<open>The end of a text that lacks \<open>k\<close> bytes: the first byte of its last sequence, and the continuations that are there.\<close>

lemma utf8_last:
  assumes "scan utf8_step b = Some k" and "b \<noteq> []"
  shows "\<exists>a c cs. b = a @ c # cs \<and> scan utf8_step a = Some 0 \<and> list_all continuation cs \<and>
    (ascii c \<and> k + length cs = 0 \<or> lead2 c \<and> k + length cs = 1 \<or> lead3 c \<and> k + length cs = 2 \<or> lead4 c \<and> k + length cs = 3)"
  using assms
proof (induction b arbitrary: k rule: rev_induct)
  case (snoc c b)
  then obtain i where i: "scan utf8_step b = Some i" "utf8_step c i = Some k"
    by (auto simp: scan_snoc bind_eq_Some_conv)
  show ?case
  proof (cases "i = 0")
    case True
    with i have "ascii c \<and> k = 0 \<or> lead2 c \<and> k = 1 \<or> lead3 c \<and> k = 2 \<or> lead4 c \<and> k = 3"
      by (auto simp: utf8_step_Some)
    with i(1) True show ?thesis
      by (intro exI [of _ b] exI [of _ c] exI [of _ "[]"]) simp
  next
    case False
    with i have c: "continuation c" "i = Suc k" by (auto simp: utf8_step_Some)
    with i(1) have "b \<noteq> []" by auto
    from snoc.IH [OF i(1) this] obtain a d ds where
      "b = a @ d # ds" "scan utf8_step a = Some 0" "list_all continuation ds"
      "ascii d \<and> i + length ds = 0 \<or> lead2 d \<and> i + length ds = 1 \<or> lead3 d \<and> i + length ds = 2 \<or> lead4 d \<and> i + length ds = 3"
      by auto
    with c show ?thesis by (intro exI [of _ a] exI [of _ d] exI [of _ "ds @ [c]"]) simp
  qed
qed simp

lemma trim_back_continuations:
  "list_all continuation cs \<Longrightarrow> trim_back i (cs @ r) = trim_back (i + length cs) r"
  by (induction cs arbitrary: i) auto

lemma trim_back_lead:
  "ascii c \<and> k + n = 0 \<or> lead2 c \<and> k + n = 1 \<or> lead3 c \<and> k + n = 2 \<or> lead4 c \<and> k + n = 3 \<Longrightarrow>
   trim_back (Suc n) (c # r) = (if k = 0 then 0 else Suc n)"
  using byte_kinds [of c] by auto

lemma utf8_trim_whole:
  assumes "scan utf8_step b \<noteq> None"
  shows "scan utf8_step (take (trimUTF8 b) b) = Some 0"
proof (cases "b = []")
  case False
  from assms obtain k where k: "scan utf8_step b = Some k" by blast
  from utf8_last [OF k False] obtain a c cs where b: "b = a @ c # cs" "scan utf8_step a = Some 0" "list_all continuation cs"
    and c: "ascii c \<and> k + length cs = 0 \<or> lead2 c \<and> k + length cs = 1 \<or> lead3 c \<and> k + length cs = 2 \<or>
      lead4 c \<and> k + length cs = 3"
    by blast
  have cont: "list_all continuation (rev cs)" using b(3) by simp
  have "take 3 (rev b) = (if length cs < 3 then rev cs @ c # take (2 - length cs) (rev a) else rev cs)"
    using b(1) c by (auto simp: take_Cons')
  then have "trim_back 1 (take 3 (rev b)) =
      (if length cs < 3 then trim_back (Suc (length cs)) (c # take (2 - length cs) (rev a)) else 0)"
    using trim_back_continuations [OF cont, of 1] trim_back_continuations [OF cont, of 1 "[]"] by simp
  then have "trim_back 1 (take 3 (rev b)) = (if k = 0 then 0 else Suc (length cs))"
    using trim_back_lead [OF c] c by (cases "length cs < 3") auto
  then show ?thesis using b k by (auto simp: trimUTF8_def)
qed simp

interpretation utf8: byte_scan utf8_step
proof
  show "utf8_step newline k = Some j \<Longrightarrow> j = 0" for k j
    by (auto simp: utf8_step_Some continuation_def lead2_def lead3_def lead4_def)
  show "utf8_step tabulator k = Some j \<Longrightarrow> j = 0" for k j
    by (auto simp: utf8_step_Some continuation_def lead2_def lead3_def lead4_def)
qed (rule utf8_trim_whole)

lemma any_scan [simp]: "scan any_step b = Some 0"
  by (induction b rule: rev_induct) (simp_all add: scan_snoc any_step_def)

interpretation any_text: byte_scan any_step
  by unfold_locales (auto simp: any_step_def split: if_splits)

end
