(* ===== verification/Test2json.thy ===== *)
theory Test2json
  imports Line_Buffers Go_Time "HOL-Library.Word"
begin

unbundle bit_operations_syntax

text \<open>
  The converter of \<^verbatim>\<open>gotools/test2json\<close>, which turns the output of a test binary into a stream of JSON events. A line of the stream is the event
  it encodes, or the message written when an event has no encoding. Whether a letter is in lower case, the reading of numbers and their
  rounding to 64 bits are parameters, and the clock is a sequence of instants. The writer of the stream cannot be seen to fail: its errors
  are ignored by the code.
\<close>

section \<open>Events\<close>

text \<open>A \<^verbatim>\<open>float64\<close> is its bit pattern.\<close>

type_synonym f64 = "64 word"

record test_event =
  te_Time :: "go_time option"
  te_Action :: string
  te_Package :: string
  te_Test :: string
  te_Elapsed :: "f64 option"
  te_Output :: "string option"

definition new_event :: "string \<Rightarrow> test_event" where
  "new_event action =
     \<lparr>te_Time = None, te_Action = action, te_Package = [], te_Test = [], te_Elapsed = None, te_Output = None\<rparr>"

text \<open>Infinities and values that are not numbers have no encoding in JSON, nor have the years of more than four digits.\<close>

datatype json_error = YearOutsideRange | UnsupportedValue f64

definition finite_f64 :: "f64 \<Rightarrow> bool" where
  "finite_f64 x \<longleftrightarrow> drop_bit 52 x AND 0x7FF \<noteq> 0x7FF"

definition time_encodes :: "go_time \<Rightarrow> bool" where
  "time_encodes t \<longleftrightarrow> (let y = fst (year_of_day (day_of_time t)) in 0 \<le> y \<and> y < 10000)"

definition marshal_error :: "test_event \<Rightarrow> json_error option" where
  "marshal_error e =
     (if (case te_Time e of None \<Rightarrow> False | Some t \<Rightarrow> \<not> time_encodes t) then Some YearOutsideRange
      else case te_Elapsed e of
        None \<Rightarrow> None
      | Some x \<Rightarrow> if finite_f64 x then None else Some (UnsupportedValue x))"

datatype stream_line = JSONLine test_event | InternalError json_error

record converter =
  c_w :: "stream_line list"
  c_pkg :: string
  c_mode :: int
  c_start :: go_time
  c_testName :: string
  c_report :: "test_event list"
  c_result :: string
  c_input :: line_buffer
  c_output :: line_buffer
  c_ticks :: nat

record test_lib =
  tl_isLower :: lower_table
  tl_ParseFloat :: "string \<Rightarrow> f64 option"
  tl_Seconds :: "duration \<Rightarrow> f64"
  tl_clock :: "nat \<Rightarrow> go_time"

definition inBuffer :: nat where "inBuffer = 4096"
definition outBuffer :: nat where "outBuffer = 1024"

text \<open>The mode bit \<^verbatim>\<open>Timestamp\<close>.\<close>

definition timestamps :: "converter \<Rightarrow> bool" where
  "timestamps c \<longleftrightarrow> odd (c_mode c)"

definition NewConverter :: "test_lib \<Rightarrow> string \<Rightarrow> int \<Rightarrow> converter" where
  "NewConverter lib pkg mode =
     \<lparr>c_w = [], c_pkg = pkg, c_mode = mode, c_start = tl_clock lib 0, c_testName = [], c_report = [], c_result = [],
      c_input = \<lparr>lb_b = [], lb_mid = False\<rparr>, c_output = \<lparr>lb_b = [], lb_mid = False\<rparr>, c_ticks = 1\<rparr>"

section \<open>Writing events\<close>

definition writeEvent :: "test_lib \<Rightarrow> test_event \<Rightarrow> converter \<Rightarrow> converter" where
  "writeEvent lib e c =
     (let e1 = e\<lparr>te_Package := c_pkg c,
                 te_Time := (if timestamps c then Some (tl_clock lib (c_ticks c)) else te_Time e),
                 te_Test := (if te_Test e = [] then c_testName c else te_Test e)\<rparr>
      in c\<lparr>c_ticks := (if timestamps c then Suc (c_ticks c) else c_ticks c),
           c_w := c_w c @ [case marshal_error e1 of None \<Rightarrow> JSONLine e1 | Some err \<Rightarrow> InternalError err]\<rparr>)"

definition writeOutputEvent :: "test_lib \<Rightarrow> string \<Rightarrow> converter \<Rightarrow> converter" where
  "writeOutputEvent lib out c = writeEvent lib ((new_event ''output'')\<lparr>te_Output := Some out\<rparr>) c"

definition output_write :: "test_lib \<Rightarrow> string \<Rightarrow> converter \<Rightarrow> converter option" where
  "output_write lib b c =
     map_option (\<lambda>(l, c). c\<lparr>c_output := l\<rparr>)
       (lb_write (tl_isLower lib) outBuffer (\<lambda>x c. Some (writeOutputEvent lib x c)) (\<lambda>x c. Some (writeOutputEvent lib x c))
          b (c_output c) c)"

lemma writeEvent_report [simp]: "c_report (writeEvent lib e c) = c_report c"
  by (simp add: writeEvent_def Let_def)

function flush_reports :: "test_lib \<Rightarrow> nat \<Rightarrow> converter \<Rightarrow> converter" where
  "flush_reports lib depth c =
     (if depth < length (c_report c) then
        flush_reports lib depth (writeEvent lib (last (c_report c)) (c\<lparr>c_report := butlast (c_report c)\<rparr>))
      else c)"
  by pat_completeness auto
termination
  by (relation "measure (\<lambda>(lib, depth, c). length (c_report c))") auto

declare flush_reports.simps [simp del]

definition flushReport :: "test_lib \<Rightarrow> nat \<Rightarrow> converter \<Rightarrow> converter" where
  "flushReport lib depth c = flush_reports lib depth (c\<lparr>c_testName := []\<rparr>)"

section \<open>Reading lines\<close>

definition bigPass :: string where "bigPass = ''PASS'' @ [newline]"
definition bigFail :: string where "bigFail = ''FAIL'' @ [newline]"

definition updates :: "string list" where
  "updates = [''=== RUN   '', ''=== PAUSE '', ''=== CONT  '']"

definition reports :: "string list" where
  "reports = [''--- PASS: '', ''--- FAIL: '', ''--- SKIP: '', ''--- BENCH: '']"

definition skipLinePrefix :: string where "skipLinePrefix = ''?   '' @ [tabulator]"
definition skipLineSuffix :: string where "skipLineSuffix = tabulator # ''[no test files]'' @ [newline]"

text \<open>The loop that takes the indentation off: how many times four spaces were there, and the rest.\<close>

function dedent :: "string \<Rightarrow> nat \<times> string" where
  "dedent line =
     (if HasPrefix line ''    '' then (case dedent (drop 4 line) of (n, rest) \<Rightarrow> (Suc n, rest)) else (0, line))"
  by pat_completeness auto
termination
  by (relation "measure length") (auto simp: HasPrefix_def prefix_def)

declare dedent.simps [simp del]

definition TrimSuffix :: "string \<Rightarrow> string \<Rightarrow> string" where
  "TrimSuffix s suf = (if HasSuffix s suf then take (length s - length suf) s else s)"

text \<open>The name of a reported test and the elapsed time in parentheses behind it.\<close>

definition reportElapsed :: "test_lib \<Rightarrow> string \<Rightarrow> f64 option" where
  "reportElapsed lib name =
     (let i = Index name '' (''
      in if 0 \<le> i \<and> HasSuffix name ''s)'' then tl_ParseFloat lib (drop (nat i + 2) (take (length name - 2) name)) else None)"

definition reportName :: "string \<Rightarrow> string" where
  "reportName name = (let i = Index name '' ('' in if 0 \<le> i then take (nat i) name else name)"

definition handleReportLine :: "test_lib \<Rightarrow> nat \<Rightarrow> string \<Rightarrow> string \<Rightarrow> string \<Rightarrow> converter \<Rightarrow> converter option" where
  "handleReportLine lib indent action name origLine c =
     (if length (c_report c) < indent then output_write lib origLine c
      else
        let e = (new_event action)\<lparr>te_Elapsed := (if timestamps c then reportElapsed lib name else None), te_Test := reportName name\<rparr>;
            c = flushReport lib indent c
        in output_write lib origLine (c\<lparr>c_testName := reportName name, c_report := c_report c @ [e]\<rparr>))"

definition handleUpdateLine :: "test_lib \<Rightarrow> string \<Rightarrow> string \<Rightarrow> string \<Rightarrow> converter \<Rightarrow> converter option" where
  "handleUpdateLine lib action name origLine c =
     (let c = (flushReport lib 0 c)\<lparr>c_testName := name\<rparr>
      in if action = ''pause'' then map_option (writeEvent lib (new_event action)) (output_write lib origLine c)
         else output_write lib origLine (writeEvent lib (new_event action) c))"

text \<open>The position behind the first colon, and the action between the first four bytes and a position.\<close>

definition lineColon :: "string \<Rightarrow> nat" where
  "lineColon line = nat (Index line '':'' + 1)"

definition lineAction :: "nat \<Rightarrow> string \<Rightarrow> string" where
  "lineAction i line = ToLower (TrimSuffix (TrimSpace (drop 4 (take i line))) '':'')"

definition handleInputLine :: "test_lib \<Rightarrow> string \<Rightarrow> converter \<Rightarrow> converter option" where
  "handleInputLine lib line c =
     (if line = bigPass \<or> line = bigFail then
        map_option (\<lambda>c. c\<lparr>c_result := (if line = bigPass then ''pass'' else ''fail'')\<rparr>) (output_write lib line (flushReport lib 0 c))
      else
        let c = (if HasPrefix line skipLinePrefix \<and> HasSuffix line skipLineSuffix \<and> c_report c = [] then c\<lparr>c_result := ''skip''\<rparr>
                 else c);
            update = list_ex (HasPrefix line) updates;
            (indent, body) = (if update then (0, line) else dedent line);
            actionColon = (\<not> update \<and> list_ex (HasPrefix body) reports)
        in if \<not> update \<and> \<not> actionColon then output_write lib line c
           else
             let i = (if actionColon then lineColon body else 0);
                 i = (if i = 0 then length (hd updates) else i);
                 action = lineAction i body;
                 name = TrimSpace (drop i body)
             in if HasPrefix body ''-'' then handleReportLine lib indent action name line c
                else handleUpdateLine lib action name line c)"

section \<open>The converter as a writer\<close>

definition converter_Write :: "test_lib \<Rightarrow> string \<Rightarrow> converter \<Rightarrow> converter option" where
  "converter_Write lib b c =
     map_option (\<lambda>(l, c). c\<lparr>c_input := l\<rparr>)
       (lb_write (tl_isLower lib) inBuffer (handleInputLine lib) (output_write lib) b (c_input c) c)"

text \<open>\<^verbatim>\<open>Duration.Round\<close>: to the nearest multiple, halfway cases away from zero, saturating.\<close>

definition Round_dur :: "duration \<Rightarrow> duration \<Rightarrow> duration" where
  "Round_dur d m =
     (if m \<le> 0 then d
      else if d < 0 then
        let r = - (d smod m) in if r + r < m then d + r else max minDuration (d - m + r)
      else
        let r = d smod m in if r + r < m then d - r else min maxDuration (d + m - r))"

definition flush_input :: "test_lib \<Rightarrow> converter \<Rightarrow> converter option" where
  "flush_input lib c = map_option (\<lambda>(l, c). c\<lparr>c_input := l\<rparr>) (lb_flush (output_write lib) (c_input c) c)"

definition flush_output :: "test_lib \<Rightarrow> converter \<Rightarrow> converter option" where
  "flush_output lib c =
     map_option (\<lambda>(l, c). c\<lparr>c_output := l\<rparr>) (lb_flush (\<lambda>x c. Some (writeOutputEvent lib x c)) (c_output c) c)"

definition finalEvent :: "test_lib \<Rightarrow> converter \<Rightarrow> converter" where
  "finalEvent lib c =
     (let e = new_event (if c_result c \<noteq> [] then c_result c else ''fail'')
      in if timestamps c then
           writeEvent lib (e\<lparr>te_Elapsed := Some (tl_Seconds lib (Round_dur (Sub (tl_clock lib (c_ticks c)) (c_start c)) Millisecond))\<rparr>)
             (c\<lparr>c_ticks := Suc (c_ticks c)\<rparr>)
         else writeEvent lib e c)"

definition converter_Close :: "test_lib \<Rightarrow> converter \<Rightarrow> converter option" where
  "converter_Close lib c = Option.bind (flush_input lib c) (\<lambda>c. map_option (finalEvent lib) (flush_output lib c))"

fun write_all :: "test_lib \<Rightarrow> string list \<Rightarrow> converter \<Rightarrow> converter option" where
  "write_all lib [] c = Some c"
| "write_all lib (b # bs) c = Option.bind (converter_Write lib b c) (write_all lib bs)"

section \<open>The program\<close>

text \<open>
  Without arguments the standard input is copied to the converter, piece by piece. With arguments a command is run: what it prints, and the
  error with which it ends. The result is the exit code and the converter at the end.
\<close>

datatype test_source = Stdin "string list" | Command "string list" "string option"

definition runMode :: "bool \<Rightarrow> int" where
  "runMode flagT = (if flagT then 1 else 0)"

definition countWritten :: "string list \<Rightarrow> int" where
  "countWritten bs = sum_list (map (int \<circ> length) bs)"

definition test2json_main :: "test_lib \<Rightarrow> string \<Rightarrow> bool \<Rightarrow> test_source \<Rightarrow> (int \<times> converter) option" where
  "test2json_main lib flagP flagT src =
     (let c = NewConverter lib flagP (runMode flagT) in
      case src of
        Stdin bs \<Rightarrow> map_option (Pair 0) (Option.bind (write_all lib bs c) (converter_Close lib))
      | Command bs None \<Rightarrow> map_option (Pair 0) (Option.bind (write_all lib bs c) (converter_Close lib))
      | Command bs (Some err) \<Rightarrow>
          let message = (if 0 < countWritten bs then [] else [''test2json: '' @ err @ [newline]])
          in map_option (Pair 1) (Option.bind (write_all lib (bs @ message) c) (converter_Close lib)))"

section \<open>Bytes in, bytes out\<close>

text \<open>The output that a stream of events carries, and the pieces it is cut into.\<close>

fun line_output :: "stream_line \<Rightarrow> string list" where
  "line_output (JSONLine e) = (case te_Output e of Some out \<Rightarrow> [out] | None \<Rightarrow> [])"
| "line_output (InternalError err) = []"

definition pieces :: "converter \<Rightarrow> string list" where
  "pieces c = concat (map line_output (c_w c))"

text \<open>The actions that the documentation lists; only the action \<^verbatim>\<open>output\<close> comes with output.\<close>

definition documented :: "string list" where
  "documented = [''run'', ''pause'', ''cont'', ''pass'', ''bench'', ''fail'', ''skip'']"

lemma fail_documented [simp]: "''fail'' \<in> set documented"
  by (simp add: documented_def)

definition plain_event :: "test_event \<Rightarrow> bool" where
  "plain_event e \<longleftrightarrow> te_Output e = None \<and> te_Action e \<in> set documented"

fun well_formed :: "stream_line \<Rightarrow> bool" where
  "well_formed (JSONLine e) \<longleftrightarrow> plain_event e \<or> te_Action e = ''output'' \<and> te_Output e \<noteq> None"
| "well_formed (InternalError err) \<longleftrightarrow> True"

lemma plain_new_event [simp]:
  "plain_event (new_event a) \<longleftrightarrow> a \<in> set documented" "plain_event (e\<lparr>te_Elapsed := x\<rparr>) = plain_event e"
  "plain_event (e\<lparr>te_Test := n\<rparr>) = plain_event e"
  by (simp_all add: plain_event_def new_event_def)

lemma pieces_updates [simp]:
  "pieces (c\<lparr>c_output := l\<rparr>) = pieces c" "pieces (c\<lparr>c_input := l\<rparr>) = pieces c" "pieces (c\<lparr>c_testName := n\<rparr>) = pieces c"
  "pieces (c\<lparr>c_report := r\<rparr>) = pieces c" "pieces (c\<lparr>c_result := n\<rparr>) = pieces c" "pieces (c\<lparr>c_ticks := k\<rparr>) = pieces c"
  by (simp_all add: pieces_def)

lemma pieces_writeEvent [simp]: "plain_event e \<Longrightarrow> pieces (writeEvent lib e c) = pieces c"
  by (simp add: pieces_def writeEvent_def Let_def plain_event_def split: option.split)

lemma well_formed_writeEvent [simp]:
  "plain_event e \<Longrightarrow> list_all well_formed (c_w (writeEvent lib e c)) = list_all well_formed (c_w c)"
  by (simp add: writeEvent_def Let_def plain_event_def split: option.split)

lemma well_formed_writeOutputEvent [simp]:
  "list_all well_formed (c_w (writeOutputEvent lib x c)) = list_all well_formed (c_w c)"
  by (simp add: writeOutputEvent_def writeEvent_def Let_def new_event_def split: option.split)

lemma writeEvent_result [simp]: "c_result (writeEvent lib e c) = c_result c"
  by (simp add: writeEvent_def Let_def)

lemma writeEvent_output [simp]: "c_output (writeEvent lib e c) = c_output c"
  by (simp add: writeEvent_def Let_def)

lemma writeEvent_input [simp]: "c_input (writeEvent lib e c) = c_input c"
  by (simp add: writeEvent_def Let_def)

text \<open>An event of output is written as long as the clock shows years of four digits.\<close>

lemma pieces_writeOutputEvent:
  "(\<And>n. time_encodes (tl_clock lib n)) \<Longrightarrow> pieces (writeOutputEvent lib x c) = pieces c @ [x]"
  by (simp add: pieces_def writeOutputEvent_def writeEvent_def Let_def marshal_error_def new_event_def)

text \<open>Pending reports carry no output, so flushing them adds none.\<close>

lemma flush_reports_pieces:
  "list_all plain_event (c_report c) \<Longrightarrow>
   pieces (flush_reports lib depth c) = pieces c \<and> c_output (flush_reports lib depth c) = c_output c \<and>
   c_result (flush_reports lib depth c) = c_result c \<and> list_all plain_event (c_report (flush_reports lib depth c)) \<and>
   list_all well_formed (c_w (flush_reports lib depth c)) = list_all well_formed (c_w c)"
proof (induction lib depth c rule: flush_reports.induct)
  case (1 lib depth c)
  show ?case
  proof (cases "depth < length (c_report c)")
    case True
    then have "c_report c \<noteq> []" by auto
    then have "c_report c = butlast (c_report c) @ [last (c_report c)]" by simp
    with 1(2) have "list_all plain_event (butlast (c_report c))" "plain_event (last (c_report c))"
      by (metis list_all_append list.pred_inject(2))+
    with 1(1) [OF True] True show ?thesis by (subst (1 2 3 4 5) flush_reports.simps) simp
  next
    case False
    with 1(2) show ?thesis by (subst (1 2 3 4 5) flush_reports.simps) simp
  qed
qed

lemma flushReport_pieces:
  "list_all plain_event (c_report c) \<Longrightarrow>
   pieces (flushReport lib depth c) = pieces c \<and> c_output (flushReport lib depth c) = c_output c \<and>
   c_result (flushReport lib depth c) = c_result c \<and> list_all plain_event (c_report (flushReport lib depth c)) \<and>
   list_all well_formed (c_w (flushReport lib depth c)) = list_all well_formed (c_w c)"
  using flush_reports_pieces [of "c\<lparr>c_testName := []\<rparr>" lib depth] by (simp add: flushReport_def)

text \<open>What the magic words of a line are read as.\<close>

lemma update_action:
  assumes "list_ex (HasPrefix line) updates"
  shows "lineAction (length (hd updates)) line \<in> set documented"
proof -
  have "lineAction (length (hd updates)) (m @ r) = lineAction (length (hd updates)) m" if "m \<in> set updates" for m r
    using that by (auto simp: updates_def lineAction_def)
  moreover have "\<forall>m \<in> set updates. lineAction (length (hd updates)) m \<in> set documented" by code_simp
  ultimately show ?thesis
    using assms by (auto simp: list_ex_iff HasPrefix_def prefix_def)
qed

lemma report_action:
  assumes "list_ex (HasPrefix line) reports"
  shows "0 < lineColon line \<and> lineAction (lineColon line) line \<in> set documented"
proof -
  have "0 < lineColon (m @ r) \<and> lineAction (lineColon (m @ r)) (m @ r) = lineAction (lineColon m) m" if "m \<in> set reports" for m r
    using that by (auto simp: reports_def lineAction_def lineColon_def)
  moreover have "\<forall>m \<in> set reports. lineAction (lineColon m) m \<in> set documented" by code_simp
  ultimately show ?thesis
    using assms by (auto simp: list_ex_iff HasPrefix_def prefix_def)
qed

text \<open>A converter whose library and clock are sound, on texts that are read with \<open>step\<close>.\<close>

locale text_converter = byte_scan step
  for step :: "char \<Rightarrow> nat \<Rightarrow> nat option" +
  fixes lib :: test_lib
  assumes clock_encodes: "time_encodes (tl_clock lib n)"
begin

text \<open>What holds of a converter between two writes to its output buffer.\<close>

definition written :: "converter \<Rightarrow> bool" where
  "written c \<longleftrightarrow> list_all (\<lambda>x. scan step x = Some 0) (pieces c) \<and> list_all plain_event (c_report c) \<and>
     list_all well_formed (c_w c) \<and> c_result c \<in> set ([] # documented)"

definition between :: "converter \<Rightarrow> bool" where
  "between c \<longleftrightarrow> written c \<and> length (lb_b (c_output c)) < outBuffer \<and> scan step (lb_b (c_output c)) = Some 0"

definition passed :: "converter \<Rightarrow> string" where
  "passed c = concat (pieces c) @ lb_b (c_output c)"

end

sublocale text_converter \<subseteq> out: byte_sink step "\<lambda>x c. Some (writeOutputEvent lib x c)" "\<lambda>x c. Some (writeOutputEvent lib x c)"
  written "\<lambda>c. concat (pieces c)"
  by unfold_locales
    (simp_all add: written_def pieces_writeOutputEvent [OF clock_encodes], simp_all add: writeOutputEvent_def)

context text_converter
begin

lemma output_accepts:
  assumes "between c" and "scan step x = Some 0"
  shows "\<exists>c'. output_write lib x c = Some c' \<and> between c' \<and> passed c' = passed c @ x"
proof -
  have "scan step (lb_b (c_output c) @ x) = Some 0"
    using assms by (simp add: between_def scan_append)
  with out.write_accepts [of c outBuffer "c_output c" x "tl_isLower lib"] assms show ?thesis
    by (auto simp: between_def output_write_def passed_def outBuffer_def written_def)
qed

lemma flushReport_between: "between c \<Longrightarrow> between (flushReport lib d c) \<and> passed (flushReport lib d c) = passed c"
  using flushReport_pieces [of c lib d] by (simp add: between_def written_def passed_def)

lemma between_updates:
  "between c \<Longrightarrow> between (c\<lparr>c_testName := n\<rparr>)" "between c \<Longrightarrow> r \<in> set documented \<Longrightarrow> between (c\<lparr>c_result := r\<rparr>)"
  "between c \<Longrightarrow> between (c\<lparr>c_input := l\<rparr>)"
  "between c \<Longrightarrow> plain_event e \<Longrightarrow> between (c\<lparr>c_testName := n, c_report := c_report c @ [e]\<rparr>)"
  "between c \<Longrightarrow> plain_event e \<Longrightarrow> between (writeEvent lib e c)"
  by (simp_all add: between_def written_def)

lemma passed_updates [simp]:
  "passed (c\<lparr>c_testName := n\<rparr>) = passed c" "passed (c\<lparr>c_result := r\<rparr>) = passed c" "passed (c\<lparr>c_input := l\<rparr>) = passed c"
  "passed (c\<lparr>c_report := r'\<rparr>) = passed c" "plain_event e \<Longrightarrow> passed (writeEvent lib e c) = passed c"
  by (simp_all add: passed_def)

lemma handleReportLine_accepts:
  assumes "between c" and "scan step line = Some 0" and "action \<in> set documented"
  shows "\<exists>c'. handleReportLine lib indent action name line c = Some c' \<and> between c' \<and> passed c' = passed c @ line"
proof (cases "length (c_report c) < indent")
  case True
  then show ?thesis using output_accepts [OF assms(1,2)] by (simp add: handleReportLine_def)
next
  case False
  let ?e = "(new_event action)\<lparr>te_Elapsed := (if timestamps c then reportElapsed lib name else None), te_Test := reportName name\<rparr>"
  let ?f = "flushReport lib indent c"
  have "plain_event ?e" using assms(3) by simp
  with flushReport_between [OF assms(1), of indent] False show ?thesis
    using output_accepts [OF between_updates(4), OF _ _ assms(2), of ?f ?e "reportName name"]
    by (simp add: handleReportLine_def Let_def)
qed

lemma handleUpdateLine_accepts:
  assumes "between c" and "scan step line = Some 0" and "action \<in> set documented"
  shows "\<exists>c'. handleUpdateLine lib action name line c = Some c' \<and> between c' \<and> passed c' = passed c @ line"
proof -
  let ?c = "(flushReport lib 0 c)\<lparr>c_testName := name\<rparr>"
  have c: "between ?c" "passed ?c = passed c"
    using flushReport_between [OF assms(1), of 0] by (simp_all add: between_updates(1))
  show ?thesis
  proof (cases "action = ''pause''")
    case True
    then show ?thesis using output_accepts [OF c(1) assms(2)] c(2) assms(3)
      by (auto simp: handleUpdateLine_def Let_def between_updates(5))
  next
    case False
    then show ?thesis using output_accepts [OF between_updates(5) [OF c(1)] assms(2), of "new_event action"] c(2) assms(3)
      by (auto simp: handleUpdateLine_def Let_def)
  qed
qed

lemma handleInputLine_accepts:
  assumes "between c" and "scan step line = Some 0"
  shows "\<exists>c'. handleInputLine lib line c = Some c' \<and> between c' \<and> passed c' = passed c @ line"
proof (cases "line = bigPass \<or> line = bigFail")
  case True
  from flushReport_between [OF assms(1), of 0] obtain c' where
    "output_write lib line (flushReport lib 0 c) = Some c'" "between c'" "passed c' = passed c @ line"
    using output_accepts [OF _ assms(2), of "flushReport lib 0 c"] by auto
  with True show ?thesis
    by (auto simp: handleInputLine_def intro!: between_updates(2)) (simp_all add: documented_def)
next
  case False
  define d where "d = (if HasPrefix line skipLinePrefix \<and> HasSuffix line skipLineSuffix \<and> c_report c = []
    then c\<lparr>c_result := ''skip''\<rparr> else c)"
  have d: "between d" "passed d = passed c"
    using assms(1) between_updates(2) [OF assms(1), of "''skip''"] by (simp_all add: d_def documented_def)
  note accepts = handleReportLine_accepts [OF d(1) assms(2)] handleUpdateLine_accepts [OF d(1) assms(2)]
  consider (update) "list_ex (HasPrefix line) updates"
    | (report) "\<not> list_ex (HasPrefix line) updates" "list_ex (HasPrefix (snd (dedent line))) reports"
    | (plain) "\<not> list_ex (HasPrefix line) updates" "\<not> list_ex (HasPrefix (snd (dedent line))) reports"
    by blast
  then show ?thesis
  proof cases
    case update
    with False d(2) accepts [OF update_action [OF update]] show ?thesis
      by (simp add: handleInputLine_def d_def [symmetric] Let_def)
  next
    case report
    obtain n body where body: "dedent line = (n, body)" by fastforce
    with report have "list_ex (HasPrefix body) reports" by simp
    from report_action [OF this] have "0 < lineColon body" and action: "lineAction (lineColon body) body \<in> set documented"
      by simp_all
    with False report body d(2) accepts [OF action] show ?thesis
      by (simp add: handleInputLine_def d_def [symmetric] Let_def)
  next
    case plain
    with False d(2) output_accepts [OF d(1) assms(2)] show ?thesis
      by (cases "dedent line") (simp add: handleInputLine_def d_def [symmetric] Let_def)
  qed
qed

end

sublocale text_converter \<subseteq> inp: byte_sink step "handleInputLine lib" "output_write lib" between passed
  by unfold_locales (fact handleInputLine_accepts, fact output_accepts)

context text_converter
begin

lemma converter_Write_accepts:
  assumes "between c" and "length (lb_b (c_input c)) < inBuffer" and "scan step (lb_b (c_input c) @ b) \<noteq> None"
  shows "\<exists>c'. converter_Write lib b c = Some c' \<and> between c' \<and> length (lb_b (c_input c')) < inBuffer \<and>
    scan step (lb_b (c_input c')) = scan step (lb_b (c_input c) @ b) \<and>
    passed c' @ lb_b (c_input c') = passed c @ lb_b (c_input c) @ b"
proof -
  have "4 \<le> inBuffer" by (simp add: inBuffer_def)
  from inp.write_accepts [OF assms(1) this assms(2,3), of "tl_isLower lib"] show ?thesis
    by (auto simp: converter_Write_def between_updates(3))
qed

lemma write_all_accepts:
  assumes "between c" and "length (lb_b (c_input c)) < inBuffer" and "scan step (lb_b (c_input c) @ concat bs) \<noteq> None"
  shows "\<exists>c'. write_all lib bs c = Some c' \<and> between c' \<and>
    scan step (lb_b (c_input c')) = scan step (lb_b (c_input c) @ concat bs) \<and>
    passed c' @ lb_b (c_input c') = passed c @ lb_b (c_input c) @ concat bs"
  using assms
proof (induction bs arbitrary: c)
  case (Cons b bs)
  have "scan step (lb_b (c_input c) @ b) \<noteq> None"
    using Cons.prems(3) scan_prefix [of step "lb_b (c_input c) @ b" "concat bs"] by simp
  from converter_Write_accepts [OF Cons.prems(1,2) this] obtain c1 where
    1: "converter_Write lib b c = Some c1" "between c1" "length (lb_b (c_input c1)) < inBuffer"
      "scan step (lb_b (c_input c1)) = scan step (lb_b (c_input c) @ b)"
      "passed c1 @ lb_b (c_input c1) = passed c @ lb_b (c_input c) @ b"
    by blast
  have same: "scan step (lb_b (c_input c1) @ concat bs) = scan step (lb_b (c_input c) @ concat (b # bs))"
    using scan_cong [OF 1(4), of "concat bs"] by simp
  from Cons.IH [OF 1(2,3)] Cons.prems(3) same obtain c' where
    "write_all lib bs c1 = Some c'" "between c'" "scan step (lb_b (c_input c')) = scan step (lb_b (c_input c1) @ concat bs)"
    "passed c' @ lb_b (c_input c') = passed c1 @ lb_b (c_input c1) @ concat bs"
    by metis
  moreover from this(4) have "passed c' @ lb_b (c_input c') = passed c @ lb_b (c_input c) @ concat (b # bs)"
    using 1(5) by (metis append.assoc concat.simps(2))
  ultimately show ?case using 1(1) same by auto
qed simp

lemma converter_Close_accepts:
  assumes "between c" and "scan step (lb_b (c_input c)) = Some 0"
  shows "\<exists>c'. converter_Close lib c = Some c' \<and> written c' \<and> concat (pieces c') = passed c @ lb_b (c_input c)"
proof -
  from inp.flush_accepts [OF assms] obtain c1 where 1: "flush_input lib c = Some c1" "between c1"
    "passed c1 = passed c @ lb_b (c_input c)"
    by (auto simp: flush_input_def between_updates(3))
  then have "written c1" "scan step (lb_b (c_output c1)) = Some 0" by (simp_all add: between_def)
  from out.flush_accepts [OF this] obtain c2 where 2: "flush_output lib c1 = Some c2" "written c2"
    "concat (pieces c2) = passed c1"
    by (auto simp: flush_output_def passed_def written_def)
  have "written (finalEvent lib c2) \<and> pieces (finalEvent lib c2) = pieces c2"
    using 2(2) by (auto simp: finalEvent_def written_def Let_def)
  with 1 2 show ?thesis by (simp add: converter_Close_def)
qed

lemma convert_accepts:
  assumes "scan step (concat bs) = Some 0"
  shows "\<exists>c. Option.bind (write_all lib bs (NewConverter lib pkg mode)) (converter_Close lib) = Some c \<and>
    concat (pieces c) = concat bs \<and> list_all (\<lambda>x. scan step x = Some 0) (pieces c) \<and> list_all well_formed (c_w c)"
proof -
  let ?n = "NewConverter lib pkg mode"
  have new: "between ?n" "lb_b (c_input ?n) = []" "passed ?n = []"
    by (simp_all add: between_def written_def passed_def pieces_def NewConverter_def outBuffer_def)
  have "length (lb_b (c_input ?n)) < inBuffer" "scan step (lb_b (c_input ?n) @ concat bs) \<noteq> None"
    using new(2) assms by (simp_all add: inBuffer_def)
  from write_all_accepts [OF new(1) this] obtain c where
    c: "write_all lib bs ?n = Some c" "between c" "scan step (lb_b (c_input c)) = Some 0"
      "passed c @ lb_b (c_input c) = concat bs"
    using new(2,3) assms by auto
  from converter_Close_accepts [OF c(2,3)] c(1,4) show ?thesis by (auto simp: written_def)
qed

end

text \<open>What a source gives to the converter: what it prints, or the error of a command that printed nothing.\<close>

fun source_text :: "test_source \<Rightarrow> string" where
  "source_text (Stdin bs) = concat bs"
| "source_text (Command bs None) = concat bs"
| "source_text (Command bs (Some err)) = (if concat bs = [] then ''test2json: '' @ err @ [newline] else concat bs)"

lemma countWritten_pos: "0 < countWritten bs \<longleftrightarrow> concat bs \<noteq> []"
proof -
  have "countWritten bs = int (length (concat bs))" by (induction bs) (simp_all add: countWritten_def)
  then show ?thesis by simp
qed

lemma main_converts:
  "\<exists>code bs. concat bs = source_text src \<and>
     test2json_main lib pkg ts src = map_option (Pair code) (Option.bind (write_all lib bs (NewConverter lib pkg (runMode ts))) (converter_Close lib))"
proof (cases src rule: source_text.cases)
  case (3 bs err)
  let ?bs = "bs @ (if 0 < countWritten bs then [] else [''test2json: '' @ err @ [newline]])"
  have "concat ?bs = source_text src" using 3 countWritten_pos [of bs] by simp
  with 3 show ?thesis
    by (intro exI [of _ 1] exI [of _ ?bs]) (simp add: test2json_main_def Let_def)
qed (simp_all add: test2json_main_def; blast)+

definition whole_text :: "string \<Rightarrow> bool" where
  "whole_text b \<longleftrightarrow> scan utf8_step b = Some 0"


lemma time_zero_encodes: "time_encodes 0"
  by code_simp


text \<open>
  When the test prints UTF-8, the output of every event consists of whole sequences: a long line is never cut inside a character.
\<close>

theorem test2json_whole_sequences:
  assumes "\<forall>n. time_encodes (tl_clock lib n)" and "whole_text (source_text src)"
  shows "\<exists>code c. test2json_main lib pkg ts src = Some (code, c) \<and> list_all whole_text (pieces c)"
proof -
  have "text_converter utf8_step lib" using assms(1) by unfold_locales simp
  moreover obtain code bs where bs: "concat bs = source_text src" and run: "test2json_main lib pkg ts src =
      map_option (Pair code) (Option.bind (write_all lib bs (NewConverter lib pkg (runMode ts))) (converter_Close lib))"
    using main_converts by blast
  ultimately show ?thesis
    using text_converter.convert_accepts [of utf8_step lib bs pkg "runMode ts"] assms(2)
    by (auto simp: whole_text_def [abs_def])
qed

theorem test2json_whole_sequences_witness:
  "let lib = \<lparr>tl_isLower = \<lambda>_. False, tl_ParseFloat = \<lambda>_. None, tl_Seconds = \<lambda>_. 0, tl_clock = \<lambda>_. 0\<rparr>;
       src = Stdin [[CHR ''a'', CHR 0xE2], [CHR 0x82, CHR 0xAC]] in
     whole_text (source_text src) \<and> \<not> whole_text [CHR ''a'', CHR 0xE2] \<and>
     (\<exists>code c. test2json_main lib ''p'' False src = Some (code, c) \<and> list_all whole_text (pieces c))"
proof -
  have "whole_text (source_text (Stdin [[CHR ''a'', CHR 0xE2], [CHR 0x82, CHR 0xAC]]))" by code_simp
  moreover have "\<not> whole_text [CHR ''a'', CHR 0xE2]" by code_simp
  ultimately show ?thesis
    unfolding Let_def by (intro conjI test2json_whole_sequences) (simp_all add: time_zero_encodes)
qed

text \<open>
  C37: every event of the stream has one of the documented actions, and carries output exactly when its action is \<^verbatim>\<open>output\<close>.
\<close>

theorem test2json_documented_events:
  assumes "\<forall>n. time_encodes (tl_clock lib n)"
  shows "\<exists>code c. test2json_main lib pkg ts src = Some (code, c) \<and>
    (\<forall>e. JSONLine e \<in> set (c_w c) \<longrightarrow>
       te_Action e \<in> {''run'', ''pause'', ''cont'', ''pass'', ''bench'', ''fail'', ''skip'', ''output''} \<and>
       (te_Output e \<noteq> None \<longleftrightarrow> te_Action e = ''output''))"
proof -
  have "text_converter any_step lib" using assms by unfold_locales simp
  moreover obtain code bs where bs: "concat bs = source_text src" and run: "test2json_main lib pkg ts src =
      map_option (Pair code) (Option.bind (write_all lib bs (NewConverter lib pkg (runMode ts))) (converter_Close lib))"
    using main_converts by blast
  ultimately obtain c where c: "test2json_main lib pkg ts src = Some (code, c)" "list_all well_formed (c_w c)"
    using text_converter.convert_accepts [of any_step lib bs pkg "runMode ts"] by auto
  have "te_Action e \<in> {''run'', ''pause'', ''cont'', ''pass'', ''bench'', ''fail'', ''skip'', ''output''} \<and>
      (te_Output e \<noteq> None \<longleftrightarrow> te_Action e = ''output'')" if "JSONLine e \<in> set (c_w c)" for e
    using c(2) that by (auto simp: list_all_iff plain_event_def documented_def dest!: bspec)
  with c(1) show ?thesis by blast
qed

theorem test2json_documented_events_witness:
  "let lib = \<lparr>tl_isLower = \<lambda>_. False, tl_ParseFloat = \<lambda>_. None, tl_Seconds = \<lambda>_. 0, tl_clock = \<lambda>_. 0\<rparr>;
       src = Stdin [''=== RUN   A'' @ [newline] @ ''--- SKIP: A'' @ [newline] @ ''PASS'' @ [newline]] in
     (\<forall>n. time_encodes (tl_clock lib n)) \<and>
     (\<exists>code c. test2json_main lib ''p'' False src = Some (code, c) \<and>
        (\<forall>e. JSONLine e \<in> set (c_w c) \<longrightarrow>
           te_Action e \<in> {''run'', ''pause'', ''cont'', ''pass'', ''bench'', ''fail'', ''skip'', ''output''} \<and>
           (te_Output e \<noteq> None \<longleftrightarrow> te_Action e = ''output'')))"
  unfolding Let_def
  by (intro conjI test2json_documented_events) (simp_all add: time_zero_encodes)

section \<open>Reports that do not arrive\<close>

text \<open>The actions of a stream, in order; the action of a line that is not an event is empty.\<close>

definition actions :: "converter \<Rightarrow> string list" where
  "actions c = map (\<lambda>l. case l of JSONLine e \<Rightarrow> te_Action e | InternalError err \<Rightarrow> []) (c_w c)"

text \<open>A test that reported success before the output broke off has no event of its own: closing the converter drops the pending report.\<close>

lemma unfinished_report_lost:
  "map_option (\<lambda>(code, c). (actions c, map te_Test (c_report c)))
     (test2json_main \<lparr>tl_isLower = \<lambda>_. False, tl_ParseFloat = \<lambda>_. None, tl_Seconds = \<lambda>_. 0, tl_clock = \<lambda>_. 0\<rparr> ''p'' False
        (Stdin [''--- PASS: A'' @ [newline]])) =
   Some ([''output'', ''fail''], [''A''])"
  by code_simp

text \<open>An elapsed time that is read as infinite has no encoding: the event of the test is replaced by a message that is not JSON.\<close>

lemma infinite_elapsed_lost:
  "map_option (\<lambda>(code, c). actions c)
     (test2json_main
        \<lparr>tl_isLower = \<lambda>_. False, tl_ParseFloat = \<lambda>s. if s = ''inf'' then Some 0x7FF0000000000000 else None,
         tl_Seconds = \<lambda>_. 0, tl_clock = \<lambda>_. 0\<rparr> ''p'' True
        (Stdin [''--- PASS: A (infs)'' @ [newline], ''PASS'' @ [newline]])) =
   Some [''output'', [], ''output'', ''pass'']"
  by code_simp

text \<open>
  The final event of a stream that broke off inside a test names that test, although it is the event of the whole package.
\<close>

lemma final_event_names_test:
  "map_option (\<lambda>(code, c). map (\<lambda>l. case l of JSONLine e \<Rightarrow> (te_Action e, te_Test e) | InternalError err \<Rightarrow> ([], [])) (c_w c))
     (test2json_main \<lparr>tl_isLower = \<lambda>_. False, tl_ParseFloat = \<lambda>_. None, tl_Seconds = \<lambda>_. 0, tl_clock = \<lambda>_. 0\<rparr> ''p'' False
        (Stdin [''=== RUN   A'' @ [newline]])) =
   Some [(''run'', ''A''), (''output'', ''A''), (''fail'', ''A'')]"
  by code_simp

end
