(* ===== verification/Go_Memory.thy ===== *)
theory Go_Memory
  imports Metering_Prelude "HOL-Library.Sublist" "HOL-Library.AList"
begin

text \<open>
  Go's memory as far as copying needs it: values of the types the API objects are made of
  (\<open>gv\<close>), a store of cells addressed by their position, and the descriptions of Go types
  (\<open>gotype\<close>) that say how a value is to be read.  A pointer is the address of a cell of one
  value, a slice a window of an array cell, a map the address of a cell of entries; \<open>new\<close> and
  \<open>make\<close> append a cell.  \<open>wt h T v\<close> says that \<open>v\<close> is a value of type \<open>T\<close> in the store \<open>h\<close>,
  \<open>contents h T v\<close> is the tree of data it stands for whatever its addresses are, and
  \<open>refs h T v\<close> are the cells it reaches.

  The copying statements the deepcopy generator emits are combinators on \<open>copier\<close>s, functions
  from a store and a value to the store and the copied value; \<open>deep_copier T f\<close> says that what
  \<open>f\<close> returns has the contents of its argument and reaches new cells only, and is proved to be
  closed under every combinator.
\<close>

section \<open>Values, types and stores\<close>

datatype kind = KString | KInt | KBool | KByte | KTime

datatype lit = LString string | LInt int | LBool bool | LByte nat | LTime int

datatype gv =
    Lit lit
  | NilV
  | Ref nat
  | SliceV nat nat nat
  | MapV nat
  | StructV "(string \<times> gv) list"

datatype gotype =
    TBasic kind
  | TPtr gotype
  | TSlice gotype
  | TMap gotype
  | TStruct "(string \<times> gotype) list"

datatype cell = Vals "gv list" | Entries "(string \<times> gv) list"

type_synonym store = "cell list"

type_synonym copier = "store \<Rightarrow> gv \<Rightarrow> store \<times> gv"

datatype tree =
    DLit lit
  | DNil
  | DPtr "tree list"
  | DSlice "tree list"
  | DMap "string \<Rightarrow> tree option"
  | DStruct "(string \<times> tree) list"

abbreviation TString :: gotype where "TString \<equiv> TBasic KString"
abbreviation TInt :: gotype where "TInt \<equiv> TBasic KInt"
abbreviation TBool :: gotype where "TBool \<equiv> TBasic KBool"
abbreviation TByte :: gotype where "TByte \<equiv> TBasic KByte"

fun kind_of :: "lit \<Rightarrow> kind" where
  "kind_of (LString _) = KString"
| "kind_of (LInt _) = KInt"
| "kind_of (LBool _) = KBool"
| "kind_of (LByte _) = KByte"
| "kind_of (LTime _) = KTime"

fun zero_lit :: "kind \<Rightarrow> lit" where
  "zero_lit KString = LString []"
| "zero_lit KInt = LInt 0"
| "zero_lit KBool = LBool False"
| "zero_lit KByte = LByte 0"
| "zero_lit KTime = LTime 0"

text \<open>The zero value that \<open>new(T)\<close> and \<open>make([]T, n)\<close> put in the memory they allocate.\<close>

fun zero_value :: "gotype \<Rightarrow> gv" where
  "zero_value (TBasic k) = Lit (zero_lit k)"
| "zero_value (TStruct fs) = StructV (map (\<lambda>p. (fst p, zero_value (snd p))) fs)"
| "zero_value _ = NilV"

fun field :: "gv \<Rightarrow> string \<Rightarrow> gv" where
  "field (StructV kvs) n = (case map_of kvs n of Some x \<Rightarrow> x | None \<Rightarrow> NilV)"
| "field _ n = NilV"

fun set_field :: "gv \<Rightarrow> string \<Rightarrow> gv \<Rightarrow> gv" where
  "set_field (StructV kvs) n x = StructV (map (\<lambda>p. (fst p, if fst p = n then x else snd p)) kvs)"
| "set_field v n x = v"

definition array_at :: "store \<Rightarrow> nat \<Rightarrow> gv list" where
  "array_at h a = (if a < length h then case h ! a of Vals vs \<Rightarrow> vs | Entries _ \<Rightarrow> [] else [])"

definition entries_at :: "store \<Rightarrow> nat \<Rightarrow> (string \<times> gv) list" where
  "entries_at h a = (if a < length h then case h ! a of Vals _ \<Rightarrow> [] | Entries es \<Rightarrow> es else [])"

definition slice_at :: "store \<Rightarrow> nat \<Rightarrow> nat \<Rightarrow> nat \<Rightarrow> gv list" where
  "slice_at h a off n = take n (drop off (array_at h a))"

fun wt :: "store \<Rightarrow> gotype \<Rightarrow> gv \<Rightarrow> bool" where
  "wt h (TBasic k) v = (case v of Lit l \<Rightarrow> kind_of l = k | _ \<Rightarrow> False)"
| "wt h (TPtr T) v = (case v of NilV \<Rightarrow> True
     | Ref a \<Rightarrow> a < length h \<and> length (array_at h a) = 1 \<and> list_all (wt h T) (array_at h a)
     | _ \<Rightarrow> False)"
| "wt h (TSlice T) v = (case v of NilV \<Rightarrow> True
     | SliceV a off n \<Rightarrow> a < length h \<and> off + n \<le> length (array_at h a) \<and>
         list_all (wt h T) (slice_at h a off n)
     | _ \<Rightarrow> False)"
| "wt h (TMap T) v = (case v of NilV \<Rightarrow> True
     | MapV a \<Rightarrow> a < length h \<and> distinct (map fst (entries_at h a)) \<and>
         list_all (\<lambda>e. wt h T (snd e)) (entries_at h a)
     | _ \<Rightarrow> False)"
| "wt h (TStruct fs) v = (case v of StructV kvs \<Rightarrow>
         map fst kvs = map fst fs \<and> distinct (map fst fs) \<and>
         list_all (\<lambda>p. wt h (snd p) (field v (fst p))) fs
     | _ \<Rightarrow> False)"

fun contents :: "store \<Rightarrow> gotype \<Rightarrow> gv \<Rightarrow> tree" where
  "contents h (TBasic k) v = (case v of Lit l \<Rightarrow> DLit l | _ \<Rightarrow> DNil)"
| "contents h (TPtr T) v = (case v of Ref a \<Rightarrow> DPtr (map (contents h T) (array_at h a)) | _ \<Rightarrow> DNil)"
| "contents h (TSlice T) v =
     (case v of SliceV a off n \<Rightarrow> DSlice (map (contents h T) (slice_at h a off n)) | _ \<Rightarrow> DNil)"
| "contents h (TMap T) v =
     (case v of MapV a \<Rightarrow> DMap (map_of (map (\<lambda>e. (fst e, contents h T (snd e))) (entries_at h a)))
      | _ \<Rightarrow> DNil)"
| "contents h (TStruct fs) v = DStruct (map (\<lambda>p. (fst p, contents h (snd p) (field v (fst p)))) fs)"

fun refs :: "store \<Rightarrow> gotype \<Rightarrow> gv \<Rightarrow> nat list" where
  "refs h (TBasic k) v = []"
| "refs h (TPtr T) v = (case v of Ref a \<Rightarrow> a # concat (map (refs h T) (array_at h a)) | _ \<Rightarrow> [])"
| "refs h (TSlice T) v =
     (case v of SliceV a off n \<Rightarrow> a # concat (map (refs h T) (slice_at h a off n)) | _ \<Rightarrow> [])"
| "refs h (TMap T) v =
     (case v of MapV a \<Rightarrow> a # concat (map (\<lambda>e. refs h T (snd e)) (entries_at h a)) | _ \<Rightarrow> [])"
| "refs h (TStruct fs) v = concat (map (\<lambda>p. refs h (snd p) (field v (fst p))) fs)"

text \<open>A flat type holds no pointer, slice or map: assignment copies its values.\<close>

fun flat :: "gotype \<Rightarrow> bool" where
  "flat (TBasic k) = True"
| "flat (TStruct fs) = list_all (\<lambda>p. flat (snd p)) fs"
| "flat _ = False"

section \<open>The frame lemma\<close>

definition agree :: "nat set \<Rightarrow> store \<Rightarrow> store \<Rightarrow> bool" where
  "agree A h h' \<longleftrightarrow> (\<forall>a \<in> A. a < length h \<longrightarrow> a < length h' \<and> h' ! a = h ! a)"

lemma agree_subset: "agree A h h' \<Longrightarrow> B \<subseteq> A \<Longrightarrow> agree B h h'"
  by (auto simp: agree_def)

lemma agree_at:
  assumes "agree A h h'" "a \<in> A" "a < length h"
  shows "array_at h' a = array_at h a" "entries_at h' a = entries_at h a"
    "slice_at h' a off n = slice_at h a off n" "a < length h'"
  using assms by (auto simp: agree_def array_at_def entries_at_def slice_at_def)

lemma gotype_induct [case_names Basic Ptr Slice Map Struct]:
  assumes "\<And>k. P (TBasic k)" "\<And>T. P T \<Longrightarrow> P (TPtr T)" "\<And>T. P T \<Longrightarrow> P (TSlice T)"
    "\<And>T. P T \<Longrightarrow> P (TMap T)"
    "\<And>fs. (\<And>p. p \<in> set fs \<Longrightarrow> P (snd p)) \<Longrightarrow> P (TStruct fs)"
  shows "P T"
  by (rule gotype.induct) (auto intro: assms simp: snds.simps)

definition same_value :: "store \<Rightarrow> store \<Rightarrow> gotype \<Rightarrow> gv \<Rightarrow> bool" where
  "same_value h h' T v \<longleftrightarrow> wt h' T v \<and> contents h' T v = contents h T v \<and> refs h' T v = refs h T v"

lemma same_values:
  assumes "\<And>x. x \<in> set xs \<Longrightarrow> same_value h h' T (g x)"
  shows "list_all (\<lambda>x. wt h' T (g x)) xs"
    "map (\<lambda>x. contents h' T (g x)) xs = map (\<lambda>x. contents h T (g x)) xs"
    "map (\<lambda>x. refs h' T (g x)) xs = map (\<lambda>x. refs h T (g x)) xs"
    "map (\<lambda>x. (k x, contents h' T (g x))) xs = map (\<lambda>x. (k x, contents h T (g x))) xs"
  using assms by (auto simp: same_value_def list_all_iff)

lemma same_fields:
  assumes "\<And>p. p \<in> set fs \<Longrightarrow> same_value h h' (snd p) (g p)"
  shows "list_all (\<lambda>p. wt h' (snd p) (g p)) fs"
    "map (\<lambda>p. refs h' (snd p) (g p)) fs = map (\<lambda>p. refs h (snd p) (g p)) fs"
    "map (\<lambda>p. (fst p, contents h' (snd p) (g p))) fs = map (\<lambda>p. (fst p, contents h (snd p) (g p))) fs"
  using assms by (auto simp: same_value_def list_all_iff)

lemma frame:
  assumes "wt h T v" "agree (set (refs h T v)) h h'"
  shows "same_value h h' T v"
  using assms
proof (induction T arbitrary: v rule: gotype_induct)
  case (Basic k)
  then show ?case by (simp add: same_value_def)
next
  case (Ptr T)
  show ?case
  proof (cases v)
    case (Ref a)
    have *: "array_at h' a = array_at h a" "a < length h'"
      using agree_at[OF Ptr.prems(2), of a] Ptr.prems(1) Ref by simp_all
    have "same_value h h' T x" if "x \<in> set (array_at h a)" for x
      using Ptr.prems Ref that by (intro Ptr.IH) (auto simp: list_all_iff elim: agree_subset)
    note same_values[of "array_at h a" h h' T "\<lambda>x. x", OF this]
    then show ?thesis using Ptr.prems Ref * by (simp add: same_value_def del: map_eq_conv)
  qed (use Ptr.prems in \<open>simp_all add: same_value_def\<close>)
next
  case (Slice T)
  show ?case
  proof (cases v)
    case (SliceV a off n)
    have *: "slice_at h' a off n = slice_at h a off n" "array_at h' a = array_at h a" "a < length h'"
      using agree_at[OF Slice.prems(2), of a] Slice.prems(1) SliceV by simp_all
    have "same_value h h' T x" if "x \<in> set (slice_at h a off n)" for x
      using Slice.prems SliceV that by (intro Slice.IH) (auto simp: list_all_iff elim: agree_subset)
    note same_values[of "slice_at h a off n" h h' T "\<lambda>x. x", OF this]
    then show ?thesis using Slice.prems SliceV * by (simp add: same_value_def del: map_eq_conv)
  qed (use Slice.prems in \<open>simp_all add: same_value_def\<close>)
next
  case (Map T)
  show ?case
  proof (cases v)
    case (MapV a)
    have *: "entries_at h' a = entries_at h a" "a < length h'"
      using agree_at[OF Map.prems(2), of a] Map.prems(1) MapV by simp_all
    have "same_value h h' T (snd x)" if "x \<in> set (entries_at h a)" for x
      using Map.prems MapV that by (intro Map.IH) (auto simp: list_all_iff elim: agree_subset)
    note same_values(1-3)[of "entries_at h a" h h' T snd, OF this]
      same_values(4)[of "entries_at h a" h h' T snd fst, OF this]
    then show ?thesis using Map.prems MapV * by (simp add: same_value_def del: map_eq_conv)
  qed (use Map.prems in \<open>simp_all add: same_value_def\<close>)
next
  case (Struct fs)
  show ?case
  proof (cases v)
    case (StructV kvs)
    have "same_value h h' (snd p) (field v (fst p))" if "p \<in> set fs" for p
      using Struct.prems StructV that
      by (intro Struct.IH) (auto simp: list_all_iff simp del: field.simps elim: agree_subset)
    note same_fields[OF this]
    then show ?thesis using Struct.prems StructV 
      by (simp add: same_value_def del: field.simps map_eq_conv)
  qed (use Struct.prems in \<open>simp_all add: same_value_def\<close>)
qed

lemma refs_bound: "wt h T v \<Longrightarrow> a \<in> set (refs h T v) \<Longrightarrow> a < length h"
proof (induction T arbitrary: v rule: gotype_induct)
  case (Struct fs)
  then show ?case
    by (auto simp: list_all_iff simp del: field.simps split: gv.splits)
qed (auto simp: list_all_iff split: gv.splits)

lemma flat_value:
  assumes "flat T" "wt h T v"
  shows "refs h T v = []"
  using assms
proof (induction T arbitrary: v rule: gotype_induct)
  case (Struct fs)
  then show ?case by (auto simp: list_all_iff simp del: field.simps split: gv.splits)
qed auto

lemma prefix_agree: "prefix h h' \<Longrightarrow> agree A h h'"
  by (auto simp: agree_def prefix_def nth_append)

lemma prefix_frame: "wt h T v \<Longrightarrow> prefix h h' \<Longrightarrow> same_value h h' T v"
  by (rule frame) (simp_all add: prefix_agree)

lemma update_frame:
  assumes "wt h T v" "b \<notin> set (refs h T v)"
  shows "same_value h (h[b := c]) T v"
proof (rule frame)
  show "agree (set (refs h T v)) h (h[b := c])"
    unfolding agree_def using assms(2) by (metis length_list_update nth_list_update_neq)
qed (rule assms(1))

section \<open>The statements of generated copying code\<close>

text \<open>\<open>out.F = in.F\<close>, and \<open>**out = **in\<close> behind a pointer.\<close>

definition copy_assign :: copier where
  "copy_assign h v = (h, v)"

text \<open>
  \<open>if in != nil { *out = new(T); (*in).DeepCopyInto(*out) }\<close>: a new cell with the zero value is
  allocated, the copy is made, and the cell is written; a nil pointer stays nil.
\<close>

fun copy_ptr :: "gotype \<Rightarrow> copier \<Rightarrow> copier" where
  "copy_ptr T f h (Ref a) =
     (let b = length h; r = f (h @ [Vals [zero_value T]]) (hd (array_at h a))
      in ((fst r)[b := Vals [snd r]], Ref b))"
| "copy_ptr T f h v = (h, v)"

text \<open>\<open>for i := range *in { (*in)[i].DeepCopyInto(&(*out)[i]) }\<close>, the array of \<open>out\<close> in cell \<open>b\<close>.\<close>

fun copy_elems :: "copier \<Rightarrow> nat \<Rightarrow> nat \<Rightarrow> gv list \<Rightarrow> store \<Rightarrow> store" where
  "copy_elems f b i [] h = h"
| "copy_elems f b i (x # xs) h =
     (let r = f h x
      in copy_elems f b (Suc i) xs ((fst r)[b := Vals ((array_at (fst r) b)[i := snd r])]))"

text \<open>\<open>*out = make([]T, len(*in))\<close> and the loop, without a test for nil.\<close>

fun make_slice :: "gotype \<Rightarrow> copier \<Rightarrow> copier" where
  "make_slice T f h (SliceV a off n) =
     (let b = length h
      in (copy_elems f b 0 (slice_at h a off n) (h @ [Vals (replicate n (zero_value T))]), SliceV b 0 n))"
| "make_slice T f h v = (h @ [Vals []], SliceV (length h) 0 0)"

definition copy_slice :: "gotype \<Rightarrow> copier \<Rightarrow> copier" where
  "copy_slice T f h v = (if v = NilV then (h, NilV) else make_slice T f h v)"

text \<open>\<open>*out = make([]T, len(*in)); copy(*out, *in)\<close>.\<close>

fun copy_builtin :: "gotype \<Rightarrow> copier" where
  "copy_builtin T h (SliceV a off n) =
     (let b = length h
      in ((h @ [Vals (replicate n (zero_value T))])[b := Vals (slice_at h a off n)], SliceV b 0 n))"
| "copy_builtin T h v = (h, v)"

text \<open>
  \<open>*out = make(map[string]string, len(*in)); for key, val := range *in { (*out)[key] = val }\<close>.  The
  order of the entries in a cell is the order in which \<open>range\<close> yields them; Go promises none.
\<close>

fun put_entry :: "nat \<Rightarrow> string \<times> gv \<Rightarrow> store \<Rightarrow> store" where
  "put_entry b e h = h[b := Entries (AList.update (fst e) (snd e) (entries_at h b))]"

fun copy_map :: copier where
  "copy_map h (MapV a) = (let b = length h
     in (fold (put_entry b) (entries_at h a) (h @ [Entries []]), MapV b))"
| "copy_map h v = (h, v)"

text \<open>\<open>*out = *in\<close> followed by the statements for some of the fields.\<close>

fun copy_fields :: "(string \<times> copier) list \<Rightarrow> gv \<Rightarrow> store \<Rightarrow> gv \<Rightarrow> store \<times> gv" where
  "copy_fields [] v h out = (h, out)"
| "copy_fields (p # ps) v h out =
     (let r = snd p h (field v (fst p)) in copy_fields ps v (fst r) (set_field out (fst p) (snd r)))"

definition copy_struct :: "(string \<times> copier) list \<Rightarrow> copier" where
  "copy_struct ps h v = copy_fields ps v h v"

section \<open>Deep copiers\<close>

text \<open>
  \<open>y\<close> in \<open>h'\<close> is a deep copy of \<open>v\<close> in \<open>h\<close> whose memory starts at the address \<open>m\<close>: the store only
  grew, the copy has the type and the contents of \<open>v\<close>, and it reaches no cell below \<open>m\<close>.
\<close>

definition deep_copy_of :: "nat \<Rightarrow> gotype \<Rightarrow> store \<Rightarrow> gv \<Rightarrow> store \<Rightarrow> gv \<Rightarrow> bool" where
  "deep_copy_of m T h v h' y \<longleftrightarrow>
     prefix h h' \<and> wt h' T y \<and> contents h' T y = contents h T v \<and> (\<forall>a \<in> set (refs h' T y). m \<le> a)"

definition deep_copier :: "gotype \<Rightarrow> copier \<Rightarrow> bool" where
  "deep_copier T f \<longleftrightarrow>
     (\<forall>h v. wt h T v \<longrightarrow> deep_copy_of (length h) T h v (fst (f h v)) (snd (f h v)))"

named_theorems deep_copier_intros \<open>rules that a piece of copying code is a deep copier\<close>

lemma deep_copierD:
  "deep_copier T f \<Longrightarrow> wt h T v \<Longrightarrow> deep_copy_of (length h) T h v (fst (f h v)) (snd (f h v))"
  by (simp add: deep_copier_def)

text \<open>A copy stays one when the store grows, and when a cell it does not reach is written.\<close>

lemma deep_copy_grows:
  assumes "deep_copy_of m T h v h1 y" "prefix h1 h2"
  shows "deep_copy_of m T h v h2 y"
  using assms prefix_frame[of h1 T y h2]
  by (auto simp: deep_copy_of_def same_value_def intro: prefix_order.order_trans)

lemma prefix_update: "prefix h h' \<Longrightarrow> length h \<le> b \<Longrightarrow> prefix h (h'[b := c])"
  by (auto simp: prefix_def list_update_append)

lemma deep_copy_write:
  assumes "deep_copy_of m T h v h1 y" "length h \<le> b" "b < m"
  shows "deep_copy_of m T h v (h1[b := c]) y"
proof -
  have "same_value h1 (h1[b := c]) T y"
    using assms by (intro update_frame) (auto simp: deep_copy_of_def)
  then show ?thesis using assms by (auto simp: deep_copy_of_def same_value_def prefix_update)
qed

lemma deep_copy_from:
  assumes "deep_copy_of m T h1 v h2 y" "prefix h h1" "wt h T v" "l \<le> m"
  shows "deep_copy_of l T h v h2 y"
  using assms prefix_frame[of h T v h1]
  by (auto simp: deep_copy_of_def same_value_def intro: prefix_order.order_trans order_trans)

lemma flat_copier [deep_copier_intros]: "flat T \<Longrightarrow> deep_copier T copy_assign"
  by (simp add: deep_copier_def deep_copy_of_def copy_assign_def flat_value)

lemma prefix_snoc_length: "prefix (h @ [c]) h' \<Longrightarrow> length h < length h'"
  by (auto simp: prefix_def)

lemma ptr_copier [deep_copier_intros]:
  assumes f: "deep_copier T f"
  shows "deep_copier (TPtr T) (copy_ptr T f)"
  unfolding deep_copier_def
proof (intro allI impI)
  fix h v assume v: "wt h (TPtr T) v"
  show "deep_copy_of (length h) (TPtr T) h v (fst (copy_ptr T f h v)) (snd (copy_ptr T f h v))"
  proof (cases v)
    case (Ref a)
    define h1 where "h1 = h @ [Vals [zero_value T]]"
    obtain x where x: "array_at h a = [x]" "wt h T x"
      using v Ref by (auto simp: length_Suc_conv)
    obtain h2 y where r: "f h1 x = (h2, y)" by fastforce
    have "wt h1 T x" using x prefix_frame[of h T x h1] by (simp add: h1_def same_value_def)
    then have c: "deep_copy_of (length h1) T h1 x h2 y" using deep_copierD[OF f] r by fastforce
    then have p: "prefix h1 h2" by (simp add: deep_copy_of_def)
    have b: "length h < length h2" using p by (simp add: h1_def prefix_snoc_length)
    have "deep_copy_of (Suc (length h)) T h x h2 y"
      using deep_copy_from[OF c, of h "Suc (length h)"] x by (simp add: h1_def)
    from deep_copy_write[OF this, of "length h" "Vals [y]"]
    have d: "deep_copy_of (Suc (length h)) T h x (h2[length h := Vals [y]]) y" by simp
    have at: "array_at (h2[length h := Vals [y]]) (length h) = [y]"
      using b by (simp add: array_at_def)
    show ?thesis using d Ref r x at b
      by (auto simp: h1_def[symmetric] Let_def deep_copy_of_def)
  qed (use v in \<open>auto simp: deep_copy_of_def\<close>)
qed

text \<open>
  The loop over the elements: the cell \<open>b\<close> holds the elements copied so far and then zero values,
  and what is copied lives above \<open>b\<close>.
\<close>

lemma copy_elems_correct:
  assumes f: "deep_copier T f"
  shows "list_all (wt h0 T) xs \<Longrightarrow> prefix h0 h \<Longrightarrow> length h0 = b \<Longrightarrow> b < length h \<Longrightarrow>
    array_at h b = ys @ zs \<Longrightarrow> length zs = length xs \<Longrightarrow>
    list_all2 (\<lambda>v y. deep_copy_of (Suc b) T h0 v h y) vs ys \<Longrightarrow>
    \<exists>us. array_at (copy_elems f b (length ys) xs h) b = ys @ us \<and>
      b < length (copy_elems f b (length ys) xs h) \<and>
      prefix h0 (copy_elems f b (length ys) xs h) \<and>
      list_all2 (\<lambda>v y. deep_copy_of (Suc b) T h0 v (copy_elems f b (length ys) xs h) y)
        (vs @ xs) (ys @ us)"
proof (induction xs arbitrary: h ys zs vs)
  case Nil
  then show ?case by auto
next
  case (Cons x xs)
  obtain h1 y where r: "f h x = (h1, y)" by fastforce
  obtain z zs' where zs: "zs = z # zs'" using Cons.prems(6) by (cases zs) auto
  define h2 where "h2 = h1[b := Vals ((array_at h1 b)[length ys := y])]"
  have x: "wt h0 T x" "wt h T x"
    using Cons.prems prefix_frame[of h0 T x h] by (auto simp: same_value_def)
  have c: "deep_copy_of (length h) T h x h1 y" using deep_copierD[OF f x(2)] r by simp
  have p: "prefix h h1" using c by (simp add: deep_copy_of_def)
  have b: "b < length h1" using p Cons.prems(4) by (auto simp: prefix_def)
  have at1: "array_at h1 b = ys @ zs"
    using p Cons.prems(4,5) by (auto simp: prefix_def array_at_def nth_append)
  have at2: "array_at h2 b = (ys @ [y]) @ zs'"
    using b at1 zs by (simp add: h2_def array_at_def)
  have y: "deep_copy_of (Suc b) T h0 x h2 y"
    unfolding h2_def
    using deep_copy_write[OF deep_copy_from[OF c Cons.prems(2) x(1), of "Suc b"], of b] Cons.prems(3,4)
    by simp
  have ys: "list_all2 (\<lambda>v y. deep_copy_of (Suc b) T h0 v h2 y) vs ys"
  proof (rule list_all2_mono[OF Cons.prems(7)])
    fix v y' assume "deep_copy_of (Suc b) T h0 v h y'"
    then have "deep_copy_of (Suc b) T h0 v h1 y'" by (rule deep_copy_grows[OF _ p])
    then show "deep_copy_of (Suc b) T h0 v h2 y'"
      unfolding h2_def by (rule deep_copy_write) (simp_all add: Cons.prems(3))
  qed
  have "prefix h0 h2" using y by (simp add: deep_copy_of_def)
  moreover have "list_all2 (\<lambda>v y. deep_copy_of (Suc b) T h0 v h2 y) (vs @ [x]) (ys @ [y])"
    using ys y by (simp add: list_all2_appendI)
  moreover have "copy_elems f b (length ys) (x # xs) h = copy_elems f b (length (ys @ [y])) xs h2"
    using r by (simp add: h2_def)
  ultimately show ?case
    using Cons.IH[of h2 "ys @ [y]" zs' "vs @ [x]"] Cons.prems(1,3,6) at2 zs b
    by (auto simp: h2_def)
qed

lemma slice_at_length: "wt h (TSlice T) (SliceV a off n) \<Longrightarrow> length (slice_at h a off n) = n"
  by (auto simp: slice_at_def min_def)

lemma deep_copies_slice:
  assumes "wt h (TSlice T) (SliceV a off n)" "prefix h h'" "length h < length h'"
    "array_at h' (length h) = ys"
    "list_all2 (\<lambda>v y. deep_copy_of (Suc (length h)) T h v h' y) (slice_at h a off n) ys"
  shows "deep_copy_of (length h) (TSlice T) h (SliceV a off n) h' (SliceV (length h) 0 n)"
proof -
  have n: "length (slice_at h a off n) = n" using assms(1) by (rule slice_at_length)
  then have l: "length ys = n" using assms(5) by (auto dest: list_all2_lengthD)
  have s: "slice_at h' (length h) 0 n = ys" using assms(4) l by (simp add: slice_at_def)
  have i: "deep_copy_of (Suc (length h)) T h (slice_at h a off n ! i) h' (ys ! i)" if "i < n" for i
    using list_all2_nthD[OF assms(5)] that n by simp
  have "wt h' T y \<and> (\<forall>a \<in> set (refs h' T y). length h \<le> a)" if y: "y \<in> set ys" for y
  proof -
    obtain j where "j < n" "y = ys ! j" using y l by (auto simp: in_set_conv_nth)
    then show ?thesis using i[of j] by (auto simp: deep_copy_of_def)
  qed
  moreover have "map (contents h' T) ys = map (contents h T) (slice_at h a off n)"
    using i l n by (intro nth_equalityI) (auto simp: deep_copy_of_def)
  ultimately show ?thesis using assms(2-4) s l
    by (auto simp: deep_copy_of_def list_all_iff simp del: map_eq_conv)
qed

lemma slice_copier [deep_copier_intros]:
  assumes f: "deep_copier T f"
  shows "deep_copier (TSlice T) (copy_slice T f)"
  unfolding deep_copier_def
proof (intro allI impI)
  fix h v assume v: "wt h (TSlice T) v"
  show "deep_copy_of (length h) (TSlice T) h v (fst (copy_slice T f h v)) (snd (copy_slice T f h v))"
  proof (cases v)
    case (SliceV a off n)
    define h1 where "h1 = h @ [Vals (replicate n (zero_value T))]"
    let ?h2 = "copy_elems f (length h) 0 (slice_at h a off n) h1"
    have n: "length (slice_at h a off n) = n" using v SliceV by (metis slice_at_length)
    have "array_at h1 (length h) = [] @ replicate n (zero_value T)" by (simp add: h1_def array_at_def)
    then obtain us where "array_at ?h2 (length h) = us" "length h < length ?h2" "prefix h ?h2"
      "list_all2 (\<lambda>v y. deep_copy_of (Suc (length h)) T h v ?h2 y) (slice_at h a off n) us"
      using copy_elems_correct[OF f, of h "slice_at h a off n" h1 "length h" "[]" _ "[]"] v SliceV n
      by (auto simp: h1_def)
    from deep_copies_slice[OF v[unfolded SliceV] this(3,2,1,4)] show ?thesis
      by (simp add: SliceV copy_slice_def h1_def Let_def)
  qed (use v in \<open>auto simp: deep_copy_of_def copy_slice_def\<close>)
qed

lemma builtin_copier [deep_copier_intros]:
  assumes "flat T"
  shows "deep_copier (TSlice T) (copy_builtin T)"
  unfolding deep_copier_def
proof (intro allI impI)
  fix h v assume v: "wt h (TSlice T) v"
  show "deep_copy_of (length h) (TSlice T) h v (fst (copy_builtin T h v)) (snd (copy_builtin T h v))"
  proof (cases v)
    case (SliceV a off n)
    let ?h = "h @ [Vals (slice_at h a off n)]"
    have "deep_copy_of (Suc (length h)) T h x ?h x" if "x \<in> set (slice_at h a off n)" for x
      using that v SliceV prefix_frame[of h T x ?h] assms
      by (auto simp: deep_copy_of_def same_value_def list_all_iff flat_value)
    then have "list_all2 (\<lambda>v y. deep_copy_of (Suc (length h)) T h v ?h y)
        (slice_at h a off n) (slice_at h a off n)"
      by (simp add: list_all2_same)
    from deep_copies_slice[OF v[unfolded SliceV] _ _ _ this] show ?thesis
      by (simp add: SliceV Let_def array_at_def)
  qed (use v in \<open>auto simp: deep_copy_of_def\<close>)
qed

lemma update_fresh: "k \<notin> fst ` set es \<Longrightarrow> AList.update k x es = es @ [(k, x)]"
  by (induction es) auto

lemma put_entries:
  "distinct (map fst (es @ es')) \<Longrightarrow>
   fold (put_entry (length h)) es' (h @ [Entries es]) = h @ [Entries (es @ es')]"
proof (induction es' arbitrary: es)
  case (Cons e es')
  have "put_entry (length h) e (h @ [Entries es]) = h @ [Entries (es @ [e])]"
    using Cons.prems by (cases e) (simp add: entries_at_def update_fresh)
  then show ?case using Cons.IH[of "es @ [e]"] Cons.prems by simp
qed simp

lemma map_copier [deep_copier_intros]:
  assumes "flat T"
  shows "deep_copier (TMap T) copy_map"
  unfolding deep_copier_def
proof (intro allI impI)
  fix h v assume v: "wt h (TMap T) v"
  show "deep_copy_of (length h) (TMap T) h v (fst (copy_map h v)) (snd (copy_map h v))"
  proof (cases v)
    case (MapV a)
    let ?h = "h @ [Entries (entries_at h a)]"
    have c: "copy_map h v = (?h, MapV (length h))"
      using v MapV put_entries[of "[]" "entries_at h a" h] by (simp add: Let_def)
    have s: "same_value h ?h T (snd e)" "refs h T (snd e) = []" if "e \<in> set (entries_at h a)" for e
      using that v MapV prefix_frame[of h T "snd e" ?h] assms
      by (auto simp: list_all_iff flat_value)
    note same_values(1)[of "entries_at h a" h ?h T snd, OF s(1)]
      same_values(4)[of "entries_at h a" h ?h T snd fst, OF s(1)]
    moreover have "refs ?h T (snd e) = []" if "e \<in> set (entries_at h a)" for e
      using s[OF that] by (simp add: same_value_def)
    ultimately show ?thesis unfolding c deep_copy_of_def using v MapV
      by (simp add: entries_at_def[of ?h] del: map_eq_conv)
  qed (use v in \<open>auto simp: deep_copy_of_def\<close>)
qed

fun struct_keys :: "gv \<Rightarrow> string list" where
  "struct_keys (StructV kvs) = map fst kvs"
| "struct_keys _ = []"

lemma map_of_replace:
  "m \<noteq> n \<Longrightarrow> map_of (map (\<lambda>p. (fst p, if fst p = n then x else snd p)) kvs) m = map_of kvs m"
  "n \<in> set (map fst kvs) \<Longrightarrow> map_of (map (\<lambda>p. (fst p, if fst p = n then x else snd p)) kvs) n = Some x"
proof -
  assume "m \<noteq> n"
  then show "map_of (map (\<lambda>p. (fst p, if fst p = n then x else snd p)) kvs) m = map_of kvs m"
    by (induction kvs) simp_all
next
  assume "n \<in> set (map fst kvs)"
  then show "map_of (map (\<lambda>p. (fst p, if fst p = n then x else snd p)) kvs) n = Some x"
  proof (induction kvs)
    case (Cons q kvs)
    then show ?case by (cases "fst q = n") simp_all
  qed simp
qed

lemma field_set_field [simp]:
  assumes "n \<in> set (struct_keys v)"
  shows "field (set_field v n x) m = (if m = n then x else field v m)"
  using assms by (cases v) (simp_all add: map_of_replace del: set_map)

lemma set_field_keys [simp]: "struct_keys (set_field v n x) = struct_keys v"
  by (cases v) (auto simp: comp_def)

lemma wt_struct:
  "wt h (TStruct fs) v \<longleftrightarrow> (\<exists>kvs. v = StructV kvs) \<and> struct_keys v = map fst fs \<and>
     distinct (map fst fs) \<and> (\<forall>p \<in> set fs. wt h (snd p) (field v (fst p)))"
  by (cases v) (auto simp: list_all_iff simp del: field.simps)

declare wt.simps(5) [simp del]

text \<open>
  The fields: those already copied are deep copies, the others are still the ones of \<open>in\<close>.
\<close>

definition fields_copied :: "(string \<times> gotype) list \<Rightarrow> string set \<Rightarrow> store \<Rightarrow> gv \<Rightarrow> store \<Rightarrow> gv \<Rightarrow> bool" where
  "fields_copied fs N h0 v h out \<longleftrightarrow>
     prefix h0 h \<and> (\<exists>kvs. out = StructV kvs) \<and> struct_keys out = map fst fs \<and>
     (\<forall>p \<in> set fs. if fst p \<in> N
        then deep_copy_of (length h0) (snd p) h0 (field v (fst p)) h (field out (fst p))
        else field out (fst p) = field v (fst p))"

lemma copy_fields_correct:
  assumes v: "wt h0 (TStruct fs) v"
  shows "(\<And>p. p \<in> set ps \<Longrightarrow> \<exists>T. (fst p, T) \<in> set fs \<and> deep_copier T (snd p)) \<Longrightarrow>
    fields_copied fs N h0 v h out \<Longrightarrow>
    fields_copied fs (N \<union> fst ` set ps) h0 v (fst (copy_fields ps v h out)) (snd (copy_fields ps v h out))"
proof (induction ps arbitrary: N h out)
  case (Cons q ps)
  obtain n f where q: "q = (n, f)" by (cases q)
  obtain T where T: "(n, T) \<in> set fs" "deep_copier T f" using Cons.prems(1)[of q] q by auto
  obtain h1 y where r: "f h (field v n) = (h1, y)" by fastforce
  have p0: "prefix h0 h" and keys: "struct_keys out = map fst fs"
    using Cons.prems(2) by (simp_all add: fields_copied_def)
  have vn: "wt h0 T (field v n)" using v T(1) unfolding wt_struct by force
  then have "wt h T (field v n)" using prefix_frame[OF _ p0] by (auto simp: same_value_def)
  then have c: "deep_copy_of (length h) T h (field v n) h1 y" using deep_copierD[OF T(2)] r by fastforce
  then have p1: "prefix h h1" by (simp add: deep_copy_of_def)
  have y: "deep_copy_of (length h0) T h0 (field v n) h1 y"
    by (rule deep_copy_from[OF c p0 vn]) (simp add: p0 prefix_length_le)
  have n: "n \<in> set (struct_keys out)" using keys T(1) by force
  have u: "S = T" if "(n, S) \<in> set fs" for S
    using that T(1) v by (auto simp: wt_struct eq_key_imp_eq_value)
  have "fields_copied fs (insert n N) h0 v h1 (set_field out n y)"
    unfolding fields_copied_def
  proof (intro conjI ballI)
    show "prefix h0 h1" using p0 p1 by (rule prefix_order.order_trans)
    show "\<exists>kvs. set_field out n y = StructV kvs"
      using Cons.prems(2) by (auto simp: fields_copied_def)
    show "struct_keys (set_field out n y) = map fst fs" using keys by simp
    fix p assume p: "p \<in> set fs"
    show "if fst p \<in> insert n N
        then deep_copy_of (length h0) (snd p) h0 (field v (fst p)) h1 (field (set_field out n y) (fst p))
        else field (set_field out n y) (fst p) = field v (fst p)"
    proof (cases "fst p = n")
      case True
      then show ?thesis using y n u[of "snd p"] p by (cases p) auto
    next
      case False
      then show ?thesis using n p Cons.prems(2) deep_copy_grows[OF _ p1]
        by (auto simp: fields_copied_def)
    qed
  qed
  then have "fields_copied fs (insert n N \<union> fst ` set ps) h0 v
      (fst (copy_fields ps v h1 (set_field out n y))) (snd (copy_fields ps v h1 (set_field out n y)))"
    by (intro Cons.IH Cons.prems(1)) auto
  then show ?case using q r by simp
qed simp

lemma fields_copied_struct:
  assumes v: "wt h0 (TStruct fs) v" and c: "fields_copied fs N h0 v h out"
    and rest: "\<And>p. p \<in> set fs \<Longrightarrow> fst p \<notin> N \<Longrightarrow> flat (snd p)"
  shows "deep_copy_of (length h0) (TStruct fs) h0 v h out"
proof -
  have p0: "prefix h0 h" using c by (simp add: fields_copied_def)
  have d: "deep_copy_of (length h0) (snd p) h0 (field v (fst p)) h (field out (fst p))"
    if "p \<in> set fs" for p
  proof (cases "fst p \<in> N")
    case False
    have w: "wt h0 (snd p) (field v (fst p))" using v that by (simp add: wt_struct)
    have "field out (fst p) = field v (fst p)" using c that False by (auto simp: fields_copied_def)
    then show ?thesis using prefix_frame[OF w p0] flat_value[OF rest[OF that False] w] p0
      by (simp add: deep_copy_of_def same_value_def)
  qed (use c that in \<open>auto simp: fields_copied_def\<close>)
  have "wt h (TStruct fs) out"
    using c v d by (auto simp: fields_copied_def wt_struct deep_copy_of_def)
  moreover have "contents h (TStruct fs) out = contents h0 (TStruct fs) v"
    using d by (simp add: deep_copy_of_def)
  moreover have "\<forall>a \<in> set (refs h (TStruct fs) out). length h0 \<le> a"
    using d by (auto simp: deep_copy_of_def)
  ultimately show ?thesis using p0 by (simp add: deep_copy_of_def)
qed

text \<open>
  A struct is copied deeply when every statement copies an existing field deeply and every field
  without a statement is flat.
\<close>

lemma struct_copier:
  assumes "list_all (\<lambda>q. case map_of fs (fst q) of None \<Rightarrow> False | Some T \<Rightarrow> deep_copier T (snd q)) ps"
    and "list_all (\<lambda>p. fst p \<in> fst ` set ps \<or> flat (snd p)) fs"
  shows "deep_copier (TStruct fs) (copy_struct ps)"
  unfolding deep_copier_def copy_struct_def
proof (intro allI impI)
  fix h v assume v: "wt h (TStruct fs) v"
  have 0: "fields_copied fs {} h v h v" using v by (auto simp: fields_copied_def wt_struct)
  have "\<exists>T. (fst p, T) \<in> set fs \<and> deep_copier T (snd p)" if "p \<in> set ps" for p
    using assms(1) that by (fastforce simp: list_all_iff split: option.splits dest: map_of_SomeD)
  from copy_fields_correct[OF v this 0]
  show "deep_copy_of (length h) (TStruct fs) h v (fst (copy_fields ps v h v)) (snd (copy_fields ps v h v))"
    by (rule fields_copied_struct[OF v]) (use assms(2) in \<open>auto simp: list_all_iff\<close>)
qed

lemma flat_struct_copier: "flat T \<Longrightarrow> deep_copier T (copy_struct [])"
  by (simp add: deep_copier_def deep_copy_of_def copy_struct_def flat_value)

section \<open>Separation\<close>

text \<open>The store after writes to some of its cells.\<close>

definition write_cells :: "(nat \<times> cell) list \<Rightarrow> store \<Rightarrow> store" where
  "write_cells ws h = fold (\<lambda>w h. h[fst w := snd w]) ws h"

lemma writes_elsewhere:
  "fst ` set ws \<inter> A = {} \<Longrightarrow> agree A h (write_cells ws h)"
proof (induction ws arbitrary: h)
  case (Cons w ws)
  have "agree A (h[fst w := snd w]) (write_cells ws (h[fst w := snd w]))"
    using Cons.prems by (intro Cons.IH) auto
  then show ?case using Cons.prems unfolding agree_def write_cells_def
    by (metis (no_types, lifting) Int_iff empty_iff fold_simps(2) image_eqI length_list_update
        list.set_intros(1) nth_list_update_neq)
qed (simp add: agree_def write_cells_def)

text \<open>
  Whoever writes above the address where a copy starts leaves the original as it was, and whoever
  writes below it leaves the copy as it was.
\<close>

lemma original_separate:
  assumes "wt h T v" "deep_copy_of m T' h v' h' y" "\<forall>w \<in> set ws. length h \<le> fst w"
  shows "same_value h (write_cells ws h') T v"
proof (rule frame[OF assms(1)])
  have "fst ` set ws \<inter> set (refs h T v) = {}" using assms(1,3) refs_bound by fastforce
  then have "agree (set (refs h T v)) h' (write_cells ws h')" by (rule writes_elsewhere)
  moreover have "prefix h h'" using assms(2) by (simp add: deep_copy_of_def)
  ultimately show "agree (set (refs h T v)) h (write_cells ws h')"
    by (auto simp: agree_def prefix_def nth_append)
qed

lemma copy_separate:
  assumes "deep_copy_of m T h v h' y" "\<forall>w \<in> set ws. fst w < m"
  shows "same_value h' (write_cells ws h') T y"
proof (rule frame)
  show "wt h' T y" using assms(1) by (simp add: deep_copy_of_def)
  have "fst ` set ws \<inter> set (refs h' T y) = {}" using assms by (force simp: deep_copy_of_def)
  then show "agree (set (refs h' T y)) h' (write_cells ws h')" by (rule writes_elsewhere)
qed

end
