(* ===== verification/Deep_Copies.thy ===== *)
theory Deep_Copies
  imports Go_Memory
begin

text \<open>
  The generated copying code of the API objects
  (\<open>pkg/apis/metering/v1/zz_generated.deepcopy.go\<close>).  The types are described field by field from
  their declarations in the package (and from the vendored \<open>metav1\<close> and \<open>corev1\<close> declarations for
  the fields they embed); every \<open>DeepCopyInto\<close> lists the statements the generator emitted, in their
  order, and every \<open>DeepCopy\<close> and \<open>DeepCopyObject\<close> is built from it as in the code.  A struct of
  the list \<open>copy_struct [...]\<close> starts with \<open>*out = *in\<close>, so a field that has no statement is copied by
  assignment; the proofs check that such a field holds no pointer, slice or map.
\<close>

section \<open>The types\<close>

definition S3Bucket_type :: gotype where
  "S3Bucket_type =
     TStruct [(''Region'', TString),
     (''Bucket'', TString),
     (''Prefix'', TString)]"

definition AWSBillingDataSource_type :: gotype where
  "AWSBillingDataSource_type =
     TStruct [(''Source'', TPtr S3Bucket_type),
     (''DatabaseName'', TString)]"

definition hive_Column_type :: gotype where
  "hive_Column_type =
     TStruct [(''Name'', TString),
     (''Type'', TString)]"

definition HiveColumn_type :: gotype where
  "HiveColumn_type =
     hive_Column_type"

definition HiveStorageDefaultTableProperties_type :: gotype where
  "HiveStorageDefaultTableProperties_type =
     TStruct [(''RowFormat'', TString),
     (''FileFormat'', TString)]"

definition HiveStorage_type :: gotype where
  "HiveStorage_type =
     TStruct [(''UnmanagedDatabase'', TBool),
     (''DatabaseName'', TString),
     (''Location'', TString),
     (''DefaultTableProperties'', TPtr HiveStorageDefaultTableProperties_type)]"

definition HiveStorageStatus_type :: gotype where
  "HiveStorageStatus_type =
     TStruct [(''DatabaseName'', TString),
     (''Location'', TString)]"

definition TypeMeta_type :: gotype where
  "TypeMeta_type =
     TStruct [(''Kind'', TString),
     (''APIVersion'', TString)]"

definition Time_type :: gotype where
  "Time_type =
     TStruct [(''Time'', TBasic KTime)]"

definition OwnerReference_type :: gotype where
  "OwnerReference_type =
     TStruct [(''APIVersion'', TString),
     (''Kind'', TString),
     (''Name'', TString),
     (''UID'', TString),
     (''Controller'', TPtr TBool),
     (''BlockOwnerDeletion'', TPtr TBool)]"

definition Initializer_type :: gotype where
  "Initializer_type =
     TStruct [(''Name'', TString)]"

definition ListMeta_type :: gotype where
  "ListMeta_type =
     TStruct [(''SelfLink'', TString),
     (''ResourceVersion'', TString),
     (''Continue'', TString)]"

definition StatusCause_type :: gotype where
  "StatusCause_type =
     TStruct [(''Type'', TString),
     (''Message'', TString),
     (''Field'', TString)]"

definition StatusDetails_type :: gotype where
  "StatusDetails_type =
     TStruct [(''Name'', TString),
     (''Group'', TString),
     (''Kind'', TString),
     (''UID'', TString),
     (''Causes'', TSlice StatusCause_type),
     (''RetryAfterSeconds'', TInt)]"

definition Status_type :: gotype where
  "Status_type =
     TStruct [(''TypeMeta'', TypeMeta_type),
     (''ListMeta'', ListMeta_type),
     (''Status'', TString),
     (''Message'', TString),
     (''Reason'', TString),
     (''Details'', TPtr StatusDetails_type),
     (''Code'', TInt)]"

definition Initializers_type :: gotype where
  "Initializers_type =
     TStruct [(''Pending'', TSlice Initializer_type),
     (''Result'', TPtr Status_type)]"

definition ObjectMeta_type :: gotype where
  "ObjectMeta_type =
     TStruct [(''Name'', TString),
     (''GenerateName'', TString),
     (''Namespace'', TString),
     (''SelfLink'', TString),
     (''UID'', TString),
     (''ResourceVersion'', TString),
     (''Generation'', TInt),
     (''CreationTimestamp'', Time_type),
     (''DeletionTimestamp'', TPtr Time_type),
     (''DeletionGracePeriodSeconds'', TPtr TInt),
     (''Labels'', TMap TString),
     (''Annotations'', TMap TString),
     (''OwnerReferences'', TSlice OwnerReference_type),
     (''Initializers'', TPtr Initializers_type),
     (''Finalizers'', TSlice TString),
     (''ClusterName'', TString)]"

definition SortColumn_type :: gotype where
  "SortColumn_type =
     TStruct [(''Name'', TString),
     (''Decending'', TPtr TBool)]"

definition hive_TablePartition_type :: gotype where
  "hive_TablePartition_type =
     TStruct [(''Location'', TString),
     (''PartitionSpec'', TMap TString)]"

definition HiveTablePartition_type :: gotype where
  "HiveTablePartition_type =
     hive_TablePartition_type"

definition HiveTableSpec_type :: gotype where
  "HiveTableSpec_type =
     TStruct [(''DatabaseName'', TString),
     (''TableName'', TString),
     (''Columns'', TSlice hive_Column_type),
     (''PartitionedBy'', TSlice hive_Column_type),
     (''ClusteredBy'', TSlice TString),
     (''SortedBy'', TSlice SortColumn_type),
     (''NumBuckets'', TInt),
     (''Location'', TString),
     (''RowFormat'', TString),
     (''FileFormat'', TString),
     (''TableProperties'', TMap TString),
     (''External'', TBool),
     (''ManagePartitions'', TBool),
     (''Partitions'', TSlice HiveTablePartition_type)]"

definition HiveTableStatus_type :: gotype where
  "HiveTableStatus_type =
     TStruct [(''DatabaseName'', TString),
     (''TableName'', TString),
     (''Columns'', TSlice hive_Column_type),
     (''PartitionedBy'', TSlice hive_Column_type),
     (''ClusteredBy'', TSlice TString),
     (''SortedBy'', TSlice SortColumn_type),
     (''NumBuckets'', TInt),
     (''Location'', TString),
     (''RowFormat'', TString),
     (''FileFormat'', TString),
     (''TableProperties'', TMap TString),
     (''External'', TBool),
     (''Partitions'', TSlice HiveTablePartition_type)]"

definition HiveTable_type :: gotype where
  "HiveTable_type =
     TStruct [(''TypeMeta'', TypeMeta_type),
     (''ObjectMeta'', ObjectMeta_type),
     (''Spec'', HiveTableSpec_type),
     (''Status'', HiveTableStatus_type)]"

definition HiveTableList_type :: gotype where
  "HiveTableList_type =
     TStruct [(''TypeMeta'', TypeMeta_type),
     (''ListMeta'', ListMeta_type),
     (''Items'', TSlice (TPtr HiveTable_type))]"

definition presto_Column_type :: gotype where
  "presto_Column_type =
     TStruct [(''Name'', TString),
     (''Type'', TString)]"

definition PrestoTableSpec_type :: gotype where
  "PrestoTableSpec_type =
     TStruct [(''Unmanaged'', TBool),
     (''Catalog'', TString),
     (''Schema'', TString),
     (''TableName'', TString),
     (''Columns'', TSlice presto_Column_type),
     (''Properties'', TMap TString),
     (''Comment'', TString),
     (''View'', TBool),
     (''CreateTableAs'', TBool),
     (''Query'', TString)]"

definition PrestoTableStatus_type :: gotype where
  "PrestoTableStatus_type =
     TStruct [(''Catalog'', TString),
     (''Schema'', TString),
     (''TableName'', TString),
     (''Columns'', TSlice presto_Column_type),
     (''Properties'', TMap TString),
     (''Comment'', TString),
     (''View'', TBool),
     (''CreateTableAs'', TBool),
     (''Query'', TString)]"

definition PrestoTable_type :: gotype where
  "PrestoTable_type =
     TStruct [(''TypeMeta'', TypeMeta_type),
     (''ObjectMeta'', ObjectMeta_type),
     (''Spec'', PrestoTableSpec_type),
     (''Status'', PrestoTableStatus_type)]"

definition LocalObjectReference_type :: gotype where
  "LocalObjectReference_type =
     TStruct [(''Name'', TString)]"

definition PrestoTableDataSource_type :: gotype where
  "PrestoTableDataSource_type =
     TStruct [(''TableRef'', LocalObjectReference_type)]"

definition PrestoTableList_type :: gotype where
  "PrestoTableList_type =
     TStruct [(''TypeMeta'', TypeMeta_type),
     (''ListMeta'', ListMeta_type),
     (''Items'', TSlice (TPtr PrestoTable_type))]"

definition PrometheusConnectionConfig_type :: gotype where
  "PrometheusConnectionConfig_type =
     TStruct [(''URL'', TString)]"

definition PrometheusMetricsImportStatus_type :: gotype where
  "PrometheusMetricsImportStatus_type =
     TStruct [(''LastImportTime'', TPtr Time_type),
     (''ImportDataStartTime'', TPtr Time_type),
     (''ImportDataEndTime'', TPtr Time_type),
     (''EarliestImportedMetricTime'', TPtr Time_type),
     (''NewestImportedMetricTime'', TPtr Time_type)]"

definition Duration_type :: gotype where
  "Duration_type =
     TStruct [(''Duration'', TInt)]"

definition PrometheusQueryConfig_type :: gotype where
  "PrometheusQueryConfig_type =
     TStruct [(''QueryInterval'', TPtr Duration_type),
     (''StepSize'', TPtr Duration_type),
     (''ChunkSize'', TPtr Duration_type)]"

definition StorageLocationRef_type :: gotype where
  "StorageLocationRef_type =
     TStruct [(''StorageLocationName'', TString)]"

definition PrometheusMetricsImporterDataSource_type :: gotype where
  "PrometheusMetricsImporterDataSource_type =
     TStruct [(''Query'', TString),
     (''QueryConfig'', TPtr PrometheusQueryConfig_type),
     (''Storage'', TPtr StorageLocationRef_type),
     (''PrometheusConfig'', TPtr PrometheusConnectionConfig_type)]"

definition ReportScheduleCron_type :: gotype where
  "ReportScheduleCron_type =
     TStruct [(''Expression'', TString)]"

definition ReportScheduleHourly_type :: gotype where
  "ReportScheduleHourly_type =
     TStruct [(''Minute'', TInt),
     (''Second'', TInt)]"

definition ReportScheduleDaily_type :: gotype where
  "ReportScheduleDaily_type =
     TStruct [(''Hour'', TInt),
     (''Minute'', TInt),
     (''Second'', TInt)]"

definition ReportScheduleWeekly_type :: gotype where
  "ReportScheduleWeekly_type =
     TStruct [(''DayOfWeek'', TPtr TString),
     (''Hour'', TInt),
     (''Minute'', TInt),
     (''Second'', TInt)]"

definition ReportScheduleMonthly_type :: gotype where
  "ReportScheduleMonthly_type =
     TStruct [(''DayOfMonth'', TPtr TInt),
     (''Hour'', TInt),
     (''Minute'', TInt),
     (''Second'', TInt)]"

definition ReportSchedule_type :: gotype where
  "ReportSchedule_type =
     TStruct [(''Period'', TString),
     (''Cron'', TPtr ReportScheduleCron_type),
     (''Hourly'', TPtr ReportScheduleHourly_type),
     (''Daily'', TPtr ReportScheduleDaily_type),
     (''Weekly'', TPtr ReportScheduleWeekly_type),
     (''Monthly'', TPtr ReportScheduleMonthly_type)]"

definition ReportQueryInputValue_type :: gotype where
  "ReportQueryInputValue_type =
     TStruct [(''Name'', TString),
     (''Value'', TPtr (TSlice TByte))]"

definition ReportQueryInputValues_type :: gotype where
  "ReportQueryInputValues_type =
     TSlice ReportQueryInputValue_type"

definition ReportSpec_type :: gotype where
  "ReportSpec_type =
     TStruct [(''QueryName'', TString),
     (''Schedule'', TPtr ReportSchedule_type),
     (''ReportingStart'', TPtr Time_type),
     (''ReportingEnd'', TPtr Time_type),
     (''OverwriteExistingData'', TBool),
     (''RunImmediately'', TBool),
     (''Inputs'', ReportQueryInputValues_type),
     (''Output'', TPtr StorageLocationRef_type)]"

definition ReportCondition_type :: gotype where
  "ReportCondition_type =
     TStruct [(''Type'', TString),
     (''Status'', TString),
     (''LastUpdateTime'', Time_type),
     (''LastTransitionTime'', Time_type),
     (''Reason'', TString),
     (''Message'', TString)]"

definition ReportStatus_type :: gotype where
  "ReportStatus_type =
     TStruct [(''Conditions'', TSlice ReportCondition_type),
     (''LastReportTime'', TPtr Time_type),
     (''NextReportTime'', TPtr Time_type),
     (''TableRef'', LocalObjectReference_type)]"

definition Report_type :: gotype where
  "Report_type =
     TStruct [(''TypeMeta'', TypeMeta_type),
     (''ObjectMeta'', ObjectMeta_type),
     (''Spec'', ReportSpec_type),
     (''Status'', ReportStatus_type)]"

definition ReportQueryViewDataSource_type :: gotype where
  "ReportQueryViewDataSource_type =
     TStruct [(''QueryName'', TString),
     (''Inputs'', ReportQueryInputValues_type),
     (''Storage'', TPtr StorageLocationRef_type)]"

definition ReportDataSourceSpec_type :: gotype where
  "ReportDataSourceSpec_type =
     TStruct [(''PrometheusMetricsImporter'', TPtr PrometheusMetricsImporterDataSource_type),
     (''AWSBilling'', TPtr AWSBillingDataSource_type),
     (''PrestoTable'', TPtr PrestoTableDataSource_type),
     (''ReportQueryView'', TPtr ReportQueryViewDataSource_type)]"

definition ReportDataSourceStatus_type :: gotype where
  "ReportDataSourceStatus_type =
     TStruct [(''TableRef'', LocalObjectReference_type),
     (''PrometheusMetricsImportStatus'', TPtr PrometheusMetricsImportStatus_type)]"

definition ReportDataSource_type :: gotype where
  "ReportDataSource_type =
     TStruct [(''TypeMeta'', TypeMeta_type),
     (''ObjectMeta'', ObjectMeta_type),
     (''Spec'', ReportDataSourceSpec_type),
     (''Status'', ReportDataSourceStatus_type)]"

definition ReportDataSourceList_type :: gotype where
  "ReportDataSourceList_type =
     TStruct [(''TypeMeta'', TypeMeta_type),
     (''ListMeta'', ListMeta_type),
     (''Items'', TSlice (TPtr ReportDataSource_type))]"

definition ReportList_type :: gotype where
  "ReportList_type =
     TStruct [(''TypeMeta'', TypeMeta_type),
     (''ListMeta'', ListMeta_type),
     (''Items'', TSlice (TPtr Report_type))]"

definition ReportQueryColumn_type :: gotype where
  "ReportQueryColumn_type =
     TStruct [(''Name'', TString),
     (''Type'', TString),
     (''TableHidden'', TBool),
     (''Unit'', TString)]"

definition ReportQueryInputDefinition_type :: gotype where
  "ReportQueryInputDefinition_type =
     TStruct [(''Name'', TString),
     (''Required'', TBool),
     (''Type'', TString),
     (''Default'', TPtr (TSlice TByte))]"

definition ReportQuerySpec_type :: gotype where
  "ReportQuerySpec_type =
     TStruct [(''Columns'', TSlice ReportQueryColumn_type),
     (''Query'', TString),
     (''Inputs'', TSlice ReportQueryInputDefinition_type)]"

definition ReportQueryStatus_type :: gotype where
  "ReportQueryStatus_type =
     TStruct []"

definition ReportQuery_type :: gotype where
  "ReportQuery_type =
     TStruct [(''TypeMeta'', TypeMeta_type),
     (''ObjectMeta'', ObjectMeta_type),
     (''Spec'', ReportQuerySpec_type),
     (''Status'', ReportQueryStatus_type)]"

definition ReportQueryList_type :: gotype where
  "ReportQueryList_type =
     TStruct [(''TypeMeta'', TypeMeta_type),
     (''ListMeta'', ListMeta_type),
     (''Items'', TSlice (TPtr ReportQuery_type))]"

definition StorageLocationSpec_type :: gotype where
  "StorageLocationSpec_type =
     TStruct [(''Hive'', TPtr HiveStorage_type)]"

definition StorageLocationStatus_type :: gotype where
  "StorageLocationStatus_type =
     TStruct [(''Hive'', HiveStorageStatus_type)]"

definition StorageLocation_type :: gotype where
  "StorageLocation_type =
     TStruct [(''TypeMeta'', TypeMeta_type),
     (''ObjectMeta'', ObjectMeta_type),
     (''Spec'', StorageLocationSpec_type),
     (''Status'', StorageLocationStatus_type)]"

definition StorageLocationList_type :: gotype where
  "StorageLocationList_type =
     TStruct [(''TypeMeta'', TypeMeta_type),
     (''ListMeta'', ListMeta_type),
     (''Items'', TSlice (TPtr StorageLocation_type))]"

section \<open>DeepCopyInto\<close>

definition AWSBillingDataSource_DeepCopyInto :: copier where
  "AWSBillingDataSource_DeepCopyInto =
     copy_struct [(''Source'', copy_ptr S3Bucket_type copy_assign)]"

definition HiveColumn_DeepCopyInto :: copier where
  "HiveColumn_DeepCopyInto =
     copy_struct []"

definition HiveStorage_DeepCopyInto :: copier where
  "HiveStorage_DeepCopyInto =
     copy_struct [(''DefaultTableProperties'', copy_ptr HiveStorageDefaultTableProperties_type copy_assign)]"

definition HiveStorageDefaultTableProperties_DeepCopyInto :: copier where
  "HiveStorageDefaultTableProperties_DeepCopyInto =
     copy_struct []"

definition HiveStorageStatus_DeepCopyInto :: copier where
  "HiveStorageStatus_DeepCopyInto =
     copy_struct []"

definition Time_DeepCopyInto :: copier where
  "Time_DeepCopyInto =
     copy_struct []"

definition Time_DeepCopy :: copier where
  "Time_DeepCopy = copy_ptr Time_type Time_DeepCopyInto"

definition OwnerReference_DeepCopyInto :: copier where
  "OwnerReference_DeepCopyInto =
     copy_struct [(''Controller'', copy_ptr TBool copy_assign),
     (''BlockOwnerDeletion'', copy_ptr TBool copy_assign)]"

definition StatusDetails_DeepCopyInto :: copier where
  "StatusDetails_DeepCopyInto =
     copy_struct [(''Causes'', copy_builtin StatusCause_type)]"

definition Status_DeepCopyInto :: copier where
  "Status_DeepCopyInto =
     copy_struct [(''TypeMeta'', copy_assign),
     (''ListMeta'', copy_assign),
     (''Details'', copy_ptr StatusDetails_type StatusDetails_DeepCopyInto)]"

definition Initializers_DeepCopyInto :: copier where
  "Initializers_DeepCopyInto =
     copy_struct [(''Pending'', copy_builtin Initializer_type),
     (''Result'', copy_ptr Status_type Status_DeepCopyInto)]"

definition ObjectMeta_DeepCopyInto :: copier where
  "ObjectMeta_DeepCopyInto =
     copy_struct [(''CreationTimestamp'', Time_DeepCopyInto),
     (''DeletionTimestamp'', Time_DeepCopy),
     (''DeletionGracePeriodSeconds'', copy_ptr TInt copy_assign),
     (''Labels'', copy_map),
     (''Annotations'', copy_map),
     (''OwnerReferences'', copy_slice OwnerReference_type OwnerReference_DeepCopyInto),
     (''Initializers'', copy_ptr Initializers_type Initializers_DeepCopyInto),
     (''Finalizers'', copy_builtin TString)]"

definition SortColumn_DeepCopyInto :: copier where
  "SortColumn_DeepCopyInto =
     copy_struct [(''Decending'', copy_ptr TBool copy_assign)]"

definition HiveTablePartition_DeepCopyInto :: copier where
  "HiveTablePartition_DeepCopyInto =
     copy_struct [(''PartitionSpec'', copy_map)]"

definition HiveTableSpec_DeepCopyInto :: copier where
  "HiveTableSpec_DeepCopyInto =
     copy_struct [(''Columns'', copy_builtin hive_Column_type),
     (''PartitionedBy'', copy_builtin hive_Column_type),
     (''ClusteredBy'', copy_builtin TString),
     (''SortedBy'', copy_slice SortColumn_type SortColumn_DeepCopyInto),
     (''TableProperties'', copy_map),
     (''Partitions'', copy_slice HiveTablePartition_type HiveTablePartition_DeepCopyInto)]"

definition HiveTableStatus_DeepCopyInto :: copier where
  "HiveTableStatus_DeepCopyInto =
     copy_struct [(''Columns'', copy_builtin hive_Column_type),
     (''PartitionedBy'', copy_builtin hive_Column_type),
     (''ClusteredBy'', copy_builtin TString),
     (''SortedBy'', copy_slice SortColumn_type SortColumn_DeepCopyInto),
     (''TableProperties'', copy_map),
     (''Partitions'', copy_slice HiveTablePartition_type HiveTablePartition_DeepCopyInto)]"

definition HiveTable_DeepCopyInto :: copier where
  "HiveTable_DeepCopyInto =
     copy_struct [(''TypeMeta'', copy_assign),
     (''ObjectMeta'', ObjectMeta_DeepCopyInto),
     (''Spec'', HiveTableSpec_DeepCopyInto),
     (''Status'', HiveTableStatus_DeepCopyInto)]"

definition HiveTableList_DeepCopyInto :: copier where
  "HiveTableList_DeepCopyInto =
     copy_struct [(''TypeMeta'', copy_assign),
     (''ListMeta'', copy_assign),
     (''Items'', copy_slice (TPtr HiveTable_type) (copy_ptr HiveTable_type HiveTable_DeepCopyInto))]"

definition PrestoTableSpec_DeepCopyInto :: copier where
  "PrestoTableSpec_DeepCopyInto =
     copy_struct [(''Columns'', copy_builtin presto_Column_type),
     (''Properties'', copy_map)]"

definition PrestoTableStatus_DeepCopyInto :: copier where
  "PrestoTableStatus_DeepCopyInto =
     copy_struct [(''Columns'', copy_builtin presto_Column_type),
     (''Properties'', copy_map)]"

definition PrestoTable_DeepCopyInto :: copier where
  "PrestoTable_DeepCopyInto =
     copy_struct [(''TypeMeta'', copy_assign),
     (''ObjectMeta'', ObjectMeta_DeepCopyInto),
     (''Spec'', PrestoTableSpec_DeepCopyInto),
     (''Status'', PrestoTableStatus_DeepCopyInto)]"

definition PrestoTableDataSource_DeepCopyInto :: copier where
  "PrestoTableDataSource_DeepCopyInto =
     copy_struct [(''TableRef'', copy_assign)]"

definition PrestoTableList_DeepCopyInto :: copier where
  "PrestoTableList_DeepCopyInto =
     copy_struct [(''TypeMeta'', copy_assign),
     (''ListMeta'', copy_assign),
     (''Items'', copy_slice (TPtr PrestoTable_type) (copy_ptr PrestoTable_type PrestoTable_DeepCopyInto))]"

definition PrometheusConnectionConfig_DeepCopyInto :: copier where
  "PrometheusConnectionConfig_DeepCopyInto =
     copy_struct []"

definition PrometheusMetricsImportStatus_DeepCopyInto :: copier where
  "PrometheusMetricsImportStatus_DeepCopyInto =
     copy_struct [(''LastImportTime'', Time_DeepCopy),
     (''ImportDataStartTime'', Time_DeepCopy),
     (''ImportDataEndTime'', Time_DeepCopy),
     (''EarliestImportedMetricTime'', Time_DeepCopy),
     (''NewestImportedMetricTime'', Time_DeepCopy)]"

definition PrometheusQueryConfig_DeepCopyInto :: copier where
  "PrometheusQueryConfig_DeepCopyInto =
     copy_struct [(''QueryInterval'', copy_ptr Duration_type copy_assign),
     (''StepSize'', copy_ptr Duration_type copy_assign),
     (''ChunkSize'', copy_ptr Duration_type copy_assign)]"

definition PrometheusMetricsImporterDataSource_DeepCopyInto :: copier where
  "PrometheusMetricsImporterDataSource_DeepCopyInto =
     copy_struct [(''QueryConfig'', copy_ptr PrometheusQueryConfig_type PrometheusQueryConfig_DeepCopyInto),
     (''Storage'', copy_ptr StorageLocationRef_type copy_assign),
     (''PrometheusConfig'', copy_ptr PrometheusConnectionConfig_type copy_assign)]"

definition ReportScheduleWeekly_DeepCopyInto :: copier where
  "ReportScheduleWeekly_DeepCopyInto =
     copy_struct [(''DayOfWeek'', copy_ptr TString copy_assign)]"

definition ReportScheduleMonthly_DeepCopyInto :: copier where
  "ReportScheduleMonthly_DeepCopyInto =
     copy_struct [(''DayOfMonth'', copy_ptr TInt copy_assign)]"

definition ReportSchedule_DeepCopyInto :: copier where
  "ReportSchedule_DeepCopyInto =
     copy_struct [(''Cron'', copy_ptr ReportScheduleCron_type copy_assign),
     (''Hourly'', copy_ptr ReportScheduleHourly_type copy_assign),
     (''Daily'', copy_ptr ReportScheduleDaily_type copy_assign),
     (''Weekly'', copy_ptr ReportScheduleWeekly_type ReportScheduleWeekly_DeepCopyInto),
     (''Monthly'', copy_ptr ReportScheduleMonthly_type ReportScheduleMonthly_DeepCopyInto)]"

definition ReportQueryInputValue_DeepCopyInto :: copier where
  "ReportQueryInputValue_DeepCopyInto =
     copy_struct [(''Value'', copy_ptr (TSlice TByte) (copy_builtin TByte))]"

definition ReportSpec_DeepCopyInto :: copier where
  "ReportSpec_DeepCopyInto =
     copy_struct [(''Schedule'', copy_ptr ReportSchedule_type ReportSchedule_DeepCopyInto),
     (''ReportingStart'', Time_DeepCopy),
     (''ReportingEnd'', Time_DeepCopy),
     (''Inputs'', copy_slice ReportQueryInputValue_type ReportQueryInputValue_DeepCopyInto),
     (''Output'', copy_ptr StorageLocationRef_type copy_assign)]"

definition ReportCondition_DeepCopyInto :: copier where
  "ReportCondition_DeepCopyInto =
     copy_struct [(''LastUpdateTime'', Time_DeepCopyInto),
     (''LastTransitionTime'', Time_DeepCopyInto)]"

definition ReportStatus_DeepCopyInto :: copier where
  "ReportStatus_DeepCopyInto =
     copy_struct [(''Conditions'', copy_slice ReportCondition_type ReportCondition_DeepCopyInto),
     (''LastReportTime'', Time_DeepCopy),
     (''NextReportTime'', Time_DeepCopy),
     (''TableRef'', copy_assign)]"

definition Report_DeepCopyInto :: copier where
  "Report_DeepCopyInto =
     copy_struct [(''TypeMeta'', copy_assign),
     (''ObjectMeta'', ObjectMeta_DeepCopyInto),
     (''Spec'', ReportSpec_DeepCopyInto),
     (''Status'', ReportStatus_DeepCopyInto)]"

definition ReportQueryViewDataSource_DeepCopyInto :: copier where
  "ReportQueryViewDataSource_DeepCopyInto =
     copy_struct [(''Inputs'', copy_slice ReportQueryInputValue_type ReportQueryInputValue_DeepCopyInto),
     (''Storage'', copy_ptr StorageLocationRef_type copy_assign)]"

definition ReportDataSourceSpec_DeepCopyInto :: copier where
  "ReportDataSourceSpec_DeepCopyInto =
     copy_struct [(''PrometheusMetricsImporter'', copy_ptr PrometheusMetricsImporterDataSource_type PrometheusMetricsImporterDataSource_DeepCopyInto),
     (''AWSBilling'', copy_ptr AWSBillingDataSource_type AWSBillingDataSource_DeepCopyInto),
     (''PrestoTable'', copy_ptr PrestoTableDataSource_type copy_assign),
     (''ReportQueryView'', copy_ptr ReportQueryViewDataSource_type ReportQueryViewDataSource_DeepCopyInto)]"

definition ReportDataSourceStatus_DeepCopyInto :: copier where
  "ReportDataSourceStatus_DeepCopyInto =
     copy_struct [(''TableRef'', copy_assign),
     (''PrometheusMetricsImportStatus'', copy_ptr PrometheusMetricsImportStatus_type PrometheusMetricsImportStatus_DeepCopyInto)]"

definition ReportDataSource_DeepCopyInto :: copier where
  "ReportDataSource_DeepCopyInto =
     copy_struct [(''TypeMeta'', copy_assign),
     (''ObjectMeta'', ObjectMeta_DeepCopyInto),
     (''Spec'', ReportDataSourceSpec_DeepCopyInto),
     (''Status'', ReportDataSourceStatus_DeepCopyInto)]"

definition ReportDataSourceList_DeepCopyInto :: copier where
  "ReportDataSourceList_DeepCopyInto =
     copy_struct [(''TypeMeta'', copy_assign),
     (''ListMeta'', copy_assign),
     (''Items'', copy_slice (TPtr ReportDataSource_type) (copy_ptr ReportDataSource_type ReportDataSource_DeepCopyInto))]"

definition ReportList_DeepCopyInto :: copier where
  "ReportList_DeepCopyInto =
     copy_struct [(''TypeMeta'', copy_assign),
     (''ListMeta'', copy_assign),
     (''Items'', copy_slice (TPtr Report_type) (copy_ptr Report_type Report_DeepCopyInto))]"

definition ReportQueryInputDefinition_DeepCopyInto :: copier where
  "ReportQueryInputDefinition_DeepCopyInto =
     copy_struct [(''Default'', copy_ptr (TSlice TByte) (copy_builtin TByte))]"

definition ReportQuerySpec_DeepCopyInto :: copier where
  "ReportQuerySpec_DeepCopyInto =
     copy_struct [(''Columns'', copy_builtin ReportQueryColumn_type),
     (''Inputs'', copy_slice ReportQueryInputDefinition_type ReportQueryInputDefinition_DeepCopyInto)]"

definition ReportQuery_DeepCopyInto :: copier where
  "ReportQuery_DeepCopyInto =
     copy_struct [(''TypeMeta'', copy_assign),
     (''ObjectMeta'', ObjectMeta_DeepCopyInto),
     (''Spec'', ReportQuerySpec_DeepCopyInto),
     (''Status'', copy_assign)]"

definition ReportQueryColumn_DeepCopyInto :: copier where
  "ReportQueryColumn_DeepCopyInto =
     copy_struct []"

definition ReportQueryInputValues_DeepCopyInto :: copier where
  "ReportQueryInputValues_DeepCopyInto =
     make_slice ReportQueryInputValue_type ReportQueryInputValue_DeepCopyInto"

definition ReportQueryList_DeepCopyInto :: copier where
  "ReportQueryList_DeepCopyInto =
     copy_struct [(''TypeMeta'', copy_assign),
     (''ListMeta'', copy_assign),
     (''Items'', copy_slice (TPtr ReportQuery_type) (copy_ptr ReportQuery_type ReportQuery_DeepCopyInto))]"

definition ReportQueryStatus_DeepCopyInto :: copier where
  "ReportQueryStatus_DeepCopyInto =
     copy_struct []"

definition ReportScheduleCron_DeepCopyInto :: copier where
  "ReportScheduleCron_DeepCopyInto =
     copy_struct []"

definition ReportScheduleDaily_DeepCopyInto :: copier where
  "ReportScheduleDaily_DeepCopyInto =
     copy_struct []"

definition ReportScheduleHourly_DeepCopyInto :: copier where
  "ReportScheduleHourly_DeepCopyInto =
     copy_struct []"

definition S3Bucket_DeepCopyInto :: copier where
  "S3Bucket_DeepCopyInto =
     copy_struct []"

definition StorageLocationSpec_DeepCopyInto :: copier where
  "StorageLocationSpec_DeepCopyInto =
     copy_struct [(''Hive'', copy_ptr HiveStorage_type HiveStorage_DeepCopyInto)]"

definition StorageLocation_DeepCopyInto :: copier where
  "StorageLocation_DeepCopyInto =
     copy_struct [(''TypeMeta'', copy_assign),
     (''ObjectMeta'', ObjectMeta_DeepCopyInto),
     (''Spec'', StorageLocationSpec_DeepCopyInto),
     (''Status'', copy_assign)]"

definition StorageLocationList_DeepCopyInto :: copier where
  "StorageLocationList_DeepCopyInto =
     copy_struct [(''TypeMeta'', copy_assign),
     (''ListMeta'', copy_assign),
     (''Items'', copy_slice (TPtr StorageLocation_type) (copy_ptr StorageLocation_type StorageLocation_DeepCopyInto))]"

definition StorageLocationRef_DeepCopyInto :: copier where
  "StorageLocationRef_DeepCopyInto =
     copy_struct []"

definition StorageLocationStatus_DeepCopyInto :: copier where
  "StorageLocationStatus_DeepCopyInto =
     copy_struct [(''Hive'', copy_assign)]"

section \<open>DeepCopy\<close>

definition AWSBillingDataSource_DeepCopy :: copier where
  "AWSBillingDataSource_DeepCopy = copy_ptr AWSBillingDataSource_type AWSBillingDataSource_DeepCopyInto"

definition HiveColumn_DeepCopy :: copier where
  "HiveColumn_DeepCopy = copy_ptr HiveColumn_type HiveColumn_DeepCopyInto"

definition HiveStorage_DeepCopy :: copier where
  "HiveStorage_DeepCopy = copy_ptr HiveStorage_type HiveStorage_DeepCopyInto"

definition HiveStorageDefaultTableProperties_DeepCopy :: copier where
  "HiveStorageDefaultTableProperties_DeepCopy = copy_ptr HiveStorageDefaultTableProperties_type HiveStorageDefaultTableProperties_DeepCopyInto"

definition HiveStorageStatus_DeepCopy :: copier where
  "HiveStorageStatus_DeepCopy = copy_ptr HiveStorageStatus_type HiveStorageStatus_DeepCopyInto"

definition HiveTable_DeepCopy :: copier where
  "HiveTable_DeepCopy = copy_ptr HiveTable_type HiveTable_DeepCopyInto"

definition HiveTableList_DeepCopy :: copier where
  "HiveTableList_DeepCopy = copy_ptr HiveTableList_type HiveTableList_DeepCopyInto"

definition HiveTablePartition_DeepCopy :: copier where
  "HiveTablePartition_DeepCopy = copy_ptr HiveTablePartition_type HiveTablePartition_DeepCopyInto"

definition HiveTableSpec_DeepCopy :: copier where
  "HiveTableSpec_DeepCopy = copy_ptr HiveTableSpec_type HiveTableSpec_DeepCopyInto"

definition HiveTableStatus_DeepCopy :: copier where
  "HiveTableStatus_DeepCopy = copy_ptr HiveTableStatus_type HiveTableStatus_DeepCopyInto"

definition PrestoTable_DeepCopy :: copier where
  "PrestoTable_DeepCopy = copy_ptr PrestoTable_type PrestoTable_DeepCopyInto"

definition PrestoTableDataSource_DeepCopy :: copier where
  "PrestoTableDataSource_DeepCopy = copy_ptr PrestoTableDataSource_type PrestoTableDataSource_DeepCopyInto"

definition PrestoTableList_DeepCopy :: copier where
  "PrestoTableList_DeepCopy = copy_ptr PrestoTableList_type PrestoTableList_DeepCopyInto"

definition PrestoTableSpec_DeepCopy :: copier where
  "PrestoTableSpec_DeepCopy = copy_ptr PrestoTableSpec_type PrestoTableSpec_DeepCopyInto"

definition PrestoTableStatus_DeepCopy :: copier where
  "PrestoTableStatus_DeepCopy = copy_ptr PrestoTableStatus_type PrestoTableStatus_DeepCopyInto"

definition PrometheusConnectionConfig_DeepCopy :: copier where
  "PrometheusConnectionConfig_DeepCopy = copy_ptr PrometheusConnectionConfig_type PrometheusConnectionConfig_DeepCopyInto"

definition PrometheusMetricsImportStatus_DeepCopy :: copier where
  "PrometheusMetricsImportStatus_DeepCopy = copy_ptr PrometheusMetricsImportStatus_type PrometheusMetricsImportStatus_DeepCopyInto"

definition PrometheusMetricsImporterDataSource_DeepCopy :: copier where
  "PrometheusMetricsImporterDataSource_DeepCopy = copy_ptr PrometheusMetricsImporterDataSource_type PrometheusMetricsImporterDataSource_DeepCopyInto"

definition PrometheusQueryConfig_DeepCopy :: copier where
  "PrometheusQueryConfig_DeepCopy = copy_ptr PrometheusQueryConfig_type PrometheusQueryConfig_DeepCopyInto"

definition Report_DeepCopy :: copier where
  "Report_DeepCopy = copy_ptr Report_type Report_DeepCopyInto"

definition ReportCondition_DeepCopy :: copier where
  "ReportCondition_DeepCopy = copy_ptr ReportCondition_type ReportCondition_DeepCopyInto"

definition ReportDataSource_DeepCopy :: copier where
  "ReportDataSource_DeepCopy = copy_ptr ReportDataSource_type ReportDataSource_DeepCopyInto"

definition ReportDataSourceList_DeepCopy :: copier where
  "ReportDataSourceList_DeepCopy = copy_ptr ReportDataSourceList_type ReportDataSourceList_DeepCopyInto"

definition ReportDataSourceSpec_DeepCopy :: copier where
  "ReportDataSourceSpec_DeepCopy = copy_ptr ReportDataSourceSpec_type ReportDataSourceSpec_DeepCopyInto"

definition ReportDataSourceStatus_DeepCopy :: copier where
  "ReportDataSourceStatus_DeepCopy = copy_ptr ReportDataSourceStatus_type ReportDataSourceStatus_DeepCopyInto"

definition ReportList_DeepCopy :: copier where
  "ReportList_DeepCopy = copy_ptr ReportList_type ReportList_DeepCopyInto"

definition ReportQuery_DeepCopy :: copier where
  "ReportQuery_DeepCopy = copy_ptr ReportQuery_type ReportQuery_DeepCopyInto"

definition ReportQueryColumn_DeepCopy :: copier where
  "ReportQueryColumn_DeepCopy = copy_ptr ReportQueryColumn_type ReportQueryColumn_DeepCopyInto"

definition ReportQueryInputDefinition_DeepCopy :: copier where
  "ReportQueryInputDefinition_DeepCopy = copy_ptr ReportQueryInputDefinition_type ReportQueryInputDefinition_DeepCopyInto"

definition ReportQueryInputValue_DeepCopy :: copier where
  "ReportQueryInputValue_DeepCopy = copy_ptr ReportQueryInputValue_type ReportQueryInputValue_DeepCopyInto"

definition ReportQueryInputValues_DeepCopy :: copier where
  "ReportQueryInputValues_DeepCopy h v = (if v = NilV then (h, NilV) else ReportQueryInputValues_DeepCopyInto h v)"

definition ReportQueryList_DeepCopy :: copier where
  "ReportQueryList_DeepCopy = copy_ptr ReportQueryList_type ReportQueryList_DeepCopyInto"

definition ReportQuerySpec_DeepCopy :: copier where
  "ReportQuerySpec_DeepCopy = copy_ptr ReportQuerySpec_type ReportQuerySpec_DeepCopyInto"

definition ReportQueryStatus_DeepCopy :: copier where
  "ReportQueryStatus_DeepCopy = copy_ptr ReportQueryStatus_type ReportQueryStatus_DeepCopyInto"

definition ReportQueryViewDataSource_DeepCopy :: copier where
  "ReportQueryViewDataSource_DeepCopy = copy_ptr ReportQueryViewDataSource_type ReportQueryViewDataSource_DeepCopyInto"

definition ReportSchedule_DeepCopy :: copier where
  "ReportSchedule_DeepCopy = copy_ptr ReportSchedule_type ReportSchedule_DeepCopyInto"

definition ReportScheduleCron_DeepCopy :: copier where
  "ReportScheduleCron_DeepCopy = copy_ptr ReportScheduleCron_type ReportScheduleCron_DeepCopyInto"

definition ReportScheduleDaily_DeepCopy :: copier where
  "ReportScheduleDaily_DeepCopy = copy_ptr ReportScheduleDaily_type ReportScheduleDaily_DeepCopyInto"

definition ReportScheduleHourly_DeepCopy :: copier where
  "ReportScheduleHourly_DeepCopy = copy_ptr ReportScheduleHourly_type ReportScheduleHourly_DeepCopyInto"

definition ReportScheduleMonthly_DeepCopy :: copier where
  "ReportScheduleMonthly_DeepCopy = copy_ptr ReportScheduleMonthly_type ReportScheduleMonthly_DeepCopyInto"

definition ReportScheduleWeekly_DeepCopy :: copier where
  "ReportScheduleWeekly_DeepCopy = copy_ptr ReportScheduleWeekly_type ReportScheduleWeekly_DeepCopyInto"

definition ReportSpec_DeepCopy :: copier where
  "ReportSpec_DeepCopy = copy_ptr ReportSpec_type ReportSpec_DeepCopyInto"

definition ReportStatus_DeepCopy :: copier where
  "ReportStatus_DeepCopy = copy_ptr ReportStatus_type ReportStatus_DeepCopyInto"

definition S3Bucket_DeepCopy :: copier where
  "S3Bucket_DeepCopy = copy_ptr S3Bucket_type S3Bucket_DeepCopyInto"

definition SortColumn_DeepCopy :: copier where
  "SortColumn_DeepCopy = copy_ptr SortColumn_type SortColumn_DeepCopyInto"

definition StorageLocation_DeepCopy :: copier where
  "StorageLocation_DeepCopy = copy_ptr StorageLocation_type StorageLocation_DeepCopyInto"

definition StorageLocationList_DeepCopy :: copier where
  "StorageLocationList_DeepCopy = copy_ptr StorageLocationList_type StorageLocationList_DeepCopyInto"

definition StorageLocationRef_DeepCopy :: copier where
  "StorageLocationRef_DeepCopy = copy_ptr StorageLocationRef_type StorageLocationRef_DeepCopyInto"

definition StorageLocationSpec_DeepCopy :: copier where
  "StorageLocationSpec_DeepCopy = copy_ptr StorageLocationSpec_type StorageLocationSpec_DeepCopyInto"

definition StorageLocationStatus_DeepCopy :: copier where
  "StorageLocationStatus_DeepCopy = copy_ptr StorageLocationStatus_type StorageLocationStatus_DeepCopyInto"

section \<open>DeepCopyObject\<close>

text \<open>
  A \<open>runtime.Object\<close>: the dynamic type and the pointer, or \<open>None\<close> for the nil interface.  The test
  for nil keeps a nil pointer from becoming a non-nil interface.
\<close>

type_synonym runtime_object = "string \<times> gv"

definition as_object :: "string \<Rightarrow> store \<times> gv \<Rightarrow> store \<times> runtime_object option" where
  "as_object k r = (fst r, if snd r \<noteq> NilV then Some (k, snd r) else None)"

definition HiveTable_DeepCopyObject :: "store \<Rightarrow> gv \<Rightarrow> store \<times> runtime_object option" where
  "HiveTable_DeepCopyObject h v = as_object ''HiveTable'' (HiveTable_DeepCopy h v)"

definition HiveTableList_DeepCopyObject :: "store \<Rightarrow> gv \<Rightarrow> store \<times> runtime_object option" where
  "HiveTableList_DeepCopyObject h v = as_object ''HiveTableList'' (HiveTableList_DeepCopy h v)"

definition PrestoTable_DeepCopyObject :: "store \<Rightarrow> gv \<Rightarrow> store \<times> runtime_object option" where
  "PrestoTable_DeepCopyObject h v = as_object ''PrestoTable'' (PrestoTable_DeepCopy h v)"

definition PrestoTableList_DeepCopyObject :: "store \<Rightarrow> gv \<Rightarrow> store \<times> runtime_object option" where
  "PrestoTableList_DeepCopyObject h v = as_object ''PrestoTableList'' (PrestoTableList_DeepCopy h v)"

definition Report_DeepCopyObject :: "store \<Rightarrow> gv \<Rightarrow> store \<times> runtime_object option" where
  "Report_DeepCopyObject h v = as_object ''Report'' (Report_DeepCopy h v)"

definition ReportDataSource_DeepCopyObject :: "store \<Rightarrow> gv \<Rightarrow> store \<times> runtime_object option" where
  "ReportDataSource_DeepCopyObject h v = as_object ''ReportDataSource'' (ReportDataSource_DeepCopy h v)"

definition ReportDataSourceList_DeepCopyObject :: "store \<Rightarrow> gv \<Rightarrow> store \<times> runtime_object option" where
  "ReportDataSourceList_DeepCopyObject h v = as_object ''ReportDataSourceList'' (ReportDataSourceList_DeepCopy h v)"

definition ReportList_DeepCopyObject :: "store \<Rightarrow> gv \<Rightarrow> store \<times> runtime_object option" where
  "ReportList_DeepCopyObject h v = as_object ''ReportList'' (ReportList_DeepCopy h v)"

definition ReportQuery_DeepCopyObject :: "store \<Rightarrow> gv \<Rightarrow> store \<times> runtime_object option" where
  "ReportQuery_DeepCopyObject h v = as_object ''ReportQuery'' (ReportQuery_DeepCopy h v)"

definition ReportQueryList_DeepCopyObject :: "store \<Rightarrow> gv \<Rightarrow> store \<times> runtime_object option" where
  "ReportQueryList_DeepCopyObject h v = as_object ''ReportQueryList'' (ReportQueryList_DeepCopy h v)"

definition StorageLocation_DeepCopyObject :: "store \<Rightarrow> gv \<Rightarrow> store \<times> runtime_object option" where
  "StorageLocation_DeepCopyObject h v = as_object ''StorageLocation'' (StorageLocation_DeepCopy h v)"

definition StorageLocationList_DeepCopyObject :: "store \<Rightarrow> gv \<Rightarrow> store \<times> runtime_object option" where
  "StorageLocationList_DeepCopyObject h v = as_object ''StorageLocationList'' (StorageLocationList_DeepCopy h v)"

section \<open>Every generated function copies deeply\<close>

lemma flat_types:
  "flat S3Bucket_type"
  "flat hive_Column_type"
  "flat HiveColumn_type"
  "flat HiveStorageDefaultTableProperties_type"
  "flat HiveStorageStatus_type"
  "flat TypeMeta_type"
  "flat Time_type"
  "flat Initializer_type"
  "flat ListMeta_type"
  "flat StatusCause_type"
  "flat presto_Column_type"
  "flat LocalObjectReference_type"
  "flat PrestoTableDataSource_type"
  "flat PrometheusConnectionConfig_type"
  "flat Duration_type"
  "flat StorageLocationRef_type"
  "flat ReportScheduleCron_type"
  "flat ReportScheduleHourly_type"
  "flat ReportScheduleDaily_type"
  "flat ReportCondition_type"
  "flat ReportQueryColumn_type"
  "flat ReportQueryStatus_type"
  "flat StorageLocationStatus_type"
  by (simp_all add: S3Bucket_type_def hive_Column_type_def HiveColumn_type_def HiveStorageDefaultTableProperties_type_def HiveStorageStatus_type_def TypeMeta_type_def Time_type_def Initializer_type_def ListMeta_type_def StatusCause_type_def presto_Column_type_def LocalObjectReference_type_def PrestoTableDataSource_type_def PrometheusConnectionConfig_type_def Duration_type_def StorageLocationRef_type_def ReportScheduleCron_type_def ReportScheduleHourly_type_def ReportScheduleDaily_type_def ReportCondition_type_def ReportQueryColumn_type_def ReportQueryStatus_type_def StorageLocationStatus_type_def)

lemma AWSBillingDataSource_deep [deep_copier_intros]: "deep_copier AWSBillingDataSource_type AWSBillingDataSource_DeepCopyInto"
  unfolding AWSBillingDataSource_type_def AWSBillingDataSource_DeepCopyInto_def
  by (rule struct_copier) (simp_all add: deep_copier_intros flat_types ReportQueryInputValues_type_def)

lemma HiveColumn_deep [deep_copier_intros]: "deep_copier HiveColumn_type HiveColumn_DeepCopyInto"
  unfolding HiveColumn_type_def hive_Column_type_def HiveColumn_DeepCopyInto_def
  by (rule struct_copier) (simp_all add: deep_copier_intros flat_types ReportQueryInputValues_type_def)

lemma HiveStorage_deep [deep_copier_intros]: "deep_copier HiveStorage_type HiveStorage_DeepCopyInto"
  unfolding HiveStorage_type_def HiveStorage_DeepCopyInto_def
  by (rule struct_copier) (simp_all add: deep_copier_intros flat_types ReportQueryInputValues_type_def)

lemma HiveStorageDefaultTableProperties_deep [deep_copier_intros]: "deep_copier HiveStorageDefaultTableProperties_type HiveStorageDefaultTableProperties_DeepCopyInto"
  unfolding HiveStorageDefaultTableProperties_type_def HiveStorageDefaultTableProperties_DeepCopyInto_def
  by (rule struct_copier) (simp_all add: deep_copier_intros flat_types ReportQueryInputValues_type_def)

lemma HiveStorageStatus_deep [deep_copier_intros]: "deep_copier HiveStorageStatus_type HiveStorageStatus_DeepCopyInto"
  unfolding HiveStorageStatus_type_def HiveStorageStatus_DeepCopyInto_def
  by (rule struct_copier) (simp_all add: deep_copier_intros flat_types ReportQueryInputValues_type_def)

lemma Time_deep [deep_copier_intros]: "deep_copier Time_type Time_DeepCopyInto"
  unfolding Time_type_def Time_DeepCopyInto_def
  by (rule struct_copier) (simp_all add: deep_copier_intros flat_types ReportQueryInputValues_type_def)

lemma Time_DeepCopy_deep [deep_copier_intros]: "deep_copier (TPtr Time_type) Time_DeepCopy"
  unfolding Time_DeepCopy_def by (intro deep_copier_intros)

lemma OwnerReference_deep [deep_copier_intros]: "deep_copier OwnerReference_type OwnerReference_DeepCopyInto"
  unfolding OwnerReference_type_def OwnerReference_DeepCopyInto_def
  by (rule struct_copier) (simp_all add: deep_copier_intros flat_types ReportQueryInputValues_type_def)

lemma StatusDetails_deep [deep_copier_intros]: "deep_copier StatusDetails_type StatusDetails_DeepCopyInto"
  unfolding StatusDetails_type_def StatusDetails_DeepCopyInto_def
  by (rule struct_copier) (simp_all add: deep_copier_intros flat_types ReportQueryInputValues_type_def)

lemma Status_deep [deep_copier_intros]: "deep_copier Status_type Status_DeepCopyInto"
  unfolding Status_type_def Status_DeepCopyInto_def
  by (rule struct_copier) (simp_all add: deep_copier_intros flat_types ReportQueryInputValues_type_def)

lemma Initializers_deep [deep_copier_intros]: "deep_copier Initializers_type Initializers_DeepCopyInto"
  unfolding Initializers_type_def Initializers_DeepCopyInto_def
  by (rule struct_copier) (simp_all add: deep_copier_intros flat_types ReportQueryInputValues_type_def)

lemma ObjectMeta_deep [deep_copier_intros]: "deep_copier ObjectMeta_type ObjectMeta_DeepCopyInto"
  unfolding ObjectMeta_type_def ObjectMeta_DeepCopyInto_def
  by (rule struct_copier) (simp_all add: deep_copier_intros flat_types ReportQueryInputValues_type_def)

lemma SortColumn_deep [deep_copier_intros]: "deep_copier SortColumn_type SortColumn_DeepCopyInto"
  unfolding SortColumn_type_def SortColumn_DeepCopyInto_def
  by (rule struct_copier) (simp_all add: deep_copier_intros flat_types ReportQueryInputValues_type_def)

lemma HiveTablePartition_deep [deep_copier_intros]: "deep_copier HiveTablePartition_type HiveTablePartition_DeepCopyInto"
  unfolding HiveTablePartition_type_def hive_TablePartition_type_def HiveTablePartition_DeepCopyInto_def
  by (rule struct_copier) (simp_all add: deep_copier_intros flat_types ReportQueryInputValues_type_def)

lemma HiveTableSpec_deep [deep_copier_intros]: "deep_copier HiveTableSpec_type HiveTableSpec_DeepCopyInto"
  unfolding HiveTableSpec_type_def HiveTableSpec_DeepCopyInto_def
  by (rule struct_copier) (simp_all add: deep_copier_intros flat_types ReportQueryInputValues_type_def)

lemma HiveTableStatus_deep [deep_copier_intros]: "deep_copier HiveTableStatus_type HiveTableStatus_DeepCopyInto"
  unfolding HiveTableStatus_type_def HiveTableStatus_DeepCopyInto_def
  by (rule struct_copier) (simp_all add: deep_copier_intros flat_types ReportQueryInputValues_type_def)

lemma HiveTable_deep [deep_copier_intros]: "deep_copier HiveTable_type HiveTable_DeepCopyInto"
  unfolding HiveTable_type_def HiveTable_DeepCopyInto_def
  by (rule struct_copier) (simp_all add: deep_copier_intros flat_types ReportQueryInputValues_type_def)

lemma HiveTableList_deep [deep_copier_intros]: "deep_copier HiveTableList_type HiveTableList_DeepCopyInto"
  unfolding HiveTableList_type_def HiveTableList_DeepCopyInto_def
  by (rule struct_copier) (simp_all add: deep_copier_intros flat_types ReportQueryInputValues_type_def)

lemma PrestoTableSpec_deep [deep_copier_intros]: "deep_copier PrestoTableSpec_type PrestoTableSpec_DeepCopyInto"
  unfolding PrestoTableSpec_type_def PrestoTableSpec_DeepCopyInto_def
  by (rule struct_copier) (simp_all add: deep_copier_intros flat_types ReportQueryInputValues_type_def)

lemma PrestoTableStatus_deep [deep_copier_intros]: "deep_copier PrestoTableStatus_type PrestoTableStatus_DeepCopyInto"
  unfolding PrestoTableStatus_type_def PrestoTableStatus_DeepCopyInto_def
  by (rule struct_copier) (simp_all add: deep_copier_intros flat_types ReportQueryInputValues_type_def)

lemma PrestoTable_deep [deep_copier_intros]: "deep_copier PrestoTable_type PrestoTable_DeepCopyInto"
  unfolding PrestoTable_type_def PrestoTable_DeepCopyInto_def
  by (rule struct_copier) (simp_all add: deep_copier_intros flat_types ReportQueryInputValues_type_def)

lemma PrestoTableDataSource_deep [deep_copier_intros]: "deep_copier PrestoTableDataSource_type PrestoTableDataSource_DeepCopyInto"
  unfolding PrestoTableDataSource_type_def PrestoTableDataSource_DeepCopyInto_def
  by (rule struct_copier) (simp_all add: deep_copier_intros flat_types ReportQueryInputValues_type_def)

lemma PrestoTableList_deep [deep_copier_intros]: "deep_copier PrestoTableList_type PrestoTableList_DeepCopyInto"
  unfolding PrestoTableList_type_def PrestoTableList_DeepCopyInto_def
  by (rule struct_copier) (simp_all add: deep_copier_intros flat_types ReportQueryInputValues_type_def)

lemma PrometheusConnectionConfig_deep [deep_copier_intros]: "deep_copier PrometheusConnectionConfig_type PrometheusConnectionConfig_DeepCopyInto"
  unfolding PrometheusConnectionConfig_type_def PrometheusConnectionConfig_DeepCopyInto_def
  by (rule struct_copier) (simp_all add: deep_copier_intros flat_types ReportQueryInputValues_type_def)

lemma PrometheusMetricsImportStatus_deep [deep_copier_intros]: "deep_copier PrometheusMetricsImportStatus_type PrometheusMetricsImportStatus_DeepCopyInto"
  unfolding PrometheusMetricsImportStatus_type_def PrometheusMetricsImportStatus_DeepCopyInto_def
  by (rule struct_copier) (simp_all add: deep_copier_intros flat_types ReportQueryInputValues_type_def)

lemma PrometheusQueryConfig_deep [deep_copier_intros]: "deep_copier PrometheusQueryConfig_type PrometheusQueryConfig_DeepCopyInto"
  unfolding PrometheusQueryConfig_type_def PrometheusQueryConfig_DeepCopyInto_def
  by (rule struct_copier) (simp_all add: deep_copier_intros flat_types ReportQueryInputValues_type_def)

lemma PrometheusMetricsImporterDataSource_deep [deep_copier_intros]: "deep_copier PrometheusMetricsImporterDataSource_type PrometheusMetricsImporterDataSource_DeepCopyInto"
  unfolding PrometheusMetricsImporterDataSource_type_def PrometheusMetricsImporterDataSource_DeepCopyInto_def
  by (rule struct_copier) (simp_all add: deep_copier_intros flat_types ReportQueryInputValues_type_def)

lemma ReportScheduleWeekly_deep [deep_copier_intros]: "deep_copier ReportScheduleWeekly_type ReportScheduleWeekly_DeepCopyInto"
  unfolding ReportScheduleWeekly_type_def ReportScheduleWeekly_DeepCopyInto_def
  by (rule struct_copier) (simp_all add: deep_copier_intros flat_types ReportQueryInputValues_type_def)

lemma ReportScheduleMonthly_deep [deep_copier_intros]: "deep_copier ReportScheduleMonthly_type ReportScheduleMonthly_DeepCopyInto"
  unfolding ReportScheduleMonthly_type_def ReportScheduleMonthly_DeepCopyInto_def
  by (rule struct_copier) (simp_all add: deep_copier_intros flat_types ReportQueryInputValues_type_def)

lemma ReportSchedule_deep [deep_copier_intros]: "deep_copier ReportSchedule_type ReportSchedule_DeepCopyInto"
  unfolding ReportSchedule_type_def ReportSchedule_DeepCopyInto_def
  by (rule struct_copier) (simp_all add: deep_copier_intros flat_types ReportQueryInputValues_type_def)

lemma ReportQueryInputValue_deep [deep_copier_intros]: "deep_copier ReportQueryInputValue_type ReportQueryInputValue_DeepCopyInto"
  unfolding ReportQueryInputValue_type_def ReportQueryInputValue_DeepCopyInto_def
  by (rule struct_copier) (simp_all add: deep_copier_intros flat_types ReportQueryInputValues_type_def)

lemma ReportSpec_deep [deep_copier_intros]: "deep_copier ReportSpec_type ReportSpec_DeepCopyInto"
  unfolding ReportSpec_type_def ReportSpec_DeepCopyInto_def
  by (rule struct_copier) (simp_all add: deep_copier_intros flat_types ReportQueryInputValues_type_def)

lemma ReportCondition_deep [deep_copier_intros]: "deep_copier ReportCondition_type ReportCondition_DeepCopyInto"
  unfolding ReportCondition_type_def ReportCondition_DeepCopyInto_def
  by (rule struct_copier) (simp_all add: deep_copier_intros flat_types ReportQueryInputValues_type_def)

lemma ReportStatus_deep [deep_copier_intros]: "deep_copier ReportStatus_type ReportStatus_DeepCopyInto"
  unfolding ReportStatus_type_def ReportStatus_DeepCopyInto_def
  by (rule struct_copier) (simp_all add: deep_copier_intros flat_types ReportQueryInputValues_type_def)

lemma Report_deep [deep_copier_intros]: "deep_copier Report_type Report_DeepCopyInto"
  unfolding Report_type_def Report_DeepCopyInto_def
  by (rule struct_copier) (simp_all add: deep_copier_intros flat_types ReportQueryInputValues_type_def)

lemma ReportQueryViewDataSource_deep [deep_copier_intros]: "deep_copier ReportQueryViewDataSource_type ReportQueryViewDataSource_DeepCopyInto"
  unfolding ReportQueryViewDataSource_type_def ReportQueryViewDataSource_DeepCopyInto_def
  by (rule struct_copier) (simp_all add: deep_copier_intros flat_types ReportQueryInputValues_type_def)

lemma ReportDataSourceSpec_deep [deep_copier_intros]: "deep_copier ReportDataSourceSpec_type ReportDataSourceSpec_DeepCopyInto"
  unfolding ReportDataSourceSpec_type_def ReportDataSourceSpec_DeepCopyInto_def
  by (rule struct_copier) (simp_all add: deep_copier_intros flat_types ReportQueryInputValues_type_def)

lemma ReportDataSourceStatus_deep [deep_copier_intros]: "deep_copier ReportDataSourceStatus_type ReportDataSourceStatus_DeepCopyInto"
  unfolding ReportDataSourceStatus_type_def ReportDataSourceStatus_DeepCopyInto_def
  by (rule struct_copier) (simp_all add: deep_copier_intros flat_types ReportQueryInputValues_type_def)

lemma ReportDataSource_deep [deep_copier_intros]: "deep_copier ReportDataSource_type ReportDataSource_DeepCopyInto"
  unfolding ReportDataSource_type_def ReportDataSource_DeepCopyInto_def
  by (rule struct_copier) (simp_all add: deep_copier_intros flat_types ReportQueryInputValues_type_def)

lemma ReportDataSourceList_deep [deep_copier_intros]: "deep_copier ReportDataSourceList_type ReportDataSourceList_DeepCopyInto"
  unfolding ReportDataSourceList_type_def ReportDataSourceList_DeepCopyInto_def
  by (rule struct_copier) (simp_all add: deep_copier_intros flat_types ReportQueryInputValues_type_def)

lemma ReportList_deep [deep_copier_intros]: "deep_copier ReportList_type ReportList_DeepCopyInto"
  unfolding ReportList_type_def ReportList_DeepCopyInto_def
  by (rule struct_copier) (simp_all add: deep_copier_intros flat_types ReportQueryInputValues_type_def)

lemma ReportQueryInputDefinition_deep [deep_copier_intros]: "deep_copier ReportQueryInputDefinition_type ReportQueryInputDefinition_DeepCopyInto"
  unfolding ReportQueryInputDefinition_type_def ReportQueryInputDefinition_DeepCopyInto_def
  by (rule struct_copier) (simp_all add: deep_copier_intros flat_types ReportQueryInputValues_type_def)

lemma ReportQuerySpec_deep [deep_copier_intros]: "deep_copier ReportQuerySpec_type ReportQuerySpec_DeepCopyInto"
  unfolding ReportQuerySpec_type_def ReportQuerySpec_DeepCopyInto_def
  by (rule struct_copier) (simp_all add: deep_copier_intros flat_types ReportQueryInputValues_type_def)

lemma ReportQuery_deep [deep_copier_intros]: "deep_copier ReportQuery_type ReportQuery_DeepCopyInto"
  unfolding ReportQuery_type_def ReportQuery_DeepCopyInto_def
  by (rule struct_copier) (simp_all add: deep_copier_intros flat_types ReportQueryInputValues_type_def)

lemma ReportQueryColumn_deep [deep_copier_intros]: "deep_copier ReportQueryColumn_type ReportQueryColumn_DeepCopyInto"
  unfolding ReportQueryColumn_type_def ReportQueryColumn_DeepCopyInto_def
  by (rule struct_copier) (simp_all add: deep_copier_intros flat_types ReportQueryInputValues_type_def)

lemma ReportQueryList_deep [deep_copier_intros]: "deep_copier ReportQueryList_type ReportQueryList_DeepCopyInto"
  unfolding ReportQueryList_type_def ReportQueryList_DeepCopyInto_def
  by (rule struct_copier) (simp_all add: deep_copier_intros flat_types ReportQueryInputValues_type_def)

lemma ReportQueryStatus_deep [deep_copier_intros]: "deep_copier ReportQueryStatus_type ReportQueryStatus_DeepCopyInto"
  unfolding ReportQueryStatus_type_def ReportQueryStatus_DeepCopyInto_def
  by (rule struct_copier) (simp_all add: deep_copier_intros flat_types ReportQueryInputValues_type_def)

lemma ReportScheduleCron_deep [deep_copier_intros]: "deep_copier ReportScheduleCron_type ReportScheduleCron_DeepCopyInto"
  unfolding ReportScheduleCron_type_def ReportScheduleCron_DeepCopyInto_def
  by (rule struct_copier) (simp_all add: deep_copier_intros flat_types ReportQueryInputValues_type_def)

lemma ReportScheduleDaily_deep [deep_copier_intros]: "deep_copier ReportScheduleDaily_type ReportScheduleDaily_DeepCopyInto"
  unfolding ReportScheduleDaily_type_def ReportScheduleDaily_DeepCopyInto_def
  by (rule struct_copier) (simp_all add: deep_copier_intros flat_types ReportQueryInputValues_type_def)

lemma ReportScheduleHourly_deep [deep_copier_intros]: "deep_copier ReportScheduleHourly_type ReportScheduleHourly_DeepCopyInto"
  unfolding ReportScheduleHourly_type_def ReportScheduleHourly_DeepCopyInto_def
  by (rule struct_copier) (simp_all add: deep_copier_intros flat_types ReportQueryInputValues_type_def)

lemma S3Bucket_deep [deep_copier_intros]: "deep_copier S3Bucket_type S3Bucket_DeepCopyInto"
  unfolding S3Bucket_type_def S3Bucket_DeepCopyInto_def
  by (rule struct_copier) (simp_all add: deep_copier_intros flat_types ReportQueryInputValues_type_def)

lemma StorageLocationSpec_deep [deep_copier_intros]: "deep_copier StorageLocationSpec_type StorageLocationSpec_DeepCopyInto"
  unfolding StorageLocationSpec_type_def StorageLocationSpec_DeepCopyInto_def
  by (rule struct_copier) (simp_all add: deep_copier_intros flat_types ReportQueryInputValues_type_def)

lemma StorageLocation_deep [deep_copier_intros]: "deep_copier StorageLocation_type StorageLocation_DeepCopyInto"
  unfolding StorageLocation_type_def StorageLocation_DeepCopyInto_def
  by (rule struct_copier) (simp_all add: deep_copier_intros flat_types ReportQueryInputValues_type_def)

lemma StorageLocationList_deep [deep_copier_intros]: "deep_copier StorageLocationList_type StorageLocationList_DeepCopyInto"
  unfolding StorageLocationList_type_def StorageLocationList_DeepCopyInto_def
  by (rule struct_copier) (simp_all add: deep_copier_intros flat_types ReportQueryInputValues_type_def)

lemma StorageLocationRef_deep [deep_copier_intros]: "deep_copier StorageLocationRef_type StorageLocationRef_DeepCopyInto"
  unfolding StorageLocationRef_type_def StorageLocationRef_DeepCopyInto_def
  by (rule struct_copier) (simp_all add: deep_copier_intros flat_types ReportQueryInputValues_type_def)

lemma StorageLocationStatus_deep [deep_copier_intros]: "deep_copier StorageLocationStatus_type StorageLocationStatus_DeepCopyInto"
  unfolding StorageLocationStatus_type_def StorageLocationStatus_DeepCopyInto_def
  by (rule struct_copier) (simp_all add: deep_copier_intros flat_types ReportQueryInputValues_type_def)

text \<open>All the generated \<open>DeepCopy\<close> and \<open>DeepCopyObject\<close> methods with the types of their receivers.\<close>

definition generated_copies :: "(gotype \<times> copier) list" where
  "generated_copies =
     [(TPtr AWSBillingDataSource_type, AWSBillingDataSource_DeepCopy),
      (TPtr HiveColumn_type, HiveColumn_DeepCopy),
      (TPtr HiveStorage_type, HiveStorage_DeepCopy),
      (TPtr HiveStorageDefaultTableProperties_type, HiveStorageDefaultTableProperties_DeepCopy),
      (TPtr HiveStorageStatus_type, HiveStorageStatus_DeepCopy),
      (TPtr HiveTable_type, HiveTable_DeepCopy),
      (TPtr HiveTableList_type, HiveTableList_DeepCopy),
      (TPtr HiveTablePartition_type, HiveTablePartition_DeepCopy),
      (TPtr HiveTableSpec_type, HiveTableSpec_DeepCopy),
      (TPtr HiveTableStatus_type, HiveTableStatus_DeepCopy),
      (TPtr PrestoTable_type, PrestoTable_DeepCopy),
      (TPtr PrestoTableDataSource_type, PrestoTableDataSource_DeepCopy),
      (TPtr PrestoTableList_type, PrestoTableList_DeepCopy),
      (TPtr PrestoTableSpec_type, PrestoTableSpec_DeepCopy),
      (TPtr PrestoTableStatus_type, PrestoTableStatus_DeepCopy),
      (TPtr PrometheusConnectionConfig_type, PrometheusConnectionConfig_DeepCopy),
      (TPtr PrometheusMetricsImportStatus_type, PrometheusMetricsImportStatus_DeepCopy),
      (TPtr PrometheusMetricsImporterDataSource_type, PrometheusMetricsImporterDataSource_DeepCopy),
      (TPtr PrometheusQueryConfig_type, PrometheusQueryConfig_DeepCopy),
      (TPtr Report_type, Report_DeepCopy),
      (TPtr ReportCondition_type, ReportCondition_DeepCopy),
      (TPtr ReportDataSource_type, ReportDataSource_DeepCopy),
      (TPtr ReportDataSourceList_type, ReportDataSourceList_DeepCopy),
      (TPtr ReportDataSourceSpec_type, ReportDataSourceSpec_DeepCopy),
      (TPtr ReportDataSourceStatus_type, ReportDataSourceStatus_DeepCopy),
      (TPtr ReportList_type, ReportList_DeepCopy),
      (TPtr ReportQuery_type, ReportQuery_DeepCopy),
      (TPtr ReportQueryColumn_type, ReportQueryColumn_DeepCopy),
      (TPtr ReportQueryInputDefinition_type, ReportQueryInputDefinition_DeepCopy),
      (TPtr ReportQueryInputValue_type, ReportQueryInputValue_DeepCopy),
      (ReportQueryInputValues_type, ReportQueryInputValues_DeepCopy),
      (TPtr ReportQueryList_type, ReportQueryList_DeepCopy),
      (TPtr ReportQuerySpec_type, ReportQuerySpec_DeepCopy),
      (TPtr ReportQueryStatus_type, ReportQueryStatus_DeepCopy),
      (TPtr ReportQueryViewDataSource_type, ReportQueryViewDataSource_DeepCopy),
      (TPtr ReportSchedule_type, ReportSchedule_DeepCopy),
      (TPtr ReportScheduleCron_type, ReportScheduleCron_DeepCopy),
      (TPtr ReportScheduleDaily_type, ReportScheduleDaily_DeepCopy),
      (TPtr ReportScheduleHourly_type, ReportScheduleHourly_DeepCopy),
      (TPtr ReportScheduleMonthly_type, ReportScheduleMonthly_DeepCopy),
      (TPtr ReportScheduleWeekly_type, ReportScheduleWeekly_DeepCopy),
      (TPtr ReportSpec_type, ReportSpec_DeepCopy),
      (TPtr ReportStatus_type, ReportStatus_DeepCopy),
      (TPtr S3Bucket_type, S3Bucket_DeepCopy),
      (TPtr SortColumn_type, SortColumn_DeepCopy),
      (TPtr StorageLocation_type, StorageLocation_DeepCopy),
      (TPtr StorageLocationList_type, StorageLocationList_DeepCopy),
      (TPtr StorageLocationRef_type, StorageLocationRef_DeepCopy),
      (TPtr StorageLocationSpec_type, StorageLocationSpec_DeepCopy),
      (TPtr StorageLocationStatus_type, StorageLocationStatus_DeepCopy)]"

definition generated_objects :: "(string \<times> gotype \<times> (store \<Rightarrow> gv \<Rightarrow> store \<times> runtime_object option)) list" where
  "generated_objects =
     [(''HiveTable'', HiveTable_type, HiveTable_DeepCopyObject),
      (''HiveTableList'', HiveTableList_type, HiveTableList_DeepCopyObject),
      (''PrestoTable'', PrestoTable_type, PrestoTable_DeepCopyObject),
      (''PrestoTableList'', PrestoTableList_type, PrestoTableList_DeepCopyObject),
      (''Report'', Report_type, Report_DeepCopyObject),
      (''ReportDataSource'', ReportDataSource_type, ReportDataSource_DeepCopyObject),
      (''ReportDataSourceList'', ReportDataSourceList_type, ReportDataSourceList_DeepCopyObject),
      (''ReportList'', ReportList_type, ReportList_DeepCopyObject),
      (''ReportQuery'', ReportQuery_type, ReportQuery_DeepCopyObject),
      (''ReportQueryList'', ReportQueryList_type, ReportQueryList_DeepCopyObject),
      (''StorageLocation'', StorageLocation_type, StorageLocation_DeepCopyObject),
      (''StorageLocationList'', StorageLocationList_type, StorageLocationList_DeepCopyObject)]"

lemmas DeepCopy_defs =
  AWSBillingDataSource_DeepCopy_def
  HiveColumn_DeepCopy_def
  HiveStorage_DeepCopy_def
  HiveStorageDefaultTableProperties_DeepCopy_def
  HiveStorageStatus_DeepCopy_def
  HiveTable_DeepCopy_def
  HiveTableList_DeepCopy_def
  HiveTablePartition_DeepCopy_def
  HiveTableSpec_DeepCopy_def
  HiveTableStatus_DeepCopy_def
  PrestoTable_DeepCopy_def
  PrestoTableDataSource_DeepCopy_def
  PrestoTableList_DeepCopy_def
  PrestoTableSpec_DeepCopy_def
  PrestoTableStatus_DeepCopy_def
  PrometheusConnectionConfig_DeepCopy_def
  PrometheusMetricsImportStatus_DeepCopy_def
  PrometheusMetricsImporterDataSource_DeepCopy_def
  PrometheusQueryConfig_DeepCopy_def
  Report_DeepCopy_def
  ReportCondition_DeepCopy_def
  ReportDataSource_DeepCopy_def
  ReportDataSourceList_DeepCopy_def
  ReportDataSourceSpec_DeepCopy_def
  ReportDataSourceStatus_DeepCopy_def
  ReportList_DeepCopy_def
  ReportQuery_DeepCopy_def
  ReportQueryColumn_DeepCopy_def
  ReportQueryInputDefinition_DeepCopy_def
  ReportQueryInputValue_DeepCopy_def
  ReportQueryList_DeepCopy_def
  ReportQuerySpec_DeepCopy_def
  ReportQueryStatus_DeepCopy_def
  ReportQueryViewDataSource_DeepCopy_def
  ReportSchedule_DeepCopy_def
  ReportScheduleCron_DeepCopy_def
  ReportScheduleDaily_DeepCopy_def
  ReportScheduleHourly_DeepCopy_def
  ReportScheduleMonthly_DeepCopy_def
  ReportScheduleWeekly_DeepCopy_def
  ReportSpec_DeepCopy_def
  ReportStatus_DeepCopy_def
  S3Bucket_DeepCopy_def
  SortColumn_DeepCopy_def
  StorageLocation_DeepCopy_def
  StorageLocationList_DeepCopy_def
  StorageLocationRef_DeepCopy_def
  StorageLocationSpec_DeepCopy_def
  StorageLocationStatus_DeepCopy_def

lemmas DeepCopyObject_defs =
  HiveTable_DeepCopyObject_def
  HiveTableList_DeepCopyObject_def
  PrestoTable_DeepCopyObject_def
  PrestoTableList_DeepCopyObject_def
  Report_DeepCopyObject_def
  ReportDataSource_DeepCopyObject_def
  ReportDataSourceList_DeepCopyObject_def
  ReportList_DeepCopyObject_def
  ReportQuery_DeepCopyObject_def
  ReportQueryList_DeepCopyObject_def
  StorageLocation_DeepCopyObject_def
  StorageLocationList_DeepCopyObject_def

lemma ReportQueryInputValues_DeepCopy_deep:
  "deep_copier ReportQueryInputValues_type ReportQueryInputValues_DeepCopy"
  unfolding ReportQueryInputValues_type_def ReportQueryInputValues_DeepCopy_def[abs_def]
    ReportQueryInputValues_DeepCopyInto_def
  using slice_copier[OF ReportQueryInputValue_deep] unfolding copy_slice_def[abs_def] .

lemma generated_copies_are_deep: "list_all (\<lambda>p. deep_copier (fst p) (snd p)) generated_copies"
  unfolding generated_copies_def
  by (simp only: list.pred_inject fst_conv snd_conv DeepCopy_defs deep_copier_intros
      ReportQueryInputValues_DeepCopy_deep simp_thms)

lemma generated_copy:
  "(T, f) \<in> set generated_copies \<Longrightarrow> wt h T v \<Longrightarrow>
   deep_copy_of (length h) T h v (fst (f h v)) (snd (f h v))"
  by (rule deep_copierD) (use generated_copies_are_deep in \<open>force simp: list_all_iff\<close>)

section \<open>Properties\<close>

text \<open>
  C18: Every generated \<open>DeepCopy\<close> is a deep copy: for every receiver of its type, in every store, the
  store only grows, the result has the type of the receiver and the same contents (nil pointers,
  nil slices and nil maps included), and it reaches no cell that existed before the call.
\<close>

theorem generated_copies_share_nothing:
  assumes "(T, f) \<in> set generated_copies" "wt h T v"
  shows "prefix h (fst (f h v)) \<and> wt (fst (f h v)) T (snd (f h v)) \<and>
    contents (fst (f h v)) T (snd (f h v)) = contents h T v \<and>
    set (refs (fst (f h v)) T (snd (f h v))) \<inter> {..<length h} = {}"
  using generated_copy[OF assms] by (fastforce simp: deep_copy_of_def)

definition sort_column_store :: store where
  "sort_column_store =
     [Vals [StructV [(''Name'', Lit (LString ''month'')), (''Decending'', Ref 1)]], Vals [Lit (LBool True)]]"

theorem generated_copies_share_nothing_witness:
  "prefix sort_column_store (fst (SortColumn_DeepCopy sort_column_store (Ref 0))) \<and>
   snd (SortColumn_DeepCopy sort_column_store (Ref 0)) = Ref 2 \<and>
   contents (fst (SortColumn_DeepCopy sort_column_store (Ref 0))) (TPtr SortColumn_type) (Ref 2)
     = DPtr [DStruct [(''Name'', DLit (LString ''month'')), (''Decending'', DPtr [DLit (LBool True)])]]"
proof -
  have m: "(TPtr SortColumn_type, SortColumn_DeepCopy) \<in> set generated_copies"
    by (simp add: generated_copies_def)
  have w: "wt sort_column_store (TPtr SortColumn_type) (Ref 0)"
    by (simp add: sort_column_store_def SortColumn_type_def wt_struct array_at_def)
  have c: "contents sort_column_store (TPtr SortColumn_type) (Ref 0)
      = DPtr [DStruct [(''Name'', DLit (LString ''month'')), (''Decending'', DPtr [DLit (LBool True)])]]"
    by (simp add: sort_column_store_def SortColumn_type_def array_at_def)
  have r: "snd (SortColumn_DeepCopy sort_column_store (Ref 0)) = Ref 2"
    by (simp add: SortColumn_DeepCopy_def sort_column_store_def Let_def)
  show ?thesis using generated_copies_share_nothing[OF m w] c r by simp
qed

text \<open>
  C19: What a handler does to its copy never reaches the informer's cache, and what the cache does never
  reaches the copy: after \<open>DeepCopy\<close>, writes to the memory the call allocated, or to memory
  allocated later, leave the contents of every object that existed before unchanged, and writes to the
  older memory leave the contents of the copy equal to those of the object it was made from.
\<close>

theorem copies_protect_the_cache:
  assumes "(T, f) \<in> set generated_copies" "wt h T v" "wt h S w"
    and "\<forall>x \<in> set ws. length h \<le> fst x" "\<forall>x \<in> set us. fst x < length h"
  shows "contents (write_cells ws (fst (f h v))) S w = contents h S w \<and>
    contents (write_cells us (fst (f h v))) T (snd (f h v)) = contents h T v"
proof
  note d = generated_copy[OF assms(1,2)]
  show "contents (write_cells ws (fst (f h v))) S w = contents h S w"
    using original_separate[OF assms(3) d assms(4)] by (simp add: same_value_def)
  show "contents (write_cells us (fst (f h v))) T (snd (f h v)) = contents h T v"
    using copy_separate[OF d assms(5)] d by (simp add: same_value_def deep_copy_of_def)
qed

theorem copies_protect_the_cache_witness:
  "contents (write_cells [(3, Vals [Lit (LBool False)])] (fst (SortColumn_DeepCopy sort_column_store (Ref 0))))
     (TPtr SortColumn_type) (Ref 0) = contents sort_column_store (TPtr SortColumn_type) (Ref 0) \<and>
   contents (write_cells [(1, Vals [Lit (LBool False)])] (fst (SortColumn_DeepCopy sort_column_store (Ref 0))))
     (TPtr SortColumn_type) (snd (SortColumn_DeepCopy sort_column_store (Ref 0)))
   = contents sort_column_store (TPtr SortColumn_type) (Ref 0)"
proof -
  have m: "(TPtr SortColumn_type, SortColumn_DeepCopy) \<in> set generated_copies"
    by (simp add: generated_copies_def)
  have w: "wt sort_column_store (TPtr SortColumn_type) (Ref 0)"
    by (simp add: sort_column_store_def SortColumn_type_def wt_struct array_at_def)
  show ?thesis
    by (rule copies_protect_the_cache[OF m w w]) (simp_all add: sort_column_store_def)
qed

text \<open>
  \<open>DeepCopyObject\<close> of a nil pointer is the nil interface, and of an object the interface holding
  a pointer to the new copy under the object's kind.
\<close>

lemma deep_copy_objects:
  assumes "(k, T, g) \<in> set generated_objects"
  shows "g h NilV = (h, None)" "snd (g h (Ref a)) = Some (k, Ref (length h))"
proof -
  have "list_all (\<lambda>p. snd (snd p) h NilV = (h, None) \<and>
      snd (snd (snd p) h (Ref a)) = Some (fst p, Ref (length h))) generated_objects"
    unfolding generated_objects_def list.pred_inject
    by (simp add: DeepCopyObject_defs DeepCopy_defs as_object_def Let_def)
  then show "g h NilV = (h, None)" "snd (g h (Ref a)) = Some (k, Ref (length h))"
    using assms by (auto simp: list_all_iff)
qed

end
