(* ===== verification/Indexers.thy ===== *)
theory Indexers
  imports Effects
begin

text \<open>
  The cache behind an informer (\<^verbatim>\<open>client-go/tools/cache\<close>: \<^verbatim>\<open>thread_safe_store.go\<close>, \<^verbatim>\<open>store.go\<close>, \<^verbatim>\<open>listers.go\<close> and \<^verbatim>\<open>HandleDeltas\<close> of
  \<^verbatim>\<open>shared_informer.go\<close>): a map from keys to objects with an index from namespaces to sets of keys, which is maintained beside it, the deltas of
  a watch applied to both, and the reads that the generated listers use. It refines a map from keys to objects.
\<close>

section \<open>The thread-safe map\<close>

text \<open>The index by namespace is \<open>None\<close> for a cache that was made without that indexer.\<close>

record 'o indexer =
  ix_items :: "'o gomap"
  ix_index :: "string list gomap option"

definition new_indexer :: "bool \<Rightarrow> 'o indexer" where
  "new_indexer indexed = \<lparr>ix_items = [], ix_index = (if indexed then Some [] else None)\<rparr>"

definition deleteFromIndices :: "'a ObjectMeta_scheme \<Rightarrow> string \<Rightarrow> string list gomap \<Rightarrow> string list gomap" where
  "deleteFromIndices obj key idx =
     (case map_of idx (Namespace obj) of
        None \<Rightarrow> idx
      | Some ks \<Rightarrow> map_set (Namespace obj) (filter (\<lambda>k. k \<noteq> key) ks) idx)"

definition updateIndices ::
  "'a ObjectMeta_scheme option \<Rightarrow> 'a ObjectMeta_scheme \<Rightarrow> string \<Rightarrow> string list gomap \<Rightarrow> string list gomap" where
  "updateIndices oldObj newObj key idx =
     (let idx = (case oldObj of None \<Rightarrow> idx | Some old \<Rightarrow> deleteFromIndices old key idx);
          ks = map_get [] idx (Namespace newObj)
      in map_set (Namespace newObj) (if key \<in> set ks then ks else ks @ [key]) idx)"

definition store_Add :: "string \<Rightarrow> 'a ObjectMeta_scheme \<Rightarrow> 'a ObjectMeta_scheme indexer \<Rightarrow> 'a ObjectMeta_scheme indexer" where
  "store_Add key obj ix =
     \<lparr>ix_items = map_set key obj (ix_items ix),
      ix_index = map_option (updateIndices (map_of (ix_items ix) key) obj key) (ix_index ix)\<rparr>"

definition store_Delete :: "string \<Rightarrow> 'a ObjectMeta_scheme indexer \<Rightarrow> 'a ObjectMeta_scheme indexer" where
  "store_Delete key ix =
     (case map_of (ix_items ix) key of
        None \<Rightarrow> ix
      | Some obj \<Rightarrow>
          \<lparr>ix_items = map_del key (ix_items ix), ix_index = map_option (deleteFromIndices obj key) (ix_index ix)\<rparr>)"

definition store_Index :: "string \<Rightarrow> 'o indexer \<Rightarrow> 'o list option" where
  "store_Index ns ix =
     map_option (\<lambda>idx. List.map_filter (map_of (ix_items ix)) (map_get [] idx ns)) (ix_index ix)"

section \<open>Deltas\<close>

datatype 'o gone = Known 'o | Unknown string 'o

fun gone_key :: "'a ObjectMeta_scheme gone \<Rightarrow> string" where
  "gone_key (Known obj) = MetaNamespaceKeyFunc obj"
| "gone_key (Unknown key obj) = key"

datatype 'o delta = SyncDelta 'o | Added 'o | Updated 'o | Deleted "'o gone"

datatype 'o notification = OnAdd 'o | OnUpdate 'o 'o | OnDelete "'o gone"

definition put_object ::
  "'a ObjectMeta_scheme \<Rightarrow> 'a ObjectMeta_scheme indexer \<Rightarrow> 'a ObjectMeta_scheme notification \<times> 'a ObjectMeta_scheme indexer" where
  "put_object obj ix =
     (case map_of (ix_items ix) (MetaNamespaceKeyFunc obj) of
        Some old \<Rightarrow> (OnUpdate old obj, store_Add (MetaNamespaceKeyFunc obj) obj ix)
      | None \<Rightarrow> (OnAdd obj, store_Add (MetaNamespaceKeyFunc obj) obj ix))"

fun handle_delta ::
  "'a ObjectMeta_scheme delta \<Rightarrow> 'a ObjectMeta_scheme indexer \<Rightarrow> 'a ObjectMeta_scheme notification \<times> 'a ObjectMeta_scheme indexer" where
  "handle_delta (SyncDelta obj) ix = put_object obj ix"
| "handle_delta (Added obj) ix = put_object obj ix"
| "handle_delta (Updated obj) ix = put_object obj ix"
| "handle_delta (Deleted g) ix = (OnDelete g, store_Delete (gone_key g) ix)"

fun HandleDeltas ::
  "'a ObjectMeta_scheme delta list \<Rightarrow> 'a ObjectMeta_scheme indexer \<Rightarrow>
   'a ObjectMeta_scheme notification list \<times> 'a ObjectMeta_scheme indexer" where
  "HandleDeltas [] ix = ([], ix)"
| "HandleDeltas (d # ds) ix =
     (let a = handle_delta d ix; b = HandleDeltas ds (snd a) in (fst a # fst b, snd b))"

section \<open>Reads\<close>

type_synonym selector = "string gomap \<Rightarrow> bool"

definition GetByKey :: "string \<Rightarrow> 'o indexer \<Rightarrow> 'o option" where
  "GetByKey key ix = map_of (ix_items ix) key"

definition indexer_List :: "'o indexer \<Rightarrow> 'o list" where
  "indexer_List ix = map snd (ix_items ix)"

definition ListAll :: "'a ObjectMeta_scheme indexer \<Rightarrow> selector \<Rightarrow> 'a ObjectMeta_scheme list" where
  "ListAll ix sel = filter (\<lambda>m. sel (Labels m)) (indexer_List ix)"

definition ListAllByNamespace :: "'a ObjectMeta_scheme indexer \<Rightarrow> string \<Rightarrow> selector \<Rightarrow> 'a ObjectMeta_scheme list" where
  "ListAllByNamespace ix ns sel =
     (if ns = [] then filter (\<lambda>m. sel (Labels m)) (indexer_List ix)
      else case store_Index ns ix of
        None \<Rightarrow> filter (\<lambda>m. Namespace m = ns \<and> sel (Labels m)) (indexer_List ix)
      | Some items \<Rightarrow> filter (\<lambda>m. sel (Labels m)) items)"

section \<open>The invariant\<close>

text \<open>Every object is stored under its own key, and the index knows exactly the keys of each namespace.\<close>

definition keyed :: "'a ObjectMeta_scheme indexer \<Rightarrow> bool" where
  "keyed ix \<longleftrightarrow> distinct (map fst (ix_items ix)) \<and> (\<forall>(k, obj) \<in> set (ix_items ix). k = MetaNamespaceKeyFunc obj)"

definition indexed :: "'a ObjectMeta_scheme gomap \<Rightarrow> string list gomap \<Rightarrow> bool" where
  "indexed items idx \<longleftrightarrow>
     (\<forall>ns. distinct (map_get [] idx ns) \<and>
       set (map_get [] idx ns) = {k. \<exists>obj. map_of items k = Some obj \<and> Namespace obj = ns})"

definition ix_ok :: "'a ObjectMeta_scheme indexer \<Rightarrow> bool" where
  "ix_ok ix \<longleftrightarrow> keyed ix \<and> (case ix_index ix of None \<Rightarrow> True | Some idx \<Rightarrow> indexed (ix_items ix) idx)"

lemma map_get_set [simp]: "map_get z (map_set k v m) j = (if j = k then v else map_get z m j)"
  by (simp add: map_get_def)

lemma deleteFromIndices_get:
  "map_get [] (deleteFromIndices obj key idx) ns =
     (if ns = Namespace obj then filter (\<lambda>k. k \<noteq> key) (map_get [] idx ns) else map_get [] idx ns)"
  by (auto simp: deleteFromIndices_def map_get_def split: option.splits)

lemma indexed_delete:
  assumes "indexed items idx" "map_of items key = Some obj"
  shows "indexed (map_del key items) (deleteFromIndices obj key idx)"
  using assms by (auto simp: indexed_def deleteFromIndices_get)

lemma indexed_add:
  assumes "indexed items idx"
  shows "indexed (map_set key obj items) (updateIndices (map_of items key) obj key idx)"
proof -
  define idx' where "idx' = (case map_of items key of None \<Rightarrow> idx | Some old \<Rightarrow> deleteFromIndices old key idx)"
  have "distinct (map_get [] idx' ns) \<and>
      set (map_get [] idx' ns) = {k. k \<noteq> key \<and> (\<exists>obj. map_of items k = Some obj \<and> Namespace obj = ns)}" for ns
    using assms by (auto simp: idx'_def indexed_def deleteFromIndices_get split: option.splits)
  then show ?thesis
    unfolding indexed_def updateIndices_def idx'_def[symmetric] Let_def by auto
qed

lemma keyed_Add: "keyed ix \<Longrightarrow> keyed (store_Add (MetaNamespaceKeyFunc obj) obj ix)"
  by (auto simp: keyed_def store_Add_def dest!: map_of_is_SomeI[rotated] intro!: map_of_SomeD split: if_splits)

lemma ok_Add: "ix_ok ix \<Longrightarrow> ix_ok (store_Add (MetaNamespaceKeyFunc obj) obj ix)"
  using keyed_Add[of ix obj] by (auto simp: ix_ok_def indexed_add store_Add_def split: option.splits)

lemma ok_Delete: "ix_ok ix \<Longrightarrow> ix_ok (store_Delete key ix)"
proof (cases "map_of (ix_items ix) key")
  case (Some obj)
  assume ok: "ix_ok ix"
  have "set (map_del key (ix_items ix)) \<subseteq> set (ix_items ix)"
    by (simp add: map_del_def AList.delete_eq)
  then have "keyed (store_Delete key ix)"
    using ok Some by (auto simp: ix_ok_def keyed_def store_Delete_def)
  then show ?thesis using ok Some by (auto simp: ix_ok_def store_Delete_def indexed_delete split: option.splits)
qed (simp add: store_Delete_def)

lemma ok_delta: "ix_ok ix \<Longrightarrow> ix_ok (snd (handle_delta d ix))"
  by (cases d) (auto simp: put_object_def ok_Add ok_Delete split: option.splits)

lemma ok_deltas: "ix_ok ix \<Longrightarrow> ix_ok (snd (HandleDeltas ds ix))"
proof (induction ds arbitrary: ix)
  case (Cons d ds)
  then show ?case by (simp add: Let_def ok_delta)
qed simp

lemma ok_new: "ix_ok (new_indexer b)"
  by (simp add: new_indexer_def ix_ok_def keyed_def indexed_def map_get_def)

section \<open>The map it refines\<close>

text \<open>The abstract cache is a map from keys to objects, in which a delta sets or removes one key.\<close>

fun apply_delta :: "'a ObjectMeta_scheme delta \<Rightarrow> (string \<rightharpoonup> 'a ObjectMeta_scheme) \<Rightarrow> (string \<rightharpoonup> 'a ObjectMeta_scheme)" where
  "apply_delta (SyncDelta obj) m = m(MetaNamespaceKeyFunc obj \<mapsto> obj)"
| "apply_delta (Added obj) m = m(MetaNamespaceKeyFunc obj \<mapsto> obj)"
| "apply_delta (Updated obj) m = m(MetaNamespaceKeyFunc obj \<mapsto> obj)"
| "apply_delta (Deleted g) m = m(gone_key g := None)"

definition cached :: "'o indexer \<Rightarrow> (string \<rightharpoonup> 'o)" where
  "cached ix = map_of (ix_items ix)"

lemma cached_delta: "cached (snd (handle_delta d ix)) = apply_delta d (cached ix)"
  by (cases d) (auto simp: cached_def put_object_def store_Add_def store_Delete_def fun_upd_idem split: option.splits)

lemma cached_deltas: "cached (snd (HandleDeltas ds ix)) = fold apply_delta ds (cached ix)"
  by (induction ds arbitrary: ix) (simp_all add: Let_def cached_delta)

lemma keyed_cached: "ix_ok ix \<Longrightarrow> cached ix k = Some obj \<Longrightarrow> k = MetaNamespaceKeyFunc obj"
  by (auto simp: ix_ok_def keyed_def cached_def dest: map_of_SomeD)

lemma set_indexer_List: "ix_ok ix \<Longrightarrow> set (indexer_List ix) = ran (cached ix)"
  by (auto simp: ix_ok_def keyed_def indexer_List_def cached_def ran_distinct)

lemma key_inj:
  assumes "ix_ok ix" "cached ix k = Some obj" "cached ix j = Some obj"
  shows "k = j"
  using keyed_cached[OF assms(1,2)] keyed_cached[OF assms(1,3)] by simp

lemma set_map_filter: "set (List.map_filter f xs) = {y. \<exists>x \<in> set xs. f x = Some y}"
  by (induction xs) (auto simp: map_filter_simps split: option.splits)

text \<open>Reading through the index gives what a scan of all objects gives.\<close>

lemma set_ListAllByNamespace:
  assumes "ix_ok ix"
  shows "set (ListAllByNamespace ix ns sel) = {obj \<in> ran (cached ix). (ns = [] \<or> Namespace obj = ns) \<and> sel (Labels obj)}"
proof (cases "ns = []")
  case True
  then show ?thesis using set_indexer_List[OF assms] by (auto simp: ListAllByNamespace_def)
next
  case False
  show ?thesis
  proof (cases "ix_index ix")
    case None
    then show ?thesis using False set_indexer_List[OF assms] by (auto simp: ListAllByNamespace_def store_Index_def)
  next
    case (Some idx)
    then have "set (map_get [] idx ns) = {k. \<exists>obj. cached ix k = Some obj \<and> Namespace obj = ns}"
      using assms by (simp add: ix_ok_def indexed_def cached_def)
    then have "set (List.map_filter (cached ix) (map_get [] idx ns)) = {obj \<in> ran (cached ix). Namespace obj = ns}"
      by (auto simp: set_map_filter ran_def)
    then show ?thesis using False Some by (auto simp: ListAllByNamespace_def store_Index_def cached_def)
  qed
qed

lemma distinct_ListAllByNamespace:
  assumes "ix_ok ix"
  shows "distinct (ListAllByNamespace ix ns sel)"
proof -
  have "inj_on (\<lambda>k. the (cached ix k)) (dom (cached ix))"
    using key_inj[OF assms] by (auto simp: inj_on_def)
  moreover have "indexer_List ix = map (\<lambda>k. the (cached ix k)) (map fst (ix_items ix))"
    using assms by (auto simp: indexer_List_def cached_def ix_ok_def keyed_def intro!: nth_equalityI)
  ultimately have l: "distinct (indexer_List ix)"
    using assms by (simp add: distinct_map ix_ok_def keyed_def cached_def dom_map_of_conv_image_fst comp_inj_on)
  have m: "distinct (List.map_filter (cached ix) ks)" if "distinct ks" for ks
    using that
  proof (induction ks)
    case (Cons k ks)
    then show ?case using key_inj[OF assms] by (auto simp: map_filter_simps set_map_filter split: option.splits)
  qed (simp add: map_filter_simps)
  then show ?thesis using assms l
    by (auto simp: ListAllByNamespace_def store_Index_def cached_def[symmetric] ix_ok_def indexed_def split: option.splits)
qed

text \<open>The object with a namespace and a name is found under the key of both.\<close>

lemma GetByKey_iff:
  assumes "ix_ok ix" "ns \<noteq> []" "CHR ''/'' \<notin> set ns"
    "\<forall>obj \<in> ran (cached ix). CHR ''/'' \<notin> set (Namespace obj) \<and> CHR ''/'' \<notin> set (Name obj)" "CHR ''/'' \<notin> set n"
  shows "GetByKey (ns @ ''/'' @ n) ix = Some obj \<longleftrightarrow> obj \<in> ran (cached ix) \<and> Namespace obj = ns \<and> Name obj = n"
proof
  assume "GetByKey (ns @ ''/'' @ n) ix = Some obj"
  then have c: "cached ix (ns @ ''/'' @ n) = Some obj" by (simp add: GetByKey_def cached_def)
  then have o: "obj \<in> ran (cached ix)" by (auto simp: ran_def)
  have k: "MetaNamespaceKeyFunc obj = ns @ ''/'' @ n" using keyed_cached[OF assms(1) c] by simp
  have "SplitMetaNamespaceKey (MetaNamespaceKeyFunc obj) = Inr (Namespace obj, Name obj)"
    using assms(4) o by (intro SplitMetaNamespaceKey_key) auto
  moreover have "SplitMetaNamespaceKey (ns @ ''/'' @ n) = Inr (ns, n)"
    using assms(3,5) by (simp add: SplitMetaNamespaceKey_def Split_append Split_no_sep)
  ultimately show "obj \<in> ran (cached ix) \<and> Namespace obj = ns \<and> Name obj = n" using o k by simp
next
  assume o: "obj \<in> ran (cached ix) \<and> Namespace obj = ns \<and> Name obj = n"
  then obtain k where k: "cached ix k = Some obj" by (auto simp: ran_def)
  then show "GetByKey (ns @ ''/'' @ n) ix = Some obj"
    using keyed_cached[OF assms(1) k] o assms(2) by (auto simp: GetByKey_def cached_def MetaNamespaceKeyFunc_def)
qed

end
