(* ===== verification/Rest_Requests.thy ===== *)
theory Rest_Requests
  imports Go_Paths "HOL-Library.Word"
begin

text \<open>
  Requests to the API server as client-go builds and sends them (\<^verbatim>\<open>k8s.io/client-go/rest\<close>, the part that the generated clients call): the
  builder whose first error makes every later call do nothing, the URL, and the loop that repeats a request when the server asks for it.
\<close>

section \<open>The builder\<close>

datatype request_error =
    AlreadySet string string
  | NameEmpty
  | InvalidSegment string "string list"
  | NoNamespace
  | NoNamespaceOnCreate
  | CallFailed goerror

record rest_request =
  rq_verb :: string
  rq_pathPrefix :: string
  rq_params :: "(string \<times> string) list"
  rq_namespace :: "string option"
  rq_resource :: string
  rq_resourceName :: string
  rq_subresource :: string
  rq_timeout :: "64 word"
  rq_err :: "request_error option"
  rq_body :: "string option"
  rq_contentType :: string

definition IsValidPathSegmentName :: "string \<Rightarrow> string list" where
  "IsValidPathSegmentName name =
     (if name = ''.'' \<or> name = ''..'' then [''may not be '' @ name]
      else map (\<lambda>c. ''may not contain '' @ [c]) (filter (\<lambda>c. c \<in> set name) [CHR ''/'', CHR ''%'']))"

definition DefaultVersionedAPIPath :: "string \<Rightarrow> string \<Rightarrow> string \<Rightarrow> string" where
  "DefaultVersionedAPIPath apiPath grp version =
     (let p = path_Join [''/'', apiPath]
      in if grp \<noteq> [] then path_Join [p, grp, version] else path_Join [p, version])"

definition NewRequest :: "string \<Rightarrow> string \<Rightarrow> string \<Rightarrow> 64 word \<Rightarrow> rest_request" where
  "NewRequest verb base versionedAPIPath timeout =
     \<lparr>rq_verb = verb, rq_pathPrefix = path_Join [path_Join [''/'', base], versionedAPIPath], rq_params = [], rq_namespace = None,
      rq_resource = [], rq_resourceName = [], rq_subresource = [], rq_timeout = timeout, rq_err = None, rq_body = None,
      rq_contentType = []\<rparr>"

definition req_Namespace :: "string \<Rightarrow> rest_request \<Rightarrow> rest_request" where
  "req_Namespace ns r =
     (if rq_err r \<noteq> None then r
      else case rq_namespace r of
        Some ns' \<Rightarrow> r\<lparr>rq_err := Some (AlreadySet ns' ns)\<rparr>
      | None \<Rightarrow>
          if IsValidPathSegmentName ns \<noteq> [] then r\<lparr>rq_err := Some (InvalidSegment ns (IsValidPathSegmentName ns))\<rparr>
          else r\<lparr>rq_namespace := Some ns\<rparr>)"

definition req_Resource :: "string \<Rightarrow> rest_request \<Rightarrow> rest_request" where
  "req_Resource res r =
     (if rq_err r \<noteq> None then r
      else if rq_resource r \<noteq> [] then r\<lparr>rq_err := Some (AlreadySet (rq_resource r) res)\<rparr>
      else if IsValidPathSegmentName res \<noteq> [] then r\<lparr>rq_err := Some (InvalidSegment res (IsValidPathSegmentName res))\<rparr>
      else r\<lparr>rq_resource := res\<rparr>)"

definition req_Name :: "string \<Rightarrow> rest_request \<Rightarrow> rest_request" where
  "req_Name n r =
     (if rq_err r \<noteq> None then r
      else if n = [] then r\<lparr>rq_err := Some NameEmpty\<rparr>
      else if rq_resourceName r \<noteq> [] then r\<lparr>rq_err := Some (AlreadySet (rq_resourceName r) n)\<rparr>
      else if IsValidPathSegmentName n \<noteq> [] then r\<lparr>rq_err := Some (InvalidSegment n (IsValidPathSegmentName n))\<rparr>
      else r\<lparr>rq_resourceName := n\<rparr>)"

definition req_SubResource :: "string list \<Rightarrow> rest_request \<Rightarrow> rest_request" where
  "req_SubResource subs r =
     (if rq_err r \<noteq> None then r
      else if rq_subresource r \<noteq> [] then r\<lparr>rq_err := Some (AlreadySet (rq_resource r) (path_Join subs))\<rparr>
      else case find (\<lambda>s. IsValidPathSegmentName s \<noteq> []) subs of
        Some s \<Rightarrow> r\<lparr>rq_err := Some (InvalidSegment s (IsValidPathSegmentName s))\<rparr>
      | None \<Rightarrow> r\<lparr>rq_subresource := path_Join subs\<rparr>)"

text \<open>The parameters of a request are what the codec makes of the options, \<open>params\<close>.\<close>

definition req_VersionedParams :: "goerror + (string \<times> string) list \<Rightarrow> rest_request \<Rightarrow> rest_request" where
  "req_VersionedParams params r =
     (if rq_err r \<noteq> None then r
      else case params of Inl e \<Rightarrow> r\<lparr>rq_err := Some (CallFailed e)\<rparr> | Inr ps \<Rightarrow> r\<lparr>rq_params := rq_params r @ ps\<rparr>)"

definition req_Timeout :: "64 word \<Rightarrow> rest_request \<Rightarrow> rest_request" where
  "req_Timeout d r = (if rq_err r \<noteq> None then r else r\<lparr>rq_timeout := d\<rparr>)"

text \<open>
  The bodies the generated clients pass: raw bytes, or an object, which is \<open>None\<close> for a typed nil pointer and otherwise what the encoder
  makes of it.
\<close>

datatype body_arg = RawBody string | ObjectBody "(goerror + string) option"

definition req_Body :: "body_arg \<Rightarrow> rest_request \<Rightarrow> rest_request" where
  "req_Body b r =
     (if rq_err r \<noteq> None then r
      else case b of
        RawBody data \<Rightarrow> r\<lparr>rq_body := Some data\<rparr>
      | ObjectBody None \<Rightarrow> r
      | ObjectBody (Some (Inl e)) \<Rightarrow> r\<lparr>rq_err := Some (CallFailed e)\<rparr>
      | ObjectBody (Some (Inr data)) \<Rightarrow> r\<lparr>rq_body := Some data, rq_contentType := ''application/json''\<rparr>)"

section \<open>The URL\<close>

definition req_path :: "rest_request \<Rightarrow> string" where
  "req_path r =
     (let p = rq_pathPrefix r;
          p = (case rq_namespace r of Some ns \<Rightarrow> if ns \<noteq> [] then path_Join [p, ''namespaces'', ns] else p | None \<Rightarrow> p);
          p = (if rq_resource r \<noteq> [] then path_Join [p, ToLower (rq_resource r)] else p)
      in if rq_resourceName r \<noteq> [] \<or> rq_subresource r \<noteq> [] then path_Join [p, rq_resourceName r, rq_subresource r] else p)"

record http_req =
  hr_verb :: string
  hr_path :: string
  hr_params :: "(string \<times> string) list"
  hr_timeout :: "64 word"
  hr_body :: "string option"
  hr_contentType :: string

definition http_request_of :: "rest_request \<Rightarrow> http_req" where
  "http_request_of r =
     \<lparr>hr_verb = rq_verb r, hr_path = req_path r, hr_params = rq_params r, hr_timeout = rq_timeout r, hr_body = rq_body r,
      hr_contentType = rq_contentType r\<rparr>"

section \<open>Sending\<close>

text \<open>The header \<^verbatim>\<open>Retry-After\<close> is \<open>None\<close> when it is missing or not a number.\<close>

record http_resp =
  rs_status :: int
  rs_retryAfter :: "int option"
  rs_body :: string

datatype transport_answer = Answered http_resp | ConnectionReset goerror | ProbableEOF goerror | TransportFailed goerror

text \<open>A transport answers the \<open>n\<close>-th attempt.\<close>

type_synonym transport = "nat \<Rightarrow> http_req \<Rightarrow> transport_answer"

definition checkWait :: "http_resp \<Rightarrow> bool" where
  "checkWait resp \<longleftrightarrow> (rs_status resp = 429 \<or> rs_status resp \<ge> 500) \<and> rs_retryAfter resp \<noteq> None"

definition reset_response :: http_resp where
  "reset_response = \<lparr>rs_status = 500, rs_retryAfter = Some 1, rs_body = []\<rparr>"

definition maxRetries :: nat where "maxRetries = 10"

text \<open>What one attempt gives: an error that ends the loop, or a response, which a reset connection of a \<^verbatim>\<open>GET\<close> counts as.\<close>

fun attempt_result :: "string \<Rightarrow> transport_answer \<Rightarrow> goerror + http_resp" where
  "attempt_result verb (Answered resp) = Inr resp"
| "attempt_result verb (ConnectionReset e) = (if verb \<noteq> ''GET'' then Inl e else Inr reset_response)"
| "attempt_result verb (ProbableEOF e) = Inl e"
| "attempt_result verb (TransportFailed e) = Inl e"

function send_loop :: "transport \<Rightarrow> http_req \<Rightarrow> nat \<Rightarrow> http_req list \<times> (request_error + http_resp)" where
  "send_loop tr q retries =
     (case attempt_result (hr_verb q) (tr retries q) of
        Inl e \<Rightarrow> ([q], Inl (CallFailed e))
      | Inr resp \<Rightarrow>
          if checkWait resp \<and> Suc retries < maxRetries
          then (let r = send_loop tr q (Suc retries) in (q # fst r, snd r))
          else ([q], Inr resp))"
  by pat_completeness auto
termination by (relation "measure (\<lambda>(tr, q, n). maxRetries - n)") auto

definition do_request :: "transport \<Rightarrow> rest_request \<Rightarrow> http_req list \<times> (request_error + http_resp)" where
  "do_request tr r =
     (case rq_err r of
        Some e \<Rightarrow> ([], Inl e)
      | None \<Rightarrow>
          if rq_verb r \<in> {''GET'', ''PUT'', ''DELETE''} \<and> rq_namespace r = Some [] \<and> rq_resourceName r \<noteq> [] then ([], Inl NoNamespace)
          else if rq_verb r = ''POST'' \<and> rq_namespace r = Some [] then ([], Inl NoNamespaceOnCreate)
          else send_loop tr (http_request_of r) 0)"

datatype watch_result = EmptyWatch | WatchStream http_resp

text \<open>\<^verbatim>\<open>Watch\<close> sends the request once. \<open>failure\<close> is what client-go makes of a response that is not 200.\<close>

definition watch_request ::
  "transport \<Rightarrow> (http_resp \<Rightarrow> goerror) \<Rightarrow> rest_request \<Rightarrow> http_req list \<times> (request_error + watch_result)" where
  "watch_request tr failure r =
     (case rq_err r of
        Some e \<Rightarrow> ([], Inl e)
      | None \<Rightarrow>
          ([http_request_of r],
           case tr 0 (http_request_of r) of
             ProbableEOF _ \<Rightarrow> Inr EmptyWatch
           | ConnectionReset e \<Rightarrow> Inl (CallFailed e)
           | TransportFailed e \<Rightarrow> Inl (CallFailed e)
           | Answered resp \<Rightarrow> if rs_status resp \<noteq> 200 then Inl (CallFailed (failure resp)) else Inr (WatchStream resp)))"

section \<open>Lemmas\<close>

declare send_loop.simps [simp del]

definition good_segment :: "string \<Rightarrow> bool" where
  "good_segment s \<longleftrightarrow> plain_name s \<and> CHR ''%'' \<notin> set s"

lemma IsValidPathSegmentName_iff: "IsValidPathSegmentName s = [] \<longleftrightarrow> s = [] \<or> good_segment s"
  by (auto simp: IsValidPathSegmentName_def good_segment_def plain_name_def)

definition abs_path :: "string list \<Rightarrow> string" where
  "abs_path es = join ''/'' ([] # es)"

lemma join_nested: "xs \<noteq> [] \<Longrightarrow> join sep (join sep xs # ys) = join sep (xs @ ys)"
proof (induction sep xs rule: join.induct)
  case (2 sep x)
  show ?case by simp
next
  case (3 sep x y xs)
  then have "join sep (join sep (y # xs) # ys) = join sep ((y # xs) @ ys)" by simp
  then show ?case by (cases ys) simp_all
qed simp

lemma Split_abs_path: "\<forall>e \<in> set es. plain_name e \<Longrightarrow> Split (abs_path es) (CHR ''/'') = [] # es"
  unfolding abs_path_def by (intro Split_join) (auto simp: plain_name_def)

lemma Clean_abs_path:
  assumes "es \<noteq> []" "\<forall>e \<in> set es. plain_name e"
  shows "Clean (abs_path es) = abs_path es"
proof -
  note Split_abs_path[OF assms(2)]
  moreover have "foldl (clean_step True) [] ([] # es) = es"
    using clean_plain[OF assms(2), of True "[]"] by (simp add: clean_step_def)
  moreover have "abs_path es = CHR ''/'' # join ''/'' es"
    using assms(1) by (cases es) (simp_all add: abs_path_def)
  ultimately show ?thesis by (simp add: Clean_def Let_def)
qed

lemma path_Join_abs:
  assumes "es \<noteq> []" "\<forall>e \<in> set es. plain_name e" "\<forall>y \<in> set ys. y = [] \<or> plain_name y"
  shows "path_Join (abs_path es # ys) = abs_path (es @ filter (\<lambda>y. y \<noteq> []) ys)"
proof -
  have "abs_path es \<noteq> []" using assms(1) by (cases es) (simp_all add: abs_path_def)
  then have "path_Join (abs_path es # ys) = Clean (join ''/'' (abs_path es # filter (\<lambda>y. y \<noteq> []) ys))"
    by (simp add: path_Join_def)
  also have "join ''/'' (abs_path es # filter (\<lambda>y. y \<noteq> []) ys) = abs_path (es @ filter (\<lambda>y. y \<noteq> []) ys)"
    unfolding abs_path_def by (subst join_nested) simp_all
  also have "Clean \<dots> = abs_path (es @ filter (\<lambda>y. y \<noteq> []) ys)"
    using assms by (intro Clean_abs_path) auto
  finally show ?thesis .
qed

lemma abs_path_inject:
  assumes "\<forall>e \<in> set es. plain_name e" "\<forall>f \<in> set fs. plain_name f" "abs_path es = abs_path fs"
  shows "es = fs"
proof -
  have "[] # es = [] # fs"
    using Split_abs_path[OF assms(1)] Split_abs_path[OF assms(2)] assms(3) by metis
  then show ?thesis by simp
qed

lemma send_loop_requests:
  "set (fst (send_loop tr q n)) = {q} \<and> length (fst (send_loop tr q n)) \<le> Suc (maxRetries - Suc n)"
proof (induction tr q n rule: send_loop.induct)
  case (1 tr q n)
  show ?case
  proof (cases "\<exists>resp. attempt_result (hr_verb q) (tr n q) = Inr resp \<and> checkWait resp \<and> Suc n < maxRetries")
    case True
    then obtain resp where r: "attempt_result (hr_verb q) (tr n q) = Inr resp" "checkWait resp \<and> Suc n < maxRetries"
      by blast
    have "fst (send_loop tr q n) = q # fst (send_loop tr q (Suc n))"
      using r by (simp add: send_loop.simps[of tr q n] Let_def)
    with 1[OF r] r(2) show ?thesis by auto
  next
    case False
    then have "fst (send_loop tr q n) = [q]"
      by (auto simp: send_loop.simps[of tr q n] split: sum.splits)
    then show ?thesis by simp
  qed
qed

text \<open>A request that has an error stays as it is; every builder keeps what the others set.\<close>

lemma builder_err:
  assumes "rq_err r = Some e"
  shows "req_Namespace ns r = r" "req_Resource res r = r" "req_Name n r = r" "req_SubResource ss r = r"
    "req_VersionedParams ps r = r" "req_Timeout d r = r" "req_Body b r = r"
  using assms
  by (simp_all add: req_Namespace_def req_Resource_def req_Name_def req_SubResource_def req_VersionedParams_def req_Timeout_def
      req_Body_def)

lemma do_request_err: "rq_err r = Some e \<Longrightarrow> do_request tr r = ([], Inl e)"
  by (simp add: do_request_def)

lemma do_request_sent:
  "q \<in> set (fst (do_request tr r)) \<Longrightarrow> q = http_request_of r \<and> rq_err r = None"
  using send_loop_requests[of tr "http_request_of r" 0] by (auto simp: do_request_def split: option.splits if_splits)

lemma do_request_attempts: "length (fst (do_request tr r)) \<le> maxRetries"
  using send_loop_requests[of tr "http_request_of r" 0]
  by (auto simp: do_request_def maxRetries_def split: option.splits)

end
