(* ===== verification/Typed_Clients.thy ===== *)
theory Typed_Clients
  imports Complex_Main Rest_Requests Finalizers
begin

text \<open>
  The generated clients of the six kinds of resources (\<^verbatim>\<open>pkg/generated/clientset/versioned/typed/metering/v1\<close>): every method is the chain of
  builder calls of its source, from the inside out, and what it returns is the list of the requests it sent to the API server with the
  results of the Go method. The object type is any record of object metadata; what the codecs and the server do are fields of the client.
\<close>

section \<open>The client\<close>

record list_options =
  lo_LabelSelector :: string
  lo_FieldSelector :: string
  lo_IncludeUninitialized :: bool
  lo_Watch :: bool
  lo_ResourceVersion :: string
  lo_TimeoutSeconds :: "64 word option"
  lo_Limit :: int
  lo_Continue :: string

record get_options =
  geto_ResourceVersion :: string
  geto_IncludeUninitialized :: bool

record delete_options =
  del_GracePeriodSeconds :: "int option"
  del_UID :: "string option"
  del_OrphanDependents :: "bool option"
  del_PropagationPolicy :: "string option"
  del_DryRun :: "string list"

datatype call_options = GetOpts get_options | ListOpts list_options

text \<open>
  \<open>cl_decode\<close> is what decoding a response into a new object gives: the object and the error, as both are returned; \<open>cl_zero\<close> is the
  object when nothing was decoded.
\<close>

record ('o, 'l) rest_client =
  cl_base :: string
  cl_clientTimeout :: "64 word"
  cl_transport :: transport
  cl_params :: "call_options \<Rightarrow> goerror + (string \<times> string) list"
  cl_encode :: "'o \<Rightarrow> goerror + string"
  cl_encodeDelete :: "delete_options \<Rightarrow> goerror + string"
  cl_zero :: 'o
  cl_decode :: "http_resp \<Rightarrow> 'o \<times> goerror option"
  cl_zeroList :: 'l
  cl_decodeList :: "http_resp \<Rightarrow> 'l \<times> goerror option"
  cl_failure :: "http_resp \<Rightarrow> goerror option"
  cl_watchFailure :: "http_resp \<Rightarrow> goerror"

record ('o, 'l) resource_client =
  rc_client :: "('o, 'l) rest_client"
  rc_ns :: string

text \<open>
  The configuration of a client, as far as the generated constructors read or set it. A rate limiter is known by the rate and the burst it
  was made with. \<open>RESTClientFor\<close> and \<open>NewDiscoveryClientForConfig\<close> are the constructors of client-go.
\<close>

record rest_config =
  cfg_GroupVersion :: "(string \<times> string) option"
  cfg_APIPath :: string
  cfg_UserAgent :: string
  cfg_QPS :: rat
  cfg_Burst :: int
  cfg_RateLimiter :: "(rat \<times> int) option"

definition setConfigDefaults :: "string \<Rightarrow> rest_config \<Rightarrow> rest_config" where
  "setConfigDefaults defaultUserAgent config =
     config\<lparr>cfg_GroupVersion := Some (GroupName, ''v1''), cfg_APIPath := ''/apis'',
       cfg_UserAgent := (if cfg_UserAgent config = [] then defaultUserAgent else cfg_UserAgent config)\<rparr>"

definition MeteringV1_NewForConfig :: "string \<Rightarrow> (rest_config \<Rightarrow> goerror + 'c) \<Rightarrow> rest_config \<Rightarrow> goerror + 'c" where
  "MeteringV1_NewForConfig ua RESTClientFor c = RESTClientFor (setConfigDefaults ua c)"

definition MeteringV1_NewForConfigOrDie :: "string \<Rightarrow> (rest_config \<Rightarrow> goerror + 'c) \<Rightarrow> rest_config \<Rightarrow> goerror + 'c" where
  "MeteringV1_NewForConfigOrDie ua RESTClientFor c =
     (case MeteringV1_NewForConfig ua RESTClientFor c of Inl e \<Rightarrow> Inl (GoPanic ''NewForConfigOrDie'') | Inr cl \<Rightarrow> Inr cl)"

record ('c, 'd) clientset =
  cs_DiscoveryClient :: 'd
  cs_meteringV1 :: 'c

definition Clientset_NewForConfig ::
  "string \<Rightarrow> (rest_config \<Rightarrow> goerror + 'c) \<Rightarrow> (rest_config \<Rightarrow> goerror + 'd) \<Rightarrow> rest_config \<Rightarrow> goerror + ('c, 'd) clientset" where
  "Clientset_NewForConfig ua RESTClientFor NewDiscoveryClientForConfig c =
     (let c = (if cfg_RateLimiter c = None \<and> cfg_QPS c > 0 then c\<lparr>cfg_RateLimiter := Some (cfg_QPS c, cfg_Burst c)\<rparr> else c)
      in case MeteringV1_NewForConfig ua RESTClientFor c of
           Inl e \<Rightarrow> Inl e
         | Inr m \<Rightarrow>
             (case NewDiscoveryClientForConfig c of
                Inl e \<Rightarrow> Inl e
              | Inr d \<Rightarrow> Inr \<lparr>cs_DiscoveryClient = d, cs_meteringV1 = m\<rparr>))"

text \<open>The path that the group and the version of the configuration give.\<close>

definition config_api_path :: "rest_config \<Rightarrow> string" where
  "config_api_path c =
     (case cfg_GroupVersion c of
        None \<Rightarrow> DefaultVersionedAPIPath (cfg_APIPath c) [] []
      | Some (g, v) \<Rightarrow> DefaultVersionedAPIPath (cfg_APIPath c) g v)"

definition metering_api_path :: string where
  "metering_api_path = DefaultVersionedAPIPath ''/apis'' GroupName ''v1''"

lemma config_path: "config_api_path (setConfigDefaults ua c) = metering_api_path"
  by (simp add: config_api_path_def setConfigDefaults_def metering_api_path_def)

definition rest_Verb :: "('o, 'l) rest_client \<Rightarrow> string \<Rightarrow> rest_request" where
  "rest_Verb c verb = NewRequest verb (cl_base c) metering_api_path (cl_clientTimeout c)"

abbreviation "rest_Get c \<equiv> rest_Verb c ''GET''"
abbreviation "rest_Post c \<equiv> rest_Verb c ''POST''"
abbreviation "rest_Put c \<equiv> rest_Verb c ''PUT''"
abbreviation "rest_Delete c \<equiv> rest_Verb c ''DELETE''"
abbreviation "rest_Patch c pt \<equiv> (rest_Verb c ''PATCH'')\<lparr>rq_contentType := pt\<rparr>"

text \<open>\<^verbatim>\<open>time.Duration(*opts.TimeoutSeconds) * time.Second\<close>, in 64 bits.\<close>

definition opts_timeout :: "list_options \<Rightarrow> 64 word" where
  "opts_timeout opts = (case lo_TimeoutSeconds opts of None \<Rightarrow> 0 | Some s \<Rightarrow> s * 1000000000)"

text \<open>\<^verbatim>\<open>Do().Into(result)\<close>, \<^verbatim>\<open>Do().Error()\<close> and \<^verbatim>\<open>Watch()\<close>.\<close>

definition do_into :: "('o, 'l) rest_client \<Rightarrow> rest_request \<Rightarrow> http_req list \<times> 'o \<times> request_error option" where
  "do_into c r =
     (let a = do_request (cl_transport c) r
      in (fst a, case snd a of Inl e \<Rightarrow> (cl_zero c, Some e)
           | Inr resp \<Rightarrow> (fst (cl_decode c resp), map_option CallFailed (snd (cl_decode c resp)))))"

definition do_into_list :: "('o, 'l) rest_client \<Rightarrow> rest_request \<Rightarrow> http_req list \<times> 'l \<times> request_error option" where
  "do_into_list c r =
     (let a = do_request (cl_transport c) r
      in (fst a, case snd a of Inl e \<Rightarrow> (cl_zeroList c, Some e)
           | Inr resp \<Rightarrow> (fst (cl_decodeList c resp), map_option CallFailed (snd (cl_decodeList c resp)))))"

definition do_error :: "('o, 'l) rest_client \<Rightarrow> rest_request \<Rightarrow> http_req list \<times> request_error option" where
  "do_error c r =
     (let a = do_request (cl_transport c) r
      in (fst a, case snd a of Inl e \<Rightarrow> Some e | Inr resp \<Rightarrow> map_option CallFailed (cl_failure c resp)))"

definition do_watch :: "('o, 'l) rest_client \<Rightarrow> rest_request \<Rightarrow> http_req list \<times> (request_error + watch_result)" where
  "do_watch c r = watch_request (cl_transport c) (cl_watchFailure c) r"

section \<open>The methods of each kind\<close>

definition newHiveTables :: "('o ObjectMeta_scheme, 'l) rest_client \<Rightarrow> string \<Rightarrow> ('o ObjectMeta_scheme, 'l) resource_client" where
  "newHiveTables c ns = \<lparr>rc_client = c, rc_ns = ns\<rparr>"

definition hiveTables_Get ::
  "('o ObjectMeta_scheme, 'l) resource_client \<Rightarrow> string \<Rightarrow> get_options \<Rightarrow> http_req list \<times> 'o ObjectMeta_scheme \<times> request_error option" where
  "hiveTables_Get c name options =
     do_into (rc_client c)
       (req_VersionedParams (cl_params (rc_client c) (GetOpts options))
        (req_Name name
         (req_Resource ''hivetables''
          (req_Namespace (rc_ns c)
           (rest_Get (rc_client c))))))"

definition hiveTables_List ::
  "('o ObjectMeta_scheme, 'l) resource_client \<Rightarrow> list_options \<Rightarrow> http_req list \<times> 'l \<times> request_error option" where
  "hiveTables_List c opts =
     do_into_list (rc_client c)
       (req_Timeout (opts_timeout opts)
        (req_VersionedParams (cl_params (rc_client c) (ListOpts opts))
         (req_Resource ''hivetables''
          (req_Namespace (rc_ns c)
           (rest_Get (rc_client c))))))"

definition hiveTables_Watch ::
  "('o ObjectMeta_scheme, 'l) resource_client \<Rightarrow> list_options \<Rightarrow> http_req list \<times> (request_error + watch_result)" where
  "hiveTables_Watch c opts =
     do_watch (rc_client c)
       (req_Timeout (opts_timeout opts)
        (req_VersionedParams (cl_params (rc_client c) (ListOpts (opts\<lparr>lo_Watch := True\<rparr>)))
         (req_Resource ''hivetables''
          (req_Namespace (rc_ns c)
           (rest_Get (rc_client c))))))"

definition hiveTables_Create ::
  "('o ObjectMeta_scheme, 'l) resource_client \<Rightarrow> 'o ObjectMeta_scheme \<Rightarrow> http_req list \<times> 'o ObjectMeta_scheme \<times> request_error option" where
  "hiveTables_Create c obj =
     do_into (rc_client c)
       (req_Body (ObjectBody (Some (cl_encode (rc_client c) obj)))
        (req_Resource ''hivetables''
         (req_Namespace (rc_ns c)
          (rest_Post (rc_client c)))))"

definition hiveTables_Update ::
  "('o ObjectMeta_scheme, 'l) resource_client \<Rightarrow> 'o ObjectMeta_scheme \<Rightarrow> http_req list \<times> 'o ObjectMeta_scheme \<times> request_error option" where
  "hiveTables_Update c obj =
     do_into (rc_client c)
       (req_Body (ObjectBody (Some (cl_encode (rc_client c) obj)))
        (req_Name (Name obj)
         (req_Resource ''hivetables''
          (req_Namespace (rc_ns c)
           (rest_Put (rc_client c))))))"

definition hiveTables_UpdateStatus ::
  "('o ObjectMeta_scheme, 'l) resource_client \<Rightarrow> 'o ObjectMeta_scheme \<Rightarrow> http_req list \<times> 'o ObjectMeta_scheme \<times> request_error option" where
  "hiveTables_UpdateStatus c obj =
     do_into (rc_client c)
       (req_Body (ObjectBody (Some (cl_encode (rc_client c) obj)))
        (req_SubResource [''status'']
         (req_Name (Name obj)
          (req_Resource ''hivetables''
           (req_Namespace (rc_ns c)
            (rest_Put (rc_client c)))))))"

definition hiveTables_Delete ::
  "('o ObjectMeta_scheme, 'l) resource_client \<Rightarrow> string \<Rightarrow> delete_options option \<Rightarrow> http_req list \<times> request_error option" where
  "hiveTables_Delete c name options =
     do_error (rc_client c)
       (req_Body (ObjectBody (map_option (cl_encodeDelete (rc_client c)) options))
        (req_Name name
         (req_Resource ''hivetables''
          (req_Namespace (rc_ns c)
           (rest_Delete (rc_client c))))))"

definition hiveTables_DeleteCollection ::
  "('o ObjectMeta_scheme, 'l) resource_client \<Rightarrow> delete_options option \<Rightarrow> list_options \<Rightarrow> http_req list \<times> request_error option" where
  "hiveTables_DeleteCollection c options listOptions =
     do_error (rc_client c)
       (req_Body (ObjectBody (map_option (cl_encodeDelete (rc_client c)) options))
        (req_Timeout (opts_timeout listOptions)
         (req_VersionedParams (cl_params (rc_client c) (ListOpts listOptions))
          (req_Resource ''hivetables''
           (req_Namespace (rc_ns c)
            (rest_Delete (rc_client c)))))))"

definition hiveTables_Patch ::
  "('o ObjectMeta_scheme, 'l) resource_client \<Rightarrow> string \<Rightarrow> string \<Rightarrow> string \<Rightarrow> string list \<Rightarrow> http_req list \<times> 'o ObjectMeta_scheme \<times> request_error option" where
  "hiveTables_Patch c name pt data subresources =
     do_into (rc_client c)
       (req_Body (RawBody data)
        (req_Name name
         (req_SubResource subresources
          (req_Resource ''hivetables''
           (req_Namespace (rc_ns c)
            (rest_Patch (rc_client c) pt))))))"

definition newPrestoTables :: "('o ObjectMeta_scheme, 'l) rest_client \<Rightarrow> string \<Rightarrow> ('o ObjectMeta_scheme, 'l) resource_client" where
  "newPrestoTables c ns = \<lparr>rc_client = c, rc_ns = ns\<rparr>"

definition prestoTables_Get ::
  "('o ObjectMeta_scheme, 'l) resource_client \<Rightarrow> string \<Rightarrow> get_options \<Rightarrow> http_req list \<times> 'o ObjectMeta_scheme \<times> request_error option" where
  "prestoTables_Get c name options =
     do_into (rc_client c)
       (req_VersionedParams (cl_params (rc_client c) (GetOpts options))
        (req_Name name
         (req_Resource ''prestotables''
          (req_Namespace (rc_ns c)
           (rest_Get (rc_client c))))))"

definition prestoTables_List ::
  "('o ObjectMeta_scheme, 'l) resource_client \<Rightarrow> list_options \<Rightarrow> http_req list \<times> 'l \<times> request_error option" where
  "prestoTables_List c opts =
     do_into_list (rc_client c)
       (req_Timeout (opts_timeout opts)
        (req_VersionedParams (cl_params (rc_client c) (ListOpts opts))
         (req_Resource ''prestotables''
          (req_Namespace (rc_ns c)
           (rest_Get (rc_client c))))))"

definition prestoTables_Watch ::
  "('o ObjectMeta_scheme, 'l) resource_client \<Rightarrow> list_options \<Rightarrow> http_req list \<times> (request_error + watch_result)" where
  "prestoTables_Watch c opts =
     do_watch (rc_client c)
       (req_Timeout (opts_timeout opts)
        (req_VersionedParams (cl_params (rc_client c) (ListOpts (opts\<lparr>lo_Watch := True\<rparr>)))
         (req_Resource ''prestotables''
          (req_Namespace (rc_ns c)
           (rest_Get (rc_client c))))))"

definition prestoTables_Create ::
  "('o ObjectMeta_scheme, 'l) resource_client \<Rightarrow> 'o ObjectMeta_scheme \<Rightarrow> http_req list \<times> 'o ObjectMeta_scheme \<times> request_error option" where
  "prestoTables_Create c obj =
     do_into (rc_client c)
       (req_Body (ObjectBody (Some (cl_encode (rc_client c) obj)))
        (req_Resource ''prestotables''
         (req_Namespace (rc_ns c)
          (rest_Post (rc_client c)))))"

definition prestoTables_Update ::
  "('o ObjectMeta_scheme, 'l) resource_client \<Rightarrow> 'o ObjectMeta_scheme \<Rightarrow> http_req list \<times> 'o ObjectMeta_scheme \<times> request_error option" where
  "prestoTables_Update c obj =
     do_into (rc_client c)
       (req_Body (ObjectBody (Some (cl_encode (rc_client c) obj)))
        (req_Name (Name obj)
         (req_Resource ''prestotables''
          (req_Namespace (rc_ns c)
           (rest_Put (rc_client c))))))"

definition prestoTables_UpdateStatus ::
  "('o ObjectMeta_scheme, 'l) resource_client \<Rightarrow> 'o ObjectMeta_scheme \<Rightarrow> http_req list \<times> 'o ObjectMeta_scheme \<times> request_error option" where
  "prestoTables_UpdateStatus c obj =
     do_into (rc_client c)
       (req_Body (ObjectBody (Some (cl_encode (rc_client c) obj)))
        (req_SubResource [''status'']
         (req_Name (Name obj)
          (req_Resource ''prestotables''
           (req_Namespace (rc_ns c)
            (rest_Put (rc_client c)))))))"

definition prestoTables_Delete ::
  "('o ObjectMeta_scheme, 'l) resource_client \<Rightarrow> string \<Rightarrow> delete_options option \<Rightarrow> http_req list \<times> request_error option" where
  "prestoTables_Delete c name options =
     do_error (rc_client c)
       (req_Body (ObjectBody (map_option (cl_encodeDelete (rc_client c)) options))
        (req_Name name
         (req_Resource ''prestotables''
          (req_Namespace (rc_ns c)
           (rest_Delete (rc_client c))))))"

definition prestoTables_DeleteCollection ::
  "('o ObjectMeta_scheme, 'l) resource_client \<Rightarrow> delete_options option \<Rightarrow> list_options \<Rightarrow> http_req list \<times> request_error option" where
  "prestoTables_DeleteCollection c options listOptions =
     do_error (rc_client c)
       (req_Body (ObjectBody (map_option (cl_encodeDelete (rc_client c)) options))
        (req_Timeout (opts_timeout listOptions)
         (req_VersionedParams (cl_params (rc_client c) (ListOpts listOptions))
          (req_Resource ''prestotables''
           (req_Namespace (rc_ns c)
            (rest_Delete (rc_client c)))))))"

definition prestoTables_Patch ::
  "('o ObjectMeta_scheme, 'l) resource_client \<Rightarrow> string \<Rightarrow> string \<Rightarrow> string \<Rightarrow> string list \<Rightarrow> http_req list \<times> 'o ObjectMeta_scheme \<times> request_error option" where
  "prestoTables_Patch c name pt data subresources =
     do_into (rc_client c)
       (req_Body (RawBody data)
        (req_Name name
         (req_SubResource subresources
          (req_Resource ''prestotables''
           (req_Namespace (rc_ns c)
            (rest_Patch (rc_client c) pt))))))"

definition newReports :: "('o ObjectMeta_scheme, 'l) rest_client \<Rightarrow> string \<Rightarrow> ('o ObjectMeta_scheme, 'l) resource_client" where
  "newReports c ns = \<lparr>rc_client = c, rc_ns = ns\<rparr>"

definition reports_Get ::
  "('o ObjectMeta_scheme, 'l) resource_client \<Rightarrow> string \<Rightarrow> get_options \<Rightarrow> http_req list \<times> 'o ObjectMeta_scheme \<times> request_error option" where
  "reports_Get c name options =
     do_into (rc_client c)
       (req_VersionedParams (cl_params (rc_client c) (GetOpts options))
        (req_Name name
         (req_Resource ''reports''
          (req_Namespace (rc_ns c)
           (rest_Get (rc_client c))))))"

definition reports_List ::
  "('o ObjectMeta_scheme, 'l) resource_client \<Rightarrow> list_options \<Rightarrow> http_req list \<times> 'l \<times> request_error option" where
  "reports_List c opts =
     do_into_list (rc_client c)
       (req_Timeout (opts_timeout opts)
        (req_VersionedParams (cl_params (rc_client c) (ListOpts opts))
         (req_Resource ''reports''
          (req_Namespace (rc_ns c)
           (rest_Get (rc_client c))))))"

definition reports_Watch ::
  "('o ObjectMeta_scheme, 'l) resource_client \<Rightarrow> list_options \<Rightarrow> http_req list \<times> (request_error + watch_result)" where
  "reports_Watch c opts =
     do_watch (rc_client c)
       (req_Timeout (opts_timeout opts)
        (req_VersionedParams (cl_params (rc_client c) (ListOpts (opts\<lparr>lo_Watch := True\<rparr>)))
         (req_Resource ''reports''
          (req_Namespace (rc_ns c)
           (rest_Get (rc_client c))))))"

definition reports_Create ::
  "('o ObjectMeta_scheme, 'l) resource_client \<Rightarrow> 'o ObjectMeta_scheme \<Rightarrow> http_req list \<times> 'o ObjectMeta_scheme \<times> request_error option" where
  "reports_Create c obj =
     do_into (rc_client c)
       (req_Body (ObjectBody (Some (cl_encode (rc_client c) obj)))
        (req_Resource ''reports''
         (req_Namespace (rc_ns c)
          (rest_Post (rc_client c)))))"

definition reports_Update ::
  "('o ObjectMeta_scheme, 'l) resource_client \<Rightarrow> 'o ObjectMeta_scheme \<Rightarrow> http_req list \<times> 'o ObjectMeta_scheme \<times> request_error option" where
  "reports_Update c obj =
     do_into (rc_client c)
       (req_Body (ObjectBody (Some (cl_encode (rc_client c) obj)))
        (req_Name (Name obj)
         (req_Resource ''reports''
          (req_Namespace (rc_ns c)
           (rest_Put (rc_client c))))))"

definition reports_UpdateStatus ::
  "('o ObjectMeta_scheme, 'l) resource_client \<Rightarrow> 'o ObjectMeta_scheme \<Rightarrow> http_req list \<times> 'o ObjectMeta_scheme \<times> request_error option" where
  "reports_UpdateStatus c obj =
     do_into (rc_client c)
       (req_Body (ObjectBody (Some (cl_encode (rc_client c) obj)))
        (req_SubResource [''status'']
         (req_Name (Name obj)
          (req_Resource ''reports''
           (req_Namespace (rc_ns c)
            (rest_Put (rc_client c)))))))"

definition reports_Delete ::
  "('o ObjectMeta_scheme, 'l) resource_client \<Rightarrow> string \<Rightarrow> delete_options option \<Rightarrow> http_req list \<times> request_error option" where
  "reports_Delete c name options =
     do_error (rc_client c)
       (req_Body (ObjectBody (map_option (cl_encodeDelete (rc_client c)) options))
        (req_Name name
         (req_Resource ''reports''
          (req_Namespace (rc_ns c)
           (rest_Delete (rc_client c))))))"

definition reports_DeleteCollection ::
  "('o ObjectMeta_scheme, 'l) resource_client \<Rightarrow> delete_options option \<Rightarrow> list_options \<Rightarrow> http_req list \<times> request_error option" where
  "reports_DeleteCollection c options listOptions =
     do_error (rc_client c)
       (req_Body (ObjectBody (map_option (cl_encodeDelete (rc_client c)) options))
        (req_Timeout (opts_timeout listOptions)
         (req_VersionedParams (cl_params (rc_client c) (ListOpts listOptions))
          (req_Resource ''reports''
           (req_Namespace (rc_ns c)
            (rest_Delete (rc_client c)))))))"

definition reports_Patch ::
  "('o ObjectMeta_scheme, 'l) resource_client \<Rightarrow> string \<Rightarrow> string \<Rightarrow> string \<Rightarrow> string list \<Rightarrow> http_req list \<times> 'o ObjectMeta_scheme \<times> request_error option" where
  "reports_Patch c name pt data subresources =
     do_into (rc_client c)
       (req_Body (RawBody data)
        (req_Name name
         (req_SubResource subresources
          (req_Resource ''reports''
           (req_Namespace (rc_ns c)
            (rest_Patch (rc_client c) pt))))))"

definition newReportDataSources :: "('o ObjectMeta_scheme, 'l) rest_client \<Rightarrow> string \<Rightarrow> ('o ObjectMeta_scheme, 'l) resource_client" where
  "newReportDataSources c ns = \<lparr>rc_client = c, rc_ns = ns\<rparr>"

definition reportDataSources_Get ::
  "('o ObjectMeta_scheme, 'l) resource_client \<Rightarrow> string \<Rightarrow> get_options \<Rightarrow> http_req list \<times> 'o ObjectMeta_scheme \<times> request_error option" where
  "reportDataSources_Get c name options =
     do_into (rc_client c)
       (req_VersionedParams (cl_params (rc_client c) (GetOpts options))
        (req_Name name
         (req_Resource ''reportdatasources''
          (req_Namespace (rc_ns c)
           (rest_Get (rc_client c))))))"

definition reportDataSources_List ::
  "('o ObjectMeta_scheme, 'l) resource_client \<Rightarrow> list_options \<Rightarrow> http_req list \<times> 'l \<times> request_error option" where
  "reportDataSources_List c opts =
     do_into_list (rc_client c)
       (req_Timeout (opts_timeout opts)
        (req_VersionedParams (cl_params (rc_client c) (ListOpts opts))
         (req_Resource ''reportdatasources''
          (req_Namespace (rc_ns c)
           (rest_Get (rc_client c))))))"

definition reportDataSources_Watch ::
  "('o ObjectMeta_scheme, 'l) resource_client \<Rightarrow> list_options \<Rightarrow> http_req list \<times> (request_error + watch_result)" where
  "reportDataSources_Watch c opts =
     do_watch (rc_client c)
       (req_Timeout (opts_timeout opts)
        (req_VersionedParams (cl_params (rc_client c) (ListOpts (opts\<lparr>lo_Watch := True\<rparr>)))
         (req_Resource ''reportdatasources''
          (req_Namespace (rc_ns c)
           (rest_Get (rc_client c))))))"

definition reportDataSources_Create ::
  "('o ObjectMeta_scheme, 'l) resource_client \<Rightarrow> 'o ObjectMeta_scheme \<Rightarrow> http_req list \<times> 'o ObjectMeta_scheme \<times> request_error option" where
  "reportDataSources_Create c obj =
     do_into (rc_client c)
       (req_Body (ObjectBody (Some (cl_encode (rc_client c) obj)))
        (req_Resource ''reportdatasources''
         (req_Namespace (rc_ns c)
          (rest_Post (rc_client c)))))"

definition reportDataSources_Update ::
  "('o ObjectMeta_scheme, 'l) resource_client \<Rightarrow> 'o ObjectMeta_scheme \<Rightarrow> http_req list \<times> 'o ObjectMeta_scheme \<times> request_error option" where
  "reportDataSources_Update c obj =
     do_into (rc_client c)
       (req_Body (ObjectBody (Some (cl_encode (rc_client c) obj)))
        (req_Name (Name obj)
         (req_Resource ''reportdatasources''
          (req_Namespace (rc_ns c)
           (rest_Put (rc_client c))))))"

definition reportDataSources_UpdateStatus ::
  "('o ObjectMeta_scheme, 'l) resource_client \<Rightarrow> 'o ObjectMeta_scheme \<Rightarrow> http_req list \<times> 'o ObjectMeta_scheme \<times> request_error option" where
  "reportDataSources_UpdateStatus c obj =
     do_into (rc_client c)
       (req_Body (ObjectBody (Some (cl_encode (rc_client c) obj)))
        (req_SubResource [''status'']
         (req_Name (Name obj)
          (req_Resource ''reportdatasources''
           (req_Namespace (rc_ns c)
            (rest_Put (rc_client c)))))))"

definition reportDataSources_Delete ::
  "('o ObjectMeta_scheme, 'l) resource_client \<Rightarrow> string \<Rightarrow> delete_options option \<Rightarrow> http_req list \<times> request_error option" where
  "reportDataSources_Delete c name options =
     do_error (rc_client c)
       (req_Body (ObjectBody (map_option (cl_encodeDelete (rc_client c)) options))
        (req_Name name
         (req_Resource ''reportdatasources''
          (req_Namespace (rc_ns c)
           (rest_Delete (rc_client c))))))"

definition reportDataSources_DeleteCollection ::
  "('o ObjectMeta_scheme, 'l) resource_client \<Rightarrow> delete_options option \<Rightarrow> list_options \<Rightarrow> http_req list \<times> request_error option" where
  "reportDataSources_DeleteCollection c options listOptions =
     do_error (rc_client c)
       (req_Body (ObjectBody (map_option (cl_encodeDelete (rc_client c)) options))
        (req_Timeout (opts_timeout listOptions)
         (req_VersionedParams (cl_params (rc_client c) (ListOpts listOptions))
          (req_Resource ''reportdatasources''
           (req_Namespace (rc_ns c)
            (rest_Delete (rc_client c)))))))"

definition reportDataSources_Patch ::
  "('o ObjectMeta_scheme, 'l) resource_client \<Rightarrow> string \<Rightarrow> string \<Rightarrow> string \<Rightarrow> string list \<Rightarrow> http_req list \<times> 'o ObjectMeta_scheme \<times> request_error option" where
  "reportDataSources_Patch c name pt data subresources =
     do_into (rc_client c)
       (req_Body (RawBody data)
        (req_Name name
         (req_SubResource subresources
          (req_Resource ''reportdatasources''
           (req_Namespace (rc_ns c)
            (rest_Patch (rc_client c) pt))))))"

definition newReportQueries :: "('o ObjectMeta_scheme, 'l) rest_client \<Rightarrow> string \<Rightarrow> ('o ObjectMeta_scheme, 'l) resource_client" where
  "newReportQueries c ns = \<lparr>rc_client = c, rc_ns = ns\<rparr>"

definition reportQueries_Get ::
  "('o ObjectMeta_scheme, 'l) resource_client \<Rightarrow> string \<Rightarrow> get_options \<Rightarrow> http_req list \<times> 'o ObjectMeta_scheme \<times> request_error option" where
  "reportQueries_Get c name options =
     do_into (rc_client c)
       (req_VersionedParams (cl_params (rc_client c) (GetOpts options))
        (req_Name name
         (req_Resource ''reportqueries''
          (req_Namespace (rc_ns c)
           (rest_Get (rc_client c))))))"

definition reportQueries_List ::
  "('o ObjectMeta_scheme, 'l) resource_client \<Rightarrow> list_options \<Rightarrow> http_req list \<times> 'l \<times> request_error option" where
  "reportQueries_List c opts =
     do_into_list (rc_client c)
       (req_Timeout (opts_timeout opts)
        (req_VersionedParams (cl_params (rc_client c) (ListOpts opts))
         (req_Resource ''reportqueries''
          (req_Namespace (rc_ns c)
           (rest_Get (rc_client c))))))"

definition reportQueries_Watch ::
  "('o ObjectMeta_scheme, 'l) resource_client \<Rightarrow> list_options \<Rightarrow> http_req list \<times> (request_error + watch_result)" where
  "reportQueries_Watch c opts =
     do_watch (rc_client c)
       (req_Timeout (opts_timeout opts)
        (req_VersionedParams (cl_params (rc_client c) (ListOpts (opts\<lparr>lo_Watch := True\<rparr>)))
         (req_Resource ''reportqueries''
          (req_Namespace (rc_ns c)
           (rest_Get (rc_client c))))))"

definition reportQueries_Create ::
  "('o ObjectMeta_scheme, 'l) resource_client \<Rightarrow> 'o ObjectMeta_scheme \<Rightarrow> http_req list \<times> 'o ObjectMeta_scheme \<times> request_error option" where
  "reportQueries_Create c obj =
     do_into (rc_client c)
       (req_Body (ObjectBody (Some (cl_encode (rc_client c) obj)))
        (req_Resource ''reportqueries''
         (req_Namespace (rc_ns c)
          (rest_Post (rc_client c)))))"

definition reportQueries_Update ::
  "('o ObjectMeta_scheme, 'l) resource_client \<Rightarrow> 'o ObjectMeta_scheme \<Rightarrow> http_req list \<times> 'o ObjectMeta_scheme \<times> request_error option" where
  "reportQueries_Update c obj =
     do_into (rc_client c)
       (req_Body (ObjectBody (Some (cl_encode (rc_client c) obj)))
        (req_Name (Name obj)
         (req_Resource ''reportqueries''
          (req_Namespace (rc_ns c)
           (rest_Put (rc_client c))))))"

definition reportQueries_UpdateStatus ::
  "('o ObjectMeta_scheme, 'l) resource_client \<Rightarrow> 'o ObjectMeta_scheme \<Rightarrow> http_req list \<times> 'o ObjectMeta_scheme \<times> request_error option" where
  "reportQueries_UpdateStatus c obj =
     do_into (rc_client c)
       (req_Body (ObjectBody (Some (cl_encode (rc_client c) obj)))
        (req_SubResource [''status'']
         (req_Name (Name obj)
          (req_Resource ''reportqueries''
           (req_Namespace (rc_ns c)
            (rest_Put (rc_client c)))))))"

definition reportQueries_Delete ::
  "('o ObjectMeta_scheme, 'l) resource_client \<Rightarrow> string \<Rightarrow> delete_options option \<Rightarrow> http_req list \<times> request_error option" where
  "reportQueries_Delete c name options =
     do_error (rc_client c)
       (req_Body (ObjectBody (map_option (cl_encodeDelete (rc_client c)) options))
        (req_Name name
         (req_Resource ''reportqueries''
          (req_Namespace (rc_ns c)
           (rest_Delete (rc_client c))))))"

definition reportQueries_DeleteCollection ::
  "('o ObjectMeta_scheme, 'l) resource_client \<Rightarrow> delete_options option \<Rightarrow> list_options \<Rightarrow> http_req list \<times> request_error option" where
  "reportQueries_DeleteCollection c options listOptions =
     do_error (rc_client c)
       (req_Body (ObjectBody (map_option (cl_encodeDelete (rc_client c)) options))
        (req_Timeout (opts_timeout listOptions)
         (req_VersionedParams (cl_params (rc_client c) (ListOpts listOptions))
          (req_Resource ''reportqueries''
           (req_Namespace (rc_ns c)
            (rest_Delete (rc_client c)))))))"

definition reportQueries_Patch ::
  "('o ObjectMeta_scheme, 'l) resource_client \<Rightarrow> string \<Rightarrow> string \<Rightarrow> string \<Rightarrow> string list \<Rightarrow> http_req list \<times> 'o ObjectMeta_scheme \<times> request_error option" where
  "reportQueries_Patch c name pt data subresources =
     do_into (rc_client c)
       (req_Body (RawBody data)
        (req_Name name
         (req_SubResource subresources
          (req_Resource ''reportqueries''
           (req_Namespace (rc_ns c)
            (rest_Patch (rc_client c) pt))))))"

definition newStorageLocations :: "('o ObjectMeta_scheme, 'l) rest_client \<Rightarrow> string \<Rightarrow> ('o ObjectMeta_scheme, 'l) resource_client" where
  "newStorageLocations c ns = \<lparr>rc_client = c, rc_ns = ns\<rparr>"

definition storageLocations_Get ::
  "('o ObjectMeta_scheme, 'l) resource_client \<Rightarrow> string \<Rightarrow> get_options \<Rightarrow> http_req list \<times> 'o ObjectMeta_scheme \<times> request_error option" where
  "storageLocations_Get c name options =
     do_into (rc_client c)
       (req_VersionedParams (cl_params (rc_client c) (GetOpts options))
        (req_Name name
         (req_Resource ''storagelocations''
          (req_Namespace (rc_ns c)
           (rest_Get (rc_client c))))))"

definition storageLocations_List ::
  "('o ObjectMeta_scheme, 'l) resource_client \<Rightarrow> list_options \<Rightarrow> http_req list \<times> 'l \<times> request_error option" where
  "storageLocations_List c opts =
     do_into_list (rc_client c)
       (req_Timeout (opts_timeout opts)
        (req_VersionedParams (cl_params (rc_client c) (ListOpts opts))
         (req_Resource ''storagelocations''
          (req_Namespace (rc_ns c)
           (rest_Get (rc_client c))))))"

definition storageLocations_Watch ::
  "('o ObjectMeta_scheme, 'l) resource_client \<Rightarrow> list_options \<Rightarrow> http_req list \<times> (request_error + watch_result)" where
  "storageLocations_Watch c opts =
     do_watch (rc_client c)
       (req_Timeout (opts_timeout opts)
        (req_VersionedParams (cl_params (rc_client c) (ListOpts (opts\<lparr>lo_Watch := True\<rparr>)))
         (req_Resource ''storagelocations''
          (req_Namespace (rc_ns c)
           (rest_Get (rc_client c))))))"

definition storageLocations_Create ::
  "('o ObjectMeta_scheme, 'l) resource_client \<Rightarrow> 'o ObjectMeta_scheme \<Rightarrow> http_req list \<times> 'o ObjectMeta_scheme \<times> request_error option" where
  "storageLocations_Create c obj =
     do_into (rc_client c)
       (req_Body (ObjectBody (Some (cl_encode (rc_client c) obj)))
        (req_Resource ''storagelocations''
         (req_Namespace (rc_ns c)
          (rest_Post (rc_client c)))))"

definition storageLocations_Update ::
  "('o ObjectMeta_scheme, 'l) resource_client \<Rightarrow> 'o ObjectMeta_scheme \<Rightarrow> http_req list \<times> 'o ObjectMeta_scheme \<times> request_error option" where
  "storageLocations_Update c obj =
     do_into (rc_client c)
       (req_Body (ObjectBody (Some (cl_encode (rc_client c) obj)))
        (req_Name (Name obj)
         (req_Resource ''storagelocations''
          (req_Namespace (rc_ns c)
           (rest_Put (rc_client c))))))"

definition storageLocations_UpdateStatus ::
  "('o ObjectMeta_scheme, 'l) resource_client \<Rightarrow> 'o ObjectMeta_scheme \<Rightarrow> http_req list \<times> 'o ObjectMeta_scheme \<times> request_error option" where
  "storageLocations_UpdateStatus c obj =
     do_into (rc_client c)
       (req_Body (ObjectBody (Some (cl_encode (rc_client c) obj)))
        (req_SubResource [''status'']
         (req_Name (Name obj)
          (req_Resource ''storagelocations''
           (req_Namespace (rc_ns c)
            (rest_Put (rc_client c)))))))"

definition storageLocations_Delete ::
  "('o ObjectMeta_scheme, 'l) resource_client \<Rightarrow> string \<Rightarrow> delete_options option \<Rightarrow> http_req list \<times> request_error option" where
  "storageLocations_Delete c name options =
     do_error (rc_client c)
       (req_Body (ObjectBody (map_option (cl_encodeDelete (rc_client c)) options))
        (req_Name name
         (req_Resource ''storagelocations''
          (req_Namespace (rc_ns c)
           (rest_Delete (rc_client c))))))"

definition storageLocations_DeleteCollection ::
  "('o ObjectMeta_scheme, 'l) resource_client \<Rightarrow> delete_options option \<Rightarrow> list_options \<Rightarrow> http_req list \<times> request_error option" where
  "storageLocations_DeleteCollection c options listOptions =
     do_error (rc_client c)
       (req_Body (ObjectBody (map_option (cl_encodeDelete (rc_client c)) options))
        (req_Timeout (opts_timeout listOptions)
         (req_VersionedParams (cl_params (rc_client c) (ListOpts listOptions))
          (req_Resource ''storagelocations''
           (req_Namespace (rc_ns c)
            (rest_Delete (rc_client c)))))))"

definition storageLocations_Patch ::
  "('o ObjectMeta_scheme, 'l) resource_client \<Rightarrow> string \<Rightarrow> string \<Rightarrow> string \<Rightarrow> string list \<Rightarrow> http_req list \<times> 'o ObjectMeta_scheme \<times> request_error option" where
  "storageLocations_Patch c name pt data subresources =
     do_into (rc_client c)
       (req_Body (RawBody data)
        (req_Name name
         (req_SubResource subresources
          (req_Resource ''storagelocations''
           (req_Namespace (rc_ns c)
            (rest_Patch (rc_client c) pt))))))"

definition MeteringV1Client_HiveTables :: "('o ObjectMeta_scheme, 'l) rest_client \<Rightarrow> string \<Rightarrow> ('o ObjectMeta_scheme, 'l) resource_client" where
  "MeteringV1Client_HiveTables c ns = newHiveTables c ns"

definition MeteringV1Client_PrestoTables :: "('o ObjectMeta_scheme, 'l) rest_client \<Rightarrow> string \<Rightarrow> ('o ObjectMeta_scheme, 'l) resource_client" where
  "MeteringV1Client_PrestoTables c ns = newPrestoTables c ns"

definition MeteringV1Client_Reports :: "('o ObjectMeta_scheme, 'l) rest_client \<Rightarrow> string \<Rightarrow> ('o ObjectMeta_scheme, 'l) resource_client" where
  "MeteringV1Client_Reports c ns = newReports c ns"

definition MeteringV1Client_ReportDataSources :: "('o ObjectMeta_scheme, 'l) rest_client \<Rightarrow> string \<Rightarrow> ('o ObjectMeta_scheme, 'l) resource_client" where
  "MeteringV1Client_ReportDataSources c ns = newReportDataSources c ns"

definition MeteringV1Client_ReportQueries :: "('o ObjectMeta_scheme, 'l) rest_client \<Rightarrow> string \<Rightarrow> ('o ObjectMeta_scheme, 'l) resource_client" where
  "MeteringV1Client_ReportQueries c ns = newReportQueries c ns"

definition MeteringV1Client_StorageLocations :: "('o ObjectMeta_scheme, 'l) rest_client \<Rightarrow> string \<Rightarrow> ('o ObjectMeta_scheme, 'l) resource_client" where
  "MeteringV1Client_StorageLocations c ns = newStorageLocations c ns"

section \<open>The operations as one value\<close>

record ('o, 'l) typed_ops =
  t_Get :: "('o, 'l) resource_client \<Rightarrow> string \<Rightarrow> get_options \<Rightarrow> http_req list \<times> 'o \<times> request_error option"
  t_List :: "('o, 'l) resource_client \<Rightarrow> list_options \<Rightarrow> http_req list \<times> 'l \<times> request_error option"
  t_Watch :: "('o, 'l) resource_client \<Rightarrow> list_options \<Rightarrow> http_req list \<times> (request_error + watch_result)"
  t_Create :: "('o, 'l) resource_client \<Rightarrow> 'o \<Rightarrow> http_req list \<times> 'o \<times> request_error option"
  t_Update :: "('o, 'l) resource_client \<Rightarrow> 'o \<Rightarrow> http_req list \<times> 'o \<times> request_error option"
  t_UpdateStatus :: "('o, 'l) resource_client \<Rightarrow> 'o \<Rightarrow> http_req list \<times> 'o \<times> request_error option"
  t_Delete :: "('o, 'l) resource_client \<Rightarrow> string \<Rightarrow> delete_options option \<Rightarrow> http_req list \<times> request_error option"
  t_DeleteCollection :: "('o, 'l) resource_client \<Rightarrow> delete_options option \<Rightarrow> list_options \<Rightarrow> http_req list \<times> request_error option"
  t_Patch :: "('o, 'l) resource_client \<Rightarrow> string \<Rightarrow> string \<Rightarrow> string \<Rightarrow> string list \<Rightarrow> http_req list \<times> 'o \<times> request_error option"

definition hiveTables_ops :: "('o ObjectMeta_scheme, 'l) typed_ops" where
  "hiveTables_ops = \<lparr>t_Get = hiveTables_Get, t_List = hiveTables_List, t_Watch = hiveTables_Watch, t_Create = hiveTables_Create, t_Update = hiveTables_Update, t_UpdateStatus = hiveTables_UpdateStatus, t_Delete = hiveTables_Delete, t_DeleteCollection = hiveTables_DeleteCollection, t_Patch = hiveTables_Patch\<rparr>"

definition prestoTables_ops :: "('o ObjectMeta_scheme, 'l) typed_ops" where
  "prestoTables_ops = \<lparr>t_Get = prestoTables_Get, t_List = prestoTables_List, t_Watch = prestoTables_Watch, t_Create = prestoTables_Create, t_Update = prestoTables_Update, t_UpdateStatus = prestoTables_UpdateStatus, t_Delete = prestoTables_Delete, t_DeleteCollection = prestoTables_DeleteCollection, t_Patch = prestoTables_Patch\<rparr>"

definition reports_ops :: "('o ObjectMeta_scheme, 'l) typed_ops" where
  "reports_ops = \<lparr>t_Get = reports_Get, t_List = reports_List, t_Watch = reports_Watch, t_Create = reports_Create, t_Update = reports_Update, t_UpdateStatus = reports_UpdateStatus, t_Delete = reports_Delete, t_DeleteCollection = reports_DeleteCollection, t_Patch = reports_Patch\<rparr>"

definition reportDataSources_ops :: "('o ObjectMeta_scheme, 'l) typed_ops" where
  "reportDataSources_ops = \<lparr>t_Get = reportDataSources_Get, t_List = reportDataSources_List, t_Watch = reportDataSources_Watch, t_Create = reportDataSources_Create, t_Update = reportDataSources_Update, t_UpdateStatus = reportDataSources_UpdateStatus, t_Delete = reportDataSources_Delete, t_DeleteCollection = reportDataSources_DeleteCollection, t_Patch = reportDataSources_Patch\<rparr>"

definition reportQueries_ops :: "('o ObjectMeta_scheme, 'l) typed_ops" where
  "reportQueries_ops = \<lparr>t_Get = reportQueries_Get, t_List = reportQueries_List, t_Watch = reportQueries_Watch, t_Create = reportQueries_Create, t_Update = reportQueries_Update, t_UpdateStatus = reportQueries_UpdateStatus, t_Delete = reportQueries_Delete, t_DeleteCollection = reportQueries_DeleteCollection, t_Patch = reportQueries_Patch\<rparr>"

definition storageLocations_ops :: "('o ObjectMeta_scheme, 'l) typed_ops" where
  "storageLocations_ops = \<lparr>t_Get = storageLocations_Get, t_List = storageLocations_List, t_Watch = storageLocations_Watch, t_Create = storageLocations_Create, t_Update = storageLocations_Update, t_UpdateStatus = storageLocations_UpdateStatus, t_Delete = storageLocations_Delete, t_DeleteCollection = storageLocations_DeleteCollection, t_Patch = storageLocations_Patch\<rparr>"

definition typed_clients :: "(string \<times> ('o ObjectMeta_scheme, 'l) typed_ops) list" where
  "typed_clients =
     [(''hivetables'', hiveTables_ops),
      (''prestotables'', prestoTables_ops),
      (''reports'', reports_ops),
      (''reportdatasources'', reportDataSources_ops),
      (''reportqueries'', reportQueries_ops),
      (''storagelocations'', storageLocations_ops)]"

text \<open>The path of a collection in a namespace, of an object, and of what is below an object.\<close>

definition api_root :: "string list" where
  "api_root = [''apis'', ''metering.openshift.io'', ''v1'']"

definition scope_path :: "string \<Rightarrow> string list" where
  "scope_path ns = (if ns = [] then [] else [''namespaces'', ns])"

definition collection_path :: "string \<Rightarrow> string \<Rightarrow> string" where
  "collection_path res ns = abs_path (api_root @ scope_path ns @ [res])"

definition object_path :: "string \<Rightarrow> string \<Rightarrow> string \<Rightarrow> string list \<Rightarrow> string" where
  "object_path res ns n sub = abs_path (api_root @ scope_path ns @ [res, n] @ sub)"

text \<open>Where a request goes: all of it that its verb and its path depend on.\<close>

definition target :: "rest_request \<Rightarrow> string \<times> string \<times> string option \<times> string \<times> string \<times> string" where
  "target r = (rq_verb r, rq_pathPrefix r, rq_namespace r, rq_resource r, rq_resourceName r, rq_subresource r)"

lemma target_path: "target r = target r' \<Longrightarrow> req_path r = req_path r' \<and> rq_verb r = rq_verb r'"
  unfolding target_def prod.inject req_path_def by (elim conjE) (simp only:)

lemma undirected_builders:
  "rq_err (req_VersionedParams ps r) = None \<Longrightarrow> rq_err r = None \<and> target (req_VersionedParams ps r) = target r"
  "rq_err (req_Timeout d r) = None \<Longrightarrow> rq_err r = None \<and> target (req_Timeout d r) = target r"
  "rq_err (req_Body b r) = None \<Longrightarrow> rq_err r = None \<and> target (req_Body b r) = target r"
  by (auto simp: req_VersionedParams_def req_Timeout_def req_Body_def target_def split: sum.splits option.splits body_arg.splits)

lemma directed_builders:
  "rq_err (req_Namespace ns r) = None \<Longrightarrow>
     rq_err r = None \<and> (ns = [] \<or> good_segment ns) \<and> req_Namespace ns r = r\<lparr>rq_namespace := Some ns\<rparr>"
  "rq_err (req_Resource res r) = None \<Longrightarrow> rq_err r = None \<and> req_Resource res r = r\<lparr>rq_resource := res\<rparr>"
  "rq_err (req_Name n r) = None \<Longrightarrow> rq_err r = None \<and> good_segment n \<and> req_Name n r = r\<lparr>rq_resourceName := n\<rparr>"
  "rq_err (req_SubResource [''status''] r) = None \<Longrightarrow>
     rq_err r = None \<and> req_SubResource [''status''] r = r\<lparr>rq_subresource := path_Join [''status'']\<rparr>"
  by (auto simp: req_Namespace_def req_Resource_def req_Name_def req_SubResource_def IsValidPathSegmentName_iff
      split: if_splits option.splits)

lemma status_segment: "path_Join [''status''] = ''status''" "good_segment ''status''"
  by (code_simp, simp add: good_segment_def plain_name_def)

lemma request_prefix: "cl_base c = ''/'' \<Longrightarrow> rq_pathPrefix (rest_Verb c verb) = abs_path api_root"
proof -
  have "path_Join [path_Join [''/'', ''/''], metering_api_path] = abs_path api_root" by code_simp
  then show "cl_base c = ''/'' \<Longrightarrow> rq_pathPrefix (rest_Verb c verb) = abs_path api_root"
    by (simp add: rest_Verb_def NewRequest_def)
qed

lemma api_root_plain: "\<forall>e \<in> set (api_root @ scope_path ns). plain_name e" if "ns = [] \<or> good_segment ns"
  using that by (auto simp: api_root_def scope_path_def good_segment_def plain_name_def)

text \<open>The path of a request whose parts are good.\<close>

lemma request_path:
  assumes "rq_pathPrefix r = abs_path api_root" "rq_namespace r = Some ns" "ns = [] \<or> good_segment ns"
    "rq_resource r = res" "good_segment res" "ToLower res = res"
    "rq_resourceName r = n" "n = [] \<or> good_segment n" "rq_subresource r = sub" "sub = [] \<or> good_segment sub"
  shows "req_path r = abs_path (api_root @ scope_path ns @ [res] @ filter (\<lambda>y. y \<noteq> []) [n, sub])"
proof -
  have root: "api_root \<noteq> []" "\<forall>e \<in> set api_root. plain_name e"
    using api_root_plain[of "[]"] by (auto simp: api_root_def)
  have ns: "(if ns \<noteq> [] then path_Join [abs_path api_root, ''namespaces'', ns] else abs_path api_root)
      = abs_path (api_root @ scope_path ns)"
    using assms(3) path_Join_abs[OF root, of "[''namespaces'', ns]"]
    by (auto simp: scope_path_def good_segment_def plain_name_def)
  have p: "api_root @ scope_path ns \<noteq> []" "\<forall>e \<in> set (api_root @ scope_path ns). plain_name e"
    using api_root_plain[OF assms(3)] root by auto
  have res: "path_Join [abs_path (api_root @ scope_path ns), res] = abs_path (api_root @ scope_path ns @ [res])"
    using path_Join_abs[OF p, of "[res]"] assms(5) by (auto simp: good_segment_def plain_name_def)
  have q: "api_root @ scope_path ns @ [res] \<noteq> []" "\<forall>e \<in> set (api_root @ scope_path ns @ [res]). plain_name e"
    using p assms(5) by (auto simp: good_segment_def)
  have "path_Join [abs_path (api_root @ scope_path ns @ [res]), n, sub]
      = abs_path ((api_root @ scope_path ns @ [res]) @ filter (\<lambda>y. y \<noteq> []) [n, sub])"
    by (rule path_Join_abs[OF q]) (use assms(8,10) in \<open>auto simp: good_segment_def\<close>)
  moreover have "res \<noteq> []" using assms(5) by (auto simp: good_segment_def plain_name_def)
  ultimately show ?thesis using assms(1,2,4,6,7,9) ns res by (simp add: req_path_def Let_def)
qed

text \<open>The requests that go to an object of a resource, and to its collection.\<close>

definition object_base :: "('o, 'l) resource_client \<Rightarrow> string \<Rightarrow> string \<Rightarrow> string \<Rightarrow> rest_request" where
  "object_base c verb res n = req_Name n (req_Resource res (req_Namespace (rc_ns c) (rest_Verb (rc_client c) verb)))"

definition collection_base :: "('o, 'l) resource_client \<Rightarrow> string \<Rightarrow> string \<Rightarrow> rest_request" where
  "collection_base c verb res = req_Resource res (req_Namespace (rc_ns c) (rest_Verb (rc_client c) verb))"

lemma new_request [simp]:
  "rq_resourceName (rest_Verb c verb) = []" "rq_subresource (rest_Verb c verb) = []" "rq_verb (rest_Verb c verb) = verb"
  by (simp_all add: rest_Verb_def NewRequest_def)

lemma collection_base_ok:
  assumes "rq_err (collection_base c verb res) = None" "cl_base (rc_client c) = ''/''" "good_segment res" "ToLower res = res"
  shows "(rc_ns c = [] \<or> good_segment (rc_ns c)) \<and> req_path (collection_base c verb res) = collection_path res (rc_ns c) \<and>
    rq_verb (collection_base c verb res) = verb \<and> rq_namespace (collection_base c verb res) = Some (rc_ns c)"
proof -
  define r where "r = req_Namespace (rc_ns c) (rest_Verb (rc_client c) verb)"
  note 1 = directed_builders(2)[OF assms(1)[unfolded collection_base_def]]
  note 2 = directed_builders(1)[OF conjunct1[OF 1]]
  have b: "collection_base c verb res = (rest_Verb (rc_client c) verb)\<lparr>rq_namespace := Some (rc_ns c), rq_resource := res\<rparr>"
    unfolding collection_base_def using 1 2 by simp
  have "req_path (collection_base c verb res) = abs_path (api_root @ scope_path (rc_ns c) @ [res] @ filter (\<lambda>y. y \<noteq> []) [[], []])"
    by (rule request_path) (use b 2 assms(2-4) in \<open>simp_all add: request_prefix\<close>)
  then show ?thesis using b 2 by (simp add: collection_path_def)
qed

lemma object_base_ok:
  assumes "rq_err (object_base c verb res n) = None" "cl_base (rc_client c) = ''/''" "good_segment res" "ToLower res = res"
  shows "(rc_ns c = [] \<or> good_segment (rc_ns c)) \<and> good_segment n \<and>
    req_path (object_base c verb res n) = object_path res (rc_ns c) n [] \<and>
    req_path ((object_base c verb res n)\<lparr>rq_subresource := ''status''\<rparr>) = object_path res (rc_ns c) n [''status''] \<and>
    rq_verb (object_base c verb res n) = verb \<and> rq_namespace (object_base c verb res n) = Some (rc_ns c) \<and>
    rq_resourceName (object_base c verb res n) = n"
proof -
  note 0 = directed_builders(3)[OF assms(1)[unfolded object_base_def]]
  note 1 = directed_builders(2)[OF conjunct1[OF 0]]
  note 2 = directed_builders(1)[OF conjunct1[OF 1]]
  have b: "object_base c verb res n =
      (rest_Verb (rc_client c) verb)\<lparr>rq_namespace := Some (rc_ns c), rq_resource := res, rq_resourceName := n\<rparr>"
    unfolding object_base_def using 0 1 2 by simp
  have n: "good_segment n" "n \<noteq> []" using 0 by (auto simp: good_segment_def plain_name_def)
  have "req_path (object_base c verb res n) =
      abs_path (api_root @ scope_path (rc_ns c) @ [res] @ filter (\<lambda>y. y \<noteq> []) [n, []])"
    by (rule request_path) (use b 2 n assms(2-4) in \<open>simp_all add: request_prefix\<close>)
  moreover have "req_path ((object_base c verb res n)\<lparr>rq_subresource := ''status''\<rparr>) =
      abs_path (api_root @ scope_path (rc_ns c) @ [res] @ filter (\<lambda>y. y \<noteq> []) [n, ''status''])"
    by (rule request_path) (use b 2 n assms(2-4) in \<open>simp_all add: request_prefix status_segment\<close>)
  ultimately show ?thesis using b 2 n by (simp add: object_path_def)
qed

lemma sent:
  assumes "q \<in> set (fst (do_request tr r))"
  shows "q = http_request_of r \<and> rq_err r = None \<and>
    (rq_verb r \<in> {''GET'', ''PUT'', ''DELETE''} \<and> rq_resourceName r \<noteq> [] \<longrightarrow> rq_namespace r \<noteq> Some []) \<and>
    (rq_verb r = ''POST'' \<longrightarrow> rq_namespace r \<noteq> Some [])"
  using assms do_request_sent[OF assms] by (auto simp: do_request_def split: if_splits)

lemma http_request_target:
  "target r = target r' \<Longrightarrow> hr_verb (http_request_of r) = rq_verb r' \<and> hr_path (http_request_of r) = req_path r'"
  using target_path[of r r'] by (simp add: http_request_of_def)

definition to_object :: "string \<Rightarrow> string \<Rightarrow> string \<Rightarrow> string \<Rightarrow> string list \<Rightarrow> http_req set" where
  "to_object verb res ns n sub =
     {q. hr_verb q = verb \<and> hr_path q = object_path res ns n sub \<and> good_segment ns \<and> good_segment n}"

definition to_collection :: "string \<Rightarrow> string \<Rightarrow> string \<Rightarrow> http_req set" where
  "to_collection verb res ns = {q. hr_verb q = verb \<and> hr_path q = collection_path res ns \<and> (ns = [] \<or> good_segment ns)}"

lemma object_sent:
  assumes q: "q \<in> set (fst (do_request tr r))"
    and t: "rq_err r = None \<Longrightarrow> rq_err (object_base c verb res n) = None \<and> target r = target (object_base c verb res n)"
    and "cl_base (rc_client c) = ''/''" "good_segment res" "ToLower res = res" "verb \<in> {''GET'', ''PUT'', ''DELETE''}"
  shows "q \<in> to_object verb res (rc_ns c) n []"
proof -
  note s = sent[OF q]
  note o = object_base_ok[OF conjunct1[OF t] assms(3-5)]
  have "n \<noteq> []" "rc_ns c \<noteq> []"
    using s o t assms(6) by (auto simp: target_def good_segment_def plain_name_def)
  then show ?thesis
    using s o http_request_target[OF conjunct2[OF t]] by (simp add: to_object_def)
qed

lemma status_sent:
  assumes q: "q \<in> set (fst (do_request tr r))"
    and t: "rq_err r = None \<Longrightarrow> rq_err (object_base c verb res n) = None \<and>
      target r = target ((object_base c verb res n)\<lparr>rq_subresource := ''status''\<rparr>)"
    and "cl_base (rc_client c) = ''/''" "good_segment res" "ToLower res = res" "verb \<in> {''GET'', ''PUT'', ''DELETE''}"
  shows "q \<in> to_object verb res (rc_ns c) n [''status'']"
proof -
  note s = sent[OF q]
  note o = object_base_ok[OF conjunct1[OF t] assms(3-5)]
  have "n \<noteq> []" "rc_ns c \<noteq> []"
    using s o t assms(6) by (auto simp: target_def good_segment_def plain_name_def)
  then show ?thesis
    using s o http_request_target[OF conjunct2[OF t]] by (simp add: to_object_def)
qed

lemma collection_sent:
  assumes q: "q = http_request_of r" "rq_err r = None"
    and t: "rq_err r = None \<Longrightarrow> rq_err (collection_base c verb res) = None \<and> target r = target (collection_base c verb res)"
    and "cl_base (rc_client c) = ''/''" "good_segment res" "ToLower res = res"
  shows "q \<in> to_collection verb res (rc_ns c)"
  using q(1) http_request_target[OF conjunct2[OF t[OF q(2)]]] collection_base_ok[OF conjunct1[OF t[OF q(2)]] assms(4-6)]
  by (simp add: to_collection_def)

lemma fst_do [simp]:
  "fst (do_into c r) = fst (do_request (cl_transport c) r)" "fst (do_into_list c r) = fst (do_request (cl_transport c) r)"
  "fst (do_error c r) = fst (do_request (cl_transport c) r)"
  by (simp_all add: do_into_def do_into_list_def do_error_def Let_def)

lemma watch_sent: "q \<in> set (fst (do_watch c r)) \<Longrightarrow> q = http_request_of r \<and> rq_err r = None"
  by (auto simp: do_watch_def watch_request_def split: option.splits)

lemma status_target:
  assumes "rq_err (req_SubResource [''status''] r) = None"
  shows "rq_err r = None \<and> target (req_SubResource [''status''] r) = target (r\<lparr>rq_subresource := ''status''\<rparr>)"
  using directed_builders(4)[OF assms] by (simp add: status_segment)

lemma chain_targets:
  "rq_err (req_Body b (req_SubResource [''status''] r)) = None \<Longrightarrow>
     rq_err r = None \<and> target (req_Body b (req_SubResource [''status''] r)) = target (r\<lparr>rq_subresource := ''status''\<rparr>)"
  "rq_err (req_Timeout d (req_VersionedParams ps r)) = None \<Longrightarrow>
     rq_err r = None \<and> target (req_Timeout d (req_VersionedParams ps r)) = target r"
  "rq_err (req_Body b (req_Timeout d (req_VersionedParams ps r))) = None \<Longrightarrow>
     rq_err r = None \<and> target (req_Body b (req_Timeout d (req_VersionedParams ps r))) = target r"
  by (metis undirected_builders(3) status_target, metis undirected_builders(1,2), metis undirected_builders)

text \<open>
  The contract of a typed client: the request of each method, up to its parameters, timeout and body, for a resource whose name is a
  good segment in lower case.
\<close>

locale typed_client =
  fixes res :: string and ops :: "('o ObjectMeta_scheme, 'l) typed_ops"
  assumes res_good: "good_segment res" "ToLower res = res"
    and Get: "\<exists>ps. t_Get ops c n go = do_into (rc_client c) (req_VersionedParams ps (object_base c ''GET'' res n))"
    and Update: "\<exists>b. t_Update ops c obj = do_into (rc_client c) (req_Body b (object_base c ''PUT'' res (Name obj)))"
    and UpdateStatus: "\<exists>b. t_UpdateStatus ops c obj =
      do_into (rc_client c) (req_Body b (req_SubResource [''status''] (object_base c ''PUT'' res (Name obj))))"
    and Delete: "\<exists>b. t_Delete ops c n dopt = do_error (rc_client c) (req_Body b (object_base c ''DELETE'' res n))"
    and Create: "\<exists>b. t_Create ops c obj = do_into (rc_client c) (req_Body b (collection_base c ''POST'' res))"
    and List: "\<exists>ps d. t_List ops c lo =
      do_into_list (rc_client c) (req_Timeout d (req_VersionedParams ps (collection_base c ''GET'' res)))"
    and Watch: "\<exists>ps d. t_Watch ops c lo =
      do_watch (rc_client c) (req_Timeout d (req_VersionedParams ps (collection_base c ''GET'' res)))"
    and DeleteCollection: "\<exists>b ps d. t_DeleteCollection ops c dopt lo =
      do_error (rc_client c) (req_Body b (req_Timeout d (req_VersionedParams ps (collection_base c ''DELETE'' res))))"
begin

lemma object_requests:
  assumes "cl_base (rc_client c) = ''/''"
  shows "set (fst (t_Get ops c n go)) \<subseteq> to_object ''GET'' res (rc_ns c) n []"
    "set (fst (t_Update ops c obj)) \<subseteq> to_object ''PUT'' res (rc_ns c) (Name obj) []"
    "set (fst (t_UpdateStatus ops c obj)) \<subseteq> to_object ''PUT'' res (rc_ns c) (Name obj) [''status'']"
    "set (fst (t_Delete ops c n dopt)) \<subseteq> to_object ''DELETE'' res (rc_ns c) n []"
proof -
  obtain ps where g: "t_Get ops c n go = do_into (rc_client c) (req_VersionedParams ps (object_base c ''GET'' res n))"
    using Get by blast
  show "set (fst (t_Get ops c n go)) \<subseteq> to_object ''GET'' res (rc_ns c) n []"
    unfolding g fst_do by (intro subsetI, erule object_sent[OF _ undirected_builders(1)]) (use assms res_good in simp_all)
  obtain b where u: "t_Update ops c obj = do_into (rc_client c) (req_Body b (object_base c ''PUT'' res (Name obj)))"
    using Update by blast
  show "set (fst (t_Update ops c obj)) \<subseteq> to_object ''PUT'' res (rc_ns c) (Name obj) []"
    unfolding u fst_do by (intro subsetI, erule object_sent[OF _ undirected_builders(3)]) (use assms res_good in simp_all)
  obtain b' where s: "t_UpdateStatus ops c obj =
      do_into (rc_client c) (req_Body b' (req_SubResource [''status''] (object_base c ''PUT'' res (Name obj))))"
    using UpdateStatus by blast
  show "set (fst (t_UpdateStatus ops c obj)) \<subseteq> to_object ''PUT'' res (rc_ns c) (Name obj) [''status'']"
    unfolding s fst_do by (intro subsetI, erule status_sent[OF _ chain_targets(1)]) (use assms res_good in simp_all)
  obtain d where d: "t_Delete ops c n dopt = do_error (rc_client c) (req_Body d (object_base c ''DELETE'' res n))"
    using Delete by blast
  show "set (fst (t_Delete ops c n dopt)) \<subseteq> to_object ''DELETE'' res (rc_ns c) n []"
    unfolding d fst_do by (intro subsetI, erule object_sent[OF _ undirected_builders(3)]) (use assms res_good in simp_all)
qed

lemma collection_requests:
  assumes "cl_base (rc_client c) = ''/''"
  shows "set (fst (t_Create ops c obj)) \<subseteq> to_collection ''POST'' res (rc_ns c)"
    "set (fst (t_List ops c lo)) \<subseteq> to_collection ''GET'' res (rc_ns c)"
    "set (fst (t_Watch ops c lo)) \<subseteq> to_collection ''GET'' res (rc_ns c)"
    "set (fst (t_DeleteCollection ops c dopt lo)) \<subseteq> to_collection ''DELETE'' res (rc_ns c)"
proof -
  obtain b where c: "t_Create ops c obj = do_into (rc_client c) (req_Body b (collection_base c ''POST'' res))"
    using Create by blast
  show "set (fst (t_Create ops c obj)) \<subseteq> to_collection ''POST'' res (rc_ns c)"
    unfolding c fst_do by (intro subsetI, drule do_request_sent, elim conjE, erule (1) collection_sent[OF _ _ undirected_builders(3)]) (use assms res_good in simp_all)
  obtain ps d where l: "t_List ops c lo =
      do_into_list (rc_client c) (req_Timeout d (req_VersionedParams ps (collection_base c ''GET'' res)))"
    using List by blast
  show "set (fst (t_List ops c lo)) \<subseteq> to_collection ''GET'' res (rc_ns c)"
    unfolding l fst_do by (intro subsetI, drule do_request_sent, elim conjE, erule (1) collection_sent[OF _ _ chain_targets(2)]) (use assms res_good in simp_all)
  obtain ps d where w: "t_Watch ops c lo =
      do_watch (rc_client c) (req_Timeout d (req_VersionedParams ps (collection_base c ''GET'' res)))"
    using Watch by blast
  show "set (fst (t_Watch ops c lo)) \<subseteq> to_collection ''GET'' res (rc_ns c)"
    unfolding w by (intro subsetI, drule watch_sent, elim conjE, erule (1) collection_sent[OF _ _ chain_targets(2)]) (use assms res_good in simp_all)
  obtain b ps d where x: "t_DeleteCollection ops c dopt lo =
      do_error (rc_client c) (req_Body b (req_Timeout d (req_VersionedParams ps (collection_base c ''DELETE'' res))))"
    using DeleteCollection by blast
  show "set (fst (t_DeleteCollection ops c dopt lo)) \<subseteq> to_collection ''DELETE'' res (rc_ns c)"
    unfolding x fst_do by (intro subsetI, drule do_request_sent, elim conjE, erule (1) collection_sent[OF _ _ chain_targets(3)]) (use assms res_good in simp_all)
qed

end

lemma resource_names:
  "good_segment ''hivetables''" "good_segment ''prestotables''" "good_segment ''reports''" "good_segment ''reportdatasources''"
  "good_segment ''reportqueries''" "good_segment ''storagelocations''"
  "ToLower ''hivetables'' = ''hivetables''" "ToLower ''prestotables'' = ''prestotables''" "ToLower ''reports'' = ''reports''"
  "ToLower ''reportdatasources'' = ''reportdatasources''" "ToLower ''reportqueries'' = ''reportqueries''"
  "ToLower ''storagelocations'' = ''storagelocations''"
  by (simp_all add: good_segment_def plain_name_def ToLower_def lower_char_def)

interpretation hiveTables_client: typed_client "''hivetables''" hiveTables_ops
  by unfold_locales
    (auto simp: resource_names object_base_def collection_base_def hiveTables_ops_def hiveTables_Get_def hiveTables_List_def hiveTables_Watch_def hiveTables_Create_def hiveTables_Update_def hiveTables_UpdateStatus_def hiveTables_Delete_def hiveTables_DeleteCollection_def hiveTables_Patch_def)

interpretation prestoTables_client: typed_client "''prestotables''" prestoTables_ops
  by unfold_locales
    (auto simp: resource_names object_base_def collection_base_def prestoTables_ops_def prestoTables_Get_def prestoTables_List_def prestoTables_Watch_def prestoTables_Create_def prestoTables_Update_def prestoTables_UpdateStatus_def prestoTables_Delete_def prestoTables_DeleteCollection_def prestoTables_Patch_def)

interpretation reports_client: typed_client "''reports''" reports_ops
  by unfold_locales
    (auto simp: resource_names object_base_def collection_base_def reports_ops_def reports_Get_def reports_List_def reports_Watch_def reports_Create_def reports_Update_def reports_UpdateStatus_def reports_Delete_def reports_DeleteCollection_def reports_Patch_def)

interpretation reportDataSources_client: typed_client "''reportdatasources''" reportDataSources_ops
  by unfold_locales
    (auto simp: resource_names object_base_def collection_base_def reportDataSources_ops_def reportDataSources_Get_def reportDataSources_List_def reportDataSources_Watch_def reportDataSources_Create_def reportDataSources_Update_def reportDataSources_UpdateStatus_def reportDataSources_Delete_def reportDataSources_DeleteCollection_def reportDataSources_Patch_def)

interpretation reportQueries_client: typed_client "''reportqueries''" reportQueries_ops
  by unfold_locales
    (auto simp: resource_names object_base_def collection_base_def reportQueries_ops_def reportQueries_Get_def reportQueries_List_def reportQueries_Watch_def reportQueries_Create_def reportQueries_Update_def reportQueries_UpdateStatus_def reportQueries_Delete_def reportQueries_DeleteCollection_def reportQueries_Patch_def)

interpretation storageLocations_client: typed_client "''storagelocations''" storageLocations_ops
  by unfold_locales
    (auto simp: resource_names object_base_def collection_base_def storageLocations_ops_def storageLocations_Get_def storageLocations_List_def storageLocations_Watch_def storageLocations_Create_def storageLocations_Update_def storageLocations_UpdateStatus_def storageLocations_Delete_def storageLocations_DeleteCollection_def storageLocations_Patch_def)

section \<open>Properties\<close>

lemma typed_client_of: "(res, ops) \<in> set typed_clients \<Longrightarrow> typed_client res ops"
  using hiveTables_client.typed_client_axioms prestoTables_client.typed_client_axioms reports_client.typed_client_axioms
    reportDataSources_client.typed_client_axioms reportQueries_client.typed_client_axioms
    storageLocations_client.typed_client_axioms
  by (auto simp: typed_clients_def)


definition sample_object :: ObjectMeta where
  "sample_object = \<lparr>Name = ''r'', Namespace = ''ns'', Labels = [], Annotations = [], Finalizers = [], DeletionTimestamp = None,
     ResourceVersion = [], OwnerReferences = []\<rparr>"

definition sample_client :: "(ObjectMeta, ObjectMeta list) resource_client" where
  "sample_client =
     \<lparr>rc_client =
        \<lparr>cl_base = ''/'', cl_clientTimeout = 0, cl_transport = (\<lambda>n q. Answered \<lparr>rs_status = 200, rs_retryAfter = None, rs_body = []\<rparr>),
         cl_params = (\<lambda>_. Inr []), cl_encode = (\<lambda>_. Inr []), cl_encodeDelete = (\<lambda>_. Inr []), cl_zero = sample_object,
         cl_decode = (\<lambda>_. (sample_object, None)), cl_zeroList = [], cl_decodeList = (\<lambda>_. ([], None)),
         cl_failure = (\<lambda>_. None), cl_watchFailure = (\<lambda>_. Err [])\<rparr>,
      rc_ns = ''ns''\<rparr>"

definition plain_get :: get_options where
  "plain_get = \<lparr>geto_ResourceVersion = [], geto_IncludeUninitialized = False\<rparr>"

lemma sample_requests:
  "map hr_path (fst (reports_UpdateStatus sample_client sample_object))
     = [''/apis/metering.openshift.io/v1/namespaces/ns/reports/r/status'']"
  "map hr_path (fst (reports_Update sample_client sample_object)) = [''/apis/metering.openshift.io/v1/namespaces/ns/reports/r'']"
  "map hr_path (fst (reports_Get sample_client ''r'' plain_get)) = [''/apis/metering.openshift.io/v1/namespaces/ns/reports/r'']"
  by code_simp+

lemma sample_reports:
  "(''reports'', reports_ops) \<in> set typed_clients" "cl_base (rc_client sample_client) = ''/''" "rc_ns sample_client = ''ns''"
  "Name sample_object = ''r''"
  by (simp_all add: typed_clients_def sample_client_def sample_object_def)


lemma object_path_inject:
  assumes "object_path res ns n sub = object_path res' ns' n' sub'"
    "good_segment res" "good_segment ns" "good_segment n" "\<forall>s \<in> set sub. plain_name s"
    "good_segment res'" "good_segment ns'" "good_segment n'" "\<forall>s \<in> set sub'. plain_name s"
  shows "res = res' \<and> ns = ns' \<and> n = n' \<and> sub = sub'"
proof -
  have "\<forall>e \<in> set (api_root @ scope_path m @ [r, k] @ ss). plain_name e"
    if "good_segment m" "good_segment r" "good_segment k" "\<forall>s \<in> set ss. plain_name s" for m r k ss
    using api_root_plain[of m] that by (auto simp: good_segment_def)
  note p = this
  have "api_root @ scope_path ns @ [res, n] @ sub = api_root @ scope_path ns' @ [res', n'] @ sub'"
    by (rule abs_path_inject[OF p p]) (use assms in \<open>auto simp: object_path_def\<close>)
  moreover have "ns \<noteq> []" "ns' \<noteq> []" using assms by (auto simp: good_segment_def plain_name_def)
  ultimately show ?thesis by (simp add: scope_path_def)
qed

text \<open>
  C21: No two objects share a URL: when an update of one object, of its status, or a delete sends a request with the path of a get of
  another, then both are of the same resource, namespace and name. A handler that updates what it was given cannot touch anything else,
  whatever characters the names have.
\<close>

theorem writes_touch_one_object:
  assumes "(res, ops) \<in> set typed_clients" "(res', ops') \<in> set typed_clients"
    "cl_base (rc_client c) = ''/''" "cl_base (rc_client c') = ''/''"
    "q \<in> set (fst (t_Update ops c obj)) \<union> set (fst (t_Delete ops c (Name obj) dopt))"
    "q' \<in> set (fst (t_Get ops' c' n go)) \<union> set (fst (t_UpdateStatus ops' c' obj'))"
    "hr_path q = hr_path q'"
  shows "res = res' \<and> rc_ns c = rc_ns c' \<and> Name obj = n \<and> q' \<in> set (fst (t_Get ops' c' n go))"
proof -
  have r: "good_segment res" "good_segment res'"
    using assms(1,2) by (auto simp: typed_clients_def resource_names)
  note t = typed_client_of[OF assms(1)] and t' = typed_client_of[OF assms(2)]
  have 1: "hr_path q = object_path res (rc_ns c) (Name obj) []" "good_segment (rc_ns c)" "good_segment (Name obj)"
    using assms(5) subsetD[OF typed_client.object_requests(2)[OF t assms(3)]] subsetD[OF typed_client.object_requests(4)[OF t assms(3)]]
    by (force simp: to_object_def)+
  have 2: "hr_path q' = object_path res' (rc_ns c') n [] \<and> good_segment (rc_ns c') \<and> good_segment n"
    if "q' \<in> set (fst (t_Get ops' c' n go))"
    using subsetD[OF typed_client.object_requests(1)[OF t' assms(4)] that] by (simp add: to_object_def)
  have 3: "hr_path q' = object_path res' (rc_ns c') (Name obj') [''status''] \<and> good_segment (rc_ns c') \<and> good_segment (Name obj')"
    if "q' \<in> set (fst (t_UpdateStatus ops' c' obj'))"
    using subsetD[OF typed_client.object_requests(3)[OF t' assms(4)] that] by (simp add: to_object_def)
  have "q' \<notin> set (fst (t_UpdateStatus ops' c' obj'))"
    using 3 object_path_inject[of res "rc_ns c" "Name obj" "[]" res' "rc_ns c'" "Name obj'" "[''status'']"] 1 r assms(7)
    by (auto simp: plain_name_def)
  with assms(6) show ?thesis
    using 2 object_path_inject[of res "rc_ns c" "Name obj" "[]" res' "rc_ns c'" n "[]"] 1 r assms(7) by auto
qed

theorem writes_touch_one_object_witness:
  "\<exists>q q'. q \<in> set (fst (reports_Update sample_client sample_object)) \<and> q' \<in> set (fst (reports_Get sample_client ''r'' plain_get)) \<and>
     hr_path q = hr_path q' \<and> rc_ns sample_client = ''ns'' \<and> Name sample_object = ''r''"
proof -
  obtain q where q: "q \<in> set (fst (reports_Update sample_client sample_object))"
    "hr_path q = ''/apis/metering.openshift.io/v1/namespaces/ns/reports/r''"
    using sample_requests(2) by (cases "fst (reports_Update sample_client sample_object)") auto
  obtain q' where q': "q' \<in> set (fst (reports_Get sample_client ''r'' plain_get))"
    "hr_path q' = ''/apis/metering.openshift.io/v1/namespaces/ns/reports/r''"
    using sample_requests(3) by (cases "fst (reports_Get sample_client ''r'' plain_get)") auto
  have "Name sample_object = ''r''"
    using writes_touch_one_object[OF sample_reports(1,1,2,2), of q sample_object None q' "''r''" plain_get sample_object] q q'
    by (simp add: reports_ops_def)
  then show ?thesis using q q' sample_reports(3) by (intro exI[of _ q] exI[of _ q']) simp
qed

text \<open>
  \<^verbatim>\<open>TimeoutSeconds\<close> becomes the timeout of the request exactly as long as it is at most 9223372036 seconds, the most that the nanoseconds of a
  duration hold.
\<close>

theorem list_timeout_exact:
  assumes "lo_TimeoutSeconds opts = Some s" "0 \<le> sint s" "sint s \<le> 9223372036"
  shows "sint (opts_timeout opts) = sint s * 1000000000"
proof -
  have "sint (opts_timeout opts) = signed_take_bit 63 (sint s * 1000000000)"
    using assms(1) by (simp add: opts_timeout_def sint_word_ariths)
  also have "\<dots> = sint s * 1000000000"
    using assms(2,3) by (intro signed_take_bit_int_eq_self) simp_all
  finally show ?thesis .
qed

definition thirty_seconds :: list_options where
  "thirty_seconds = \<lparr>lo_LabelSelector = [], lo_FieldSelector = [], lo_IncludeUninitialized = False, lo_Watch = False,
     lo_ResourceVersion = [], lo_TimeoutSeconds = Some 30, lo_Limit = 0, lo_Continue = []\<rparr>"

theorem list_timeout_exact_witness: "sint (opts_timeout thirty_seconds) = 30000000000"
  using list_timeout_exact[of thirty_seconds 30] by (simp add: thirty_seconds_def)

text \<open>One second more makes the timeout negative.\<close>

lemma list_timeout_wraps:
  "lo_TimeoutSeconds opts = Some 9223372037 \<Longrightarrow> sint (opts_timeout opts) < 0"
  by (simp add: opts_timeout_def)

end
