(* ===== verification/Listers.thy ===== *)
theory Listers
  imports Indexers Finalizers Typed_Clients
begin

text \<open>
  The generated listers (\<^verbatim>\<open>pkg/generated/listers/metering/v1\<close>), which read the cache of an informer, and the getters over listers and clients
  (\<^verbatim>\<open>pkg/operator/reporting/getters.go\<close>) through which the dependency resolver reads.
\<close>

section \<open>The listers\<close>

record 'o resource_lister =
  l_indexer :: "'o indexer"

record 'o namespace_lister =
  nl_indexer :: "'o indexer"
  nl_namespace :: string

text \<open>A qualified resource as \<^verbatim>\<open>GroupResource.String\<close> prints it.\<close>

definition v1_Resource :: "string \<Rightarrow> string" where
  "v1_Resource r = r @ ''.'' @ GroupName"

text \<open>The names of resources have no characters that \<^verbatim>\<open>%q\<close> escapes.\<close>

definition NewNotFound :: "string \<Rightarrow> string \<Rightarrow> goerror" where
  "NewNotFound resource name = APIErr ReasonNotFound (resource @ '' '' @ [CHR 0x22] @ name @ [CHR 0x22] @ '' not found'')"

definition NewHiveTableLister :: "'o ObjectMeta_scheme indexer \<Rightarrow> 'o ObjectMeta_scheme resource_lister" where
  "NewHiveTableLister ix = \<lparr>l_indexer = ix\<rparr>"

definition hiveTableLister_List :: "'o ObjectMeta_scheme resource_lister \<Rightarrow> selector \<Rightarrow> 'o ObjectMeta_scheme list" where
  "hiveTableLister_List s sel = ListAll (l_indexer s) sel"

definition hiveTableLister_HiveTables :: "'o ObjectMeta_scheme resource_lister \<Rightarrow> string \<Rightarrow> 'o ObjectMeta_scheme namespace_lister" where
  "hiveTableLister_HiveTables s ns = \<lparr>nl_indexer = l_indexer s, nl_namespace = ns\<rparr>"

definition hiveTableNamespaceLister_List :: "'o ObjectMeta_scheme namespace_lister \<Rightarrow> selector \<Rightarrow> 'o ObjectMeta_scheme list" where
  "hiveTableNamespaceLister_List s sel = ListAllByNamespace (nl_indexer s) (nl_namespace s) sel"

definition hiveTableNamespaceLister_Get :: "'o ObjectMeta_scheme namespace_lister \<Rightarrow> string \<Rightarrow> goerror + 'o ObjectMeta_scheme" where
  "hiveTableNamespaceLister_Get s name =
     (case GetByKey (nl_namespace s @ ''/'' @ name) (nl_indexer s) of
        None \<Rightarrow> Inl (NewNotFound (v1_Resource ''hivetable'') name)
      | Some obj \<Rightarrow> Inr obj)"

definition NewPrestoTableLister :: "'o ObjectMeta_scheme indexer \<Rightarrow> 'o ObjectMeta_scheme resource_lister" where
  "NewPrestoTableLister ix = \<lparr>l_indexer = ix\<rparr>"

definition prestoTableLister_List :: "'o ObjectMeta_scheme resource_lister \<Rightarrow> selector \<Rightarrow> 'o ObjectMeta_scheme list" where
  "prestoTableLister_List s sel = ListAll (l_indexer s) sel"

definition prestoTableLister_PrestoTables :: "'o ObjectMeta_scheme resource_lister \<Rightarrow> string \<Rightarrow> 'o ObjectMeta_scheme namespace_lister" where
  "prestoTableLister_PrestoTables s ns = \<lparr>nl_indexer = l_indexer s, nl_namespace = ns\<rparr>"

definition prestoTableNamespaceLister_List :: "'o ObjectMeta_scheme namespace_lister \<Rightarrow> selector \<Rightarrow> 'o ObjectMeta_scheme list" where
  "prestoTableNamespaceLister_List s sel = ListAllByNamespace (nl_indexer s) (nl_namespace s) sel"

definition prestoTableNamespaceLister_Get :: "'o ObjectMeta_scheme namespace_lister \<Rightarrow> string \<Rightarrow> goerror + 'o ObjectMeta_scheme" where
  "prestoTableNamespaceLister_Get s name =
     (case GetByKey (nl_namespace s @ ''/'' @ name) (nl_indexer s) of
        None \<Rightarrow> Inl (NewNotFound (v1_Resource ''prestotable'') name)
      | Some obj \<Rightarrow> Inr obj)"

definition NewReportLister :: "'o ObjectMeta_scheme indexer \<Rightarrow> 'o ObjectMeta_scheme resource_lister" where
  "NewReportLister ix = \<lparr>l_indexer = ix\<rparr>"

definition reportLister_List :: "'o ObjectMeta_scheme resource_lister \<Rightarrow> selector \<Rightarrow> 'o ObjectMeta_scheme list" where
  "reportLister_List s sel = ListAll (l_indexer s) sel"

definition reportLister_Reports :: "'o ObjectMeta_scheme resource_lister \<Rightarrow> string \<Rightarrow> 'o ObjectMeta_scheme namespace_lister" where
  "reportLister_Reports s ns = \<lparr>nl_indexer = l_indexer s, nl_namespace = ns\<rparr>"

definition reportNamespaceLister_List :: "'o ObjectMeta_scheme namespace_lister \<Rightarrow> selector \<Rightarrow> 'o ObjectMeta_scheme list" where
  "reportNamespaceLister_List s sel = ListAllByNamespace (nl_indexer s) (nl_namespace s) sel"

definition reportNamespaceLister_Get :: "'o ObjectMeta_scheme namespace_lister \<Rightarrow> string \<Rightarrow> goerror + 'o ObjectMeta_scheme" where
  "reportNamespaceLister_Get s name =
     (case GetByKey (nl_namespace s @ ''/'' @ name) (nl_indexer s) of
        None \<Rightarrow> Inl (NewNotFound (v1_Resource ''report'') name)
      | Some obj \<Rightarrow> Inr obj)"

definition NewReportDataSourceLister :: "'o ObjectMeta_scheme indexer \<Rightarrow> 'o ObjectMeta_scheme resource_lister" where
  "NewReportDataSourceLister ix = \<lparr>l_indexer = ix\<rparr>"

definition reportDataSourceLister_List :: "'o ObjectMeta_scheme resource_lister \<Rightarrow> selector \<Rightarrow> 'o ObjectMeta_scheme list" where
  "reportDataSourceLister_List s sel = ListAll (l_indexer s) sel"

definition reportDataSourceLister_ReportDataSources :: "'o ObjectMeta_scheme resource_lister \<Rightarrow> string \<Rightarrow> 'o ObjectMeta_scheme namespace_lister" where
  "reportDataSourceLister_ReportDataSources s ns = \<lparr>nl_indexer = l_indexer s, nl_namespace = ns\<rparr>"

definition reportDataSourceNamespaceLister_List :: "'o ObjectMeta_scheme namespace_lister \<Rightarrow> selector \<Rightarrow> 'o ObjectMeta_scheme list" where
  "reportDataSourceNamespaceLister_List s sel = ListAllByNamespace (nl_indexer s) (nl_namespace s) sel"

definition reportDataSourceNamespaceLister_Get :: "'o ObjectMeta_scheme namespace_lister \<Rightarrow> string \<Rightarrow> goerror + 'o ObjectMeta_scheme" where
  "reportDataSourceNamespaceLister_Get s name =
     (case GetByKey (nl_namespace s @ ''/'' @ name) (nl_indexer s) of
        None \<Rightarrow> Inl (NewNotFound (v1_Resource ''reportdatasource'') name)
      | Some obj \<Rightarrow> Inr obj)"

definition NewReportQueryLister :: "'o ObjectMeta_scheme indexer \<Rightarrow> 'o ObjectMeta_scheme resource_lister" where
  "NewReportQueryLister ix = \<lparr>l_indexer = ix\<rparr>"

definition reportQueryLister_List :: "'o ObjectMeta_scheme resource_lister \<Rightarrow> selector \<Rightarrow> 'o ObjectMeta_scheme list" where
  "reportQueryLister_List s sel = ListAll (l_indexer s) sel"

definition reportQueryLister_ReportQueries :: "'o ObjectMeta_scheme resource_lister \<Rightarrow> string \<Rightarrow> 'o ObjectMeta_scheme namespace_lister" where
  "reportQueryLister_ReportQueries s ns = \<lparr>nl_indexer = l_indexer s, nl_namespace = ns\<rparr>"

definition reportQueryNamespaceLister_List :: "'o ObjectMeta_scheme namespace_lister \<Rightarrow> selector \<Rightarrow> 'o ObjectMeta_scheme list" where
  "reportQueryNamespaceLister_List s sel = ListAllByNamespace (nl_indexer s) (nl_namespace s) sel"

definition reportQueryNamespaceLister_Get :: "'o ObjectMeta_scheme namespace_lister \<Rightarrow> string \<Rightarrow> goerror + 'o ObjectMeta_scheme" where
  "reportQueryNamespaceLister_Get s name =
     (case GetByKey (nl_namespace s @ ''/'' @ name) (nl_indexer s) of
        None \<Rightarrow> Inl (NewNotFound (v1_Resource ''reportquery'') name)
      | Some obj \<Rightarrow> Inr obj)"

definition NewStorageLocationLister :: "'o ObjectMeta_scheme indexer \<Rightarrow> 'o ObjectMeta_scheme resource_lister" where
  "NewStorageLocationLister ix = \<lparr>l_indexer = ix\<rparr>"

definition storageLocationLister_List :: "'o ObjectMeta_scheme resource_lister \<Rightarrow> selector \<Rightarrow> 'o ObjectMeta_scheme list" where
  "storageLocationLister_List s sel = ListAll (l_indexer s) sel"

definition storageLocationLister_StorageLocations :: "'o ObjectMeta_scheme resource_lister \<Rightarrow> string \<Rightarrow> 'o ObjectMeta_scheme namespace_lister" where
  "storageLocationLister_StorageLocations s ns = \<lparr>nl_indexer = l_indexer s, nl_namespace = ns\<rparr>"

definition storageLocationNamespaceLister_List :: "'o ObjectMeta_scheme namespace_lister \<Rightarrow> selector \<Rightarrow> 'o ObjectMeta_scheme list" where
  "storageLocationNamespaceLister_List s sel = ListAllByNamespace (nl_indexer s) (nl_namespace s) sel"

definition storageLocationNamespaceLister_Get :: "'o ObjectMeta_scheme namespace_lister \<Rightarrow> string \<Rightarrow> goerror + 'o ObjectMeta_scheme" where
  "storageLocationNamespaceLister_Get s name =
     (case GetByKey (nl_namespace s @ ''/'' @ name) (nl_indexer s) of
        None \<Rightarrow> Inl (NewNotFound (v1_Resource ''storagelocation'') name)
      | Some obj \<Rightarrow> Inr obj)"

section \<open>The getters\<close>

definition empty_get_options :: get_options where
  "empty_get_options = \<lparr>geto_ResourceVersion = [], geto_IncludeUninitialized = False\<rparr>"

definition NewReportListerGetter :: "'o ObjectMeta_scheme resource_lister \<Rightarrow> string \<Rightarrow> string \<Rightarrow> goerror + 'o ObjectMeta_scheme" where
  "NewReportListerGetter lister ns name = reportNamespaceLister_Get (reportLister_Reports lister ns) name"

definition NewReportClientGetter ::
  "('o ObjectMeta_scheme, 'l) rest_client \<Rightarrow> string \<Rightarrow> string \<Rightarrow> http_req list \<times> 'o ObjectMeta_scheme \<times> request_error option" where
  "NewReportClientGetter getter ns name = reports_Get (MeteringV1Client_Reports getter ns) name empty_get_options"

definition NewReportDataSourceListerGetter :: "'o ObjectMeta_scheme resource_lister \<Rightarrow> string \<Rightarrow> string \<Rightarrow> goerror + 'o ObjectMeta_scheme" where
  "NewReportDataSourceListerGetter lister ns name = reportDataSourceNamespaceLister_Get (reportDataSourceLister_ReportDataSources lister ns) name"

definition NewReportDataSourceClientGetter ::
  "('o ObjectMeta_scheme, 'l) rest_client \<Rightarrow> string \<Rightarrow> string \<Rightarrow> http_req list \<times> 'o ObjectMeta_scheme \<times> request_error option" where
  "NewReportDataSourceClientGetter getter ns name = reportDataSources_Get (MeteringV1Client_ReportDataSources getter ns) name empty_get_options"

definition NewReportQueryListerGetter :: "'o ObjectMeta_scheme resource_lister \<Rightarrow> string \<Rightarrow> string \<Rightarrow> goerror + 'o ObjectMeta_scheme" where
  "NewReportQueryListerGetter lister ns name = reportQueryNamespaceLister_Get (reportQueryLister_ReportQueries lister ns) name"

definition NewReportQueryClientGetter ::
  "('o ObjectMeta_scheme, 'l) rest_client \<Rightarrow> string \<Rightarrow> string \<Rightarrow> http_req list \<times> 'o ObjectMeta_scheme \<times> request_error option" where
  "NewReportQueryClientGetter getter ns name = reportQueries_Get (MeteringV1Client_ReportQueries getter ns) name empty_get_options"

section \<open>What a lister reads\<close>

record 'o lister_ops =
  lo_new :: "'o indexer \<Rightarrow> 'o resource_lister"
  lo_List :: "'o resource_lister \<Rightarrow> selector \<Rightarrow> 'o list"
  lo_ns :: "'o resource_lister \<Rightarrow> string \<Rightarrow> 'o namespace_lister"
  lo_nsList :: "'o namespace_lister \<Rightarrow> selector \<Rightarrow> 'o list"
  lo_Get :: "'o namespace_lister \<Rightarrow> string \<Rightarrow> goerror + 'o"

definition hiveTable_lister_ops :: "'o ObjectMeta_scheme lister_ops" where
  "hiveTable_lister_ops =
     \<lparr>lo_new = NewHiveTableLister, lo_List = hiveTableLister_List, lo_ns = hiveTableLister_HiveTables,
      lo_nsList = hiveTableNamespaceLister_List, lo_Get = hiveTableNamespaceLister_Get\<rparr>"

definition prestoTable_lister_ops :: "'o ObjectMeta_scheme lister_ops" where
  "prestoTable_lister_ops =
     \<lparr>lo_new = NewPrestoTableLister, lo_List = prestoTableLister_List, lo_ns = prestoTableLister_PrestoTables,
      lo_nsList = prestoTableNamespaceLister_List, lo_Get = prestoTableNamespaceLister_Get\<rparr>"

definition report_lister_ops :: "'o ObjectMeta_scheme lister_ops" where
  "report_lister_ops =
     \<lparr>lo_new = NewReportLister, lo_List = reportLister_List, lo_ns = reportLister_Reports,
      lo_nsList = reportNamespaceLister_List, lo_Get = reportNamespaceLister_Get\<rparr>"

definition reportDataSource_lister_ops :: "'o ObjectMeta_scheme lister_ops" where
  "reportDataSource_lister_ops =
     \<lparr>lo_new = NewReportDataSourceLister, lo_List = reportDataSourceLister_List, lo_ns = reportDataSourceLister_ReportDataSources,
      lo_nsList = reportDataSourceNamespaceLister_List, lo_Get = reportDataSourceNamespaceLister_Get\<rparr>"

definition reportQuery_lister_ops :: "'o ObjectMeta_scheme lister_ops" where
  "reportQuery_lister_ops =
     \<lparr>lo_new = NewReportQueryLister, lo_List = reportQueryLister_List, lo_ns = reportQueryLister_ReportQueries,
      lo_nsList = reportQueryNamespaceLister_List, lo_Get = reportQueryNamespaceLister_Get\<rparr>"

definition storageLocation_lister_ops :: "'o ObjectMeta_scheme lister_ops" where
  "storageLocation_lister_ops =
     \<lparr>lo_new = NewStorageLocationLister, lo_List = storageLocationLister_List, lo_ns = storageLocationLister_StorageLocations,
      lo_nsList = storageLocationNamespaceLister_List, lo_Get = storageLocationNamespaceLister_Get\<rparr>"

definition generated_listers :: "(string \<times> 'o ObjectMeta_scheme lister_ops) list" where
  "generated_listers =
     [(''hivetable'', hiveTable_lister_ops),
      (''prestotable'', prestoTable_lister_ops),
      (''report'', report_lister_ops),
      (''reportdatasource'', reportDataSource_lister_ops),
      (''reportquery'', reportQuery_lister_ops),
      (''storagelocation'', storageLocation_lister_ops)]"

text \<open>The contract of a lister over its indexer; every generated lister fulfils it.\<close>

locale lister =
  fixes kind :: string and ops :: "'o ObjectMeta_scheme lister_ops"
  assumes List: "lo_List ops (lo_new ops ix) sel = ListAll ix sel"
    and nsList: "lo_nsList ops (lo_ns ops (lo_new ops ix) ns) sel = ListAllByNamespace ix ns sel"
    and Get: "lo_Get ops (lo_ns ops (lo_new ops ix) ns) n =
      (case GetByKey (ns @ ''/'' @ n) ix of None \<Rightarrow> Inl (NewNotFound (v1_Resource kind) n) | Some obj \<Rightarrow> Inr obj)"
begin

lemma list_reads: "ix_ok ix \<Longrightarrow> set (lo_List ops (lo_new ops ix) sel) = {obj \<in> ran (cached ix). sel (Labels obj)}"
  using set_indexer_List[of ix] by (auto simp: List ListAll_def)

lemma ns_list_reads:
  assumes "ix_ok ix" "ns \<noteq> []"
  shows "set (lo_nsList ops (lo_ns ops (lo_new ops ix) ns) sel) = {obj \<in> ran (cached ix). Namespace obj = ns \<and> sel (Labels obj)}"
    "distinct (lo_nsList ops (lo_ns ops (lo_new ops ix) ns) sel)"
  using assms by (simp_all add: nsList set_ListAllByNamespace distinct_ListAllByNamespace)

lemma get_reads:
  assumes "ix_ok ix" "ns \<noteq> []" "CHR ''/'' \<notin> set ns" "CHR ''/'' \<notin> set n"
    "\<forall>obj \<in> ran (cached ix). CHR ''/'' \<notin> set (Namespace obj) \<and> CHR ''/'' \<notin> set (Name obj)"
  shows "lo_Get ops (lo_ns ops (lo_new ops ix) ns) n = Inr obj \<longleftrightarrow>
      obj \<in> ran (cached ix) \<and> Namespace obj = ns \<and> Name obj = n"
    "(\<forall>obj \<in> ran (cached ix). \<not> (Namespace obj = ns \<and> Name obj = n)) \<Longrightarrow>
      lo_Get ops (lo_ns ops (lo_new ops ix) ns) n = Inl (NewNotFound (v1_Resource kind) n)"
proof -
  note g = GetByKey_iff[OF assms(1-3,5,4)]
  show "lo_Get ops (lo_ns ops (lo_new ops ix) ns) n = Inr obj \<longleftrightarrow>
      obj \<in> ran (cached ix) \<and> Namespace obj = ns \<and> Name obj = n"
    using g[of obj] by (auto simp: Get split: option.splits)
  assume "\<forall>obj \<in> ran (cached ix). \<not> (Namespace obj = ns \<and> Name obj = n)"
  then have "GetByKey (ns @ ''/'' @ n) ix = None"
    using g by (cases "GetByKey (ns @ ''/'' @ n) ix") auto
  then show "lo_Get ops (lo_ns ops (lo_new ops ix) ns) n = Inl (NewNotFound (v1_Resource kind) n)"
    by (simp add: Get)
qed

end

lemmas lister_defs =
  NewHiveTableLister_def hiveTableLister_List_def hiveTableLister_HiveTables_def hiveTableNamespaceLister_List_def hiveTableNamespaceLister_Get_def
    NewPrestoTableLister_def prestoTableLister_List_def prestoTableLister_PrestoTables_def prestoTableNamespaceLister_List_def prestoTableNamespaceLister_Get_def
    NewReportLister_def reportLister_List_def reportLister_Reports_def reportNamespaceLister_List_def reportNamespaceLister_Get_def
    NewReportDataSourceLister_def reportDataSourceLister_List_def reportDataSourceLister_ReportDataSources_def reportDataSourceNamespaceLister_List_def reportDataSourceNamespaceLister_Get_def
    NewReportQueryLister_def reportQueryLister_List_def reportQueryLister_ReportQueries_def reportQueryNamespaceLister_List_def reportQueryNamespaceLister_Get_def
    NewStorageLocationLister_def storageLocationLister_List_def storageLocationLister_StorageLocations_def storageLocationNamespaceLister_List_def storageLocationNamespaceLister_Get_def

interpretation hiveTable_lister: lister "''hivetable''" hiveTable_lister_ops
  by unfold_locales (simp_all add: hiveTable_lister_ops_def lister_defs)

interpretation prestoTable_lister: lister "''prestotable''" prestoTable_lister_ops
  by unfold_locales (simp_all add: prestoTable_lister_ops_def lister_defs)

interpretation report_lister: lister "''report''" report_lister_ops
  by unfold_locales (simp_all add: report_lister_ops_def lister_defs)

interpretation reportDataSource_lister: lister "''reportdatasource''" reportDataSource_lister_ops
  by unfold_locales (simp_all add: reportDataSource_lister_ops_def lister_defs)

interpretation reportQuery_lister: lister "''reportquery''" reportQuery_lister_ops
  by unfold_locales (simp_all add: reportQuery_lister_ops_def lister_defs)

interpretation storageLocation_lister: lister "''storagelocation''" storageLocation_lister_ops
  by unfold_locales (simp_all add: storageLocation_lister_ops_def lister_defs)

lemma lister_of: "(kind, ops) \<in> set generated_listers \<Longrightarrow> lister kind ops"
  using hiveTable_lister.lister_axioms
    prestoTable_lister.lister_axioms
    report_lister.lister_axioms
    reportDataSource_lister.lister_axioms
    reportQuery_lister.lister_axioms
    storageLocation_lister.lister_axioms
  by (auto simp: generated_listers_def)

text \<open>The objects that deltas put into a cache are among those they carry.\<close>

fun delta_objects :: "'o delta \<Rightarrow> 'o list" where
  "delta_objects (SyncDelta obj) = [obj]"
| "delta_objects (Added obj) = [obj]"
| "delta_objects (Updated obj) = [obj]"
| "delta_objects (Deleted g) = []"

lemma ran_deltas: "ran (fold apply_delta ds m) \<subseteq> ran m \<union> (\<Union>d \<in> set ds. set (delta_objects d))"
proof (induction ds arbitrary: m)
  case (Cons d ds)
  have "ran (apply_delta d m) \<subseteq> ran m \<union> set (delta_objects d)"
    by (cases d) (auto simp: ran_def)
  then show ?case using Cons.IH[of "apply_delta d m"] by auto
qed simp

definition watched_cache :: "bool \<Rightarrow> 'a ObjectMeta_scheme delta list \<Rightarrow> 'a ObjectMeta_scheme indexer" where
  "watched_cache b ds = snd (HandleDeltas ds (new_indexer b))"

lemma watched_ok: "ix_ok (watched_cache b ds)"
  by (simp add: watched_cache_def ok_deltas ok_new)

lemma cached_watched: "cached (watched_cache b ds) = fold apply_delta ds Map.empty"
  by (simp add: watched_cache_def cached_deltas) (simp add: cached_def new_indexer_def)

text \<open>
  C22: Every generated lister reads what the watch delivered: after any sequence of deltas, with the namespace index or without it, listing
  a namespace gives each object of the namespace that matches the selector once and no other, listing everything gives all that
  match, and a get gives the object of that namespace and name, or the not-found error when there is none. The current objects are those
  of the map in which a delta sets or removes one key.
\<close>

theorem listers_follow_the_watch:
  assumes "(kind, ops) \<in> set generated_listers" "ns \<noteq> []" "CHR ''/'' \<notin> set ns" "CHR ''/'' \<notin> set n"
    and "\<forall>d \<in> set ds. \<forall>obj \<in> set (delta_objects d). CHR ''/'' \<notin> set (Namespace obj) \<and> CHR ''/'' \<notin> set (Name obj)"
  shows "set (lo_List ops (lo_new ops (watched_cache b ds)) sel) =
      {obj \<in> ran (fold apply_delta ds Map.empty). sel (Labels obj)} \<and>
    set (lo_nsList ops (lo_ns ops (lo_new ops (watched_cache b ds)) ns) sel) =
      {obj \<in> ran (fold apply_delta ds Map.empty). Namespace obj = ns \<and> sel (Labels obj)} \<and>
    distinct (lo_nsList ops (lo_ns ops (lo_new ops (watched_cache b ds)) ns) sel) \<and>
    (\<forall>obj. lo_Get ops (lo_ns ops (lo_new ops (watched_cache b ds)) ns) n = Inr obj \<longleftrightarrow>
      obj \<in> ran (fold apply_delta ds Map.empty) \<and> Namespace obj = ns \<and> Name obj = n) \<and>
    ((\<forall>obj \<in> ran (fold apply_delta ds Map.empty). \<not> (Namespace obj = ns \<and> Name obj = n)) \<longrightarrow>
      lo_Get ops (lo_ns ops (lo_new ops (watched_cache b ds)) ns) n = Inl (NewNotFound (v1_Resource kind) n))"
proof -
  note l = lister_of[OF assms(1)]
  have r: "\<forall>obj \<in> ran (cached (watched_cache b ds)). CHR ''/'' \<notin> set (Namespace obj) \<and> CHR ''/'' \<notin> set (Name obj)"
    using ran_deltas[of ds Map.empty] assms(5) unfolding cached_watched by fastforce
  show ?thesis
    using lister.list_reads[OF l watched_ok, of b ds sel] lister.ns_list_reads[OF l watched_ok assms(2), of b ds sel]
      lister.get_reads[OF l watched_ok assms(2-4) r]
    unfolding cached_watched by blast
qed

definition watched_report :: "string \<Rightarrow> string \<Rightarrow> ObjectMeta" where
  "watched_report ns n = \<lparr>Name = n, Namespace = ns, Labels = [], Annotations = [], Finalizers = [], DeletionTimestamp = None,
     ResourceVersion = [], OwnerReferences = []\<rparr>"

definition sample_deltas :: "ObjectMeta delta list" where
  "sample_deltas =
     [Added (watched_report ''a'' ''x''), Added (watched_report ''b'' ''x''), Deleted (Known (watched_report ''b'' ''x''))]"

theorem listers_follow_the_watch_witness:
  "set (reportNamespaceLister_List (reportLister_Reports (NewReportLister (watched_cache True sample_deltas)) ''a'') (\<lambda>_. True))
     = {watched_report ''a'' ''x''}"
proof -
  have m: "(''report'', report_lister_ops) \<in> set generated_listers"
    by (simp add: generated_listers_def)
  have f: "fold apply_delta sample_deltas Map.empty = [''a/x'' \<mapsto> watched_report ''a'' ''x'']"
    by (auto simp: sample_deltas_def watched_report_def MetaNamespaceKeyFunc_def)
  have "\<forall>d \<in> set sample_deltas. \<forall>obj \<in> set (delta_objects d). CHR ''/'' \<notin> set (Namespace obj) \<and> CHR ''/'' \<notin> set (Name obj)"
    by (simp add: sample_deltas_def watched_report_def)
  from listers_follow_the_watch[OF m _ _ _ this, of "''a''" "''x''" True "\<lambda>_. True"]
  have "set (reportNamespaceLister_List (reportLister_Reports (NewReportLister (watched_cache True sample_deltas)) ''a'') (\<lambda>_. True))
      = {obj \<in> ran [''a/x'' \<mapsto> watched_report ''a'' ''x'']. Namespace obj = ''a'' \<and> True}"
    unfolding f by (simp add: report_lister_ops_def)
  also have "\<dots> = {watched_report ''a'' ''x''}" by (auto simp: watched_report_def)
  finally show ?thesis .
qed

end
