(* ===== verification/Informers.thy ===== *)
theory Informers
  imports Listers Operator_Run
begin

text \<open>
  The generated informers: the factory that shares one informer per kind (\<^verbatim>\<open>pkg/generated/informers/externalversions/factory.go\<close> and
  \<^verbatim>\<open>generic.go\<close>), the access to the kinds (\<^verbatim>\<open>metering/v1/interface.go\<close>), and the informer of each kind (\<^verbatim>\<open>metering/v1\<close>), which lists and
  watches with the typed client. A kind stands for the \<^verbatim>\<open>reflect.Type\<close> of its objects. The lock of the factory makes each of its
  operations one step.
\<close>

section \<open>The factory\<close>

type_synonym tweak = "list_options \<Rightarrow> list_options"

definition tweaked :: "tweak option \<Rightarrow> list_options \<Rightarrow> list_options" where
  "tweaked tw options = (case tw of None \<Rightarrow> options | Some f \<Rightarrow> f options)"

definition NamespaceIndex :: string where "NamespaceIndex = ''namespace''"

record ('o, 'l) informer =
  inf_list :: "list_options \<Rightarrow> http_req list \<times> 'l \<times> request_error option"
  inf_watch :: "list_options \<Rightarrow> http_req list \<times> (request_error + watch_result)"
  inf_object :: string
  inf_resync :: duration
  inf_indexers :: "string list"

record ('o, 'l) factory =
  f_client :: "('o, 'l) rest_client"
  f_namespace :: string
  f_tweakListOptions :: "tweak option"
  f_defaultResync :: duration
  f_customResync :: "duration gomap"
  f_informers :: "('o, 'l) informer gomap"
  f_startedInformers :: "string list"

definition WithCustomResyncConfig :: "duration gomap \<Rightarrow> ('o, 'l) factory \<Rightarrow> ('o, 'l) factory" where
  "WithCustomResyncConfig config f = f\<lparr>f_customResync := fold (\<lambda>e m. map_set (fst e) (snd e) m) config (f_customResync f)\<rparr>"

definition WithTweakListOptions :: "tweak option \<Rightarrow> ('o, 'l) factory \<Rightarrow> ('o, 'l) factory" where
  "WithTweakListOptions tw f = f\<lparr>f_tweakListOptions := tw\<rparr>"

definition WithNamespace :: "string \<Rightarrow> ('o, 'l) factory \<Rightarrow> ('o, 'l) factory" where
  "WithNamespace ns f = f\<lparr>f_namespace := ns\<rparr>"

definition NewSharedInformerFactoryWithOptions ::
  "('o, 'l) rest_client \<Rightarrow> duration \<Rightarrow> (('o, 'l) factory \<Rightarrow> ('o, 'l) factory) list \<Rightarrow> ('o, 'l) factory" where
  "NewSharedInformerFactoryWithOptions client resync options =
     fold (\<lambda>opt f. opt f) options
       \<lparr>f_client = client, f_namespace = [], f_tweakListOptions = None, f_defaultResync = resync, f_customResync = [], f_informers = [],
        f_startedInformers = []\<rparr>"

definition NewSharedInformerFactory :: "('o, 'l) rest_client \<Rightarrow> duration \<Rightarrow> ('o, 'l) factory" where
  "NewSharedInformerFactory client resync = NewSharedInformerFactoryWithOptions client resync []"

definition NewFilteredSharedInformerFactory ::
  "('o, 'l) rest_client \<Rightarrow> duration \<Rightarrow> string \<Rightarrow> tweak option \<Rightarrow> ('o, 'l) factory" where
  "NewFilteredSharedInformerFactory client resync ns tw =
     NewSharedInformerFactoryWithOptions client resync [WithNamespace ns, WithTweakListOptions tw]"

text \<open>The kinds whose informers \<^verbatim>\<open>Start\<close> runs, and those it has marked as started.\<close>

fun start_loop :: "('o, 'l) informer gomap \<Rightarrow> string list \<Rightarrow> string list \<times> string list" where
  "start_loop [] started = ([], started)"
| "start_loop (i # is) started =
     (if fst i \<in> set started then start_loop is started
      else let r = start_loop is (fst i # started) in (fst i # fst r, snd r))"

definition factory_Start :: "('o, 'l) factory \<Rightarrow> string list \<times> ('o, 'l) factory" where
  "factory_Start f =
     (let r = start_loop (f_informers f) (f_startedInformers f) in (fst r, f\<lparr>f_startedInformers := snd r\<rparr>))"

text \<open>The informers that \<^verbatim>\<open>WaitForCacheSync\<close> finds started, and its answer, where \<open>synced\<close> says of which kinds it saw the cache synced.\<close>

definition sync_snapshot :: "('o, 'l) factory \<Rightarrow> ('o, 'l) informer gomap" where
  "sync_snapshot f = filter (\<lambda>i. fst i \<in> set (f_startedInformers f)) (f_informers f)"

definition factory_WaitForCacheSync :: "(string \<Rightarrow> bool) \<Rightarrow> ('o, 'l) factory \<Rightarrow> bool gomap" where
  "factory_WaitForCacheSync synced f = map (\<lambda>i. (fst i, synced (fst i))) (sync_snapshot f)"

definition InformerFor ::
  "string \<Rightarrow> (('o, 'l) rest_client \<Rightarrow> duration \<Rightarrow> ('o, 'l) informer) \<Rightarrow> ('o, 'l) factory \<Rightarrow> ('o, 'l) informer \<times> ('o, 'l) factory" where
  "InformerFor kind newFunc f =
     (case map_of (f_informers f) kind of
        Some i \<Rightarrow> (i, f)
      | None \<Rightarrow>
          let resync = (case map_of (f_customResync f) kind of Some d \<Rightarrow> d | None \<Rightarrow> f_defaultResync f);
              i = newFunc (f_client f) resync
          in (i, f\<lparr>f_informers := map_set kind i (f_informers f)\<rparr>))"

text \<open>
  \<^verbatim>\<open>Metering().V1()\<close>: the namespace and the tweak of the factory, which the access to each kind carries on. \<open>caches\<close> gives the contents of
  the cache of each informer.
\<close>

record access =
  ac_namespace :: string
  ac_tweak :: "tweak option"

definition factory_Metering :: "('o, 'l) factory \<Rightarrow> access" where
  "factory_Metering f = \<lparr>ac_namespace = f_namespace f, ac_tweak = f_tweakListOptions f\<rparr>"

definition group_V1 :: "access \<Rightarrow> access" where
  "group_V1 g = \<lparr>ac_namespace = ac_namespace g, ac_tweak = ac_tweak g\<rparr>"

definition factory_V1 :: "('o, 'l) factory \<Rightarrow> access" where
  "factory_V1 f = group_V1 (factory_Metering f)"

definition GetIndexer :: "(string \<Rightarrow> 'o indexer) \<Rightarrow> ('o, 'l) informer \<Rightarrow> 'o indexer" where
  "GetIndexer caches i = caches (inf_object i)"

section \<open>The informers of the kinds\<close>

definition NewFilteredHiveTableInformer ::
  "('o ObjectMeta_scheme, 'l) rest_client \<Rightarrow> string \<Rightarrow> duration \<Rightarrow> string list \<Rightarrow> tweak option \<Rightarrow> ('o ObjectMeta_scheme, 'l) informer" where
  "NewFilteredHiveTableInformer client ns resync indexers tw =
     \<lparr>inf_list = (\<lambda>options. hiveTables_List (MeteringV1Client_HiveTables client ns) (tweaked tw options)),
      inf_watch = (\<lambda>options. hiveTables_Watch (MeteringV1Client_HiveTables client ns) (tweaked tw options)),
      inf_object = ''HiveTable'', inf_resync = resync, inf_indexers = indexers\<rparr>"

definition NewHiveTableInformer ::
  "('o ObjectMeta_scheme, 'l) rest_client \<Rightarrow> string \<Rightarrow> duration \<Rightarrow> string list \<Rightarrow> ('o ObjectMeta_scheme, 'l) informer" where
  "NewHiveTableInformer client ns resync indexers = NewFilteredHiveTableInformer client ns resync indexers None"

definition hiveTableInformer_defaultInformer ::
  "access \<Rightarrow> ('o ObjectMeta_scheme, 'l) rest_client \<Rightarrow> duration \<Rightarrow> ('o ObjectMeta_scheme, 'l) informer" where
  "hiveTableInformer_defaultInformer a client resync =
     NewFilteredHiveTableInformer client (ac_namespace a) resync [NamespaceIndex] (ac_tweak a)"

definition hiveTableInformer_Informer ::
  "access \<Rightarrow> ('o ObjectMeta_scheme, 'l) factory \<Rightarrow> ('o ObjectMeta_scheme, 'l) informer \<times> ('o ObjectMeta_scheme, 'l) factory" where
  "hiveTableInformer_Informer a f = InformerFor ''HiveTable'' (hiveTableInformer_defaultInformer a) f"

definition hiveTableInformer_Lister ::
  "access \<Rightarrow> (string \<Rightarrow> 'o ObjectMeta_scheme indexer) \<Rightarrow> ('o ObjectMeta_scheme, 'l) factory \<Rightarrow> 'o ObjectMeta_scheme resource_lister \<times> ('o ObjectMeta_scheme, 'l) factory" where
  "hiveTableInformer_Lister a caches f =
     (let r = hiveTableInformer_Informer a f in (NewHiveTableLister (GetIndexer caches (fst r)), snd r))"

definition version_HiveTables :: "access \<Rightarrow> access" where
  "version_HiveTables v = \<lparr>ac_namespace = ac_namespace v, ac_tweak = ac_tweak v\<rparr>"

definition NewFilteredPrestoTableInformer ::
  "('o ObjectMeta_scheme, 'l) rest_client \<Rightarrow> string \<Rightarrow> duration \<Rightarrow> string list \<Rightarrow> tweak option \<Rightarrow> ('o ObjectMeta_scheme, 'l) informer" where
  "NewFilteredPrestoTableInformer client ns resync indexers tw =
     \<lparr>inf_list = (\<lambda>options. prestoTables_List (MeteringV1Client_PrestoTables client ns) (tweaked tw options)),
      inf_watch = (\<lambda>options. prestoTables_Watch (MeteringV1Client_PrestoTables client ns) (tweaked tw options)),
      inf_object = ''PrestoTable'', inf_resync = resync, inf_indexers = indexers\<rparr>"

definition NewPrestoTableInformer ::
  "('o ObjectMeta_scheme, 'l) rest_client \<Rightarrow> string \<Rightarrow> duration \<Rightarrow> string list \<Rightarrow> ('o ObjectMeta_scheme, 'l) informer" where
  "NewPrestoTableInformer client ns resync indexers = NewFilteredPrestoTableInformer client ns resync indexers None"

definition prestoTableInformer_defaultInformer ::
  "access \<Rightarrow> ('o ObjectMeta_scheme, 'l) rest_client \<Rightarrow> duration \<Rightarrow> ('o ObjectMeta_scheme, 'l) informer" where
  "prestoTableInformer_defaultInformer a client resync =
     NewFilteredPrestoTableInformer client (ac_namespace a) resync [NamespaceIndex] (ac_tweak a)"

definition prestoTableInformer_Informer ::
  "access \<Rightarrow> ('o ObjectMeta_scheme, 'l) factory \<Rightarrow> ('o ObjectMeta_scheme, 'l) informer \<times> ('o ObjectMeta_scheme, 'l) factory" where
  "prestoTableInformer_Informer a f = InformerFor ''PrestoTable'' (prestoTableInformer_defaultInformer a) f"

definition prestoTableInformer_Lister ::
  "access \<Rightarrow> (string \<Rightarrow> 'o ObjectMeta_scheme indexer) \<Rightarrow> ('o ObjectMeta_scheme, 'l) factory \<Rightarrow> 'o ObjectMeta_scheme resource_lister \<times> ('o ObjectMeta_scheme, 'l) factory" where
  "prestoTableInformer_Lister a caches f =
     (let r = prestoTableInformer_Informer a f in (NewPrestoTableLister (GetIndexer caches (fst r)), snd r))"

definition version_PrestoTables :: "access \<Rightarrow> access" where
  "version_PrestoTables v = \<lparr>ac_namespace = ac_namespace v, ac_tweak = ac_tweak v\<rparr>"

definition NewFilteredReportInformer ::
  "('o ObjectMeta_scheme, 'l) rest_client \<Rightarrow> string \<Rightarrow> duration \<Rightarrow> string list \<Rightarrow> tweak option \<Rightarrow> ('o ObjectMeta_scheme, 'l) informer" where
  "NewFilteredReportInformer client ns resync indexers tw =
     \<lparr>inf_list = (\<lambda>options. reports_List (MeteringV1Client_Reports client ns) (tweaked tw options)),
      inf_watch = (\<lambda>options. reports_Watch (MeteringV1Client_Reports client ns) (tweaked tw options)),
      inf_object = ''Report'', inf_resync = resync, inf_indexers = indexers\<rparr>"

definition NewReportInformer ::
  "('o ObjectMeta_scheme, 'l) rest_client \<Rightarrow> string \<Rightarrow> duration \<Rightarrow> string list \<Rightarrow> ('o ObjectMeta_scheme, 'l) informer" where
  "NewReportInformer client ns resync indexers = NewFilteredReportInformer client ns resync indexers None"

definition reportInformer_defaultInformer ::
  "access \<Rightarrow> ('o ObjectMeta_scheme, 'l) rest_client \<Rightarrow> duration \<Rightarrow> ('o ObjectMeta_scheme, 'l) informer" where
  "reportInformer_defaultInformer a client resync =
     NewFilteredReportInformer client (ac_namespace a) resync [NamespaceIndex] (ac_tweak a)"

definition reportInformer_Informer ::
  "access \<Rightarrow> ('o ObjectMeta_scheme, 'l) factory \<Rightarrow> ('o ObjectMeta_scheme, 'l) informer \<times> ('o ObjectMeta_scheme, 'l) factory" where
  "reportInformer_Informer a f = InformerFor ''Report'' (reportInformer_defaultInformer a) f"

definition reportInformer_Lister ::
  "access \<Rightarrow> (string \<Rightarrow> 'o ObjectMeta_scheme indexer) \<Rightarrow> ('o ObjectMeta_scheme, 'l) factory \<Rightarrow> 'o ObjectMeta_scheme resource_lister \<times> ('o ObjectMeta_scheme, 'l) factory" where
  "reportInformer_Lister a caches f =
     (let r = reportInformer_Informer a f in (NewReportLister (GetIndexer caches (fst r)), snd r))"

definition version_Reports :: "access \<Rightarrow> access" where
  "version_Reports v = \<lparr>ac_namespace = ac_namespace v, ac_tweak = ac_tweak v\<rparr>"

definition NewFilteredReportDataSourceInformer ::
  "('o ObjectMeta_scheme, 'l) rest_client \<Rightarrow> string \<Rightarrow> duration \<Rightarrow> string list \<Rightarrow> tweak option \<Rightarrow> ('o ObjectMeta_scheme, 'l) informer" where
  "NewFilteredReportDataSourceInformer client ns resync indexers tw =
     \<lparr>inf_list = (\<lambda>options. reportDataSources_List (MeteringV1Client_ReportDataSources client ns) (tweaked tw options)),
      inf_watch = (\<lambda>options. reportDataSources_Watch (MeteringV1Client_ReportDataSources client ns) (tweaked tw options)),
      inf_object = ''ReportDataSource'', inf_resync = resync, inf_indexers = indexers\<rparr>"

definition NewReportDataSourceInformer ::
  "('o ObjectMeta_scheme, 'l) rest_client \<Rightarrow> string \<Rightarrow> duration \<Rightarrow> string list \<Rightarrow> ('o ObjectMeta_scheme, 'l) informer" where
  "NewReportDataSourceInformer client ns resync indexers = NewFilteredReportDataSourceInformer client ns resync indexers None"

definition reportDataSourceInformer_defaultInformer ::
  "access \<Rightarrow> ('o ObjectMeta_scheme, 'l) rest_client \<Rightarrow> duration \<Rightarrow> ('o ObjectMeta_scheme, 'l) informer" where
  "reportDataSourceInformer_defaultInformer a client resync =
     NewFilteredReportDataSourceInformer client (ac_namespace a) resync [NamespaceIndex] (ac_tweak a)"

definition reportDataSourceInformer_Informer ::
  "access \<Rightarrow> ('o ObjectMeta_scheme, 'l) factory \<Rightarrow> ('o ObjectMeta_scheme, 'l) informer \<times> ('o ObjectMeta_scheme, 'l) factory" where
  "reportDataSourceInformer_Informer a f = InformerFor ''ReportDataSource'' (reportDataSourceInformer_defaultInformer a) f"

definition reportDataSourceInformer_Lister ::
  "access \<Rightarrow> (string \<Rightarrow> 'o ObjectMeta_scheme indexer) \<Rightarrow> ('o ObjectMeta_scheme, 'l) factory \<Rightarrow> 'o ObjectMeta_scheme resource_lister \<times> ('o ObjectMeta_scheme, 'l) factory" where
  "reportDataSourceInformer_Lister a caches f =
     (let r = reportDataSourceInformer_Informer a f in (NewReportDataSourceLister (GetIndexer caches (fst r)), snd r))"

definition version_ReportDataSources :: "access \<Rightarrow> access" where
  "version_ReportDataSources v = \<lparr>ac_namespace = ac_namespace v, ac_tweak = ac_tweak v\<rparr>"

definition NewFilteredReportQueryInformer ::
  "('o ObjectMeta_scheme, 'l) rest_client \<Rightarrow> string \<Rightarrow> duration \<Rightarrow> string list \<Rightarrow> tweak option \<Rightarrow> ('o ObjectMeta_scheme, 'l) informer" where
  "NewFilteredReportQueryInformer client ns resync indexers tw =
     \<lparr>inf_list = (\<lambda>options. reportQueries_List (MeteringV1Client_ReportQueries client ns) (tweaked tw options)),
      inf_watch = (\<lambda>options. reportQueries_Watch (MeteringV1Client_ReportQueries client ns) (tweaked tw options)),
      inf_object = ''ReportQuery'', inf_resync = resync, inf_indexers = indexers\<rparr>"

definition NewReportQueryInformer ::
  "('o ObjectMeta_scheme, 'l) rest_client \<Rightarrow> string \<Rightarrow> duration \<Rightarrow> string list \<Rightarrow> ('o ObjectMeta_scheme, 'l) informer" where
  "NewReportQueryInformer client ns resync indexers = NewFilteredReportQueryInformer client ns resync indexers None"

definition reportQueryInformer_defaultInformer ::
  "access \<Rightarrow> ('o ObjectMeta_scheme, 'l) rest_client \<Rightarrow> duration \<Rightarrow> ('o ObjectMeta_scheme, 'l) informer" where
  "reportQueryInformer_defaultInformer a client resync =
     NewFilteredReportQueryInformer client (ac_namespace a) resync [NamespaceIndex] (ac_tweak a)"

definition reportQueryInformer_Informer ::
  "access \<Rightarrow> ('o ObjectMeta_scheme, 'l) factory \<Rightarrow> ('o ObjectMeta_scheme, 'l) informer \<times> ('o ObjectMeta_scheme, 'l) factory" where
  "reportQueryInformer_Informer a f = InformerFor ''ReportQuery'' (reportQueryInformer_defaultInformer a) f"

definition reportQueryInformer_Lister ::
  "access \<Rightarrow> (string \<Rightarrow> 'o ObjectMeta_scheme indexer) \<Rightarrow> ('o ObjectMeta_scheme, 'l) factory \<Rightarrow> 'o ObjectMeta_scheme resource_lister \<times> ('o ObjectMeta_scheme, 'l) factory" where
  "reportQueryInformer_Lister a caches f =
     (let r = reportQueryInformer_Informer a f in (NewReportQueryLister (GetIndexer caches (fst r)), snd r))"

definition version_ReportQueries :: "access \<Rightarrow> access" where
  "version_ReportQueries v = \<lparr>ac_namespace = ac_namespace v, ac_tweak = ac_tweak v\<rparr>"

definition NewFilteredStorageLocationInformer ::
  "('o ObjectMeta_scheme, 'l) rest_client \<Rightarrow> string \<Rightarrow> duration \<Rightarrow> string list \<Rightarrow> tweak option \<Rightarrow> ('o ObjectMeta_scheme, 'l) informer" where
  "NewFilteredStorageLocationInformer client ns resync indexers tw =
     \<lparr>inf_list = (\<lambda>options. storageLocations_List (MeteringV1Client_StorageLocations client ns) (tweaked tw options)),
      inf_watch = (\<lambda>options. storageLocations_Watch (MeteringV1Client_StorageLocations client ns) (tweaked tw options)),
      inf_object = ''StorageLocation'', inf_resync = resync, inf_indexers = indexers\<rparr>"

definition NewStorageLocationInformer ::
  "('o ObjectMeta_scheme, 'l) rest_client \<Rightarrow> string \<Rightarrow> duration \<Rightarrow> string list \<Rightarrow> ('o ObjectMeta_scheme, 'l) informer" where
  "NewStorageLocationInformer client ns resync indexers = NewFilteredStorageLocationInformer client ns resync indexers None"

definition storageLocationInformer_defaultInformer ::
  "access \<Rightarrow> ('o ObjectMeta_scheme, 'l) rest_client \<Rightarrow> duration \<Rightarrow> ('o ObjectMeta_scheme, 'l) informer" where
  "storageLocationInformer_defaultInformer a client resync =
     NewFilteredStorageLocationInformer client (ac_namespace a) resync [NamespaceIndex] (ac_tweak a)"

definition storageLocationInformer_Informer ::
  "access \<Rightarrow> ('o ObjectMeta_scheme, 'l) factory \<Rightarrow> ('o ObjectMeta_scheme, 'l) informer \<times> ('o ObjectMeta_scheme, 'l) factory" where
  "storageLocationInformer_Informer a f = InformerFor ''StorageLocation'' (storageLocationInformer_defaultInformer a) f"

definition storageLocationInformer_Lister ::
  "access \<Rightarrow> (string \<Rightarrow> 'o ObjectMeta_scheme indexer) \<Rightarrow> ('o ObjectMeta_scheme, 'l) factory \<Rightarrow> 'o ObjectMeta_scheme resource_lister \<times> ('o ObjectMeta_scheme, 'l) factory" where
  "storageLocationInformer_Lister a caches f =
     (let r = storageLocationInformer_Informer a f in (NewStorageLocationLister (GetIndexer caches (fst r)), snd r))"

definition version_StorageLocations :: "access \<Rightarrow> access" where
  "version_StorageLocations v = \<lparr>ac_namespace = ac_namespace v, ac_tweak = ac_tweak v\<rparr>"

section \<open>Generic access and the operator's informers\<close>

definition resource_informers ::
  "(string \<times> (('o ObjectMeta_scheme, 'l) factory \<Rightarrow> ('o ObjectMeta_scheme, 'l) informer \<times> ('o ObjectMeta_scheme, 'l) factory)) list" where
  "resource_informers =
     [(''hivetables'', \<lambda>f. hiveTableInformer_Informer (version_HiveTables (factory_V1 f)) f),
      (''prestotables'', \<lambda>f. prestoTableInformer_Informer (version_PrestoTables (factory_V1 f)) f),
      (''reports'', \<lambda>f. reportInformer_Informer (version_Reports (factory_V1 f)) f),
      (''reportdatasources'', \<lambda>f. reportDataSourceInformer_Informer (version_ReportDataSources (factory_V1 f)) f),
      (''reportqueries'', \<lambda>f. reportQueryInformer_Informer (version_ReportQueries (factory_V1 f)) f),
      (''storagelocations'', \<lambda>f. storageLocationInformer_Informer (version_StorageLocations (factory_V1 f)) f)]"

definition ForResource ::
  "string \<times> string \<times> string \<Rightarrow> ('o ObjectMeta_scheme, 'l) factory \<Rightarrow>
   (goerror + ('o ObjectMeta_scheme, 'l) informer) \<times> ('o ObjectMeta_scheme, 'l) factory" where
  "ForResource gvr f =
     (case gvr of (g, v, r) \<Rightarrow>
        if g = GroupName \<and> v = ''v1'' then
          case map_of resource_informers r of
            Some informer \<Rightarrow> (Inr (fst (informer f)), snd (informer f))
          | None \<Rightarrow> (Inl (Err (''no informer found for '' @ r)), f)
        else (Inl (Err (''no informer found for '' @ r)), f))"

definition defaultResyncPeriod :: duration where "defaultResyncPeriod = 15 * 60 * 1000000000"

text \<open>The listers that \<^verbatim>\<open>newReportingOperator\<close> asks the factory for, in its order.\<close>

definition operator_informers :: "(string \<Rightarrow> 'o ObjectMeta_scheme indexer) \<Rightarrow> ('o ObjectMeta_scheme, 'l) rest_client \<Rightarrow> string \<Rightarrow>
    ('o ObjectMeta_scheme, 'l) factory" where
  "operator_informers caches client ns =
     (let f = NewFilteredSharedInformerFactory client defaultResyncPeriod ns None;
          v1 = factory_V1 f;
          prestoTableInformer = version_PrestoTables v1;
          hiveTableInformer = version_HiveTables v1;
          reportDataSourceInformer = version_ReportDataSources v1;
          reportQueryInformer = version_ReportQueries v1;
          reportInformer = version_Reports v1;
          storageLocationInformer = version_StorageLocations v1;
          f = snd (reportQueryInformer_Lister reportQueryInformer caches f);
          f = snd (reportDataSourceInformer_Lister reportDataSourceInformer caches f);
          f = snd (reportInformer_Lister reportInformer caches f);
          f = snd (prestoTableInformer_Lister prestoTableInformer caches f);
          f = snd (hiveTableInformer_Lister hiveTableInformer caches f);
          f = snd (reportDataSourceInformer_Lister reportDataSourceInformer caches f);
          f = snd (reportQueryInformer_Lister reportQueryInformer caches f);
          f = snd (reportInformer_Lister reportInformer caches f)
      in snd (storageLocationInformer_Lister storageLocationInformer caches f))"

section \<open>Calls on a factory\<close>

datatype ('o, 'l) factory_call =
    Request string "('o, 'l) rest_client \<Rightarrow> duration \<Rightarrow> ('o, 'l) informer"
  | StartCall

text \<open>The kinds whose informers a sequence of calls runs, in order.\<close>

fun factory_calls :: "('o, 'l) factory_call list \<Rightarrow> ('o, 'l) factory \<Rightarrow> string list \<times> ('o, 'l) factory" where
  "factory_calls [] f = ([], f)"
| "factory_calls (Request kind new # cs) f = factory_calls cs (snd (InformerFor kind new f))"
| "factory_calls (StartCall # cs) f =
     (let a = factory_Start f; b = factory_calls cs (snd a) in (fst a @ fst b, snd b))"

definition factory_ok :: "('o, 'l) factory \<Rightarrow> bool" where
  "factory_ok f \<longleftrightarrow> distinct (map fst (f_informers f)) \<and> distinct (f_startedInformers f) \<and>
     set (f_startedInformers f) \<subseteq> fst ` set (f_informers f)"

lemma start_loop_spec:
  "set (snd (start_loop is st)) = set st \<union> fst ` set is \<and> (distinct st \<longrightarrow> distinct (snd (start_loop is st))) \<and>
   distinct (fst (start_loop is st)) \<and> set (fst (start_loop is st)) = fst ` set is - set st"
proof (induction "is" arbitrary: st)
  case (Cons i "is")
  show ?case using Cons.IH[of st] Cons.IH[of "fst i # st"] by (auto simp: Let_def)
qed simp

lemma Start_spec:
  "f_informers (snd (factory_Start f)) = f_informers f"
  "set (f_startedInformers (snd (factory_Start f))) = set (f_startedInformers f) \<union> fst ` set (f_informers f)"
  "distinct (fst (factory_Start f))"
  "set (fst (factory_Start f)) = fst ` set (f_informers f) - set (f_startedInformers f)"
  using start_loop_spec[of "f_informers f" "f_startedInformers f"] by (simp_all add: factory_Start_def Let_def)

lemma ok_Start: "factory_ok f \<Longrightarrow> factory_ok (snd (factory_Start f))"
  using start_loop_spec[of "f_informers f" "f_startedInformers f"] by (auto simp: factory_ok_def factory_Start_def Let_def)

lemma InformerFor_spec:
  "f_startedInformers (snd (InformerFor kind new f)) = f_startedInformers f"
  "map_of (f_informers (snd (InformerFor kind new f))) =
     (if kind \<in> dom (map_of (f_informers f)) then map_of (f_informers f)
      else (map_of (f_informers f))(kind \<mapsto> fst (InformerFor kind new f)))"
  "fst ` set (f_informers (snd (InformerFor kind new f))) = insert kind (fst ` set (f_informers f))"
  "map_of (f_informers f) kind = Some i \<Longrightarrow> InformerFor kind new f = (i, f)"
proof -
  show "fst ` set (f_informers (snd (InformerFor kind new f))) = insert kind (fst ` set (f_informers f))"
    using domI[of "map_of (f_informers f)" kind]
    by (cases "map_of (f_informers f) kind") (auto simp: InformerFor_def Let_def dom_map_of_conv_image_fst)
qed (auto simp: InformerFor_def Let_def split: option.splits)

lemma ok_InformerFor: "factory_ok f \<Longrightarrow> factory_ok (snd (InformerFor kind new f))"
  by (auto simp: factory_ok_def InformerFor_def Let_def split: option.splits)

lemma ok_calls: "factory_ok f \<Longrightarrow> factory_ok (snd (factory_calls cs f))"
proof (induction cs arbitrary: f)
  case (Cons c cs)
  then show ?case by (cases c) (simp_all add: ok_InformerFor ok_Start Let_def)
qed simp

text \<open>What calls run was not started before and is started after; nothing is unstarted.\<close>

lemma calls_run:
  "factory_ok f \<Longrightarrow> distinct (fst (factory_calls cs f)) \<and>
   set (f_startedInformers (snd (factory_calls cs f))) = set (f_startedInformers f) \<union> set (fst (factory_calls cs f)) \<and>
   set (fst (factory_calls cs f)) \<inter> set (f_startedInformers f) = {}"
proof (induction cs arbitrary: f)
  case (Cons c cs)
  show ?case
  proof (cases c)
    case (Request kind new)
    then show ?thesis using Cons.IH[OF ok_InformerFor[OF Cons.prems, of kind new]] by (simp add: InformerFor_spec(1))
  next
    case StartCall
    show ?thesis
      using Cons.IH[OF ok_Start[OF Cons.prems]] Start_spec[of f] Cons.prems StartCall
      by (auto simp: Let_def factory_ok_def)
  qed
qed simp

lemma calls_append:
  "factory_calls (cs @ cs') f =
     (fst (factory_calls cs f) @ fst (factory_calls cs' (snd (factory_calls cs f))), snd (factory_calls cs' (snd (factory_calls cs f))))"
proof (induction cs arbitrary: f)
  case (Cons c cs)
  then show ?case by (cases c) (simp_all add: Let_def)
qed simp

lemma calls_keep: "map_of (f_informers f) kind = Some i \<Longrightarrow> map_of (f_informers (snd (factory_calls cs f))) kind = Some i"
proof (induction cs arbitrary: f)
  case (Cons c cs)
  show ?case
  proof (cases c)
    case (Request k new)
    have "map_of (f_informers (snd (InformerFor k new f))) kind = Some i"
      using Cons.prems by (cases "kind = k") (auto simp: InformerFor_spec(2) dom_def)
    then show ?thesis using Cons.IH Request by simp
  next
    case StartCall
    then show ?thesis using Cons.IH[of "snd (factory_Start f)"] Cons.prems by (simp add: Let_def Start_spec(1))
  qed
qed simp

lemma new_factory:
  "f_informers (NewFilteredSharedInformerFactory client resync ns tw) = []"
  "f_startedInformers (NewFilteredSharedInformerFactory client resync ns tw) = []"
  "factory_ok (NewFilteredSharedInformerFactory client resync ns tw)"
  by (simp_all add: NewFilteredSharedInformerFactory_def NewSharedInformerFactoryWithOptions_def WithNamespace_def
      WithTweakListOptions_def factory_ok_def)



section \<open>The operator's factory\<close>

definition kind_resources :: "(string \<times> string) list" where
  "kind_resources =
     [(''ReportQuery'', ''reportqueries''), (''ReportDataSource'', ''reportdatasources''), (''Report'', ''reports''),
      (''PrestoTable'', ''prestotables''), (''HiveTable'', ''hivetables''), (''StorageLocation'', ''storagelocations'')]"

lemma operator_informers_eq:
  "operator_informers caches client ns =
     (let a = \<lparr>ac_namespace = ns, ac_tweak = None\<rparr>; d = defaultResyncPeriod
      in (NewFilteredSharedInformerFactory client d ns None)\<lparr>f_informers :=
           [(''ReportQuery'', reportQueryInformer_defaultInformer a client d),
            (''ReportDataSource'', reportDataSourceInformer_defaultInformer a client d),
            (''Report'', reportInformer_defaultInformer a client d),
            (''PrestoTable'', prestoTableInformer_defaultInformer a client d),
            (''HiveTable'', hiveTableInformer_defaultInformer a client d),
            (''StorageLocation'', storageLocationInformer_defaultInformer a client d)]\<rparr>)"
  unfolding operator_informers_def Let_def
  by (simp add: NewFilteredSharedInformerFactory_def NewSharedInformerFactoryWithOptions_def WithNamespace_def WithTweakListOptions_def
      factory_V1_def factory_Metering_def group_V1_def version_HiveTables_def version_PrestoTables_def version_Reports_def version_ReportDataSources_def version_ReportQueries_def version_StorageLocations_def
      reportQueryInformer_Lister_def reportDataSourceInformer_Lister_def reportInformer_Lister_def prestoTableInformer_Lister_def
      hiveTableInformer_Lister_def storageLocationInformer_Lister_def hiveTableInformer_Informer_def prestoTableInformer_Informer_def reportInformer_Informer_def reportDataSourceInformer_Informer_def reportQueryInformer_Informer_def storageLocationInformer_Informer_def
      InformerFor_def Let_def map_set_def)

text \<open>
  C24: The factory of the operator is what its run assumes: it has exactly the six kinds, \<^verbatim>\<open>Start\<close> runs all of them, and \<^verbatim>\<open>WaitForCacheSync\<close> waits
  for all of them when it comes after \<^verbatim>\<open>Start\<close> but for none when it comes first, as it may, because \<^verbatim>\<open>Run\<close> calls \<^verbatim>\<open>Start\<close> in a goroutine
  of its own.
\<close>

theorem operator_factory_refines_run:
  "fst ` set (f_informers (operator_informers caches client ns)) = set informer_kinds \<and>
   set (fst (factory_Start (operator_informers caches client ns))) = set informer_kinds \<and>
   factory_WaitForCacheSync synced (operator_informers caches client ns) = [] \<and>
   fst ` set (factory_WaitForCacheSync synced (snd (factory_Start (operator_informers caches client ns)))) = set informer_kinds"
proof -
  define f where "f = operator_informers caches client ns"
  have i: "fst ` set (f_informers f) = set informer_kinds"
    by (auto simp: f_def operator_informers_eq Let_def informer_kinds_def)
  have s: "f_startedInformers f = []" by (simp add: f_def operator_informers_eq Let_def new_factory)
  have "sync_snapshot (snd (factory_Start f)) = f_informers f"
    using Start_spec(1,2)[of f] by (simp add: sync_snapshot_def filter_id_conv)
  then have "fst ` set (factory_WaitForCacheSync synced (snd (factory_Start f))) = fst ` set (f_informers f)"
    by (simp add: factory_WaitForCacheSync_def image_image)
  then show ?thesis unfolding f_def[symmetric] using i s Start_spec(4)[of f]
    by (simp add: factory_WaitForCacheSync_def sync_snapshot_def)
qed

lemma resources_client:
  assumes "(kind, res) \<in> set kind_resources" "map_of (f_informers (operator_informers caches client ns)) kind = Some i"
    "cl_base client = ''/''"
  shows "inf_object i = kind" "inf_indexers i = [NamespaceIndex]"
    "set (fst (inf_list i options)) \<subseteq> to_collection ''GET'' res ns" "set (fst (inf_watch i options)) \<subseteq> to_collection ''GET'' res ns"
proof -
  define c where "c = \<lparr>rc_client = client, rc_ns = ns\<rparr>"
  have b: "cl_base (rc_client c) = ''/''" "rc_ns c = ns" using assms(3) by (simp_all add: c_def)
  note defs = NewFilteredReportQueryInformer_def NewFilteredReportDataSourceInformer_def NewFilteredReportInformer_def
    NewFilteredPrestoTableInformer_def NewFilteredHiveTableInformer_def NewFilteredStorageLocationInformer_def
    reportQueryInformer_defaultInformer_def reportDataSourceInformer_defaultInformer_def reportInformer_defaultInformer_def
    prestoTableInformer_defaultInformer_def hiveTableInformer_defaultInformer_def storageLocationInformer_defaultInformer_def
    MeteringV1Client_ReportQueries_def MeteringV1Client_ReportDataSources_def MeteringV1Client_Reports_def
    MeteringV1Client_PrestoTables_def MeteringV1Client_HiveTables_def MeteringV1Client_StorageLocations_def
    newReportQueries_def newReportDataSources_def newReports_def newPrestoTables_def newHiveTables_def newStorageLocations_def
    tweaked_def c_def[symmetric]
  note ops = reportQueries_ops_def reportDataSources_ops_def reports_ops_def prestoTables_ops_def hiveTables_ops_def
    storageLocations_ops_def
  note l = reportQueries_client.collection_requests(2)[OF b(1), of options] reportDataSources_client.collection_requests(2)[OF b(1), of options]
    reports_client.collection_requests(2)[OF b(1), of options] prestoTables_client.collection_requests(2)[OF b(1), of options]
    hiveTables_client.collection_requests(2)[OF b(1), of options] storageLocations_client.collection_requests(2)[OF b(1), of options]
  note w = reportQueries_client.collection_requests(3)[OF b(1), of options] reportDataSources_client.collection_requests(3)[OF b(1), of options]
    reports_client.collection_requests(3)[OF b(1), of options] prestoTables_client.collection_requests(3)[OF b(1), of options]
    hiveTables_client.collection_requests(3)[OF b(1), of options] storageLocations_client.collection_requests(3)[OF b(1), of options]
  show "inf_object i = kind" "inf_indexers i = [NamespaceIndex]"
    using assms(1,2) by (auto simp: kind_resources_def operator_informers_eq Let_def defs split: if_splits)
  show "set (fst (inf_list i options)) \<subseteq> to_collection ''GET'' res ns"
    using assms(1,2) l by (auto simp: kind_resources_def operator_informers_eq Let_def defs ops b split: if_splits simp del: subset_iff)
  show "set (fst (inf_watch i options)) \<subseteq> to_collection ''GET'' res ns"
    using assms(1,2) w by (auto simp: kind_resources_def operator_informers_eq Let_def defs ops b split: if_splits)
qed

text \<open>
  The informers of the operator watch the resource of their kind in the informer namespace and nothing else: every request of
  the informer of a kind, to list or to watch and with any options, is a GET of the collection of its resource in that namespace.
\<close>

theorem informers_watch_their_resource:
  assumes "(kind, res) \<in> set kind_resources" "cl_base client = ''/''"
  shows "\<exists>i. map_of (f_informers (operator_informers caches client ns)) kind = Some i \<and> inf_object i = kind \<and>
    inf_indexers i = [NamespaceIndex] \<and>
    set (fst (inf_list i options)) \<subseteq> to_collection ''GET'' res ns \<and> set (fst (inf_watch i options)) \<subseteq> to_collection ''GET'' res ns"
proof -
  have "\<exists>i. map_of (f_informers (operator_informers caches client ns)) kind = Some i"
    using assms(1) by (auto simp: kind_resources_def operator_informers_eq Let_def)
  then show ?thesis using resources_client[OF assms(1) _ assms(2)] by metis
qed

theorem informers_watch_their_resource_witness:
  "\<exists>i. map_of (f_informers (operator_informers (\<lambda>_. new_indexer True) (rc_client sample_client) ''ns'')) ''Report'' = Some i \<and>
     set (fst (inf_list i thirty_seconds)) \<subseteq> to_collection ''GET'' ''reports'' ''ns''"
  using informers_watch_their_resource[of "''Report''" "''reports''" "rc_client sample_client" "\<lambda>_. new_indexer True" "''ns''" thirty_seconds]
  by (auto simp: kind_resources_def sample_reports)

end
