(* ===== verification/Metrics.thy ===== *)
theory Metrics
  imports Hive_Tables Http_Writers
begin

text \<open>
  The metrics of the operator: the declarations in \<^verbatim>\<open>promsum.go\<close>, \<^verbatim>\<open>reports.go\<close> and \<^verbatim>\<open>hivetables.go\<close>, the middleware of the HTTP API
  (\<^verbatim>\<open>pkg/util/chiprometheus\<close>) and the adapters of the reflectors and work queues (\<^verbatim>\<open>pkg/util/reflector\<close>, \<^verbatim>\<open>pkg/util/workqueue\<close>), over the
  registry of the Prometheus client library. Registering a metric twice, or under a name that is taken or not valid, panics in \<^verbatim>\<open>MustRegister\<close>, and
  so does asking a metric for a series with labels it does not declare.
\<close>

section \<open>Metrics and their registry\<close>

datatype metric_kind = CounterKind | GaugeKind | HistogramKind | SummaryKind

record metric =
  m_kind :: metric_kind
  m_fqName :: string
  m_help :: string
  m_labels :: "string list"
  m_const :: "(string \<times> string) list"
  m_buckets :: "int list"

definition BuildFQName :: "string \<Rightarrow> string \<Rightarrow> string \<Rightarrow> string" where
  "BuildFQName ns subsystem name =
     (if name = [] then []
      else if ns \<noteq> [] \<and> subsystem \<noteq> [] then join ''_'' [ns, subsystem, name]
      else if ns \<noteq> [] then join ''_'' [ns, name]
      else if subsystem \<noteq> [] then join ''_'' [subsystem, name]
      else name)"

definition new_metric ::
  "metric_kind \<Rightarrow> string \<Rightarrow> string \<Rightarrow> string \<Rightarrow> string \<Rightarrow> string list \<Rightarrow> (string \<times> string) list \<Rightarrow> int list \<Rightarrow> metric" where
  "new_metric k ns subsystem name help labels consts buckets =
     \<lparr>m_kind = k, m_fqName = BuildFQName ns subsystem name, m_help = help, m_labels = labels, m_const = consts, m_buckets = buckets\<rparr>"

definition letter :: "char \<Rightarrow> bool" where
  "letter c \<longleftrightarrow> (of_char c :: nat) \<in> {97..122} \<union> {65..90} \<or> c = CHR ''_''"

definition digit :: "char \<Rightarrow> bool" where
  "digit c \<longleftrightarrow> (of_char c :: nat) \<in> {48..57}"

definition IsValidMetricName :: "string \<Rightarrow> bool" where
  "IsValidMetricName n \<longleftrightarrow>
     n \<noteq> [] \<and> (letter (hd n) \<or> hd n = CHR '':'') \<and> list_all (\<lambda>c. letter c \<or> c = CHR '':'' \<or> digit c) (tl n)"

definition checkLabelName :: "string \<Rightarrow> bool" where
  "checkLabelName n \<longleftrightarrow> n \<noteq> [] \<and> letter (hd n) \<and> list_all (\<lambda>c. letter c \<or> digit c) (tl n) \<and> \<not> HasPrefix n ''__''"

definition desc_error :: "metric \<Rightarrow> string option" where
  "desc_error m =
     (if m_help m = [] then Some ''empty help string''
      else if \<not> IsValidMetricName (m_fqName m) then Some (m_fqName m @ '' is not a valid metric name'')
      else if \<not> list_all checkLabelName (map fst (m_const m) @ m_labels m) then Some ''not a valid label name''
      else if \<not> distinct (map fst (m_const m) @ m_labels m) then Some ''duplicate label names''
      else None)"

text \<open>The hashes of the library are taken to be the values they are computed from; the label names are hashed in sorted order.\<close>

record registry =
  reg_ids :: "(string \<times> (string \<times> string) list) list"
  reg_dims :: "(string \<times> string list) gomap"

definition empty_registry :: registry where "empty_registry = \<lparr>reg_ids = [], reg_dims = []\<rparr>"

definition metric_dim :: "metric \<Rightarrow> string \<times> string list" where
  "metric_dim m = (m_help m, map fst (m_const m) @ map (\<lambda>l. CHR ''$'' # l) (m_labels m))"

definition Register :: "registry \<Rightarrow> metric \<Rightarrow> goerror option \<times> registry" where
  "Register r m =
     (case desc_error m of
        Some e \<Rightarrow> (Some (Err e), r)
      | None \<Rightarrow>
          (case map_of (reg_dims r) (m_fqName m) of
             Some d \<Rightarrow>
               if d \<noteq> metric_dim m then (Some (Err ''different label names or a different help string''), r)
               else if (m_fqName m, m_const m) \<in> set (reg_ids r) then (Some (Err ''already registered''), r)
               else (None, r\<lparr>reg_ids := (m_fqName m, m_const m) # reg_ids r\<rparr>)
           | None \<Rightarrow>
               if (m_fqName m, m_const m) \<in> set (reg_ids r) then (Some (Err ''already registered''), r)
               else (None, r\<lparr>reg_ids := (m_fqName m, m_const m) # reg_ids r,
                             reg_dims := map_set (m_fqName m) (metric_dim m) (reg_dims r)\<rparr>)))"

definition MustRegister :: "metric \<Rightarrow> goerror + registry \<Rightarrow> goerror + registry" where
  "MustRegister m r =
     (case r of
        Inl e \<Rightarrow> Inl e
      | Inr r \<Rightarrow> (case Register r m of (None, r') \<Rightarrow> Inr r' | (Some e, r') \<Rightarrow> Inl (GoPanic ''MustRegister'')))"

text \<open>A series of a metric is known by the metric's name and the values of its labels.\<close>

type_synonym series = "string \<times> (string \<times> string) list"

definition With :: "metric \<Rightarrow> string gomap \<Rightarrow> goerror + series" where
  "With m labels =
     (if length labels = length (m_labels m) \<and> list_all (\<lambda>l. l \<in> fst ` set labels) (m_labels m)
      then Inr (m_fqName m, map (\<lambda>l. (l, map_get [] labels l)) (m_labels m))
      else Inl (GoPanic ''inconsistent label cardinality''))"

definition WithLabelValues :: "metric \<Rightarrow> string list \<Rightarrow> goerror + series" where
  "WithLabelValues m lvs =
     (if length lvs = length (m_labels m) then Inr (m_fqName m, zip (m_labels m) lvs)
      else Inl (GoPanic ''inconsistent label cardinality''))"

section \<open>The metrics of the operator\<close>

definition prometheusMetricNamespace :: string where "prometheusMetricNamespace = ''metering''"

definition prometheusReportDatasourceLabels :: "string list" where
  "prometheusReportDatasourceLabels = [''reportdatasource'', ''namespace'', ''table_name'']"

definition reportPrometheusMetricLabels :: "string list" where
  "reportPrometheusMetricLabels = [''report'', ''namespace'', ''reportquery'', ''table_name'']"

definition reflectorSubsystem :: string where "reflectorSubsystem = ''reflector''"

definition prometheusReportDatasourceMetricsScrapedCounter :: metric where
  "prometheusReportDatasourceMetricsScrapedCounter =
     new_metric CounterKind prometheusMetricNamespace [] ''prometheus_reportdatasource_metrics_scraped_total''
       ''Number of Prometheus metrics returned by a PrometheusQuery for a ReportDataSource.'' prometheusReportDatasourceLabels [] []"

definition prometheusReportDatasourceMetricsImportedCounter :: metric where
  "prometheusReportDatasourceMetricsImportedCounter =
     new_metric CounterKind prometheusMetricNamespace [] ''prometheus_reportdatasource_metrics_imported_total''
       ''Number of Prometheus ReportDatasource metrics imported.'' prometheusReportDatasourceLabels [] []"

definition prometheusReportDatasourceTotalImportsCounter :: metric where
  "prometheusReportDatasourceTotalImportsCounter =
     new_metric CounterKind prometheusMetricNamespace [] ''prometheus_reportdatasource_imports_total''
       ''Number of Prometheus ReportDatasource metrics imports.'' prometheusReportDatasourceLabels [] []"

definition prometheusReportDatasourceFailedImportsCounter :: metric where
  "prometheusReportDatasourceFailedImportsCounter =
     new_metric CounterKind prometheusMetricNamespace [] ''prometheus_reportdatasource_failed_imports_total''
       ''Number of failed Prometheus ReportDatasource metrics imports.'' prometheusReportDatasourceLabels [] []"

definition prometheusReportDatasourceTotalPrometheusQueriesCounter :: metric where
  "prometheusReportDatasourceTotalPrometheusQueriesCounter =
     new_metric CounterKind prometheusMetricNamespace [] ''prometheus_reportdatasource_prometheus_queries_total''
       ''Number of Prometheus ReportDatasource Prometheus queries made for the ReportDataSource since start up.'' prometheusReportDatasourceLabels [] []"

definition prometheusReportDatasourceFailedPrometheusQueriesCounter :: metric where
  "prometheusReportDatasourceFailedPrometheusQueriesCounter =
     new_metric CounterKind prometheusMetricNamespace [] ''prometheus_reportdatasource_failed_prometheus_queries_total''
       ''Number of failed Prometheus ReportDatasource Prometheus queries made for the ReportDataSource since start up.'' prometheusReportDatasourceLabels [] []"

definition prometheusReportDatasourceTotalPrestoStoresCounter :: metric where
  "prometheusReportDatasourceTotalPrestoStoresCounter =
     new_metric CounterKind prometheusMetricNamespace [] ''prometheus_reportdatasource_presto_stores_total''
       ''Number of Prometheus ReportDatasource calls to store all metrics collected into Presto.'' prometheusReportDatasourceLabels [] []"

definition prometheusReportDatasourceFailedPrestoStoresCounter :: metric where
  "prometheusReportDatasourceFailedPrestoStoresCounter =
     new_metric CounterKind prometheusMetricNamespace [] ''prometheus_reportdatasource_failed_presto_stores_total''
       ''Number of failed Prometheus ReportDatasource calls to store all metrics collected into Presto.'' prometheusReportDatasourceLabels [] []"

definition prometheusReportDatasourceImportDurationHistogram :: metric where
  "prometheusReportDatasourceImportDurationHistogram =
     new_metric HistogramKind prometheusMetricNamespace [] ''prometheus_reportdatasource_import_duration_seconds''
       ''Duration to import Prometheus metrics into Presto.'' prometheusReportDatasourceLabels [] [30, 60, 300]"

definition prometheusReportDatasourcePrometheusQueryDurationHistogram :: metric where
  "prometheusReportDatasourcePrometheusQueryDurationHistogram =
     new_metric HistogramKind prometheusMetricNamespace [] ''prometheus_reportdatasource_prometheus_query_duration_seconds''
       ''Duration for a Prometheus query to return metrics to reporting-operator.'' prometheusReportDatasourceLabels [] [2, 10, 30, 60]"

definition prometheusReportDatasourcePrestoreStoreDurationHistogram :: metric where
  "prometheusReportDatasourcePrestoreStoreDurationHistogram =
     new_metric HistogramKind prometheusMetricNamespace [] ''prometheus_reportdatasource_presto_store_duration_seconds''
       ''Duration to store all metrics fetched into Presto.'' prometheusReportDatasourceLabels [] [2, 10, 30, 60, 300]"

definition prometheusReportDatasourceRunningImportsGauge :: metric where
  "prometheusReportDatasourceRunningImportsGauge =
     new_metric GaugeKind prometheusMetricNamespace [] ''prometheus_reportdatasource_running_imports''
       ''Number of Prometheus ReportDatasource imports currently running.'' [] [] []"

definition generateReportTotalCounter :: metric where
  "generateReportTotalCounter =
     new_metric CounterKind prometheusMetricNamespace [] ''generate_reports_total''
       ''Duration to generate a Report.'' reportPrometheusMetricLabels [] []"

definition generateReportFailedCounter :: metric where
  "generateReportFailedCounter =
     new_metric CounterKind prometheusMetricNamespace [] ''generate_reports_failed_total''
       ''Duration to generate a Report.'' reportPrometheusMetricLabels [] []"

definition generateReportDurationHistogram :: metric where
  "generateReportDurationHistogram =
     new_metric HistogramKind prometheusMetricNamespace [] ''generate_report_duration_seconds''
       ''Duration to generate a Report.'' reportPrometheusMetricLabels [] [60, 300, 600]"

definition hiveTablePartitionsGauge :: metric where
  "hiveTablePartitionsGauge =
     new_metric GaugeKind ''metering'' [] ''table_partitions''
       ''Current number of partitions in a HiveTable.'' [''table_name''] [] []"

definition listsTotal :: metric where
  "listsTotal =
     new_metric CounterKind [] reflectorSubsystem ''lists_total''
       ''Total number of API lists done by the reflectors'' [''name''] [] []"

definition listsDuration :: metric where
  "listsDuration =
     new_metric SummaryKind [] reflectorSubsystem ''list_duration_seconds''
       ''How long an API list takes to return and decode for the reflectors'' [''name''] [] []"

definition itemsPerList :: metric where
  "itemsPerList =
     new_metric SummaryKind [] reflectorSubsystem ''items_per_list''
       ''How many items an API list returns to the reflectors'' [''name''] [] []"

definition watchesTotal :: metric where
  "watchesTotal =
     new_metric CounterKind [] reflectorSubsystem ''watches_total''
       ''Total number of API watches done by the reflectors'' [''name''] [] []"

definition shortWatchesTotal :: metric where
  "shortWatchesTotal =
     new_metric CounterKind [] reflectorSubsystem ''short_watches_total''
       ''Total number of short API watches done by the reflectors'' [''name''] [] []"

definition watchDuration :: metric where
  "watchDuration =
     new_metric SummaryKind [] reflectorSubsystem ''watch_duration_seconds''
       ''How long an API watch takes to return and decode for the reflectors'' [''name''] [] []"

definition itemsPerWatch :: metric where
  "itemsPerWatch =
     new_metric SummaryKind [] reflectorSubsystem ''items_per_watch''
       ''How many items an API watch returns to the reflectors'' [''name''] [] []"

definition lastResourceVersion :: metric where
  "lastResourceVersion =
     new_metric GaugeKind [] reflectorSubsystem ''last_resource_version''
       ''Last resource version seen for the reflectors'' [''name''] [] []"

section \<open>Registration\<close>

definition promsum_init :: "metric list" where
  "promsum_init =
     [prometheusReportDatasourceMetricsScrapedCounter,
      prometheusReportDatasourceMetricsImportedCounter,
      prometheusReportDatasourceTotalImportsCounter,
      prometheusReportDatasourceFailedImportsCounter,
      prometheusReportDatasourceTotalPrometheusQueriesCounter,
      prometheusReportDatasourceFailedPrometheusQueriesCounter,
      prometheusReportDatasourceTotalPrestoStoresCounter,
      prometheusReportDatasourceFailedPrestoStoresCounter,
      prometheusReportDatasourceImportDurationHistogram,
      prometheusReportDatasourcePrometheusQueryDurationHistogram,
      prometheusReportDatasourcePrestoreStoreDurationHistogram,
      prometheusReportDatasourceRunningImportsGauge]"

definition reports_init :: "metric list" where
  "reports_init = [generateReportFailedCounter, generateReportTotalCounter, generateReportDurationHistogram]"

definition hivetables_init :: "metric list" where
  "hivetables_init = [hiveTablePartitionsGauge]"

definition reflector_init :: "metric list" where
  "reflector_init =
     [listsTotal, listsDuration, itemsPerList, watchesTotal, shortWatchesTotal, watchDuration, itemsPerWatch, lastResourceVersion]"

record Middleware =
  mw_reqs :: metric
  mw_latency :: metric

definition NewMiddleware :: "string \<Rightarrow> int list \<Rightarrow> Middleware" where
  "NewMiddleware name buckets =
     \<lparr>mw_reqs = new_metric CounterKind [] [] (replace_char (CHR ''-'') (CHR ''_'') (name @ ''_requests_total''))
        ''How many HTTP requests processed, partitioned by status code, method and HTTP path.''
        [''code'', ''method'', ''path''] [(''service'', name)] [],
      mw_latency = new_metric HistogramKind [] [] (replace_char (CHR ''-'') (CHR ''_'') (name @ ''_request_duration_milliseconds''))
        ''How long it took to process the request, partitioned by status code, method and HTTP path.''
        [''code'', ''method'', ''path''] [(''service'', name)] (if buckets = [] then [300, 1200, 5000] else buckets)\<rparr>"

definition prometheusMiddleware :: Middleware where
  "prometheusMiddleware = NewMiddleware ''reporting-operator'' []"

definition wq_NewDepthMetric :: "string \<Rightarrow> metric" where
  "wq_NewDepthMetric name =
     new_metric GaugeKind [] name ''depth''
       (''Current depth of workqueue: '' @ name) [] [] []"

definition wq_NewAddsMetric :: "string \<Rightarrow> metric" where
  "wq_NewAddsMetric name =
     new_metric CounterKind [] name ''adds''
       (''Total number of adds handled by workqueue: '' @ name) [] [] []"

definition wq_NewLatencyMetric :: "string \<Rightarrow> metric" where
  "wq_NewLatencyMetric name =
     new_metric SummaryKind [] name ''queue_latency''
       (''How long an item stays in workqueue'' @ name @ '' before being requested.'') [] [] []"

definition wq_NewWorkDurationMetric :: "string \<Rightarrow> metric" where
  "wq_NewWorkDurationMetric name =
     new_metric SummaryKind [] name ''work_duration''
       (''How long processing an item from workqueue'' @ name @ '' takes.'') [] [] []"

definition wq_NewUnfinishedWorkSecondsMetric :: "string \<Rightarrow> metric" where
  "wq_NewUnfinishedWorkSecondsMetric name =
     new_metric GaugeKind [] name ''unfinished_work_seconds''
       (''How many seconds of work '' @ name @ '' has done that '' @ ''is in progress and hasn'' @ [CHR 0x27] @ ''t been observed by work_duration. Large '' @
       ''values indicate stuck threads. One can deduce the number of stuck '' @ ''threads by observing the rate at which this increases.'') [] [] []"

definition wq_NewLongestRunningProcessorMicrosecondsMetric :: "string \<Rightarrow> metric" where
  "wq_NewLongestRunningProcessorMicrosecondsMetric name =
     new_metric GaugeKind [] name ''longest_running_processor_microseconds''
       (''How many microseconds has the longest running '' @ ''processor for '' @ name @ '' been running.'') [] [] []"

definition wq_NewRetriesMetric :: "string \<Rightarrow> metric" where
  "wq_NewRetriesMetric name =
     new_metric CounterKind [] name ''retries''
       (''Total number of retries handled by workqueue: '' @ name) [] [] []"

text \<open>The metrics that client-go asks for when a named queue is made; the provider ignores the errors of their registration.\<close>

definition queue_metrics :: "string \<Rightarrow> metric list" where
  "queue_metrics name =
     map (\<lambda>new. new name)
       [wq_NewDepthMetric, wq_NewAddsMetric, wq_NewLatencyMetric, wq_NewWorkDurationMetric, wq_NewUnfinishedWorkSecondsMetric,
        wq_NewLongestRunningProcessorMicrosecondsMetric, wq_NewRetriesMetric]"

definition queue_names :: "string list" where
  "queue_names = [''reports'', ''reportdatasources'', ''reportqueries'', ''prestotables'', ''hivetables'', ''storagelocation'']"

section \<open>Series\<close>

definition reflector_NewListsMetric :: "string \<Rightarrow> goerror + series" where
  "reflector_NewListsMetric name = WithLabelValues listsTotal [name]"

definition reflector_NewListDurationMetric :: "string \<Rightarrow> goerror + series" where
  "reflector_NewListDurationMetric name = WithLabelValues listsDuration [name]"

definition reflector_NewItemsInListMetric :: "string \<Rightarrow> goerror + series" where
  "reflector_NewItemsInListMetric name = WithLabelValues itemsPerList [name]"

definition reflector_NewWatchesMetric :: "string \<Rightarrow> goerror + series" where
  "reflector_NewWatchesMetric name = WithLabelValues watchesTotal [name]"

definition reflector_NewShortWatchesMetric :: "string \<Rightarrow> goerror + series" where
  "reflector_NewShortWatchesMetric name = WithLabelValues shortWatchesTotal [name]"

definition reflector_NewWatchDurationMetric :: "string \<Rightarrow> goerror + series" where
  "reflector_NewWatchDurationMetric name = WithLabelValues watchDuration [name]"

definition reflector_NewItemsInWatchMetric :: "string \<Rightarrow> goerror + series" where
  "reflector_NewItemsInWatchMetric name = WithLabelValues itemsPerWatch [name]"

definition reflector_NewLastResourceVersionMetric :: "string \<Rightarrow> goerror + series" where
  "reflector_NewLastResourceVersionMetric name = WithLabelValues lastResourceVersion [name]"

text \<open>The middleware counts a request under the status its handler sent, 0 when it sent none, and observes its latency with the same labels.\<close>

definition Middleware_handler :: "Middleware \<Rightarrow> response_writer \<Rightarrow> string \<Rightarrow> string \<Rightarrow> (goerror + series) list" where
  "Middleware_handler c ww method path =
     (let status = (case rw_sent ww of None \<Rightarrow> 0 | Some s \<Rightarrow> fst s)
      in [WithLabelValues (mw_reqs c) [show_int status, method, path], WithLabelValues (mw_latency c) [show_int status, method, path]])"

text \<open>The collectors of an importer, as the list of the series they are.\<close>

definition newPromImporterMetricsCollectors :: "ReportDataSource \<Rightarrow> string \<Rightarrow> (goerror + series) list" where
  "newPromImporterMetricsCollectors ds tableName =
     (let promLabels = [(''reportdatasource'', Name ds), (''namespace'', Namespace ds), (''table_name'', tableName)]
      in map (\<lambda>m. With m promLabels)
        [prometheusReportDatasourceTotalImportsCounter, prometheusReportDatasourceFailedImportsCounter,
         prometheusReportDatasourceTotalPrometheusQueriesCounter, prometheusReportDatasourceFailedPrometheusQueriesCounter,
         prometheusReportDatasourceTotalPrestoStoresCounter, prometheusReportDatasourceFailedPrestoStoresCounter,
         prometheusReportDatasourceMetricsScrapedCounter, prometheusReportDatasourcePrometheusQueryDurationHistogram,
         prometheusReportDatasourceMetricsImportedCounter, prometheusReportDatasourceImportDurationHistogram,
         prometheusReportDatasourcePrestoreStoreDurationHistogram])"

definition report_series :: "Report \<Rightarrow> string \<Rightarrow> (goerror + series) list" where
  "report_series report tableName =
     (let metricLabels = [(''report'', Name report), (''namespace'', Namespace report), (''reportquery'', rspec_QueryName (r_Spec report)),
                          (''table_name'', tableName)]
      in map (\<lambda>m. With m metricLabels) [generateReportTotalCounter, generateReportFailedCounter, generateReportDurationHistogram])"

definition partition_series :: "string \<Rightarrow> goerror + series" where
  "partition_series tableName = WithLabelValues hiveTablePartitionsGauge [tableName]"

text \<open>What a sequence of \<^verbatim>\<open>Register\<close> calls answers.\<close>

fun register_all :: "registry \<Rightarrow> metric list \<Rightarrow> goerror option list \<times> registry" where
  "register_all r [] = ([], r)"
| "register_all r (m # ms) = (let a = Register r m; b = register_all (snd a) ms in (fst a # fst b, snd b))"

section \<open>Lemmas\<close>

definition startup_metrics :: "metric list" where
  "startup_metrics =
     promsum_init @ reports_init @ hivetables_init @ reflector_init @ [mw_reqs prometheusMiddleware, mw_latency prometheusMiddleware]"

definition all_queue_metrics :: "metric list" where
  "all_queue_metrics = concat (map queue_metrics queue_names)"

lemmas metric_defs =
  prometheusReportDatasourceMetricsScrapedCounter_def
  prometheusReportDatasourceMetricsImportedCounter_def
  prometheusReportDatasourceTotalImportsCounter_def
  prometheusReportDatasourceFailedImportsCounter_def
  prometheusReportDatasourceTotalPrometheusQueriesCounter_def
  prometheusReportDatasourceFailedPrometheusQueriesCounter_def
  prometheusReportDatasourceTotalPrestoStoresCounter_def
  prometheusReportDatasourceFailedPrestoStoresCounter_def
  prometheusReportDatasourceImportDurationHistogram_def
  prometheusReportDatasourcePrometheusQueryDurationHistogram_def
  prometheusReportDatasourcePrestoreStoreDurationHistogram_def
  prometheusReportDatasourceRunningImportsGauge_def
  generateReportFailedCounter_def
  generateReportTotalCounter_def
  generateReportDurationHistogram_def
  hiveTablePartitionsGauge_def
  listsTotal_def
  listsDuration_def
  itemsPerList_def
  watchesTotal_def
  shortWatchesTotal_def
  watchDuration_def
  itemsPerWatch_def
  lastResourceVersion_def

lemma startup_fqNames:
  "map m_fqName startup_metrics =
     [''metering_prometheus_reportdatasource_metrics_scraped_total'',
      ''metering_prometheus_reportdatasource_metrics_imported_total'',
      ''metering_prometheus_reportdatasource_imports_total'',
      ''metering_prometheus_reportdatasource_failed_imports_total'',
      ''metering_prometheus_reportdatasource_prometheus_queries_total'',
      ''metering_prometheus_reportdatasource_failed_prometheus_queries_total'',
      ''metering_prometheus_reportdatasource_presto_stores_total'',
      ''metering_prometheus_reportdatasource_failed_presto_stores_total'',
      ''metering_prometheus_reportdatasource_import_duration_seconds'',
      ''metering_prometheus_reportdatasource_prometheus_query_duration_seconds'',
      ''metering_prometheus_reportdatasource_presto_store_duration_seconds'',
      ''metering_prometheus_reportdatasource_running_imports'',
      ''metering_generate_reports_failed_total'',
      ''metering_generate_reports_total'',
      ''metering_generate_report_duration_seconds'',
      ''metering_table_partitions'',
      ''reflector_lists_total'',
      ''reflector_list_duration_seconds'',
      ''reflector_items_per_list'',
      ''reflector_watches_total'',
      ''reflector_short_watches_total'',
      ''reflector_watch_duration_seconds'',
      ''reflector_items_per_watch'',
      ''reflector_last_resource_version'',
      ''reporting_operator_requests_total'',
      ''reporting_operator_request_duration_milliseconds'']"
  by (simp add: startup_metrics_def promsum_init_def reports_init_def hivetables_init_def reflector_init_def prometheusMiddleware_def
      NewMiddleware_def metric_defs new_metric_def BuildFQName_def prometheusMetricNamespace_def reflectorSubsystem_def replace_char_def)

lemma startup_names: "distinct (map m_fqName startup_metrics)"
  unfolding startup_fqNames by simp

lemma queue_fqNames:
  "map m_fqName all_queue_metrics =
     [''reports_depth'', ''reports_adds'', ''reports_queue_latency'', ''reports_work_duration'', ''reports_unfinished_work_seconds'', ''reports_longest_running_processor_microseconds'', ''reports_retries'',
      ''reportdatasources_depth'', ''reportdatasources_adds'', ''reportdatasources_queue_latency'', ''reportdatasources_work_duration'', ''reportdatasources_unfinished_work_seconds'', ''reportdatasources_longest_running_processor_microseconds'', ''reportdatasources_retries'',
      ''reportqueries_depth'', ''reportqueries_adds'', ''reportqueries_queue_latency'', ''reportqueries_work_duration'', ''reportqueries_unfinished_work_seconds'', ''reportqueries_longest_running_processor_microseconds'', ''reportqueries_retries'',
      ''prestotables_depth'', ''prestotables_adds'', ''prestotables_queue_latency'', ''prestotables_work_duration'', ''prestotables_unfinished_work_seconds'', ''prestotables_longest_running_processor_microseconds'', ''prestotables_retries'',
      ''hivetables_depth'', ''hivetables_adds'', ''hivetables_queue_latency'', ''hivetables_work_duration'', ''hivetables_unfinished_work_seconds'', ''hivetables_longest_running_processor_microseconds'', ''hivetables_retries'',
      ''storagelocation_depth'', ''storagelocation_adds'', ''storagelocation_queue_latency'', ''storagelocation_work_duration'', ''storagelocation_unfinished_work_seconds'', ''storagelocation_longest_running_processor_microseconds'', ''storagelocation_retries'']"
  by (simp add: all_queue_metrics_def queue_names_def queue_metrics_def wq_NewDepthMetric_def wq_NewAddsMetric_def wq_NewLatencyMetric_def
      wq_NewWorkDurationMetric_def wq_NewUnfinishedWorkSecondsMetric_def wq_NewLongestRunningProcessorMicrosecondsMetric_def
      wq_NewRetriesMetric_def new_metric_def BuildFQName_def)

lemma all_names: "distinct (map m_fqName (startup_metrics @ all_queue_metrics))"
  unfolding map_append startup_fqNames queue_fqNames by simp

lemma valid_names: "list_all IsValidMetricName (map m_fqName (startup_metrics @ all_queue_metrics))"
  unfolding map_append startup_fqNames queue_fqNames
  by (simp add: IsValidMetricName_def letter_def digit_def)

lemma desc_ok:
  "list_all (\<lambda>m. m_help m \<noteq> [] \<and> list_all checkLabelName (map fst (m_const m) @ m_labels m) \<and>
     distinct (map fst (m_const m) @ m_labels m)) (startup_metrics @ all_queue_metrics)"
  by (simp add: startup_metrics_def promsum_init_def reports_init_def hivetables_init_def reflector_init_def prometheusMiddleware_def
      NewMiddleware_def metric_defs new_metric_def prometheusReportDatasourceLabels_def reportPrometheusMetricLabels_def
      all_queue_metrics_def queue_names_def queue_metrics_def wq_NewDepthMetric_def wq_NewAddsMetric_def wq_NewLatencyMetric_def
      wq_NewWorkDurationMetric_def wq_NewUnfinishedWorkSecondsMetric_def wq_NewLongestRunningProcessorMicrosecondsMetric_def
      wq_NewRetriesMetric_def checkLabelName_def letter_def digit_def HasPrefix_def)

lemma no_desc_errors: "m \<in> set (startup_metrics @ all_queue_metrics) \<Longrightarrow> desc_error m = None"
  using valid_names desc_ok by (auto simp: desc_error_def list_all_iff)

definition taken :: "registry \<Rightarrow> string set" where
  "taken r = fst ` set (reg_ids r) \<union> fst ` set (reg_dims r)"

lemma Register_fresh:
  assumes "desc_error m = None" "m_fqName m \<notin> taken r"
  shows "\<exists>r'. Register r m = (None, r') \<and> taken r' = insert (m_fqName m) (taken r)"
proof -
  have "map_of (reg_dims r) (m_fqName m) = None" "(m_fqName m, m_const m) \<notin> set (reg_ids r)"
    using assms(2) by (force simp: taken_def map_of_eq_None_iff)+
  then show ?thesis using assms(1) by (auto simp: Register_def taken_def)
qed

lemma register_all_fresh:
  assumes "\<forall>m \<in> set ms. desc_error m = None" "distinct (map m_fqName ms)" "m_fqName ` set ms \<inter> taken r = {}"
  shows "\<exists>r'. fold MustRegister ms (Inr r) = Inr r' \<and> register_all r ms = (replicate (length ms) None, r') \<and>
    taken r' = taken r \<union> m_fqName ` set ms"
  using assms
proof (induction ms arbitrary: r)
  case (Cons m ms)
  obtain r1 where r1: "Register r m = (None, r1)" "taken r1 = insert (m_fqName m) (taken r)"
    using Register_fresh[of m r] Cons.prems by auto
  have "m_fqName ` set ms \<inter> taken r1 = {}" using Cons.prems r1(2) by auto
  then obtain r2 where "fold MustRegister ms (Inr r1) = Inr r2" "register_all r1 ms = (replicate (length ms) None, r2)"
    "taken r2 = taken r1 \<union> m_fqName ` set ms"
    using Cons.IH[of r1] Cons.prems by auto
  moreover have "MustRegister m (Inr r) = Inr r1" using r1(1) by (simp add: MustRegister_def)
  ultimately show ?case using r1 by (auto simp: Let_def)
qed simp

section \<open>Properties\<close>

text \<open>
  C25: Registering the metrics never fails. In whatever order the packages are initialised, none of the \<^verbatim>\<open>MustRegister\<close> calls panics, and
  afterwards the registration of the seven metrics of each of the six work queues, whose errors are ignored, succeeds: every
  metric of the operator is exported.
\<close>

theorem metrics_register:
  assumes "mset ms = mset startup_metrics"
  shows "\<exists>r. fold MustRegister ms (Inr empty_registry) = Inr r \<and>
    fst (register_all r all_queue_metrics) = replicate (7 * length queue_names) None"
proof -
  have ms: "set ms = set startup_metrics" using assms by (metis set_mset_mset)
  have d: "distinct (map m_fqName startup_metrics)" "distinct (map m_fqName all_queue_metrics)"
    "m_fqName ` set startup_metrics \<inter> m_fqName ` set all_queue_metrics = {}"
    using all_names by auto
  have "mset (map m_fqName ms) = mset (map m_fqName startup_metrics)" using assms by simp
  then have dm: "distinct (map m_fqName ms)" using d(1) by (metis mset_eq_imp_distinct_iff)
  have e: "\<forall>m \<in> set ms. desc_error m = None" "\<forall>m \<in> set all_queue_metrics. desc_error m = None"
    using no_desc_errors ms by simp_all
  have t: "taken empty_registry = {}" by (simp add: taken_def empty_registry_def)
  then have "m_fqName ` set ms \<inter> taken empty_registry = {}" by simp
  from register_all_fresh[OF e(1) dm this] obtain r
    where r: "fold MustRegister ms (Inr empty_registry) = Inr r" "taken r = m_fqName ` set startup_metrics"
    unfolding t ms by blast
  have "m_fqName ` set all_queue_metrics \<inter> taken r = {}" unfolding r(2) using d(3) by blast
  from register_all_fresh[OF e(2) d(2) this]
  have "fst (register_all r all_queue_metrics) = replicate (length all_queue_metrics) None" by (metis fst_conv)
  moreover have "length all_queue_metrics = 7 * length queue_names"
    by (simp add: all_queue_metrics_def queue_metrics_def queue_names_def)
  ultimately show ?thesis using r(1) by metis
qed

theorem metrics_register_witness:
  "\<exists>r. fold MustRegister (rev startup_metrics) (Inr empty_registry) = Inr r \<and>
     fst (register_all r all_queue_metrics) = replicate 42 None"
  using metrics_register[of "rev startup_metrics"] by (simp add: queue_names_def)

text \<open>
  Every series is asked for with the labels its metric declares: the collectors of an importer, the metrics of a report's generation,
  the partitions of a table, the reflectors and the middleware, which never panic.
\<close>

lemma series_labels:
  "\<forall>x \<in> set (newPromImporterMetricsCollectors ds t) \<union> set (report_series report t) \<union>
       {partition_series t, reflector_NewListsMetric n, reflector_NewListDurationMetric n, reflector_NewItemsInListMetric n,
        reflector_NewWatchesMetric n, reflector_NewShortWatchesMetric n, reflector_NewWatchDurationMetric n,
        reflector_NewItemsInWatchMetric n, reflector_NewLastResourceVersionMetric n} \<union>
       set (Middleware_handler prometheusMiddleware ww method path). \<exists>s. x = Inr s"
  by (simp add: newPromImporterMetricsCollectors_def report_series_def partition_series_def Middleware_handler_def With_def
      WithLabelValues_def Let_def metric_defs new_metric_def prometheusReportDatasourceLabels_def reportPrometheusMetricLabels_def
      reflector_NewListsMetric_def reflector_NewListDurationMetric_def reflector_NewItemsInListMetric_def reflector_NewWatchesMetric_def
      reflector_NewShortWatchesMetric_def reflector_NewWatchDurationMetric_def reflector_NewItemsInWatchMetric_def
      reflector_NewLastResourceVersionMetric_def prometheusMiddleware_def NewMiddleware_def)

text \<open>A request whose handler sends nothing is counted with code 0, although the server answers it with 200.\<close>

lemma middleware_code_zero:
  "Middleware_handler prometheusMiddleware new_response method path ! 0 =
     Inr (''reporting_operator_requests_total'', [(''code'', ''0''), (''method'', method), (''path'', path)])"
proof -
  have "show_int 0 = ''0''" by code_simp
  then show ?thesis
    by (simp add: Middleware_handler_def Let_def new_response_def WithLabelValues_def prometheusMiddleware_def NewMiddleware_def
        new_metric_def BuildFQName_def replace_char_def)
qed

end
