(* ===== verification/Adapters.thy ===== *)
theory Adapters
  imports Go_Strings API_Types
begin

text \<open>
  Thin adapters: the queryers and execers that log what they pass on (\<^verbatim>\<open>pkg/db/interface.go\<close>) and the profiling server
  (\<^verbatim>\<open>pkg/operator/pprof.go\<close>).
\<close>

section \<open>Logging queryers\<close>

text \<open>
  An argument of a statement: a string, bytes, a value that \<^verbatim>\<open>fmt\<close> prints, or a \<^verbatim>\<open>driver.Valuer\<close> with what its \<^verbatim>\<open>Value\<close> answers and
  how it prints itself.
\<close>

datatype sql_arg = StringArg string | BytesArg string | OtherArg string | ValuerArg "goerror + sql_arg" string

fun arg_text :: "(string \<Rightarrow> string) \<Rightarrow> sql_arg \<Rightarrow> string" where
  "arg_text quote (StringArg s) = quote s"
| "arg_text quote (BytesArg s) = quote s"
| "arg_text quote (OtherArg s) = s"
| "arg_text quote (ValuerArg (Inr (StringArg s)) p) = quote s"
| "arg_text quote (ValuerArg (Inr (BytesArg s)) p) = quote s"
| "arg_text quote (ValuerArg (Inr (OtherArg s)) p) = s"
| "arg_text quote (ValuerArg (Inr (ValuerArg v s)) p) = s"
| "arg_text quote (ValuerArg (Inl e) p) = p"

text \<open>The loop of \<^verbatim>\<open>argsString\<close> from the argument with index \<open>i\<close>, of \<open>n\<close> in all.\<close>

fun args_loop :: "(string \<Rightarrow> string) \<Rightarrow> nat \<Rightarrow> nat \<Rightarrow> sql_arg list \<Rightarrow> string \<Rightarrow> string" where
  "args_loop quote n i [] margs = margs"
| "args_loop quote n i (a # as) margs =
     (let margs = margs @ show_int (int (i + 1)) @ '':'' @ arg_text quote a;
          margs = (if i + 1 < n then margs @ '' '' else margs)
      in args_loop quote n (Suc i) as margs)"

definition argsString :: "(string \<Rightarrow> string) \<Rightarrow> sql_arg list \<Rightarrow> string" where
  "argsString quote args = args_loop quote (length args) 0 args []"

text \<open>The lines of the log and what the wrapped queryer answers. A queryer is a function of the statement and its arguments.\<close>

definition loggingQueryer_Query ::
  "(string \<Rightarrow> string) \<Rightarrow> bool \<Rightarrow> (string \<Rightarrow> sql_arg list \<Rightarrow> 'r) \<Rightarrow> string \<Rightarrow> sql_arg list \<Rightarrow> string list \<times> 'r" where
  "loggingQueryer_Query quote logQueries queryer query args =
     ((if logQueries then [''QUERY: '' @ query @ '' ['' @ argsString quote args @ '']''] else []), queryer query args)"

definition loggingExecer_Exec ::
  "(string \<Rightarrow> string) \<Rightarrow> bool \<Rightarrow> (string \<Rightarrow> sql_arg list \<Rightarrow> 'r) \<Rightarrow> string \<Rightarrow> sql_arg list \<Rightarrow> string list \<times> 'r" where
  "loggingExecer_Exec quote logQueries execer query args =
     ((if logQueries then [''EXEC: '' @ query @ '' ['' @ argsString quote args @ '']''] else []), execer query args)"

text \<open>The arguments are printed with their numbers, separated by blanks and without one at the end.\<close>

fun numbered :: "(string \<Rightarrow> string) \<Rightarrow> nat \<Rightarrow> sql_arg list \<Rightarrow> string list" where
  "numbered quote i [] = []"
| "numbered quote i (a # as) = (show_int (int (i + 1)) @ '':'' @ arg_text quote a) # numbered quote (Suc i) as"

lemma args_loop_join:
  "i + length as = n \<Longrightarrow> args_loop quote n i as margs = margs @ join '' '' (numbered quote i as)"
proof (induction as arbitrary: i margs)
  case (Cons a as)
  define m where "m = margs @ show_int (int (i + 1)) @ '':'' @ arg_text quote a"
  have "args_loop quote n i (a # as) margs = args_loop quote n (Suc i) as (if i + 1 < n then m @ '' '' else m)"
    by (simp add: m_def Let_def)
  also have "\<dots> = (if i + 1 < n then m @ '' '' else m) @ join '' '' (numbered quote (Suc i) as)"
    using Cons.prems by (intro Cons.IH) simp
  finally show ?case using Cons.prems by (cases as) (simp_all add: m_def)
qed simp

lemma argsString_join: "argsString quote args = join '' '' (numbered quote 0 args)"
  by (simp add: argsString_def args_loop_join)

section \<open>The profiling server\<close>

datatype pprof_handler = PprofIndex | PprofCmdline | PprofProfile | PprofSymbol | PprofTrace

definition pprofMux :: "(string \<times> pprof_handler) list" where
  "pprofMux =
     [(''/debug/pprof/'', PprofIndex), (''/debug/pprof/cmdline'', PprofCmdline), (''/debug/pprof/profile'', PprofProfile),
      (''/debug/pprof/symbol'', PprofSymbol), (''/debug/pprof/trace'', PprofTrace)]"

record http_server = srv_Addr :: string  srv_Handler :: "(string \<times> pprof_handler) list"

definition newPprofServer :: "string \<Rightarrow> http_server" where
  "newPprofServer addr = \<lparr>srv_Addr = addr, srv_Handler = pprofMux\<rparr>"

text \<open>\<^verbatim>\<open>ServeMux\<close>: a pattern matches its own path, one that ends in a slash every path below it, and the longest match wins.\<close>

definition pattern_matches :: "string \<Rightarrow> string \<Rightarrow> bool" where
  "pattern_matches pat path \<longleftrightarrow> (if last pat = CHR ''/'' then HasPrefix path pat else path = pat)"

definition mux_handler :: "(string \<times> 'h) list \<Rightarrow> string \<Rightarrow> 'h option" where
  "mux_handler mux path =
     (case map_of mux path of
        Some h \<Rightarrow> Some h
      | None \<Rightarrow>
          map_option snd (fold (\<lambda>e best. case best of
              None \<Rightarrow> if pattern_matches (fst e) path then Some e else None
            | Some b \<Rightarrow> if pattern_matches (fst e) path \<and> length (fst e) > length (fst b) then Some e else best) mux None))"

lemma pprof_routes:
  "mux_handler (srv_Handler (newPprofServer addr)) ''/debug/pprof/profile'' = Some PprofProfile"
  "mux_handler (srv_Handler (newPprofServer addr)) ''/debug/pprof/heap'' = Some PprofIndex"
  "mux_handler (srv_Handler (newPprofServer addr)) ''/metrics'' = None"
  unfolding newPprofServer_def pprofMux_def by code_simp+

end
